(* ===== verification/Prelude.thy ===== *)
theory Prelude
  imports Main "HOL-Library.Char_ord" "HOL-Library.List_Lexorder"
begin

text \<open>
  Shared base of the development: the machine integers of the code as bounded naturals with
  the checked and saturating operations written out, decimal rendering (the
  \<open>format!\<close> of unsigned integers), and Rust's \<open>BTreeMap\<close> as an association list
  kept in key order, with the interface its clients rely on stated as a locale.
\<close>

section \<open>Machine integers\<close>

text \<open>
  A \<open>u64\<close> (\<open>u128\<close>, \<open>usize\<close>) of the code is a natural number; every operation of the
  code that can leave the range is one of the operations below, which say what the code
  does there. An \<open>i64\<close> timestamp is an \<open>int\<close>: the code only compares and stores it.
\<close>

type_synonym u64 = nat
type_synonym u128 = nat
type_synonym i64 = int

definition u64_max :: nat where
  "u64_max = 18446744073709551615"

definition u128_max :: nat where
  "u128_max = 340282366920938463463374607431768211455"

definition checked_add_u64 :: "u64 \<Rightarrow> u64 \<Rightarrow> u64 option" where
  "checked_add_u64 a b = (if a + b \<le> u64_max then Some (a + b) else None)"

definition checked_sub_u64 :: "u64 \<Rightarrow> u64 \<Rightarrow> u64 option" where
  "checked_sub_u64 a b = (if b \<le> a then Some (a - b) else None)"

definition sat_add_u64 :: "u64 \<Rightarrow> u64 \<Rightarrow> u64" where
  "sat_add_u64 a b = min (a + b) u64_max"

definition sat_sub_u64 :: "u64 \<Rightarrow> u64 \<Rightarrow> u64" where
  "sat_sub_u64 a b = (if b \<le> a then a - b else 0)"

definition sat_add_u128 :: "u128 \<Rightarrow> u128 \<Rightarrow> u128" where
  "sat_add_u128 a b = min (a + b) u128_max"

text \<open>The \<open>as u64\<close> cast of a wider unsigned value keeps the low 64 bits.\<close>

definition cast_u64 :: "nat \<Rightarrow> u64" where
  "cast_u64 n = n mod (u64_max + 1)"

named_theorems int_ops \<open>definitions of the machine-integer operations\<close>

lemmas [int_ops] =
  checked_add_u64_def checked_sub_u64_def sat_add_u64_def sat_sub_u64_def
  sat_add_u128_def cast_u64_def

lemma checked_add_u64_Some:
  "checked_add_u64 a b = Some c \<longleftrightarrow> c = a + b \<and> a + b \<le> u64_max"
  by (auto simp: checked_add_u64_def)

lemma checked_sub_u64_Some:
  "checked_sub_u64 a b = Some c \<longleftrightarrow> b \<le> a \<and> c = a - b"
  by (auto simp: checked_sub_u64_def)

lemma checked_sub_u64_None:
  "checked_sub_u64 a b = None \<longleftrightarrow> a < b"
  by (auto simp: checked_sub_u64_def)

lemma sat_add_u64_ge: "a \<le> u64_max \<Longrightarrow> a \<le> sat_add_u64 a b"
  by (simp add: sat_add_u64_def)

lemma sat_add_u64_le: "sat_add_u64 a b \<le> u64_max"
  by (simp add: sat_add_u64_def)

text \<open>The product of two \<open>u64\<close> values never leaves \<open>u128\<close>.\<close>

lemma u64_product_fits:
  assumes "a \<le> u64_max" and "b \<le> u64_max"
  shows "a * b \<le> u128_max"
proof -
  have "a * b \<le> u64_max * u64_max" using assms by (rule mult_le_mono)
  also have "\<dots> \<le> u128_max" by (simp add: u64_max_def u128_max_def)
  finally show ?thesis .
qed


section \<open>Decimal rendering\<close>

definition digit_char :: "nat \<Rightarrow> char" where
  "digit_char d = char_of (48 + d)"

fun show_nat :: "nat \<Rightarrow> string" where
  "show_nat n =
     (if n < 10 then [digit_char n] else show_nat (n div 10) @ [digit_char (n mod 10)])"

declare show_nat.simps [simp del]

fun show_bool :: "bool \<Rightarrow> string" where
  "show_bool True = ''true''"
| "show_bool False = ''false''"


section \<open>Ordered maps\<close>

text \<open>
  \<open>BTreeMap<K, V>\<close>: an association list in strictly ascending key order. Iteration is the
  list itself, which is the order the code iterates in.
\<close>

type_synonym ('k, 'v) btree = "('k \<times> 'v) list"

fun bt_get :: "('k, 'v) btree \<Rightarrow> 'k \<Rightarrow> 'v option" where
  "bt_get [] k = None"
| "bt_get ((a, b) # m) k = (if a = k then Some b else bt_get m k)"

fun bt_insert :: "'k::linorder \<Rightarrow> 'v \<Rightarrow> ('k, 'v) btree \<Rightarrow> ('k, 'v) btree" where
  "bt_insert k v [] = [(k, v)]"
| "bt_insert k v ((a, b) # m) =
     (if k < a then (k, v) # (a, b) # m
      else if k = a then (k, v) # m
      else (a, b) # bt_insert k v m)"

definition bt_ok :: "('k::linorder, 'v) btree \<Rightarrow> bool" where
  "bt_ok m = sorted_wrt (<) (map fst m)"

definition bt_sum :: "('v \<Rightarrow> nat) \<Rightarrow> ('k, 'v) btree \<Rightarrow> nat" where
  "bt_sum f m = sum_list (map (\<lambda>(_, v). f v) m)"

text \<open>
  What the clients of an ordered map rely on: lookup after insertion, the order kept, and
  how an aggregate over the values moves when a key is added or its value replaced.
\<close>

locale ordered_map =
  fixes get :: "'m \<Rightarrow> 'k \<Rightarrow> 'v option"
    and ins :: "'k \<Rightarrow> 'v \<Rightarrow> 'm \<Rightarrow> 'm"
    and ok :: "'m \<Rightarrow> bool"
    and total :: "('v \<Rightarrow> nat) \<Rightarrow> 'm \<Rightarrow> nat"
  assumes get_ins: "get (ins k v m) k' = (if k = k' then Some v else get m k')"
    and ok_ins: "ok m \<Longrightarrow> ok (ins k v m)"
    and total_new: "ok m \<Longrightarrow> get m k = None \<Longrightarrow> total f (ins k v m) = total f m + f v"
    and total_replace: "ok m \<Longrightarrow> get m k = Some w \<Longrightarrow>
      total f (ins k v m) + f w = total f m + f v"
begin

lemma total_replace_same:
  "ok m \<Longrightarrow> get m k = Some w \<Longrightarrow> f w = f v \<Longrightarrow> total f (ins k v m) = total f m"
  using total_replace [of m k w f v] by simp

lemma get_ins_same: "get (ins k v m) k = Some v"
  by (simp add: get_ins)

lemma dom_ins: "dom (get (ins k v m)) = insert k (dom (get m))"
  by (auto simp: get_ins dom_def)

end

lemma bt_get_insert: "bt_get (bt_insert k v m) k' = (if k = k' then Some v else bt_get m k')"
  by (induction m) auto

lemma set_bt_insert: "set (bt_insert k v m) \<subseteq> insert (k, v) (set m)"
  by (induction m) (auto split: if_splits)

lemma fst_set_bt_insert: "fst ` set (bt_insert k v m) = insert k (fst ` set m)"
  by (induction k v m rule: bt_insert.induct) (simp_all add: insert_commute)

lemma bt_ok_Nil [simp]: "bt_ok []"
  by (simp add: bt_ok_def)

lemma bt_ok_Cons: "bt_ok ((a, b) # m) \<longleftrightarrow> (\<forall>x \<in> fst ` set m. a < x) \<and> bt_ok m"
  by (simp add: bt_ok_def)

lemma bt_ok_insert: "bt_ok m \<Longrightarrow> bt_ok (bt_insert k v m)"
proof (induction m)
  case (Cons p m)
  then show ?case
    by (cases p) (auto simp: bt_ok_Cons fst_set_bt_insert dest: order.strict_trans)
qed (simp add: bt_ok_def)

lemma bt_get_None: "bt_get m k = None \<longleftrightarrow> k \<notin> fst ` set m"
  by (induction m k rule: bt_get.induct) simp_all

lemma bt_get_Some_in: "bt_get m k = Some v \<Longrightarrow> (k, v) \<in> set m"
  by (induction m) (auto split: if_splits)

lemma bt_get_in:
  "bt_ok m \<Longrightarrow> (k, v) \<in> set m \<Longrightarrow> bt_get m k = Some v"
  by (induction m) (auto simp: bt_ok_Cons, force)

lemma bt_sum_Nil [simp]: "bt_sum f [] = 0"
  by (simp add: bt_sum_def)

lemma bt_sum_Cons [simp]: "bt_sum f ((k, v) # m) = f v + bt_sum f m"
  by (simp add: bt_sum_def)

lemma bt_sum_insert_new: "bt_get m k = None \<Longrightarrow> bt_sum f (bt_insert k v m) = bt_sum f m + f v"
  by (induction m) (simp_all split: if_splits prod.splits, auto)

lemma bt_sum_insert_replace:
  "bt_ok m \<Longrightarrow> bt_get m k = Some w \<Longrightarrow> bt_sum f (bt_insert k v m) + f w = bt_sum f m + f v"
proof (induction m)
  case (Cons p m)
  obtain a b where p: "p = (a, b)" by (cases p)
  show ?case
  proof (cases "a = k")
    case True
    with Cons.prems p show ?thesis by simp
  next
    case False
    with Cons.prems p have g: "bt_get m k = Some w" and ok: "bt_ok m"
      by (auto simp: bt_ok_Cons)
    from g have "k \<in> fst ` set m" using bt_get_Some_in by force
    with Cons.prems p have "a < k" by (auto simp: bt_ok_Cons)
    then have "\<not> k < a" by auto
    with Cons.IH [OF ok g] p False show ?thesis by simp
  qed
qed simp

interpretation btree: ordered_map bt_get bt_insert bt_ok bt_sum
  by unfold_locales
    (auto simp: bt_get_insert bt_ok_insert bt_sum_insert_new bt_sum_insert_replace)

end
