(* ===== verification/Parity_Values.thy ===== *)
theory Parity_Values
  imports Prelude Complex_Main
begin

text \<open>
  The values the parity layer (\<open>order.rs\<close>, \<open>compound_order.rs\<close>, \<open>broker.rs\<close>,
  \<open>models.rs\<close>, \<open>utils.rs\<close>) computes with: \<open>i64\<close> arithmetic as the release build
  performs it, instants and whole seconds, letter case of the strings the code compares,
  dynamic \<open>serde_json\<close> values with the conversions the code calls as a parameter, and
  panics as values.

  A \<open>HashMap\<close> the code only looks up or fills is a map; one the code iterates over is an
  association list in the order of the iteration, which Rust leaves open.
\<close>

section \<open>Panics\<close>

datatype 'a attempt = Panicked | Returned 'a

fun and_then :: "'a attempt \<Rightarrow> ('a \<Rightarrow> 'b attempt) \<Rightarrow> 'b attempt" where
  "and_then Panicked f = Panicked"
| "and_then (Returned a) f = f a"

text \<open>A loop whose body may panic.\<close>

primrec fold_attempt :: "('a \<Rightarrow> 's \<Rightarrow> 's attempt) \<Rightarrow> 'a list \<Rightarrow> 's \<Rightarrow> 's attempt" where
  "fold_attempt f [] s = Returned s"
| "fold_attempt f (x # xs) s = and_then (f x s) (fold_attempt f xs)"

lemma fold_attempt_filter:
  "fold_attempt (\<lambda>x s. if P x then f x s else Returned s) xs = fold_attempt f (filter P xs)"
proof (induction xs)
  case (Cons x xs)
  then show ?case by (intro ext) simp
qed (simp add: fun_eq_iff)

lemma and_then_returned [simp]:
  "and_then x f = Returned b \<longleftrightarrow> (\<exists>a. x = Returned a \<and> f a = Returned b)"
  by (cases x) simp_all

lemma not_panicked: "x \<noteq> Panicked \<longleftrightarrow> (\<exists>a. x = Returned a)"
  by (cases x) simp_all


section \<open>Signed 64-bit arithmetic\<close>

text \<open>The release build wraps; \<open>Cargo.toml\<close> sets no \<open>overflow-checks\<close>.\<close>

definition wrap_i64 :: "int \<Rightarrow> int" where
  "wrap_i64 x = (x + 2 ^ 63) mod 2 ^ 64 - 2 ^ 63"

definition is_i64 :: "int \<Rightarrow> bool" where
  "is_i64 x \<longleftrightarrow> - (2 ^ 63) \<le> x \<and> x < 2 ^ 63"

definition i64_add :: "i64 \<Rightarrow> i64 \<Rightarrow> i64" where
  "i64_add a b = wrap_i64 (a + b)"

definition i64_sub :: "i64 \<Rightarrow> i64 \<Rightarrow> i64" where
  "i64_sub a b = wrap_i64 (a - b)"

definition i64_mul :: "i64 \<Rightarrow> i64 \<Rightarrow> i64" where
  "i64_mul a b = wrap_i64 (a * b)"

definition i64_abs :: "i64 \<Rightarrow> i64" where
  "i64_abs a = wrap_i64 \<bar>a\<bar>"

lemma wrap_i64_id [simp]: "is_i64 x \<Longrightarrow> wrap_i64 x = x"
  by (simp add: wrap_i64_def is_i64_def)

lemma is_i64_wrap [simp]: "is_i64 (wrap_i64 x)"
proof -
  have "0 \<le> (x + 2 ^ 63) mod 2 ^ 64" "(x + 2 ^ 63) mod 2 ^ 64 < (2 ^ 64 :: int)" by simp_all
  then show ?thesis unfolding wrap_i64_def is_i64_def by simp
qed

lemma wrap_i64_add_left: "wrap_i64 (wrap_i64 a + b) = wrap_i64 (a + b)"
proof -
  have "((a + 2 ^ 63) mod 2 ^ 64 - 2 ^ 63 + b + 2 ^ 63) mod (2 ^ 64 :: int)
      = ((a + 2 ^ 63) mod 2 ^ 64 + b) mod 2 ^ 64" by (simp add: algebra_simps)
  also have "\<dots> = (a + 2 ^ 63 + b) mod 2 ^ 64" by (rule mod_add_left_eq)
  also have "\<dots> = (a + b + 2 ^ 63) mod 2 ^ 64" by (simp add: algebra_simps)
  finally show ?thesis by (simp add: wrap_i64_def)
qed

lemma wrap_i64_add_right: "wrap_i64 (a + wrap_i64 b) = wrap_i64 (a + b)"
  using wrap_i64_add_left [of b a] by (simp add: add.commute)

lemma i64_add_assoc: "i64_add (i64_add a b) c = i64_add a (i64_add b c)"
  by (simp add: i64_add_def wrap_i64_add_left wrap_i64_add_right add.assoc)

lemma i64_add_0 [simp]: "is_i64 a \<Longrightarrow> i64_add 0 a = a" "is_i64 a \<Longrightarrow> i64_add a 0 = a"
  by (simp_all add: i64_add_def)


section \<open>Instants\<close>

text \<open>
  A \<open>DateTime<Utc>\<close> is its instant in nanoseconds since the epoch, a \<open>chrono::Duration\<close> a
  difference of instants. \<open>num_seconds\<close> truncates towards zero. A day has 86400 seconds, as in
  \<open>chrono\<close>.
\<close>

type_synonym instant = int

definition ns_per_sec :: int where
  "ns_per_sec = 1000000000"

definition num_seconds :: "int \<Rightarrow> int" where
  "num_seconds d = (if 0 \<le> d then d div ns_per_sec else - (- d div ns_per_sec))"

definition day_start :: "instant \<Rightarrow> instant" where
  "day_start t = t div (86400 * ns_per_sec) * (86400 * ns_per_sec)"

lemma day_start_bounds: "day_start t \<le> t" "t < day_start t + 86400 * ns_per_sec"
proof -
  have "t div (86400 * ns_per_sec) * (86400 * ns_per_sec) + t mod (86400 * ns_per_sec) = t"
    by (rule div_mult_mod_eq)
  moreover have "0 \<le> t mod (86400 * ns_per_sec)" "t mod (86400 * ns_per_sec) < 86400 * ns_per_sec"
    by (simp_all add: ns_per_sec_def)
  ultimately show "day_start t \<le> t" "t < day_start t + 86400 * ns_per_sec"
    unfolding day_start_def by linarith+
qed


section \<open>Letter case\<close>

text \<open>
  The strings the code changes the case of are sides, order types, statuses and symbols; they
  are ASCII here, where \<open>to_uppercase\<close> and \<open>to_ascii_uppercase\<close> agree.
\<close>

definition ascii_upper :: "char \<Rightarrow> char" where
  "ascii_upper c = (if CHR ''a'' \<le> c \<and> c \<le> CHR ''z'' then char_of (of_char c - 32 :: nat) else c)"

definition ascii_lower :: "char \<Rightarrow> char" where
  "ascii_lower c = (if CHR ''A'' \<le> c \<and> c \<le> CHR ''Z'' then char_of (of_char c + 32 :: nat) else c)"

definition to_uppercase :: "string \<Rightarrow> string" where
  "to_uppercase s = map ascii_upper s"

definition to_lowercase :: "string \<Rightarrow> string" where
  "to_lowercase s = map ascii_lower s"

definition eq_ignore_case :: "string \<Rightarrow> string \<Rightarrow> bool" where
  "eq_ignore_case s t \<longleftrightarrow> to_lowercase s = to_lowercase t"


section \<open>Dynamic values\<close>

text \<open>
  \<open>serde_json::Value\<close> by the constructors the code matches on. The representation of a number
  is \<open>serde_json\<close>'s own ('n); the code reaches it through \<open>as_i64\<close>, \<open>as_f64\<close> ('f) and
  the \<open>json!\<close> of an integer or a float. \<open>Decimal\<close> ('d) is \<open>rust_decimal\<close>'s. Their conversions,
  and \<open>chrono\<close>'s reading and printing of RFC 3339 instants, are the record below, an argument
  of every definition that converts.
\<close>

datatype 'n json =
    JNull
  | JBool bool
  | JNumber 'n
  | JString string
  | JArray "'n json list"
  | JObject "(string \<times> 'n json) list"

type_synonym 'n args = "string \<rightharpoonup> 'n json"
type_synonym 'n kwargs = "(string \<times> 'n json) list"

record ('n, 'f, 'd) codec =
  number_i64 :: "'n \<Rightarrow> i64 option"
  number_f64 :: "'n \<Rightarrow> 'f option"
  i64_number :: "i64 \<Rightarrow> 'n"
  f64_number :: "'f \<Rightarrow> 'n"
  decimal_of_f64 :: "'f \<Rightarrow> 'd option"
  decimal_to_f64 :: "'d \<Rightarrow> 'f"
  decimal_of_i64 :: "i64 \<Rightarrow> 'd"
  decimal_rat :: "'d \<Rightarrow> rat"
  decimal_neg :: "'d \<Rightarrow> 'd"
  decimal_add :: "'d \<Rightarrow> 'd \<Rightarrow> 'd attempt"
  decimal_sub :: "'d \<Rightarrow> 'd \<Rightarrow> 'd attempt"
  decimal_mul :: "'d \<Rightarrow> 'd \<Rightarrow> 'd attempt"
  decimal_div :: "'d \<Rightarrow> 'd \<Rightarrow> 'd attempt"
  decimal_show :: "'d \<Rightarrow> string"
  decimal_parse :: "string \<Rightarrow> 'd option"
  rfc3339_show :: "instant \<Rightarrow> string"
  rfc3339_parse :: "string \<Rightarrow> instant option"
  f64_to_i64 :: "'f \<Rightarrow> i64"
  json_text_map :: "string \<Rightarrow> 'n kwargs option"

text \<open>
  \<open>Decimal\<close> of the crate \<^verbatim>\<open>rust_decimal\<close> is a number \<open>m / 10\<^sup>s\<close> of a 96-bit \<open>m\<close> and a scale \<open>s\<close> of
  at most 28. Its arithmetic is the codec's: results are rounded to what fits, and an overflow and
  a division by zero panic. Comparisons see the number (\<open>decimal_rat\<close>); a sign change is exact. What
  is used of its documentation is \<open>exact_decimals\<close>: an addition, subtraction or multiplication
  whose exact result fits returns it.
\<close>

definition representable :: "rat \<Rightarrow> bool" where
  "representable x \<longleftrightarrow> (\<exists>m :: int. \<exists>s \<le> 28. \<bar>m\<bar> < 2 ^ 96 \<and> x * 10 ^ s = of_int m)"

definition exact_op :: "('d \<Rightarrow> rat) \<Rightarrow> (rat \<Rightarrow> rat \<Rightarrow> rat) \<Rightarrow> ('d \<Rightarrow> 'd \<Rightarrow> 'd attempt) \<Rightarrow> bool" where
  "exact_op val f op \<longleftrightarrow>
     (\<forall>a b. representable (f (val a) (val b)) \<longrightarrow>
        (\<exists>d. op a b = Returned d \<and> val d = f (val a) (val b)))"

definition exact_decimals :: "('n, 'f, 'd::zero) codec \<Rightarrow> bool" where
  "exact_decimals c \<longleftrightarrow>
     decimal_rat c 0 = 0
     \<and> (\<forall>i. is_i64 i \<longrightarrow> decimal_rat c (decimal_of_i64 c i) = of_int i)
     \<and> exact_op (decimal_rat c) (+) (decimal_add c)
     \<and> exact_op (decimal_rat c) (-) (decimal_sub c)
     \<and> exact_op (decimal_rat c) (*) (decimal_mul c)"

text \<open>\<open>Ord\<close> and \<open>abs\<close>; \<open>max\<close> takes the second of two equal values. \<open>Sum\<close> adds from zero.\<close>

definition decimal_less :: "('n, 'f, 'd) codec \<Rightarrow> 'd \<Rightarrow> 'd \<Rightarrow> bool" where
  "decimal_less c a b \<longleftrightarrow> decimal_rat c a < decimal_rat c b"

definition decimal_abs :: "('n, 'f, 'd::zero) codec \<Rightarrow> 'd \<Rightarrow> 'd" where
  "decimal_abs c a = (if decimal_less c a 0 then decimal_neg c a else a)"

definition decimal_max :: "('n, 'f, 'd) codec \<Rightarrow> 'd \<Rightarrow> 'd \<Rightarrow> 'd" where
  "decimal_max c a b = (if decimal_less c b a then a else b)"

definition decimal_sum :: "('n, 'f, 'd::zero) codec \<Rightarrow> 'd list \<Rightarrow> 'd attempt" where
  "decimal_sum c ds = fold_attempt (\<lambda>d s. decimal_add c s d) ds 0"

fun as_str :: "'n json \<Rightarrow> string option" where
  "as_str (JString s) = Some s"
| "as_str _ = None"

fun as_i64 :: "('n, 'f, 'd) codec \<Rightarrow> 'n json \<Rightarrow> i64 option" where
  "as_i64 c (JNumber n) = number_i64 c n"
| "as_i64 c _ = None"

fun as_f64 :: "('n, 'f, 'd) codec \<Rightarrow> 'n json \<Rightarrow> 'f option" where
  "as_f64 c (JNumber n) = number_f64 c n"
| "as_f64 c _ = None"

definition json_i64 :: "('n, 'f, 'd) codec \<Rightarrow> i64 \<Rightarrow> 'n json" where
  "json_i64 c i = JNumber (i64_number c i)"

text \<open>\<open>json!\<close> of an \<open>Option\<close>.\<close>

definition json_opt :: "('a \<Rightarrow> 'n json) \<Rightarrow> 'a option \<Rightarrow> 'n json" where
  "json_opt f x = (case x of None \<Rightarrow> JNull | Some a \<Rightarrow> f a)"

text \<open>
  Inserting the entries of a map the code iterates over, one by one: a key occurring in the
  list takes the last value.
\<close>

definition extend_map :: "('a \<rightharpoonup> 'b) \<Rightarrow> ('a \<times> 'b) list \<Rightarrow> ('a \<rightharpoonup> 'b)" where
  "extend_map m xs = foldl (\<lambda>m (k, v). m(k \<mapsto> v)) m xs"

lemma extend_map_Nil [simp]: "extend_map m [] = m"
  by (simp add: extend_map_def)

lemma extend_map_Cons [simp]: "extend_map m ((k, v) # xs) = extend_map (m(k \<mapsto> v)) xs"
  by (simp add: extend_map_def)

lemma extend_map_append: "extend_map m (xs @ ys) = extend_map (extend_map m xs) ys"
  by (simp add: extend_map_def)

lemma extend_map_other: "k \<notin> fst ` set xs \<Longrightarrow> extend_map m xs k = m k"
  by (induction xs arbitrary: m) auto

lemma extend_map_map_of:
  "distinct (map fst xs) \<Longrightarrow> extend_map m xs = m ++ map_of xs"
proof (induction xs arbitrary: m)
  case (Cons a xs)
  obtain k v where "a = (k, v)" by (cases a)
  moreover have "map_of xs k = None"
    using Cons.prems \<open>a = (k, v)\<close> by (simp add: map_of_eq_None_iff)
  ultimately show ?case
    using Cons by (auto simp: map_add_def fun_eq_iff split: option.splits)
qed simp

end
