(* ===== verification/Parity_Models.thy ===== *)
theory Parity_Models
  imports Parity_Values
begin

text \<open>
  \<open>models.rs\<close>, \<open>utils.rs\<close> and \<open>yes_inventory.rs\<close>: the time lock of an order, quotes and
  the order book, positions and the quantity split of a virtual order, and the inventory of a
  YES market. Arithmetic on a \<open>Decimal\<close> is the codec's and may panic.
\<close>

section \<open>Order lock\<close>

text \<open>
  Lock durations are finite \<open>f64\<close> seconds. The clock of a lock is the handle of an
  \<open>Arc<dyn Clock>\<close>; an operation takes the instant it reads from it. \<open>Duration::seconds\<close>
  panics beyond \<open>i64::MAX\<close> milliseconds.
\<close>

type_synonym clock_ref = nat

record order_lock =
  max_order_creation_lock_time :: rat
  max_order_modification_lock_time :: rat
  max_order_cancellation_lock_time :: rat
  lock_timezone :: "string option"
  creation_lock_till :: instant
  modification_lock_till :: instant
  cancellation_lock_till :: instant
  lock_clock :: clock_ref

definition lock_with_clock :: "instant \<Rightarrow> clock_ref \<Rightarrow> order_lock" where
  "lock_with_clock now clock =
     \<lparr> max_order_creation_lock_time = 60, max_order_modification_lock_time = 60,
       max_order_cancellation_lock_time = 60, lock_timezone = None,
       creation_lock_till = now, modification_lock_till = now, cancellation_lock_till = now,
       lock_clock = clock \<rparr>"

definition unlocked_with_clock :: "clock_ref \<Rightarrow> order_lock" where
  "unlocked_with_clock clock =
     \<lparr> max_order_creation_lock_time = 60, max_order_modification_lock_time = 60,
       max_order_cancellation_lock_time = 60, lock_timezone = None,
       creation_lock_till = 0, modification_lock_till = 0, cancellation_lock_till = 0,
       lock_clock = clock \<rparr>"

definition with_timezone :: "order_lock \<Rightarrow> string \<Rightarrow> order_lock" where
  "with_timezone l tz = l\<lparr>lock_timezone := Some tz\<rparr>"

definition truncate_rat :: "rat \<Rightarrow> int" where
  "truncate_rat x = (if 0 \<le> x then \<lfloor>x\<rfloor> else \<lceil>x\<rceil>)"

definition secs_delta :: "rat \<Rightarrow> rat \<Rightarrow> int attempt" where
  "secs_delta seconds cap =
     (let s = truncate_rat (min seconds cap) in
      if \<bar>s\<bar> \<le> (2 ^ 63 - 1) div 1000 then Returned (s * ns_per_sec) else Panicked)"

definition lock_create :: "instant \<Rightarrow> rat \<Rightarrow> order_lock \<Rightarrow> (order_lock \<times> instant) attempt" where
  "lock_create now seconds l =
     and_then (secs_delta seconds (max_order_creation_lock_time l))
       (\<lambda>d. Returned (l\<lparr>creation_lock_till := now + d\<rparr>, now + d))"

definition lock_modify :: "instant \<Rightarrow> rat \<Rightarrow> order_lock \<Rightarrow> (order_lock \<times> instant) attempt" where
  "lock_modify now seconds l =
     and_then (secs_delta seconds (max_order_modification_lock_time l))
       (\<lambda>d. Returned (l\<lparr>modification_lock_till := now + d\<rparr>, now + d))"

definition lock_cancel :: "instant \<Rightarrow> rat \<Rightarrow> order_lock \<Rightarrow> (order_lock \<times> instant) attempt" where
  "lock_cancel now seconds l =
     and_then (secs_delta seconds (max_order_cancellation_lock_time l))
       (\<lambda>d. Returned (l\<lparr>cancellation_lock_till := now + d\<rparr>, now + d))"

definition can_create :: "instant \<Rightarrow> order_lock \<Rightarrow> bool" where
  "can_create now l \<longleftrightarrow> creation_lock_till l < now"

definition can_modify :: "instant \<Rightarrow> order_lock \<Rightarrow> bool" where
  "can_modify now l \<longleftrightarrow> modification_lock_till l < now"

definition can_cancel :: "instant \<Rightarrow> order_lock \<Rightarrow> bool" where
  "can_cancel now l \<longleftrightarrow> cancellation_lock_till l < now"

text \<open>A lock never holds longer than its cap, whatever duration is asked for.\<close>

lemma truncate_rat_le: "0 \<le> c \<Longrightarrow> x \<le> of_int c \<Longrightarrow> truncate_rat x \<le> c"
  by (simp add: truncate_rat_def floor_le_iff ceiling_le_iff)

lemma secs_delta_cap:
  assumes "secs_delta seconds (of_int cap) = Returned d" and "0 \<le> cap"
  shows "d \<le> cap * ns_per_sec"
proof -
  have "truncate_rat (min seconds (of_int cap)) \<le> cap"
    using assms(2) by (rule truncate_rat_le) simp
  then show ?thesis
    using assms(1) by (auto simp: secs_delta_def Let_def ns_per_sec_def split: if_splits)
qed


section \<open>Quotes and the order book\<close>

record quantity_match =
  match_buy :: i64
  match_sell :: i64

definition match_is_equal :: "quantity_match \<Rightarrow> bool" where
  "match_is_equal m \<longleftrightarrow> match_buy m = match_sell m"

definition not_matched :: "quantity_match \<Rightarrow> i64" where
  "not_matched m = i64_sub (match_buy m) (match_sell m)"

record 'd quote =
  quote_price :: 'd
  quote_quantity :: i64
  orders_count :: "i64 option"

definition quote_value :: "('n, 'f, 'd) codec \<Rightarrow> 'd quote \<Rightarrow> 'd attempt" where
  "quote_value c q = decimal_mul c (quote_price q) (decimal_of_i64 c (quote_quantity q))"

record 'd order_book =
  book_bid :: "'d quote list"
  book_ask :: "'d quote list"

definition is_bid_ask :: "'d order_book \<Rightarrow> bool" where
  "is_bid_ask b \<longleftrightarrow> book_bid b \<noteq> [] \<and> book_ask b \<noteq> []"

definition spread :: "('n, 'f, 'd::zero) codec \<Rightarrow> 'd order_book \<Rightarrow> 'd attempt" where
  "spread c b =
     (if is_bid_ask b
      then decimal_sub c (quote_price (hd (book_ask b))) (quote_price (hd (book_bid b)))
      else Returned 0)"

definition i64_sum :: "i64 list \<Rightarrow> i64" where
  "i64_sum xs = foldl i64_add 0 xs"

definition total_bid_quantity :: "'d order_book \<Rightarrow> i64" where
  "total_bid_quantity b = (if is_bid_ask b then i64_sum (map quote_quantity (book_bid b)) else 0)"

definition total_ask_quantity :: "'d order_book \<Rightarrow> i64" where
  "total_ask_quantity b = (if is_bid_ask b then i64_sum (map quote_quantity (book_ask b)) else 0)"

lemma i64_fold_wrap: "is_i64 a \<Longrightarrow> foldl i64_add a xs = wrap_i64 (a + sum_list xs)"
  by (induction xs arbitrary: a)
     (simp_all add: i64_add_def wrap_i64_add_left add.assoc)

lemma i64_sum_wrap: "i64_sum xs = wrap_i64 (sum_list xs)"
  using i64_fold_wrap [of 0 xs] by (simp add: i64_sum_def is_i64_def)


section \<open>Positions\<close>

record 'd basic_position =
  position_symbol :: string
  buy_quantity :: 'd
  sell_quantity :: 'd
  buy_value :: 'd
  sell_value :: 'd

definition position_new :: "string \<Rightarrow> 'd::zero basic_position" where
  "position_new s =
     \<lparr> position_symbol = s, buy_quantity = 0, sell_quantity = 0, buy_value = 0, sell_value = 0 \<rparr>"

definition net_quantity :: "('n, 'f, 'd) codec \<Rightarrow> 'd basic_position \<Rightarrow> 'd attempt" where
  "net_quantity c p = decimal_sub c (buy_quantity p) (sell_quantity p)"

definition average_buy_value :: "('n, 'f, 'd::zero) codec \<Rightarrow> 'd basic_position \<Rightarrow> 'd attempt" where
  "average_buy_value c p =
     (if decimal_less c 0 (buy_value p) then decimal_div c (buy_value p) (buy_quantity p)
      else Returned 0)"

definition average_sell_value :: "('n, 'f, 'd::zero) codec \<Rightarrow> 'd basic_position \<Rightarrow> 'd attempt" where
  "average_sell_value c p =
     (if decimal_less c 0 (sell_quantity p) then decimal_div c (sell_value p) (sell_quantity p)
      else Returned 0)"

record 'd order_record =
  rec_symbol :: "string option"
  rec_side :: "string option"
  rec_quantity :: 'd
  rec_price :: 'd
  rec_trigger_price :: 'd
  rec_average_price :: 'd

definition max3 :: "('n, 'f, 'd) codec \<Rightarrow> 'd \<Rightarrow> 'd \<Rightarrow> 'd \<Rightarrow> 'd" where
  "max3 c x y z = decimal_max c (decimal_max c x y) z"

definition book_buy ::
  "('n, 'f, 'd) codec \<Rightarrow> 'd \<Rightarrow> 'd \<Rightarrow> 'd basic_position \<Rightarrow> 'd basic_position attempt" where
  "book_buy c price quantity pos =
     and_then (decimal_add c (buy_quantity pos) quantity) (\<lambda>q.
     and_then (decimal_mul c price quantity) (\<lambda>v.
     and_then (decimal_add c (buy_value pos) v) (\<lambda>v.
       Returned (pos\<lparr>buy_quantity := q, buy_value := v\<rparr>))))"

definition book_sell ::
  "('n, 'f, 'd) codec \<Rightarrow> 'd \<Rightarrow> 'd \<Rightarrow> 'd basic_position \<Rightarrow> 'd basic_position attempt" where
  "book_sell c price quantity pos =
     and_then (decimal_add c (sell_quantity pos) quantity) (\<lambda>q.
     and_then (decimal_mul c price quantity) (\<lambda>v.
     and_then (decimal_add c (sell_value pos) v) (\<lambda>v.
       Returned (pos\<lparr>sell_quantity := q, sell_value := v\<rparr>))))"

definition book_order_record ::
  "('n, 'f, 'd::zero) codec \<Rightarrow> 'd order_record \<Rightarrow> (string \<rightharpoonup> 'd basic_position)
     \<Rightarrow> (string \<rightharpoonup> 'd basic_position) attempt"
  where
  "book_order_record c r out =
     (case rec_symbol r of None \<Rightarrow> Returned out | Some symbol \<Rightarrow>
      (case rec_side r of None \<Rightarrow> Returned out | Some side \<Rightarrow>
       (let price = max3 c (rec_average_price r) (rec_price r) (rec_trigger_price r);
            quantity = decimal_abs c (rec_quantity r);
            pos = (case out symbol of Some p \<Rightarrow> p | None \<Rightarrow> position_new symbol)
        in and_then
             (if to_lowercase side = ''buy'' then book_buy c price quantity pos
              else if to_lowercase side = ''sell'' then book_sell c price quantity pos
              else Returned pos)
             (\<lambda>pos. Returned (out(symbol \<mapsto> pos))))))"

definition create_basic_positions_from_orders_dict ::
  "('n, 'f, 'd::zero) codec \<Rightarrow> 'd order_record list \<Rightarrow> (string \<rightharpoonup> 'd basic_position) attempt" where
  "create_basic_positions_from_orders_dict c rs = fold_attempt (book_order_record c) rs Map.empty"

definition dict_filter :: "'n args list \<Rightarrow> 'n kwargs \<Rightarrow> 'n args list" where
  "dict_filter lst filters =
     filter (\<lambda>d. list_all (\<lambda>(k, v). d k = Some v) filters) lst"

section \<open>Quantity split\<close>

record u_qty =
  uq_q :: i64
  uq_f :: i64
  uq_p :: i64
  uq_c :: i64

definition update_quantity :: "i64 \<Rightarrow> i64 \<Rightarrow> i64 \<Rightarrow> i64 \<Rightarrow> u_qty" where
  "update_quantity q f p c =
     (if c > 0
      then let c = min c q; f = i64_sub q c; p = i64_sub (i64_sub q c) f
           in \<lparr>uq_q = q, uq_f = f, uq_p = p, uq_c = c\<rparr>
      else if f > 0
      then let f = min f q in \<lparr>uq_q = q, uq_f = f, uq_p = i64_sub q f, uq_c = c\<rparr>
      else if p > 0
      then let p = min p q in \<lparr>uq_q = q, uq_f = i64_sub q p, uq_p = p, uq_c = c\<rparr>
      else \<lparr>uq_q = q, uq_f = f, uq_p = i64_sub q p, uq_c = c\<rparr>)"


section \<open>The inventory of a YES market\<close>

record 'd yes_inventory =
  yes_pos :: "'d basic_position"

definition yes_new :: "string \<Rightarrow> 'd::zero yes_inventory" where
  "yes_new ticker = \<lparr>yes_pos = position_new ticker\<rparr>"

text \<open>The notional is computed first, so a panic in it leaves nothing half done.\<close>

definition on_fill_contracts ::
  "('n, 'f, 'd::zero) codec \<Rightarrow> bool \<Rightarrow> 'd \<Rightarrow> 'd \<Rightarrow> 'd yes_inventory \<Rightarrow> 'd yes_inventory attempt" where
  "on_fill_contracts c is_buy_yes qty price i =
     (if \<not> decimal_less c 0 qty then Returned i
      else let pos = yes_pos i in
        and_then (decimal_mul c qty price) (\<lambda>notional.
          if is_buy_yes
          then and_then (decimal_add c (buy_quantity pos) qty) (\<lambda>q.
               and_then (decimal_add c (buy_value pos) notional) (\<lambda>v.
                 Returned (i\<lparr>yes_pos := pos\<lparr>buy_quantity := q, buy_value := v\<rparr>\<rparr>)))
          else and_then (decimal_add c (sell_quantity pos) qty) (\<lambda>q.
               and_then (decimal_add c (sell_value pos) notional) (\<lambda>v.
                 Returned (i\<lparr>yes_pos := pos\<lparr>sell_quantity := q, sell_value := v\<rparr>\<rparr>)))))"

definition net_yes_contracts :: "('n, 'f, 'd) codec \<Rightarrow> 'd yes_inventory \<Rightarrow> 'd attempt" where
  "net_yes_contracts c i = net_quantity c (yes_pos i)"

text \<open>\<open>Decimal::round\<close> rounds half to even; the integer it prints parses as an \<open>i64\<close>, or the
  error names it.\<close>

definition bankers_round :: "rat \<Rightarrow> int" where
  "bankers_round x =
     (let n = \<lfloor>x\<rfloor>; rest = x - of_int n in
      if rest < 1 / 2 then n else if rest > 1 / 2 then n + 1
      else if even n then n else n + 1)"

definition net_centi :: "('n, 'f, 'd) codec \<Rightarrow> 'd yes_inventory \<Rightarrow> (int + i64) attempt" where
  "net_centi c i =
     and_then (net_yes_contracts c i) (\<lambda>net.
     and_then (decimal_mul c net (decimal_of_i64 c 100)) (\<lambda>x.
       let n = bankers_round (decimal_rat c x) in
       Returned (if is_i64 n then Inr n else Inl n)))"

definition set_net_yes_contracts ::
  "('n, 'f, 'd::zero) codec \<Rightarrow> 'd \<Rightarrow> 'd yes_inventory \<Rightarrow> 'd yes_inventory" where
  "set_net_yes_contracts c net i =
     (let pos = (yes_pos i)\<lparr>buy_quantity := 0, sell_quantity := 0, buy_value := 0, sell_value := 0\<rparr>
      in i\<lparr>yes_pos := if decimal_less c 0 net then pos\<lparr>buy_quantity := net\<rparr>
                     else if decimal_less c net 0 then pos\<lparr>sell_quantity := decimal_neg c net\<rparr>
                     else pos\<rparr>)"

lemma bankers_round_of_int [simp]: "bankers_round (of_int n) = n"
  by (simp add: bankers_round_def)

end
