(* ===== verification/Parity_Order.thy ===== *)
theory Parity_Order
  imports Parity_Models
begin

text \<open>
  \<open>order.rs\<close>: the order of the parity layer. Its fields, its construction with the
  post-initialisation rules, the life-cycle predicates, \<open>update\<close>, \<open>execute\<close>, \<open>modify\<close>,
  \<open>cancel\<close>, \<open>add_lock\<close>, the database row and back, and \<open>clone_fresh\<close>.

  What an operation asks of the broker and of the database is appended to a list of calls, and the
  broker answers a placement from the calls so far: a \<open>dyn Broker\<close> is any such answer. The
  clocks are read once per operation. An \<open>i64\<close> of the code is an \<open>int\<close> the operations keep in
  range.
\<close>

section \<open>Data\<close>

type_synonym db_ref = nat

record ('n, 'd) order_init =
  init_symbol :: string
  init_side :: string
  init_quantity :: i64
  init_id :: "string option"
  init_parent_id :: "string option"
  init_timestamp :: "instant option"
  init_order_type :: "string option"
  init_broker_timestamp :: "instant option"
  init_exchange_timestamp :: "instant option"
  init_order_id :: "string option"
  init_exchange_order_id :: "string option"
  init_price :: "'d option"
  init_trigger_price :: "'d option"
  init_average_price :: "'d option"
  init_pending_quantity :: "i64 option"
  init_filled_quantity :: "i64 option"
  init_cancelled_quantity :: "i64 option"
  init_disclosed_quantity :: "i64 option"
  init_validity :: "string option"
  init_status :: "string option"
  init_expires_in :: "i64 option"
  init_timezone :: "string option"
  init_client_id :: "string option"
  init_convert_to_market_after_expiry :: "bool option"
  init_cancel_after_expiry :: "bool option"
  init_retries :: "i64 option"
  init_max_modifications :: "i64 option"
  init_exchange :: "string option"
  init_tag :: "string option"
  init_connection :: "db_ref option"
  init_can_peg :: "bool option"
  init_pseudo_id :: "string option"
  init_strategy_id :: "string option"
  init_portfolio_id :: "string option"
  init_json :: "'n kwargs option"
  init_error :: "string option"
  init_is_multi :: "bool option"
  init_last_updated_at :: "instant option"

definition default_init :: "('n, 'd) order_init" where
  "default_init =
     \<lparr> init_symbol = '''', init_side = '''', init_quantity = 0, init_id = None,
       init_parent_id = None, init_timestamp = None, init_order_type = None,
       init_broker_timestamp = None, init_exchange_timestamp = None, init_order_id = None,
       init_exchange_order_id = None, init_price = None, init_trigger_price = None,
       init_average_price = None, init_pending_quantity = None, init_filled_quantity = None,
       init_cancelled_quantity = None, init_disclosed_quantity = None, init_validity = None,
       init_status = None, init_expires_in = None, init_timezone = None, init_client_id = None,
       init_convert_to_market_after_expiry = None, init_cancel_after_expiry = None,
       init_retries = None, init_max_modifications = None, init_exchange = None, init_tag =
       None, init_connection = None, init_can_peg = None, init_pseudo_id = None,
       init_strategy_id = None, init_portfolio_id = None, init_json = None, init_error = None,
       init_is_multi = None, init_last_updated_at = None \<rparr>"

record ('n, 'd) order =
  o_symbol :: string
  o_side :: string
  o_quantity :: i64
  o_id :: "string option"
  o_parent_id :: "string option"
  o_timestamp :: "instant option"
  o_order_type :: string
  o_broker_timestamp :: "instant option"
  o_exchange_timestamp :: "instant option"
  o_order_id :: "string option"
  o_exchange_order_id :: "string option"
  o_price :: "'d option"
  o_trigger_price :: "'d"
  o_average_price :: "'d"
  o_pending_quantity :: "i64 option"
  o_filled_quantity :: i64
  o_cancelled_quantity :: i64
  o_disclosed_quantity :: i64
  o_validity :: string
  o_status :: "string option"
  o_expires_in :: i64
  o_timezone :: string
  o_client_id :: "string option"
  o_convert_to_market_after_expiry :: bool
  o_cancel_after_expiry :: bool
  o_retries :: i64
  o_max_modifications :: i64
  o_exchange :: "string option"
  o_tag :: "string option"
  o_connection :: "db_ref option"
  o_can_peg :: bool
  o_pseudo_id :: "string option"
  o_strategy_id :: "string option"
  o_portfolio_id :: "string option"
  o_json :: "'n kwargs option"
  o_error :: "string option"
  o_is_multi :: bool
  o_last_updated_at :: "instant option"
  o_num_modifications :: i64
  o_lock :: order_lock
  o_clock :: clock_ref

datatype 'n broker_call =
    PlaceCall "'n args" "string option"
  | ModifyCall "'n args"
  | CancelCall "'n args"
  | UpsertCall "'n args" bool

record 'n broker =
  attribs_to_copy_execute :: "string list option"
  attribs_to_copy_modify :: "string list option"
  attribs_to_copy_cancel :: "string list option"
  place_reply :: "'n broker_call list \<Rightarrow> 'n args \<Rightarrow> string option"

record 'n env =
  clock_now :: "clock_ref \<Rightarrow> instant"
  upsert_reply :: "'n broker_call list \<Rightarrow> 'n args \<Rightarrow> bool"
  runtime_present :: bool

definition system_clock :: clock_ref where
  "system_clock = 0"

definition unwrap_or :: "'a \<Rightarrow> 'a option \<Rightarrow> 'a" where
  "unwrap_or d x = (case x of None \<Rightarrow> d | Some a \<Rightarrow> a)"

lemma unwrap_or_simps [simp]: "unwrap_or d None = d" "unwrap_or d (Some a) = a"
  by (simp_all add: unwrap_or_def)

text \<open>\<open>ATTRS\<close>, the fields \<open>update\<close> may write, and \<open>FROZEN_ATTRS\<close>, those \<open>modify\<close> may not.\<close>

definition update_attrs :: "string list" where
  "update_attrs =
     [''exchange_timestamp'', ''exchange_order_id'', ''status'', ''filled_quantity'',
      ''pending_quantity'', ''disclosed_quantity'', ''average_price'']"

definition frozen_attrs :: "string list" where
  "frozen_attrs = [''symbol'', ''side'']"


section \<open>Construction\<close>

definition seconds_to_end_of_day :: "instant \<Rightarrow> i64" where
  "seconds_to_end_of_day now =
     max (num_seconds (day_start now + 86399 * ns_per_sec - now)) 0"

definition expiry_of :: "instant \<Rightarrow> i64 option \<Rightarrow> i64" where
  "expiry_of now e =
     (case e of None \<Rightarrow> seconds_to_end_of_day now
      | Some v \<Rightarrow> if v = 0 then seconds_to_end_of_day now else i64_abs v)"

definition from_init_with_clock ::
  "'n env \<Rightarrow> string \<Rightarrow> ('n, 'd::zero) order_init \<Rightarrow> clock_ref \<Rightarrow> ('n, 'd) order attempt" where
  "from_init_with_clock e uuid i clock =
     (if init_quantity i \<ge> 0
      then let tz = unwrap_or ''local'' (init_timezone i); now = clock_now e clock in
        Returned
         \<lparr> o_symbol = init_symbol i, o_side = init_side i, o_quantity = init_quantity i, o_id =
           Some (unwrap_or uuid (init_id i)), o_parent_id = init_parent_id i, o_timestamp =
           Some (unwrap_or now (init_timestamp i)), o_order_type = unwrap_or ''MARKET''
           (init_order_type i), o_broker_timestamp = init_broker_timestamp i,
           o_exchange_timestamp = init_exchange_timestamp i, o_order_id = init_order_id i,
           o_exchange_order_id = init_exchange_order_id i, o_price = init_price i,
           o_trigger_price = unwrap_or 0 (init_trigger_price i), o_average_price = unwrap_or 0
           (init_average_price i), o_pending_quantity = Some (init_quantity i),
           o_filled_quantity = unwrap_or 0 (init_filled_quantity i), o_cancelled_quantity =
           unwrap_or 0 (init_cancelled_quantity i), o_disclosed_quantity = unwrap_or 0
           (init_disclosed_quantity i), o_validity = unwrap_or ''DAY'' (init_validity i),
           o_status = init_status i, o_expires_in = expiry_of now (init_expires_in i),
           o_timezone = tz, o_client_id = init_client_id i, o_convert_to_market_after_expiry =
           unwrap_or False (init_convert_to_market_after_expiry i), o_cancel_after_expiry =
           unwrap_or True (init_cancel_after_expiry i), o_retries = unwrap_or 0 (init_retries
           i), o_max_modifications = unwrap_or 10 (init_max_modifications i), o_exchange =
           init_exchange i, o_tag = init_tag i, o_connection = init_connection i, o_can_peg =
           unwrap_or True (init_can_peg i), o_pseudo_id = init_pseudo_id i, o_strategy_id =
           init_strategy_id i, o_portfolio_id = init_portfolio_id i, o_json = init_json i,
           o_error = init_error i, o_is_multi = unwrap_or False (init_is_multi i),
           o_last_updated_at = init_last_updated_at i, o_num_modifications = 0, o_lock =
           with_timezone (unlocked_with_clock clock) tz, o_clock = clock \<rparr>
      else Panicked)"

definition from_init ::
  "'n env \<Rightarrow> string \<Rightarrow> ('n, 'd::zero) order_init \<Rightarrow> ('n, 'd) order attempt" where
  "from_init e uuid i = from_init_with_clock e uuid i system_clock"

definition set_clock :: "clock_ref \<Rightarrow> ('n, 'd) order \<Rightarrow> ('n, 'd) order" where
  "set_clock clock od =
     od\<lparr>o_clock := clock, o_lock := with_timezone (unlocked_with_clock clock) (o_timezone od)\<rparr>"


section \<open>Predicates\<close>

definition order_complete :: "('n, 'd) order \<Rightarrow> bool" where
  "order_complete od =
     (if o_quantity od = o_filled_quantity od then True
      else if o_status od = Some ''COMPLETE'' then True
      else i64_add (o_filled_quantity od) (o_cancelled_quantity od) = o_quantity od)"

definition order_pending :: "('n, 'd) order \<Rightarrow> bool" where
  "order_pending od =
     (let qty = i64_add (o_filled_quantity od) (o_cancelled_quantity od) in
      if o_status od \<in> {Some ''COMPLETE'', Some ''CANCELED'', Some ''CANCELLED'', Some ''REJECTED''}
      then False else qty < o_quantity od)"

definition order_done :: "('n, 'd) order \<Rightarrow> bool" where
  "order_done od =
     (if order_complete od then True
      else o_status od \<in> {Some ''CANCELED'', Some ''CANCELLED'', Some ''REJECTED''})"

definition time_to_expiry :: "'n env \<Rightarrow> ('n, 'd) order \<Rightarrow> i64" where
  "time_to_expiry e od =
     (case o_timestamp od of None \<Rightarrow> o_expires_in od
      | Some ts \<Rightarrow> max (i64_sub (o_expires_in od) (num_seconds (clock_now e (o_clock od) - ts))) 0)"

definition time_after_expiry :: "'n env \<Rightarrow> ('n, 'd) order \<Rightarrow> i64" where
  "time_after_expiry e od =
     (case o_timestamp od of None \<Rightarrow> 0
      | Some ts \<Rightarrow> max (i64_sub (num_seconds (clock_now e (o_clock od) - ts)) (o_expires_in od)) 0)"

definition has_expired :: "'n env \<Rightarrow> ('n, 'd) order \<Rightarrow> bool" where
  "has_expired e od \<longleftrightarrow> time_to_expiry e od = 0"

definition has_parent :: "('n, 'd) order \<Rightarrow> bool" where
  "has_parent od \<longleftrightarrow> o_parent_id od \<noteq> None"


section \<open>Attributes as dynamic values\<close>

definition decimal_value :: "('n, 'f, 'd) codec \<Rightarrow> 'd \<Rightarrow> 'n json" where
  "decimal_value c d = JString (decimal_show c d)"

definition decimal_persistence_value :: "('n, 'f, 'd) codec \<Rightarrow> 'd \<Rightarrow> 'n json" where
  "decimal_persistence_value c d = JNumber (f64_number c (decimal_to_f64 c d))"

definition value_to_decimal :: "('n, 'f, 'd) codec \<Rightarrow> 'n json \<Rightarrow> 'd option" where
  "value_to_decimal c v =
     (case as_str v of Some s \<Rightarrow> decimal_parse c s
      | None \<Rightarrow> (case as_f64 c v of Some f \<Rightarrow> decimal_of_f64 c f
        | None \<Rightarrow> map_option (decimal_of_i64 c) (as_i64 c v)))"

text \<open>The field a key names, \<open>None\<close> when the key is no attribute or the field is absent.\<close>

definition attr_table ::
  "('n, 'f, 'd) codec \<Rightarrow> ('n, 'd) order \<Rightarrow> (string \<times> 'n json option) list" where
  "attr_table c od =
     [(''symbol'', Some (JString (o_symbol od))),
      (''side'', Some (JString (o_side od))),
      (''quantity'', Some (json_i64 c (o_quantity od))),
      (''id'', Some (json_opt JString (o_id od))),
      (''parent_id'', map_option JString (o_parent_id od)),
      (''order_type'', Some (JString (o_order_type od))),
      (''order_id'', map_option JString (o_order_id od)),
      (''exchange_order_id'', map_option JString (o_exchange_order_id od)),
      (''price'', map_option (decimal_value c) (o_price od)),
      (''trigger_price'', Some (decimal_value c (o_trigger_price od))),
      (''average_price'', Some (decimal_value c (o_average_price od))),
      (''pending_quantity'', map_option (json_i64 c) (o_pending_quantity od)),
      (''filled_quantity'', Some (json_i64 c (o_filled_quantity od))),
      (''cancelled_quantity'', Some (json_i64 c (o_cancelled_quantity od))),
      (''disclosed_quantity'', Some (json_i64 c (o_disclosed_quantity od))),
      (''validity'', Some (JString (o_validity od))),
      (''status'', map_option JString (o_status od)),
      (''expires_in'', Some (json_i64 c (o_expires_in od))),
      (''timezone'', Some (JString (o_timezone od))),
      (''client_id'', map_option JString (o_client_id od)),
      (''exchange'', map_option JString (o_exchange od)),
      (''tag'', map_option JString (o_tag od)),
      (''can_peg'', Some (JBool (o_can_peg od))),
      (''pseudo_id'', map_option JString (o_pseudo_id od)),
      (''strategy_id'', map_option JString (o_strategy_id od)),
      (''portfolio_id'', map_option JString (o_portfolio_id od)),
      (''error'', map_option JString (o_error od)),
      (''is_multi'', Some (JBool (o_is_multi od))),
      (''retries'', Some (json_i64 c (o_retries od))),
      (''max_modifications'', Some (json_i64 c (o_max_modifications od))),
      (''convert_to_market_after_expiry'', Some (JBool (o_convert_to_market_after_expiry od))),
      (''cancel_after_expiry'', Some (JBool (o_cancel_after_expiry od)))]"

definition get_attr :: "('n, 'f, 'd) codec \<Rightarrow> ('n, 'd) order \<Rightarrow> string \<Rightarrow> 'n json option" where
  "get_attr c od key = (case map_of (attr_table c od) key of None \<Rightarrow> None | Some v \<Rightarrow> v)"

fun is_null :: "'n json \<Rightarrow> bool" where
  "is_null JNull = True"
| "is_null _ = False"

lemma is_null_iff [simp]: "is_null v \<longleftrightarrow> v = JNull"
  by (cases v) simp_all

definition get_other_args_from_attribs ::
  "('n, 'f, 'd) codec \<Rightarrow> ('n, 'd) order \<Rightarrow> string list option \<Rightarrow> string list option
     \<Rightarrow> 'n args" where
  "get_other_args_from_attribs c od broker_attrs attribs_to_copy = (\<lambda>key.
     if key \<in> set (unwrap_or [] attribs_to_copy) \<union> set (unwrap_or [] broker_attrs)
     then (case get_attr c od key of None \<Rightarrow> None | Some v \<Rightarrow> if is_null v then None else Some v)
     else None)"


section \<open>The database row\<close>

definition row_opt :: "string \<Rightarrow> ('a \<Rightarrow> 'n json) \<Rightarrow> 'a option \<Rightarrow> (string \<times> 'n json) list" where
  "row_opt k f x = (case x of None \<Rightarrow> [] | Some a \<Rightarrow> [(k, f a)])"

definition json_instant :: "('n, 'f, 'd) codec \<Rightarrow> instant \<Rightarrow> 'n json" where
  "json_instant c t = JString (rfc3339_show c t)"

definition to_row :: "('n, 'f, 'd) codec \<Rightarrow> ('n, 'd) order \<Rightarrow> 'n args" where
  "to_row c od = map_of (concat
       [[(''symbol'', JString (o_symbol od))],
        [(''side'', JString (o_side od))],
        [(''quantity'', json_i64 c (o_quantity od))],
        row_opt ''id'' JString (o_id od),
        row_opt ''parent_id'' JString (o_parent_id od),
        row_opt ''timestamp'' (json_instant c) (o_timestamp od),
        [(''order_type'', JString (o_order_type od))],
        row_opt ''broker_timestamp'' (json_instant c) (o_broker_timestamp od),
        row_opt ''exchange_timestamp'' (json_instant c) (o_exchange_timestamp od),
        row_opt ''order_id'' JString (o_order_id od),
        row_opt ''exchange_order_id'' JString (o_exchange_order_id od),
        row_opt ''price'' (decimal_persistence_value c) (o_price od),
        [(''trigger_price'', decimal_persistence_value c (o_trigger_price od))],
        [(''average_price'', decimal_persistence_value c (o_average_price od))],
        row_opt ''pending_quantity'' (json_i64 c) (o_pending_quantity od),
        [(''filled_quantity'', json_i64 c (o_filled_quantity od))],
        [(''cancelled_quantity'', json_i64 c (o_cancelled_quantity od))],
        [(''disclosed_quantity'', json_i64 c (o_disclosed_quantity od))],
        [(''validity'', JString (o_validity od))],
        row_opt ''status'' JString (o_status od),
        [(''expires_in'', json_i64 c (o_expires_in od))],
        [(''timezone'', JString (o_timezone od))],
        row_opt ''client_id'' JString (o_client_id od),
        [(''convert_to_market_after_expiry'', JBool (o_convert_to_market_after_expiry od))],
        [(''cancel_after_expiry'', JBool (o_cancel_after_expiry od))],
        [(''retries'', json_i64 c (o_retries od))],
        [(''max_modifications'', json_i64 c (o_max_modifications od))],
        row_opt ''exchange'' JString (o_exchange od),
        row_opt ''tag'' JString (o_tag od),
        [(''can_peg'', JBool (o_can_peg od))],
        row_opt ''pseudo_id'' JString (o_pseudo_id od),
        row_opt ''strategy_id'' JString (o_strategy_id od),
        row_opt ''portfolio_id'' JString (o_portfolio_id od),
        row_opt ''JSON'' JObject (o_json od),
        row_opt ''error'' JString (o_error od),
        [(''is_multi'', JBool (o_is_multi od))],
        row_opt ''last_updated_at'' (json_instant c) (o_last_updated_at od)])"

definition row_str :: "'n args \<Rightarrow> string \<Rightarrow> string option" where
  "row_str row k = (case row k of None \<Rightarrow> None | Some v \<Rightarrow> as_str v)"

definition row_i64 :: "('n, 'f, 'd) codec \<Rightarrow> 'n args \<Rightarrow> string \<Rightarrow> i64 option" where
  "row_i64 c row k = (case row k of None \<Rightarrow> None | Some v \<Rightarrow> as_i64 c v)"

definition row_bool :: "('n, 'f, 'd) codec \<Rightarrow> 'n args \<Rightarrow> string \<Rightarrow> bool option" where
  "row_bool c row k = (case row k of None \<Rightarrow> None
     | Some (JBool b) \<Rightarrow> Some b
     | Some (JNumber n) \<Rightarrow> Some (case number_i64 c n of None \<Rightarrow> False | Some x \<Rightarrow> x \<noteq> 0)
     | Some (JString s) \<Rightarrow> Some (to_lowercase s = ''true'' \<or> to_lowercase s = ''1'')
     | Some _ \<Rightarrow> Some False)"

definition row_decimal :: "('n, 'f, 'd) codec \<Rightarrow> 'n args \<Rightarrow> string \<Rightarrow> 'd option" where
  "row_decimal c row k = (case row k of None \<Rightarrow> None
     | Some (JNumber n) \<Rightarrow>
         (case number_f64 c n of None \<Rightarrow> None | Some f \<Rightarrow> decimal_of_f64 c f)
     | Some (JString s) \<Rightarrow> decimal_parse c s
     | Some _ \<Rightarrow> None)"

definition row_instant :: "('n, 'f, 'd) codec \<Rightarrow> 'n args \<Rightarrow> string \<Rightarrow> instant option" where
  "row_instant c row k = (case row k of
       Some (JString s) \<Rightarrow> rfc3339_parse c s
     | _ \<Rightarrow> None)"

definition row_map :: "('n, 'f, 'd) codec \<Rightarrow> 'n args \<Rightarrow> string \<Rightarrow> 'n kwargs option" where
  "row_map c row k = (case row k of
       Some (JString s) \<Rightarrow> json_text_map c s
     | Some (JObject m) \<Rightarrow> Some m
     | _ \<Rightarrow> None)"

definition init_from_row :: "('n, 'f, 'd) codec \<Rightarrow> 'n args \<Rightarrow> ('n, 'd) order_init" where
  "init_from_row c row =
     \<lparr> init_symbol = unwrap_or '''' (row_str row ''symbol''),
       init_side = unwrap_or '''' (row_str row ''side''),
       init_quantity = unwrap_or 0 (row_i64 c row ''quantity''),
       init_id = row_str row ''id'',
       init_parent_id = row_str row ''parent_id'',
       init_timestamp = row_instant c row ''timestamp'',
       init_order_type = row_str row ''order_type'',
       init_broker_timestamp = row_instant c row ''broker_timestamp'',
       init_exchange_timestamp = row_instant c row ''exchange_timestamp'',
       init_order_id = row_str row ''order_id'',
       init_exchange_order_id = row_str row ''exchange_order_id'',
       init_price = row_decimal c row ''price'',
       init_trigger_price = row_decimal c row ''trigger_price'',
       init_average_price = row_decimal c row ''average_price'',
       init_pending_quantity = row_i64 c row ''pending_quantity'',
       init_filled_quantity = row_i64 c row ''filled_quantity'',
       init_cancelled_quantity = row_i64 c row ''cancelled_quantity'',
       init_disclosed_quantity = row_i64 c row ''disclosed_quantity'',
       init_validity = row_str row ''validity'',
       init_status = row_str row ''status'',
       init_expires_in = row_i64 c row ''expires_in'',
       init_timezone = row_str row ''timezone'',
       init_client_id = row_str row ''client_id'',
       init_convert_to_market_after_expiry = row_bool c row ''convert_to_market_after_expiry'',
       init_cancel_after_expiry = row_bool c row ''cancel_after_expiry'',
       init_retries = row_i64 c row ''retries'',
       init_max_modifications = row_i64 c row ''max_modifications'',
       init_exchange = row_str row ''exchange'',
       init_tag = row_str row ''tag'',
       init_connection = None,
       init_can_peg = row_bool c row ''can_peg'',
       init_pseudo_id = row_str row ''pseudo_id'',
       init_strategy_id = row_str row ''strategy_id'',
       init_portfolio_id = row_str row ''portfolio_id'',
       init_json = row_map c row ''JSON'',
       init_error = row_str row ''error'',
       init_is_multi = row_bool c row ''is_multi'',
       init_last_updated_at = row_instant c row ''last_updated_at'' \<rparr>"

definition order_from_row ::
  "('n, 'f, 'd::zero) codec \<Rightarrow> 'n env \<Rightarrow> string \<Rightarrow> 'n args \<Rightarrow> ('n, 'd) order attempt" where
  "order_from_row c e uuid row = from_init e uuid (init_from_row c row)"

definition save_to_db ::
  "('n, 'f, 'd) codec \<Rightarrow> 'n env \<Rightarrow> ('n, 'd) order \<Rightarrow> 'n broker_call list
     \<Rightarrow> bool \<times> 'n broker_call list" where
  "save_to_db c e od calls =
     (case o_connection od of None \<Rightarrow> (False, calls)
      | Some handle \<Rightarrow>
          let row = to_row c od; ok = upsert_reply e calls row in (ok, calls @ [UpsertCall row ok]))"

text \<open>
  The asynchronous save gives up before touching the database outside a runtime; a worker
  that panics or is cancelled leaves the same answer as a failed upsert.
\<close>

definition save_to_db_async ::
  "('n, 'f, 'd) codec \<Rightarrow> 'n env \<Rightarrow> ('n, 'd) order \<Rightarrow> 'n broker_call list
     \<Rightarrow> bool \<times> 'n broker_call list" where
  "save_to_db_async c e od calls =
     (case o_connection od of None \<Rightarrow> (False, calls)
      | Some handle \<Rightarrow>
          let row = to_row c od in
          if \<not> runtime_present e then (False, calls)
          else let ok = upsert_reply e calls row in (ok, calls @ [UpsertCall row ok]))"

text \<open>The two callers that save only when a connection is set, and ignore the answer.\<close>

definition saved ::
  "('n, 'f, 'd) codec \<Rightarrow> 'n env \<Rightarrow> ('n, 'd) order \<Rightarrow> 'n broker_call list \<Rightarrow> 'n broker_call list" where
  "saved c e od calls = (if o_connection od \<noteq> None then snd (save_to_db c e od calls) else calls)"

definition saved_async ::
  "('n, 'f, 'd) codec \<Rightarrow> 'n env \<Rightarrow> ('n, 'd) order \<Rightarrow> 'n broker_call list \<Rightarrow> 'n broker_call list" where
  "saved_async c e od calls =
     (if o_connection od \<noteq> None then snd (save_to_db_async c e od calls) else calls)"


section \<open>Update\<close>

text \<open>\<open>Ord::clamp\<close> panics when the lower bound exceeds the upper.\<close>

definition clamp_filled :: "i64 \<Rightarrow> ('n, 'd) order \<Rightarrow> ('n, 'd) order attempt" where
  "clamp_filled n od =
     (if o_filled_quantity od \<le> o_quantity od
      then let clamped = min (max n (o_filled_quantity od)) (o_quantity od) in
        Returned (if clamped > o_filled_quantity od
                  then od\<lparr>o_filled_quantity := clamped\<rparr> else od)
      else Panicked)"

definition set_from_value ::
  "('n, 'f, 'd) codec \<Rightarrow> string \<Rightarrow> 'n json \<Rightarrow> ('n, 'd) order \<Rightarrow> ('n, 'd) order attempt" where
  "set_from_value c key v od =
     (if key = ''exchange_timestamp''
      then Returned (case as_str v of None \<Rightarrow> od
        | Some s \<Rightarrow> (case rfc3339_parse c s of None \<Rightarrow> od
            | Some t \<Rightarrow> od\<lparr>o_exchange_timestamp := Some t\<rparr>))
      else if key = ''exchange_order_id''
      then Returned (case as_str v of None \<Rightarrow> od
        | Some s \<Rightarrow> od\<lparr>o_exchange_order_id := Some s\<rparr>)
      else if key = ''status''
      then Returned (case as_str v of None \<Rightarrow> od | Some s \<Rightarrow> od\<lparr>o_status := Some s\<rparr>)
      else if key = ''filled_quantity''
      then (case as_i64 c v of None \<Rightarrow> Returned od | Some n \<Rightarrow> clamp_filled n od)
      else if key = ''pending_quantity''
      then Returned (case as_i64 c v of None \<Rightarrow> od
        | Some n \<Rightarrow> od\<lparr>o_pending_quantity := Some n\<rparr>)
      else if key = ''disclosed_quantity''
      then Returned (case as_i64 c v of None \<Rightarrow> od | Some n \<Rightarrow> od\<lparr>o_disclosed_quantity := n\<rparr>)
      else if key = ''average_price''
      then Returned (case value_to_decimal c v of None \<Rightarrow> od
        | Some d \<Rightarrow> od\<lparr>o_average_price := d\<rparr>)
      else Returned od)"

primrec set_attrs ::
  "('n, 'f, 'd) codec \<Rightarrow> 'n args \<Rightarrow> string list \<Rightarrow> ('n, 'd) order \<Rightarrow> ('n, 'd) order attempt" where
  "set_attrs c data [] od = Returned od"
| "set_attrs c data (key # keys) od =
     (case data key of
        None \<Rightarrow> set_attrs c data keys od
      | Some v \<Rightarrow> if is_null v then set_attrs c data keys od
                 else and_then (set_from_value c key v od) (set_attrs c data keys))"

definition order_update ::
  "('n, 'f, 'd) codec \<Rightarrow> 'n env \<Rightarrow> 'n args \<Rightarrow> ('n, 'd) order \<Rightarrow> 'n broker_call list
     \<Rightarrow> (bool \<times> ('n, 'd) order \<times> 'n broker_call list) attempt" where
  "order_update c e data od calls =
     (if order_done od then Returned (False, od, calls)
      else and_then (set_attrs c data update_attrs od) (\<lambda>od.
        let od = od\<lparr>o_last_updated_at := Some (clock_now e (o_clock od))\<rparr>;
            od = (if data ''pending_quantity'' = None
                 then od\<lparr>o_pending_quantity := Some (i64_sub (o_quantity od) (o_filled_quantity od))\<rparr>
                 else od)
        in Returned (True, od, saved c e od calls)))"


section \<open>Execute\<close>

definition execute_default_keys :: "string list" where
  "execute_default_keys =
     [''symbol'', ''side'', ''order_type'', ''quantity'', ''price'', ''trigger_price'',
      ''disclosed_quantity'']"

definition execute_defaults :: "('n, 'f, 'd) codec \<Rightarrow> ('n, 'd) order \<Rightarrow> 'n args" where
  "execute_defaults c od =
     map_of ([(''symbol'', JString (to_uppercase (o_symbol od))),
              (''side'', JString (to_uppercase (o_side od))),
              (''order_type'', JString (to_uppercase (o_order_type od))),
              (''quantity'', json_i64 c (o_quantity od))]
           @ row_opt ''price'' (decimal_value c) (o_price od)
           @ [(''trigger_price'', decimal_value c (o_trigger_price od)),
              (''disclosed_quantity'', json_i64 c (o_disclosed_quantity od))])"

definition execute_args ::
  "('n, 'f, 'd) codec \<Rightarrow> 'n args \<Rightarrow> 'n args \<Rightarrow> ('n, 'd) order \<Rightarrow> 'n args" where
  "execute_args c other_args kwargs od =
     (execute_defaults c od ++ other_args) ++ (kwargs |` (- set execute_default_keys))"

definition order_execute ::
  "('n, 'f, 'd) codec \<Rightarrow> 'n env \<Rightarrow> 'n broker \<Rightarrow> string list option \<Rightarrow> 'n args
     \<Rightarrow> ('n, 'd) order \<Rightarrow> 'n broker_call list \<Rightarrow> string option \<times> ('n, 'd) order \<times> 'n broker_call list"
  where
  "order_execute c e b attribs kwargs od calls =
     (if order_complete od \<or> o_order_id od \<noteq> None then (o_order_id od, od, calls)
      else
        let other_args = get_other_args_from_attribs c od (attribs_to_copy_execute b) attribs;
            args = execute_args c other_args kwargs od;
            ret = place_reply b calls args;
            calls = calls @ [PlaceCall args ret];
            od = od\<lparr>o_order_id := ret\<rparr>
        in (ret, od, saved c e od calls))"

definition execute_async ::
  "('n, 'f, 'd) codec \<Rightarrow> 'n env \<Rightarrow> 'n broker \<Rightarrow> string list option \<Rightarrow> 'n args
     \<Rightarrow> ('n, 'd) order \<Rightarrow> 'n broker_call list \<Rightarrow> string option \<times> ('n, 'd) order \<times> 'n broker_call list"
  where
  "execute_async c e b attribs kwargs od calls =
     (if order_complete od \<or> o_order_id od \<noteq> None then (o_order_id od, od, calls)
      else
        let broker_attribs = attribs_to_copy_execute b;
            other_args = get_other_args_from_attribs c od broker_attribs attribs;
            args = execute_args c other_args kwargs od;
            ret = place_reply b calls args;
            calls = calls @ [PlaceCall args ret];
            od = od\<lparr>o_order_id := ret\<rparr>
        in (ret, od, saved_async c e od calls))"


section \<open>Modify\<close>

definition keys_for_broker :: "string list" where
  "keys_for_broker =
     [''order_id'', ''quantity'', ''price'', ''trigger_price'', ''order_type'',
      ''disclosed_quantity'']"

definition set_local_field ::
  "('n, 'f, 'd) codec \<Rightarrow> string \<Rightarrow> 'n json \<Rightarrow> ('n, 'd) order \<Rightarrow> ('n, 'd) order attempt" where
  "set_local_field c key v od =
     (if key = ''quantity''
      then Returned (case as_i64 c v of None \<Rightarrow> od | Some n \<Rightarrow> od\<lparr>o_quantity := n\<rparr>)
      else if key = ''price'' then Returned (od\<lparr>o_price := value_to_decimal c v\<rparr>)
      else if key = ''trigger_price''
      then Returned (case value_to_decimal c v of None \<Rightarrow> od
        | Some d \<Rightarrow> od\<lparr>o_trigger_price := d\<rparr>)
      else if key = ''order_type''
      then Returned (case as_str v of None \<Rightarrow> od | Some s \<Rightarrow> od\<lparr>o_order_type := s\<rparr>)
      else if key = ''disclosed_quantity''
      then Returned (case as_i64 c v of None \<Rightarrow> od | Some n \<Rightarrow> od\<lparr>o_disclosed_quantity := n\<rparr>)
      else if key = ''exchange''
      then Returned (case as_str v of None \<Rightarrow> od | Some s \<Rightarrow> od\<lparr>o_exchange := Some s\<rparr>)
      else if key = ''client_id''
      then Returned (case as_str v of None \<Rightarrow> od | Some s \<Rightarrow> od\<lparr>o_client_id := Some s\<rparr>)
      else if key = ''validity''
      then Returned (case as_str v of None \<Rightarrow> od | Some s \<Rightarrow> od\<lparr>o_validity := s\<rparr>)
      else if key = ''tag''
      then Returned (case as_str v of None \<Rightarrow> od | Some s \<Rightarrow> od\<lparr>o_tag := Some s\<rparr>)
      else if key = ''status''
      then Returned (case as_str v of None \<Rightarrow> od | Some s \<Rightarrow> od\<lparr>o_status := Some s\<rparr>)
      else if key = ''filled_quantity''
      then (case as_i64 c v of None \<Rightarrow> Returned od | Some n \<Rightarrow> clamp_filled n od)
      else if key = ''pending_quantity''
      then Returned (case as_i64 c v of None \<Rightarrow> od
        | Some n \<Rightarrow> od\<lparr>o_pending_quantity := Some n\<rparr>)
      else if key = ''cancelled_quantity''
      then Returned (case as_i64 c v of None \<Rightarrow> od | Some n \<Rightarrow> od\<lparr>o_cancelled_quantity := n\<rparr>)
      else if key = ''average_price''
      then Returned (case value_to_decimal c v of None \<Rightarrow> od
        | Some d \<Rightarrow> od\<lparr>o_average_price := d\<rparr>)
      else if key = ''expires_in''
      then Returned (case as_i64 c v of None \<Rightarrow> od | Some n \<Rightarrow> od\<lparr>o_expires_in := n\<rparr>)
      else Returned od)"

text \<open>The loop over the keyword arguments: the order and the arguments passed through.\<close>

primrec apply_kwargs ::
  "('n, 'f, 'd) codec \<Rightarrow> 'n kwargs \<Rightarrow> ('n, 'd) order \<Rightarrow> 'n args
     \<Rightarrow> (('n, 'd) order \<times> 'n args) attempt" where
  "apply_kwargs c [] od args_to_add = Returned (od, args_to_add)"
| "apply_kwargs c (kv # kwargs) od args_to_add =
     (case kv of (k, v) \<Rightarrow>
      if k \<in> set frozen_attrs then apply_kwargs c kwargs od args_to_add
      else if get_attr c od k \<noteq> None
      then and_then (set_local_field c k v od) (\<lambda>od.
             apply_kwargs c kwargs od
               (if k \<in> set keys_for_broker then args_to_add else args_to_add(k \<mapsto> v)))
      else apply_kwargs c kwargs od (args_to_add(k \<mapsto> v)))"

definition modify_defaults :: "('n, 'f, 'd) codec \<Rightarrow> ('n, 'd) order \<Rightarrow> 'n args" where
  "modify_defaults c od =
     map_of (row_opt ''order_id'' JString (o_order_id od)
           @ [(''quantity'', json_i64 c (o_quantity od))]
           @ row_opt ''price'' (decimal_value c) (o_price od)
           @ [(''trigger_price'', decimal_value c (o_trigger_price od)),
              (''order_type'', JString (to_uppercase (o_order_type od))),
              (''disclosed_quantity'', json_i64 c (o_disclosed_quantity od))])"

definition modify_args ::
  "('n, 'f, 'd) codec \<Rightarrow> 'n args \<Rightarrow> 'n args \<Rightarrow> 'n kwargs \<Rightarrow> ('n, 'd) order \<Rightarrow> 'n args" where
  "modify_args c other_args args_to_add kwargs od =
     modify_defaults c od ++ other_args ++ args_to_add
       ++ (map_of kwargs |` set keys_for_broker)"

definition order_modify ::
  "('n, 'f, 'd) codec \<Rightarrow> 'n env \<Rightarrow> 'n broker \<Rightarrow> string list option \<Rightarrow> 'n kwargs
     \<Rightarrow> ('n, 'd) order \<Rightarrow> 'n broker_call list \<Rightarrow> (('n, 'd) order \<times> 'n broker_call list) attempt" where
  "order_modify c e b attribs kwargs od calls =
     (if \<not> can_modify (clock_now e (lock_clock (o_lock od))) (o_lock od) then Returned (od, calls)
      else
        let other_args = get_other_args_from_attribs c od (attribs_to_copy_modify b) attribs in
        and_then (apply_kwargs c kwargs od Map.empty) (\<lambda>(od, args_to_add).
          let args = modify_args c other_args args_to_add kwargs od in
          if o_num_modifications od < o_max_modifications od
          then if o_order_id od = None then Returned (od, calls)
               else let calls = calls @ [ModifyCall args];
                        od = od\<lparr>o_num_modifications := o_num_modifications od + 1\<rparr>
                    in Returned (od, saved c e od calls)
          else Returned (od, calls)))"

definition modify_async ::
  "('n, 'f, 'd) codec \<Rightarrow> 'n env \<Rightarrow> 'n broker \<Rightarrow> string list option \<Rightarrow> 'n kwargs
     \<Rightarrow> ('n, 'd) order \<Rightarrow> 'n broker_call list \<Rightarrow> (('n, 'd) order \<times> 'n broker_call list) attempt" where
  "modify_async c e b attribs kwargs od calls =
     (if \<not> can_modify (clock_now e (lock_clock (o_lock od))) (o_lock od) then Returned (od, calls)
      else
        let broker_attribs = attribs_to_copy_modify b;
            other_args = get_other_args_from_attribs c od broker_attribs attribs in
        and_then (apply_kwargs c kwargs od Map.empty) (\<lambda>(od, args_to_add).
          let args = modify_args c other_args args_to_add kwargs od in
          if o_num_modifications od < o_max_modifications od
          then if o_order_id od = None then Returned (od, calls)
               else let calls = calls @ [ModifyCall args];
                        od = od\<lparr>o_num_modifications := o_num_modifications od + 1\<rparr>
                    in Returned (od, saved_async c e od calls)
          else Returned (od, calls)))"


section \<open>Cancel, locks, clone\<close>

definition order_cancel ::
  "('n, 'f, 'd) codec \<Rightarrow> 'n env \<Rightarrow> 'n broker \<Rightarrow> string list option
     \<Rightarrow> ('n, 'd) order \<Rightarrow> 'n broker_call list \<Rightarrow> 'n broker_call list" where
  "order_cancel c e b attribs od calls =
     (if \<not> can_cancel (clock_now e (lock_clock (o_lock od))) (o_lock od) then calls
      else case o_order_id od of None \<Rightarrow> calls
        | Some oid \<Rightarrow>
            let other_args = get_other_args_from_attribs c od (attribs_to_copy_cancel b) attribs
            in calls @ [CancelCall ([''order_id'' \<mapsto> JString oid] ++ other_args)])"

definition cancel_async ::
  "('n, 'f, 'd) codec \<Rightarrow> 'n env \<Rightarrow> 'n broker \<Rightarrow> string list option
     \<Rightarrow> ('n, 'd) order \<Rightarrow> 'n broker_call list \<Rightarrow> 'n broker_call list" where
  "cancel_async c e b attribs od calls =
     (if \<not> can_cancel (clock_now e (lock_clock (o_lock od))) (o_lock od) then calls
      else case o_order_id od of None \<Rightarrow> calls
        | Some oid \<Rightarrow>
            let broker_attribs = attribs_to_copy_cancel b;
                other_args = get_other_args_from_attribs c od broker_attribs attribs
            in calls @ [CancelCall ([''order_id'' \<mapsto> JString oid] ++ other_args)])"

definition add_lock ::
  "'n env \<Rightarrow> int \<Rightarrow> rat \<Rightarrow> ('n, 'd) order \<Rightarrow> ('n, 'd) order attempt" where
  "add_lock e code seconds od =
     (let now = clock_now e (lock_clock (o_lock od)) in
      if code = 1
      then and_then (lock_modify now seconds (o_lock od)) (\<lambda>(l, _). Returned (od\<lparr>o_lock := l\<rparr>))
      else if code = 2
      then and_then (lock_cancel now seconds (o_lock od)) (\<lambda>(l, _). Returned (od\<lparr>o_lock := l\<rparr>))
      else Returned od)"

definition clone_fresh ::
  "'n env \<Rightarrow> string \<Rightarrow> ('n, 'd::zero) order \<Rightarrow> ('n, 'd) order attempt" where
  "clone_fresh e uuid od =
     from_init_with_clock e uuid
       (default_init\<lparr>init_symbol := o_symbol od, init_side := o_side od, init_quantity := o_quantity od,
       init_order_type := Some (o_order_type od), init_broker_timestamp := o_broker_timestamp
       od, init_exchange_timestamp := o_exchange_timestamp od, init_order_id := o_order_id od,
       init_exchange_order_id := o_exchange_order_id od, init_price := o_price od,
       init_trigger_price := Some (o_trigger_price od), init_average_price := Some
       (o_average_price od), init_pending_quantity := o_pending_quantity od,
       init_filled_quantity := Some (o_filled_quantity od), init_cancelled_quantity := Some
       (o_cancelled_quantity od), init_disclosed_quantity := Some (o_disclosed_quantity od),
       init_validity := Some (o_validity od), init_status := o_status od, init_expires_in :=
       Some (o_expires_in od), init_timezone := Some (o_timezone od), init_client_id :=
       o_client_id od, init_convert_to_market_after_expiry := Some
       (o_convert_to_market_after_expiry od), init_cancel_after_expiry := Some
       (o_cancel_after_expiry od), init_retries := Some (o_retries od), init_max_modifications
       := Some (o_max_modifications od), init_exchange := o_exchange od, init_tag := o_tag od,
       init_connection := o_connection od, init_can_peg := Some (o_can_peg od), init_pseudo_id
       := o_pseudo_id od, init_strategy_id := o_strategy_id od, init_portfolio_id :=
       o_portfolio_id od, init_json := o_json od, init_error := o_error od, init_is_multi :=
       Some (o_is_multi od), init_last_updated_at := o_last_updated_at od\<rparr>)
       (o_clock od)"

end
