(* ===== verification/Parity_Order_Laws.thy ===== *)
theory Parity_Order_Laws
  imports Parity_Order
begin

text \<open>
  Laws of the operations of a parity order: what each leaves alone, how the filled quantity
  moves, what the broker is asked over a run of operations, and the database row.
\<close>

section \<open>The filled quantity\<close>

lemma clamp_filled_returned:
  "clamp_filled n od = Returned od' \<longleftrightarrow>
     o_filled_quantity od \<le> o_quantity od
     \<and> od' = od\<lparr>o_filled_quantity := max (o_filled_quantity od) (min n (o_quantity od))\<rparr>"
  by (auto simp: clamp_filled_def Let_def min_def max_def)

lemma clamp_filled_panics:
  "clamp_filled n od = Panicked \<longleftrightarrow> o_quantity od < o_filled_quantity od"
  by (auto simp: clamp_filled_def Let_def)

text \<open>The quantity a message reports as filled, when it reports one.\<close>

definition reported_fill :: "('n, 'f, 'd) codec \<Rightarrow> 'n args \<Rightarrow> i64 option" where
  "reported_fill c data =
     (case data ''filled_quantity'' of None \<Rightarrow> None | Some v \<Rightarrow> as_i64 c v)"

definition clamped_to :: "('n, 'd) order \<Rightarrow> i64 option \<Rightarrow> i64" where
  "clamped_to od n = (case n of None \<Rightarrow> o_filled_quantity od
     | Some n \<Rightarrow> max (o_filled_quantity od) (min n (o_quantity od)))"

lemma clamped_to_bounds:
  "o_filled_quantity od \<le> clamped_to od n"
  "o_filled_quantity od \<le> o_quantity od \<Longrightarrow> clamped_to od n \<le> o_quantity od"
  by (auto simp: clamped_to_def split: option.splits)


section \<open>What an operation leaves alone\<close>

text \<open>What no message of \<open>update\<close> and no keyword of \<open>modify\<close> changes.\<close>

definition same_core :: "('n, 'd) order \<Rightarrow> ('n, 'd) order \<Rightarrow> bool" where
  "same_core od od' \<longleftrightarrow>
     o_order_id od' = o_order_id od \<and> o_max_modifications od' = o_max_modifications od
     \<and> o_num_modifications od' = o_num_modifications od
     \<and> o_symbol od' = o_symbol od \<and> o_side od' = o_side od
     \<and> o_connection od' = o_connection od \<and> o_lock od' = o_lock od \<and> o_clock od' = o_clock od"

lemma same_core_refl [simp, intro]: "same_core od od"
  by (simp add: same_core_def)

lemma same_core_trans: "same_core a b \<Longrightarrow> same_core b c \<Longrightarrow> same_core a c"
  by (simp add: same_core_def)

lemma set_from_value_core:
  assumes "set_from_value c k v od = Returned od'"
  shows "same_core od od' \<and> o_quantity od' = o_quantity od
    \<and> o_cancelled_quantity od' = o_cancelled_quantity od
    \<and> (k \<noteq> ''filled_quantity'' \<longrightarrow> o_filled_quantity od' = o_filled_quantity od)
    \<and> (k \<noteq> ''status'' \<longrightarrow> o_status od' = o_status od)"
  using assms
  by (auto simp: set_from_value_def same_core_def clamp_filled_returned
      split: if_splits option.splits)

lemma set_from_value_filled:
  "set_from_value c ''filled_quantity'' v od = Returned od' \<Longrightarrow>
   o_filled_quantity od' = clamped_to od (as_i64 c v)"
  by (auto simp: set_from_value_def clamped_to_def clamp_filled_returned split: option.splits)

lemma set_from_value_returns:
  "k \<noteq> ''filled_quantity'' \<or> o_filled_quantity od \<le> o_quantity od \<Longrightarrow>
   \<exists>od'. set_from_value c k v od = Returned od'"
  by (auto simp: set_from_value_def clamp_filled_def Let_def split: option.splits)

lemma set_attrs_core:
  assumes "set_attrs c data ks od = Returned od'"
  shows "same_core od od' \<and> o_quantity od' = o_quantity od
    \<and> o_cancelled_quantity od' = o_cancelled_quantity od
    \<and> (''filled_quantity'' \<notin> set ks \<longrightarrow> o_filled_quantity od' = o_filled_quantity od)
    \<and> (''status'' \<notin> set ks \<or> data ''status'' = None \<longrightarrow> o_status od' = o_status od)"
  using assms
proof (induction ks arbitrary: od)
  case (Cons k ks)
  show ?case
  proof (cases "data k = None \<or> (\<exists>v. data k = Some v \<and> is_null v)")
    case True
    then have "set_attrs c data ks od = Returned od'" using Cons.prems by (auto split: option.splits)
    from Cons.IH [OF this] show ?thesis by auto
  next
    case False
    then obtain v od1 where v: "data k = Some v" and s: "set_from_value c k v od = Returned od1"
      and r: "set_attrs c data ks od1 = Returned od'" using Cons.prems by auto
    from Cons.IH [OF r] set_from_value_core [OF s] v show ?thesis
      by (auto intro: same_core_trans)
  qed
qed simp

lemma set_attrs_append:
  "set_attrs c data (ks @ ls) od = and_then (set_attrs c data ks od) (set_attrs c data ls)"
proof (induction ks arbitrary: od)
  case (Cons k ks)
  show ?case
  proof (cases "data k = None \<or> (\<exists>v. data k = Some v \<and> is_null v)")
    case True
    then show ?thesis by (auto simp: Cons.IH)
  next
    case False
    then obtain v where "data k = Some v" "\<not> is_null v" by auto
    then show ?thesis by (cases "set_from_value c k v od") (simp_all add: Cons.IH)
  qed
qed simp

lemma set_attrs_returns:
  "o_filled_quantity od \<le> o_quantity od \<Longrightarrow> \<exists>od'. set_attrs c data ks od = Returned od'"
proof (induction ks arbitrary: od)
  case (Cons k ks)
  show ?case
  proof (cases "data k = None \<or> (\<exists>v. data k = Some v \<and> is_null v)")
    case True
    then show ?thesis using Cons by (auto split: option.splits)
  next
    case False
    then obtain v where v: "data k = Some v" "\<not> is_null v" by auto
    obtain od1 where s: "set_from_value c k v od = Returned od1"
      using set_from_value_returns Cons.prems by blast
    have "o_filled_quantity od1 \<le> o_quantity od1"
      using set_from_value_core [OF s] set_from_value_filled [of c v od od1] s Cons.prems
        clamped_to_bounds(2) [of od "as_i64 c v"] by (cases "k = ''filled_quantity''") auto
    from Cons.IH [OF this] v s show ?thesis by auto
  qed
qed simp

lemma update_attrs_split:
  "update_attrs = [''exchange_timestamp'', ''exchange_order_id'', ''status'']
     @ ''filled_quantity'' # [''pending_quantity'', ''disclosed_quantity'', ''average_price'']"
  by (simp add: update_attrs_def)

lemma set_attrs_filled:
  assumes "set_attrs c data update_attrs od = Returned od'"
  shows "o_filled_quantity od' = clamped_to od (reported_fill c data)"
proof -
  let ?a = "[''exchange_timestamp'', ''exchange_order_id'', ''status'']"
  let ?b = "[''pending_quantity'', ''disclosed_quantity'', ''average_price'']"
  obtain od1 where a: "set_attrs c data ?a od = Returned od1"
    and b: "set_attrs c data (''filled_quantity'' # ?b) od1 = Returned od'"
    using assms unfolding update_attrs_split set_attrs_append by auto
  have same: "o_filled_quantity od1 = o_filled_quantity od" "o_quantity od1 = o_quantity od"
    using set_attrs_core [OF a] by auto
  show ?thesis
  proof (cases "\<exists>v. data ''filled_quantity'' = Some v \<and> \<not> is_null v")
    case True
    then obtain v od2 where v: "data ''filled_quantity'' = Some v"
      and s: "set_from_value c ''filled_quantity'' v od1 = Returned od2"
      and r: "set_attrs c data ?b od2 = Returned od'" using b by auto
    have "o_filled_quantity od' = o_filled_quantity od2" using set_attrs_core [OF r] by auto
    then show ?thesis
      using set_from_value_filled [OF s] same v
      by (simp add: reported_fill_def clamped_to_def split: option.splits)
  next
    case False
    then have r: "set_attrs c data ?b od1 = Returned od'" using b by (auto split: option.splits)
    have "reported_fill c data = None"
      using False by (auto simp: reported_fill_def split: option.splits)
    then show ?thesis using set_attrs_core [OF r] same by (auto simp: clamped_to_def)
  qed
qed


section \<open>Update\<close>

lemma order_update_filled:
  assumes "order_update c e data od calls = Returned (b, od', calls')"
  shows "o_quantity od' = o_quantity od \<and> o_cancelled_quantity od' = o_cancelled_quantity od
    \<and> same_core od od' \<and> (data ''status'' = None \<longrightarrow> o_status od' = o_status od)
    \<and> o_filled_quantity od'
      = (if order_done od then o_filled_quantity od else clamped_to od (reported_fill c data))"
proof (cases "order_done od")
  case True
  then show ?thesis using assms by (simp add: order_update_def)
next
  case False
  then obtain od1 where s: "set_attrs c data update_attrs od = Returned od1"
    and od': "o_quantity od' = o_quantity od1" "o_cancelled_quantity od' = o_cancelled_quantity od1"
      "same_core od1 od'" "o_status od' = o_status od1"
      "o_filled_quantity od' = o_filled_quantity od1"
    using assms by (auto simp: order_update_def Let_def same_core_def)
  show ?thesis using set_attrs_core [OF s] set_attrs_filled [OF s] od' False
    by (auto intro: same_core_trans)
qed

lemma order_update_returns:
  "o_filled_quantity od \<le> o_quantity od \<Longrightarrow>
   \<exists>b od' calls'. order_update c e data od calls = Returned (b, od', calls')"
  using set_attrs_returns [of od c data update_attrs]
  by (auto simp: order_update_def Let_def)

text \<open>A sequence of messages, each with the environment it is processed in.\<close>

primrec update_all ::
  "('n, 'f, 'd) codec \<Rightarrow> ('n env \<times> 'n args) list \<Rightarrow> ('n, 'd) order \<Rightarrow> 'n broker_call list
     \<Rightarrow> (('n, 'd) order \<times> 'n broker_call list) attempt" where
  "update_all c [] od calls = Returned (od, calls)"
| "update_all c (m # ms) od calls =
     and_then (order_update c (fst m) (snd m) od calls)
       (\<lambda>(_, od, calls). update_all c ms od calls)"

definition better_fill :: "('n, 'f, 'd) codec \<Rightarrow> i64 \<Rightarrow> 'n args \<Rightarrow> i64 \<Rightarrow> i64" where
  "better_fill c q data f =
     (case reported_fill c data of None \<Rightarrow> f | Some n \<Rightarrow> max f (min n q))"

lemma better_fill_commute: "better_fill c q x \<circ> better_fill c q y = better_fill c q y \<circ> better_fill c q x"
  by (auto simp: better_fill_def fun_eq_iff split: option.splits)

text \<open>An order that only fills: nothing cancelled, no closing status.\<close>

definition only_filling :: "('n, 'd) order \<Rightarrow> bool" where
  "only_filling od \<longleftrightarrow>
     o_cancelled_quantity od = 0 \<and> o_filled_quantity od \<le> o_quantity od
     \<and> is_i64 (o_filled_quantity od) \<and> is_i64 (o_quantity od)
     \<and> o_status od \<notin> {Some ''COMPLETE'', Some ''CANCELED'', Some ''CANCELLED'', Some ''REJECTED''}"

lemma only_filling_done:
  "only_filling od \<Longrightarrow> order_done od \<longleftrightarrow> o_filled_quantity od = o_quantity od"
  by (auto simp: only_filling_def order_done_def order_complete_def)

lemma only_filling_update:
  assumes "only_filling od" and "data ''status'' = None"
    and "order_update c e data od calls = Returned (b, od', calls')"
  shows "only_filling od' \<and> o_quantity od' = o_quantity od
    \<and> o_filled_quantity od' = better_fill c (o_quantity od) data (o_filled_quantity od)"
proof -
  note u = order_update_filled [OF assms(3)]
  have f: "o_filled_quantity od' = better_fill c (o_quantity od) data (o_filled_quantity od)"
    using u only_filling_done [OF assms(1)] assms(1)
    by (auto simp: better_fill_def clamped_to_def only_filling_def split: option.splits if_splits)
  have "o_filled_quantity od \<le> o_filled_quantity od'" "o_filled_quantity od' \<le> o_quantity od"
    unfolding f using assms(1) by (auto simp: better_fill_def only_filling_def split: option.splits)
  then have "is_i64 (o_filled_quantity od')"
    using assms(1) by (auto simp: only_filling_def is_i64_def)
  then show ?thesis
    using u f assms(1,2) \<open>o_filled_quantity od' \<le> o_quantity od\<close> by (simp add: only_filling_def)
qed

lemma update_all_filled:
  assumes "only_filling od" and "\<forall>m \<in> set ms. snd m ''status'' = None"
  shows "\<exists>od' calls'. update_all c ms od calls = Returned (od', calls')
    \<and> o_quantity od' = o_quantity od
    \<and> o_filled_quantity od'
      = fold (better_fill c (o_quantity od)) (map snd ms) (o_filled_quantity od)"
  using assms
proof (induction ms arbitrary: od calls)
  case (Cons m ms)
  have "o_filled_quantity od \<le> o_quantity od" using Cons.prems by (simp add: only_filling_def)
  then obtain b od1 calls1
    where u: "order_update c (fst m) (snd m) od calls = Returned (b, od1, calls1)"
    using order_update_returns by blast
  have o1: "only_filling od1" "o_quantity od1 = o_quantity od"
      "o_filled_quantity od1 = better_fill c (o_quantity od) (snd m) (o_filled_quantity od)"
    using only_filling_update [OF Cons.prems(1) _ u] Cons.prems(2) by auto
  show ?case using Cons.IH [OF o1(1), of calls1] Cons.prems(2) o1(2,3) u by simp
qed simp


section \<open>A run of operations\<close>

datatype 'n order_op =
    UpdateOp "'n args"
  | ExecuteOp "string list option" "'n args"
  | ModifyOp "string list option" "'n kwargs"
  | CancelOp "string list option"
  | LockOp int rat

fun order_step ::
  "('n, 'f, 'd) codec \<Rightarrow> 'n broker \<Rightarrow> 'n env \<Rightarrow> 'n order_op
     \<Rightarrow> ('n, 'd) order \<times> 'n broker_call list \<Rightarrow> (('n, 'd) order \<times> 'n broker_call list) attempt" where
  "order_step c b e (UpdateOp data) (od, calls) =
     and_then (order_update c e data od calls) (\<lambda>(_, s). Returned s)"
| "order_step c b e (ExecuteOp attribs kwargs) (od, calls) =
     Returned (snd (order_execute c e b attribs kwargs od calls))"
| "order_step c b e (ModifyOp attribs kwargs) (od, calls) =
     order_modify c e b attribs kwargs od calls"
| "order_step c b e (CancelOp attribs) (od, calls) =
     Returned (od, order_cancel c e b attribs od calls)"
| "order_step c b e (LockOp code seconds) (od, calls) =
     and_then (add_lock e code seconds od) (\<lambda>od. Returned (od, calls))"

primrec order_ops_run ::
  "('n, 'f, 'd) codec \<Rightarrow> 'n broker \<Rightarrow> ('n env \<times> 'n order_op) list
     \<Rightarrow> ('n, 'd) order \<times> 'n broker_call list \<Rightarrow> (('n, 'd) order \<times> 'n broker_call list) attempt" where
  "order_ops_run c b [] s = Returned s"
| "order_ops_run c b (x # xs) s = and_then (order_step c b (fst x) (snd x) s) (order_ops_run c b xs)"

text \<open>
  The protocol a broker sees, as an automaton over the calls: nothing but placements until one
  is answered with an identifier, then no placement again, and every cancellation names that
  identifier. With \<open>own\<close> every modification names it too. The result is the identifier the calls
  end with, \<open>None\<close> when they break it.
\<close>

definition names_order :: "'n args \<Rightarrow> string \<Rightarrow> bool" where
  "names_order a x \<longleftrightarrow> (case a ''order_id'' of Some (JString y) \<Rightarrow> x = y | _ \<Rightarrow> False)"

fun protocol :: "bool \<Rightarrow> string option \<Rightarrow> 'n broker_call list \<Rightarrow> string option option" where
  "protocol own s [] = Some s"
| "protocol own s (UpsertCall _ _ # cs) = protocol own s cs"
| "protocol own None (PlaceCall _ r # cs) = protocol own r cs"
| "protocol own (Some x) (ModifyCall a # cs) =
     (if own \<longrightarrow> names_order a x then protocol own (Some x) cs else None)"
| "protocol own (Some x) (CancelCall a # cs) =
     (if names_order a x then protocol own (Some x) cs else None)"
| "protocol own _ _ = None"

text \<open>
  No caller of \<open>modify\<close> passes an \<open>order_id\<close> of its own. One that does overrides the identifier of
  the order in the arguments, and the broker is asked to modify another order.
\<close>

definition own_modify :: "'n order_op \<Rightarrow> bool" where
  "own_modify x = (case x of ModifyOp _ kwargs \<Rightarrow> ''order_id'' \<notin> fst ` set kwargs | _ \<Rightarrow> True)"

definition own_modifies :: "('n env \<times> 'n order_op) list \<Rightarrow> bool" where
  "own_modifies xs = list_all (\<lambda>x. own_modify (snd x)) xs"

lemma protocol_append:
  "protocol own s (xs @ ys) =
     (case protocol own s xs of None \<Rightarrow> None | Some t \<Rightarrow> protocol own t ys)"
  by (induction own s xs rule: protocol.induct) auto

fun is_modify :: "'n broker_call \<Rightarrow> bool" where
  "is_modify (ModifyCall _) = True"
| "is_modify _ = False"

definition modifications :: "'n broker_call list \<Rightarrow> nat" where
  "modifications cs = length (filter is_modify cs)"

text \<open>What one operation appends to the calls and does to the order's identifier and budget.\<close>

definition step_effect ::
  "bool \<Rightarrow> ('n, 'd) order \<Rightarrow> 'n broker_call list \<Rightarrow> ('n, 'd) order \<Rightarrow> 'n broker_call list \<Rightarrow> bool" where
  "step_effect own od calls od' calls' \<longleftrightarrow>
     (\<exists>new. calls' = calls @ new
        \<and> protocol own (o_order_id od) new = Some (o_order_id od')
        \<and> o_max_modifications od' = o_max_modifications od
        \<and> o_num_modifications od' = o_num_modifications od + int (modifications new)
        \<and> (modifications new = 0 \<or> o_num_modifications od' \<le> o_max_modifications od))"

lemma step_effectI:
  assumes "calls' = calls @ new" and "protocol own (o_order_id od) new = Some (o_order_id od')"
    and "o_max_modifications od' = o_max_modifications od"
    and "o_num_modifications od' = o_num_modifications od + int (modifications new)"
    and "modifications new = 0 \<or> o_num_modifications od' \<le> o_max_modifications od"
  shows "step_effect own od calls od' calls'"
  using assms by (auto simp: step_effect_def)

lemma step_effect_refl: "same_core od od' \<Longrightarrow> step_effect own od calls od' calls"
  by (rule step_effectI [of _ _ "[]"]) (auto simp: same_core_def modifications_def)

lemma step_effect_trans:
  assumes "step_effect own a xs b ys" and "step_effect own b ys d zs"
  shows "step_effect own a xs d zs"
proof -
  obtain new1 where 1: "ys = xs @ new1" "protocol own (o_order_id a) new1 = Some (o_order_id b)"
      "o_max_modifications b = o_max_modifications a"
      "o_num_modifications b = o_num_modifications a + int (modifications new1)"
      "modifications new1 = 0 \<or> o_num_modifications b \<le> o_max_modifications a"
    using assms(1) by (auto simp: step_effect_def)
  obtain new2 where 2: "zs = ys @ new2" "protocol own (o_order_id b) new2 = Some (o_order_id d)"
      "o_max_modifications d = o_max_modifications b"
      "o_num_modifications d = o_num_modifications b + int (modifications new2)"
      "modifications new2 = 0 \<or> o_num_modifications d \<le> o_max_modifications b"
    using assms(2) by (auto simp: step_effect_def)
  show ?thesis
    by (rule step_effectI [of _ _ "new1 @ new2"])
       (use 1 2 in \<open>auto simp: protocol_append modifications_def\<close>)
qed

lemma saved_calls: "\<exists>new. saved c e od calls = calls @ new \<and> (\<forall>s. protocol own s new = Some s)
    \<and> modifications new = 0"
  by (auto simp: saved_def save_to_db_def Let_def modifications_def split: option.splits
      intro: exI [of _ "[]"])

lemma get_attr_order_id [simp]: "get_attr c od ''order_id'' = map_option JString (o_order_id od)"
  by (simp add: get_attr_def attr_table_def)

lemma other_args_order_id:
  "get_other_args_from_attribs c od xs ys ''order_id'' \<in> {None, map_option JString (o_order_id od)}"
  by (auto simp: get_other_args_from_attribs_def split: option.splits)

lemma set_local_field_core:
  "set_local_field c k v od = Returned od' \<Longrightarrow> same_core od od'"
  by (auto simp: set_local_field_def same_core_def clamp_filled_returned
      split: if_splits option.splits)

lemma apply_kwargs_core:
  "apply_kwargs c kw od add = Returned (od', add') \<Longrightarrow> same_core od od'"
proof (induction kw arbitrary: od add)
  case (Cons kv kw)
  obtain k v where kv: "kv = (k, v)" by (cases kv)
  show ?case
  proof (cases "k \<notin> set frozen_attrs \<and> get_attr c od k \<noteq> None")
    case True
    then obtain od1 add1 where s: "set_local_field c k v od = Returned od1"
      and r: "apply_kwargs c kw od1 add1 = Returned (od', add')"
      using Cons.prems kv by auto
    show ?thesis using set_local_field_core [OF s] Cons.IH [OF r] by (rule same_core_trans)
  next
    case False
    then show ?thesis using Cons.prems kv Cons.IH by (auto split: if_splits)
  qed
qed simp

lemma apply_kwargs_adds:
  "apply_kwargs c kw od add = Returned (od', add') \<Longrightarrow> k \<notin> fst ` set kw \<Longrightarrow> add' k = add k"
  by (induction kw arbitrary: od add) (auto split: prod.splits if_splits)

lemma modify_args_order_id:
  assumes "apply_kwargs c kwargs od Map.empty = Returned (od1, add)"
    and "''order_id'' \<notin> fst ` set kwargs" and "o_order_id od1 = Some x"
  shows "names_order (modify_args c (get_other_args_from_attribs c od ys attribs) add kwargs od1) x"
proof -
  have "o_order_id od = Some x"
    using apply_kwargs_core [OF assms(1)] assms(3) by (simp add: same_core_def)
  moreover have "map_of kwargs ''order_id'' = None" using assms(2) by (simp add: map_of_eq_None_iff)
  moreover have "modify_defaults c od1 ''order_id'' = Some (JString x)"
    using assms(3) by (simp add: modify_defaults_def row_opt_def)
  ultimately have "modify_args c (get_other_args_from_attribs c od ys attribs) add kwargs od1
      ''order_id'' = Some (JString x)"
    using apply_kwargs_adds [OF assms(1,2)] other_args_order_id [of c od ys attribs]
    by (auto simp: modify_args_def map_add_def restrict_map_def split: option.splits)
  then show ?thesis by (simp add: names_order_def)
qed

lemma update_effect:
  assumes "order_update c e data od calls = Returned (b, od', calls')"
  shows "step_effect own od calls od' calls'"
proof -
  have core: "same_core od od'" using order_update_filled [OF assms] by simp
  obtain odx where "calls' = calls \<or> calls' = saved c e odx calls"
    using assms by (auto simp: order_update_def Let_def split: if_splits)
  then obtain new where "calls' = calls @ new" "\<forall>s. protocol own s new = Some s"
      "modifications new = 0"
    using saved_calls [of c e odx calls] by (auto simp: modifications_def intro: that [of "[]"])
  then show ?thesis using core by (intro step_effectI) (auto simp: same_core_def)
qed

lemma saved_effect: "step_effect own od calls od (saved c e odx calls)"
proof -
  obtain new where "saved c e odx calls = calls @ new" "\<forall>s. protocol own s new = Some s"
      "modifications new = 0" using saved_calls [of c e odx calls] by auto
  then show ?thesis by (intro step_effectI) auto
qed

lemma execute_effect:
  assumes "order_execute c e b attribs kwargs od calls = (ret, od', calls')"
  shows "step_effect own od calls od' calls'"
proof (cases "order_complete od \<or> o_order_id od \<noteq> None")
  case True
  then show ?thesis using assms by (auto simp: order_execute_def intro: step_effect_refl)
next
  case False
  then obtain args where od': "od' = od\<lparr>o_order_id := ret\<rparr>"
    and calls': "calls' = saved c e od' (calls @ [PlaceCall args ret])"
    using assms by (auto simp: order_execute_def Let_def)
  have "step_effect own od calls od' (calls @ [PlaceCall args ret])"
    by (rule step_effectI [OF refl]) (use False od' in \<open>auto simp: modifications_def\<close>)
  then show ?thesis unfolding calls' using saved_effect by (rule step_effect_trans)
qed

lemma modify_effect:
  assumes "order_modify c e b attribs kwargs od calls = Returned (od', calls')"
    and own: "own \<longrightarrow> ''order_id'' \<notin> fst ` set kwargs"
  shows "step_effect own od calls od' calls'"
proof (cases "can_modify (clock_now e (lock_clock (o_lock od))) (o_lock od)")
  case True
  then obtain od1 add where a: "apply_kwargs c kwargs od Map.empty = Returned (od1, add)"
    using assms by (auto simp: order_modify_def Let_def)
  note core = apply_kwargs_core [OF a]
  show ?thesis
  proof (cases "o_num_modifications od1 < o_max_modifications od1 \<and> o_order_id od1 \<noteq> None")
    case False
    then have "od' = od1 \<and> calls' = calls"
      using assms a True by (auto simp: order_modify_def Let_def split: if_splits)
    then show ?thesis using core by (simp add: step_effect_refl)
  next
    case go: True
    let ?args = "modify_args c (get_other_args_from_attribs c od (attribs_to_copy_modify b) attribs)
      add kwargs od1"
    have od': "od' = od1\<lparr>o_num_modifications := o_num_modifications od1 + 1\<rparr>"
      and calls': "calls' = saved c e od' (calls @ [ModifyCall ?args])"
      using assms(1) a True go by (auto simp: order_modify_def Let_def split: if_splits)
    from go obtain x where "o_order_id od1 = Some x" by auto
    with modify_args_order_id [OF a] own have n: "own \<longrightarrow> names_order ?args (the (o_order_id od1))" by simp
    have "step_effect own od calls od' (calls @ [ModifyCall ?args])"
      by (rule step_effectI [OF refl]) (use go core od' n in \<open>auto simp: modifications_def same_core_def\<close>)
    then show ?thesis unfolding calls' using saved_effect by (rule step_effect_trans)
  qed
next
  case False
  then show ?thesis using assms by (auto simp: order_modify_def intro: step_effect_refl)
qed

lemma cancel_effect: "step_effect own od calls od (order_cancel c e b attribs od calls)"
proof (cases "can_cancel (clock_now e (lock_clock (o_lock od))) (o_lock od) \<and> o_order_id od \<noteq> None")
  case True
  then obtain oid where oid: "o_order_id od = Some oid" by auto
  let ?a = "[''order_id'' \<mapsto> JString oid]
    ++ get_other_args_from_attribs c od (attribs_to_copy_cancel b) attribs"
  have "?a ''order_id'' = Some (JString oid)"
    using other_args_order_id [of c od "attribs_to_copy_cancel b" attribs] oid
    by (auto simp: map_add_def)
  then have "names_order ?a oid" by (simp add: names_order_def)
  then show ?thesis
    by (intro step_effectI [of _ _ "[CancelCall ?a]"])
       (use True oid in \<open>auto simp: order_cancel_def modifications_def\<close>)
next
  case False
  then show ?thesis by (auto simp: order_cancel_def intro: step_effect_refl split: option.splits)
qed

lemma order_step_effect:
  assumes "order_step c b e x (od, calls) = Returned (od', calls')" and "own \<longrightarrow> own_modify x"
  shows "step_effect own od calls od' calls'"
proof (cases x)
  case (UpdateOp data)
  then show ?thesis using assms by (auto intro: update_effect)
next
  case (ExecuteOp attribs kwargs)
  then show ?thesis using assms by (auto intro: execute_effect simp: prod_eq_iff)
next
  case (ModifyOp attribs kwargs)
  then show ?thesis using assms by (intro modify_effect) (auto simp: own_modify_def)
next
  case (CancelOp attribs)
  then show ?thesis using assms cancel_effect by auto
next
  case (LockOp code seconds)
  then have "calls' = calls" "o_order_id od' = o_order_id od"
      "o_max_modifications od' = o_max_modifications od"
      "o_num_modifications od' = o_num_modifications od"
    using assms by (auto simp: add_lock_def Let_def split: if_splits)
  then show ?thesis by (intro step_effectI [of _ _ "[]"]) (auto simp: modifications_def)
qed

lemma order_run_effect:
  "order_ops_run c b xs (od, calls) = Returned (od', calls') \<Longrightarrow> own \<longrightarrow> own_modifies xs \<Longrightarrow>
    step_effect own od calls od' calls'"
proof (induction xs arbitrary: od calls)
  case Nil
  then show ?case by (simp add: step_effect_refl)
next
  case (Cons x xs)
  then obtain od1 calls1
    where s: "order_step c b (fst x) (snd x) (od, calls) = Returned (od1, calls1)"
      and r: "order_ops_run c b xs (od1, calls1) = Returned (od', calls')" by auto
  have "own \<longrightarrow> own_modify (snd x)" and "own \<longrightarrow> own_modifies xs"
    using Cons.prems(2) by (auto simp: own_modifies_def)
  from order_step_effect [OF s this(1)] Cons.IH [OF r this(2)] show ?case
    by (rule step_effect_trans)
qed

end
