(* ===== verification/Parity_Compound.thy ===== *)
theory Parity_Compound
  imports Parity_Order_Laws "HOL-Library.AList"
begin

text \<open>
  \<open>compound_order.rs\<close> and \<open>order_strategy.rs\<close>: a basket of orders with its index and key
  maps, its aggregates and its fan-out operations, and the strategy over several baskets. A
  \<open>HashMap\<close> the code aggregates into is an association list with one entry per key.
\<close>

section \<open>Hash maps as association lists\<close>

definition entry_add :: "('v \<Rightarrow> 'v \<Rightarrow> 'v) \<Rightarrow> 'v \<Rightarrow> 'k \<Rightarrow> 'v \<Rightarrow> ('k \<times> 'v) list \<Rightarrow> ('k \<times> 'v) list" where
  "entry_add f z k v m = AList.update k (f (unwrap_or z (map_of m k)) v) m"

text \<open>The same with an addition that may panic.\<close>

definition entry_try ::
  "('v \<Rightarrow> 'v \<Rightarrow> 'v attempt) \<Rightarrow> 'v \<Rightarrow> 'k \<Rightarrow> 'v \<Rightarrow> ('k \<times> 'v) list \<Rightarrow> ('k \<times> 'v) list attempt" where
  "entry_try f z k v m =
     and_then (f (unwrap_or z (map_of m k)) v) (\<lambda>w. Returned (AList.update k w m))"

lemma map_of_entry_add:
  "map_of (entry_add f z k v m) k'
   = (if k' = k then Some (f (unwrap_or z (map_of m k)) v) else map_of m k')"
  by (simp add: entry_add_def update_conv')

lemma distinct_entry_add:
  "distinct (map fst m) \<Longrightarrow> distinct (map fst (entry_add f z k v m))"
  by (simp add: entry_add_def distinct_update)


section \<open>Compound orders\<close>

text \<open>
  The \<open>run_fn\<close> of a basket is a closure; here it is the name of one, and \<open>run\<close> of the
  strategy takes what the names stand for.
\<close>

record ('n, 'f, 'd) compound =
  co_broker :: "'n broker option"
  co_id :: string
  co_ltp :: "(string \<times> 'f) list"
  co_orders :: "('n, 'd) order list"
  co_connection :: "db_ref option"
  co_order_args :: "'n args"
  co_run_fn :: "nat option"
  co_index :: "(i64 \<times> nat) list"
  co_keys :: "(string \<times> nat) list"
  co_clock :: clock_ref

datatype compound_error =
    IndexAlreadyUsed i64
  | KeyAlreadyUsed string
  | InvalidOrder string

definition compound_with_clock :: "string \<Rightarrow> clock_ref \<Rightarrow> ('n, 'f, 'd) compound" where
  "compound_with_clock uuid clock =
     \<lparr> co_broker = None, co_id = uuid, co_ltp = [], co_orders = [], co_connection = None,
       co_order_args = Map.empty, co_run_fn = None, co_index = [], co_keys = [],
       co_clock = clock \<rparr>"

definition compound_set_clock :: "clock_ref \<Rightarrow> ('n, 'f, 'd) compound \<Rightarrow> ('n, 'f, 'd) compound" where
  "compound_set_clock clock co =
     co\<lparr>co_clock := clock, co_orders := map (set_clock clock) (co_orders co)\<rparr>"

definition with_orders ::
  "('n, 'd) order list \<Rightarrow> ('n, 'f, 'd) compound \<Rightarrow> ('n, 'f, 'd) compound" where
  "with_orders orders co =
     foldl (\<lambda>co (i, od). co\<lparr>co_orders := co_orders co @ [od],
                          co_index := AList.update (int i) i (co_index co)\<rparr>)
       co (enumerate 0 orders)"

definition compound_count :: "('n, 'f, 'd) compound \<Rightarrow> nat" where
  "compound_count co = length (co_orders co)"

definition get_next_index :: "('n, 'f, 'd) compound \<Rightarrow> i64" where
  "get_next_index co =
     (if co_index co = [] then 0 else i64_add (Max (fst ` set (co_index co))) 1)"

definition order_at :: "('n, 'f, 'd) compound \<Rightarrow> nat \<Rightarrow> ('n, 'd) order option" where
  "order_at co pos = (if pos < length (co_orders co) then Some (co_orders co ! pos) else None)"

definition get_by_index :: "('n, 'f, 'd) compound \<Rightarrow> i64 \<Rightarrow> ('n, 'd) order option" where
  "get_by_index co idx =
     (case map_of (co_index co) idx of None \<Rightarrow> None | Some pos \<Rightarrow> order_at co pos)"

definition get_by_key :: "('n, 'f, 'd) compound \<Rightarrow> string \<Rightarrow> ('n, 'd) order option" where
  "get_by_key co key =
     (case map_of (co_keys co) key of None \<Rightarrow> None | Some pos \<Rightarrow> order_at co pos)"

text \<open>\<open>str::parse::<i64>\<close>: an optional sign, then decimal digits, in range.\<close>

definition digit_val :: "char \<Rightarrow> nat" where
  "digit_val ch = of_char ch - 48"

definition is_digit :: "char \<Rightarrow> bool" where
  "is_digit ch \<longleftrightarrow> CHR ''0'' \<le> ch \<and> ch \<le> CHR ''9''"

definition digits_val :: "string \<Rightarrow> nat" where
  "digits_val s = foldl (\<lambda>n ch. 10 * n + digit_val ch) 0 s"

definition parse_i64 :: "string \<Rightarrow> i64 option" where
  "parse_i64 s =
     (let neg = (s \<noteq> [] \<and> hd s = CHR ''-'');
          ds = (if s \<noteq> [] \<and> (hd s = CHR ''-'' \<or> hd s = CHR ''+'') then tl s else s);
          v = (if neg then - int (digits_val ds) else int (digits_val ds))
      in if ds \<noteq> [] \<and> list_all is_digit ds \<and> is_i64 v then Some v else None)"

definition compound_get :: "('n, 'f, 'd) compound \<Rightarrow> string \<Rightarrow> ('n, 'd) order option" where
  "compound_get co key =
     (case get_by_key co key of Some od \<Rightarrow> Some od
      | None \<Rightarrow> (case parse_i64 key of Some n \<Rightarrow> get_by_index co n | None \<Rightarrow> None))"


subsection \<open>Aggregates\<close>

definition side_sign :: "('n, 'd) order \<Rightarrow> int" where
  "side_sign od = (if eq_ignore_case (o_side od) ''sell'' then -1 else 1)"

definition compound_positions :: "('n, 'f, 'd) compound \<Rightarrow> (string \<times> i64) list" where
  "compound_positions co =
     foldl (\<lambda>out od. entry_add i64_add 0 (o_symbol od)
              (i64_mul (o_filled_quantity od) (side_sign od)) out) [] (co_orders co)"

definition total_quantity ::
  "('n, 'f, 'd) compound \<Rightarrow> (string \<times> i64) list \<times> (string \<times> i64) list" where
  "total_quantity co =
     foldl (\<lambda>(buy, sell) od.
         let q = i64_abs (o_filled_quantity od); side = to_lowercase (o_side od) in
         if q = 0 then (buy, sell)
         else if side = ''buy'' then (entry_add i64_add 0 (o_symbol od) q buy, sell)
         else if side = ''sell'' then (buy, entry_add i64_add 0 (o_symbol od) q sell)
         else (buy, sell))
       ([], []) (co_orders co)"

definition compound_average_price ::
  "('n, 'f, 'd::zero) codec \<Rightarrow> string \<Rightarrow> ('n, 'f, 'd) compound \<Rightarrow> (string \<times> 'd) list attempt" where
  "compound_average_price c side_filter co =
     and_then
       (fold_attempt (\<lambda>od (value, quantity).
            if to_lowercase (o_side od) \<noteq> side_filter \<or> o_filled_quantity od = 0
            then Returned (value, quantity)
            else let qty = decimal_of_i64 c (o_filled_quantity od) in
              and_then (decimal_mul c (o_average_price od) qty) (\<lambda>v.
              and_then (entry_try (decimal_add c) 0 (o_symbol od) v value) (\<lambda>value.
              and_then (entry_try (decimal_add c) 0 (o_symbol od) qty quantity) (\<lambda>quantity.
                Returned (value, quantity)))))
          (co_orders co) ([], []))
       (\<lambda>(value, quantity).
          fold_attempt (\<lambda>(symb, v) out.
              case map_of quantity symb of None \<Rightarrow> Returned out
              | Some q \<Rightarrow>
                  if decimal_less c 0 q
                  then and_then (decimal_div c v q) (\<lambda>p. Returned (AList.update symb p out))
                  else Returned out)
            value [])"

definition compound_update_ltp ::
  "(string \<times> 'f) list \<Rightarrow> ('n, 'f, 'd) compound \<Rightarrow> ('n, 'f, 'd) compound" where
  "compound_update_ltp last_price co =
     co\<lparr>co_ltp := foldl (\<lambda>m (k, v). AList.update k v m) (co_ltp co) last_price\<rparr>"

definition net_value ::
  "('n, 'f, 'd::zero) codec \<Rightarrow> ('n, 'f, 'd) compound \<Rightarrow> (string \<times> 'd) list attempt" where
  "net_value c co =
     fold_attempt (\<lambda>od m.
         if o_filled_quantity od > 0
         then and_then (decimal_mul c (decimal_of_i64 c (o_filled_quantity od)) (o_average_price od))
           (\<lambda>v. and_then (decimal_mul c v (decimal_of_i64 c (side_sign od)))
           (\<lambda>v. entry_try (decimal_add c) 0 (o_symbol od) v m))
         else Returned m)
       (co_orders co) []"

definition mtm ::
  "('n, 'f, 'd::zero) codec \<Rightarrow> ('n, 'f, 'd) compound \<Rightarrow> (string \<times> 'd) list attempt" where
  "mtm c co =
     and_then (net_value c co) (\<lambda>cost.
     and_then (fold_attempt (\<lambda>(symb, v) m. entry_try (decimal_sub c) 0 symb v m) cost []) (\<lambda>m.
       fold_attempt (\<lambda>(symb, qty) m.
           case map_of (co_ltp co) symb of None \<Rightarrow> Returned m
           | Some ltp \<Rightarrow> (case decimal_of_f64 c ltp of None \<Rightarrow> Returned m
               | Some d \<Rightarrow> and_then (decimal_mul c (decimal_of_i64 c qty) d)
                   (\<lambda>v. entry_try (decimal_add c) 0 symb v m)))
         (compound_positions co) m))"

definition total_mtm :: "('n, 'f, 'd::zero) codec \<Rightarrow> ('n, 'f, 'd) compound \<Rightarrow> 'd attempt" where
  "total_mtm c co = and_then (mtm c co) (\<lambda>m. decimal_sum c (map snd m))"

definition completed_orders :: "('n, 'f, 'd) compound \<Rightarrow> ('n, 'd) order list" where
  "completed_orders co = filter order_complete (co_orders co)"

definition pending_orders :: "('n, 'f, 'd) compound \<Rightarrow> ('n, 'd) order list" where
  "pending_orders co = filter order_pending (co_orders co)"


subsection \<open>Adding orders\<close>

text \<open>The two occupancy checks, and the entry of an accepted order.\<close>

definition slot_error ::
  "i64 \<Rightarrow> string option \<Rightarrow> ('n, 'f, 'd) compound \<Rightarrow> compound_error option" where
  "slot_error idx key co =
     (if map_of (co_index co) idx \<noteq> None then Some (IndexAlreadyUsed idx)
      else case key of None \<Rightarrow> None
        | Some k \<Rightarrow> if map_of (co_keys co) k \<noteq> None then Some (KeyAlreadyUsed k) else None)"

definition insert_order ::
  "i64 \<Rightarrow> string option \<Rightarrow> ('n, 'd) order \<Rightarrow> ('n, 'f, 'd) compound \<Rightarrow> ('n, 'f, 'd) compound" where
  "insert_order idx key od co =
     (let position = length (co_orders co) in
      co\<lparr>co_orders := co_orders co @ [od],
         co_index := AList.update idx position (co_index co),
         co_keys := (case key of None \<Rightarrow> co_keys co
                     | Some k \<Rightarrow> AList.update k position (co_keys co))\<rparr>)"

definition add_order ::
  "('n, 'f, 'd::zero) codec \<Rightarrow> 'n env \<Rightarrow> string \<Rightarrow> ('n, 'd) order_init \<Rightarrow> i64 option
     \<Rightarrow> string option \<Rightarrow> ('n, 'f, 'd) compound \<Rightarrow> 'n broker_call list
     \<Rightarrow> ((compound_error + string) \<times> ('n, 'f, 'd) compound \<times> 'n broker_call list) attempt" where
  "add_order c e uuid ini index key co calls =
     (let ini = ini\<lparr>init_parent_id := Some (co_id co)\<rparr>;
          ini = (if init_connection ini = None
                 then ini\<lparr>init_connection := co_connection co\<rparr> else ini);
          idx = (case index of Some i \<Rightarrow> i | None \<Rightarrow> get_next_index co) in
      case slot_error idx key co of
        Some err \<Rightarrow> Returned (Inl err, co, calls)
      | None \<Rightarrow> and_then (from_init_with_clock e uuid ini (co_clock co)) (\<lambda>od.
          Returned (Inr (the (o_id od)), insert_order idx key od co,
                    snd (save_to_db c e od calls))))"

text \<open>The cast of a finite \<open>f64\<close> to \<open>i64\<close> truncates and saturates.\<close>

definition cast_i64 :: "rat \<Rightarrow> i64" where
  "cast_i64 x = max (- (2 ^ 63)) (min (2 ^ 63 - 1) (truncate_rat x))"

definition compound_add ::
  "('n, 'f, 'd) codec \<Rightarrow> 'n env \<Rightarrow> string \<Rightarrow> ('n, 'd) order \<Rightarrow> rat option
     \<Rightarrow> string option \<Rightarrow> ('n, 'f, 'd) compound \<Rightarrow> 'n broker_call list
     \<Rightarrow> (compound_error + string) \<times> ('n, 'f, 'd) compound \<times> 'n broker_call list" where
  "compound_add c e uuid od index key co calls =
     (let od = od\<lparr>o_parent_id := Some (co_id co)\<rparr>;
          od = (if o_connection od = None then od\<lparr>o_connection := co_connection co\<rparr> else od);
          od = (if o_id od = None then od\<lparr>o_id := Some uuid\<rparr> else od);
          idx = (case index of Some f \<Rightarrow> cast_i64 f | None \<Rightarrow> get_next_index co) in
      case slot_error idx key co of
        Some err \<Rightarrow> (Inl err, co, calls)
      | None \<Rightarrow> (Inr (the (o_id od)), insert_order idx key od co, snd (save_to_db c e od calls)))"


subsection \<open>Fan-out\<close>

primrec update_positions ::
  "('n, 'f, 'd) codec \<Rightarrow> 'n env \<Rightarrow> (string \<rightharpoonup> 'n args) \<Rightarrow> nat list \<Rightarrow> ('n, 'd) order list
     \<Rightarrow> 'n broker_call list \<Rightarrow> (string \<times> bool) list
     \<Rightarrow> ((string \<times> bool) list \<times> ('n, 'd) order list \<times> 'n broker_call list) attempt" where
  "update_positions c e data [] orders calls out = Returned (out, orders, calls)"
| "update_positions c e data (pos # ps) orders calls out =
     (case o_order_id (orders ! pos) of
        None \<Rightarrow> update_positions c e data ps orders calls out
      | Some oid \<Rightarrow>
          (case data oid of
             None \<Rightarrow> update_positions c e data ps orders calls out
           | Some upd \<Rightarrow> and_then (order_update c e upd (orders ! pos) calls) (\<lambda>(ok, od, calls).
               update_positions c e data ps (orders[pos := od]) calls
                 (AList.update oid ok out))))"

definition update_orders ::
  "('n, 'f, 'd) codec \<Rightarrow> 'n env \<Rightarrow> (string \<rightharpoonup> 'n args) \<Rightarrow> ('n, 'f, 'd) compound
     \<Rightarrow> 'n broker_call list
     \<Rightarrow> ((string \<times> bool) list \<times> ('n, 'f, 'd) compound \<times> 'n broker_call list) attempt" where
  "update_orders c e data co calls =
     (let pending = filter (\<lambda>i. order_pending (co_orders co ! i)) [0..<length (co_orders co)] in
      and_then (update_positions c e data pending (co_orders co) calls [])
        (\<lambda>(out, orders, calls). Returned (out, co\<lparr>co_orders := orders\<rparr>, calls)))"

primrec execute_each ::
  "('n, 'f, 'd) codec \<Rightarrow> 'n env \<Rightarrow> 'n broker \<Rightarrow> 'n args \<Rightarrow> ('n, 'd) order list
     \<Rightarrow> 'n broker_call list \<Rightarrow> ('n, 'd) order list \<times> 'n broker_call list" where
  "execute_each c e b merged [] calls = ([], calls)"
| "execute_each c e b merged (od # ods) calls =
     (let (_, od, calls) = order_execute c e b None merged od calls;
          (ods, calls) = execute_each c e b merged ods calls
      in (od # ods, calls))"

definition execute_all ::
  "('n, 'f, 'd) codec \<Rightarrow> 'n env \<Rightarrow> 'n args \<Rightarrow> ('n, 'f, 'd) compound \<Rightarrow> 'n broker_call list
     \<Rightarrow> ('n, 'f, 'd) compound \<times> 'n broker_call list" where
  "execute_all c e kwargs co calls =
     (case co_broker co of None \<Rightarrow> (co, calls)
      | Some b \<Rightarrow>
          let (ods, calls) = execute_each c e b (co_order_args co ++ kwargs) (co_orders co) calls
          in (co\<lparr>co_orders := ods\<rparr>, calls))"

definition check_order_flags ::
  "('n, 'f, 'd::zero) codec \<Rightarrow> 'n env \<Rightarrow> 'n broker \<Rightarrow> ('n, 'd) order \<Rightarrow> 'n broker_call list
     \<Rightarrow> (('n, 'd) order \<times> 'n broker_call list) attempt" where
  "check_order_flags c e b od calls =
     (if order_pending od \<and> has_expired e od
      then if o_convert_to_market_after_expiry od
           then order_modify c e b None []
                  (od\<lparr>o_order_type := ''MARKET'', o_price := None, o_trigger_price := 0\<rparr>) calls
           else if o_cancel_after_expiry od
           then Returned (od, order_cancel c e b None od calls)
           else Returned (od, calls)
      else Returned (od, calls))"

primrec check_each ::
  "('n, 'f, 'd::zero) codec \<Rightarrow> 'n env \<Rightarrow> 'n broker \<Rightarrow> ('n, 'd) order list
     \<Rightarrow> 'n broker_call list \<Rightarrow> (('n, 'd) order list \<times> 'n broker_call list) attempt" where
  "check_each c e b [] calls = Returned ([], calls)"
| "check_each c e b (od # ods) calls =
     and_then (check_order_flags c e b od calls) (\<lambda>(od, calls).
       and_then (check_each c e b ods calls) (\<lambda>(ods, calls). Returned (od # ods, calls)))"

definition check_flags ::
  "('n, 'f, 'd::zero) codec \<Rightarrow> 'n env \<Rightarrow> ('n, 'f, 'd) compound \<Rightarrow> 'n broker_call list
     \<Rightarrow> (('n, 'f, 'd) compound \<times> 'n broker_call list) attempt" where
  "check_flags c e co calls =
     (case co_broker co of None \<Rightarrow> Returned (co, calls)
      | Some b \<Rightarrow> and_then (check_each c e b (co_orders co) calls)
          (\<lambda>(ods, calls). Returned (co\<lparr>co_orders := ods\<rparr>, calls)))"

primrec save_each ::
  "('n, 'f, 'd) codec \<Rightarrow> 'n env \<Rightarrow> ('n, 'd) order list \<Rightarrow> 'n broker_call list
     \<Rightarrow> nat \<times> 'n broker_call list" where
  "save_each c e [] calls = (0, calls)"
| "save_each c e (od # ods) calls =
     (let (ok, calls) = save_to_db c e od calls; (n, calls) = save_each c e ods calls
      in (if ok then n + 1 else n, calls))"

definition compound_save ::
  "('n, 'f, 'd) codec \<Rightarrow> 'n env \<Rightarrow> ('n, 'f, 'd) compound \<Rightarrow> 'n broker_call list
     \<Rightarrow> nat \<times> 'n broker_call list" where
  "compound_save c e co calls = save_each c e (co_orders co) calls"


section \<open>Strategies\<close>

record ('n, 'f, 'd) strategy =
  st_broker :: "'n broker option"
  st_id :: string
  st_ltp :: "(string \<times> 'f) list"
  st_orders :: "('n, 'f, 'd) compound list"
  st_clock :: clock_ref

definition strategy_with_clock :: "string \<Rightarrow> clock_ref \<Rightarrow> ('n, 'f, 'd) strategy" where
  "strategy_with_clock uuid clock =
     \<lparr> st_broker = None, st_id = uuid, st_ltp = [], st_orders = [], st_clock = clock \<rparr>"

definition strategy_with_orders ::
  "('n, 'f, 'd) compound list \<Rightarrow> ('n, 'f, 'd) strategy \<Rightarrow> ('n, 'f, 'd) strategy" where
  "strategy_with_orders orders st =
     st\<lparr>st_orders := map (compound_set_clock (st_clock st)) orders\<rparr>"

definition strategy_positions :: "('n, 'f, 'd) strategy \<Rightarrow> (string \<times> i64) list" where
  "strategy_positions st =
     foldl (\<lambda>out co. foldl (\<lambda>out (symb, qty). entry_add i64_add 0 symb qty out) out
         (compound_positions co)) [] (st_orders st)"

definition strategy_update_ltp ::
  "(string \<times> 'f) list \<Rightarrow> ('n, 'f, 'd) strategy \<Rightarrow> ('n, 'f, 'd) strategy" where
  "strategy_update_ltp last_price st =
     st\<lparr>st_ltp := foldl (\<lambda>m (k, v). AList.update k v m) (st_ltp st) last_price,
        st_orders := map (compound_update_ltp last_price) (st_orders st)\<rparr>"

primrec update_compounds ::
  "('n, 'f, 'd) codec \<Rightarrow> 'n env \<Rightarrow> (string \<rightharpoonup> 'n args) \<Rightarrow> ('n, 'f, 'd) compound list
     \<Rightarrow> 'n broker_call list \<Rightarrow> (('n, 'f, 'd) compound list \<times> 'n broker_call list) attempt" where
  "update_compounds c e data [] calls = Returned ([], calls)"
| "update_compounds c e data (co # rest) calls =
     and_then (update_orders c e data co calls) (\<lambda>(_, co, calls).
       and_then (update_compounds c e data rest calls) (\<lambda>(rest, calls). Returned (co # rest, calls)))"

definition strategy_update_orders ::
  "('n, 'f, 'd) codec \<Rightarrow> 'n env \<Rightarrow> (string \<rightharpoonup> 'n args) \<Rightarrow> ('n, 'f, 'd) strategy
     \<Rightarrow> 'n broker_call list \<Rightarrow> (('n, 'f, 'd) strategy \<times> 'n broker_call list) attempt" where
  "strategy_update_orders c e data st calls =
     and_then (update_compounds c e data (st_orders st) calls)
       (\<lambda>(rest, calls). Returned (st\<lparr>st_orders := rest\<rparr>, calls))"

definition strategy_mtm ::
  "('n, 'f, 'd::zero) codec \<Rightarrow> ('n, 'f, 'd) strategy \<Rightarrow> (string \<times> 'd) list attempt" where
  "strategy_mtm c st =
     fold_attempt (\<lambda>co out. and_then (mtm c co) (\<lambda>m.
         fold_attempt (\<lambda>(symb, v) out. entry_try (decimal_add c) 0 symb v out) m out))
       (st_orders st) []"

definition strategy_total_mtm :: "('n, 'f, 'd::zero) codec \<Rightarrow> ('n, 'f, 'd) strategy \<Rightarrow> 'd attempt" where
  "strategy_total_mtm c st = and_then (strategy_mtm c st) (\<lambda>m. decimal_sum c (map snd m))"

definition strategy_run ::
  "(nat \<Rightarrow> ('n, 'f, 'd) compound \<Rightarrow> (string \<times> 'f) list \<Rightarrow> ('n, 'f, 'd) compound)
     \<Rightarrow> (string \<times> 'f) list \<Rightarrow> ('n, 'f, 'd) strategy \<Rightarrow> ('n, 'f, 'd) strategy" where
  "strategy_run fns ltp st =
     st\<lparr>st_orders := map (\<lambda>co. case co_run_fn co of None \<Rightarrow> co | Some f \<Rightarrow> fns f co ltp)
          (st_orders st)\<rparr>"

definition strategy_add ::
  "('n, 'f, 'd) compound \<Rightarrow> ('n, 'f, 'd) strategy \<Rightarrow> ('n, 'f, 'd) strategy" where
  "strategy_add compound st =
     (let co = compound_set_clock (st_clock st) compound;
          co = (if st_broker st \<noteq> None \<and> co_broker co = None
                then co\<lparr>co_broker := st_broker st\<rparr> else co)
      in st\<lparr>st_orders := st_orders st @ [co]\<rparr>)"

primrec save_compounds ::
  "('n, 'f, 'd) codec \<Rightarrow> 'n env \<Rightarrow> ('n, 'f, 'd) compound list \<Rightarrow> 'n broker_call list
     \<Rightarrow> nat \<times> 'n broker_call list" where
  "save_compounds c e [] calls = (0, calls)"
| "save_compounds c e (co # rest) calls =
     (let (n, calls) = compound_save c e co calls; (m, calls) = save_compounds c e rest calls
      in (n + m, calls))"

definition strategy_save ::
  "('n, 'f, 'd) codec \<Rightarrow> 'n env \<Rightarrow> ('n, 'f, 'd) strategy \<Rightarrow> 'n broker_call list
     \<Rightarrow> nat \<times> 'n broker_call list" where
  "strategy_save c e st calls = save_compounds c e (st_orders st) calls"

end
