(* ===== verification/Parity_Compound_Laws.thy ===== *)
theory Parity_Compound_Laws
  imports Parity_Compound "HOL-Library.Multiset"
begin

text \<open>
  Laws of the baskets and strategies: hash-map aggregation as sums per key, positions and mark
  to market as sums over the orders, the index and key maps, and what a fan-out leaves alone.
\<close>

section \<open>Aggregation\<close>

text \<open>
  What a client of an accumulating hash map relies on: adding under a key moves the weighted
  sum of the values by the weighted amount, and the entry of a key is what was added under it.
\<close>

locale accumulator =
  fixes add :: "'k \<Rightarrow> 'v::comm_ring_1 \<Rightarrow> 'm \<Rightarrow> 'm"
    and entry :: "'m \<Rightarrow> 'k \<Rightarrow> 'v"
    and weigh :: "('k \<Rightarrow> 'v) \<Rightarrow> 'm \<Rightarrow> 'v"
    and valid :: "'m \<Rightarrow> bool"
  assumes entry_add_law: "entry (add k v m) k' = entry m k' + (if k = k' then v else 0)"
    and weigh_add_law: "valid m \<Longrightarrow> weigh w (add k v m) = weigh w m + v * w k"
    and valid_add: "valid m \<Longrightarrow> valid (add k v m)"
begin

lemma entry_fold:
  "entry (foldl (\<lambda>m x. add (f x) (g x) m) m xs) k
   = entry m k + sum_list (map (\<lambda>x. if f x = k then g x else 0) xs)"
  by (induction xs arbitrary: m) (auto simp: entry_add_law add.assoc)

lemma weigh_fold:
  "valid m \<Longrightarrow> weigh w (foldl (\<lambda>m x. add (f x) (g x) m) m xs)
     = weigh w m + sum_list (map (\<lambda>x. g x * w (f x)) xs)"
  by (induction xs arbitrary: m) (auto simp: weigh_add_law valid_add add.assoc)

lemma valid_fold: "valid m \<Longrightarrow> valid (foldl (\<lambda>m x. add (f x) (g x) m) m xs)"
  by (induction xs arbitrary: m) (auto simp: valid_add)

end

definition weighted :: "('k \<Rightarrow> 'v::comm_ring_1) \<Rightarrow> ('k \<times> 'v) list \<Rightarrow> 'v" where
  "weighted w m = sum_list (map (\<lambda>(k, v). v * w k) m)"

definition keyed :: "('k \<times> 'v) list \<Rightarrow> bool" where
  "keyed m \<longleftrightarrow> distinct (map fst m)"

lemma keyed_Nil [simp]: "keyed []"
  by (simp add: keyed_def)

lemma weighted_entry_add:
  "keyed m \<Longrightarrow> weighted w (entry_add (+) 0 k v m) = weighted w m + v * w k"
proof (induction m)
  case Nil
  then show ?case by (simp add: weighted_def entry_add_def)
next
  case (Cons a m)
  obtain k1 v1 where a: "a = (k1, v1)" by (cases a)
  have "keyed m" using Cons.prems by (simp add: keyed_def)
  show ?case
  proof (cases "k1 = k")
    case True
    then show ?thesis by (simp add: a weighted_def entry_add_def algebra_simps)
  next
    case False
    then have "entry_add (+) 0 k v (a # m) = a # entry_add (+) 0 k v m"
      by (simp add: a entry_add_def)
    then show ?thesis using Cons.IH [OF \<open>keyed m\<close>] by (simp add: weighted_def a algebra_simps)
  qed
qed

interpretation decimal_map: accumulator "entry_add (+) (0 :: 'v :: comm_ring_1)"
  "\<lambda>m k. unwrap_or 0 (map_of m k)" weighted keyed
  by unfold_locales
     (auto simp: map_of_entry_add weighted_entry_add keyed_def distinct_entry_add)

lemma weighted_sum: "sum_list (map snd m) = weighted (\<lambda>_. 1) m"
  by (simp add: weighted_def split_beta')

text \<open>Subtracting instead of adding under a key.\<close>

lemma entry_add_minus:
  "entry_add (-) 0 k v m = entry_add (+) (0 :: 'v :: comm_ring_1) k (- v) m"
  by (simp add: entry_add_def)


section \<open>Positions\<close>

text \<open>The entries of the \<open>i64\<close> map, reduced to the range, are the wrapped sums.\<close>

definition wrapped_entry :: "(string \<times> i64) list \<Rightarrow> string \<Rightarrow> i64" where
  "wrapped_entry m k = unwrap_or 0 (map_of m k)"

lemma wrapped_entry_add:
  "wrapped_entry (entry_add i64_add 0 k v m) k'
   = (if k' = k then wrap_i64 (wrapped_entry m k + v) else wrapped_entry m k')"
  by (simp add: wrapped_entry_def map_of_entry_add i64_add_def)

lemma wrapped_entry_fold:
  assumes "is_i64 (wrapped_entry m k)"
  shows "wrapped_entry (foldl (\<lambda>m x. entry_add i64_add 0 (f x) (g x) m) m xs) k
    = wrap_i64 (wrapped_entry m k + sum_list (map (\<lambda>x. if f x = k then g x else 0) xs))"
  using assms
proof (induction xs arbitrary: m)
  case (Cons x xs)
  have "is_i64 (wrapped_entry (entry_add i64_add 0 (f x) (g x) m) k)"
    using Cons.prems by (simp add: wrapped_entry_add)
  from Cons.IH [OF this] show ?case
    by (auto simp: wrapped_entry_add wrap_i64_add_left add.assoc)
qed simp

lemma wrapped_entry_pairs:
  assumes "keyed ps" and "is_i64 (wrapped_entry m k)"
  shows "wrapped_entry (foldl (\<lambda>m (symb, q). entry_add i64_add 0 symb q m) m ps) k
    = wrap_i64 (wrapped_entry m k + wrapped_entry ps k)"
proof -
  have "wrapped_entry (foldl (\<lambda>m (symb, q). entry_add i64_add 0 symb q m) m ps) k
      = wrap_i64 (wrapped_entry m k
          + sum_list (map (\<lambda>x. if fst x = k then snd x else 0) ps))"
    using wrapped_entry_fold [OF assms(2), of fst snd ps] by (simp add: split_beta')
  moreover have "sum_list (map (\<lambda>x. if fst x = k then snd x else 0) ps) = wrapped_entry ps k"
    using assms(1)
  proof (induction ps)
    case (Cons p ps)
    have z: "sum_list (map (\<lambda>x. if fst x = k then snd x else 0) ps) = 0" if "k \<notin> fst ` set ps"
      using that by (induction ps) auto
    show ?case
      using Cons z by (cases p) (auto simp: keyed_def wrapped_entry_def)
  qed (simp add: wrapped_entry_def)
  ultimately show ?thesis by simp
qed

lemma keyed_fold_i64:
  "keyed m \<Longrightarrow> keyed (foldl (\<lambda>m x. entry_add i64_add 0 (f x) (g x) m) m xs)"
  by (induction xs arbitrary: m) (simp_all add: keyed_def distinct_entry_add)

definition signed_fill :: "('n, 'd) order \<Rightarrow> int" where
  "signed_fill od = o_filled_quantity od * side_sign od"

definition symbol_fills :: "string \<Rightarrow> ('n, 'd) order list \<Rightarrow> int" where
  "symbol_fills symb ods = sum_list (map signed_fill (filter (\<lambda>od. o_symbol od = symb) ods))"

lemma sum_filter_if:
  "sum_list (map (\<lambda>x. if P x then f x else 0) xs) = sum_list (map f (filter P xs))"
  by (induction xs) simp_all

lemma wrap_sum_wrapped:
  "wrap_i64 (a + sum_list (map (\<lambda>x. wrap_i64 (f x)) xs)) = wrap_i64 (a + sum_list (map f xs))"
proof (induction xs arbitrary: a)
  case (Cons x xs)
  have "wrap_i64 (a + (wrap_i64 (f x) + sum_list (map (\<lambda>x. wrap_i64 (f x)) xs)))
      = wrap_i64 ((a + wrap_i64 (f x)) + sum_list (map f xs))"
    using Cons.IH [of "a + wrap_i64 (f x)"] by (simp add: add.assoc)
  also have "\<dots> = wrap_i64 (wrap_i64 (a + wrap_i64 (f x)) + sum_list (map f xs))"
    by (simp add: wrap_i64_add_left)
  also have "\<dots> = wrap_i64 (a + f x + sum_list (map f xs))"
    by (simp add: wrap_i64_add_right wrap_i64_add_left)
  finally show ?case by (simp add: add.assoc)
qed simp

lemma compound_positions_entry:
  "wrapped_entry (compound_positions co) symb = wrap_i64 (symbol_fills symb (co_orders co))"
proof -
  have "wrapped_entry (compound_positions co) symb
      = wrap_i64 (0 + sum_list (map (\<lambda>od. if o_symbol od = symb
          then i64_mul (o_filled_quantity od) (side_sign od) else 0) (co_orders co)))"
    unfolding compound_positions_def
    by (subst wrapped_entry_fold) (simp_all add: wrapped_entry_def is_i64_def)
  also have "\<dots> = wrap_i64 (0 + sum_list (map (\<lambda>od. wrap_i64 (signed_fill od))
      (filter (\<lambda>od. o_symbol od = symb) (co_orders co))))"
    by (simp add: sum_filter_if i64_mul_def signed_fill_def)
  finally show ?thesis by (simp only: wrap_sum_wrapped) (simp add: symbol_fills_def)
qed

lemma keyed_compound_positions: "keyed (compound_positions co)"
  unfolding compound_positions_def by (rule keyed_fold_i64) simp

lemma strategy_positions_entry:
  "wrapped_entry (strategy_positions st) symb
   = wrap_i64 (sum_list (map (\<lambda>co. symbol_fills symb (co_orders co)) (st_orders st)))"
proof -
  have "wrapped_entry (foldl (\<lambda>out co. foldl (\<lambda>out (symb, qty). entry_add i64_add 0 symb qty out)
            out (compound_positions co)) m cs) symb
      = wrap_i64 (wrapped_entry m symb
          + sum_list (map (\<lambda>co. symbol_fills symb (co_orders co)) cs))"
    if "is_i64 (wrapped_entry m symb)" for m and cs :: "('a, 'b, 'c) compound list"
    using that
  proof (induction cs arbitrary: m)
    case (Cons co cs)
    let ?m = "foldl (\<lambda>out (symb, qty). entry_add i64_add 0 symb qty out) m (compound_positions co)"
    have m: "wrapped_entry ?m symb
        = wrap_i64 (wrapped_entry m symb + wrap_i64 (symbol_fills symb (co_orders co)))"
      by (simp add: wrapped_entry_pairs [OF keyed_compound_positions Cons.prems]
          compound_positions_entry)
    then have "is_i64 (wrapped_entry ?m symb)" by simp
    from Cons.IH [OF this] show ?case
      unfolding m by (simp add: wrap_i64_add_left wrap_i64_add_right add.assoc)
  qed simp
  from this [of "[]" "st_orders st"] show ?thesis
    by (simp add: strategy_positions_def wrapped_entry_def is_i64_def)
qed



section \<open>Mark to market\<close>

definition weighted_i64 :: "('k \<Rightarrow> 'd::linordered_field) \<Rightarrow> ('k \<times> i64) list \<Rightarrow> 'd" where
  "weighted_i64 w m = sum_list (map (\<lambda>(k, v). of_int v * w k) m)"

lemma weighted_i64_add:
  "keyed m \<Longrightarrow> is_i64 (unwrap_or 0 (map_of m k) + v) \<Longrightarrow>
   weighted_i64 w (entry_add i64_add 0 k v m) = weighted_i64 w m + of_int v * w k"
proof (induction m)
  case Nil
  then show ?case by (simp add: weighted_i64_def entry_add_def i64_add_def)
next
  case (Cons a m)
  obtain k1 v1 where a: "a = (k1, v1)" by (cases a)
  have "keyed m" using Cons.prems by (simp add: keyed_def)
  show ?case
  proof (cases "k1 = k")
    case True
    then have "is_i64 (v1 + v)" using Cons.prems by (simp add: a)
    then show ?thesis using True
      by (simp add: a weighted_i64_def entry_add_def i64_add_def algebra_simps)
  next
    case False
    then have "entry_add i64_add 0 k v (a # m) = a # entry_add i64_add 0 k v m"
      by (simp add: a entry_add_def)
    then show ?thesis using Cons False \<open>keyed m\<close> by (simp add: weighted_i64_def a algebra_simps)
  qed
qed

lemma weighted_i64_fold:
  assumes "keyed m"
    and "\<forall>k. \<bar>wrapped_entry m k\<bar> + sum_list (map (\<lambda>x. \<bar>g x\<bar>) xs) < 2 ^ 63"
  shows "weighted_i64 w (foldl (\<lambda>m x. entry_add i64_add 0 (f x) (g x) m) m xs)
    = weighted_i64 w m + sum_list (map (\<lambda>x. of_int (g x) * w (f x)) xs)"
  using assms
proof (induction xs arbitrary: m)
  case (Cons x xs)
  let ?m = "entry_add i64_add 0 (f x) (g x) m"
  have nonneg: "0 \<le> sum_list (map (\<lambda>x. \<bar>g x\<bar>) xs)" by (rule sum_list_nonneg) auto
  have b: "\<bar>wrapped_entry m k\<bar> + \<bar>g x\<bar> + sum_list (map (\<lambda>x. \<bar>g x\<bar>) xs) < 2 ^ 63" for k
    using Cons.prems(2) by (simp add: add.assoc)
  have r: "is_i64 (wrapped_entry m (f x) + g x)"
    using b [of "f x"] nonneg by (simp add: is_i64_def abs_if split: if_splits)
  have "keyed ?m" using Cons.prems(1) by (simp add: keyed_def distinct_entry_add)
  moreover have "\<bar>wrapped_entry ?m k\<bar> + sum_list (map (\<lambda>x. \<bar>g x\<bar>) xs) < 2 ^ 63" for k
    using b [of k] r by (auto simp: wrapped_entry_add)
  ultimately have "weighted_i64 w (foldl (\<lambda>m x. entry_add i64_add 0 (f x) (g x) m) ?m xs)
      = weighted_i64 w ?m + sum_list (map (\<lambda>x. of_int (g x) * w (f x)) xs)"
    by (intro Cons.IH) auto
  moreover have "weighted_i64 w ?m = weighted_i64 w m + of_int (g x) * w (f x)"
    using r Cons.prems(1) by (intro weighted_i64_add) (simp_all add: wrapped_entry_def)
  ultimately show ?case by simp
qed simp

text \<open>The price the basket holds for a symbol, when it converts to a \<open>Decimal\<close>.\<close>

definition market_price ::
  "('n, 'f, 'd) codec \<Rightarrow> ('n, 'f, 'd) compound \<Rightarrow> string \<Rightarrow> rat option" where
  "market_price c co symb =
     (case map_of (co_ltp co) symb of None \<Rightarrow> None
      | Some ltp \<Rightarrow> map_option (decimal_rat c) (decimal_of_f64 c ltp))"

definition average_price :: "('n, 'f, 'd) codec \<Rightarrow> ('n, 'd) order \<Rightarrow> rat" where
  "average_price c od = decimal_rat c (o_average_price od)"

definition fill_mtm ::
  "('n, 'f, 'd) codec \<Rightarrow> ('n, 'f, 'd) compound \<Rightarrow> ('n, 'd) order \<Rightarrow> rat" where
  "fill_mtm c co od =
     of_int (signed_fill od) * (unwrap_or 0 (market_price c co (o_symbol od)) - average_price c od)"

text \<open>The aggregates in exact arithmetic: the specification of those of the code.\<close>

definition exact_net_value ::
  "('n, 'f, 'd) codec \<Rightarrow> ('n, 'f, 'd) compound \<Rightarrow> (string \<times> rat) list" where
  "exact_net_value c co =
     foldl (\<lambda>m od. entry_add (+) 0 (o_symbol od)
                 (of_int (o_filled_quantity od) * average_price c od * of_int (side_sign od)) m)
       [] (filter (\<lambda>od. 0 < o_filled_quantity od) (co_orders co))"

definition exact_mtm ::
  "('n, 'f, 'd) codec \<Rightarrow> ('n, 'f, 'd) compound \<Rightarrow> (string \<times> rat) list" where
  "exact_mtm c co =
     (let m = foldl (\<lambda>m (symb, v). entry_add (+) 0 symb (- v) m) [] (exact_net_value c co) in
      foldl (\<lambda>m (symb, qty). entry_add (+) 0 symb (of_int qty * the (market_price c co symb)) m) m
        (filter (\<lambda>(symb, qty). market_price c co symb \<noteq> None) (compound_positions co)))"

definition exact_total_mtm :: "('n, 'f, 'd) codec \<Rightarrow> ('n, 'f, 'd) compound \<Rightarrow> rat" where
  "exact_total_mtm c co = sum_list (map snd (exact_mtm c co))"

definition exact_strategy_mtm ::
  "('n, 'f, 'd) codec \<Rightarrow> ('n, 'f, 'd) compound list \<Rightarrow> (string \<times> rat) list" where
  "exact_strategy_mtm c baskets =
     foldl (\<lambda>out co. foldl (\<lambda>out (symb, v). entry_add (+) 0 symb v out) out (exact_mtm c co))
       [] baskets"

definition fills_fit :: "('n, 'd) order list \<Rightarrow> bool" where
  "fills_fit ods \<longleftrightarrow>
     list_all (\<lambda>od. 0 \<le> o_filled_quantity od) ods
     \<and> sum_list (map o_filled_quantity ods) < 2 ^ 63"

lemma keyed_net_value: "keyed (exact_net_value c co)"
  unfolding exact_net_value_def by (rule decimal_map.valid_fold) simp

lemma weighted_net_value:
  assumes "list_all (\<lambda>od. 0 \<le> o_filled_quantity od) (co_orders co)"
  shows "weighted w (exact_net_value c co)
    = sum_list (map (\<lambda>od. of_int (signed_fill od) * average_price c od * w (o_symbol od))
        (co_orders co))"
proof -
  have "weighted w (exact_net_value c co)
      = sum_list (map (\<lambda>od. of_int (o_filled_quantity od) * average_price c od
          * of_int (side_sign od) * w (o_symbol od))
          (filter (\<lambda>od. 0 < o_filled_quantity od) (co_orders co)))"
    unfolding exact_net_value_def
    by (subst decimal_map.weigh_fold) (simp_all add: weighted_def)
  also have "\<dots> = sum_list (map (\<lambda>od. of_int (signed_fill od) * average_price c od
      * w (o_symbol od)) (co_orders co))"
    unfolding sum_filter_if [symmetric]
  proof (intro arg_cong [where f = sum_list] map_cong refl)
    fix od
    assume "od \<in> set (co_orders co)"
    then have "0 < o_filled_quantity od \<or> o_filled_quantity od = 0"
      using assms by (auto simp: list_all_iff less_le)
    then show "(if 0 < o_filled_quantity od then of_int (o_filled_quantity od)
          * average_price c od * of_int (side_sign od) * w (o_symbol od) else 0)
        = of_int (signed_fill od) * average_price c od * w (o_symbol od)"
      by (auto simp: signed_fill_def algebra_simps)
  qed
  finally show ?thesis .
qed

lemma weighted_priced:
  "sum_list (map (\<lambda>(symb, qty). of_int qty * the (market_price c co symb))
      (filter (\<lambda>(symb, qty). market_price c co symb \<noteq> None) ps))
   = weighted_i64 (\<lambda>symb. unwrap_or 0 (market_price c co symb)) ps"
  by (induction ps) (auto simp: weighted_i64_def)

lemma keyed_mtm: "keyed (exact_mtm c co)"
  unfolding exact_mtm_def Let_def split_beta' by (intro decimal_map.valid_fold) simp

lemma weighted_positions:
  assumes "fills_fit (co_orders co)"
  shows "weighted_i64 w (compound_positions co)
    = sum_list (map (\<lambda>od. of_int (signed_fill od) * w (o_symbol od)) (co_orders co))"
proof -
  let ?g = "\<lambda>od. i64_mul (o_filled_quantity od) (side_sign od)"
  have fit: "is_i64 (signed_fill od) \<and> \<bar>signed_fill od\<bar> = o_filled_quantity od"
    if "od \<in> set (co_orders co)" for od
  proof -
    have "0 \<le> o_filled_quantity od" using assms that by (auto simp: fills_fit_def list_all_iff)
    moreover have "o_filled_quantity od \<le> sum_list (map o_filled_quantity (co_orders co))"
      using assms that by (intro member_le_sum_list) (auto simp: fills_fit_def list_all_iff)
    ultimately show ?thesis
      using assms by (auto simp: fills_fit_def signed_fill_def side_sign_def is_i64_def)
  qed
  have g: "map ?g (co_orders co) = map signed_fill (co_orders co)"
    using fit by (intro map_cong refl) (simp add: i64_mul_def signed_fill_def)
  have "map (\<lambda>od. \<bar>?g od\<bar>) (co_orders co) = map o_filled_quantity (co_orders co)"
    using fit by (intro map_cong refl) (simp add: i64_mul_def signed_fill_def)
  then have "sum_list (map (\<lambda>od. \<bar>?g od\<bar>) (co_orders co))
      = sum_list (map o_filled_quantity (co_orders co))" by (rule arg_cong)
  then have "weighted_i64 w (compound_positions co)
      = weighted_i64 w [] + sum_list (map (\<lambda>od. of_int (?g od) * w (o_symbol od)) (co_orders co))"
    unfolding compound_positions_def
    using assms by (intro weighted_i64_fold) (auto simp: wrapped_entry_def fills_fit_def)
  moreover have "map (\<lambda>od. of_int (?g od) * w (o_symbol od)) (co_orders co)
      = map (\<lambda>od. of_int (signed_fill od) * w (o_symbol od)) (co_orders co)"
    using fit by (intro map_cong refl) (simp add: i64_mul_def signed_fill_def)
  ultimately show ?thesis by (simp add: weighted_i64_def)
qed

lemma total_mtm_sum:
  assumes "fills_fit (co_orders co)"
  shows "exact_total_mtm c co = sum_list (map (fill_mtm c co) (co_orders co))"
proof -
  let ?m0 = "foldl (\<lambda>m (symb, v). entry_add (+) 0 symb (- v) m) [] (exact_net_value c co)"
  let ?w = "\<lambda>symb. unwrap_or 0 (market_price c co symb)"
  have m0: "keyed ?m0" "weighted (\<lambda>_. 1) ?m0 = - weighted (\<lambda>_. 1) (exact_net_value c co)"
    using decimal_map.valid_fold [of "[]" fst "\<lambda>x. - snd x" "exact_net_value c co"]
      decimal_map.weigh_fold [of "[]" "\<lambda>_. 1" fst "\<lambda>x. - snd x" "exact_net_value c co"]
    by (auto simp: weighted_def split_beta' uminus_sum_list_map comp_def)
  have "exact_total_mtm c co = weighted (\<lambda>_. 1) ?m0 + weighted_i64 ?w (compound_positions co)"
    unfolding exact_total_mtm_def weighted_sum exact_mtm_def Let_def
    using decimal_map.weigh_fold [OF m0(1), of "\<lambda>_. 1" fst
        "\<lambda>x. of_int (snd x) * the (market_price c co (fst x))"]
    by (simp add: weighted_priced [symmetric] split_beta')
  also have "\<dots> = - sum_list (map (\<lambda>od. of_int (signed_fill od) * average_price c od)
        (co_orders co))
      + sum_list (map (\<lambda>od. of_int (signed_fill od) * ?w (o_symbol od)) (co_orders co))"
    using assms
    by (simp add: m0(2) weighted_positions weighted_net_value fills_fit_def)
  also have "\<dots> = sum_list (map (fill_mtm c co) (co_orders co))"
    by (simp add: fill_mtm_def [abs_def] right_diff_distrib sum_list_subtractf)
  finally show ?thesis .
qed

lemma strategy_mtm_sum:
  "sum_list (map snd (exact_strategy_mtm c baskets)) = sum_list (map (exact_total_mtm c) baskets)"
proof -
  have "keyed (foldl (\<lambda>out co. foldl (\<lambda>out (symb, v). entry_add (+) 0 symb v out) out
          (exact_mtm c co)) m cs)
      \<and> weighted (\<lambda>_. 1) (foldl (\<lambda>out co. foldl (\<lambda>out (symb, v). entry_add (+) 0 symb v out) out
          (exact_mtm c co)) m cs) = weighted (\<lambda>_. 1) m + sum_list (map (exact_total_mtm c) cs)"
    if "keyed m" for m cs
    using that
  proof (induction cs arbitrary: m)
    case (Cons co cs)
    let ?m = "foldl (\<lambda>out (symb, v). entry_add (+) 0 symb v out) m (exact_mtm c co)"
    have "keyed ?m" "weighted (\<lambda>_. 1) ?m = weighted (\<lambda>_. 1) m + exact_total_mtm c co"
      using decimal_map.valid_fold [of m fst snd "exact_mtm c co"] Cons.prems
        decimal_map.weigh_fold [of m "\<lambda>_. 1" fst snd "exact_mtm c co"]
      by (auto simp: split_beta' exact_total_mtm_def)
    then show ?case using Cons.IH by (simp add: add.assoc)
  qed simp
  from this [of "[]" baskets] show ?thesis
    by (simp add: exact_strategy_mtm_def weighted_sum) (simp add: weighted_def)
qed

end
