(* ===== verification/Identifiers.thy ===== *)
theory Identifiers
  imports Prelude
begin

text \<open>
  Identity and value types of \<^verbatim>\<open>src/lifecycle.rs\<close> and \<^verbatim>\<open>src/execution.rs\<close>: the
  string newtypes with their derived order (they are keys of ordered maps), the order side and the
  deterministic client order id.
\<close>

datatype client_order_id = ClientOrderId (client_str: string)
datatype venue_order_id = VenueOrderId (venue_str: string)
datatype fill_id = FillId (fill_str: string)
datatype attempt_id = AttemptId (attempt_str: string)
datatype execution_scope = ExecutionScope (scope_str: string)
datatype ledger_id = LedgerId (ledger_scope: execution_scope) (ledger_market: string)
datatype side = BuyYes | SellYes

text \<open>The derived \<open>Ord\<close> of a newtype compares the string, bytewise.\<close>

instantiation client_order_id :: linorder
begin
definition less_eq_client_order_id :: "client_order_id \<Rightarrow> client_order_id \<Rightarrow> bool" where
  "less_eq_client_order_id a b = (client_str a \<le> client_str b)"
definition less_client_order_id :: "client_order_id \<Rightarrow> client_order_id \<Rightarrow> bool" where
  "less_client_order_id a b = (client_str a < client_str b)"
instance
  by intro_classes
    (auto simp: less_eq_client_order_id_def less_client_order_id_def intro: client_order_id.expand)
end

instantiation venue_order_id :: linorder
begin
definition less_eq_venue_order_id :: "venue_order_id \<Rightarrow> venue_order_id \<Rightarrow> bool" where
  "less_eq_venue_order_id a b = (venue_str a \<le> venue_str b)"
definition less_venue_order_id :: "venue_order_id \<Rightarrow> venue_order_id \<Rightarrow> bool" where
  "less_venue_order_id a b = (venue_str a < venue_str b)"
instance
  by intro_classes
    (auto simp: less_eq_venue_order_id_def less_venue_order_id_def intro: venue_order_id.expand)
end

instantiation fill_id :: linorder
begin
definition less_eq_fill_id :: "fill_id \<Rightarrow> fill_id \<Rightarrow> bool" where
  "less_eq_fill_id a b = (fill_str a \<le> fill_str b)"
definition less_fill_id :: "fill_id \<Rightarrow> fill_id \<Rightarrow> bool" where
  "less_fill_id a b = (fill_str a < fill_str b)"
instance
  by intro_classes
    (auto simp: less_eq_fill_id_def less_fill_id_def intro: fill_id.expand)
end

text \<open>
  \<open>ClientOrderId::as_str\<close> and its \<open>Display\<close> are both the wrapped string, the selector
  \<open>client_str\<close>. The deterministic id is \<open>market|strategy|seq\<close>.
\<close>

definition derive_client_order_id :: "string \<Rightarrow> string \<Rightarrow> u64 \<Rightarrow> client_order_id" where
  "derive_client_order_id market strategy seqno =
     ClientOrderId (market @ ''|'' @ strategy @ ''|'' @ show_nat seqno)"


section \<open>Decimal rendering is injective\<close>

lemma digit_char_inj: "a < 10 \<Longrightarrow> b < 10 \<Longrightarrow> digit_char a = digit_char b \<Longrightarrow> a = b"
  by (simp add: digit_char_def char_of_eq_iff take_bit_eq_mod)

lemma show_nat_nonempty [simp]: "show_nat n \<noteq> []" "[] \<noteq> show_nat n"
  by (subst show_nat.simps, simp)+

lemma show_nat_inj: "show_nat a = show_nat b \<Longrightarrow> a = b"
proof (induction a arbitrary: b rule: show_nat.induct)
  case (1 a)
  consider "a < 10" "b < 10" | "a < 10" "\<not> b < 10" | "\<not> a < 10" "b < 10" | "\<not> a < 10" "\<not> b < 10"
    by blast
  then show ?case
  proof cases
    case 1
    with "1.prems" show ?thesis by (auto simp: show_nat.simps [of a] show_nat.simps [of b] digit_char_inj)
  next
    case 2
    with "1.prems" show ?thesis by (auto simp: show_nat.simps [of a] show_nat.simps [of b])
  next
    case 3
    with "1.prems" show ?thesis by (auto simp: show_nat.simps [of a] show_nat.simps [of b])
  next
    case 4
    with "1.prems" have e: "show_nat (a div 10) = show_nat (b div 10)"
      and m: "digit_char (a mod 10) = digit_char (b mod 10)"
      by (auto simp: show_nat.simps [of a] show_nat.simps [of b])
    from "1.IH" [OF 4(1) e] m have "a div 10 = b div 10" "a mod 10 = b mod 10"
      by (auto dest: digit_char_inj [rotated 2])
    then show ?thesis by (metis mult_div_mod_eq)
  qed
qed

lemma split_at_bar:
  assumes "CHR ''|'' \<notin> set xs" and "CHR ''|'' \<notin> set ys"
    and "xs @ CHR ''|'' # us = ys @ CHR ''|'' # vs"
  shows "xs = ys \<and> us = vs"
  using assms
proof (induction xs arbitrary: ys)
  case Nil
  then show ?case by (cases ys) auto
next
  case (Cons x xs)
  then show ?case by (cases ys) auto
qed

lemma derive_injective:
  assumes "derive_client_order_id m s n = derive_client_order_id m' s' n'"
    and "CHR ''|'' \<notin> set m" "CHR ''|'' \<notin> set s" "CHR ''|'' \<notin> set m'" "CHR ''|'' \<notin> set s'"
  shows "m = m' \<and> s = s' \<and> n = n'"
proof -
  from assms(1) have "m @ CHR ''|'' # (s @ CHR ''|'' # show_nat n)
      = m' @ CHR ''|'' # (s' @ CHR ''|'' # show_nat n')"
    by (simp add: derive_client_order_id_def)
  from split_at_bar [OF assms(2,4) this] have "m = m'"
    and rest: "s @ CHR ''|'' # show_nat n = s' @ CHR ''|'' # show_nat n'" by auto
  with split_at_bar [OF assms(3,5) rest] show ?thesis by (auto intro: show_nat_inj)
qed

end
