(* ===== verification/Parity_Broker.thy ===== *)
theory Parity_Broker
  imports Parity_Compound Identifiers
begin

text \<open>
  \<open>broker.rs\<close> and \<open>brokers.rs\<close>: the default methods of the \<open>Broker\<close> trait over a broker's
  placements, the helpers they use, and \<open>Paper\<close>, the in-memory broker that echoes its calls.
\<close>

section \<open>Default methods\<close>

definition coerce_quantity :: "('n, 'f, 'd) codec \<Rightarrow> 'n json option \<Rightarrow> i64 option" where
  "coerce_quantity c v = (case v of
       Some (JNumber n) \<Rightarrow>
         (case number_i64 c n of Some i \<Rightarrow> Some i
          | None \<Rightarrow> map_option (f64_to_i64 c) (number_f64 c n))
     | Some (JString s) \<Rightarrow> parse_i64 s
     | _ \<Rightarrow> None)"

definition static_keys :: "string list" where
  "static_keys = [''quantity'', ''side'', ''symbol'', ''order_type'']"

text \<open>The named fields of a row, by the loop over \<open>keys_to_copy\<close>.\<close>

definition copied :: "(string \<Rightarrow> bool) \<Rightarrow> ('n json \<Rightarrow> bool) \<Rightarrow> 'n args \<Rightarrow> string list option \<Rightarrow> 'n args" where
  "copied skip keep row keys = (\<lambda>k.
     if k \<in> set (unwrap_or [] keys) \<and> \<not> skip k
     then (case row k of None \<Rightarrow> None | Some v \<Rightarrow> if keep v then Some v else None) else None)"

definition close_order_args ::
  "('n, 'f, 'd) codec \<Rightarrow> i64 \<Rightarrow> string \<Rightarrow> string list option \<Rightarrow> 'n args \<Rightarrow> 'n args \<Rightarrow> 'n args" where
  "close_order_args c quantity symb keys_to_copy keys_to_add position =
     keys_to_add
     ++ ([''quantity'' \<mapsto> json_i64 c (i64_abs quantity),
          ''side'' \<mapsto> JString (if quantity > 0 then ''sell'' else ''buy''),
          ''symbol'' \<mapsto> JString symb,
          ''order_type'' \<mapsto> JString ''MARKET'']
         ++ copied (\<lambda>k. k \<in> set static_keys) (\<lambda>v. \<not> is_null v) position keys_to_copy)"

definition place_call :: "'n broker \<Rightarrow> 'n args \<Rightarrow> 'n broker_call list \<Rightarrow> 'n broker_call list" where
  "place_call b args calls = calls @ [PlaceCall args (place_reply b calls args)]"

definition close_position ::
  "('n, 'f, 'd) codec \<Rightarrow> 'n broker \<Rightarrow> string list option \<Rightarrow> 'n args \<Rightarrow> (string \<Rightarrow> string) option
     \<Rightarrow> 'n args \<Rightarrow> 'n broker_call list \<Rightarrow> 'n broker_call list" where
  "close_position c b keys_to_copy keys_to_add transformer position calls =
     (case coerce_quantity c (position ''quantity'') of
        None \<Rightarrow> calls
      | Some quantity \<Rightarrow>
          if quantity = 0 then calls
          else (case (case position ''symbol'' of None \<Rightarrow> None | Some v \<Rightarrow> as_str v) of
                  None \<Rightarrow> calls
                | Some raw \<Rightarrow>
                    let symb = (case transformer of Some f \<Rightarrow> f raw | None \<Rightarrow> raw) in
                    place_call b
                      (close_order_args c quantity symb keys_to_copy keys_to_add position)
                      calls))"

text \<open>The rows are the argument, or the broker's own positions when the caller gives none.\<close>

definition close_all_positions ::
  "('n, 'f, 'd) codec \<Rightarrow> 'n broker \<Rightarrow> 'n args list \<Rightarrow> 'n args list option \<Rightarrow> string list option
     \<Rightarrow> 'n args option \<Rightarrow> (string \<Rightarrow> string) option \<Rightarrow> 'n broker_call list \<Rightarrow> 'n broker_call list" where
  "close_all_positions c b own positions keys_to_copy keys_to_add transformer calls =
     foldl (\<lambda>calls row. close_position c b keys_to_copy (unwrap_or Map.empty keys_to_add)
                transformer row calls)
       calls (unwrap_or own positions)"

definition terminal_statuses :: "string list" where
  "terminal_statuses = [''COMPLETE'', ''CANCELED'', ''REJECTED'']"

definition cancel_row ::
  "string list option \<Rightarrow> 'n args option \<Rightarrow> 'n args \<Rightarrow> 'n broker_call list \<Rightarrow> 'n broker_call list" where
  "cancel_row keys_to_copy keys_to_add row calls =
     (let status = (case row ''status'' of None \<Rightarrow> ''PENDING''
           | Some v \<Rightarrow> (case as_str v of None \<Rightarrow> ''PENDING'' | Some s \<Rightarrow> to_uppercase s)) in
      case row ''order_id'' of
        None \<Rightarrow> calls
      | Some oid \<Rightarrow>
          if is_null oid then calls
          else if status \<in> set terminal_statuses then calls
          else calls @ [CancelCall
                 ((copied (\<lambda>_. False) (\<lambda>_. True) row keys_to_copy
                    ++ unwrap_or Map.empty keys_to_add)(''order_id'' \<mapsto> oid))])"

definition cancel_all_orders ::
  "'n args list \<Rightarrow> string list option \<Rightarrow> 'n args option \<Rightarrow> 'n broker_call list \<Rightarrow> 'n broker_call list" where
  "cancel_all_orders own keys_to_copy keys_to_add calls =
     foldl (\<lambda>calls row. cancel_row keys_to_copy keys_to_add row calls) calls own"

definition order_record_from_dict ::
  "('n, 'f, 'd::zero) codec \<Rightarrow> 'n args \<Rightarrow> 'd order_record" where
  "order_record_from_dict c row =
     (let s = row_str row;
          dec = (\<lambda>k. case row k of
                   Some (JNumber n) \<Rightarrow> unwrap_or 0 (case number_f64 c n of None \<Rightarrow> None
                     | Some f \<Rightarrow> decimal_of_f64 c f)
                 | Some (JString x) \<Rightarrow> unwrap_or 0 (decimal_parse c x)
                 | _ \<Rightarrow> 0) in
      \<lparr> rec_symbol = s ''symbol'', rec_side = s ''side'', rec_quantity = dec ''quantity'',
        rec_price = dec ''price'', rec_trigger_price = dec ''trigger_price'',
        rec_average_price = dec ''average_price'' \<rparr>)"

definition get_positions_from_orders ::
  "('n, 'f, 'd::zero) codec \<Rightarrow> 'n args list \<Rightarrow> 'n kwargs
     \<Rightarrow> (string \<rightharpoonup> 'd basic_position) attempt" where
  "get_positions_from_orders c own filters =
     (let non_terminal = filter (\<lambda>row.
            unwrap_or '''' (row_str row ''status'') \<notin> {''CANCELED'', ''REJECTED''}) own
      in create_basic_positions_from_orders_dict c
           (map (order_record_from_dict c) (dict_filter non_terminal filters)))"

text \<open>\<open>rename\<close> runs over the dictionary in its iteration order; a later key wins a clash.\<close>

definition rename :: "'n kwargs \<Rightarrow> (string \<rightharpoonup> string) \<Rightarrow> 'n args" where
  "rename dct keys =
     extend_map Map.empty
       (map (\<lambda>(k, v). (case keys k of Some r \<Rightarrow> r | None \<Rightarrow> k, v)) dct)"


section \<open>The paper broker\<close>

record 'n paper =
  paper_orders :: "'n args list option"
  paper_trades :: "'n args list option"
  paper_positions :: "'n args list option"
  place_calls :: "'n args list"
  modify_calls :: "'n args list"
  cancel_calls :: "'n args list"

definition paper_new :: "'n paper" where
  "paper_new = \<lparr> paper_orders = None, paper_trades = None, paper_positions = None,
     place_calls = [], modify_calls = [], cancel_calls = [] \<rparr>"

definition paper_order_place :: "'n args \<Rightarrow> 'n paper \<Rightarrow> string option \<times> 'n paper" where
  "paper_order_place args p =
     (let p = p\<lparr>place_calls := place_calls p @ [args]\<rparr>
      in (Some (''PAPER-'' @ show_nat (length (place_calls p))), p))"

definition paper_order_modify :: "'n args \<Rightarrow> 'n paper \<Rightarrow> 'n paper" where
  "paper_order_modify args p = p\<lparr>modify_calls := modify_calls p @ [args]\<rparr>"

definition paper_order_cancel :: "'n args \<Rightarrow> 'n paper \<Rightarrow> 'n paper" where
  "paper_order_cancel args p = p\<lparr>cancel_calls := cancel_calls p @ [args]\<rparr>"

definition paper_view :: "'n args list option \<Rightarrow> 'n args list" where
  "paper_view x = unwrap_or [Map.empty] x"

text \<open>The paper broker after the calls it has received, and the broker it is to its client.\<close>

fun paper_call :: "'n broker_call \<Rightarrow> 'n paper \<Rightarrow> 'n paper" where
  "paper_call (PlaceCall args _) p = snd (paper_order_place args p)"
| "paper_call (ModifyCall args) p = paper_order_modify args p"
| "paper_call (CancelCall args) p = paper_order_cancel args p"
| "paper_call (UpsertCall _ _) p = p"

definition paper_after :: "'n broker_call list \<Rightarrow> 'n paper \<Rightarrow> 'n paper" where
  "paper_after calls p = foldl (\<lambda>p x. paper_call x p) p calls"

definition paper_broker :: "'n paper \<Rightarrow> 'n broker" where
  "paper_broker p =
     \<lparr> attribs_to_copy_execute = None, attribs_to_copy_modify = None,
       attribs_to_copy_cancel = None,
       place_reply = (\<lambda>calls args. fst (paper_order_place args (paper_after calls p))) \<rparr>"


section \<open>Brokers that never repeat an identifier\<close>

text \<open>
  The identifiers a broker answered in a log, and that the answers of a log are the broker's.
\<close>

fun placed_ids :: "'n broker_call list \<Rightarrow> string list" where
  "placed_ids [] = []"
| "placed_ids (PlaceCall _ (Some x) # cs) = x # placed_ids cs"
| "placed_ids (_ # cs) = placed_ids cs"

lemma placed_ids_append [simp]: "placed_ids (xs @ ys) = placed_ids xs @ placed_ids ys"
  by (induction xs rule: placed_ids.induct) simp_all

inductive answered :: "'n broker \<Rightarrow> 'n broker_call list \<Rightarrow> bool" for b where
  none: "answered b []"
| place: "answered b calls \<Longrightarrow> answered b (calls @ [PlaceCall args (place_reply b calls args)])"
| modify: "answered b calls \<Longrightarrow> answered b (calls @ [ModifyCall args])"
| cancel: "answered b calls \<Longrightarrow> answered b (calls @ [CancelCall args])"
| upsert: "answered b calls \<Longrightarrow> answered b (calls @ [UpsertCall row ok])"

locale fresh_broker =
  fixes b :: "'n broker"
  assumes fresh: "answered b calls \<Longrightarrow> place_reply b calls args = Some x
    \<Longrightarrow> x \<notin> set (placed_ids calls)"
begin

lemma ids_distinct: "answered b calls \<Longrightarrow> distinct (placed_ids calls)"
proof (induction rule: answered.induct)
  case (place calls args)
  then show ?case using fresh [of calls args] by (cases "place_reply b calls args") auto
qed simp_all

lemma answered_saved: "answered b calls \<Longrightarrow> answered b (saved c e od calls)"
  by (auto simp: saved_def save_to_db_def Let_def split: option.splits intro: answered.upsert)

lemma placed_ids_saved [simp]: "placed_ids (saved c e od calls) = placed_ids calls"
  by (auto simp: saved_def save_to_db_def Let_def split: option.splits)

lemma answered_execute:
  assumes "answered b calls"
    and "order_execute c e b attribs kwargs od calls = (ret, od', calls')"
  shows "answered b calls' \<and>
    placed_ids calls' = placed_ids calls
      @ (if o_order_id od = None then (case o_order_id od' of None \<Rightarrow> [] | Some x \<Rightarrow> [x]) else [])
    \<and> (o_order_id od \<noteq> None \<longrightarrow> o_order_id od' = o_order_id od)"
proof (cases "order_complete od \<or> o_order_id od \<noteq> None")
  case True
  then show ?thesis using assms by (auto simp: order_execute_def split: option.splits)
next
  case False
  define args where "args = execute_args c
    (get_other_args_from_attribs c od (attribs_to_copy_execute b) attribs) kwargs od"
  have od': "od' = od\<lparr>o_order_id := place_reply b calls args\<rparr>"
    and calls': "calls' = saved c e od' (calls @ [PlaceCall args (place_reply b calls args)])"
    using assms(2) False by (auto simp: order_execute_def Let_def args_def)
  show ?thesis
    using False answered.place [OF assms(1), of args]
    by (auto simp: calls' od' intro: answered_saved split: option.splits)
qed

lemma execute_each_ids:
  assumes "answered b calls" and "list_all (\<lambda>od. o_order_id od = None) ods"
    and "execute_each c e b merged ods calls = (ods', calls')"
  shows "answered b calls' \<and> placed_ids calls' = placed_ids calls @ List.map_filter o_order_id ods'"
  using assms
proof (induction ods arbitrary: calls ods' calls')
  case Nil
  then show ?case by (simp add: List.map_filter_def)
next
  case (Cons od ods)
  obtain ret od1 calls1 where x: "order_execute c e b None merged od calls = (ret, od1, calls1)"
    by (cases "order_execute c e b None merged od calls")
  obtain ods1 calls2 where r: "execute_each c e b merged ods calls1 = (ods1, calls2)"
    by (cases "execute_each c e b merged ods calls1")
  have eq: "ods' = od1 # ods1" "calls' = calls2" using Cons.prems(3) x r by auto
  have a: "answered b calls1 \<and> placed_ids calls1
      = placed_ids calls @ (case o_order_id od1 of None \<Rightarrow> [] | Some x \<Rightarrow> [x])"
    using answered_execute [OF Cons.prems(1) x] Cons.prems(2) by simp
  show ?case
    using Cons.IH [OF _ _ r] a Cons.prems(2)
    by (auto simp: eq List.map_filter_def split: option.splits)
qed

end

fun is_place :: "'n broker_call \<Rightarrow> bool" where
  "is_place (PlaceCall _ _) = True"
| "is_place _ = False"

lemma paper_after_places:
  "length (place_calls (paper_after calls p))
   = length (place_calls p) + length (filter is_place calls)"
proof (induction calls arbitrary: p)
  case (Cons x calls)
  then show ?case
    by (cases x) (simp_all add: paper_after_def paper_order_place_def paper_order_modify_def
        paper_order_cancel_def Let_def)
qed (simp add: paper_after_def)

lemma paper_reply:
  "place_reply (paper_broker p) calls args
   = Some (''PAPER-'' @ show_nat (Suc (length (place_calls p) + length (filter is_place calls))))"
  using paper_after_places [of calls p]
  by (simp add: paper_broker_def paper_order_place_def Let_def)

lemma paper_ids:
  "answered (paper_broker p) calls \<Longrightarrow>
   placed_ids calls = map (\<lambda>i. ''PAPER-'' @ show_nat (Suc (length (place_calls p) + i)))
     [0..<length (filter is_place calls)]"
  by (induction rule: answered.induct) (simp_all add: paper_reply)

interpretation paper: fresh_broker "paper_broker p" for p
proof
  fix calls :: "'a broker_call list" and args x
  assume a: "answered (paper_broker p) calls" and r: "place_reply (paper_broker p) calls args = Some x"
  show "x \<notin> set (placed_ids calls)"
    using r unfolding paper_ids [OF a] by (auto simp: paper_reply dest: show_nat_inj)
qed

end
