(* ===== verification/Parity_Row.thy ===== *)
theory Parity_Row
  imports Parity_Order
begin

text \<open>
  Saving an order and loading it back: every column of \<open>to_row\<close> and what \<open>from_row\<close> reads
  out of it, when the values of the order survive their dynamic representation.
\<close>

definition i64_exact :: "('n, 'f, 'd) codec \<Rightarrow> i64 \<Rightarrow> bool" where
  "i64_exact c i \<longleftrightarrow> number_i64 c (i64_number c i) = Some i"

definition decimal_exact :: "('n, 'f, 'd) codec \<Rightarrow> 'd \<Rightarrow> bool" where
  "decimal_exact c d \<longleftrightarrow>
     (case number_f64 c (f64_number c (decimal_to_f64 c d)) of None \<Rightarrow> None
      | Some f \<Rightarrow> decimal_of_f64 c f) = Some d"

definition instant_exact :: "('n, 'f, 'd) codec \<Rightarrow> instant \<Rightarrow> bool" where
  "instant_exact c t \<longleftrightarrow> rfc3339_parse c (rfc3339_show c t) = Some t"

text \<open>The values of the order that go through a number or a printed instant.\<close>

definition row_exact :: "('n, 'f, 'd) codec \<Rightarrow> ('n, 'd) order \<Rightarrow> bool" where
  "row_exact c od \<longleftrightarrow>
     list_all (i64_exact c)
       [o_quantity od, o_filled_quantity od, o_cancelled_quantity od, o_disclosed_quantity od,
        o_expires_in od, o_retries od, o_max_modifications od]
     \<and> pred_option (i64_exact c) (o_pending_quantity od)
     \<and> pred_option (decimal_exact c) (o_price od)
     \<and> decimal_exact c (o_trigger_price od) \<and> decimal_exact c (o_average_price od)
     \<and> list_all (pred_option (instant_exact c))
         [o_timestamp od, o_broker_timestamp od, o_exchange_timestamp od, o_last_updated_at od]"

lemma map_of_row_opt:
  "map_of (row_opt k f v @ rest) key =
     (if key = k then case v of None \<Rightarrow> map_of rest key | Some a \<Rightarrow> Some (f a)
      else map_of rest key)"
  by (simp add: row_opt_def split: option.split)

lemma map_of_row_one:
  "map_of ([(k, v)] @ rest) key = (if key = k then Some v else map_of rest key)"
  by simp

text \<open>A column is looked up entry by entry, so the appended lists stay as they are.\<close>

lemmas row_stays = map_of_append append_Cons append_Nil append_Nil2 map_of.simps(2)

lemmas to_row_lookup = to_row_def concat.simps map_of_row_opt map_of_row_one

text \<open>The columns of a row, one by one.\<close>

lemma to_row_required:
  "to_row c od ''symbol'' = Some (JString (o_symbol od))"
  "to_row c od ''side'' = Some (JString (o_side od))"
  "to_row c od ''quantity'' = Some (json_i64 c (o_quantity od))"
  "to_row c od ''order_type'' = Some (JString (o_order_type od))"
  "to_row c od ''trigger_price'' = Some (decimal_persistence_value c (o_trigger_price od))"
  "to_row c od ''average_price'' = Some (decimal_persistence_value c (o_average_price od))"
  "to_row c od ''filled_quantity'' = Some (json_i64 c (o_filled_quantity od))"
  "to_row c od ''cancelled_quantity'' = Some (json_i64 c (o_cancelled_quantity od))"
  "to_row c od ''disclosed_quantity'' = Some (json_i64 c (o_disclosed_quantity od))"
  "to_row c od ''validity'' = Some (JString (o_validity od))"
  "to_row c od ''expires_in'' = Some (json_i64 c (o_expires_in od))"
  "to_row c od ''timezone'' = Some (JString (o_timezone od))"
  "to_row c od ''convert_to_market_after_expiry'' = Some (JBool (o_convert_to_market_after_expiry od))"
  "to_row c od ''cancel_after_expiry'' = Some (JBool (o_cancel_after_expiry od))"
  "to_row c od ''retries'' = Some (json_i64 c (o_retries od))"
  "to_row c od ''max_modifications'' = Some (json_i64 c (o_max_modifications od))"
  "to_row c od ''can_peg'' = Some (JBool (o_can_peg od))"
  "to_row c od ''is_multi'' = Some (JBool (o_is_multi od))"
  by (simp add: to_row_lookup del: row_stays cong: option.case_cong)+

lemma to_row_optional:
  "to_row c od ''id'' = (case o_id od of None \<Rightarrow> None | Some a \<Rightarrow> Some (JString a))"
  "to_row c od ''parent_id'' = (case o_parent_id od of None \<Rightarrow> None | Some a \<Rightarrow> Some (JString a))"
  "to_row c od ''timestamp'' = (case o_timestamp od of None \<Rightarrow> None | Some a \<Rightarrow> Some (json_instant c a))"
  "to_row c od ''broker_timestamp'' = (case o_broker_timestamp od of None \<Rightarrow> None | Some a \<Rightarrow> Some (json_instant c a))"
  "to_row c od ''exchange_timestamp'' = (case o_exchange_timestamp od of None \<Rightarrow> None | Some a \<Rightarrow> Some (json_instant c a))"
  "to_row c od ''order_id'' = (case o_order_id od of None \<Rightarrow> None | Some a \<Rightarrow> Some (JString a))"
  "to_row c od ''exchange_order_id'' = (case o_exchange_order_id od of None \<Rightarrow> None | Some a \<Rightarrow> Some (JString a))"
  "to_row c od ''price'' = (case o_price od of None \<Rightarrow> None | Some a \<Rightarrow> Some (decimal_persistence_value c a))"
  "to_row c od ''pending_quantity'' = (case o_pending_quantity od of None \<Rightarrow> None | Some a \<Rightarrow> Some (json_i64 c a))"
  "to_row c od ''status'' = (case o_status od of None \<Rightarrow> None | Some a \<Rightarrow> Some (JString a))"
  "to_row c od ''client_id'' = (case o_client_id od of None \<Rightarrow> None | Some a \<Rightarrow> Some (JString a))"
  "to_row c od ''exchange'' = (case o_exchange od of None \<Rightarrow> None | Some a \<Rightarrow> Some (JString a))"
  "to_row c od ''tag'' = (case o_tag od of None \<Rightarrow> None | Some a \<Rightarrow> Some (JString a))"
  "to_row c od ''pseudo_id'' = (case o_pseudo_id od of None \<Rightarrow> None | Some a \<Rightarrow> Some (JString a))"
  "to_row c od ''strategy_id'' = (case o_strategy_id od of None \<Rightarrow> None | Some a \<Rightarrow> Some (JString a))"
  "to_row c od ''portfolio_id'' = (case o_portfolio_id od of None \<Rightarrow> None | Some a \<Rightarrow> Some (JString a))"
  "to_row c od ''JSON'' = (case o_json od of None \<Rightarrow> None | Some a \<Rightarrow> Some (JObject a))"
  "to_row c od ''error'' = (case o_error od of None \<Rightarrow> None | Some a \<Rightarrow> Some (JString a))"
  "to_row c od ''last_updated_at'' = (case o_last_updated_at od of None \<Rightarrow> None | Some a \<Rightarrow> Some (json_instant c a))"
  by (simp add: to_row_lookup del: row_stays cong: option.case_cong)+

lemmas to_row_columns = to_row_required to_row_optional

lemma row_i64_back:
  "row k = Some (json_i64 c i) \<Longrightarrow> i64_exact c i \<Longrightarrow> row_i64 c row k = Some i"
  by (simp add: row_i64_def json_i64_def i64_exact_def)

lemma row_decimal_back:
  "row k = Some (decimal_persistence_value c d) \<Longrightarrow> decimal_exact c d \<Longrightarrow> row_decimal c row k = Some d"
  by (simp add: row_decimal_def decimal_persistence_value_def decimal_exact_def)

text \<open>An optional column: absent, or the value as the row prints it.\<close>

lemma row_str_opt:
  "row k = (case v of None \<Rightarrow> None | Some a \<Rightarrow> Some (JString a)) \<Longrightarrow> row_str row k = v"
  by (simp add: row_str_def split: option.splits)

lemma row_i64_opt:
  "row k = (case v of None \<Rightarrow> None | Some a \<Rightarrow> Some (json_i64 c a)) \<Longrightarrow>
   pred_option (i64_exact c) v \<Longrightarrow> row_i64 c row k = v"
  by (cases v) (simp_all add: row_i64_def json_i64_def i64_exact_def)

lemma row_decimal_opt:
  "row k = (case v of None \<Rightarrow> None | Some a \<Rightarrow> Some (decimal_persistence_value c a)) \<Longrightarrow>
   pred_option (decimal_exact c) v \<Longrightarrow> row_decimal c row k = v"
  by (cases v) (simp_all add: row_decimal_def decimal_persistence_value_def decimal_exact_def)

lemma row_instant_opt:
  "row k = (case v of None \<Rightarrow> None | Some a \<Rightarrow> Some (json_instant c a)) \<Longrightarrow>
   pred_option (instant_exact c) v \<Longrightarrow> row_instant c row k = v"
  by (cases v) (simp_all add: row_instant_def json_instant_def instant_exact_def)

lemma row_map_opt:
  "row k = (case v of None \<Rightarrow> None | Some a \<Rightarrow> Some (JObject a)) \<Longrightarrow> row_map c row k = v"
  by (simp add: row_map_def split: option.splits)

lemma row_str_one: "row k = Some (JString a) \<Longrightarrow> row_str row k = Some a"
  by (simp add: row_str_def)

lemma row_bool_one: "row k = Some (JBool a) \<Longrightarrow> row_bool c row k = Some a"
  by (simp add: row_bool_def)

text \<open>What \<open>from_row\<close> reads from a row of \<open>to_row\<close>: all the fields but the connection.\<close>

definition init_of_order :: "('n, 'd) order \<Rightarrow> ('n, 'd) order_init" where
  "init_of_order od =
     \<lparr> init_symbol = o_symbol od, init_side = o_side od, init_quantity = o_quantity od,
       init_id = o_id od, init_parent_id = o_parent_id od, init_timestamp = o_timestamp od,
       init_order_type = Some (o_order_type od), init_broker_timestamp = o_broker_timestamp od,
       init_exchange_timestamp = o_exchange_timestamp od, init_order_id = o_order_id od,
       init_exchange_order_id = o_exchange_order_id od, init_price = o_price od,
       init_trigger_price = Some (o_trigger_price od),
       init_average_price = Some (o_average_price od),
       init_pending_quantity = o_pending_quantity od,
       init_filled_quantity = Some (o_filled_quantity od),
       init_cancelled_quantity = Some (o_cancelled_quantity od),
       init_disclosed_quantity = Some (o_disclosed_quantity od),
       init_validity = Some (o_validity od), init_status = o_status od,
       init_expires_in = Some (o_expires_in od), init_timezone = Some (o_timezone od),
       init_client_id = o_client_id od,
       init_convert_to_market_after_expiry = Some (o_convert_to_market_after_expiry od),
       init_cancel_after_expiry = Some (o_cancel_after_expiry od),
       init_retries = Some (o_retries od),
       init_max_modifications = Some (o_max_modifications od), init_exchange = o_exchange od,
       init_tag = o_tag od, init_connection = None, init_can_peg = Some (o_can_peg od),
       init_pseudo_id = o_pseudo_id od, init_strategy_id = o_strategy_id od,
       init_portfolio_id = o_portfolio_id od, init_json = o_json od, init_error = o_error od,
       init_is_multi = Some (o_is_multi od), init_last_updated_at = o_last_updated_at od \<rparr>"

lemma init_from_to_row:
  assumes "row_exact c od"
  shows "init_from_row c (to_row c od) = init_of_order od"
proof -
  have i: "i64_exact c (o_quantity od)" "i64_exact c (o_filled_quantity od)"
      "i64_exact c (o_cancelled_quantity od)" "i64_exact c (o_disclosed_quantity od)"
      "i64_exact c (o_expires_in od)" "i64_exact c (o_retries od)"
      "i64_exact c (o_max_modifications od)" "pred_option (i64_exact c) (o_pending_quantity od)"
    using assms by (simp_all add: row_exact_def)
  have d: "pred_option (decimal_exact c) (o_price od)" "decimal_exact c (o_trigger_price od)"
      "decimal_exact c (o_average_price od)"
    using assms by (simp_all add: row_exact_def)
  have t: "pred_option (instant_exact c) (o_timestamp od)"
      "pred_option (instant_exact c) (o_broker_timestamp od)"
      "pred_option (instant_exact c) (o_exchange_timestamp od)"
      "pred_option (instant_exact c) (o_last_updated_at od)"
    using assms by (simp_all add: row_exact_def)
  let ?r = "to_row c od"
  have strs: "row_str ?r ''symbol'' = Some (o_symbol od)" "row_str ?r ''side'' = Some (o_side od)"
      "row_str ?r ''order_type'' = Some (o_order_type od)"
      "row_str ?r ''validity'' = Some (o_validity od)"
      "row_str ?r ''timezone'' = Some (o_timezone od)"
    by (rule row_str_one, simp add: to_row_columns cong: option.case_cong)+
  have opts: "row_str ?r ''id'' = o_id od" "row_str ?r ''parent_id'' = o_parent_id od"
      "row_str ?r ''order_id'' = o_order_id od"
      "row_str ?r ''exchange_order_id'' = o_exchange_order_id od"
      "row_str ?r ''status'' = o_status od" "row_str ?r ''client_id'' = o_client_id od"
      "row_str ?r ''exchange'' = o_exchange od" "row_str ?r ''tag'' = o_tag od"
      "row_str ?r ''pseudo_id'' = o_pseudo_id od" "row_str ?r ''strategy_id'' = o_strategy_id od"
      "row_str ?r ''portfolio_id'' = o_portfolio_id od" "row_str ?r ''error'' = o_error od"
    by (rule row_str_opt, simp add: to_row_columns cong: option.case_cong)+
  have ints: "row_i64 c ?r ''quantity'' = Some (o_quantity od)"
      "row_i64 c ?r ''filled_quantity'' = Some (o_filled_quantity od)"
      "row_i64 c ?r ''cancelled_quantity'' = Some (o_cancelled_quantity od)"
      "row_i64 c ?r ''disclosed_quantity'' = Some (o_disclosed_quantity od)"
      "row_i64 c ?r ''expires_in'' = Some (o_expires_in od)"
      "row_i64 c ?r ''retries'' = Some (o_retries od)"
      "row_i64 c ?r ''max_modifications'' = Some (o_max_modifications od)"
    by (rule row_i64_back, simp add: to_row_columns cong: option.case_cong, fact i)+
  have pend: "row_i64 c ?r ''pending_quantity'' = o_pending_quantity od"
    by (rule row_i64_opt [OF _ i(8)]) (simp add: to_row_columns cong: option.case_cong)
  have price: "row_decimal c ?r ''price'' = o_price od"
    by (rule row_decimal_opt [OF _ d(1)]) (simp add: to_row_columns cong: option.case_cong)
  have decs: "row_decimal c ?r ''trigger_price'' = Some (o_trigger_price od)"
      "row_decimal c ?r ''average_price'' = Some (o_average_price od)"
    by (rule row_decimal_back, simp add: to_row_columns cong: option.case_cong, fact d)+
  have times: "row_instant c ?r ''timestamp'' = o_timestamp od"
      "row_instant c ?r ''broker_timestamp'' = o_broker_timestamp od"
      "row_instant c ?r ''exchange_timestamp'' = o_exchange_timestamp od"
      "row_instant c ?r ''last_updated_at'' = o_last_updated_at od"
    by (rule row_instant_opt, simp add: to_row_columns cong: option.case_cong, fact t)+
  have bools: "row_bool c ?r ''convert_to_market_after_expiry''
        = Some (o_convert_to_market_after_expiry od)"
      "row_bool c ?r ''cancel_after_expiry'' = Some (o_cancel_after_expiry od)"
      "row_bool c ?r ''can_peg'' = Some (o_can_peg od)"
      "row_bool c ?r ''is_multi'' = Some (o_is_multi od)"
    by (rule row_bool_one, simp add: to_row_columns cong: option.case_cong)+
  have json: "row_map c ?r ''JSON'' = o_json od"
    by (rule row_map_opt) (simp add: to_row_columns cong: option.case_cong)
  show ?thesis
    unfolding init_from_row_def init_of_order_def strs opts ints pend price decs times bools json
    by simp
qed

text \<open>
  The order a row loads as: the saved one, with what the post-initialisation sets again.
\<close>

definition reloaded :: "'n env \<Rightarrow> string \<Rightarrow> ('n, 'd) order \<Rightarrow> ('n, 'd) order" where
  "reloaded e uuid od =
     (let now = clock_now e system_clock in
      od\<lparr>o_id := Some (unwrap_or uuid (o_id od)),
         o_timestamp := Some (unwrap_or now (o_timestamp od)),
         o_pending_quantity := Some (o_quantity od),
         o_expires_in := expiry_of now (Some (o_expires_in od)),
         o_connection := None, o_num_modifications := 0,
         o_lock := with_timezone (unlocked_with_clock system_clock) (o_timezone od),
         o_clock := system_clock\<rparr>)"

lemma from_init_of_order:
  "0 \<le> o_quantity od \<Longrightarrow> from_init e uuid (init_of_order od) = Returned (reloaded e uuid od)"
  by (simp add: from_init_def from_init_with_clock_def init_of_order_def reloaded_def Let_def)

end
