(* ===== verification/Parity_Async.thy ===== *)
theory Parity_Async
  imports Parity_Compound
begin

text \<open>
  The operations of \<open>async_compound_order.rs\<close> that face the broker, over the asynchronous siblings
  in \<open>order.rs\<close>: the fan-out awaits each call and saves through \<open>save_to_db_async\<close>. Inside a
  runtime each does what its synchronous sibling does. The basket's record is that of
  \<open>Parity_Compound\<close>; the rest of the file is in \<open>Parity_Async_Basket\<close>.
\<close>

primrec execute_each_async ::
  "('n, 'f, 'd) codec \<Rightarrow> 'n env \<Rightarrow> 'n broker \<Rightarrow> 'n args \<Rightarrow> ('n, 'd) order list
     \<Rightarrow> 'n broker_call list \<Rightarrow> ('n, 'd) order list \<times> 'n broker_call list" where
  "execute_each_async c e b merged [] calls = ([], calls)"
| "execute_each_async c e b merged (od # ods) calls =
     (let (_, od, calls) = execute_async c e b None merged od calls;
          (ods, calls) = execute_each_async c e b merged ods calls
      in (od # ods, calls))"

definition execute_all_async ::
  "('n, 'f, 'd) codec \<Rightarrow> 'n env \<Rightarrow> 'n args \<Rightarrow> ('n, 'f, 'd) compound \<Rightarrow> 'n broker_call list
     \<Rightarrow> ('n, 'f, 'd) compound \<times> 'n broker_call list" where
  "execute_all_async c e kwargs co calls =
     (case co_broker co of None \<Rightarrow> (co, calls)
      | Some b \<Rightarrow>
          let (ods, calls) =
                execute_each_async c e b (co_order_args co ++ kwargs) (co_orders co) calls
          in (co\<lparr>co_orders := ods\<rparr>, calls))"

definition check_order_flags_async ::
  "('n, 'f, 'd::zero) codec \<Rightarrow> 'n env \<Rightarrow> 'n broker \<Rightarrow> ('n, 'd) order \<Rightarrow> 'n broker_call list
     \<Rightarrow> (('n, 'd) order \<times> 'n broker_call list) attempt" where
  "check_order_flags_async c e b od calls =
     (if order_pending od \<and> has_expired e od
      then if o_convert_to_market_after_expiry od
           then modify_async c e b None []
                  (od\<lparr>o_order_type := ''MARKET'', o_price := None, o_trigger_price := 0\<rparr>) calls
           else if o_cancel_after_expiry od
           then Returned (od, cancel_async c e b None od calls)
           else Returned (od, calls)
      else Returned (od, calls))"

primrec check_each_async ::
  "('n, 'f, 'd::zero) codec \<Rightarrow> 'n env \<Rightarrow> 'n broker \<Rightarrow> ('n, 'd) order list
     \<Rightarrow> 'n broker_call list \<Rightarrow> (('n, 'd) order list \<times> 'n broker_call list) attempt" where
  "check_each_async c e b [] calls = Returned ([], calls)"
| "check_each_async c e b (od # ods) calls =
     and_then (check_order_flags_async c e b od calls) (\<lambda>(od, calls).
       and_then (check_each_async c e b ods calls) (\<lambda>(ods, calls). Returned (od # ods, calls)))"

definition check_flags_async ::
  "('n, 'f, 'd::zero) codec \<Rightarrow> 'n env \<Rightarrow> ('n, 'f, 'd) compound \<Rightarrow> 'n broker_call list
     \<Rightarrow> (('n, 'f, 'd) compound \<times> 'n broker_call list) attempt" where
  "check_flags_async c e co calls =
     (case co_broker co of None \<Rightarrow> Returned (co, calls)
      | Some b \<Rightarrow> and_then (check_each_async c e b (co_orders co) calls)
          (\<lambda>(ods, calls). Returned (co\<lparr>co_orders := ods\<rparr>, calls)))"

lemma save_to_db_async_runtime:
  "runtime_present e \<Longrightarrow> save_to_db_async c e od calls = save_to_db c e od calls"
  by (simp add: save_to_db_async_def save_to_db_def Let_def split: option.split)

lemma saved_async_runtime: "runtime_present e \<Longrightarrow> saved_async c e od calls = saved c e od calls"
  by (simp add: saved_async_def saved_def save_to_db_async_runtime)

lemma execute_async_runtime:
  "runtime_present e \<Longrightarrow>
   execute_async c e b attribs kwargs od calls = order_execute c e b attribs kwargs od calls"
  unfolding execute_async_def order_execute_def Let_def by (simp add: saved_async_runtime)

lemma modify_async_runtime:
  "runtime_present e \<Longrightarrow>
   modify_async c e b attribs kwargs od calls = order_modify c e b attribs kwargs od calls"
  unfolding modify_async_def order_modify_def Let_def by (simp only: saved_async_runtime)

lemma cancel_async_sync:
  "cancel_async c e b attribs od calls = order_cancel c e b attribs od calls"
  unfolding cancel_async_def order_cancel_def Let_def by (rule refl)

lemma execute_all_async_runtime:
  assumes "runtime_present e"
  shows "execute_all_async c e kwargs co calls = execute_all c e kwargs co calls"
proof -
  have "execute_each_async c e b merged ods calls = execute_each c e b merged ods calls"
    for b merged and ods :: "('a, 'c) order list" and calls
    by (induction ods arbitrary: calls) (simp_all add: execute_async_runtime [OF assms])
  then show ?thesis by (simp add: execute_all_async_def execute_all_def split: option.split)
qed

lemma check_flags_async_runtime:
  assumes "runtime_present e"
  shows "check_flags_async c e co calls = check_flags c e co calls"
proof -
  have "check_order_flags_async c e b od calls = check_order_flags c e b od calls" for b od calls
    by (simp add: check_order_flags_async_def check_order_flags_def modify_async_runtime [OF assms]
        cancel_async_sync)
  then have "check_each_async c e b ods calls = check_each c e b ods calls" for b ods calls
    by (induction ods arbitrary: calls) simp_all
  then show ?thesis by (simp add: check_flags_async_def check_flags_def split: option.split)
qed

end
