(* ===== verification/Sim_Orders.thy ===== *)
theory Sim_Orders
  imports Parity_Models
begin

text \<open>
  \<open>simulation.rs\<close>: the virtual order with its quantity split and status, the fill of an
  order against a last price, the ticker, positions, trades and users.

  The \<open>f64\<close> quantities and prices of the simulation are elements of an archimedean ordered
  field: the code adds and subtracts quantities, compares and multiplies, all exact on the
  integers and ticks it is used with; NaN, which JSON cannot carry, is excluded. The random
  generator ('r) is a parameter, reached through the calls the code makes of it.
\<close>

section \<open>Enumerations\<close>

datatype sim_status = StComplete | StRejected | StCanceled | StPartialFill | StOpen | StPending

datatype response_status = RsSuccess | RsFailure

definition response_status_parse :: "string \<Rightarrow> response_status option" where
  "response_status_parse s =
     (if to_lowercase s = ''success'' then Some RsSuccess
      else if to_lowercase s = ''failure'' then Some RsFailure else None)"

datatype sim_side = SideBuy | SideSell

fun side_value :: "sim_side \<Rightarrow> int" where
  "side_value SideBuy = 1"
| "side_value SideSell = -1"

definition side_parse :: "string \<Rightarrow> string + sim_side" where
  "side_parse s =
     (case map ascii_lower (take 1 s) of
        [CHR ''b''] \<Rightarrow> Inr SideBuy
      | [CHR ''s''] \<Rightarrow> Inr SideSell
      | _ \<Rightarrow> Inl (s @ '' is not a valid side, should be buy or sell''))"

datatype ticker_mode = TickerRandom | TickerManual

datatype sim_order_type = OtMarket | OtLimit | OtStop

definition order_type_parse :: "string \<Rightarrow> string + sim_order_type" where
  "order_type_parse s =
     (let u = to_uppercase s in
      if u = ''MARKET'' then Inr OtMarket
      else if u = ''LIMIT'' then Inr OtLimit
      else if u = ''STOP'' then Inr OtStop
      else Inl (s @ '' is not a valid order type, should be one of LIMIT/MARKET''))"


section \<open>The random generator\<close>

text \<open>
  \<open>SmallRng\<close>: seeding, a draw from a half-open integer range (non-empty, or it panics), a draw
  from the unit interval and one from the standard normal distribution.
\<close>

record ('r, 'f) rng_api =
  seed_from :: "nat \<Rightarrow> 'r"
  gen_range :: "'r \<Rightarrow> int \<Rightarrow> int \<Rightarrow> int \<times> 'r"
  gen_unit :: "'r \<Rightarrow> 'f \<times> 'r"
  sample_normal :: "'r \<Rightarrow> 'f \<times> 'r"

definition draws_in_range :: "('r, 'f) rng_api \<Rightarrow> bool" where
  "draws_in_range g \<longleftrightarrow>
     (\<forall>r lo hi. lo < hi \<longrightarrow> lo \<le> fst (gen_range g r lo hi) \<and> fst (gen_range g r lo hi) < hi)"

text \<open>The cast of a finite \<open>f64\<close> to \<open>i64\<close>: truncation, saturating.\<close>

definition f64_trunc :: "'f::{linordered_field, floor_ceiling} \<Rightarrow> i64" where
  "f64_trunc x = max (- (2 ^ 63)) (min (2 ^ 63 - 1) (if 0 \<le> x then \<lfloor>x\<rfloor> else \<lceil>x\<rceil>))"

text \<open>\<open>f64::round\<close> rounds half away from zero.\<close>

definition f64_round :: "'f::{linordered_field, floor_ceiling} \<Rightarrow> 'f" where
  "f64_round x = of_int (if 0 \<le> x then \<lfloor>x + 1 / 2\<rfloor> else \<lceil>x - 1 / 2\<rceil>)"


section \<open>Virtual orders\<close>

record ('f, 'r) vorder =
  v_order_id :: string
  v_symbol :: string
  v_quantity :: 'f
  v_side :: sim_side
  v_price :: "'f option"
  v_average_price :: "'f option"
  v_trigger_price :: "'f option"
  v_timestamp :: "instant option"
  v_exchange_order_id :: "string option"
  v_exchange_timestamp :: "instant option"
  v_status_message :: "string option"
  v_order_type :: sim_order_type
  v_filled_quantity :: 'f
  v_pending_quantity :: 'f
  v_canceled_quantity :: 'f
  v_delay :: int
  v_rng :: 'r

record 'f vorder_init =
  vi_order_id :: string
  vi_symbol :: string
  vi_quantity :: 'f
  vi_side :: "sim_side option"
  vi_side_str :: "string option"
  vi_price :: "'f option"
  vi_average_price :: "'f option"
  vi_trigger_price :: "'f option"
  vi_timestamp :: "instant option"
  vi_exchange_order_id :: "string option"
  vi_exchange_timestamp :: "instant option"
  vi_status_message :: "string option"
  vi_order_type :: "sim_order_type option"
  vi_order_type_str :: "string option"
  vi_filled_quantity :: "'f option"
  vi_pending_quantity :: "'f option"
  vi_canceled_quantity :: "'f option"
  vi_rng_seed :: "nat option"
  vi_now_override :: "instant option"

definition default_vinit :: "'f::zero vorder_init" where
  "default_vinit =
     \<lparr> vi_order_id = '''', vi_symbol = '''', vi_quantity = 0, vi_side = None,
       vi_side_str = None, vi_price = None, vi_average_price = None, vi_trigger_price = None,
       vi_timestamp = None, vi_exchange_order_id = None, vi_exchange_timestamp = None,
       vi_status_message = None, vi_order_type = None, vi_order_type_str = None,
       vi_filled_quantity = None, vi_pending_quantity = None, vi_canceled_quantity = None,
       vi_rng_seed = None, vi_now_override = None \<rparr>"

definition normalise_quantities ::
  "'f::linordered_field \<Rightarrow> 'f \<Rightarrow> 'f \<Rightarrow> 'f \<Rightarrow> 'f \<times> 'f \<times> 'f" where
  "normalise_quantities q f p c =
     (if c > 0 then let c = min c q; f = q - c; p = q - c - f in (f, p, c)
      else if f > 0 then let f = min f q in (f, q - f, c)
      else if p > 0 then let p = min p q in (q - p, p, c)
      else (f, q - p, c))"

definition or_default :: "'a \<Rightarrow> 'a option \<Rightarrow> 'a" where
  "or_default d x = (case x of None \<Rightarrow> d | Some a \<Rightarrow> a)"

lemma or_default_simps [simp]: "or_default d None = d" "or_default d (Some a) = a"
  by (simp_all add: or_default_def)

definition vinit_side :: "'f vorder_init \<Rightarrow> string + sim_side" where
  "vinit_side i =
     (case vi_side i of Some s \<Rightarrow> Inr s
      | None \<Rightarrow> (case vi_side_str i of Some s \<Rightarrow> side_parse s
          | None \<Rightarrow> Inl ''VOrder requires side (enum) or side_str''))"

definition vinit_order_type :: "'f vorder_init \<Rightarrow> string + sim_order_type" where
  "vinit_order_type i =
     (case vi_order_type i of Some t \<Rightarrow> Inr t
      | None \<Rightarrow> (case vi_order_type_str i of Some s \<Rightarrow> order_type_parse s | None \<Rightarrow> Inr OtMarket))"

text \<open>The instant argument is what \<open>Utc::now\<close> would read.\<close>

definition vorder_from_init ::
  "('r, 'f) rng_api \<Rightarrow> instant \<Rightarrow> 'f::linordered_field vorder_init \<Rightarrow> string + ('f, 'r) vorder" where
  "vorder_from_init g utc_now i =
     (case vinit_side i of Inl err \<Rightarrow> Inl err | Inr side \<Rightarrow>
      (case vinit_order_type i of Inl err \<Rightarrow> Inl err | Inr order_type \<Rightarrow>
       (let now = or_default utc_now (vi_now_override i);
            (f, p, c) = normalise_quantities (vi_quantity i)
               (or_default 0 (vi_filled_quantity i)) (or_default 0 (vi_pending_quantity i))
               (or_default 0 (vi_canceled_quantity i))
        in Inr
         \<lparr> v_order_id = vi_order_id i, v_symbol = vi_symbol i, v_quantity = vi_quantity i,
           v_side = side, v_price = vi_price i,
           v_average_price = (case vi_average_price i of None \<Rightarrow> Some 0 | Some a \<Rightarrow> Some a),
           v_trigger_price = vi_trigger_price i,
           v_timestamp = Some (or_default now (vi_timestamp i)),
           v_exchange_order_id = vi_exchange_order_id i,
           v_exchange_timestamp = vi_exchange_timestamp i,
           v_status_message = vi_status_message i, v_order_type = order_type,
           v_filled_quantity = f, v_pending_quantity = p, v_canceled_quantity = c,
           v_delay = 1000000 * 1000, v_rng = seed_from g (or_default 0 (vi_rng_seed i)) \<rparr>)))"

definition make_right_quantity :: "('f::linordered_field, 'r) vorder \<Rightarrow> ('f, 'r) vorder" where
  "make_right_quantity v =
     (let (f, p, c) = normalise_quantities (v_quantity v) (v_filled_quantity v)
            (v_pending_quantity v) (v_canceled_quantity v)
      in v\<lparr>v_filled_quantity := f, v_pending_quantity := p, v_canceled_quantity := c\<rparr>)"

text \<open>The filled share drawn for a partial fill.\<close>

definition draw_share ::
  "('r, 'f) rng_api \<Rightarrow> ('f::{linordered_field, floor_ceiling}, 'r) vorder \<Rightarrow> int \<times> 'r" where
  "draw_share g v =
     (let q = f64_trunc (v_quantity v) in
      if q > 1 then gen_range g (v_rng v) 1 q else (1, v_rng v))"

fun modify_order_by_status ::
  "('r, 'f) rng_api \<Rightarrow> sim_status \<Rightarrow> ('f::{linordered_field, floor_ceiling}, 'r) vorder
     \<Rightarrow> ('f, 'r) vorder" where
  "modify_order_by_status g StCanceled v =
     v\<lparr>v_filled_quantity := 0, v_pending_quantity := 0, v_canceled_quantity := v_quantity v\<rparr>"
| "modify_order_by_status g StRejected v =
     v\<lparr>v_filled_quantity := 0, v_pending_quantity := 0, v_canceled_quantity := v_quantity v\<rparr>"
| "modify_order_by_status g StOpen v = v\<lparr>v_filled_quantity := 0, v_canceled_quantity := 0\<rparr>"
| "modify_order_by_status g StPartialFill v =
     (let (a, r) = draw_share g v; b = i64_sub (f64_trunc (v_quantity v)) a in
      v\<lparr>v_rng := r, v_filled_quantity := of_int a, v_pending_quantity := 0,
        v_canceled_quantity := of_int b\<rparr>)"
| "modify_order_by_status g StPending v =
     (let (a, r) = draw_share g v; b = i64_sub (f64_trunc (v_quantity v)) a in
      v\<lparr>v_rng := r, v_filled_quantity := of_int a, v_pending_quantity := of_int b,
        v_canceled_quantity := 0\<rparr>)"
| "modify_order_by_status g StComplete v =
     v\<lparr>v_filled_quantity := v_quantity v, v_pending_quantity := 0, v_canceled_quantity := 0\<rparr>"

definition is_past_delay_at :: "instant \<Rightarrow> ('f, 'r) vorder \<Rightarrow> bool" where
  "is_past_delay_at now v =
     (case v_timestamp v of Some ts \<Rightarrow> ts + v_delay v < now | None \<Rightarrow> False)"

definition starts_with :: "string \<Rightarrow> string \<Rightarrow> bool" where
  "starts_with p s \<longleftrightarrow> take (length p) s = p"

definition vorder_status :: "('f::linordered_field, 'r) vorder \<Rightarrow> sim_status" where
  "vorder_status v =
     (if v_quantity v = v_filled_quantity v then StComplete
      else if v_quantity v = v_canceled_quantity v
      then (case v_status_message v of
              Some msg \<Rightarrow> if starts_with ''REJ'' (to_uppercase msg) then StRejected else StCanceled
            | None \<Rightarrow> StCanceled)
      else if v_canceled_quantity v > 0
      then if v_canceled_quantity v + v_filled_quantity v = v_quantity v
           then StPartialFill else StPending
      else if v_pending_quantity v > 0
      then if v_filled_quantity v > 0 then StPending else StOpen
      else StOpen)"

definition vorder_value :: "('f::linordered_field, 'r) vorder \<Rightarrow> 'f" where
  "vorder_value v =
     (let avg = (case v_average_price v of
            Some x \<Rightarrow> if x \<noteq> 0 then x else or_default 0 (v_price v)
          | None \<Rightarrow> or_default 0 (v_price v))
      in of_int (side_value (v_side v)) * v_filled_quantity v * avg)"

definition vorder_done :: "('f::linordered_field, 'r) vorder \<Rightarrow> bool" where
  "vorder_done v =
     (if v_quantity v = v_filled_quantity v then True
      else if v_quantity v = v_canceled_quantity v then True
      else v_pending_quantity v \<le> 0)"

definition vorder_complete :: "('f::linordered_field, 'r) vorder \<Rightarrow> bool" where
  "vorder_complete v =
     (if v_quantity v = v_filled_quantity v then True else vorder_status v = StComplete)"

definition modify_by_status ::
  "('r, 'f) rng_api \<Rightarrow> sim_status \<Rightarrow> instant
     \<Rightarrow> ('f::{linordered_field, floor_ceiling}, 'r) vorder \<Rightarrow> bool \<times> ('f, 'r) vorder" where
  "modify_by_status g status now v =
     (if vorder_done v then (False, v)
      else if is_past_delay_at now v then (True, modify_order_by_status g status v)
      else (False, v))"


section \<open>Fills\<close>

record ('f, 'r) order_fill =
  fill_order :: "('f, 'r) vorder"
  fill_last_price :: 'f

definition limit_triggered :: "sim_side \<Rightarrow> 'f::linorder \<Rightarrow> 'f \<Rightarrow> bool" where
  "limit_triggered side ltp price =
     (case side of SideBuy \<Rightarrow> ltp < price | SideSell \<Rightarrow> ltp > price)"

definition stop_triggered :: "sim_side \<Rightarrow> 'f::linorder \<Rightarrow> 'f \<Rightarrow> bool" where
  "stop_triggered side ltp price =
     (case side of SideBuy \<Rightarrow> ltp > price | SideSell \<Rightarrow> ltp < price)"

definition fill_as_market :: "('f::linordered_field, 'r) order_fill \<Rightarrow> ('f, 'r) order_fill" where
  "fill_as_market fl =
     (let v = fill_order fl; ltp = fill_last_price fl in
      case v_order_type v of
        OtLimit \<Rightarrow> (case v_price v of None \<Rightarrow> fl | Some price \<Rightarrow>
          let v' = (if limit_triggered (v_side v) ltp price
                    then v\<lparr>v_filled_quantity := v_quantity v, v_average_price := Some ltp\<rparr>
                    else v)
          in fl\<lparr>fill_order := make_right_quantity v'\<rparr>)
      | OtStop \<Rightarrow> (case (case v_trigger_price v of Some p \<Rightarrow> Some p | None \<Rightarrow> v_price v) of
            None \<Rightarrow> fl
          | Some price \<Rightarrow>
              let v' = (if stop_triggered (v_side v) ltp price
                        then v\<lparr>v_filled_quantity := v_quantity v, v_average_price := Some ltp\<rparr>
                        else v)
              in fl\<lparr>fill_order := make_right_quantity v'\<rparr>)
      | OtMarket \<Rightarrow> fl)"

definition fill_new :: "('f::linordered_field, 'r) vorder \<Rightarrow> 'f \<Rightarrow> ('f, 'r) order_fill" where
  "fill_new v last_price = fill_as_market \<lparr>fill_order = v, fill_last_price = last_price\<rparr>"

definition fill_done :: "('f::linordered_field, 'r) order_fill \<Rightarrow> bool" where
  "fill_done fl = vorder_done (fill_order fl)"

definition fill_update ::
  "'f option \<Rightarrow> ('f::linordered_field, 'r) order_fill \<Rightarrow> ('f, 'r) order_fill" where
  "fill_update last_price fl =
     (let v = fill_order fl in
      if vorder_done v then fl
      else let ltp = or_default (fill_last_price fl) last_price in
        case v_order_type v of
          OtMarket \<Rightarrow>
            fl\<lparr>fill_order := make_right_quantity
                 (v\<lparr>v_price := Some ltp, v_average_price := Some ltp,
                    v_filled_quantity := v_quantity v\<rparr>)\<rparr>
        | OtLimit \<Rightarrow> (case v_price v of None \<Rightarrow> fl | Some price \<Rightarrow>
            if limit_triggered (v_side v) ltp price
            then fl\<lparr>fill_order := make_right_quantity
                 (v\<lparr>v_average_price := Some price, v_filled_quantity := v_quantity v\<rparr>)\<rparr>
            else fl)
        | OtStop \<Rightarrow>
            let v = (if v_trigger_price v = None then v\<lparr>v_trigger_price := v_price v\<rparr> else v) in
            (case v_trigger_price v of None \<Rightarrow> fl\<lparr>fill_order := v\<rparr> | Some trigger \<Rightarrow>
               if stop_triggered (v_side v) ltp trigger
               then fl\<lparr>fill_order := make_right_quantity
                    (v\<lparr>v_average_price := Some ltp, v_filled_quantity := v_quantity v\<rparr>)\<rparr>
               else fl\<lparr>fill_order := v\<rparr>))"


section \<open>Tickers, positions, trades, users\<close>

record 'f ohlc =
  ohlc_open :: 'f
  ohlc_high :: 'f
  ohlc_low :: 'f
  ohlc_close :: 'f
  ohlc_last_price :: 'f

record ('f, 'r) ticker =
  t_name :: string
  t_token :: "i64 option"
  t_initial_price :: 'f
  t_mode :: ticker_mode
  t_high :: 'f
  t_low :: 'f
  t_ltp :: 'f
  t_rng :: 'r

definition ticker_with_seed :: "('r, 'f) rng_api \<Rightarrow> string \<Rightarrow> 'f \<Rightarrow> nat \<Rightarrow> ('f, 'r) ticker" where
  "ticker_with_seed g name initial_price seed =
     \<lparr> t_name = name, t_token = None, t_initial_price = initial_price, t_mode = TickerRandom,
       t_high = initial_price, t_low = initial_price, t_ltp = initial_price,
       t_rng = seed_from g seed \<rparr>"

definition update_values :: "'f::linorder \<Rightarrow> ('f, 'r) ticker \<Rightarrow> ('f, 'r) ticker" where
  "update_values last_price t =
     t\<lparr>t_ltp := last_price,
       t_high := (if last_price > t_high t then last_price else t_high t),
       t_low := (if last_price < t_low t then last_price else t_low t)\<rparr>"

definition ticker_ltp ::
  "('r, 'f) rng_api \<Rightarrow> ('f::{linordered_field, floor_ceiling}, 'r) ticker
     \<Rightarrow> 'f \<times> ('f, 'r) ticker" where
  "ticker_ltp g t =
     (let t' = (case t_mode t of
            TickerManual \<Rightarrow> t
          | TickerRandom \<Rightarrow>
              let (z, r) = sample_normal g (t_rng t); current = t_ltp t;
                  diff = z * current * (1 / 100); raw = current + diff;
                  rounded = f64_round (raw * 20) / 20
              in update_values rounded (t\<lparr>t_rng := r\<rparr>))
      in (t_ltp t', t'))"

definition ticker_update :: "'f::linorder \<Rightarrow> ('f, 'r) ticker \<Rightarrow> 'f \<times> ('f, 'r) ticker" where
  "ticker_update last_price t = (let t = update_values last_price t in (t_ltp t, t))"

definition ticker_ohlc :: "('f, 'r) ticker \<Rightarrow> 'f ohlc" where
  "ticker_ohlc t =
     \<lparr> ohlc_open = t_initial_price t, ohlc_high = t_high t, ohlc_low = t_low t,
       ohlc_close = t_ltp t, ohlc_last_price = t_ltp t \<rparr>"

record 'f vtrade =
  vt_trade_id :: string
  vt_order_id :: string
  vt_symbol :: string
  vt_quantity :: i64
  vt_price :: 'f
  vt_side :: sim_side
  vt_timestamp :: "instant option"

definition vtrade_value :: "'f::linordered_field vtrade \<Rightarrow> 'f" where
  "vtrade_value t = of_int (side_value (vt_side t)) * of_int (vt_quantity t) * vt_price t"

record 'f vposition =
  vp_symbol :: string
  vp_buy_quantity :: "'f option"
  vp_sell_quantity :: "'f option"
  vp_buy_value :: "'f option"
  vp_sell_value :: "'f option"

definition vposition_average :: "'f::linordered_field option \<Rightarrow> 'f option \<Rightarrow> 'f" where
  "vposition_average quantity value =
     (case (quantity, value) of
        (Some q, Some v) \<Rightarrow> if q \<noteq> 0 \<and> v \<noteq> 0 then v / q else 0
      | _ \<Rightarrow> 0)"

definition average_buy_price :: "'f::linordered_field vposition \<Rightarrow> 'f" where
  "average_buy_price p = vposition_average (vp_buy_quantity p) (vp_buy_value p)"

definition average_sell_price :: "'f::linordered_field vposition \<Rightarrow> 'f" where
  "average_sell_price p = vposition_average (vp_sell_quantity p) (vp_sell_value p)"

definition vposition_net_quantity :: "'f::linordered_field vposition \<Rightarrow> 'f" where
  "vposition_net_quantity p = or_default 0 (vp_buy_quantity p) - or_default 0 (vp_sell_quantity p)"

definition vposition_net_value :: "'f::linordered_field vposition \<Rightarrow> 'f" where
  "vposition_net_value p = or_default 0 (vp_buy_value p) - or_default 0 (vp_sell_value p)"

record ('f, 'r) vuser =
  u_userid :: string
  u_name :: "string option"
  u_orders :: "('f, 'r) vorder list"

definition vuser_new :: "string \<Rightarrow> ('f, 'r) vuser" where
  "vuser_new userid = \<lparr> u_userid = to_uppercase userid, u_name = None, u_orders = [] \<rparr>"

definition vuser_add :: "('f, 'r) vorder \<Rightarrow> ('f, 'r) vuser \<Rightarrow> ('f, 'r) vuser" where
  "vuser_add v u = u\<lparr>u_orders := u_orders u @ [v]\<rparr>"

end
