(* ===== verification/Sim_Replica.thy ===== *)
theory Sim_Replica
  imports Sim_Orders
begin

text \<open>
  \<open>replica_broker.rs\<close>: the matching engine whose collections share their orders. An
  \<open>Arc<Mutex<VOrder>>\<close> is an index into the store \<open>r_cells\<close>, so that two collections holding the
  same handle see the same order, and a handle's identity is its index.
\<close>

section \<open>State\<close>

text \<open>Of an instrument the broker reads the name and the last price.\<close>

record 'f instrument =
  i_name :: string
  i_last_price :: 'f

record ('f, 'r) replica =
  r_name :: string
  r_instruments :: "string \<rightharpoonup> 'f instrument"
  r_cells :: "('f, 'r) vorder list"
  r_orders :: "string \<rightharpoonup> nat"
  r_users :: "string set"
  r_pending :: "nat list"
  r_completed :: "nat list"
  r_fills :: "(nat \<times> 'f) list"
  r_user_orders :: "string \<rightharpoonup> nat list"

definition replica_new :: "('f, 'r) replica" where
  "replica_new =
     \<lparr> r_name = ''replica'', r_instruments = Map.empty, r_cells = [], r_orders = Map.empty,
       r_users = {''default''}, r_pending = [], r_completed = [], r_fills = [],
       r_user_orders = Map.empty \<rparr>"

definition replica_update :: "'f instrument list \<Rightarrow> ('f, 'r) replica \<Rightarrow> ('f, 'r) replica" where
  "replica_update insts r =
     r\<lparr>r_instruments := extend_map (r_instruments r) (map (\<lambda>i. (i_name i, i)) insts)\<rparr>"


section \<open>Fills on a shared order\<close>

definition apply_as_market :: "'f::linordered_field \<Rightarrow> ('f, 'r) vorder \<Rightarrow> ('f, 'r) vorder" where
  "apply_as_market last_price v =
     (case v_order_type v of
        OtLimit \<Rightarrow> (case v_price v of None \<Rightarrow> v | Some price \<Rightarrow>
          make_right_quantity
            (if limit_triggered (v_side v) last_price price
             then v\<lparr>v_filled_quantity := v_quantity v, v_average_price := Some last_price\<rparr>
             else v))
      | OtStop \<Rightarrow> (case (case v_trigger_price v of Some p \<Rightarrow> Some p | None \<Rightarrow> v_price v) of
            None \<Rightarrow> v
          | Some price \<Rightarrow>
              make_right_quantity
                (if stop_triggered (v_side v) last_price price
                 then v\<lparr>v_filled_quantity := v_quantity v, v_average_price := Some last_price\<rparr>
                 else v))
      | OtMarket \<Rightarrow> v)"

definition apply_fill_update :: "'f::linordered_field \<Rightarrow> ('f, 'r) vorder \<Rightarrow> ('f, 'r) vorder" where
  "apply_fill_update last_price v =
     (if vorder_done v then v
      else case v_order_type v of
        OtMarket \<Rightarrow>
          make_right_quantity
            (v\<lparr>v_price := Some last_price, v_average_price := Some last_price,
               v_filled_quantity := v_quantity v\<rparr>)
      | OtLimit \<Rightarrow> (case v_price v of None \<Rightarrow> v | Some price \<Rightarrow>
          if limit_triggered (v_side v) last_price price
          then make_right_quantity
            (v\<lparr>v_average_price := Some price, v_filled_quantity := v_quantity v\<rparr>)
          else v)
      | OtStop \<Rightarrow>
          let v = (if v_trigger_price v = None then v\<lparr>v_trigger_price := v_price v\<rparr> else v) in
          (case v_trigger_price v of None \<Rightarrow> v | Some trigger \<Rightarrow>
             if stop_triggered (v_side v) last_price trigger
             then make_right_quantity
               (v\<lparr>v_average_price := Some last_price, v_filled_quantity := v_quantity v\<rparr>)
             else v))"

text \<open>The shared variants are the ones of \<open>OrderFill\<close>.\<close>

lemma apply_as_market_fill: "fill_order (fill_new v p) = apply_as_market p v"
  by (simp add: fill_new_def fill_as_market_def apply_as_market_def Let_def
      split: sim_order_type.split option.split)

lemma apply_fill_update_fill:
  "fill_order (fill_update (Some p) fl) = apply_fill_update p (fill_order fl)"
  by (simp add: fill_update_def apply_fill_update_def Let_def
      split: sim_order_type.split option.split)


section \<open>Operations\<close>

definition value_to_side :: "('n, 'f, 'd) codec \<Rightarrow> 'n json \<Rightarrow> sim_side option" where
  "value_to_side c v =
     (case as_i64 c v of
        Some n \<Rightarrow> if n = 1 then Some SideBuy else if n = -1 then Some SideSell else None
      | None \<Rightarrow> (case as_str v of None \<Rightarrow> None
          | Some s \<Rightarrow> (case side_parse s of Inl _ \<Rightarrow> None | Inr x \<Rightarrow> Some x)))"

definition value_to_order_type :: "('n, 'f, 'd) codec \<Rightarrow> 'n json \<Rightarrow> sim_order_type option" where
  "value_to_order_type c v =
     (case as_i64 c v of
        Some n \<Rightarrow> if n = 1 then Some OtMarket else if n = 2 then Some OtLimit
                  else if n = 3 then Some OtStop else None
      | None \<Rightarrow> (case as_str v of None \<Rightarrow> None
          | Some s \<Rightarrow> (case order_type_parse s of Inl _ \<Rightarrow> None | Inr x \<Rightarrow> Some x)))"

definition arg_f64 :: "('n, 'f, 'd) codec \<Rightarrow> 'n args \<Rightarrow> string \<Rightarrow> 'f option" where
  "arg_f64 c args k = (case args k of None \<Rightarrow> None | Some v \<Rightarrow> as_f64 c v)"

definition arg_str :: "'n args \<Rightarrow> string \<Rightarrow> string option" where
  "arg_str args k = (case args k of None \<Rightarrow> None | Some v \<Rightarrow> as_str v)"

definition replica_init ::
  "('n, 'f::zero, 'd) codec \<Rightarrow> string \<Rightarrow> 'n args \<Rightarrow> 'f vorder_init" where
  "replica_init c order_id args =
     default_vinit\<lparr>
       vi_order_id := order_id,
       vi_symbol := or_default '''' (arg_str args ''symbol''),
       vi_quantity := or_default 0 (arg_f64 c args ''quantity''),
       vi_side := Option.bind (args ''side'') (value_to_side c),
       vi_price := arg_f64 c args ''price'',
       vi_trigger_price := arg_f64 c args ''trigger_price'',
       vi_order_type := Option.bind (args ''order_type'') (value_to_order_type c)\<rparr>"

text \<open>The order of an unknown symbol: everything cancelled, with the reason.\<close>

definition reject_symbol :: "('f::zero, 'r) vorder \<Rightarrow> ('f, 'r) vorder" where
  "reject_symbol v =
     v\<lparr>v_status_message :=
         Some (''REJECTED: Symbol '' @ v_symbol v @ '' not found on the system''),
       v_canceled_quantity := v_quantity v, v_pending_quantity := 0\<rparr>"

text \<open>The handle of a fresh cell, entered under its identifier and its user.\<close>

definition enter_order ::
  "string \<Rightarrow> string \<Rightarrow> ('f, 'r) vorder \<Rightarrow> ('f, 'r) replica \<Rightarrow> ('f, 'r) replica" where
  "enter_order user order_id v r =
     (let h = length (r_cells r) in
      r\<lparr>r_cells := r_cells r @ [v], r_orders := (r_orders r)(order_id \<mapsto> h),
        r_user_orders := (r_user_orders r)(user \<mapsto> or_default [] (r_user_orders r user) @ [h]),
        r_users := insert user (r_users r)\<rparr>)"

definition replica_place ::
  "('n, 'f::linordered_field, 'd) codec \<Rightarrow> ('r, 'f) rng_api \<Rightarrow> instant \<Rightarrow> string \<Rightarrow> 'n args
     \<Rightarrow> ('f, 'r) replica \<Rightarrow> (nat \<times> ('f, 'r) replica) attempt" where
  "replica_place c g now order_id args r =
     (let user = or_default ''default'' (arg_str args ''user'');
          args = args(''user'' := None) in
      case vorder_from_init g now (replica_init c order_id args) of
        Inl _ \<Rightarrow> Panicked
      | Inr v \<Rightarrow>
          let h = length (r_cells r); r = enter_order user order_id v r in
          (case r_instruments r (v_symbol v) of
             None \<Rightarrow> Returned (h, r\<lparr>r_cells := (r_cells r)[h := reject_symbol v],
                                   r_completed := r_completed r @ [h]\<rparr>)
           | Some inst \<Rightarrow>
               let last_price = i_last_price inst in
               Returned (h, r\<lparr>r_cells := (r_cells r)[h := apply_as_market last_price v],
                              r_pending := r_pending r @ [h],
                              r_fills := r_fills r @ [(h, last_price)]\<rparr>)))"

definition modify_cell ::
  "('n, 'f, 'd) codec \<Rightarrow> string \<times> 'n json \<Rightarrow> ('f, 'r) vorder \<Rightarrow> ('f, 'r) vorder" where
  "modify_cell c kv v =
     (let k = fst kv; x = snd kv in
      if k = ''price''
      then (case as_f64 c x of None \<Rightarrow> v | Some n \<Rightarrow> v\<lparr>v_price := Some n\<rparr>)
      else if k = ''trigger_price''
      then (case as_f64 c x of None \<Rightarrow> v | Some n \<Rightarrow> v\<lparr>v_trigger_price := Some n\<rparr>)
      else if k = ''quantity''
      then (case as_f64 c x of None \<Rightarrow> v | Some n \<Rightarrow> v\<lparr>v_quantity := n\<rparr>)
      else if k = ''order_type''
      then (case value_to_order_type c x of None \<Rightarrow> v | Some t \<Rightarrow> v\<lparr>v_order_type := t\<rparr>)
      else v)"

definition replica_modify ::
  "('n, 'f, 'd) codec \<Rightarrow> string \<Rightarrow> 'n kwargs \<Rightarrow> ('f, 'r) replica
     \<Rightarrow> nat option \<times> ('f, 'r) replica" where
  "replica_modify c order_id args r =
     (case r_orders r order_id of None \<Rightarrow> (None, r)
      | Some h \<Rightarrow> (Some h, r\<lparr>r_cells := (r_cells r)[h := fold (modify_cell c) args (r_cells r ! h)]\<rparr>))"

definition cancel_cell :: "('f::linordered_field, 'r) vorder \<Rightarrow> ('f, 'r) vorder" where
  "cancel_cell v = v\<lparr>v_canceled_quantity := v_quantity v - v_filled_quantity v\<rparr>"

definition replica_cancel ::
  "string \<Rightarrow> ('f::linordered_field, 'r) replica \<Rightarrow> nat option \<times> ('f, 'r) replica" where
  "replica_cancel order_id r =
     (case r_orders r order_id of None \<Rightarrow> (None, r)
      | Some h \<Rightarrow>
          let v = r_cells r ! h in
          if vorder_done v then (Some h, r)
          else (Some h, r\<lparr>r_cells := (r_cells r)[h := cancel_cell v],
                          r_completed := r_completed r @ [h]\<rparr>))"

text \<open>The loop of \<open>run_fill\<close>: the store, the fills with their new prices, the identifiers done.\<close>

primrec fill_loop ::
  "(string \<rightharpoonup> 'f instrument) \<Rightarrow> (nat \<times> 'f) list \<Rightarrow> ('f::linordered_field, 'r) vorder list
     \<Rightarrow> ('f, 'r) vorder list \<times> (nat \<times> 'f) list \<times> string list" where
  "fill_loop insts [] cells = (cells, [], [])"
| "fill_loop insts (fl # fills) cells =
     (case fl of (h, lp) \<Rightarrow>
      (case insts (v_symbol (cells ! h)) of
         None \<Rightarrow> let (cells, fls, ids) = fill_loop insts fills cells in (cells, (h, lp) # fls, ids)
       | Some inst \<Rightarrow>
           let last_price = i_last_price inst in
           if last_price = 0
           then let (cells, fls, ids) = fill_loop insts fills cells in (cells, (h, lp) # fls, ids)
           else
             let v = apply_fill_update last_price (cells ! h); cells = cells[h := v];
                 (cells, fls, ids) = fill_loop insts fills cells
             in (cells, (h, last_price) # fls, (if vorder_done v then [v_order_id v] else []) @ ids)))"

definition run_fill :: "('f::linordered_field, 'r) replica \<Rightarrow> ('f, 'r) replica" where
  "run_fill r =
     (let (cells, fills, done_ids) = fill_loop (r_instruments r) (r_fills r) (r_cells r) in
      r\<lparr>r_cells := cells,
        r_completed := r_completed r @ List.map_filter (r_orders r) done_ids,
        r_fills := filter (\<lambda>(h, _). \<not> vorder_done (cells ! h)) fills\<rparr>)"

end
