(* ===== verification/Sim_Async_Replica.thy ===== *)
theory Sim_Async_Replica
  imports Sim_Replica
begin

text \<open>
  \<open>async_replica_broker.rs\<close>: the same matching engine, its operations cut where they release a
  lock. An operation in flight is a task; a step of a task is one section between two lock
  operations, and the steps of all tasks interleave. A caller holds handles too and may write
  the order behind one between any two steps.

  \<open>place\<close> keeps the broker's lock from the allocation on and is one step. \<open>modify\<close> and \<open>cancel\<close>
  resolve the handle under the broker's lock, then work under the order's. \<open>run_fill\<close> takes two
  snapshots, visits each handle (symbol, update and check, each under the order's lock) and
  reconciles under the broker's lock. The state is the record of \<open>Sim_Replica\<close>.
\<close>

section \<open>Tasks\<close>

datatype ('n, 'f) task =
    ModifyMutate nat "'n kwargs"
  | CancelMutate nat
  | CancelPush nat
  | FillPrices "(nat \<times> nat) list"
  | FillSymbol "(nat \<times> nat) list" "string \<rightharpoonup> 'f" "(nat \<times> 'f) list" "nat list"
  | FillApply nat nat 'f "(nat \<times> nat) list" "string \<rightharpoonup> 'f" "(nat \<times> 'f) list" "nat list"
  | FillCheck nat nat 'f "(nat \<times> nat) list" "string \<rightharpoonup> 'f" "(nat \<times> 'f) list" "nat list"

definition push_completed_unique :: "nat \<Rightarrow> nat list \<Rightarrow> nat list" where
  "push_completed_unique h completed = (if h \<in> set completed then completed else completed @ [h])"

definition async_place ::
  "('n, 'f::linordered_field, 'd) codec \<Rightarrow> ('r, 'f) rng_api \<Rightarrow> instant \<Rightarrow> string \<Rightarrow> 'n args
     \<Rightarrow> ('f, 'r) replica \<Rightarrow> (nat \<times> ('f, 'r) replica) attempt" where
  "async_place c g now order_id args r =
     (let user = or_default ''default'' (arg_str args ''user'');
          args = args(''user'' := None) in
      case vorder_from_init g now (replica_init c order_id args) of
        Inl _ \<Rightarrow> Panicked
      | Inr v \<Rightarrow>
          let h = length (r_cells r); r = enter_order user order_id v r in
          (case r_instruments r (v_symbol v) of
             None \<Rightarrow> Returned (h, r\<lparr>r_cells := (r_cells r)[h := reject_symbol v],
                                   r_completed := push_completed_unique h (r_completed r)\<rparr>)
           | Some inst \<Rightarrow>
               let last_price = i_last_price inst in
               Returned (h, r\<lparr>r_cells := (r_cells r)[h := apply_as_market last_price v],
                              r_pending := r_pending r @ [h],
                              r_fills := r_fills r @ [(h, last_price)]\<rparr>)))"

text \<open>The handle a modify or cancel resolves first, and the task it leaves.\<close>

definition async_modify_start :: "'n args \<Rightarrow> 'n kwargs \<Rightarrow> ('f, 'r) replica \<Rightarrow> ('n, 'f) task list" where
  "async_modify_start args kwargs r =
     (case arg_str args ''order_id'' of None \<Rightarrow> []
      | Some order_id \<Rightarrow> (case r_orders r order_id of None \<Rightarrow> []
          | Some h \<Rightarrow> [ModifyMutate h (filter (\<lambda>(k, _). k \<noteq> ''order_id'') kwargs)]))"

definition async_cancel_start :: "'n args \<Rightarrow> ('f, 'r) replica \<Rightarrow> ('n, 'f) task list" where
  "async_cancel_start args r =
     (case arg_str args ''order_id'' of None \<Rightarrow> []
      | Some order_id \<Rightarrow> (case r_orders r order_id of None \<Rightarrow> [] | Some h \<Rightarrow> [CancelMutate h]))"

definition async_fill_start :: "('f, 'r) replica \<Rightarrow> ('n, 'f) task list" where
  "async_fill_start r = [FillPrices (enumerate 0 (map fst (r_fills r)))]"

text \<open>Phase C of \<open>run_fill\<close>: prices by index, completions, and the fills that stay.\<close>

definition write_prices :: "(nat \<times> 'f) list \<Rightarrow> (nat \<times> 'f) list \<Rightarrow> (nat \<times> 'f) list" where
  "write_prices writes fills =
     foldl (\<lambda>fills (i, p). if i < length fills then fills[i := (fst (fills ! i), p)] else fills)
       fills writes"

definition reconcile_fills ::
  "(nat \<times> 'f) list \<Rightarrow> nat list \<Rightarrow> ('f, 'r) replica \<Rightarrow> ('f, 'r) replica" where
  "reconcile_fills writes done_handles r =
     r\<lparr>r_completed := foldl (\<lambda>cs h. push_completed_unique h cs) (r_completed r) done_handles,
       r_fills := filter (\<lambda>(h, _). h \<notin> set done_handles) (write_prices writes (r_fills r))\<rparr>"

text \<open>The next visit of the loop, or the reconciliation when no handle is left.\<close>

fun task_step ::
  "('n, 'f::linordered_field, 'd) codec \<Rightarrow> ('n, 'f) task \<Rightarrow> ('f, 'r) replica
     \<Rightarrow> ('f, 'r) replica \<times> ('n, 'f) task list" where
  "task_step c (ModifyMutate h kwargs) r =
     (r\<lparr>r_cells := (r_cells r)[h := fold (modify_cell c) kwargs (r_cells r ! h)]\<rparr>, [])"
| "task_step c (CancelMutate h) r =
     (let v = r_cells r ! h in
      if vorder_done v then (r, [])
      else (r\<lparr>r_cells := (r_cells r)[h := cancel_cell v]\<rparr>, [CancelPush h]))"
| "task_step c (CancelPush h) r =
     (r\<lparr>r_completed := push_completed_unique h (r_completed r)\<rparr>, [])"
| "task_step c (FillPrices todo) r =
     (r, [FillSymbol todo (\<lambda>s. map_option i_last_price (r_instruments r s)) [] []])"
| "task_step c (FillSymbol [] prices writes dones) r = (reconcile_fills writes dones r, [])"
| "task_step c (FillSymbol ((i, h) # todo) prices writes dones) r =
     (r, [case prices (v_symbol (r_cells r ! h)) of
            None \<Rightarrow> FillSymbol todo prices writes dones
          | Some p \<Rightarrow> if p = 0 then FillSymbol todo prices writes dones
                     else FillApply i h p todo prices writes dones])"
| "task_step c (FillApply i h p todo prices writes dones) r =
     (r\<lparr>r_cells := (r_cells r)[h := apply_fill_update p (r_cells r ! h)]\<rparr>,
      [FillCheck i h p todo prices writes dones])"
| "task_step c (FillCheck i h p todo prices writes dones) r =
     (r, [FillSymbol todo prices (writes @ [(i, p)])
            (if vorder_done (r_cells r ! h) then dones @ [h] else dones)])"

type_synonym ('n, 'f, 'r) async_state = "('f, 'r) replica \<times> ('n, 'f) task list"

text \<open>A task of the list takes its next step.\<close>

inductive advance ::
  "('n, 'f::linordered_field, 'd) codec \<Rightarrow> ('n, 'f, 'r) async_state
     \<Rightarrow> ('n, 'f, 'r) async_state \<Rightarrow> bool" for c where
  "i < length ts \<Longrightarrow> task_step c (ts ! i) r = (r', new) \<Longrightarrow>
     advance c (r, ts) (r', take i ts @ new @ drop (Suc i) ts)"

inductive async_step ::
  "('n, 'f::linordered_field, 'd) codec \<Rightarrow> ('r, 'f) rng_api \<Rightarrow> ('n, 'f, 'r) async_state
     \<Rightarrow> ('n, 'f, 'r) async_state \<Rightarrow> bool" for c g where
  place: "async_place c g now order_id args r = Returned (h, r') \<Longrightarrow>
     async_step c g (r, ts) (r', ts)"
| modify: "async_step c g (r, ts) (r, async_modify_start args kwargs r @ ts)"
| cancel: "async_step c g (r, ts) (r, async_cancel_start args r @ ts)"
| fill: "async_step c g (r, ts) (r, async_fill_start r @ ts)"
| update: "async_step c g (r, ts) (replica_update insts r, ts)"
| caller: "h < length (r_cells r) \<Longrightarrow>
     async_step c g (r, ts) (r\<lparr>r_cells := (r_cells r)[h := v]\<rparr>, ts)"
| advance: "advance c s s' \<Longrightarrow> async_step c g s s'"

inductive async_reachable ::
  "('n, 'f::linordered_field, 'd) codec \<Rightarrow> ('r, 'f) rng_api \<Rightarrow> ('n, 'f, 'r) async_state \<Rightarrow> bool"
  for c g where
  start: "async_reachable c g (replica_new, [])"
| step: "async_reachable c g s \<Longrightarrow> async_step c g s s' \<Longrightarrow> async_reachable c g s'"

inductive_cases advanceE: "advance c (r, ts) s'"


section \<open>No order is lost, none completes twice\<close>

text \<open>
  Every order placed is waiting for a fill or completed, the completed ones without
  repetition, and the fills name different orders.
\<close>

definition tracked :: "('f, 'r) replica \<Rightarrow> nat set" where
  "tracked r = set (r_completed r) \<union> fst ` set (r_fills r)"

definition nothing_lost :: "('f, 'r) replica \<Rightarrow> bool" where
  "nothing_lost r \<longleftrightarrow>
     distinct (r_completed r) \<and> distinct (map fst (r_fills r))
     \<and> tracked r = {..<length (r_cells r)}"

lemma nothing_lost_cells [simp]:
  "length cells = length (r_cells r) \<Longrightarrow> nothing_lost (r\<lparr>r_cells := cells\<rparr>) = nothing_lost r"
  by (simp add: nothing_lost_def tracked_def)

fun task_handles :: "('n, 'f) task \<Rightarrow> nat list" where
  "task_handles (ModifyMutate h _) = [h]"
| "task_handles (CancelMutate h) = [h]"
| "task_handles (CancelPush h) = [h]"
| "task_handles (FillPrices todo) = map snd todo"
| "task_handles (FillSymbol todo _ _ dones) = map snd todo @ dones"
| "task_handles (FillApply i h p todo _ _ dones) = h # map snd todo @ dones"
| "task_handles (FillCheck i h p todo _ _ dones) = h # map snd todo @ dones"

definition tasks_valid :: "('f, 'r) replica \<Rightarrow> ('n, 'f) task list \<Rightarrow> bool" where
  "tasks_valid r ts \<longleftrightarrow> (\<forall>t \<in> set ts. set (task_handles t) \<subseteq> {..<length (r_cells r)})"

definition handles_valid :: "('f, 'r) replica \<Rightarrow> bool" where
  "handles_valid r \<longleftrightarrow> ran (r_orders r) \<subseteq> {..<length (r_cells r)}"

lemma push_completed_unique_set [simp]:
  "set (push_completed_unique h cs) = insert h (set cs)"
  by (auto simp: push_completed_unique_def)

lemma push_completed_unique_distinct [simp]:
  "distinct cs \<Longrightarrow> distinct (push_completed_unique h cs)"
  by (simp add: push_completed_unique_def)

lemma push_all:
  "distinct cs \<Longrightarrow> distinct (foldl (\<lambda>cs h. push_completed_unique h cs) cs hs)
     \<and> set (foldl (\<lambda>cs h. push_completed_unique h cs) cs hs) = set cs \<union> set hs"
  by (induction hs arbitrary: cs) auto

lemma write_prices_handles [simp]: "map fst (write_prices writes fills) = map fst fills"
proof (induction writes arbitrary: fills)
  case (Cons w writes)
  obtain i p where w: "w = (i, p)" by (cases w)
  let ?f = "if i < length fills then fills[i := (fst (fills ! i), p)] else fills"
  have "map fst ?f = map fst fills" by (simp add: map_update list_update_same_conv)
  moreover have "write_prices (w # writes) fills = write_prices writes ?f"
    by (simp add: write_prices_def w)
  ultimately show ?case using Cons.IH [of ?f] by simp
qed (simp add: write_prices_def)

lemma fst_filter: "fst ` set (filter (\<lambda>(h, _). h \<notin> D) xs) = fst ` set xs - D"
  by (induction xs) auto

lemma reconcile_nothing_lost:
  assumes "nothing_lost r" and "set dones \<subseteq> {..<length (r_cells r)}"
  shows "nothing_lost (reconcile_fills writes dones r)"
proof -
  let ?w = "write_prices writes (r_fills r)"
  have d: "distinct (map fst ?w)" using assms(1) by (simp add: nothing_lost_def)
  have "set (map fst ?w) = set (map fst (r_fills r))" by (simp only: write_prices_handles)
  then have s: "fst ` set ?w = fst ` set (r_fills r)" by (simp only: set_map)
  have "distinct (map fst (filter (\<lambda>(h, _). h \<notin> set dones) ?w))"
    using d by (rule distinct_map_filter)
  moreover have "fst ` set (filter (\<lambda>(h, _). h \<notin> set dones) ?w)
      = fst ` set (r_fills r) - set dones"
    unfolding fst_filter s ..
  ultimately have d': "distinct (map fst (r_fills (reconcile_fills writes dones r)))"
      and f: "fst ` set (r_fills (reconcile_fills writes dones r))
        = fst ` set (r_fills r) - set dones"
    by (simp_all add: reconcile_fills_def)
  have "distinct (r_completed r)" using assms(1) by (simp add: nothing_lost_def)
  from push_all [OF this, of dones] have c: "distinct (r_completed (reconcile_fills writes dones r))"
      "set (r_completed (reconcile_fills writes dones r)) = set (r_completed r) \<union> set dones"
    by (simp_all add: reconcile_fills_def)
  have "tracked (reconcile_fills writes dones r) = tracked r \<union> set dones"
    unfolding tracked_def f c(2) by blast
  moreover have "r_cells (reconcile_fills writes dones r) = r_cells r"
    by (simp add: reconcile_fills_def)
  ultimately show ?thesis using assms d' c(1) by (simp add: nothing_lost_def Un_absorb2)
qed

lemma place_shape:
  assumes "async_place c g now order_id args r = Returned (h, r')"
  shows "h = length (r_cells r) \<and> length (r_cells r') = Suc h
    \<and> r_orders r' = (r_orders r)(order_id \<mapsto> h)
    \<and> (r_completed r' = push_completed_unique h (r_completed r) \<and> r_fills r' = r_fills r
       \<or> r_completed r' = r_completed r \<and> (\<exists>p. r_fills r' = r_fills r @ [(h, p)]))"
  using assms
  by (auto simp: async_place_def Let_def enter_order_def split: sum.splits option.splits)

lemma place_nothing_lost:
  assumes "nothing_lost r" and "async_place c g now order_id args r = Returned (h, r')"
  shows "nothing_lost r'"
proof -
  note p = place_shape [OF assms(2)]
  have h: "h \<notin> tracked r" using assms(1) p by (simp add: nothing_lost_def)
  have "tracked r' = insert h (tracked r)" using p by (auto simp: tracked_def)
  moreover have "distinct (r_completed r')" "distinct (map fst (r_fills r'))"
    using p h assms(1) by (auto simp: nothing_lost_def tracked_def)
  ultimately show ?thesis using assms(1) p by (simp add: nothing_lost_def lessThan_Suc)
qed

lemma task_step_effect:
  assumes "task_step c t r = (r', new)" and "nothing_lost r"
    and "set (task_handles t) \<subseteq> {..<length (r_cells r)}"
  shows "nothing_lost r' \<and> length (r_cells r') = length (r_cells r) \<and> r_orders r' = r_orders r
    \<and> (\<forall>u \<in> set new. set (task_handles u) \<subseteq> {..<length (r_cells r)})"
proof (cases t)
  case (FillSymbol todo prices writes dones)
  show ?thesis
  proof (cases todo)
    case Nil
    then show ?thesis
      using assms FillSymbol reconcile_nothing_lost [of r dones writes]
      by (auto simp: reconcile_fills_def)
  next
    case (Cons a rest)
    obtain i h where a: "a = (i, h)" by (cases a)
    have "\<exists>u. new = [u] \<and> set (task_handles u) \<subseteq> set (task_handles t)" "r' = r"
      using assms(1) FillSymbol Cons a by (auto split: option.splits)
    then show ?thesis using assms(2,3) by auto
  qed
next
  case (ModifyMutate h kwargs)
  then show ?thesis using assms by auto
next
  case (CancelMutate h)
  then show ?thesis using assms by (auto simp: Let_def split: if_splits)
next
  case (CancelPush h)
  then have "r' = r\<lparr>r_completed := push_completed_unique h (r_completed r)\<rparr>" "new = []"
    and "h \<in> tracked r" using assms by (auto simp: nothing_lost_def)
  then show ?thesis using assms(2) by (auto simp: nothing_lost_def tracked_def)
next
  case (FillPrices todo)
  then obtain prices where "r' = r" "new = [FillSymbol todo prices [] []]" using assms(1) by auto
  then show ?thesis using assms(2,3) FillPrices by simp
next
  case (FillApply i h p todo prices writes dones)
  then have "new = [FillCheck i h p todo prices writes dones]"
    and "r' = r\<lparr>r_cells := (r_cells r)[h := apply_fill_update p (r_cells r ! h)]\<rparr>"
    using assms(1) by auto
  then show ?thesis using assms(2,3) FillApply by simp
next
  case (FillCheck i h p todo prices writes dones)
  then obtain dones' where "r' = r" "new = [FillSymbol todo prices (writes @ [(i, p)]) dones']"
    and "set dones' \<subseteq> insert h (set dones)"
    using assms(1) by (cases "vorder_done (r_cells r ! h)") auto
  moreover have "insert h (set dones) \<subseteq> {..<length (r_cells r)}"
    using assms(3) FillCheck by simp
  ultimately show ?thesis using assms(2,3) FillCheck by (simp, blast)
qed


text \<open>The invariant of the interleaving.\<close>

definition async_ok :: "('n, 'f, 'r) async_state \<Rightarrow> bool" where
  "async_ok s \<longleftrightarrow>
     nothing_lost (fst s) \<and> handles_valid (fst s) \<and> tasks_valid (fst s) (snd s)"

lemma advance_ok:
  assumes "advance c s s'" and "async_ok s"
  shows "async_ok s'"
  using assms
proof cases
  case (1 i ts r r' new)
  have t: "set (task_handles (ts ! i)) \<subseteq> {..<length (r_cells r)}"
    using assms(2) 1 by (simp add: async_ok_def tasks_valid_def)
  from task_step_effect [OF 1(4) _ t] assms(2) 1
  have e: "nothing_lost r'" "length (r_cells r') = length (r_cells r)" "r_orders r' = r_orders r"
      "\<forall>u \<in> set new. set (task_handles u) \<subseteq> {..<length (r_cells r)}"
    by (auto simp: async_ok_def)
  show ?thesis
    using e assms(2) 1
    by (auto simp: async_ok_def handles_valid_def tasks_valid_def dest: in_set_takeD in_set_dropD)
qed

lemma async_step_ok:
  assumes "async_step c g s s'" and "async_ok s"
  shows "async_ok s'"
  using assms
proof cases
  case (place now order_id args r h r' ts)
  note p = place_shape [OF place(3)]
  have "handles_valid r'" "tasks_valid r' ts"
    using assms(2) place p
    by (fastforce simp: async_ok_def handles_valid_def tasks_valid_def ran_def split: if_splits)+
  then show ?thesis
    using place_nothing_lost [OF _ place(3)] assms(2) place by (simp add: async_ok_def)
next
  case (modify r ts args kwargs)
  then show ?thesis using assms(2)
    by (auto simp: async_ok_def tasks_valid_def async_modify_start_def handles_valid_def ran_def
        split: option.splits)
next
  case (cancel r ts args)
  then show ?thesis using assms(2)
    by (auto simp: async_ok_def tasks_valid_def async_cancel_start_def handles_valid_def ran_def
        split: option.splits)
next
  case (fill r ts)
  have "set (map snd (enumerate 0 (map fst (r_fills r)))) = fst ` set (r_fills r)"
    by (simp only: map_snd_enumerate set_map)
  then show ?thesis using assms(2) fill
    by (auto simp: async_ok_def tasks_valid_def async_fill_start_def nothing_lost_def tracked_def)
next
  case (update r ts insts)
  then show ?thesis using assms(2)
    by (simp add: async_ok_def replica_update_def nothing_lost_def tracked_def handles_valid_def
        tasks_valid_def)
next
  case (caller h r ts v)
  then show ?thesis using assms(2)
    by (simp add: async_ok_def handles_valid_def tasks_valid_def)
next
  case advance
  then show ?thesis using assms(2) advance_ok by blast
qed

lemma async_reachable_ok: "async_reachable c g s \<Longrightarrow> async_ok s"
proof (induction rule: async_reachable.induct)
  case start
  show ?case
    by (simp add: async_ok_def nothing_lost_def tracked_def handles_valid_def tasks_valid_def
        replica_new_def)
next
  case (step s s')
  then show ?case by (blast intro: async_step_ok)
qed



section \<open>The work left\<close>

text \<open>The steps a task still has, at most.\<close>

fun work :: "('n, 'f) task \<Rightarrow> nat" where
  "work (ModifyMutate _ _) = 1"
| "work (CancelMutate _) = 2"
| "work (CancelPush _) = 1"
| "work (FillPrices todo) = 3 * length todo + 2"
| "work (FillSymbol todo _ _ _) = 3 * length todo + 1"
| "work (FillApply _ _ _ todo _ _ _) = 3 * length todo + 3"
| "work (FillCheck _ _ _ todo _ _ _) = 3 * length todo + 2"

definition total_work :: "('n, 'f) task list \<Rightarrow> nat" where
  "total_work ts = sum_list (map work ts)"

lemma task_step_work: "task_step c t r = (r', new) \<Longrightarrow> total_work new < work t"
proof (cases t)
  case (FillSymbol todo prices writes dones)
  then show "task_step c t r = (r', new) \<Longrightarrow> ?thesis"
    by (cases todo) (auto simp: total_work_def split: option.splits)
qed (auto simp: total_work_def Let_def split: if_splits)

end
