(* ===== verification/Sim_Virtual.thy ===== *)
theory Sim_Virtual
  imports Sim_Replica
begin

text \<open>
  \<open>virtual_broker.rs\<close>: the multi-user virtual broker. Its random failures come from the
  generator parameter; the instant an operation reads from its clock is an argument, as is the
  fresh identifier of a placement. A reply carries a copy of the order made by
  \<open>cloned_clone_weak\<close>.
\<close>

section \<open>State and replies\<close>

record ('f, 'r) order_response =
  resp_status :: response_status
  resp_timestamp :: "instant option"
  resp_error_msg :: "string option"
  resp_data :: "('f, 'r) vorder option"

datatype ('n, 'f, 'r) broker_reply =
    OrderReply "('f, 'r) order_response"
  | Passthrough "'n json"

record ('f, 'r) vbroker =
  vb_name :: string
  vb_tickers :: "string \<rightharpoonup> ('f, 'r) ticker"
  vb_users :: "('f, 'r) vuser list"
  vb_failure_rate :: 'f
  vb_delay_us :: i64
  vb_orders :: "string \<rightharpoonup> ('f, 'r) vorder"
  vb_clients :: "string set"
  vb_clock :: clock_ref
  vb_rng :: 'r

definition vbroker_new ::
  "('r, 'f::linordered_field) rng_api \<Rightarrow> clock_ref \<Rightarrow> nat \<Rightarrow> ('f, 'r) vbroker" where
  "vbroker_new g clock seed =
     \<lparr> vb_name = ''VBroker'', vb_tickers = Map.empty, vb_users = [],
       vb_failure_rate = 1 / 1000, vb_delay_us = 1000000, vb_orders = Map.empty,
       vb_clients = {}, vb_clock = clock, vb_rng = seed_from g seed \<rparr>"

definition set_failure_rate ::
  "'f::linordered_field \<Rightarrow> ('f, 'r) vbroker \<Rightarrow> 'f + ('f, 'r) vbroker" where
  "set_failure_rate v b =
     (if \<not> (0 \<le> v \<and> v \<le> 1) then Inl v else Inr (b\<lparr>vb_failure_rate := v\<rparr>))"

definition is_failure ::
  "('r, 'f) rng_api \<Rightarrow> ('f::linordered_field, 'r) vbroker \<Rightarrow> bool \<times> ('f, 'r) vbroker" where
  "is_failure g b = (let (r, rng) = gen_unit g (vb_rng b) in
     (r < vb_failure_rate b, b\<lparr>vb_rng := rng\<rparr>))"

definition failure_reply :: "instant \<Rightarrow> string \<Rightarrow> ('n, 'f, 'r) broker_reply" where
  "failure_reply now msg =
     OrderReply \<lparr> resp_status = RsFailure, resp_timestamp = Some now,
                  resp_error_msg = Some msg, resp_data = None \<rparr>"

definition success_reply ::
  "instant \<Rightarrow> ('f, 'r) vorder option \<Rightarrow> ('n, 'f, 'r) broker_reply" where
  "success_reply now data =
     OrderReply \<lparr> resp_status = RsSuccess, resp_timestamp = Some now,
                  resp_error_msg = None, resp_data = data \<rparr>"

definition cloned_clone_weak ::
  "('r, 'f) rng_api \<Rightarrow> ('f::linordered_field, 'r) vorder \<Rightarrow> ('f, 'r) vorder option" where
  "cloned_clone_weak g v =
     (case vorder_from_init g (or_default 0 (v_timestamp v))
         (default_vinit\<lparr>
            vi_order_id := v_order_id v, vi_symbol := v_symbol v, vi_quantity := v_quantity v,
            vi_side := Some (v_side v), vi_price := v_price v,
            vi_average_price := v_average_price v, vi_trigger_price := v_trigger_price v,
            vi_timestamp := v_timestamp v, vi_exchange_order_id := v_exchange_order_id v,
            vi_exchange_timestamp := v_exchange_timestamp v,
            vi_status_message := v_status_message v, vi_order_type := Some (v_order_type v),
            vi_filled_quantity := Some (v_filled_quantity v),
            vi_pending_quantity := Some (v_pending_quantity v),
            vi_canceled_quantity := Some (v_canceled_quantity v),
            vi_now_override := v_timestamp v\<rparr>) of
        Inl _ \<Rightarrow> None
      | Inr cloned \<Rightarrow> Some (cloned\<lparr>v_delay := v_delay v\<rparr>))"

text \<open>The order type of this broker: only strings, unlike the replica's.\<close>

definition virtual_order_type :: "'n json \<Rightarrow> sim_order_type option" where
  "virtual_order_type v =
     (case as_str v of None \<Rightarrow> None
      | Some s \<Rightarrow> (case order_type_parse s of Inl _ \<Rightarrow> None | Inr x \<Rightarrow> Some x))"


section \<open>Operations\<close>

definition vb_get ::
  "('r, 'f) rng_api \<Rightarrow> instant \<Rightarrow> string \<Rightarrow> sim_status
     \<Rightarrow> ('f::{linordered_field, floor_ceiling}, 'r) vbroker
     \<Rightarrow> ('f, 'r) vorder option \<times> ('f, 'r) vbroker" where
  "vb_get g now order_id status b =
     (case vb_orders b order_id of None \<Rightarrow> (None, b)
      | Some v \<Rightarrow> let v = snd (modify_by_status g status now v) in
          (Some v, b\<lparr>vb_orders := (vb_orders b)(order_id \<mapsto> v)\<rparr>))"

definition vb_add_user :: "('f, 'r) vuser \<Rightarrow> ('f, 'r) vbroker \<Rightarrow> bool \<times> ('f, 'r) vbroker" where
  "vb_add_user u b =
     (if u_userid u \<in> vb_clients b then (False, b)
      else (True, b\<lparr>vb_clients := insert (u_userid u) (vb_clients b),
                    vb_users := vb_users b @ [u]\<rparr>))"

definition missing_fields :: "'n args \<Rightarrow> string list" where
  "missing_fields args =
     (if args ''symbol'' = None then [''symbol''] else [])
     @ (if args ''side'' = None \<and> args ''side_str'' = None then [''side''] else [])
     @ (if args ''quantity'' = None then [''quantity''] else [])"

definition delay_of :: "('n, 'f, 'd) codec \<Rightarrow> 'n args \<Rightarrow> i64 \<Rightarrow> i64" where
  "delay_of c args dflt =
     (case args ''delay'' of None \<Rightarrow> dflt
      | Some v \<Rightarrow> (case as_f64 c v of Some f \<Rightarrow> f64_to_i64 c f
          | None \<Rightarrow> or_default dflt (as_i64 c v)))"

definition virtual_init ::
  "('n, 'f::zero, 'd) codec \<Rightarrow> instant \<Rightarrow> string \<Rightarrow> 'n args \<Rightarrow> 'f vorder_init" where
  "virtual_init c now order_id args =
     default_vinit\<lparr>
       vi_order_id := order_id,
       vi_symbol := or_default '''' (arg_str args ''symbol''),
       vi_quantity := or_default 0 (arg_f64 c args ''quantity''),
       vi_side := Option.bind (args ''side'') (value_to_side c),
       vi_side_str := arg_str args ''side_str'',
       vi_price := arg_f64 c args ''price'',
       vi_trigger_price := arg_f64 c args ''trigger_price'',
       vi_average_price := arg_f64 c args ''average_price'',
       vi_order_type := Option.bind (args ''order_type'') virtual_order_type,
       vi_order_type_str := arg_str args ''order_type'',
       vi_now_override := Some now\<rparr>"

text \<open>The first user with the identifier receives the copy.\<close>

primrec attach_order ::
  "string \<Rightarrow> ('f, 'r) vorder option \<Rightarrow> ('f, 'r) vuser list \<Rightarrow> ('f, 'r) vuser list" where
  "attach_order uid attached [] = []"
| "attach_order uid attached (u # us) =
     (if u_userid u = uid
      then (case attached of None \<Rightarrow> u | Some v \<Rightarrow> vuser_add v u) # us
      else u # attach_order uid attached us)"

definition vb_order_place ::
  "('n, 'f::linordered_field, 'd) codec \<Rightarrow> ('r, 'f) rng_api \<Rightarrow> instant \<Rightarrow> string \<Rightarrow> 'n args
     \<Rightarrow> ('f, 'r) vbroker \<Rightarrow> ('n, 'f, 'r) broker_reply \<times> ('f, 'r) vbroker" where
  "vb_order_place c g now order_id args b =
     (case args ''response'' of
        Some v \<Rightarrow> (Passthrough v, b)
      | None \<Rightarrow>
        let (failed, b) = is_failure g b in
        if failed then (failure_reply now ''Unexpected error'', b)
        else if missing_fields args \<noteq> []
        then (failure_reply now
               (''Found '' @ show_nat (length (missing_fields args))
                 @ '' validation errors; in field '' @ hd (missing_fields args)
                 @ '' Field required''), b)
        else
          let delay_us = delay_of c args (vb_delay_us b);
              userid = map_option to_uppercase (arg_str args ''userid'') in
          case vorder_from_init g now (virtual_init c now order_id args) of
            Inl msg \<Rightarrow>
              (failure_reply now (''Found 1 validation errors; in field side '' @ msg), b)
          | Inr v \<Rightarrow>
              let v = v\<lparr>v_delay := delay_us * 1000\<rparr>;
                  b = b\<lparr>vb_orders := (vb_orders b)(order_id \<mapsto> v)\<rparr>;
                  b = (case userid of None \<Rightarrow> b
                       | Some uid \<Rightarrow> if uid \<in> vb_clients b
                           then b\<lparr>vb_users := attach_order uid (cloned_clone_weak g v) (vb_users b)\<rparr>
                           else b)
              in (success_reply now (cloned_clone_weak g v), b))"

definition not_found :: "string \<Rightarrow> string" where
  "not_found order_id = ''Order id '' @ order_id @ '' not found on system''"

definition vb_order_modify ::
  "('n, 'f::linordered_field, 'd) codec \<Rightarrow> ('r, 'f) rng_api \<Rightarrow> instant \<Rightarrow> string \<Rightarrow> 'n args
     \<Rightarrow> ('f, 'r) vbroker \<Rightarrow> ('n, 'f, 'r) broker_reply \<times> ('f, 'r) vbroker" where
  "vb_order_modify c g now order_id args b =
     (case args ''response'' of
        Some v \<Rightarrow> (Passthrough v, b)
      | None \<Rightarrow>
        let (failed, b) = is_failure g b in
        if failed then (failure_reply now ''Unexpected error'', b)
        else case vb_orders b order_id of
          None \<Rightarrow> (failure_reply now (not_found order_id), b)
        | Some v \<Rightarrow>
            let v = (case arg_f64 c args ''price'' of None \<Rightarrow> v | Some x \<Rightarrow> v\<lparr>v_price := Some x\<rparr>);
                v = (case arg_f64 c args ''trigger_price'' of None \<Rightarrow> v
                     | Some x \<Rightarrow> v\<lparr>v_trigger_price := Some x\<rparr>);
                v = (case arg_f64 c args ''quantity'' of None \<Rightarrow> v | Some x \<Rightarrow> v\<lparr>v_quantity := x\<rparr>)
            in (success_reply now (cloned_clone_weak g v),
                b\<lparr>vb_orders := (vb_orders b)(order_id \<mapsto> v)\<rparr>))"

definition vb_order_cancel ::
  "('r, 'f::linordered_field) rng_api \<Rightarrow> instant \<Rightarrow> string \<Rightarrow> 'n args
     \<Rightarrow> ('f, 'r) vbroker \<Rightarrow> ('n, 'f, 'r) broker_reply \<times> ('f, 'r) vbroker" where
  "vb_order_cancel g now order_id args b =
     (case args ''response'' of
        Some v \<Rightarrow> (Passthrough v, b)
      | None \<Rightarrow>
        let (failed, b) = is_failure g b in
        if failed then (failure_reply now ''Unexpected error'', b)
        else case vb_orders b order_id of
          None \<Rightarrow> (failure_reply now (not_found order_id), b)
        | Some v \<Rightarrow>
            if vorder_status v = StComplete
            then (failure_reply now (''Order '' @ order_id @ '' already completed''), b)
            else
              let v = v\<lparr>v_canceled_quantity := v_quantity v - v_filled_quantity v,
                         v_pending_quantity := 0\<rparr>
              in (success_reply now (cloned_clone_weak g v),
                  b\<lparr>vb_orders := (vb_orders b)(order_id \<mapsto> v)\<rparr>))"

definition vb_update_tickers ::
  "(string \<times> 'f::linordered_field) list \<Rightarrow> ('f, 'r) vbroker \<Rightarrow> ('f, 'r) vbroker" where
  "vb_update_tickers last_price b =
     foldl (\<lambda>b (k, p). case vb_tickers b k of None \<Rightarrow> b
         | Some t \<Rightarrow> b\<lparr>vb_tickers := (vb_tickers b)(k \<mapsto> snd (ticker_update p t))\<rparr>)
       b last_price"

definition vb_ltp ::
  "('r, 'f) rng_api \<Rightarrow> string \<Rightarrow> ('f::{linordered_field, floor_ceiling}, 'r) vbroker
     \<Rightarrow> (string \<times> 'f) list option \<times> ('f, 'r) vbroker" where
  "vb_ltp g symb b =
     (case vb_tickers b symb of None \<Rightarrow> (None, b)
      | Some t \<Rightarrow> let (p, t) = ticker_ltp g t in
          (Some [(symb, p)], b\<lparr>vb_tickers := (vb_tickers b)(symb \<mapsto> t)\<rparr>))"

definition vb_ohlc :: "string \<Rightarrow> ('f, 'r) vbroker \<Rightarrow> (string \<times> 'f ohlc) list option" where
  "vb_ohlc symb b = map_option (\<lambda>t. [(symb, ticker_ohlc t)]) (vb_tickers b symb)"


section \<open>Laws\<close>

lemma clone_weak:
  "cloned_clone_weak g v = Some
     (let (f, p, cq) = normalise_quantities (v_quantity v) (v_filled_quantity v)
            (v_pending_quantity v) (v_canceled_quantity v) in
      v\<lparr>v_average_price := Some (or_default 0 (v_average_price v)),
        v_timestamp := Some (or_default (or_default 0 (v_timestamp v)) (v_timestamp v)),
        v_filled_quantity := f, v_pending_quantity := p, v_canceled_quantity := cq,
        v_rng := seed_from g 0\<rparr>)"
  by (cases "v_average_price v"; cases "v_timestamp v")
     (simp_all add: cloned_clone_weak_def vorder_from_init_def vinit_side_def
        vinit_order_type_def default_vinit_def Let_def split_beta')

text \<open>What a reply that is no success leaves alone: everything but the generator.\<close>

definition same_but_rng :: "('f, 'r) vbroker \<Rightarrow> ('f, 'r) vbroker \<Rightarrow> bool" where
  "same_but_rng b b' \<longleftrightarrow> b' = b\<lparr>vb_rng := vb_rng b'\<rparr>"

fun is_success :: "('n, 'f, 'r) broker_reply \<Rightarrow> bool" where
  "is_success (OrderReply r) = (resp_status r = RsSuccess)"
| "is_success (Passthrough _) = False"

lemma is_success_replies [simp]:
  "\<not> is_success (failure_reply now msg)" "is_success (success_reply now data)"
  by (simp_all add: failure_reply_def success_reply_def)

lemma is_failure_same: "same_but_rng b (snd (is_failure g b))"
  by (simp add: is_failure_def same_but_rng_def split_beta' Let_def)

lemma place_failed:
  "\<not> is_success (fst (vb_order_place c g now oid args b))
   \<Longrightarrow> same_but_rng b (snd (vb_order_place c g now oid args b))"
  using is_failure_same [of b g]
  by (auto simp: vb_order_place_def Let_def split_beta' same_but_rng_def
      split: option.splits sum.splits if_splits)

lemma modify_failed:
  "\<not> is_success (fst (vb_order_modify c g now oid args b))
   \<Longrightarrow> same_but_rng b (snd (vb_order_modify c g now oid args b))"
  using is_failure_same [of b g]
  by (auto simp: vb_order_modify_def Let_def split_beta' same_but_rng_def
      split: option.splits if_splits)

lemma cancel_failed:
  "\<not> is_success (fst (vb_order_cancel g now oid args b))
   \<Longrightarrow> same_but_rng b (snd (vb_order_cancel g now oid args b))"
  using is_failure_same [of b g]
  by (auto simp: vb_order_cancel_def Let_def split_beta' same_but_rng_def
      split: option.splits if_splits)

end
