(* ===== verification/Sim_Async_Virtual.thy ===== *)
theory Sim_Async_Virtual
  imports Sim_Virtual
begin

text \<open>
  \<open>async_virtual_broker.rs\<close>, with the typed cancellation outcome of \<open>async_broker.rs\<close>: every
  call holds the one lock of the broker throughout, so each is a single step on the same state
  as the synchronous broker's.
\<close>

section \<open>Cancellation outcomes\<close>

datatype cancel_status =
    CsCanceled | CsAccepted | CsNotFound | CsAlreadyTerminal | CsRejected | CsTransportUnknown
  | CsUnknown

record 'n typed_cancel =
  tc_status :: cancel_status
  tc_order_id :: "string option"
  tc_message :: "string option"
  tc_raw :: "'n json option"

definition cancel_outcome_new :: "cancel_status \<Rightarrow> string option \<Rightarrow> 'n typed_cancel" where
  "cancel_outcome_new status order_id =
     \<lparr> tc_status = status, tc_order_id = order_id, tc_message = None, tc_raw = None \<rparr>"

definition cancel_with_message :: "cancel_status \<Rightarrow> string option \<Rightarrow> string \<Rightarrow> 'n typed_cancel" where
  "cancel_with_message status order_id msg =
     (cancel_outcome_new status order_id)\<lparr>tc_message := Some msg\<rparr>"

text \<open>The printed form of a number is \<open>serde_json\<close>'s, an argument.\<close>

definition order_id_from_args :: "('n \<Rightarrow> string) \<Rightarrow> 'n args \<Rightarrow> string option" where
  "order_id_from_args number_show args =
     (case args ''order_id'' of
        Some (JString s) \<Rightarrow> Some s
      | Some (JNumber n) \<Rightarrow> Some (number_show n)
      | _ \<Rightarrow> None)"


section \<open>The broker\<close>

definition roll ::
  "('r, 'f) rng_api \<Rightarrow> ('f::linordered_field, 'r) vbroker \<Rightarrow> bool \<times> ('f, 'r) vbroker" where
  "roll g b = (let fr = vb_failure_rate b; (r, rng) = gen_unit g (vb_rng b)
     in (r < fr, b\<lparr>vb_rng := rng\<rparr>))"

definition av_place ::
  "('n, 'f::linordered_field, 'd) codec \<Rightarrow> ('r, 'f) rng_api \<Rightarrow> instant \<Rightarrow> string \<Rightarrow> 'n args
     \<Rightarrow> ('f, 'r) vbroker \<Rightarrow> ('n, 'f, 'r) broker_reply \<times> ('f, 'r) vbroker" where
  "av_place c g now order_id args b =
     (case args ''response'' of
        Some v \<Rightarrow> (Passthrough v, b)
      | None \<Rightarrow>
        let errors = missing_fields args; (failed, b) = roll g b in
        if failed then (failure_reply now ''Unexpected error'', b)
        else if errors \<noteq> []
        then (failure_reply now
               (''Found '' @ show_nat (length errors)
                 @ '' validation errors; in field '' @ hd errors @ '' Field required''), b)
        else
          let delay_us = delay_of c args (vb_delay_us b);
              userid = map_option to_uppercase (arg_str args ''userid'') in
          case vorder_from_init g now (virtual_init c now order_id args) of
            Inl msg \<Rightarrow>
              (failure_reply now (''Found 1 validation errors; in field side '' @ msg), b)
          | Inr v \<Rightarrow>
              let v = v\<lparr>v_delay := delay_us * 1000\<rparr>;
                  b = b\<lparr>vb_orders := (vb_orders b)(order_id \<mapsto> v)\<rparr>;
                  b = (case userid of None \<Rightarrow> b
                       | Some uid \<Rightarrow> if uid \<in> vb_clients b
                           then b\<lparr>vb_users := attach_order uid (cloned_clone_weak g v) (vb_users b)\<rparr>
                           else b)
              in (success_reply now (cloned_clone_weak g v), b))"

definition order_id_required :: string where
  "order_id_required = ''Found 1 validation errors; in field order_id Field required''"

definition av_modify ::
  "('n, 'f::linordered_field, 'd) codec \<Rightarrow> ('r, 'f) rng_api \<Rightarrow> instant \<Rightarrow> 'n args
     \<Rightarrow> ('f, 'r) vbroker \<Rightarrow> ('n, 'f, 'r) broker_reply \<times> ('f, 'r) vbroker" where
  "av_modify c g now args b =
     (case args ''response'' of
        Some v \<Rightarrow> (Passthrough v, b)
      | None \<Rightarrow> (case arg_str args ''order_id'' of
          None \<Rightarrow> (failure_reply now order_id_required, b)
        | Some order_id \<Rightarrow>
          let (failed, b) = roll g b in
          if failed then (failure_reply now ''Unexpected error'', b)
          else case vb_orders b order_id of
            None \<Rightarrow> (failure_reply now (not_found order_id), b)
          | Some v \<Rightarrow>
              let v = (case arg_f64 c args ''price'' of None \<Rightarrow> v | Some x \<Rightarrow> v\<lparr>v_price := Some x\<rparr>);
                  v = (case arg_f64 c args ''trigger_price'' of None \<Rightarrow> v
                       | Some x \<Rightarrow> v\<lparr>v_trigger_price := Some x\<rparr>);
                  v = (case arg_f64 c args ''quantity'' of None \<Rightarrow> v | Some x \<Rightarrow> v\<lparr>v_quantity := x\<rparr>)
              in (success_reply now (cloned_clone_weak g v),
                  b\<lparr>vb_orders := (vb_orders b)(order_id \<mapsto> v)\<rparr>)))"

definition av_cancel ::
  "('r, 'f::linordered_field) rng_api \<Rightarrow> instant \<Rightarrow> 'n args
     \<Rightarrow> ('f, 'r) vbroker \<Rightarrow> ('n, 'f, 'r) broker_reply \<times> ('f, 'r) vbroker" where
  "av_cancel g now args b =
     (case args ''response'' of
        Some v \<Rightarrow> (Passthrough v, b)
      | None \<Rightarrow> (case arg_str args ''order_id'' of
          None \<Rightarrow> (failure_reply now order_id_required, b)
        | Some order_id \<Rightarrow>
          let (failed, b) = roll g b in
          if failed then (failure_reply now ''Unexpected error'', b)
          else case vb_orders b order_id of
            None \<Rightarrow> (failure_reply now (not_found order_id), b)
          | Some v \<Rightarrow>
              if vorder_status v = StComplete
              then (failure_reply now (''Order '' @ order_id @ '' already completed''), b)
              else
                let v = v\<lparr>v_canceled_quantity := v_quantity v - v_filled_quantity v,
                           v_pending_quantity := 0\<rparr>
                in (success_reply now (cloned_clone_weak g v),
                    b\<lparr>vb_orders := (vb_orders b)(order_id \<mapsto> v)\<rparr>)))"

definition av_order_place ::
  "('n, 'f::linordered_field, 'd) codec \<Rightarrow> ('r, 'f) rng_api \<Rightarrow> instant \<Rightarrow> string \<Rightarrow> 'n args
     \<Rightarrow> ('f, 'r) vbroker \<Rightarrow> string option \<times> ('f, 'r) vbroker" where
  "av_order_place c g now order_id args b =
     (let (reply, b) = av_place c g now order_id args b in
      (case reply of
         OrderReply r \<Rightarrow>
           if resp_status r = RsSuccess then map_option v_order_id (resp_data r) else None
       | Passthrough _ \<Rightarrow> None, b))"

definition av_cancel_outcome ::
  "('r, 'f::linordered_field) rng_api \<Rightarrow> ('n \<Rightarrow> string) \<Rightarrow> 'n args
     \<Rightarrow> ('f, 'r) vbroker \<Rightarrow> 'n typed_cancel \<times> ('f, 'r) vbroker" where
  "av_cancel_outcome g number_show args b =
     (let requested = order_id_from_args number_show args in
      case args ''response'' of
        Some raw \<Rightarrow>
          ((cancel_with_message CsUnknown requested ''passthrough cancel response'')
             \<lparr>tc_raw := Some raw\<rparr>, b)
      | None \<Rightarrow> (case arg_str args ''order_id'' of
          None \<Rightarrow> (cancel_with_message CsRejected requested order_id_required, b)
        | Some order_id \<Rightarrow>
          let (failed, b) = roll g b in
          if failed
          then (cancel_with_message CsRejected (Some order_id) ''Unexpected error'', b)
          else case vb_orders b order_id of
            None \<Rightarrow> (cancel_outcome_new CsNotFound (Some order_id), b)
          | Some v \<Rightarrow>
              if vorder_done v
              then (cancel_outcome_new CsAlreadyTerminal (Some (v_order_id v)), b)
              else
                let v = v\<lparr>v_canceled_quantity := v_quantity v - v_filled_quantity v,
                           v_pending_quantity := 0\<rparr>
                in (cancel_outcome_new CsCanceled (Some (v_order_id v)),
                    b\<lparr>vb_orders := (vb_orders b)(order_id \<mapsto> v)\<rparr>)))"


section \<open>Against the synchronous broker\<close>

lemma roll_failure: "roll g b = is_failure g b"
  by (simp add: roll_def is_failure_def Let_def)

lemma av_place_sync: "av_place c g now oid args b = vb_order_place c g now oid args b"
  by (simp add: av_place_def vb_order_place_def roll_failure Let_def split: option.split)

lemma av_modify_sync:
  "av_modify c g now args b =
     (if args ''response'' = None \<and> arg_str args ''order_id'' = None
      then (failure_reply now order_id_required, b)
      else vb_order_modify c g now (or_default '''' (arg_str args ''order_id'')) args b)"
  by (cases "arg_str args ''order_id''")
     (simp_all add: av_modify_def vb_order_modify_def roll_failure Let_def split: option.split)

lemma av_cancel_sync:
  "av_cancel g now args b =
     (if args ''response'' = None \<and> arg_str args ''order_id'' = None
      then (failure_reply now order_id_required, b)
      else vb_order_cancel g now (or_default '''' (arg_str args ''order_id'')) args b)"
  by (cases "arg_str args ''order_id''")
     (simp_all add: av_cancel_def vb_order_cancel_def roll_failure Let_def split: option.split)

end
