(* ===== verification/Parity_Facts.thy ===== *)
theory Parity_Facts
  imports Parity_Basket Parity_Row Parity_Async Sim_Async_Replica Sim_Async_Virtual
begin

text \<open>
  What the properties of the parity layer rest on beyond the component laws: the largest
  report as the fold of a message sequence, and behaviours of the code that differ from what
  its documentation or its sibling does.
\<close>

section \<open>Fills as a maximum\<close>

definition clamped_reports :: "('n, 'f, 'd) codec \<Rightarrow> i64 \<Rightarrow> 'n args list \<Rightarrow> i64 list" where
  "clamped_reports c q ds =
     List.map_filter (\<lambda>d. map_option (\<lambda>n. min n q) (reported_fill c d)) ds"

lemma clamped_reports_Cons:
  "clamped_reports c q (d # ds) =
     (case reported_fill c d of None \<Rightarrow> [] | Some n \<Rightarrow> [min n q]) @ clamped_reports c q ds"
  by (simp add: clamped_reports_def List.map_filter_def split: option.split)

lemma fold_better_fill:
  "fold (better_fill c q) ds f = Max (set (f # clamped_reports c q ds))"
proof (induction ds arbitrary: f)
  case (Cons d ds)
  have "Max (insert (max f a) (set L)) = Max (insert f (insert a (set L)))" for a and L :: "int list"
    by (cases "set L = {}") (simp_all add: max.assoc)
  then show ?case
    using Cons.IH
    by (cases "reported_fill c d") (simp_all add: better_fill_def clamped_reports_Cons)
qed (simp add: clamped_reports_def List.map_filter_def)

lemma mset_map_filter:
  "mset xs = mset ys \<Longrightarrow> mset (List.map_filter f xs) = mset (List.map_filter f ys)"
  by (simp add: List.map_filter_def mset_filter)

lemma clamped_reports_perm:
  "mset xs = mset ys \<Longrightarrow> set (clamped_reports c q xs) = set (clamped_reports c q ys)"
  unfolding clamped_reports_def by (intro mset_eq_setD mset_map_filter)


section \<open>Divergences\<close>

text \<open>
  The synchronous replica completes a cancelled order twice: \<open>order_cancel\<close> enters it, its fill
  stays, and the next \<open>run_fill\<close> finds it done and enters it again.
\<close>

lemma cancel_then_fill_completes_twice:
  fixes r :: "('f::linordered_field, 'r) replica"
  assumes "r_orders r oid = Some h" and "h < length (r_cells r)"
    and "\<not> vorder_done (r_cells r ! h)" and "v_filled_quantity (r_cells r ! h) = 0"
    and "v_order_id (r_cells r ! h) = oid" and "r_fills r = [(h, lp)]"
    and "r_instruments r (v_symbol (r_cells r ! h)) = Some inst" and "i_last_price inst \<noteq> 0"
  shows "r_completed (run_fill (snd (replica_cancel oid r))) = r_completed r @ [h, h]"
proof -
  let ?v = "cancel_cell (r_cells r ! h)"
  have d: "vorder_done ?v"
    using assms(4) by (simp add: vorder_done_def cancel_cell_def)
  have s: "snd (replica_cancel oid r)
      = r\<lparr>r_cells := (r_cells r)[h := ?v], r_completed := r_completed r @ [h]\<rparr>"
    using assms(1,3) by (simp add: replica_cancel_def Let_def)
  have "v_symbol ?v = v_symbol (r_cells r ! h)" "v_order_id ?v = oid"
    using assms(5) by (simp_all add: cancel_cell_def)
  then show ?thesis
    unfolding s using assms(1,2,6-8) d
    by (simp add: run_fill_def apply_fill_update_def List.map_filter_def Let_def)
qed

text \<open>
  A modification looks at nothing but the order's fields: raising the quantity of a cancelled
  order makes it fillable again, and the next \<open>run_fill\<close> executes the increase.
\<close>

lemma modify_revives_cancelled:
  fixes r :: "('f::linordered_field, 'r) replica"
  assumes "r_orders r oid = Some h" and "h < length (r_cells r)" and "v_pending_quantity v > 0"
    and "r_cells r ! h = cancel_cell v" and "v_filled_quantity v = 0" and "v_order_type v = OtMarket"
    and "r_fills r = [(h, lp)]" and "r_instruments r (v_symbol v) = Some inst"
    and "i_last_price inst \<noteq> 0" and "as_f64 c x = Some q" and "0 < v_quantity v" and "v_quantity v < q"
  shows "vorder_done (r_cells r ! h)"
    and "v_filled_quantity
      (r_cells (run_fill (snd (replica_modify c oid [(''quantity'', x)] r))) ! h) = q - v_quantity v"
proof -
  show "vorder_done (r_cells r ! h)"
    using assms(4,5) by (simp add: vorder_done_def cancel_cell_def)
  let ?v = "(cancel_cell v)\<lparr>v_quantity := q\<rparr>"
  have m: "snd (replica_modify c oid [(''quantity'', x)] r) = r\<lparr>r_cells := (r_cells r)[h := ?v]\<rparr>"
    using assms(1,4,10) by (simp add: replica_modify_def modify_cell_def)
  have nd: "\<not> vorder_done ?v" and "v_order_type ?v = OtMarket" "v_symbol ?v = v_symbol v"
    using assms(3,5,6,11,12) by (simp_all add: vorder_done_def cancel_cell_def)
  then have "v_filled_quantity (apply_fill_update (i_last_price inst) ?v) = q - v_quantity v"
    using assms(5,11,12)
    by (simp add: apply_fill_update_def make_right_quantity_def cancel_cell_def
        normalise_quantities_def Let_def)
  then show "v_filled_quantity
      (r_cells (run_fill (snd (replica_modify c oid [(''quantity'', x)] r))) ! h) = q - v_quantity v"
    unfolding m using assms(2,7-9) \<open>v_symbol ?v = v_symbol v\<close>
    by (simp add: run_fill_def Let_def)
qed

text \<open>
  The prices \<open>run_fill\<close> writes back by index land on another order's fill when a concurrent
  \<open>run_fill\<close> has removed the one in front of it.
\<close>

lemma stale_index_write:
  assumes "r_fills r = [(h1, p1)]" and "h1 \<noteq> h0"
  shows "r_fills (reconcile_fills [(0, p)] [h0] r) = [(h1, p)]"
  using assms by (simp add: reconcile_fills_def write_prices_def)

text \<open>
  Raising the quantity of an unfilled virtual order: the order stays unfilled, the copy in the
  reply is normalised and reports the increase as filled.
\<close>

lemma modify_reports_phantom_fill:
  fixes b :: "('f::linordered_field, 'r) vbroker"
  assumes "args ''response'' = None" and "\<not> fst (is_failure g b)" and "vb_orders b oid = Some v"
    and "v_filled_quantity v = 0" and "v_canceled_quantity v = 0"
    and "v_pending_quantity v = v_quantity v" and "0 < v_quantity v"
    and "arg_f64 c args ''quantity'' = Some q" and "v_quantity v < q"
  shows "\<exists>r v'. fst (vb_order_modify c g now oid args b) = OrderReply r
    \<and> map_option v_filled_quantity (resp_data r) = Some (q - v_quantity v)
    \<and> vb_orders (snd (vb_order_modify c g now oid args b)) oid = Some v'
    \<and> v_filled_quantity v' = 0"
  using assms
  by (auto simp: vb_order_modify_def is_failure_def success_reply_def clone_weak
      normalise_quantities_def Let_def split_beta' split: option.split)

text \<open>
  \<open>with_orders\<close> numbers its orders from zero whatever the basket holds: on a basket with an order
  the index entry of the new one is the old one's.
\<close>

lemma with_orders_hides_order:
  assumes "co_orders co = [od0]" and "co_index co = [(0, 0)]"
  shows "get_by_index (with_orders [od] co) i \<in> {None, Some od0}"
  using assms by (simp add: with_orders_def get_by_index_def order_at_def)

text \<open>A numeric order type is a market order to the virtual broker, and the type it names to the replica's.\<close>

lemma numeric_order_type:
  "virtual_order_type (JNumber n) = None"
  "number_i64 c n = Some 2 \<Longrightarrow> value_to_order_type c (JNumber n) = Some OtLimit"
  by (simp_all add: virtual_order_type_def value_to_order_type_def)

text \<open>A modification over the budget changes the order and tells the broker nothing.\<close>

lemma modify_over_budget:
  assumes "can_modify (clock_now e (lock_clock (o_lock od))) (o_lock od)"
    and "o_max_modifications od \<le> o_num_modifications od" and "as_i64 c v = Some n"
  shows "order_modify c e b attribs [(''quantity'', v)] od calls
    = Returned (od\<lparr>o_quantity := n\<rparr>, calls)"
proof -
  have "get_attr c od ''quantity'' = Some (json_i64 c (o_quantity od))"
    by (simp add: get_attr_def attr_table_def)
  then show ?thesis
    using assms by (simp add: order_modify_def frozen_attrs_def set_local_field_def Let_def)
qed

text \<open>
  A caller's \<open>order_id\<close> among the keywords of \<open>modify\<close> replaces the order's own in the arguments, so
  the broker is asked to modify another order, on the budget of this one.
\<close>

lemma modify_names_other_order:
  assumes "can_modify (clock_now e (lock_clock (o_lock od))) (o_lock od)"
    and "o_num_modifications od < o_max_modifications od" and "o_order_id od = Some x"
  shows "\<exists>od' args post. order_modify c e b attribs [(''order_id'', JString y)] od calls
      = Returned (od', calls @ ModifyCall args # post)
    \<and> names_order args y \<and> o_order_id od' = Some x"
proof -
  let ?od = "od\<lparr>o_num_modifications := o_num_modifications od + 1\<rparr>"
  let ?kw = "[(''order_id'', JString y)]"
  let ?other = "get_other_args_from_attribs c od (attribs_to_copy_modify b) attribs"
  let ?args = "modify_args c ?other Map.empty ?kw od"
  have "apply_kwargs c ?kw od Map.empty = Returned (od, Map.empty)"
    using assms(3) by (simp add: frozen_attrs_def set_local_field_def keys_for_broker_def)
  then have m: "order_modify c e b attribs ?kw od calls
      = Returned (?od, saved c e ?od (calls @ [ModifyCall ?args]))"
    using assms by (simp add: order_modify_def Let_def)
  have "names_order ?args y"
    by (simp add: modify_args_def keys_for_broker_def names_order_def map_add_def)
  with m saved_calls [of c e ?od "calls @ [ModifyCall ?args]"] assms(3) show ?thesis by fastforce
qed


section \<open>Quantity splits\<close>

lemma update_quantity_conserves:
  assumes "0 \<le> q" and "0 \<le> f" and "0 \<le> p" and "0 \<le> c" and "is_i64 q"
  shows "uq_f (update_quantity q f p c) + uq_p (update_quantity q f p c)
      + uq_c (update_quantity q f p c) = q"
    and "0 \<le> uq_f (update_quantity q f p c)" "0 \<le> uq_p (update_quantity q f p c)"
      "0 \<le> uq_c (update_quantity q f p c)"
proof -
  have sub: "i64_sub q x = q - x" if "0 \<le> x" "x \<le> q" for x
    using that assms(1,5) by (simp add: i64_sub_def is_i64_def)
  have zero: "i64_sub (q - x) (q - x) = 0" for x by (simp add: i64_sub_def is_i64_def)
  show "uq_f (update_quantity q f p c) + uq_p (update_quantity q f p c)
      + uq_c (update_quantity q f p c) = q"
    and "0 \<le> uq_f (update_quantity q f p c)" "0 \<le> uq_p (update_quantity q f p c)"
      "0 \<le> uq_c (update_quantity q f p c)"
    using assms by (auto simp: update_quantity_def Let_def sub zero)
qed

lemma normalise_conserves:
  assumes "0 \<le> q" and "0 \<le> f" and "0 \<le> p" and "0 \<le> c"
    and "normalise_quantities q f p c = (f', p', c')"
  shows "f' + p' + c' = q \<and> 0 \<le> f' \<and> 0 \<le> p' \<and> 0 \<le> c'"
  using assms by (auto simp: normalise_quantities_def Let_def split: if_splits)

text \<open>A market order waiting for a fill is done after one update at any price.\<close>

lemma market_fill_done:
  "v_order_type v = OtMarket \<Longrightarrow> vorder_done (apply_fill_update p v)"
  by (auto simp: apply_fill_update_def make_right_quantity_def normalise_quantities_def
      vorder_done_def Let_def min_def split: if_splits)

end
