(* ===== verification/Parity_Decimal.thy ===== *)
theory Parity_Decimal
  imports Parity_Compound_Laws
begin

text \<open>
  The aggregates of a basket refine exact arithmetic while the numbers fit: prices with at most
  \<open>s\<close> decimals, and a total of the absolute amounts that fits 96 bits at that scale. Every partial
  sum is then on the grid of \<open>s\<close> decimals and within the total, so no step rounds or overflows.
\<close>

section \<open>Numbers that fit\<close>

definition on_grid :: "nat \<Rightarrow> rat \<Rightarrow> bool" where
  "on_grid s x \<longleftrightarrow> x * 10 ^ s \<in> \<int>"

definition inside :: "nat \<Rightarrow> rat \<Rightarrow> bool" where
  "inside s x \<longleftrightarrow> x * 10 ^ s < 2 ^ 96"

lemma grid_int [simp]: "on_grid s (of_int n)"
  by (simp add: on_grid_def)

lemma grid_zero [simp]: "on_grid s 0"
  by (simp add: on_grid_def)

lemma grid_add: "on_grid s x \<Longrightarrow> on_grid s y \<Longrightarrow> on_grid s (x + y)"
  by (simp add: on_grid_def distrib_right)

lemma grid_minus: "on_grid s x \<Longrightarrow> on_grid s (- x)"
  by (simp add: on_grid_def)

lemma grid_scale: "on_grid s x \<Longrightarrow> on_grid s (of_int n * x)"
  by (simp add: on_grid_def mult.assoc)

lemma inside_mono: "inside s y \<Longrightarrow> x \<le> y \<Longrightarrow> inside s x"
  unfolding inside_def
  by (rule order.strict_trans1 [of _ "y * 10 ^ s"]) (simp_all add: mult_right_mono)

lemma grid_fits:
  assumes "on_grid s x" and "inside s \<bar>x\<bar>" and "s \<le> 28"
  shows "representable x"
proof -
  obtain m where m: "x * 10 ^ s = of_int m" using assms(1) by (auto simp: on_grid_def elim: Ints_cases)
  have "\<bar>x\<bar> * 10 ^ s = \<bar>x * 10 ^ s\<bar>" by (simp add: abs_mult)
  also have "\<dots> = of_int \<bar>m\<bar>" unfolding m by simp
  finally have "\<bar>x\<bar> * 10 ^ s = of_int \<bar>m\<bar>" .
  then have "of_int \<bar>m\<bar> < (of_int (2 ^ 96) :: rat)" using assms(2) by (simp add: inside_def)
  then have "\<bar>m\<bar> < 2 ^ 96" by (simp only: of_int_less_iff)
  with m assms(3) show ?thesis unfolding representable_def by blast
qed


section \<open>Adding into a map\<close>

definition vals :: "('n, 'f, 'd) codec \<Rightarrow> ('k \<times> 'd) list \<Rightarrow> ('k \<times> rat) list" where
  "vals c m = map (\<lambda>(k, d). (k, decimal_rat c d)) m"

definition mass :: "('k \<times> rat) list \<Rightarrow> rat" where
  "mass m = sum_list (map (\<lambda>(k, v). \<bar>v\<bar>) m)"

definition gridded :: "nat \<Rightarrow> ('k \<times> rat) list \<Rightarrow> bool" where
  "gridded s m \<longleftrightarrow> list_all (\<lambda>(k, v). on_grid s v) m"

lemma mass_nonneg [simp]: "0 \<le> mass m"
  unfolding mass_def by (rule sum_list_nonneg) auto

lemma mass_Nil [simp]: "mass [] = 0"
  by (simp add: mass_def)

lemma mass_Cons [simp]: "mass ((k, v) # m) = \<bar>v\<bar> + mass m"
  by (simp add: mass_def)

lemma vals_Nil [simp]: "vals c [] = []"
  by (simp add: vals_def)

lemma gridded_Nil [simp]: "gridded s []"
  by (simp add: gridded_def)

lemma gridded_Cons [simp]: "gridded s ((k, v) # m) \<longleftrightarrow> on_grid s v \<and> gridded s m"
  by (simp add: gridded_def)

lemma vals_lookup: "map_of (vals c m) k = map_option (decimal_rat c) (map_of m k)"
  by (induction m) (auto simp: vals_def)

lemma vals_update: "vals c (AList.update k d m) = AList.update k (decimal_rat c d) (vals c m)"
  by (induction m) (auto simp: vals_def)

lemma entry_mass: "\<bar>unwrap_or 0 (map_of m k)\<bar> \<le> mass m"
proof (induction m)
  case (Cons a m)
  obtain k1 v where "a = (k1, v)" by (cases a)
  then show ?case using Cons mass_nonneg [of m] by (auto simp: add_increasing)
qed simp

lemma entry_grid: "gridded s m \<Longrightarrow> on_grid s (unwrap_or 0 (map_of m k))"
  by (induction m) auto

lemma add_mass: "mass (entry_add (+) 0 k v m) \<le> mass m + \<bar>v\<bar>"
proof (induction m)
  case (Cons a m)
  obtain k1 v1 where a: "a = (k1, v1)" by (cases a)
  have tri: "\<bar>v1 + v\<bar> \<le> \<bar>v1\<bar> + \<bar>v\<bar>" by simp
  show ?case
    using Cons.IH tri by (cases "k1 = k") (simp_all add: a entry_add_def)
qed (simp add: entry_add_def)

lemma add_grid: "gridded s m \<Longrightarrow> on_grid s v \<Longrightarrow> gridded s (entry_add (+) 0 k v m)"
proof (induction m)
  case (Cons a m)
  obtain k1 v1 where "a = (k1, v1)" by (cases a)
  then show ?case using Cons by (cases "k1 = k") (auto simp: entry_add_def grid_add)
qed (simp add: entry_add_def)

text \<open>
  One step: an addition or subtraction under a key is the exact one when the mass of the map and
  the amount fit.
\<close>

definition adds :: "('n, 'f, 'd::zero) codec \<Rightarrow> rat \<Rightarrow> ('d \<Rightarrow> 'd \<Rightarrow> 'd attempt) \<Rightarrow> bool" where
  "adds c sg opr \<longleftrightarrow> \<bar>sg\<bar> = 1 \<and> decimal_rat c 0 = 0
     \<and> (\<forall>a b. representable (decimal_rat c a + sg * decimal_rat c b) \<longrightarrow>
          (\<exists>d. opr a b = Returned d \<and> decimal_rat c d = decimal_rat c a + sg * decimal_rat c b))"

lemma codec_adds:
  assumes "exact_decimals c"
  shows "adds c 1 (decimal_add c)" "adds c (- 1) (decimal_sub c)"
  using assms by (auto simp: adds_def exact_decimals_def exact_op_def)

lemma entry_try_exact:
  assumes "adds c sg opr" and "s \<le> 28"
    and "gridded s (vals c m)" and "on_grid s (sg * decimal_rat c d)"
    and "inside s (mass (vals c m) + \<bar>sg * decimal_rat c d\<bar>)"
  shows "\<exists>m'. entry_try opr 0 k d m = Returned m'
    \<and> vals c m' = entry_add (+) 0 k (sg * decimal_rat c d) (vals c m)"
proof -
  let ?e = "unwrap_or 0 (map_of m k)" and ?v = "sg * decimal_rat c d"
  have e: "decimal_rat c ?e = unwrap_or 0 (map_of (vals c m) k)"
    using assms(1) by (cases "map_of m k") (simp_all add: vals_lookup adds_def)
  have "\<bar>decimal_rat c ?e + ?v\<bar> \<le> mass (vals c m) + \<bar>?v\<bar>"
    using abs_triangle_ineq [of "decimal_rat c ?e" ?v] entry_mass [of "vals c m" k] e by linarith
  with assms(5) have "inside s \<bar>decimal_rat c ?e + ?v\<bar>" by (rule inside_mono)
  moreover have "on_grid s (decimal_rat c ?e + ?v)"
    unfolding e using assms(3,4) by (intro grid_add entry_grid)
  ultimately have "representable (decimal_rat c ?e + ?v)" using assms(2) grid_fits by blast
  with assms(1) obtain w where "opr ?e d = Returned w" "decimal_rat c w = decimal_rat c ?e + ?v"
    unfolding adds_def by blast
  then show ?thesis by (simp add: entry_try_def entry_add_def vals_update e)
qed

text \<open>A loop of such steps whose amounts are computed by fallible operations.\<close>

lemma fold_exact:
  assumes "adds c sg opr" and "s \<le> 28"
    and "\<forall>x \<in> set xs. \<exists>d. g x = Returned d \<and> sg * decimal_rat c d = v x \<and> on_grid s (v x)"
    and "gridded s (vals c m)"
    and "inside s (mass (vals c m) + sum_list (map (\<lambda>x. \<bar>v x\<bar>) xs))"
  shows "\<exists>m'. fold_attempt (\<lambda>x m. and_then (g x) (\<lambda>d. entry_try opr 0 (f x) d m)) xs m = Returned m'
    \<and> vals c m' = foldl (\<lambda>m x. entry_add (+) 0 (f x) (v x) m) (vals c m) xs
    \<and> gridded s (vals c m')
    \<and> mass (vals c m') \<le> mass (vals c m) + sum_list (map (\<lambda>x. \<bar>v x\<bar>) xs)"
  using assms(3-5)
proof (induction xs arbitrary: m)
  case (Cons x xs)
  let ?rest = "sum_list (map (\<lambda>x. \<bar>v x\<bar>) xs)"
  have rest: "0 \<le> ?rest" by (rule sum_list_nonneg) auto
  obtain d where d: "g x = Returned d" "sg * decimal_rat c d = v x" "on_grid s (v x)"
    using Cons.prems(1) by auto
  have "inside s (mass (vals c m) + \<bar>v x\<bar>)"
    using Cons.prems(3) rest by (auto elim!: inside_mono)
  with entry_try_exact [OF assms(1,2) Cons.prems(2), of d "f x"] d obtain m1
    where m1: "entry_try opr 0 (f x) d m = Returned m1"
      "vals c m1 = entry_add (+) 0 (f x) (v x) (vals c m)" by auto
  have g1: "gridded s (vals c m1)" unfolding m1(2) using Cons.prems(2) d(3) by (rule add_grid)
  have b1: "mass (vals c m1) \<le> mass (vals c m) + \<bar>v x\<bar>" unfolding m1(2) by (rule add_mass)
  have "inside s (mass (vals c m1) + ?rest)"
    using Cons.prems(3) b1 by (auto elim!: inside_mono)
  with Cons.IH [of m1] Cons.prems(1) g1 obtain m2
    where "fold_attempt (\<lambda>x m. and_then (g x) (\<lambda>d. entry_try opr 0 (f x) d m)) xs m1 = Returned m2"
      "vals c m2 = foldl (\<lambda>m x. entry_add (+) 0 (f x) (v x) m) (vals c m1) xs"
      "gridded s (vals c m2)" "mass (vals c m2) \<le> mass (vals c m1) + ?rest" by auto
  with d(1) m1 b1 show ?case by auto
qed simp

text \<open>Summing the values of a map, in whatever order they come.\<close>

lemma sum_exact:
  assumes "adds c 1 (decimal_add c)" and "s \<le> 28"
    and "\<forall>d \<in> set ds. on_grid s (decimal_rat c d)" and "on_grid s (decimal_rat c a)"
    and "inside s (\<bar>decimal_rat c a\<bar> + sum_list (map (\<lambda>d. \<bar>decimal_rat c d\<bar>) ds))"
  shows "\<exists>d. fold_attempt (\<lambda>d s. decimal_add c s d) ds a = Returned d
    \<and> decimal_rat c d = decimal_rat c a + sum_list (map (decimal_rat c) ds)"
  using assms(3-5)
proof (induction ds arbitrary: a)
  case (Cons d ds)
  let ?rest = "sum_list (map (\<lambda>d. \<bar>decimal_rat c d\<bar>) ds)"
  have rest: "0 \<le> ?rest" by (rule sum_list_nonneg) auto
  have tri: "\<bar>decimal_rat c a + decimal_rat c d\<bar> \<le> \<bar>decimal_rat c a\<bar> + \<bar>decimal_rat c d\<bar>" by simp
  have "inside s \<bar>decimal_rat c a + decimal_rat c d\<bar>"
    using Cons.prems(3) by (rule inside_mono) (use tri rest in simp)
  moreover have grid: "on_grid s (decimal_rat c a + decimal_rat c d)"
    using Cons.prems(1,2) by (auto intro: grid_add)
  ultimately have "representable (decimal_rat c a + decimal_rat c d)"
    using assms(2) grid_fits by blast
  then obtain b where b: "decimal_add c a d = Returned b"
      "decimal_rat c b = decimal_rat c a + decimal_rat c d"
    using assms(1) unfolding adds_def by (metis mult_1)
  have "inside s (\<bar>decimal_rat c b\<bar> + ?rest)"
    using Cons.prems(3) by (rule inside_mono) (use tri b(2) in simp)
  then show ?case using Cons.IH [of b] Cons.prems(1) grid b by auto
qed simp


section \<open>Baskets\<close>

lemma and_then_assoc: "and_then (and_then x f) g = and_then x (\<lambda>a. and_then (f a) g)"
  by (cases x) simp_all

definition held_price :: "('n, 'f, 'd) codec \<Rightarrow> ('n, 'f, 'd) compound \<Rightarrow> string \<Rightarrow> rat" where
  "held_price c co symb = unwrap_or 0 (market_price c co symb)"

definition cost_mass :: "('n, 'f, 'd) codec \<Rightarrow> ('n, 'f, 'd) compound \<Rightarrow> rat" where
  "cost_mass c co =
     sum_list (map (\<lambda>od. of_int (o_filled_quantity od) * \<bar>average_price c od\<bar>) (co_orders co))"

definition market_mass :: "('n, 'f, 'd) codec \<Rightarrow> ('n, 'f, 'd) compound \<Rightarrow> rat" where
  "market_mass c co =
     sum_list (map (\<lambda>od. of_int (o_filled_quantity od) * \<bar>held_price c co (o_symbol od)\<bar>)
       (co_orders co))"

text \<open>Prices with at most \<open>s\<close> decimals: the average prices and every price the basket holds.\<close>

definition basket_grid :: "nat \<Rightarrow> ('n, 'f, 'd) codec \<Rightarrow> ('n, 'f, 'd) compound \<Rightarrow> bool" where
  "basket_grid s c co \<longleftrightarrow>
     list_all (\<lambda>od. on_grid s (average_price c od)) (co_orders co)
     \<and> list_all (\<lambda>(symb, _). on_grid s (held_price c co symb)) (co_ltp co)"

lemma held_price_grid:
  assumes "basket_grid s c co" shows "on_grid s (held_price c co symb)"
proof (cases "map_of (co_ltp co) symb")
  case (Some x)
  then have "(symb, x) \<in> set (co_ltp co)" by (rule map_of_SomeD)
  with assms show ?thesis by (auto simp: basket_grid_def list_all_iff)
qed (simp add: held_price_def market_price_def)

lemma mass_nonnegs:
  assumes "fills_fit (co_orders co)" shows "0 \<le> cost_mass c co" "0 \<le> market_mass c co"
  using assms unfolding cost_mass_def market_mass_def fills_fit_def
  by (auto intro!: sum_list_nonneg simp: list_all_iff)

lemma fill_i64:
  assumes "fills_fit ods" and "od \<in> set ods"
  shows "is_i64 (o_filled_quantity od)" "0 \<le> o_filled_quantity od"
proof -
  show q: "0 \<le> o_filled_quantity od" using assms by (auto simp: fills_fit_def list_all_iff)
  have "o_filled_quantity od \<le> sum_list (map o_filled_quantity ods)"
    using assms by (intro member_le_sum_list) (auto simp: fills_fit_def list_all_iff)
  with q assms(1) show "is_i64 (o_filled_quantity od)" by (auto simp: fills_fit_def is_i64_def)
qed

lemma mul_exact:
  assumes "exact_decimals c" and "s \<le> 28" and "on_grid s (decimal_rat c a * decimal_rat c b)"
    and "inside s \<bar>decimal_rat c a * decimal_rat c b\<bar>"
  obtains d where "decimal_mul c a b = Returned d" "decimal_rat c d = decimal_rat c a * decimal_rat c b"
proof -
  have "representable (decimal_rat c a * decimal_rat c b)" using assms(2-4) grid_fits by blast
  with assms(1) that show thesis unfolding exact_decimals_def exact_op_def by blast
qed

lemma sign_i64 [simp]: "is_i64 (side_sign od)" "\<bar>side_sign od\<bar> = 1"
  by (simp_all add: side_sign_def is_i64_def)

text \<open>The cost of one order.\<close>

lemma order_cost:
  assumes "exact_decimals c" and "s \<le> 28" and "fills_fit (co_orders co)" and "basket_grid s c co"
    and "inside s (cost_mass c co)" and "od \<in> set (co_orders co)"
  shows "\<exists>d. and_then (decimal_mul c (decimal_of_i64 c (o_filled_quantity od)) (o_average_price od))
        (\<lambda>v. decimal_mul c v (decimal_of_i64 c (side_sign od))) = Returned d
    \<and> decimal_rat c d = of_int (o_filled_quantity od) * average_price c od * of_int (side_sign od)
    \<and> on_grid s (of_int (o_filled_quantity od) * average_price c od * of_int (side_sign od))"
proof -
  let ?q = "o_filled_quantity od" and ?p = "average_price c od"
  note q = fill_i64 [OF assms(3,6)]
  have val: "decimal_rat c (decimal_of_i64 c i) = of_int i" if "is_i64 i" for i
    using assms(1) that by (simp add: exact_decimals_def)
  have grid: "on_grid s (of_int ?q * ?p)"
    using assms(4,6) by (intro grid_scale) (auto simp: basket_grid_def list_all_iff)
  have "of_int ?q * \<bar>?p\<bar> \<le> cost_mass c co" unfolding cost_mass_def
    using assms(6) fill_i64(2) [OF assms(3)] by (intro member_le_sum_list) auto
  then have le: "inside s \<bar>of_int ?q * ?p\<bar>"
    using q(2) by (intro inside_mono [OF assms(5)]) (simp add: abs_mult)
  obtain v where v: "decimal_mul c (decimal_of_i64 c ?q) (o_average_price od) = Returned v"
      "decimal_rat c v = of_int ?q * ?p"
    using mul_exact [OF assms(1,2), of "decimal_of_i64 c ?q" "o_average_price od"] grid le q(1)
    by (auto simp: val average_price_def)
  have g2: "on_grid s (decimal_rat c v * of_int (side_sign od))"
    using grid_scale [OF grid, of "side_sign od"] v(2) by (simp add: mult.commute)
  have "\<bar>of_int (side_sign od) :: rat\<bar> = 1" by (simp flip: of_int_abs)
  then have "inside s \<bar>decimal_rat c v * of_int (side_sign od)\<bar>" using le v(2) by (simp add: abs_mult)
  with mul_exact [OF assms(1,2), of v "decimal_of_i64 c (side_sign od)"] g2 obtain d
    where "decimal_mul c v (decimal_of_i64 c (side_sign od)) = Returned d"
      "decimal_rat c d = decimal_rat c v * of_int (side_sign od)" by (auto simp: val)
  with v g2 show ?thesis by simp
qed

lemma net_value_exact:
  assumes "exact_decimals c" and "s \<le> 28" and "fills_fit (co_orders co)" and "basket_grid s c co"
    and "inside s (cost_mass c co)"
  shows "\<exists>m. net_value c co = Returned m \<and> vals c m = exact_net_value c co
    \<and> gridded s (vals c m) \<and> mass (vals c m) \<le> cost_mass c co"
proof -
  let ?xs = "filter (\<lambda>od. 0 < o_filled_quantity od) (co_orders co)"
  let ?v = "\<lambda>od. of_int (o_filled_quantity od) * average_price c od * of_int (side_sign od)"
  let ?g = "\<lambda>od. and_then (decimal_mul c (decimal_of_i64 c (o_filled_quantity od)) (o_average_price od))
        (\<lambda>v. decimal_mul c v (decimal_of_i64 c (side_sign od)))"
  have one: "\<bar>?v od\<bar> = of_int \<bar>o_filled_quantity od\<bar> * \<bar>average_price c od\<bar>" for od :: "('a, 'c) order"
    by (simp add: abs_mult flip: of_int_abs)
  have sum: "sum_list (map (\<lambda>od. \<bar>?v od\<bar>) ?xs) \<le> cost_mass c co"
    unfolding cost_mass_def sum_filter_if [symmetric]
    by (intro sum_list_mono) (use fill_i64(2) [OF assms(3)] one in \<open>auto simp: zero_le_mult_iff\<close>)
  have net: "net_value c co
      = fold_attempt (\<lambda>od m. and_then (?g od) (\<lambda>d. entry_try (decimal_add c) 0 (o_symbol od) d m)) ?xs []"
    unfolding net_value_def fold_attempt_filter by (simp add: and_then_assoc)
  have "\<exists>m. net_value c co = Returned m
    \<and> vals c m = foldl (\<lambda>m od. entry_add (+) 0 (o_symbol od) (?v od) m) (vals c []) ?xs
    \<and> gridded s (vals c m)
    \<and> mass (vals c m) \<le> mass (vals c ([] :: (string \<times> 'c) list)) + sum_list (map (\<lambda>od. \<bar>?v od\<bar>) ?xs)"
    unfolding net
    by (rule fold_exact [OF codec_adds(1) [OF assms(1)] assms(2)])
       (use order_cost [OF assms] sum assms(5) in \<open>auto intro: inside_mono\<close>)
  then show ?thesis using sum by (auto simp: exact_net_value_def)
qed

text \<open>The positions weigh no more than the orders: wrapping never makes a number larger.\<close>

lemma abs_wrap_le: "\<bar>wrap_i64 x\<bar> \<le> \<bar>x\<bar>"
proof (cases "is_i64 x")
  case False
  then have "2 ^ 63 \<le> \<bar>x\<bar>" by (auto simp: is_i64_def)
  moreover have "\<bar>wrap_i64 x\<bar> \<le> 2 ^ 63" using is_i64_wrap [of x] by (auto simp: is_i64_def)
  ultimately show ?thesis by linarith
qed simp

definition position_mass :: "('k \<Rightarrow> rat) \<Rightarrow> ('k \<times> i64) list \<Rightarrow> rat" where
  "position_mass w m = sum_list (map (\<lambda>(k, q). of_int \<bar>q\<bar> * w k) m)"

lemma position_mass_add:
  assumes "0 \<le> w k"
  shows "position_mass w (entry_add i64_add 0 k q m) \<le> position_mass w m + of_int \<bar>q\<bar> * w k"
proof (induction m)
  case Nil
  have "\<bar>wrap_i64 q\<bar> \<le> \<bar>q\<bar>" by (rule abs_wrap_le)
  then have "of_int \<bar>wrap_i64 q\<bar> \<le> (of_int \<bar>q\<bar> :: rat)" by (simp only: of_int_le_iff)
  with assms show ?case
    by (simp add: position_mass_def entry_add_def i64_add_def mult_right_mono)
next
  case (Cons a m)
  obtain k1 q1 where a: "a = (k1, q1)" by (cases a)
  have "\<bar>wrap_i64 (q1 + q)\<bar> \<le> \<bar>q1\<bar> + \<bar>q\<bar>" using abs_wrap_le [of "q1 + q"] by linarith
  then have "of_int \<bar>wrap_i64 (q1 + q)\<bar> \<le> (of_int (\<bar>q1\<bar> + \<bar>q\<bar>) :: rat)" by (simp only: of_int_le_iff)
  then have "of_int \<bar>wrap_i64 (q1 + q)\<bar> * w k \<le> (of_int \<bar>q1\<bar> + of_int \<bar>q\<bar>) * w k"
    using assms by (intro mult_right_mono) (simp_all flip: of_int_abs)
  then show ?case using Cons.IH
    by (cases "k1 = k")
      (simp_all add: a position_mass_def entry_add_def i64_add_def distrib_right del: of_int_abs)
qed

lemma position_mass_fold:
  assumes "\<And>k. 0 \<le> w k"
  shows "position_mass w (foldl (\<lambda>m x. entry_add i64_add 0 (f x) (g x) m) m xs)
    \<le> position_mass w m + sum_list (map (\<lambda>x. of_int \<bar>g x\<bar> * w (f x)) xs)"
proof (induction xs arbitrary: m)
  case (Cons x xs)
  show ?case using Cons.IH [of "entry_add i64_add 0 (f x) (g x) m"]
      position_mass_add [of w "f x" "g x" m] assms by simp
qed simp

lemma positions_mass:
  assumes "fills_fit (co_orders co)"
  shows "position_mass (\<lambda>symb. \<bar>held_price c co symb\<bar>) (compound_positions co) \<le> market_mass c co"
proof -
  let ?w = "\<lambda>symb. \<bar>held_price c co symb\<bar>"
  let ?g = "\<lambda>od. i64_mul (o_filled_quantity od) (side_sign od)"
  have one: "\<bar>?g od\<bar> \<le> o_filled_quantity od" if "od \<in> set (co_orders co)" for od
    using abs_wrap_le [of "o_filled_quantity od * side_sign od"] fill_i64(2) [OF assms that]
    by (simp add: i64_mul_def abs_mult)
  have "of_int \<bar>?g od\<bar> * ?w (o_symbol od) \<le> of_int (o_filled_quantity od) * ?w (o_symbol od)"
    if "od \<in> set (co_orders co)" for od
    using one [OF that] by (intro mult_right_mono) (simp_all only: of_int_le_iff abs_ge_zero)
  then have "sum_list (map (\<lambda>od. of_int \<bar>?g od\<bar> * ?w (o_symbol od)) (co_orders co)) \<le> market_mass c co"
    unfolding market_mass_def by (intro sum_list_mono) simp
  moreover have "position_mass ?w (compound_positions co)
      \<le> position_mass ?w [] + sum_list (map (\<lambda>od. of_int \<bar>?g od\<bar> * ?w (o_symbol od)) (co_orders co))"
    unfolding compound_positions_def by (rule position_mass_fold) simp
  ultimately show ?thesis by (simp add: position_mass_def)
qed

lemma position_i64:
  assumes "(symb, q) \<in> set (compound_positions co)" shows "is_i64 q"
proof -
  have "map_of (compound_positions co) symb = Some q"
    using keyed_compound_positions [of co] assms by (simp add: keyed_def)
  then show ?thesis using compound_positions_entry [of co symb] by (simp add: wrapped_entry_def)
qed


section \<open>Mark to market\<close>

text \<open>Taking the cost off an empty map.\<close>

lemma cost_taken_off:
  assumes "exact_decimals c" and "s \<le> 28" and "gridded s (vals c cost)"
    and "inside s (mass (vals c cost))"
  shows "\<exists>m. fold_attempt (\<lambda>(symb, v) m. entry_try (decimal_sub c) 0 symb v m) cost [] = Returned m
    \<and> vals c m = foldl (\<lambda>m (symb, v). entry_add (+) 0 symb (- v) m) [] (vals c cost)
    \<and> gridded s (vals c m) \<and> mass (vals c m) \<le> mass (vals c cost)"
proof -
  let ?v = "\<lambda>x. - decimal_rat c (snd x)"
  have mass: "sum_list (map (\<lambda>x. \<bar>?v x\<bar>) cost) = mass (vals c cost)"
    by (simp add: mass_def vals_def comp_def split_beta')
  have fold: "foldl (\<lambda>m (symb, v). entry_add (+) 0 symb (- v) m) [] (vals c cost)
      = foldl (\<lambda>m x. entry_add (+) 0 (fst x) (?v x) m) (vals c []) cost"
    by (simp add: vals_def foldl_map split_beta')
  have "\<exists>m. fold_attempt (\<lambda>x m. and_then (Returned (snd x)) (\<lambda>d. entry_try (decimal_sub c) 0 (fst x) d m))
        cost [] = Returned m
    \<and> vals c m = foldl (\<lambda>m x. entry_add (+) 0 (fst x) (?v x) m) (vals c []) cost
    \<and> gridded s (vals c m)
    \<and> mass (vals c m) \<le> mass (vals c ([] :: ('d \<times> 'c) list)) + sum_list (map (\<lambda>x. \<bar>?v x\<bar>) cost)"
    by (rule fold_exact [OF codec_adds(2) [OF assms(1)] assms(2)])
       (use assms(3,4) mass in \<open>auto simp: gridded_def vals_def list_all_iff intro!: grid_minus\<close>)
  then show ?thesis unfolding fold mass by (simp add: split_beta')
qed

lemma mtm_exact:
  assumes "exact_decimals c" and "s \<le> 28" and "fills_fit (co_orders co)" and "basket_grid s c co"
    and "inside s (cost_mass c co + market_mass c co)"
  shows "\<exists>m. mtm c co = Returned m \<and> vals c m = exact_mtm c co
    \<and> gridded s (vals c m) \<and> mass (vals c m) \<le> cost_mass c co + market_mass c co"
proof -
  note pos = mass_nonnegs [OF assms(3), of c]
  have "inside s (cost_mass c co)" using pos by (intro inside_mono [OF assms(5)]) simp
  from net_value_exact [OF assms(1-4) this] obtain cost where cost: "net_value c co = Returned cost"
      "vals c cost = exact_net_value c co" "gridded s (vals c cost)"
      "mass (vals c cost) \<le> cost_mass c co" by blast
  have "inside s (mass (vals c cost))" using pos cost(4) by (intro inside_mono [OF assms(5)]) simp
  from cost_taken_off [OF assms(1,2) cost(3) this] obtain m0 where m0:
      "fold_attempt (\<lambda>(symb, v) m. entry_try (decimal_sub c) 0 symb v m) cost [] = Returned m0"
      "vals c m0 = foldl (\<lambda>m (symb, v). entry_add (+) 0 symb (- v) m) [] (exact_net_value c co)"
      "gridded s (vals c m0)" "mass (vals c m0) \<le> cost_mass c co"
    unfolding cost(2) [symmetric] using cost(4) by fastforce
  let ?P = "\<lambda>(symb, qty :: int). market_price c co symb \<noteq> None"
  let ?xs = "filter ?P (compound_positions co)"
  let ?v = "\<lambda>x. of_int (snd x) * the (market_price c co (fst x))"
  let ?g = "\<lambda>x. decimal_mul c (decimal_of_i64 c (snd x))
    (the (decimal_of_f64 c (the (map_of (co_ltp co) (fst x)))))"
  have step: "fold_attempt (\<lambda>(symb, qty) m.
           case map_of (co_ltp co) symb of None \<Rightarrow> Returned m
           | Some ltp \<Rightarrow> (case decimal_of_f64 c ltp of None \<Rightarrow> Returned m
               | Some d \<Rightarrow> and_then (decimal_mul c (decimal_of_i64 c qty) d)
                   (\<lambda>v. entry_try (decimal_add c) 0 symb v m)))
         (compound_positions co) m0
      = fold_attempt (\<lambda>x m. and_then (?g x) (\<lambda>d. entry_try (decimal_add c) 0 (fst x) d m)) ?xs m0"
    unfolding fold_attempt_filter [symmetric]
    by (intro arg_cong [where f = "\<lambda>f. fold_attempt f (compound_positions co) m0"] ext)
       (auto simp: market_price_def split: option.split)
  have price: "held_price c co symb = the (market_price c co symb)"
    if "market_price c co symb \<noteq> None" for symb using that by (auto simp: held_price_def)
  have "sum_list (map (\<lambda>x. \<bar>?v x\<bar>) ?xs)
      \<le> position_mass (\<lambda>symb. \<bar>held_price c co symb\<bar>) (compound_positions co)"
    unfolding sum_filter_if [symmetric] position_mass_def
    by (intro sum_list_mono) (auto simp: abs_mult price split_beta')
  with positions_mass [OF assms(3), of c] have bound: "sum_list (map (\<lambda>x. \<bar>?v x\<bar>) ?xs) \<le> market_mass c co"
    by linarith
  have amount: "\<exists>d. ?g x = Returned d \<and> 1 * decimal_rat c d = ?v x \<and> on_grid s (?v x)"
    if x: "x \<in> set ?xs" for x
  proof -
    have p: "market_price c co (fst x) \<noteq> None" and q: "is_i64 (snd x)"
      using x position_i64 [of "fst x" "snd x" co] by (auto simp: split_beta')
    have grid: "on_grid s (?v x)"
      using grid_scale [OF held_price_grid [OF assms(4), of "fst x"], of "snd x"] price [OF p] by simp
    have "\<bar>?v x\<bar> \<le> sum_list (map (\<lambda>x. \<bar>?v x\<bar>) ?xs)"
      using x by (intro member_le_sum_list) auto
    then have "inside s \<bar>?v x\<bar>" using bound pos by (intro inside_mono [OF assms(5)]) linarith
    moreover have val: "decimal_rat c (decimal_of_i64 c (snd x)) = of_int (snd x)"
      using assms(1) q by (simp add: exact_decimals_def)
    moreover have "decimal_rat c (the (decimal_of_f64 c (the (map_of (co_ltp co) (fst x)))))
        = the (market_price c co (fst x))"
      using p by (auto simp: market_price_def split: option.splits)
    ultimately show ?thesis
      using mul_exact [OF assms(1,2), of "decimal_of_i64 c (snd x)"
          "the (decimal_of_f64 c (the (map_of (co_ltp co) (fst x))))"] grid by auto
  qed
  have "\<exists>m. fold_attempt (\<lambda>x m. and_then (?g x) (\<lambda>d. entry_try (decimal_add c) 0 (fst x) d m)) ?xs m0
        = Returned m
    \<and> vals c m = foldl (\<lambda>m x. entry_add (+) 0 (fst x) (?v x) m) (vals c m0) ?xs
    \<and> gridded s (vals c m)
    \<and> mass (vals c m) \<le> mass (vals c m0) + sum_list (map (\<lambda>x. \<bar>?v x\<bar>) ?xs)"
    by (rule fold_exact [OF codec_adds(1) [OF assms(1)] assms(2) _ m0(3)])
       (use amount in blast, use m0(4) bound in \<open>auto intro: inside_mono [OF assms(5)]\<close>)
  with step obtain m where "mtm c co = Returned m"
      "vals c m = foldl (\<lambda>m x. entry_add (+) 0 (fst x) (?v x) m) (vals c m0) ?xs"
      "gridded s (vals c m)" "mass (vals c m) \<le> mass (vals c m0) + sum_list (map (\<lambda>x. \<bar>?v x\<bar>) ?xs)"
    by (auto simp: mtm_def cost(1) m0(1))
  then show ?thesis using m0(2,4) bound
    by (intro exI [of _ m]) (auto simp: exact_mtm_def split_beta')
qed


section \<open>Strategies\<close>

definition strategy_mass :: "('n, 'f, 'd) codec \<Rightarrow> ('n, 'f, 'd) compound list \<Rightarrow> rat" where
  "strategy_mass c baskets = sum_list (map (\<lambda>co. cost_mass c co + market_mass c co) baskets)"

text \<open>
  What makes the arithmetic exact: fills that fit an \<open>i64\<close>, prices with at most \<open>s\<close> decimals, and
  filled quantities times absolute prices that add up to less than \<open>2\<^sup>9\<^sup>6\<close> at that scale.
\<close>

definition money_fits :: "nat \<Rightarrow> ('n, 'f, 'd) codec \<Rightarrow> ('n, 'f, 'd) compound list \<Rightarrow> bool" where
  "money_fits s c baskets \<longleftrightarrow>
     s \<le> 28 \<and> list_all (\<lambda>co. fills_fit (co_orders co) \<and> basket_grid s c co) baskets
     \<and> inside s (strategy_mass c baskets)"

lemma sum_mass: "sum_list (map (\<lambda>x. \<bar>decimal_rat c (snd x)\<bar>) m) = mass (vals c m)"
  by (simp add: mass_def vals_def comp_def split_beta')

lemma basket_added:
  assumes "exact_decimals c" and "s \<le> 28" and "gridded s (vals c m)" and "gridded s (vals c out)"
    and "inside s (mass (vals c out) + mass (vals c m))"
  shows "\<exists>out'. fold_attempt (\<lambda>(symb, v) out. entry_try (decimal_add c) 0 symb v out) m out = Returned out'
    \<and> vals c out' = foldl (\<lambda>out (symb, v). entry_add (+) 0 symb v out) (vals c out) (vals c m)
    \<and> gridded s (vals c out') \<and> mass (vals c out') \<le> mass (vals c out) + mass (vals c m)"
proof -
  let ?v = "\<lambda>x. decimal_rat c (snd x)"
  have fold: "foldl (\<lambda>out (symb, v). entry_add (+) 0 symb v out) (vals c out) (vals c m)
      = foldl (\<lambda>m x. entry_add (+) 0 (fst x) (?v x) m) (vals c out) m"
    by (simp add: vals_def foldl_map split_beta')
  have "\<exists>m'. fold_attempt (\<lambda>x m. and_then (Returned (snd x)) (\<lambda>d. entry_try (decimal_add c) 0 (fst x) d m))
        m out = Returned m'
    \<and> vals c m' = foldl (\<lambda>m x. entry_add (+) 0 (fst x) (?v x) m) (vals c out) m
    \<and> gridded s (vals c m')
    \<and> mass (vals c m') \<le> mass (vals c out) + sum_list (map (\<lambda>x. \<bar>?v x\<bar>) m)"
    by (rule fold_exact [OF codec_adds(1) [OF assms(1)] assms(2)])
       (use assms(3-5) sum_mass [of c m] in \<open>auto simp: gridded_def vals_def list_all_iff\<close>)
  then show ?thesis unfolding fold sum_mass by (simp add: split_beta')
qed

lemma strategy_fold_exact:
  assumes "exact_decimals c" and "s \<le> 28"
    and "list_all (\<lambda>co. fills_fit (co_orders co) \<and> basket_grid s c co) baskets"
    and "gridded s (vals c out)" and "inside s (mass (vals c out) + strategy_mass c baskets)"
  shows "\<exists>m. fold_attempt (\<lambda>co out. and_then (mtm c co) (\<lambda>m.
        fold_attempt (\<lambda>(symb, v) out. entry_try (decimal_add c) 0 symb v out) m out)) baskets out
      = Returned m
    \<and> vals c m = foldl (\<lambda>out co. foldl (\<lambda>out (symb, v). entry_add (+) 0 symb v out) out (exact_mtm c co))
        (vals c out) baskets
    \<and> gridded s (vals c m) \<and> mass (vals c m) \<le> mass (vals c out) + strategy_mass c baskets"
  using assms(3-5)
proof (induction baskets arbitrary: out)
  case (Cons co baskets)
  let ?b = "cost_mass c co + market_mass c co"
  have fit: "fills_fit (co_orders co)" "basket_grid s c co" using Cons.prems(1) by auto
  have rest: "0 \<le> strategy_mass c baskets"
    using Cons.prems(1) mass_nonnegs [of _ c] unfolding strategy_mass_def
    by (intro sum_list_nonneg) (auto simp: list_all_iff intro!: add_nonneg_nonneg)
  have total: "strategy_mass c (co # baskets) = ?b + strategy_mass c baskets"
    by (simp add: strategy_mass_def)
  note below = inside_mono [OF Cons.prems(3) [unfolded total]]
  have "inside s ?b" using rest mass_nonneg [of "vals c out"] by (intro below) linarith
  from mtm_exact [OF assms(1,2) fit this] obtain m where m: "mtm c co = Returned m"
      "vals c m = exact_mtm c co" "gridded s (vals c m)" "mass (vals c m) \<le> ?b" by blast
  have "inside s (mass (vals c out) + mass (vals c m))" using rest m(4) by (intro below) linarith
  from basket_added [OF assms(1,2) m(3) Cons.prems(2) this] obtain out1 where out1:
      "fold_attempt (\<lambda>(symb, v) out. entry_try (decimal_add c) 0 symb v out) m out = Returned out1"
      "vals c out1 = foldl (\<lambda>out (symb, v). entry_add (+) 0 symb v out) (vals c out) (exact_mtm c co)"
      "gridded s (vals c out1)" "mass (vals c out1) \<le> mass (vals c out) + mass (vals c m)"
    unfolding m(2) by blast
  have "inside s (mass (vals c out1) + strategy_mass c baskets)"
    using out1(4) m(4) by (intro below) linarith
  with Cons.IH [of out1] Cons.prems(1) out1(3) obtain m2 where
      "fold_attempt (\<lambda>co out. and_then (mtm c co) (\<lambda>m.
        fold_attempt (\<lambda>(symb, v) out. entry_try (decimal_add c) 0 symb v out) m out)) baskets out1
      = Returned m2"
      "vals c m2 = foldl (\<lambda>out co. foldl (\<lambda>out (symb, v). entry_add (+) 0 symb v out) out
        (exact_mtm c co)) (vals c out1) baskets"
      "gridded s (vals c m2)" "mass (vals c m2) \<le> mass (vals c out1) + strategy_mass c baskets"
    by auto
  with m(1,4) out1 total show ?case by auto
qed (simp add: strategy_mass_def)

lemma strategy_mtm_exact:
  assumes "exact_decimals c" and "money_fits s c (st_orders st)"
  shows "\<exists>m. strategy_mtm c st = Returned m
    \<and> vals c m = exact_strategy_mtm c (st_orders st) \<and> gridded s (vals c m) \<and> inside s (mass (vals c m))"
proof -
  have "s \<le> 28" "inside s (strategy_mass c (st_orders st))"
    "list_all (\<lambda>co. fills_fit (co_orders co) \<and> basket_grid s c co) (st_orders st)"
    using assms(2) by (auto simp: money_fits_def)
  with strategy_fold_exact [OF assms(1), of s "st_orders st" "[]"] show ?thesis
    by (auto simp: strategy_mtm_def exact_strategy_mtm_def intro: inside_mono)
qed

text \<open>The sum of the values, whichever order the map is iterated in.\<close>

lemma values_sum_exact:
  assumes "exact_decimals c" and "s \<le> 28" and "gridded s (vals c m)" and "inside s (mass (vals c m))"
    and "mset ds = mset (map snd m)"
  shows "\<exists>d. decimal_sum c ds = Returned d \<and> decimal_rat c d = sum_list (map snd (vals c m))"
proof -
  have sum: "sum_list (map f ds) = sum_list (map f (map snd m))" for f :: "'c \<Rightarrow> rat"
    using assms(5) by (metis mset_map sum_mset_sum_list)
  have set: "set ds = set (map snd m)" using assms(5) by (rule mset_eq_setD)
  have zero: "decimal_rat c 0 = 0" using assms(1) by (simp add: exact_decimals_def)
  have "\<exists>d. fold_attempt (\<lambda>d s. decimal_add c s d) ds 0 = Returned d
    \<and> decimal_rat c d = decimal_rat c 0 + sum_list (map (decimal_rat c) ds)"
    by (rule sum_exact [OF codec_adds(1) [OF assms(1)] assms(2)])
       (use assms(3,4) sum [of "\<lambda>d. \<bar>decimal_rat c d\<bar>"] sum_mass [of c m] set zero in
         \<open>auto simp: gridded_def vals_def list_all_iff comp_def\<close>)
  then show ?thesis using sum [of "decimal_rat c"] zero
    by (simp add: decimal_sum_def vals_def comp_def split_beta')
qed

end
