(* ===== verification/Parity_Store.thy ===== *)
theory Parity_Store
  imports Parity_Row
begin

text \<open>
  \<open>persistence.rs\<close>: the SQLite table of orders. The statements the code builds are a datatype,
  the driver that runs them is an argument (\<open>sqlite\<close>), with what the code relies on of SQLite as
  named hypotheses: the effect of a replacing insertion (\<open>replaces_by_id\<close>) and what a column of
  a declared type makes of a value (\<open>column_affinity\<close>).
\<close>

section \<open>Values\<close>

text \<open>\<open>rusqlite\<close>'s dynamic value, and the printing of numbers and of JSON by \<open>serde_json\<close>.\<close>

datatype 'f sql_value = SqlNull | SqlInteger i64 | SqlReal 'f | SqlText string | SqlBlob

record 'n json_text =
  number_text :: "'n \<Rightarrow> string"
  value_text :: "'n json \<Rightarrow> string"

fun json_to_sql :: "('n, 'f, 'd) codec \<Rightarrow> 'n json_text \<Rightarrow> 'n json \<Rightarrow> 'f sql_value" where
  "json_to_sql c x JNull = SqlNull"
| "json_to_sql c x (JBool b) = SqlInteger (if b then 1 else 0)"
| "json_to_sql c x (JNumber n) =
     (case number_i64 c n of Some i \<Rightarrow> SqlInteger i
      | None \<Rightarrow> (case number_f64 c n of Some f \<Rightarrow> SqlReal f | None \<Rightarrow> SqlText (number_text x n)))"
| "json_to_sql c x (JString s) = SqlText s"
| "json_to_sql c x (JArray vs) = SqlText (value_text x (JArray vs))"
| "json_to_sql c x (JObject m) = SqlText (value_text x (JObject m))"

fun sql_to_json :: "('n, 'f, 'd) codec \<Rightarrow> 'f sql_value \<Rightarrow> 'n json" where
  "sql_to_json c SqlNull = JNull"
| "sql_to_json c (SqlInteger i) = json_i64 c i"
| "sql_to_json c (SqlReal f) = JNumber (f64_number c f)"
| "sql_to_json c (SqlText s) = JString s"
| "sql_to_json c SqlBlob = JNull"


section \<open>The table\<close>

text \<open>The columns of the schema with their declared types, and the list of their names.\<close>

definition order_schema :: "(string \<times> string) list" where
  "order_schema =
     [(''symbol'', ''text''), (''side'', ''text''), (''quantity'', ''integer''),
      (''id'', ''text''), (''parent_id'', ''text''), (''timestamp'', ''text''),
      (''order_type'', ''text''), (''broker_timestamp'', ''text''),
      (''exchange_timestamp'', ''text''), (''order_id'', ''text''),
      (''exchange_order_id'', ''text''), (''price'', ''real''),
      (''trigger_price'', ''real''), (''average_price'', ''real''),
      (''pending_quantity'', ''integer''), (''filled_quantity'', ''integer''),
      (''cancelled_quantity'', ''integer''), (''disclosed_quantity'', ''integer''),
      (''validity'', ''text''), (''status'', ''text''),
      (''expires_in'', ''integer''), (''timezone'', ''text''),
      (''client_id'', ''text''), (''convert_to_market_after_expiry'', ''text''),
      (''cancel_after_expiry'', ''text''), (''retries'', ''integer''),
      (''max_modifications'', ''integer''),
      (''exchange'', ''text''), (''tag'', ''string''), (''can_peg'', ''integer''),
      (''pseudo_id'', ''string''), (''strategy_id'', ''string''), (''portfolio_id'', ''string''),
      (''JSON'', ''text''), (''error'', ''text''), (''is_multi'', ''integer''),
      (''last_updated_at'', ''text'')]"

definition order_columns :: "string list" where
  "order_columns =
     [''symbol'', ''side'', ''quantity'', ''id'', ''parent_id'', ''timestamp'', ''order_type'',
      ''broker_timestamp'', ''exchange_timestamp'', ''order_id'', ''exchange_order_id'', ''price'',
      ''trigger_price'', ''average_price'', ''pending_quantity'', ''filled_quantity'',
      ''cancelled_quantity'', ''disclosed_quantity'', ''validity'', ''status'', ''expires_in'',
      ''timezone'', ''client_id'', ''convert_to_market_after_expiry'', ''cancel_after_expiry'',
      ''retries'', ''max_modifications'', ''exchange'', ''tag'', ''can_peg'', ''pseudo_id'',
      ''strategy_id'', ''portfolio_id'', ''JSON'', ''error'', ''is_multi'', ''last_updated_at'']"

lemma order_columns_schema: "order_columns = map fst order_schema"
  by (simp add: order_columns_def order_schema_def)

definition declared :: "string \<Rightarrow> string" where
  "declared k = unwrap_or '''' (map_of order_schema k)"

text \<open>The statements: the schema, the two insertions with their column lists, the two queries.\<close>

datatype sql_statement =
    CreateOrders
  | InsertRow "string list"
  | ReplaceRow "string list"

datatype sqlite_failure =
    ConstraintViolation "string option" string
  | OtherFailure string

datatype persistence_error = Backend string | UniqueViolated string

record ('f, 'db) sqlite =
  sql_open :: "string option \<Rightarrow> sqlite_failure + 'db"
  sql_execute :: "sql_statement \<Rightarrow> 'f sql_value list \<Rightarrow> 'db \<Rightarrow> sqlite_failure + 'db"
  sql_select :: "'db \<Rightarrow> sqlite_failure + (string \<times> 'f sql_value) list list"
  sql_count :: "'db \<Rightarrow> sqlite_failure + i64"

fun failure_text :: "sqlite_failure \<Rightarrow> string" where
  "failure_text (ConstraintViolation _ s) = s"
| "failure_text (OtherFailure s) = s"

definition backend_error :: "sqlite_failure \<Rightarrow> persistence_error" where
  "backend_error e = Backend (failure_text e)"

fun classify :: "sqlite_failure \<Rightarrow> persistence_error" where
  "classify (ConstraintViolation msg s) = UniqueViolated (unwrap_or s msg)"
| "classify (OtherFailure s) = Backend s"

definition map_error :: "('e \<Rightarrow> 'g) \<Rightarrow> 'e + 'a \<Rightarrow> 'g + 'a" where
  "map_error f r = (case r of Inl e \<Rightarrow> Inl (f e) | Inr a \<Rightarrow> Inr a)"


section \<open>Operations\<close>

definition open_store :: "('f, 'db) sqlite \<Rightarrow> string option \<Rightarrow> persistence_error + 'db" where
  "open_store s path =
     (case map_error backend_error (sql_open s path) of Inl e \<Rightarrow> Inl e
      | Inr db \<Rightarrow> map_error backend_error (sql_execute s CreateOrders [] db))"

text \<open>\<open>cols\<close> is the iteration order of the hash map \<open>row\<close>.\<close>

definition column_values ::
  "('n, 'f, 'd) codec \<Rightarrow> 'n json_text \<Rightarrow> string list \<Rightarrow> 'n args \<Rightarrow> 'f sql_value list" where
  "column_values c x cols row = map (\<lambda>k. json_to_sql c x (the (row k))) cols"

definition insert_raw ::
  "('n, 'f, 'd) codec \<Rightarrow> 'n json_text \<Rightarrow> ('f, 'db) sqlite \<Rightarrow> string list \<Rightarrow> 'n args \<Rightarrow> 'db
     \<Rightarrow> persistence_error + 'db" where
  "insert_raw c x s cols row db =
     (if cols = [] then Inl (Backend ''empty row'')
      else map_error classify (sql_execute s (InsertRow cols) (column_values c x cols row) db))"

definition upsert ::
  "('n, 'f, 'd) codec \<Rightarrow> 'n json_text \<Rightarrow> ('f, 'db) sqlite \<Rightarrow> string list \<Rightarrow> 'n args \<Rightarrow> 'db
     \<Rightarrow> persistence_error + 'db" where
  "upsert c x s cols row db =
     map_error classify (sql_execute s (ReplaceRow cols) (column_values c x cols row) db)"

definition query_all ::
  "('n, 'f, 'd) codec \<Rightarrow> ('f, 'db) sqlite \<Rightarrow> 'db \<Rightarrow> persistence_error + 'n args list" where
  "query_all c s db =
     map_error backend_error (case sql_select s db of Inl e \<Rightarrow> Inl e
       | Inr rows \<Rightarrow> Inr (map (\<lambda>r. extend_map Map.empty (map (\<lambda>(k, v). (k, sql_to_json c v)) r)) rows))"

definition store_count :: "('f, 'db) sqlite \<Rightarrow> 'db \<Rightarrow> persistence_error + i64" where
  "store_count s db = map_error backend_error (sql_count s db)"


section \<open>What SQLite does\<close>

text \<open>
  The value a column of a declared type stores. \<open>text\<close> keeps text and prints an integer,
  \<open>integer\<close> keeps an integer, \<open>real\<close> keeps a float. The type \<open>string\<close> is none that SQLite
  knows and gives a column numeric affinity: text that reads as an integer is stored as one;
  text with a character no number has stays text.
\<close>

definition number_char :: "char \<Rightarrow> bool" where
  "number_char ch \<longleftrightarrow>
     CHR ''0'' \<le> ch \<and> ch \<le> CHR ''9''
     \<or> ch \<in> set (''+-.eE '' @ [CHR 0x09, CHR 0x0A, CHR 0x0B, CHR 0x0C, CHR 0x0D])"

definition plain_text :: "string \<Rightarrow> bool" where
  "plain_text s \<longleftrightarrow> \<not> list_all number_char s"

definition column_affinity :: "(string \<Rightarrow> 'f sql_value \<Rightarrow> 'f sql_value) \<Rightarrow> bool" where
  "column_affinity store \<longleftrightarrow>
     (\<forall>t. store t SqlNull = SqlNull)
     \<and> (\<forall>s. store ''text'' (SqlText s) = SqlText s)
     \<and> (\<forall>n < 2 ^ 63. store ''text'' (SqlInteger (int n)) = SqlText (show_nat n))
     \<and> (\<forall>i. store ''integer'' (SqlInteger i) = SqlInteger i)
     \<and> (\<forall>f. store ''real'' (SqlReal f) = SqlReal f)
     \<and> (\<forall>s. plain_text s \<longrightarrow> store ''string'' (SqlText s) = SqlText s)
     \<and> (\<forall>n < 2 ^ 63. store ''string'' (SqlText (show_nat n)) = SqlInteger (int n))"

text \<open>A row of the table for the values of some columns; the others are \<open>NULL\<close>.\<close>

definition stored_cells ::
  "(string \<Rightarrow> 'f sql_value \<Rightarrow> 'f sql_value) \<Rightarrow> string list \<Rightarrow> 'f sql_value list
     \<Rightarrow> (string \<times> 'f sql_value) list" where
  "stored_cells store cols vals =
     map (\<lambda>k. (k, store (declared k) (unwrap_or SqlNull (map_of (zip cols vals) k)))) order_columns"

text \<open>
  A replacing insertion that succeeds removes the rows with the identifier of the new row, the
  primary key, and adds the new row; a query returns every column of every row.
\<close>

definition replaces_by_id ::
  "('f, 'db) sqlite \<Rightarrow> (string \<Rightarrow> 'f sql_value \<Rightarrow> 'f sql_value) \<Rightarrow> bool" where
  "replaces_by_id s store \<longleftrightarrow>
     (\<forall>cols vals db db' oid.
        sql_execute s (ReplaceRow cols) vals db = Inr db' \<and> distinct cols
        \<and> set cols \<subseteq> set order_columns \<and> length vals = length cols
        \<and> map_of (stored_cells store cols vals) ''id'' = Some (SqlText oid) \<longrightarrow>
        (\<exists>rows rows'. sql_select s db = Inr rows \<and> sql_select s db' = Inr rows'
           \<and> (\<forall>r \<in> set rows. map fst r = order_columns)
           \<and> set rows' = insert (stored_cells store cols vals)
               {r \<in> set rows. map_of r ''id'' \<noteq> Some (SqlText oid)}))"


section \<open>What a column gives back\<close>

text \<open>The JSON row a query returns for a row that was saved.\<close>

definition returned ::
  "(string \<Rightarrow> 'f sql_value \<Rightarrow> 'f sql_value) \<Rightarrow> ('n, 'f, 'd) codec \<Rightarrow> 'n json_text \<Rightarrow> 'n args
     \<Rightarrow> 'n args" where
  "returned store c x row = (\<lambda>k.
     if k \<in> set order_columns
     then Some (sql_to_json c (store (declared k)
            (case row k of None \<Rightarrow> SqlNull | Some v \<Rightarrow> json_to_sql c x v)))
     else None)"

lemma returned_str:
  assumes "column_affinity store" and "k \<in> set order_columns"
    and "declared k = ''text'' \<or> declared k = ''string'' \<and> pred_option plain_text v"
    and "row k = (case v of None \<Rightarrow> None | Some a \<Rightarrow> Some (JString a))"
  shows "row_str (returned store c x row) k = v"
  using assms by (cases v) (auto simp: returned_def row_str_def column_affinity_def)

lemma returned_str_one:
  assumes "column_affinity store" and "k \<in> set order_columns" and "declared k = ''text''"
    and "row k = Some (JString a)"
  shows "row_str (returned store c x row) k = Some a"
  using assms by (auto simp: returned_def row_str_def column_affinity_def)

lemma returned_i64:
  assumes "column_affinity store" and "k \<in> set order_columns" and "declared k = ''integer''"
    and "row k = (case v of None \<Rightarrow> None | Some a \<Rightarrow> Some (json_i64 c a))"
    and "pred_option (i64_exact c) v"
  shows "row_i64 c (returned store c x row) k = v"
  using assms
  by (cases v) (auto simp: returned_def row_i64_def column_affinity_def json_i64_def i64_exact_def)

text \<open>A float prints as a number that is no integer and reads back as the float.\<close>

definition float_exact :: "('n, 'f, 'd) codec \<Rightarrow> 'd \<Rightarrow> bool" where
  "float_exact c d \<longleftrightarrow>
     (let f = decimal_to_f64 c d in number_i64 c (f64_number c f) = None
        \<and> number_f64 c (f64_number c f) = Some f \<and> decimal_of_f64 c f = Some d)"

lemma returned_decimal:
  assumes "column_affinity store" and "k \<in> set order_columns" and "declared k = ''real''"
    and "row k = (case v of None \<Rightarrow> None | Some a \<Rightarrow> Some (decimal_persistence_value c a))"
    and "pred_option (float_exact c) v"
  shows "row_decimal c (returned store c x row) k = v"
  using assms
  by (cases v) (auto simp: returned_def row_decimal_def column_affinity_def float_exact_def
      decimal_persistence_value_def Let_def)

lemma returned_instant:
  assumes "column_affinity store" and "k \<in> set order_columns" and "declared k = ''text''"
    and "row k = (case v of None \<Rightarrow> None | Some a \<Rightarrow> Some (json_instant c a))"
    and "pred_option (instant_exact c) v"
  shows "row_instant c (returned store c x row) k = v"
  using assms
  by (cases v) (auto simp: returned_def row_instant_def column_affinity_def json_instant_def
      instant_exact_def)

lemma bool_text:
  "column_affinity store \<Longrightarrow>
   store ''text'' (SqlInteger (if b then 1 else 0)) = SqlText (if b then ''1'' else ''0'')"
proof -
  assume "column_affinity store"
  then have st: "store ''text'' (SqlInteger (int n)) = SqlText (show_nat n)" if "n < 2 ^ 63" for n
    using that by (simp add: column_affinity_def)
  have "char_of (48 :: nat) = CHR ''0''" "char_of (49 :: nat) = CHR ''1''"
    using char_of_char [of "CHR ''0''"] char_of_char [of "CHR ''1''"] by simp_all
  then show ?thesis using st [of 0] st [of 1] by (simp add: show_nat.simps digit_char_def)
qed

lemma returned_bool:
  assumes "column_affinity store" and "k \<in> set order_columns"
    and "declared k = ''text'' \<or> declared k = ''integer'' \<and> i64_exact c 0 \<and> i64_exact c 1"
    and "row k = Some (JBool b)"
  shows "row_bool c (returned store c x row) k = Some b"
  using assms(2-4) bool_text [OF assms(1), of b] assms(1)
  by (cases b) (auto simp: returned_def row_bool_def column_affinity_def json_i64_def i64_exact_def
      to_lowercase_def ascii_lower_def)

lemma returned_map:
  assumes "column_affinity store" and "k \<in> set order_columns" and "declared k = ''text''"
    and "row k = (case v of None \<Rightarrow> None | Some a \<Rightarrow> Some (JObject a))"
    and "pred_option (\<lambda>m. json_text_map c (value_text x (JObject m)) = Some m) v"
  shows "row_map c (returned store c x row) k = v"
  using assms
  by (cases v) (auto simp: returned_def row_map_def column_affinity_def)


section \<open>Saving and loading\<close>

text \<open>The values of an order that survive the table.\<close>

definition storable :: "('n, 'f, 'd) codec \<Rightarrow> 'n json_text \<Rightarrow> ('n, 'd) order \<Rightarrow> bool" where
  "storable c x od \<longleftrightarrow>
     list_all (i64_exact c)
       [0, 1, o_quantity od, o_filled_quantity od, o_cancelled_quantity od,
        o_disclosed_quantity od, o_expires_in od, o_retries od, o_max_modifications od]
     \<and> pred_option (i64_exact c) (o_pending_quantity od)
     \<and> pred_option (float_exact c) (o_price od)
     \<and> float_exact c (o_trigger_price od) \<and> float_exact c (o_average_price od)
     \<and> list_all (pred_option (instant_exact c))
         [o_timestamp od, o_broker_timestamp od, o_exchange_timestamp od, o_last_updated_at od]
     \<and> pred_option (\<lambda>m. json_text_map c (value_text x (JObject m)) = Some m) (o_json od)
     \<and> list_all (pred_option plain_text)
         [o_tag od, o_pseudo_id od, o_strategy_id od, o_portfolio_id od]"

lemma declared_columns:
  "list_all (\<lambda>k. k \<in> set order_columns \<and> declared k = ''text'')
     [''symbol'', ''side'', ''id'', ''parent_id'', ''timestamp'', ''order_type'',
      ''broker_timestamp'', ''exchange_timestamp'', ''order_id'', ''exchange_order_id'',
      ''validity'', ''status'', ''timezone'', ''client_id'', ''convert_to_market_after_expiry'',
      ''cancel_after_expiry'', ''exchange'', ''JSON'', ''error'', ''last_updated_at'']"
  "list_all (\<lambda>k. k \<in> set order_columns \<and> declared k = ''integer'')
     [''quantity'', ''pending_quantity'', ''filled_quantity'', ''cancelled_quantity'',
      ''disclosed_quantity'', ''expires_in'', ''retries'', ''max_modifications'', ''can_peg'',
      ''is_multi'']"
  "list_all (\<lambda>k. k \<in> set order_columns \<and> declared k = ''real'')
     [''price'', ''trigger_price'', ''average_price'']"
  "list_all (\<lambda>k. k \<in> set order_columns \<and> declared k = ''string'')
     [''tag'', ''pseudo_id'', ''strategy_id'', ''portfolio_id'']"
  by (simp_all add: order_columns_def declared_def order_schema_def)

lemmas columns = declared_columns [simplified]

lemma init_from_returned:
  assumes a: "column_affinity store" and "storable c x od"
  shows "init_from_row c (returned store c x (to_row c od)) = init_of_order od"
proof -
  note f = assms(2) [unfolded storable_def, simplified]
  let ?r = "returned store c x (to_row c od)"
  note req = to_row_required [of c od] and opt = to_row_optional [of c od]
  have strs: "row_str ?r ''symbol'' = Some (o_symbol od)" "row_str ?r ''side'' = Some (o_side od)"
      "row_str ?r ''order_type'' = Some (o_order_type od)"
      "row_str ?r ''validity'' = Some (o_validity od)"
      "row_str ?r ''timezone'' = Some (o_timezone od)"
    by (rule returned_str_one [OF a]; simp add: columns req)+
  have opts: "row_str ?r ''id'' = o_id od" "row_str ?r ''parent_id'' = o_parent_id od"
      "row_str ?r ''order_id'' = o_order_id od"
      "row_str ?r ''exchange_order_id'' = o_exchange_order_id od"
      "row_str ?r ''status'' = o_status od" "row_str ?r ''client_id'' = o_client_id od"
      "row_str ?r ''exchange'' = o_exchange od" "row_str ?r ''tag'' = o_tag od"
      "row_str ?r ''pseudo_id'' = o_pseudo_id od" "row_str ?r ''strategy_id'' = o_strategy_id od"
      "row_str ?r ''portfolio_id'' = o_portfolio_id od" "row_str ?r ''error'' = o_error od"
    by (rule returned_str [OF a]; simp add: columns opt f cong: option.case_cong)+
  have ints: "row_i64 c ?r ''quantity'' = Some (o_quantity od)"
      "row_i64 c ?r ''filled_quantity'' = Some (o_filled_quantity od)"
      "row_i64 c ?r ''cancelled_quantity'' = Some (o_cancelled_quantity od)"
      "row_i64 c ?r ''disclosed_quantity'' = Some (o_disclosed_quantity od)"
      "row_i64 c ?r ''expires_in'' = Some (o_expires_in od)"
      "row_i64 c ?r ''retries'' = Some (o_retries od)"
      "row_i64 c ?r ''max_modifications'' = Some (o_max_modifications od)"
      "row_i64 c ?r ''pending_quantity'' = o_pending_quantity od"
    by (rule returned_i64 [OF a]; simp add: columns req opt f cong: option.case_cong)+
  have decs: "row_decimal c ?r ''price'' = o_price od"
      "row_decimal c ?r ''trigger_price'' = Some (o_trigger_price od)"
      "row_decimal c ?r ''average_price'' = Some (o_average_price od)"
    by (rule returned_decimal [OF a]; simp add: columns req opt f cong: option.case_cong)+
  have times: "row_instant c ?r ''timestamp'' = o_timestamp od"
      "row_instant c ?r ''broker_timestamp'' = o_broker_timestamp od"
      "row_instant c ?r ''exchange_timestamp'' = o_exchange_timestamp od"
      "row_instant c ?r ''last_updated_at'' = o_last_updated_at od"
    by (rule returned_instant [OF a]; simp add: columns opt f cong: option.case_cong)+
  have bools: "row_bool c ?r ''convert_to_market_after_expiry''
        = Some (o_convert_to_market_after_expiry od)"
      "row_bool c ?r ''cancel_after_expiry'' = Some (o_cancel_after_expiry od)"
      "row_bool c ?r ''can_peg'' = Some (o_can_peg od)"
      "row_bool c ?r ''is_multi'' = Some (o_is_multi od)"
    by (rule returned_bool [OF a]; simp add: columns req f)+
  have json: "row_map c ?r ''JSON'' = o_json od"
    by (rule returned_map [OF a]; simp add: columns opt f cong: option.case_cong)
  show ?thesis
    unfolding init_from_row_def init_of_order_def strs opts ints decs times bools json by simp
qed

lemma to_row_columns_known: "dom (to_row c od) \<subseteq> set order_columns"
proof
  fix k
  assume "k \<in> dom (to_row c od)"
  then obtain v where "to_row c od k = Some v" by blast
  from map_of_SomeD [OF this [unfolded to_row_def]] show "k \<in> set order_columns"
    by (auto simp: order_columns_def row_opt_def split: option.splits)
qed

lemma extend_map_distinct:
  "distinct (map fst xs) \<Longrightarrow> extend_map m xs k = (case map_of xs k of None \<Rightarrow> m k | Some v \<Rightarrow> Some v)"
proof (induction xs arbitrary: m)
  case (Cons p xs)
  obtain k' v where p: "p = (k', v)" by (cases p)
  with Cons.prems have "map_of xs k' = None" "distinct (map fst xs)"
    by (simp_all add: map_of_eq_None_iff)
  then show ?case by (simp add: p Cons.IH split: option.split)
qed simp

lemma distinct_columns: "distinct order_columns"
  by (simp add: order_columns_def)

lemma column_value:
  assumes "set cols = dom row" and "distinct cols"
  shows "unwrap_or SqlNull (map_of (zip cols (column_values c x cols row)) k)
    = (case row k of None \<Rightarrow> SqlNull | Some v \<Rightarrow> json_to_sql c x v)"
proof (cases "row k")
  case None
  then have "k \<notin> set cols" using assms(1) by blast
  then show ?thesis using None by (simp add: column_values_def map_of_zip_map)
next
  case (Some v)
  then have "k \<in> set cols" using assms(1) by blast
  then show ?thesis using Some by (simp add: column_values_def map_of_zip_map)
qed

lemma stored_cells_value:
  "k \<in> set order_columns \<Longrightarrow> map_of (stored_cells store cols vals) k
   = Some (store (declared k) (unwrap_or SqlNull (map_of (zip cols vals) k)))"
  by (simp add: stored_cells_def map_of_map_restrict)

lemma query_cells:
  assumes "set cols = dom row" and "distinct cols"
  shows "extend_map Map.empty
      (map (\<lambda>(k, v). (k, sql_to_json c v)) (stored_cells store cols (column_values c x cols row)))
    = returned store c x row"
proof
  fix k
  let ?f = "\<lambda>k. sql_to_json c (store (declared k)
    (case row k of None \<Rightarrow> SqlNull | Some v \<Rightarrow> json_to_sql c x v))"
  have m: "map (\<lambda>(k, v). (k, sql_to_json c v)) (stored_cells store cols (column_values c x cols row))
    = map (\<lambda>k. (k, ?f k)) order_columns"
    by (simp add: stored_cells_def column_value [OF assms])
  have "map fst (map (\<lambda>k. (k, ?f k)) order_columns) = order_columns" by (simp add: o_def)
  then have d: "distinct (map fst (map (\<lambda>k. (k, ?f k)) order_columns))"
    using distinct_columns by simp
  show "extend_map Map.empty (map (\<lambda>(k, v). (k, sql_to_json c v))
      (stored_cells store cols (column_values c x cols row))) k = returned store c x row k"
    unfolding m extend_map_distinct [OF d]
    by (simp add: map_of_map_restrict returned_def restrict_map_def)
qed

text \<open>The rows a successful save leaves behind: the order's own, and those of other identifiers.\<close>

lemma saved_rows:
  assumes affinity: "column_affinity store" and "replaces_by_id s store"
    and cols: "set cols = dom (to_row c od)" "distinct cols"
    and "upsert c x s cols (to_row c od) db = Inr db'" and oid: "o_id od = Some oid"
  obtains rows where "query_all c s db' = Inr rows"
    and "returned store c x (to_row c od) \<in> set rows"
    and "\<forall>row \<in> set rows. row ''id'' = Some (JString oid)
           \<longrightarrow> row = returned store c x (to_row c od)"
proof -
  let ?vals = "column_values c x cols (to_row c od)"
  let ?new = "stored_cells store cols ?vals"
  let ?json = "\<lambda>r. extend_map Map.empty (map (\<lambda>(k, v). (k, sql_to_json c v)) r)"
  have "to_row c od ''id'' = Some (JString oid)" by (simp add: to_row_optional oid)
  then have "map_of ?new ''id'' = Some (SqlText oid)"
    using affinity by (simp add: stored_cells_value columns column_value [OF cols] column_affinity_def)
  moreover have "sql_execute s (ReplaceRow cols) ?vals db = Inr db'"
    using assms(5) by (simp add: upsert_def map_error_def split: sum.splits)
  moreover have lens: "length ?vals = length cols" by (simp add: column_values_def)
  moreover have "set cols \<subseteq> set order_columns" using to_row_columns_known cols(1) by metis
  ultimately obtain rows rows' where q: "sql_select s db' = Inr rows'"
    and shape: "\<forall>r \<in> set rows. map fst r = order_columns"
    and rows': "set rows' = insert ?new {r \<in> set rows. map_of r ''id'' \<noteq> Some (SqlText oid)}"
    using assms(2) [unfolded replaces_by_id_def, rule_format, of cols ?vals db db' oid] cols(2) lens
    by blast
  have new: "?json ?new = returned store c x (to_row c od)" by (rule query_cells [OF cols])
  show thesis
  proof (rule that)
    show "query_all c s db' = Inr (map ?json rows')" by (simp add: query_all_def q map_error_def)
    show "returned store c x (to_row c od) \<in> set (map ?json rows')"
      unfolding set_map rows' new [symmetric] by (rule imageI) (rule insertI1)
    show "\<forall>row \<in> set (map ?json rows'). row ''id'' = Some (JString oid)
        \<longrightarrow> row = returned store c x (to_row c od)"
    proof (intro ballI impI)
      fix row
      assume "row \<in> set (map ?json rows')" and id: "row ''id'' = Some (JString oid)"
      then obtain r where r: "r \<in> set rows'" "row = ?json r" by auto
      have "r = ?new"
      proof (rule ccontr)
        assume "r \<noteq> ?new"
        with r(1) rows' shape have other: "map_of r ''id'' \<noteq> Some (SqlText oid)"
            and "map fst r = order_columns" by auto
        then have d: "distinct (map fst (map (\<lambda>(k, v). (k, sql_to_json c v)) r))"
          using distinct_columns by (simp add: comp_def split_beta')
        have "map_of r ''id'' = Some v \<Longrightarrow> sql_to_json c v \<noteq> JString oid" for v
          using other by (cases v) (auto simp: json_i64_def)
        then show False
          using id unfolding r(2) extend_map_distinct [OF d] map_of_map
          by (auto split: option.splits)
      qed
      then show "row = returned store c x (to_row c od)" using r(2) new by simp
    qed
  qed
qed

text \<open>
  An identifier that reads as an integer does not survive: the column stores a number, and the
  loading order finds no text.
\<close>

lemma numeric_identifier_lost:
  assumes "column_affinity store" and "o_strategy_id od = Some (show_nat n)" and "n < 2 ^ 63"
  shows "init_strategy_id (init_from_row c (returned store c x (to_row c od))) = None"
  using assms
  by (simp add: init_from_row_def row_str_def returned_def columns to_row_optional
      column_affinity_def json_i64_def)

end
