(* ===== verification/Parity_Store_Demo.thy ===== *)
theory Parity_Store_Demo
  imports Parity_Store Parity_Compound
begin

text \<open>
  A table in memory that has the laws \<open>Parity_Store\<close> asks of SQLite: a row is a function of the
  column, the columns convert by their declared type.
\<close>

section \<open>Decimal digits\<close>

lemma digit_char_val: "d < 10 \<Longrightarrow> digit_val (digit_char d) = d"
  by (simp add: digit_val_def digit_char_def)

lemma digit_char_is_digit: "d < 10 \<Longrightarrow> is_digit (digit_char d)"
  by (simp add: is_digit_def digit_char_def less_eq_char_def)

lemma digits_val_snoc: "digits_val (s @ [ch]) = 10 * digits_val s + digit_val ch"
  by (simp add: digits_val_def)

lemma show_nat_digits:
  "show_nat n \<noteq> [] \<and> list_all is_digit (show_nat n) \<and> digits_val (show_nat n) = n"
proof (induction n rule: show_nat.induct)
  case (1 n)
  show ?case
  proof (cases "n < 10")
    case True
    then show ?thesis
      by (simp add: show_nat.simps [of n] digit_char_is_digit)
         (simp add: digits_val_def digit_char_val)
  next
    case False
    then show ?thesis
      using 1 by (simp add: show_nat.simps [of n] digits_val_snoc digit_char_val digit_char_is_digit)
  qed
qed

lemma digits_are_no_plain_text: "plain_text s \<Longrightarrow> \<not> list_all is_digit s"
  by (auto simp: plain_text_def number_char_def is_digit_def list_all_iff)


section \<open>The table\<close>

fun memory_column :: "string \<Rightarrow> 'f sql_value \<Rightarrow> 'f sql_value" where
  "memory_column t (SqlInteger i) =
     (if t = ''text'' \<and> 0 \<le> i then SqlText (show_nat (nat i)) else SqlInteger i)"
| "memory_column t (SqlText s) =
     (if t = ''string'' \<and> s \<noteq> [] \<and> list_all is_digit s \<and> digits_val s < 2 ^ 63
      then SqlInteger (int (digits_val s)) else SqlText s)"
| "memory_column t v = v"

definition memory_row :: "string list \<Rightarrow> 'f sql_value list \<Rightarrow> string \<Rightarrow> 'f sql_value" where
  "memory_row cols vals k =
     memory_column (declared k) (unwrap_or SqlNull (map_of (zip cols vals) k))"

fun memory_execute ::
  "sql_statement \<Rightarrow> 'f sql_value list \<Rightarrow> (string \<Rightarrow> 'f sql_value) list
     \<Rightarrow> sqlite_failure + (string \<Rightarrow> 'f sql_value) list" where
  "memory_execute CreateOrders _ db = Inr db"
| "memory_execute (InsertRow cols) vals db =
     (let r = memory_row cols vals in
      if r ''id'' \<noteq> SqlNull \<and> list_ex (\<lambda>h. h ''id'' = r ''id'') db
      then Inl (ConstraintViolation None ''UNIQUE constraint failed: orders.id'')
      else Inr (db @ [r]))"
| "memory_execute (ReplaceRow cols) vals db =
     (let r = memory_row cols vals in
      Inr (filter (\<lambda>h. r ''id'' = SqlNull \<or> h ''id'' \<noteq> r ''id'') db @ [r]))"

definition memory_cells :: "(string \<Rightarrow> 'f sql_value) \<Rightarrow> (string \<times> 'f sql_value) list" where
  "memory_cells r = map (\<lambda>k. (k, r k)) order_columns"

definition memory_table :: "('f, (string \<Rightarrow> 'f sql_value) list) sqlite" where
  "memory_table =
     \<lparr> sql_open = (\<lambda>_. Inr []), sql_execute = memory_execute,
       sql_select = (\<lambda>db. Inr (map memory_cells db)),
       sql_count = (\<lambda>db. Inr (int (length db))) \<rparr>"

lemma memory_affinity: "column_affinity memory_column"
  using show_nat_digits by (auto simp: column_affinity_def dest: digits_are_no_plain_text)

lemma memory_cells_id: "map_of (memory_cells r) ''id'' = Some (r ''id'')"
  by (simp add: memory_cells_def order_columns_def)

lemma memory_replaces: "replaces_by_id memory_table memory_column"
  unfolding replaces_by_id_def
proof (intro allI impI, elim conjE)
  fix cols vals db db' oid
  assume x: "sql_execute memory_table (ReplaceRow cols) vals db = Inr db'"
    and i: "map_of (stored_cells memory_column cols vals) ''id'' = Some (SqlText oid)"
  have new: "stored_cells memory_column cols vals = memory_cells (memory_row cols vals)"
    by (simp add: stored_cells_def memory_cells_def memory_row_def)
  then have "memory_row cols vals ''id'' = SqlText oid" using i by (simp add: memory_cells_id)
  then have db': "db' = filter (\<lambda>h. h ''id'' \<noteq> SqlText oid) db @ [memory_row cols vals]"
    using x by (auto simp: memory_table_def Let_def)
  have "set (map memory_cells db') = insert (memory_cells (memory_row cols vals))
      {r \<in> set (map memory_cells db). map_of r ''id'' \<noteq> Some (SqlText oid)}"
    by (auto simp: db' memory_cells_id)
  moreover have "\<forall>r \<in> set (map memory_cells db). map fst r = order_columns"
    by (auto simp: memory_cells_def comp_def)
  ultimately show "\<exists>rows rows'. sql_select memory_table db = Inr rows
      \<and> sql_select memory_table db' = Inr rows'
      \<and> (\<forall>r \<in> set rows. map fst r = order_columns)
      \<and> set rows' = insert (stored_cells memory_column cols vals)
          {r \<in> set rows. map_of r ''id'' \<noteq> Some (SqlText oid)}"
    unfolding new by (simp add: memory_table_def)
qed

end
