(* ===== verification/Parity_Async_Basket.thy ===== *)
theory Parity_Async_Basket
  imports Parity_Async Parity_Basket
begin

text \<open>
  \<open>async_compound_order.rs\<close> and \<open>async_order_strategy.rs\<close>. Their structs have the fields of the
  synchronous ones, with the asynchronous broker trait; here both are the records of
  \<open>Parity_Compound\<close>, whose broker is the record \<open>broker\<close>. The operations that face the broker are in
  \<open>Parity_Async\<close>. The rest is a second copy of the synchronous code, with the rule that a change to one
  is made to the other; \<open>async_trace_mirrors\<close> is that rule for whole runs.
\<close>

section \<open>Asynchronous compound orders\<close>

definition acompound_with_clock :: "string \<Rightarrow> clock_ref \<Rightarrow> ('n, 'f, 'd) compound" where
  "acompound_with_clock uuid clock =
     \<lparr> co_broker = None, co_id = uuid, co_ltp = [], co_orders = [], co_connection = None,
       co_order_args = Map.empty, co_run_fn = None, co_index = [], co_keys = [],
       co_clock = clock \<rparr>"

definition acompound_set_clock :: "clock_ref \<Rightarrow> ('n, 'f, 'd) compound \<Rightarrow> ('n, 'f, 'd) compound" where
  "acompound_set_clock clock co =
     co\<lparr>co_clock := clock, co_orders := map (set_clock clock) (co_orders co)\<rparr>"

definition acompound_with_orders ::
  "('n, 'd) order list \<Rightarrow> ('n, 'f, 'd) compound \<Rightarrow> ('n, 'f, 'd) compound" where
  "acompound_with_orders orders co =
     foldl (\<lambda>co (i, od). co\<lparr>co_orders := co_orders co @ [od],
                          co_index := AList.update (int i) i (co_index co)\<rparr>)
       co (enumerate 0 orders)"

definition acompound_count :: "('n, 'f, 'd) compound \<Rightarrow> nat" where
  "acompound_count co = length (co_orders co)"

definition anext_index :: "('n, 'f, 'd) compound \<Rightarrow> i64" where
  "anext_index co =
     (if co_index co = [] then 0 else i64_add (Max (fst ` set (co_index co))) 1)"

definition aorder_at :: "('n, 'f, 'd) compound \<Rightarrow> nat \<Rightarrow> ('n, 'd) order option" where
  "aorder_at co pos = (if pos < length (co_orders co) then Some (co_orders co ! pos) else None)"

definition aget_by_index :: "('n, 'f, 'd) compound \<Rightarrow> i64 \<Rightarrow> ('n, 'd) order option" where
  "aget_by_index co idx =
     (case map_of (co_index co) idx of None \<Rightarrow> None | Some pos \<Rightarrow> aorder_at co pos)"

definition aget_by_key :: "('n, 'f, 'd) compound \<Rightarrow> string \<Rightarrow> ('n, 'd) order option" where
  "aget_by_key co key =
     (case map_of (co_keys co) key of None \<Rightarrow> None | Some pos \<Rightarrow> aorder_at co pos)"

definition acompound_get :: "('n, 'f, 'd) compound \<Rightarrow> string \<Rightarrow> ('n, 'd) order option" where
  "acompound_get co key =
     (case aget_by_key co key of Some od \<Rightarrow> Some od
      | None \<Rightarrow> (case parse_i64 key of Some n \<Rightarrow> aget_by_index co n | None \<Rightarrow> None))"

subsection \<open>Aggregates\<close>

definition acompound_positions :: "('n, 'f, 'd) compound \<Rightarrow> (string \<times> i64) list" where
  "acompound_positions co =
     foldl (\<lambda>out od. entry_add i64_add 0 (o_symbol od)
              (i64_mul (o_filled_quantity od) (side_sign od)) out) [] (co_orders co)"

definition atotal_quantity ::
  "('n, 'f, 'd) compound \<Rightarrow> (string \<times> i64) list \<times> (string \<times> i64) list" where
  "atotal_quantity co =
     foldl (\<lambda>(buy, sell) od.
         let q = i64_abs (o_filled_quantity od); side = to_lowercase (o_side od) in
         if q = 0 then (buy, sell)
         else if side = ''buy'' then (entry_add i64_add 0 (o_symbol od) q buy, sell)
         else if side = ''sell'' then (buy, entry_add i64_add 0 (o_symbol od) q sell)
         else (buy, sell))
       ([], []) (co_orders co)"

definition acompound_average_price ::
  "('n, 'f, 'd::zero) codec \<Rightarrow> string \<Rightarrow> ('n, 'f, 'd) compound \<Rightarrow> (string \<times> 'd) list attempt" where
  "acompound_average_price c side_filter co =
     and_then
       (fold_attempt (\<lambda>od (value, quantity).
            if to_lowercase (o_side od) \<noteq> side_filter \<or> o_filled_quantity od = 0
            then Returned (value, quantity)
            else let qty = decimal_of_i64 c (o_filled_quantity od) in
              and_then (decimal_mul c (o_average_price od) qty) (\<lambda>v.
              and_then (entry_try (decimal_add c) 0 (o_symbol od) v value) (\<lambda>value.
              and_then (entry_try (decimal_add c) 0 (o_symbol od) qty quantity) (\<lambda>quantity.
                Returned (value, quantity)))))
          (co_orders co) ([], []))
       (\<lambda>(value, quantity).
          fold_attempt (\<lambda>(symb, v) out.
              case map_of quantity symb of None \<Rightarrow> Returned out
              | Some q \<Rightarrow>
                  if decimal_less c 0 q
                  then and_then (decimal_div c v q) (\<lambda>p. Returned (AList.update symb p out))
                  else Returned out)
            value [])"

definition acompound_update_ltp ::
  "(string \<times> 'f) list \<Rightarrow> ('n, 'f, 'd) compound \<Rightarrow> ('n, 'f, 'd) compound" where
  "acompound_update_ltp last_price co =
     co\<lparr>co_ltp := foldl (\<lambda>m (k, v). AList.update k v m) (co_ltp co) last_price\<rparr>"

definition anet_value ::
  "('n, 'f, 'd::zero) codec \<Rightarrow> ('n, 'f, 'd) compound \<Rightarrow> (string \<times> 'd) list attempt" where
  "anet_value c co =
     fold_attempt (\<lambda>od m.
         if o_filled_quantity od > 0
         then and_then (decimal_mul c (decimal_of_i64 c (o_filled_quantity od)) (o_average_price od))
           (\<lambda>v. and_then (decimal_mul c v (decimal_of_i64 c (side_sign od)))
           (\<lambda>v. entry_try (decimal_add c) 0 (o_symbol od) v m))
         else Returned m)
       (co_orders co) []"

definition amtm ::
  "('n, 'f, 'd::zero) codec \<Rightarrow> ('n, 'f, 'd) compound \<Rightarrow> (string \<times> 'd) list attempt" where
  "amtm c co =
     and_then (anet_value c co) (\<lambda>cost.
     and_then (fold_attempt (\<lambda>(symb, v) m. entry_try (decimal_sub c) 0 symb v m) cost []) (\<lambda>m.
       fold_attempt (\<lambda>(symb, qty) m.
           case map_of (co_ltp co) symb of None \<Rightarrow> Returned m
           | Some ltp \<Rightarrow> (case decimal_of_f64 c ltp of None \<Rightarrow> Returned m
               | Some d \<Rightarrow> and_then (decimal_mul c (decimal_of_i64 c qty) d)
                   (\<lambda>v. entry_try (decimal_add c) 0 symb v m)))
         (acompound_positions co) m))"

definition atotal_mtm :: "('n, 'f, 'd::zero) codec \<Rightarrow> ('n, 'f, 'd) compound \<Rightarrow> 'd attempt" where
  "atotal_mtm c co = and_then (amtm c co) (\<lambda>m. decimal_sum c (map snd m))"

definition acompleted_orders :: "('n, 'f, 'd) compound \<Rightarrow> ('n, 'd) order list" where
  "acompleted_orders co = filter order_complete (co_orders co)"

definition apending_orders :: "('n, 'f, 'd) compound \<Rightarrow> ('n, 'd) order list" where
  "apending_orders co = filter order_pending (co_orders co)"

subsection \<open>Adding orders\<close>

definition aslot_error ::
  "i64 \<Rightarrow> string option \<Rightarrow> ('n, 'f, 'd) compound \<Rightarrow> compound_error option" where
  "aslot_error idx key co =
     (if map_of (co_index co) idx \<noteq> None then Some (IndexAlreadyUsed idx)
      else case key of None \<Rightarrow> None
        | Some k \<Rightarrow> if map_of (co_keys co) k \<noteq> None then Some (KeyAlreadyUsed k) else None)"

definition ainsert_order ::
  "i64 \<Rightarrow> string option \<Rightarrow> ('n, 'd) order \<Rightarrow> ('n, 'f, 'd) compound \<Rightarrow> ('n, 'f, 'd) compound" where
  "ainsert_order idx key od co =
     (let position = length (co_orders co) in
      co\<lparr>co_orders := co_orders co @ [od],
         co_index := AList.update idx position (co_index co),
         co_keys := (case key of None \<Rightarrow> co_keys co
                     | Some k \<Rightarrow> AList.update k position (co_keys co))\<rparr>)"

definition aadd_order ::
  "('n, 'f, 'd::zero) codec \<Rightarrow> 'n env \<Rightarrow> string \<Rightarrow> ('n, 'd) order_init \<Rightarrow> i64 option
     \<Rightarrow> string option \<Rightarrow> ('n, 'f, 'd) compound \<Rightarrow> 'n broker_call list
     \<Rightarrow> ((compound_error + string) \<times> ('n, 'f, 'd) compound \<times> 'n broker_call list) attempt" where
  "aadd_order c e uuid ini index key co calls =
     (let ini = ini\<lparr>init_parent_id := Some (co_id co)\<rparr>;
          ini = (if init_connection ini = None
                 then ini\<lparr>init_connection := co_connection co\<rparr> else ini);
          idx = (case index of Some i \<Rightarrow> i | None \<Rightarrow> anext_index co) in
      case aslot_error idx key co of
        Some err \<Rightarrow> Returned (Inl err, co, calls)
      | None \<Rightarrow> and_then (from_init_with_clock e uuid ini (co_clock co)) (\<lambda>od.
          Returned (Inr (the (o_id od)), ainsert_order idx key od co,
                    snd (save_to_db c e od calls))))"

definition acompound_add ::
  "('n, 'f, 'd) codec \<Rightarrow> 'n env \<Rightarrow> string \<Rightarrow> ('n, 'd) order \<Rightarrow> rat option
     \<Rightarrow> string option \<Rightarrow> ('n, 'f, 'd) compound \<Rightarrow> 'n broker_call list
     \<Rightarrow> (compound_error + string) \<times> ('n, 'f, 'd) compound \<times> 'n broker_call list" where
  "acompound_add c e uuid od index key co calls =
     (let od = od\<lparr>o_parent_id := Some (co_id co)\<rparr>;
          od = (if o_connection od = None then od\<lparr>o_connection := co_connection co\<rparr> else od);
          od = (if o_id od = None then od\<lparr>o_id := Some uuid\<rparr> else od);
          idx = (case index of Some f \<Rightarrow> cast_i64 f | None \<Rightarrow> anext_index co) in
      case aslot_error idx key co of
        Some err \<Rightarrow> (Inl err, co, calls)
      | None \<Rightarrow> (Inr (the (o_id od)), ainsert_order idx key od co, snd (save_to_db c e od calls)))"

subsection \<open>Fan-out\<close>

primrec aupdate_positions ::
  "('n, 'f, 'd) codec \<Rightarrow> 'n env \<Rightarrow> (string \<rightharpoonup> 'n args) \<Rightarrow> nat list \<Rightarrow> ('n, 'd) order list
     \<Rightarrow> 'n broker_call list \<Rightarrow> (string \<times> bool) list
     \<Rightarrow> ((string \<times> bool) list \<times> ('n, 'd) order list \<times> 'n broker_call list) attempt" where
  "aupdate_positions c e data [] orders calls out = Returned (out, orders, calls)"
| "aupdate_positions c e data (pos # ps) orders calls out =
     (case o_order_id (orders ! pos) of
        None \<Rightarrow> aupdate_positions c e data ps orders calls out
      | Some oid \<Rightarrow>
          (case data oid of
             None \<Rightarrow> aupdate_positions c e data ps orders calls out
           | Some upd \<Rightarrow> and_then (order_update c e upd (orders ! pos) calls) (\<lambda>(ok, od, calls).
               aupdate_positions c e data ps (orders[pos := od]) calls
                 (AList.update oid ok out))))"

definition aupdate_orders ::
  "('n, 'f, 'd) codec \<Rightarrow> 'n env \<Rightarrow> (string \<rightharpoonup> 'n args) \<Rightarrow> ('n, 'f, 'd) compound
     \<Rightarrow> 'n broker_call list
     \<Rightarrow> ((string \<times> bool) list \<times> ('n, 'f, 'd) compound \<times> 'n broker_call list) attempt" where
  "aupdate_orders c e data co calls =
     (let pending = filter (\<lambda>i. order_pending (co_orders co ! i)) [0..<length (co_orders co)] in
      and_then (aupdate_positions c e data pending (co_orders co) calls [])
        (\<lambda>(out, orders, calls). Returned (out, co\<lparr>co_orders := orders\<rparr>, calls)))"

primrec asave_each ::
  "('n, 'f, 'd) codec \<Rightarrow> 'n env \<Rightarrow> ('n, 'd) order list \<Rightarrow> 'n broker_call list
     \<Rightarrow> nat \<times> 'n broker_call list" where
  "asave_each c e [] calls = (0, calls)"
| "asave_each c e (od # ods) calls =
     (let (ok, calls) = save_to_db c e od calls; (n, calls) = asave_each c e ods calls
      in (if ok then n + 1 else n, calls))"

definition acompound_save ::
  "('n, 'f, 'd) codec \<Rightarrow> 'n env \<Rightarrow> ('n, 'f, 'd) compound \<Rightarrow> 'n broker_call list
     \<Rightarrow> nat \<times> 'n broker_call list" where
  "acompound_save c e co calls = asave_each c e (co_orders co) calls"


section \<open>Asynchronous strategies\<close>

definition astrategy_with_clock :: "string \<Rightarrow> clock_ref \<Rightarrow> ('n, 'f, 'd) strategy" where
  "astrategy_with_clock uuid clock =
     \<lparr> st_broker = None, st_id = uuid, st_ltp = [], st_orders = [], st_clock = clock \<rparr>"

definition astrategy_with_orders ::
  "('n, 'f, 'd) compound list \<Rightarrow> ('n, 'f, 'd) strategy \<Rightarrow> ('n, 'f, 'd) strategy" where
  "astrategy_with_orders orders st =
     st\<lparr>st_orders := map (acompound_set_clock (st_clock st)) orders\<rparr>"

definition astrategy_positions :: "('n, 'f, 'd) strategy \<Rightarrow> (string \<times> i64) list" where
  "astrategy_positions st =
     foldl (\<lambda>out co. foldl (\<lambda>out (symb, qty). entry_add i64_add 0 symb qty out) out
         (acompound_positions co)) [] (st_orders st)"

definition astrategy_update_ltp ::
  "(string \<times> 'f) list \<Rightarrow> ('n, 'f, 'd) strategy \<Rightarrow> ('n, 'f, 'd) strategy" where
  "astrategy_update_ltp last_price st =
     st\<lparr>st_ltp := foldl (\<lambda>m (k, v). AList.update k v m) (st_ltp st) last_price,
        st_orders := map (acompound_update_ltp last_price) (st_orders st)\<rparr>"

primrec aupdate_compounds ::
  "('n, 'f, 'd) codec \<Rightarrow> 'n env \<Rightarrow> (string \<rightharpoonup> 'n args) \<Rightarrow> ('n, 'f, 'd) compound list
     \<Rightarrow> 'n broker_call list \<Rightarrow> (('n, 'f, 'd) compound list \<times> 'n broker_call list) attempt" where
  "aupdate_compounds c e data [] calls = Returned ([], calls)"
| "aupdate_compounds c e data (co # rest) calls =
     and_then (aupdate_orders c e data co calls) (\<lambda>(_, co, calls).
       and_then (aupdate_compounds c e data rest calls) (\<lambda>(rest, calls). Returned (co # rest, calls)))"

definition astrategy_update_orders ::
  "('n, 'f, 'd) codec \<Rightarrow> 'n env \<Rightarrow> (string \<rightharpoonup> 'n args) \<Rightarrow> ('n, 'f, 'd) strategy
     \<Rightarrow> 'n broker_call list \<Rightarrow> (('n, 'f, 'd) strategy \<times> 'n broker_call list) attempt" where
  "astrategy_update_orders c e data st calls =
     and_then (aupdate_compounds c e data (st_orders st) calls)
       (\<lambda>(rest, calls). Returned (st\<lparr>st_orders := rest\<rparr>, calls))"

definition astrategy_mtm ::
  "('n, 'f, 'd::zero) codec \<Rightarrow> ('n, 'f, 'd) strategy \<Rightarrow> (string \<times> 'd) list attempt" where
  "astrategy_mtm c st =
     fold_attempt (\<lambda>co out. and_then (amtm c co) (\<lambda>m.
         fold_attempt (\<lambda>(symb, v) out. entry_try (decimal_add c) 0 symb v out) m out))
       (st_orders st) []"

definition astrategy_total_mtm :: "('n, 'f, 'd::zero) codec \<Rightarrow> ('n, 'f, 'd) strategy \<Rightarrow> 'd attempt" where
  "astrategy_total_mtm c st = and_then (astrategy_mtm c st) (\<lambda>m. decimal_sum c (map snd m))"

definition astrategy_run ::
  "(nat \<Rightarrow> ('n, 'f, 'd) compound \<Rightarrow> (string \<times> 'f) list \<Rightarrow> ('n, 'f, 'd) compound)
     \<Rightarrow> (string \<times> 'f) list \<Rightarrow> ('n, 'f, 'd) strategy \<Rightarrow> ('n, 'f, 'd) strategy" where
  "astrategy_run fns ltp st =
     st\<lparr>st_orders := map (\<lambda>co. case co_run_fn co of None \<Rightarrow> co | Some f \<Rightarrow> fns f co ltp)
          (st_orders st)\<rparr>"

definition astrategy_add ::
  "('n, 'f, 'd) compound \<Rightarrow> ('n, 'f, 'd) strategy \<Rightarrow> ('n, 'f, 'd) strategy" where
  "astrategy_add compound st =
     (let co = acompound_set_clock (st_clock st) compound;
          co = (if st_broker st \<noteq> None \<and> co_broker co = None
                then co\<lparr>co_broker := st_broker st\<rparr> else co)
      in st\<lparr>st_orders := st_orders st @ [co]\<rparr>)"

primrec asave_compounds ::
  "('n, 'f, 'd) codec \<Rightarrow> 'n env \<Rightarrow> ('n, 'f, 'd) compound list \<Rightarrow> 'n broker_call list
     \<Rightarrow> nat \<times> 'n broker_call list" where
  "asave_compounds c e [] calls = (0, calls)"
| "asave_compounds c e (co # rest) calls =
     (let (n, calls) = acompound_save c e co calls; (m, calls) = asave_compounds c e rest calls
      in (n + m, calls))"

definition astrategy_save ::
  "('n, 'f, 'd) codec \<Rightarrow> 'n env \<Rightarrow> ('n, 'f, 'd) strategy \<Rightarrow> 'n broker_call list
     \<Rightarrow> nat \<times> 'n broker_call list" where
  "astrategy_save c e st calls = asave_compounds c e (st_orders st) calls"


section \<open>Runs of a strategy and its baskets\<close>

text \<open>
  An operation on the strategy, or on a basket it holds (its \<open>orders\<close> are public); an index past
  the end panics.
\<close>

datatype ('n, 'f, 'd) strategy_op =
    AddBasketOp "('n, 'f, 'd) compound"
  | StrategyUpdateOp "string \<rightharpoonup> 'n args"
  | StrategyLtpOp "(string \<times> 'f) list"
  | StrategyRunOp "(string \<times> 'f) list"
  | BasketOp nat "('n, 'f, 'd) basket_op"

type_synonym ('n, 'f, 'd) run_fns =
  "nat \<Rightarrow> ('n, 'f, 'd) compound \<Rightarrow> (string \<times> 'f) list \<Rightarrow> ('n, 'f, 'd) compound"

fun strategy_step ::
  "('n, 'f, 'd::zero) codec \<Rightarrow> ('n, 'f, 'd) run_fns \<Rightarrow> 'n env \<Rightarrow> ('n, 'f, 'd) strategy_op
     \<Rightarrow> ('n, 'f, 'd) strategy \<times> 'n broker_call list
     \<Rightarrow> (('n, 'f, 'd) strategy \<times> 'n broker_call list) attempt" where
  "strategy_step c fns e (AddBasketOp co) (st, calls) = Returned (strategy_add co st, calls)"
| "strategy_step c fns e (StrategyUpdateOp data) (st, calls) =
     strategy_update_orders c e data st calls"
| "strategy_step c fns e (StrategyLtpOp prices) (st, calls) =
     Returned (strategy_update_ltp prices st, calls)"
| "strategy_step c fns e (StrategyRunOp prices) (st, calls) =
     Returned (strategy_run fns prices st, calls)"
| "strategy_step c fns e (BasketOp i x) (st, calls) =
     (if i < length (st_orders st)
      then and_then (basket_step c e x (st_orders st ! i, calls)) (\<lambda>(co, calls).
        Returned (st\<lparr>st_orders := (st_orders st)[i := co]\<rparr>, calls))
      else Panicked)"

fun abasket_step ::
  "('n, 'f, 'd::zero) codec \<Rightarrow> 'n env \<Rightarrow> ('n, 'f, 'd) basket_op
     \<Rightarrow> ('n, 'f, 'd) compound \<times> 'n broker_call list
     \<Rightarrow> (('n, 'f, 'd) compound \<times> 'n broker_call list) attempt" where
  "abasket_step c e (AddOp uuid od index key) (co, calls) =
     Returned (snd (acompound_add c e uuid od index key co calls))"
| "abasket_step c e (AddNewOp uuid ini index key) (co, calls) =
     and_then (aadd_order c e uuid ini index key co calls) (\<lambda>(_, s). Returned s)"
| "abasket_step c e (UpdateOrdersOp data) (co, calls) =
     and_then (aupdate_orders c e data co calls) (\<lambda>(_, s). Returned s)"
| "abasket_step c e (ExecuteAllOp kwargs) (co, calls) =
     Returned (execute_all_async c e kwargs co calls)"
| "abasket_step c e CheckFlagsOp (co, calls) = check_flags_async c e co calls"
| "abasket_step c e (LtpOp prices) (co, calls) = Returned (acompound_update_ltp prices co, calls)"
| "abasket_step c e (ClockOp clock) (co, calls) = Returned (acompound_set_clock clock co, calls)"

fun astrategy_step ::
  "('n, 'f, 'd::zero) codec \<Rightarrow> ('n, 'f, 'd) run_fns \<Rightarrow> 'n env \<Rightarrow> ('n, 'f, 'd) strategy_op
     \<Rightarrow> ('n, 'f, 'd) strategy \<times> 'n broker_call list
     \<Rightarrow> (('n, 'f, 'd) strategy \<times> 'n broker_call list) attempt" where
  "astrategy_step c fns e (AddBasketOp co) (st, calls) = Returned (astrategy_add co st, calls)"
| "astrategy_step c fns e (StrategyUpdateOp data) (st, calls) =
     astrategy_update_orders c e data st calls"
| "astrategy_step c fns e (StrategyLtpOp prices) (st, calls) =
     Returned (astrategy_update_ltp prices st, calls)"
| "astrategy_step c fns e (StrategyRunOp prices) (st, calls) =
     Returned (astrategy_run fns prices st, calls)"
| "astrategy_step c fns e (BasketOp i x) (st, calls) =
     (if i < length (st_orders st)
      then and_then (abasket_step c e x (st_orders st ! i, calls)) (\<lambda>(co, calls).
        Returned (st\<lparr>st_orders := (st_orders st)[i := co]\<rparr>, calls))
      else Panicked)"

primrec trace ::
  "('e \<Rightarrow> 'x \<Rightarrow> 's \<Rightarrow> 's attempt) \<Rightarrow> ('e \<times> 'x) list \<Rightarrow> 's \<Rightarrow> 's attempt" where
  "trace step [] s = Returned s"
| "trace step (x # xs) s = and_then (step (fst x) (snd x) s) (trace step xs)"

lemma and_then_cong:
  "x = y \<Longrightarrow> (\<And>a. y = Returned a \<Longrightarrow> f a = g a) \<Longrightarrow> and_then x f = and_then y g"
  by (cases y) simp_all

lemma trace_cong:
  assumes "\<And>e x s. (e, x) \<in> set xs \<Longrightarrow> step1 e x s = step2 e x s"
  shows "trace step1 xs s = trace step2 xs s"
  using assms
proof (induction xs arbitrary: s)
  case (Cons x xs)
  then have "step1 (fst x) (snd x) s = step2 (fst x) (snd x) s" by simp
  moreover have "trace step1 xs s' = trace step2 xs s'" for s' using Cons by simp
  ultimately show ?case by (simp cong: and_then_cong)
qed simp


section \<open>Both copies do the same\<close>

lemma acompound_mirrors:
  "acompound_set_clock clock co = compound_set_clock clock co"
  "acompound_update_ltp prices co = compound_update_ltp prices co"
  "aslot_error idx key co = slot_error idx key co"
  "ainsert_order idx key od co = insert_order idx key od co"
  "anext_index co = get_next_index co"
  "acompound_positions co = compound_positions co"
  "anet_value c co' = net_value c co'"
  by (simp_all add: acompound_set_clock_def compound_set_clock_def acompound_update_ltp_def
      compound_update_ltp_def aslot_error_def slot_error_def ainsert_order_def insert_order_def
      anext_index_def get_next_index_def acompound_positions_def compound_positions_def
      anet_value_def net_value_def)

lemma aview_mirrors:
  "acompound_with_clock uuid clock = compound_with_clock uuid clock"
  "acompound_with_orders ods co = with_orders ods co"
  "aget_by_index co i = get_by_index co i"
  "aget_by_key co k = get_by_key co k"
  "acompound_get co k = compound_get co k"
  "atotal_quantity co = total_quantity co"
  "acompound_average_price c side co' = compound_average_price c side co'"
  "acompleted_orders co = completed_orders co"
  "apending_orders co = pending_orders co"
  "astrategy_with_clock uuid clock = strategy_with_clock uuid clock"
  "astrategy_with_orders baskets st = strategy_with_orders baskets st"
  "astrategy_positions st = strategy_positions st"
  by (simp_all only: acompound_with_clock_def compound_with_clock_def acompound_with_orders_def
      with_orders_def aget_by_index_def get_by_index_def aget_by_key_def get_by_key_def
      acompound_get_def compound_get_def aorder_at_def order_at_def atotal_quantity_def
      total_quantity_def acompound_average_price_def compound_average_price_def
      acompleted_orders_def completed_orders_def apending_orders_def pending_orders_def
      astrategy_with_clock_def strategy_with_clock_def astrategy_with_orders_def
      strategy_with_orders_def astrategy_positions_def strategy_positions_def
      acompound_mirrors ext [OF acompound_mirrors(1)] ext [OF acompound_mirrors(6)])

lemma aadd_mirrors:
  "acompound_add c e uuid od index key co calls = compound_add c e uuid od index key co calls"
  "aadd_order c e uuid ini i key co' calls = add_order c e uuid ini i key co' calls"
  by (simp_all only: acompound_add_def compound_add_def aadd_order_def add_order_def
      acompound_mirrors)

lemma aupdate_positions_mirrors:
  "aupdate_positions c e data ps ods calls out = update_positions c e data ps ods calls out"
  by (induction ps arbitrary: ods calls out) (simp_all split: option.split)

lemma aupdate_orders_mirrors:
  "aupdate_orders c e data co calls = update_orders c e data co calls"
  by (simp only: aupdate_orders_def update_orders_def aupdate_positions_mirrors)

lemma abasket_step_mirrors:
  "runtime_present e \<Longrightarrow> abasket_step c e x s = basket_step c e x s"
  by (cases s; cases x)
     (simp_all add: aadd_mirrors aupdate_orders_mirrors execute_all_async_runtime
        check_flags_async_runtime acompound_mirrors)

lemma aupdate_compounds_mirrors:
  "aupdate_compounds c e data baskets calls = update_compounds c e data baskets calls"
  by (induction baskets arbitrary: calls) (simp_all add: aupdate_orders_mirrors)

lemma astrategy_step_mirrors:
  "runtime_present e \<Longrightarrow> astrategy_step c fns e x s = strategy_step c fns e x s"
  by (cases s; cases x)
     (simp_all add: astrategy_add_def strategy_add_def astrategy_update_orders_def
        strategy_update_orders_def astrategy_update_ltp_def strategy_update_ltp_def
        astrategy_run_def strategy_run_def acompound_mirrors aupdate_compounds_mirrors
        abasket_step_mirrors)

lemma amtm_mirrors: "amtm c co = mtm c co"
  by (simp only: amtm_def mtm_def acompound_mirrors)

lemma astrategy_mtm_mirrors: "astrategy_total_mtm c st = strategy_total_mtm c st"
  by (simp only: astrategy_total_mtm_def strategy_total_mtm_def astrategy_mtm_def
      strategy_mtm_def amtm_mirrors)

lemma async_trace_mirrors:
  assumes "\<forall>(e, x) \<in> set xs. runtime_present e"
  shows "trace (astrategy_step c fns) xs s = trace (strategy_step c fns) xs s"
  using assms by (intro trace_cong astrategy_step_mirrors) auto

lemma asave_each_mirrors: "asave_each c e ods calls = save_each c e ods calls"
  by (induction ods arbitrary: calls) simp_all

lemma asave_mirrors: "astrategy_save c e st calls = strategy_save c e st calls"
proof -
  have "asave_compounds c e baskets calls = save_compounds c e baskets calls"
    for baskets :: "('a, 'b, 'c) compound list" and calls
    by (induction baskets arbitrary: calls)
       (simp_all add: acompound_save_def compound_save_def asave_each_mirrors)
  then show ?thesis by (simp add: astrategy_save_def strategy_save_def)
qed

end
