(* ===== verification/Parity_Async_Broker.thy ===== *)
theory Parity_Async_Broker
  imports Parity_Broker Sim_Async_Virtual Sim_Async_Replica
begin

text \<open>
  The default methods of the trait of \<open>async_broker.rs\<close>, \<open>AsyncPaper\<close> of \<open>brokers.rs\<close>, and the trait's
  implementation by \<open>async_replica_broker.rs\<close>: what a typed cancellation answers in each. The helpers of
  \<open>async_broker.rs\<close> are its own copies of those of \<open>broker.rs\<close>.
\<close>

section \<open>Default methods\<close>

definition acoerce_quantity :: "('n, 'f, 'd) codec \<Rightarrow> 'n json option \<Rightarrow> i64 option" where
  "acoerce_quantity c v = (case v of
       Some (JNumber n) \<Rightarrow>
         (case number_i64 c n of Some i \<Rightarrow> Some i
          | None \<Rightarrow> map_option (f64_to_i64 c) (number_f64 c n))
     | Some (JString s) \<Rightarrow> parse_i64 s
     | _ \<Rightarrow> None)"

definition astatic_keys :: "string list" where
  "astatic_keys = [''quantity'', ''side'', ''symbol'', ''order_type'']"

definition aclose_order_args ::
  "('n, 'f, 'd) codec \<Rightarrow> i64 \<Rightarrow> string \<Rightarrow> string list option \<Rightarrow> 'n args \<Rightarrow> 'n args \<Rightarrow> 'n args" where
  "aclose_order_args c quantity symb keys_to_copy keys_to_add position =
     keys_to_add
     ++ ([''quantity'' \<mapsto> json_i64 c (i64_abs quantity),
          ''side'' \<mapsto> JString (if quantity > 0 then ''sell'' else ''buy''),
          ''symbol'' \<mapsto> JString symb,
          ''order_type'' \<mapsto> JString ''MARKET'']
         ++ copied (\<lambda>k. k \<in> set astatic_keys) (\<lambda>v. \<not> is_null v) position keys_to_copy)"

definition aclose_position ::
  "('n, 'f, 'd) codec \<Rightarrow> 'n broker \<Rightarrow> string list option \<Rightarrow> 'n args \<Rightarrow> (string \<Rightarrow> string) option
     \<Rightarrow> 'n args \<Rightarrow> 'n broker_call list \<Rightarrow> 'n broker_call list" where
  "aclose_position c b keys_to_copy keys_to_add transformer position calls =
     (case acoerce_quantity c (position ''quantity'') of
        None \<Rightarrow> calls
      | Some quantity \<Rightarrow>
          if quantity = 0 then calls
          else (case (case position ''symbol'' of None \<Rightarrow> None | Some v \<Rightarrow> as_str v) of
                  None \<Rightarrow> calls
                | Some raw \<Rightarrow>
                    let symb = (case transformer of Some f \<Rightarrow> f raw | None \<Rightarrow> raw) in
                    place_call b
                      (aclose_order_args c quantity symb keys_to_copy keys_to_add position)
                      calls))"

definition aclose_all_positions ::
  "('n, 'f, 'd) codec \<Rightarrow> 'n broker \<Rightarrow> 'n args list \<Rightarrow> 'n args list option \<Rightarrow> string list option
     \<Rightarrow> 'n args option \<Rightarrow> (string \<Rightarrow> string) option \<Rightarrow> 'n broker_call list \<Rightarrow> 'n broker_call list" where
  "aclose_all_positions c b own positions keys_to_copy keys_to_add transformer calls =
     foldl (\<lambda>calls row. aclose_position c b keys_to_copy (unwrap_or Map.empty keys_to_add)
                transformer row calls)
       calls (unwrap_or own positions)"

definition aterminal_statuses :: "string list" where
  "aterminal_statuses = [''COMPLETE'', ''CANCELED'', ''REJECTED'']"

definition acancel_row ::
  "string list option \<Rightarrow> 'n args option \<Rightarrow> 'n args \<Rightarrow> 'n broker_call list \<Rightarrow> 'n broker_call list" where
  "acancel_row keys_to_copy keys_to_add row calls =
     (let status = (case row ''status'' of None \<Rightarrow> ''PENDING''
           | Some v \<Rightarrow> (case as_str v of None \<Rightarrow> ''PENDING'' | Some s \<Rightarrow> to_uppercase s)) in
      case row ''order_id'' of
        None \<Rightarrow> calls
      | Some oid \<Rightarrow>
          if is_null oid then calls
          else if status \<in> set aterminal_statuses then calls
          else calls @ [CancelCall
                 ((copied (\<lambda>_. False) (\<lambda>_. True) row keys_to_copy
                    ++ unwrap_or Map.empty keys_to_add)(''order_id'' \<mapsto> oid))])"

definition acancel_all_orders ::
  "'n args list \<Rightarrow> string list option \<Rightarrow> 'n args option \<Rightarrow> 'n broker_call list \<Rightarrow> 'n broker_call list" where
  "acancel_all_orders own keys_to_copy keys_to_add calls =
     foldl (\<lambda>calls row. acancel_row keys_to_copy keys_to_add row calls) calls own"

definition aorder_record_from_dict ::
  "('n, 'f, 'd::zero) codec \<Rightarrow> 'n args \<Rightarrow> 'd order_record" where
  "aorder_record_from_dict c row =
     (let s = row_str row;
          dec = (\<lambda>k. case row k of
                   Some (JNumber n) \<Rightarrow> unwrap_or 0 (case number_f64 c n of None \<Rightarrow> None
                     | Some f \<Rightarrow> decimal_of_f64 c f)
                 | Some (JString x) \<Rightarrow> unwrap_or 0 (decimal_parse c x)
                 | _ \<Rightarrow> 0) in
      \<lparr> rec_symbol = s ''symbol'', rec_side = s ''side'', rec_quantity = dec ''quantity'',
        rec_price = dec ''price'', rec_trigger_price = dec ''trigger_price'',
        rec_average_price = dec ''average_price'' \<rparr>)"

definition aget_positions_from_orders ::
  "('n, 'f, 'd::zero) codec \<Rightarrow> 'n args list \<Rightarrow> 'n kwargs
     \<Rightarrow> (string \<rightharpoonup> 'd basic_position) attempt" where
  "aget_positions_from_orders c own filters =
     (let non_terminal = filter (\<lambda>row.
            unwrap_or '''' (row_str row ''status'') \<notin> {''CANCELED'', ''REJECTED''}) own
      in create_basic_positions_from_orders_dict c
           (map (aorder_record_from_dict c) (dict_filter non_terminal filters)))"

text \<open>A broker without typed cancellation: the call is made and its outcome unknown.\<close>

definition default_cancel_outcome ::
  "('n \<Rightarrow> string) \<Rightarrow> 'n args \<Rightarrow> 'n broker_call list \<Rightarrow> 'n typed_cancel \<times> 'n broker_call list" where
  "default_cancel_outcome number_show args calls =
     (let order_id = order_id_from_args number_show args; calls = calls @ [CancelCall args] in
      (cancel_with_message CsUnknown order_id
         ''legacy AsyncBroker::order_cancel does not report cancel outcome'', calls))"

lemma acoerce_quantity_mirrors: "acoerce_quantity = coerce_quantity"
  by (intro ext) (simp only: acoerce_quantity_def coerce_quantity_def)

lemma aorder_record_mirrors: "aorder_record_from_dict = order_record_from_dict"
  by (intro ext) (simp only: aorder_record_from_dict_def order_record_from_dict_def)

lemma acancel_row_mirrors: "acancel_row = cancel_row"
  by (intro ext) (simp only: acancel_row_def cancel_row_def aterminal_statuses_def
      terminal_statuses_def astatic_keys_def static_keys_def)

lemma aclose_position_mirrors: "aclose_position = close_position"
  by (intro ext) (simp only: aclose_position_def close_position_def aclose_order_args_def
      close_order_args_def acoerce_quantity_mirrors astatic_keys_def static_keys_def)

lemma async_defaults_mirror:
  "aclose_all_positions c b own positions keys_to_copy keys_to_add transformer calls
   = close_all_positions c b own positions keys_to_copy keys_to_add transformer calls"
  "acancel_all_orders own keys_to_copy keys_to_add calls
   = cancel_all_orders own keys_to_copy keys_to_add calls"
  "aget_positions_from_orders c' own filters = get_positions_from_orders c' own filters"
  by (simp_all only: aclose_all_positions_def close_all_positions_def aclose_position_mirrors
      acancel_all_orders_def cancel_all_orders_def acancel_row_mirrors
      aget_positions_from_orders_def get_positions_from_orders_def aorder_record_mirrors)


section \<open>The asynchronous paper broker\<close>

definition apaper_order_place :: "'n args \<Rightarrow> 'n paper \<Rightarrow> string option \<times> 'n paper" where
  "apaper_order_place args p =
     (let p = p\<lparr>place_calls := place_calls p @ [args]\<rparr>
      in (Some (''PAPER-'' @ show_nat (length (place_calls p))), p))"

definition apaper_order_modify :: "'n args \<Rightarrow> 'n paper \<Rightarrow> 'n paper" where
  "apaper_order_modify args p = p\<lparr>modify_calls := modify_calls p @ [args]\<rparr>"

definition apaper_order_cancel :: "'n args \<Rightarrow> 'n paper \<Rightarrow> 'n paper" where
  "apaper_order_cancel args p = p\<lparr>cancel_calls := cancel_calls p @ [args]\<rparr>"

definition apaper_cancel_outcome ::
  "('n \<Rightarrow> string) \<Rightarrow> 'n args \<Rightarrow> 'n paper \<Rightarrow> 'n typed_cancel \<times> 'n paper" where
  "apaper_cancel_outcome number_show args p =
     (let order_id = order_id_from_args number_show args; p = apaper_order_cancel args p in
      (case order_id of
         Some x \<Rightarrow> cancel_outcome_new CsAccepted (Some x)
       | None \<Rightarrow> cancel_with_message CsRejected None ''order_id field required'', p))"


section \<open>Typed cancellation of the asynchronous replica\<close>

text \<open>
  Its three phases: resolve the handle under the broker's lock, decide and write the order
  under the order's, enter the handle under the broker's.
\<close>

definition outcome_resolve ::
  "('n \<Rightarrow> string) \<Rightarrow> 'n args \<Rightarrow> ('f, 'r) replica \<Rightarrow> 'n typed_cancel + nat" where
  "outcome_resolve number_show args r =
     (case arg_str args ''order_id'' of
        None \<Rightarrow> Inl (cancel_with_message CsRejected (order_id_from_args number_show args)
                  ''order_id field required'')
      | Some order_id \<Rightarrow> (case r_orders r order_id of
          None \<Rightarrow> Inl (cancel_outcome_new CsNotFound (Some order_id))
        | Some h \<Rightarrow> Inr h))"

definition outcome_mutate ::
  "nat \<Rightarrow> ('f::linordered_field, 'r) replica
     \<Rightarrow> ('n typed_cancel + string) \<times> ('f, 'r) replica" where
  "outcome_mutate h r =
     (let v = r_cells r ! h in
      if vorder_done v
      then (Inl (cancel_outcome_new CsAlreadyTerminal (Some (v_order_id v))), r)
      else (Inr (v_order_id v), r\<lparr>r_cells := (r_cells r)[h := cancel_cell v]\<rparr>))"

definition outcome_push ::
  "nat \<Rightarrow> string \<Rightarrow> ('f, 'r) replica \<Rightarrow> 'n typed_cancel \<times> ('f, 'r) replica" where
  "outcome_push h canceled_order_id r =
     (cancel_outcome_new CsCanceled (Some canceled_order_id),
      r\<lparr>r_completed := push_completed_unique h (r_completed r)\<rparr>)"

text \<open>The phases without another operation between them.\<close>

definition replica_cancel_outcome ::
  "('n \<Rightarrow> string) \<Rightarrow> 'n args \<Rightarrow> ('f::linordered_field, 'r) replica
     \<Rightarrow> 'n typed_cancel \<times> ('f, 'r) replica" where
  "replica_cancel_outcome number_show args r =
     (case outcome_resolve number_show args r of
        Inl answer \<Rightarrow> (answer, r)
      | Inr h \<Rightarrow> (case outcome_mutate h r of
          (Inl answer, r) \<Rightarrow> (answer, r)
        | (Inr x, r) \<Rightarrow> outcome_push h x r))"

definition areplica_order_place ::
  "('n, 'f::linordered_field, 'd) codec \<Rightarrow> ('r, 'f) rng_api \<Rightarrow> instant \<Rightarrow> string \<Rightarrow> 'n args
     \<Rightarrow> ('f, 'r) replica \<Rightarrow> (string option \<times> ('f, 'r) replica) attempt" where
  "areplica_order_place c g now order_id args r =
     and_then (async_place c g now order_id args r)
       (\<lambda>(h, r). Returned (Some (v_order_id (r_cells r ! h)), r))"

text \<open>
  Phase by phase a typed cancellation does to the broker what the tasks of a plain one do, so
  what holds of all interleavings of those holds with typed cancellations among them.
\<close>

lemma outcome_resolve_starts:
  "async_cancel_start args r =
     (case outcome_resolve number_show args r of Inl _ \<Rightarrow> [] | Inr h \<Rightarrow> [CancelMutate h])"
  by (simp add: async_cancel_start_def outcome_resolve_def split: option.split)

lemma outcome_mutate_task:
  "task_step c (CancelMutate h) r =
     (snd (outcome_mutate h r), case fst (outcome_mutate h r) of Inl _ \<Rightarrow> [] | Inr _ \<Rightarrow> [CancelPush h])"
  by (simp add: outcome_mutate_def Let_def)

lemma outcome_push_task:
  "task_step c (CancelPush h) r = (snd (outcome_push h x r), [])"
  by (simp add: outcome_push_def)

text \<open>What each answer says of the broker.\<close>

lemma cancel_outcome_true:
  assumes "replica_cancel_outcome number_show args r = (answer, r')"
  shows "tc_status answer \<in> {CsRejected, CsNotFound, CsAlreadyTerminal} \<and> r' = r
    \<or> tc_status answer = CsCanceled
      \<and> (\<exists>oid h. arg_str args ''order_id'' = Some oid \<and> r_orders r oid = Some h
           \<and> \<not> vorder_done (r_cells r ! h)
           \<and> r_cells r' = (r_cells r)[h := cancel_cell (r_cells r ! h)]
           \<and> set (r_completed r') = insert h (set (r_completed r)))"
  using assms
  by (auto simp: replica_cancel_outcome_def outcome_resolve_def outcome_mutate_def
      outcome_push_def cancel_outcome_new_def cancel_with_message_def Let_def
      split: option.splits if_splits)

end
