(* ===== verification/Sim_Book.thy ===== *)
theory Sim_Book
  imports Sim_Virtual "HOL-Library.AList"
begin

text \<open>
  \<open>generate_orderbook\<close> of \<open>simulation.rs\<close> and \<open>ltp_many\<close> of the virtual broker. The bounds of a drawn
  quantity come from the quantity asked for; drawing from an empty range panics, as does a price
  the decimal type does not take.
\<close>

section \<open>A random order book\<close>

definition book_bounds :: "'f::{linordered_field, floor_ceiling} itself \<Rightarrow> i64 \<Rightarrow> i64 \<times> i64" where
  "book_bounds _ quantity =
     (f64_trunc ((of_int quantity :: 'f) * (1 / 2)), f64_trunc ((of_int quantity :: 'f) * (3 / 2)))"

definition draw_range ::
  "('r, 'f) rng_api \<Rightarrow> 'r \<Rightarrow> i64 \<Rightarrow> i64 \<Rightarrow> (i64 \<times> 'r) attempt" where
  "draw_range g r lo hi = (if lo < hi then Returned (gen_range g r lo hi) else Panicked)"

definition book_price :: "('n, 'f, 'd) codec \<Rightarrow> 'f \<Rightarrow> 'd attempt" where
  "book_price c p = (case decimal_of_f64 c p of None \<Rightarrow> Panicked | Some d \<Rightarrow> Returned d)"

text \<open>Level \<open>i\<close>: four draws, then the two prices.\<close>

definition book_level ::
  "('n, 'f, 'd) codec \<Rightarrow> ('r, 'f) rng_api \<Rightarrow> 'f::linordered_field \<Rightarrow> 'f \<Rightarrow> 'f \<Rightarrow> i64 \<times> i64 \<Rightarrow> nat
     \<Rightarrow> 'r \<Rightarrow> ('d quote \<times> 'd quote \<times> 'r) attempt" where
  "book_level c g bid ask tick qs i r =
     and_then (draw_range g r (fst qs) (snd qs)) (\<lambda>(bid_qty, r).
     and_then (draw_range g r (fst qs) (snd qs)) (\<lambda>(ask_qty, r).
     and_then (draw_range g r 5 15) (\<lambda>(bid_count, r).
     and_then (draw_range g r 5 15) (\<lambda>(ask_count, r).
     and_then (book_price c (bid - of_nat i * tick)) (\<lambda>bid_price.
     and_then (book_price c (ask + of_nat i * tick)) (\<lambda>ask_price.
       Returned
         (\<lparr>quote_price = bid_price, quote_quantity = bid_qty,
            orders_count = Some (min bid_count bid_qty)\<rparr>,
          \<lparr>quote_price = ask_price, quote_quantity = ask_qty,
            orders_count = Some (min ask_count ask_qty)\<rparr>, r)))))))"

primrec book_levels ::
  "('n, 'f, 'd) codec \<Rightarrow> ('r, 'f) rng_api \<Rightarrow> 'f::linordered_field \<Rightarrow> 'f \<Rightarrow> 'f \<Rightarrow> i64 \<times> i64
     \<Rightarrow> nat list \<Rightarrow> 'r \<Rightarrow> 'd order_book \<Rightarrow> 'd order_book attempt" where
  "book_levels c g bid ask tick qs [] r b = Returned b"
| "book_levels c g bid ask tick qs (i # is) r b =
     and_then (book_level c g bid ask tick qs i r) (\<lambda>(x, y, r).
       book_levels c g bid ask tick qs is r
         \<lparr>book_bid = book_bid b @ [x], book_ask = book_ask b @ [y]\<rparr>)"

definition generate_orderbook ::
  "('n, 'f, 'd) codec \<Rightarrow> ('r, 'f) rng_api \<Rightarrow> 'f::{linordered_field, floor_ceiling} \<Rightarrow> 'f \<Rightarrow> nat
     \<Rightarrow> 'f \<Rightarrow> i64 \<Rightarrow> nat \<Rightarrow> 'd order_book attempt" where
  "generate_orderbook c g bid ask depth tick quantity seed =
     (let (bid, ask) = (if bid > ask then (ask, bid) else (bid, ask)) in
      book_levels c g bid ask tick (book_bounds TYPE('f) quantity) [0..<depth]
        (seed_from g seed) \<lparr>book_bid = [], book_ask = []\<rparr>)"

definition level_quote :: "i64 \<times> i64 \<Rightarrow> 'd quote \<Rightarrow> bool" where
  "level_quote qs q \<longleftrightarrow> fst qs \<le> quote_quantity q \<and> quote_quantity q < snd qs
     \<and> (\<exists>n. orders_count q = Some n \<and> n \<le> quote_quantity q \<and> n < 15
          \<and> (n = quote_quantity q \<or> 5 \<le> n))"

lemma draw_range_bounds:
  "draws_in_range g \<Longrightarrow> draw_range g r lo hi = Returned (n, r') \<Longrightarrow> lo \<le> n \<and> n < hi"
  unfolding draws_in_range_def draw_range_def by (metis attempt.distinct(1) attempt.inject fst_conv)

lemma book_level_sound:
  assumes "draws_in_range g" and "book_level c g bid ask tick qs i r = Returned (x, y, r')"
  shows "level_quote qs x \<and> level_quote qs y
    \<and> decimal_of_f64 c (bid - of_nat i * tick) = Some (quote_price x)
    \<and> decimal_of_f64 c (ask + of_nat i * tick) = Some (quote_price y)"
  using assms(2)
  by (auto simp: book_level_def level_quote_def book_price_def min_def
      dest!: draw_range_bounds [OF assms(1)] split: option.splits)

lemma book_levels_sound:
  assumes "draws_in_range g" and "book_levels c g bid ask tick qs is r b = Returned b'"
  shows "\<exists>xs ys. book_bid b' = book_bid b @ xs \<and> book_ask b' = book_ask b @ ys
    \<and> (\<forall>q \<in> set xs \<union> set ys. level_quote qs q)
    \<and> map (\<lambda>i. decimal_of_f64 c (bid - of_nat i * tick)) is = map (Some \<circ> quote_price) xs
    \<and> map (\<lambda>i. decimal_of_f64 c (ask + of_nat i * tick)) is = map (Some \<circ> quote_price) ys"
  using assms(2)
proof (induction "is" arbitrary: r b)
  case (Cons i "is")
  then obtain x y r' where l: "book_level c g bid ask tick qs i r = Returned (x, y, r')"
    and t: "book_levels c g bid ask tick qs is r'
      \<lparr>book_bid = book_bid b @ [x], book_ask = book_ask b @ [y]\<rparr> = Returned b'"
    by auto
  from Cons.IH [OF t] book_level_sound [OF assms(1) l] show ?case
    by (force intro: exI [of _ "x # _"])
qed simp

text \<open>
  A book that is generated has \<open>depth\<close> levels on either side, at the prices one tick apart, with
  quantities within the bounds and no more orders than units.
\<close>

lemma generated_book_levels:
  fixes bid :: "'f::{linordered_field, floor_ceiling}"
  assumes "draws_in_range g"
    and "generate_orderbook c g bid ask depth tick quantity seed = Returned b"
  shows "length (book_bid b) = depth" and "length (book_ask b) = depth"
    and "\<forall>q \<in> set (book_bid b) \<union> set (book_ask b). level_quote (book_bounds TYPE('f) quantity) q"
    and "map (Some \<circ> quote_price) (book_bid b)
      = map (\<lambda>i. decimal_of_f64 c (min bid ask - of_nat i * tick)) [0..<depth]"
    and "map (Some \<circ> quote_price) (book_ask b)
      = map (\<lambda>i. decimal_of_f64 c (max bid ask + of_nat i * tick)) [0..<depth]"
proof -
  have g: "book_levels c g (min bid ask) (max bid ask) tick (book_bounds TYPE('f) quantity)
      [0..<depth] (seed_from g seed) \<lparr>book_bid = [], book_ask = []\<rparr> = Returned b"
    using assms(2) by (auto simp: generate_orderbook_def min_def max_def split: if_splits)
  note l = book_levels_sound [OF assms(1) g]
  from l show p: "map (Some \<circ> quote_price) (book_bid b)
      = map (\<lambda>i. decimal_of_f64 c (min bid ask - of_nat i * tick)) [0..<depth]"
    and q: "map (Some \<circ> quote_price) (book_ask b)
      = map (\<lambda>i. decimal_of_f64 c (max bid ask + of_nat i * tick)) [0..<depth]"
    and "\<forall>q \<in> set (book_bid b) \<union> set (book_ask b). level_quote (book_bounds TYPE('f) quantity) q"
    by auto
  from p q show "length (book_bid b) = depth" "length (book_ask b) = depth"
    by (metis length_map length_upt minus_nat.diff_0)+
qed

text \<open>A quantity that is not positive leaves no room to draw from: the call panics.\<close>

lemma book_bounds_empty:
  assumes "quantity \<le> 0"
  shows "snd (book_bounds TYPE('f::{linordered_field, floor_ceiling}) quantity)
    \<le> fst (book_bounds TYPE('f) quantity)"
proof (cases "quantity = 0")
  case False
  then have "(of_int quantity :: 'f) * (3 / 2) < 0" "(of_int quantity :: 'f) * (1 / 2) < 0"
    using assms by (simp_all add: mult_neg_pos)
  moreover have "(of_int quantity :: 'f) * (3 / 2) \<le> of_int quantity * (1 / 2)"
    using assms by (intro mult_left_mono_neg) simp_all
  ultimately show ?thesis
    by (simp add: book_bounds_def f64_trunc_def not_le [symmetric] ceiling_mono min_def max_def)
qed (simp add: book_bounds_def)

lemma empty_book_panics:
  fixes bid :: "'f::{linordered_field, floor_ceiling}"
  assumes "quantity \<le> 0" and "0 < depth"
  shows "generate_orderbook c g bid ask depth tick quantity seed = Panicked"
proof -
  from assms(2) obtain ks where "[0..<depth] = 0 # ks" by (simp add: upt_conv_Cons)
  moreover have "draw_range g r (fst (book_bounds TYPE('f) quantity))
      (snd (book_bounds TYPE('f) quantity)) = Panicked" for r
    using book_bounds_empty [OF assms(1), where 'f = 'f] by (simp add: draw_range_def)
  ultimately show ?thesis
    by (simp add: generate_orderbook_def book_level_def split: prod.split)
qed


section \<open>Prices of many symbols\<close>

definition vb_ltp_many ::
  "('r, 'f) rng_api \<Rightarrow> string list \<Rightarrow> ('f::{linordered_field, floor_ceiling}, 'r) vbroker
     \<Rightarrow> (string \<times> 'f) list \<times> ('f, 'r) vbroker" where
  "vb_ltp_many g symbols b =
     foldl (\<lambda>(out, b) s. case vb_tickers b s of None \<Rightarrow> (out, b)
         | Some t \<Rightarrow> let (p, t) = ticker_ltp g t in
             (AList.update s p out, b\<lparr>vb_tickers := (vb_tickers b)(s \<mapsto> t)\<rparr>))
       ([], b) symbols"

lemma ltp_many_snoc:
  "vb_ltp_many g (symbols @ [s]) b =
     (case vb_ltp_many g symbols b of (out, b') \<Rightarrow> (case vb_tickers b' s of None \<Rightarrow> (out, b')
       | Some t \<Rightarrow> (AList.update s (fst (ticker_ltp g t)) out,
           b'\<lparr>vb_tickers := (vb_tickers b')(s \<mapsto> snd (ticker_ltp g t))\<rparr>)))"
  by (simp add: vb_ltp_many_def split: prod.split option.split)

lemma ltp_many_answers:
  "fst ` set (fst (vb_ltp_many g symbols b)) = set symbols \<inter> dom (vb_tickers b)
   \<and> dom (vb_tickers (snd (vb_ltp_many g symbols b))) = dom (vb_tickers b)"
proof (induction symbols rule: rev_induct)
  case (snoc s symbols)
  obtain out b' where m: "vb_ltp_many g symbols b = (out, b')" by fastforce
  with snoc have s: "fst ` set out = set symbols \<inter> dom (vb_tickers b)"
    "dom (vb_tickers b') = dom (vb_tickers b)" by simp_all
  show ?case
  proof (cases "vb_tickers b' s")
    case None
    with s(2) have "s \<notin> dom (vb_tickers b)" by (metis domIff)
    with None m s show ?thesis by (simp add: ltp_many_snoc)
  next
    case (Some t)
    with s(2) have "s \<in> dom (vb_tickers b)" by (metis domI)
    with Some m s show ?thesis by (simp add: ltp_many_snoc dom_update insert_absorb
          del: fun_upd_apply)
  qed
qed (simp add: vb_ltp_many_def)

end
