(* ===== verification/Parity_Gate.thy ===== *)
theory Parity_Gate
  imports Parity_Order
begin

text \<open>
  \<open>parity_gate.rs\<close>, the arithmetic by which the parity gate accepts a run of the trials, and the
  test clock of \<open>clock.rs\<close>: what every handle reads is part of the environment, so setting and
  advancing a \<open>MockClock\<close> changes the environment of the operations that follow.
\<close>

section \<open>Excused trials\<close>

definition excused_cap :: nat where
  "excused_cap = 7"

record excused_row =
  excused_id :: string
  rationale :: string
  approved_at :: string
  approved_by :: string

datatype gate_exit =
    GatePass
  | RegressionOrShort
  | DuplicateExcused
  | UnknownExcusedId
  | R0GateViolation
  | ExcusedOverCap
  | TomlInvalid

fun gate_code :: "gate_exit \<Rightarrow> nat" where
  "gate_code GatePass = 0"
| "gate_code RegressionOrShort = 1"
| "gate_code DuplicateExcused = 2"
| "gate_code UnknownExcusedId = 3"
| "gate_code R0GateViolation = 4"
| "gate_code ExcusedOverCap = 5"
| "gate_code TomlInvalid = 6"

primrec excused_ids ::
  "string set \<Rightarrow> excused_row list \<Rightarrow> string set \<Rightarrow> gate_exit + string set" where
  "excused_ids manifest_ids [] seen = Inr seen"
| "excused_ids manifest_ids (row # rows) seen =
     (if excused_id row \<in> seen then Inl DuplicateExcused
      else if excused_id row \<notin> manifest_ids then Inl UnknownExcusedId
      else excused_ids manifest_ids rows (insert (excused_id row) seen))"

definition validate_excused ::
  "excused_row list \<Rightarrow> string set \<Rightarrow> bool \<Rightarrow> gate_exit + string set" where
  "validate_excused excused manifest_ids r0_gate_enabled =
     (case excused_ids manifest_ids excused {} of Inl x \<Rightarrow> Inl x
      | Inr seen \<Rightarrow>
          if r0_gate_enabled \<and> seen \<noteq> {} then Inl R0GateViolation
          else if card seen > excused_cap then Inl ExcusedOverCap
          else Inr seen)"

definition gate_arithmetic ::
  "nat \<Rightarrow> string set \<Rightarrow> string set \<Rightarrow> string set \<Rightarrow> gate_exit" where
  "gate_arithmetic manifest_len passing failing excused =
     (let required = manifest_len - excused_cap in
      if (\<forall>i \<in> failing. i \<in> excused) \<and> card passing \<ge> required \<and> card excused \<le> excused_cap
      then GatePass else RegressionOrShort)"

lemma excused_ids_ok:
  "excused_ids m rows seen = Inr s \<longleftrightarrow>
     distinct (map excused_id rows) \<and> set (map excused_id rows) \<inter> seen = {}
     \<and> set (map excused_id rows) \<subseteq> m \<and> s = seen \<union> set (map excused_id rows)"
  by (induction rows arbitrary: seen) auto

text \<open>Exactly the lists without repetition, of manifest trials, within the cap, are accepted.\<close>

lemma validate_excused_ok:
  "validate_excused rows m r0 = Inr s \<longleftrightarrow>
     distinct (map excused_id rows) \<and> set (map excused_id rows) \<subseteq> m
     \<and> s = set (map excused_id rows) \<and> (r0 \<longrightarrow> rows = []) \<and> length rows \<le> excused_cap"
proof (cases "excused_ids m rows {}")
  case (Inl x)
  with excused_ids_ok [of m rows "{}" "set (map excused_id rows)"] show ?thesis
    by (auto simp: validate_excused_def)
next
  case (Inr s')
  then have "distinct (map excused_id rows)" "set (map excused_id rows) \<subseteq> m"
    and s': "s' = set (map excused_id rows)" by (simp_all add: excused_ids_ok)
  moreover from this have "card s' = length rows" by (metis distinct_card length_map)
  ultimately show ?thesis using Inr by (auto simp: validate_excused_def)
qed

text \<open>A passing gate bounds the failing trials and what is missing from the passing ones.\<close>

lemma gate_pass_bounds:
  assumes "gate_arithmetic n passing failing excused = GatePass" and "finite excused"
  shows "failing \<subseteq> excused \<and> card failing \<le> excused_cap \<and> n \<le> card passing + excused_cap"
proof -
  from assms(1) have "failing \<subseteq> excused" "card excused \<le> excused_cap"
    "n - excused_cap \<le> card passing"
    by (auto simp: gate_arithmetic_def Let_def split: if_splits)
  moreover from this(1) assms(2) have "card failing \<le> card excused" by (simp add: card_mono)
  ultimately show ?thesis by simp
qed

text \<open>
  The rules trip row by row: an unknown trial in front of a repeated one is reported first.
\<close>

lemma unknown_before_duplicate:
  assumes "excused_id u \<notin> m"
  shows "validate_excused [u, a, a] m r0 = Inl UnknownExcusedId"
  using assms by (simp add: validate_excused_def)


section \<open>The test clock\<close>

definition mock_clock_new :: "clock_ref \<Rightarrow> instant \<Rightarrow> 'n env \<Rightarrow> 'n env" where
  "mock_clock_new h t e = e\<lparr>clock_now := (clock_now e)(h := t)\<rparr>"

definition mock_clock_set :: "clock_ref \<Rightarrow> instant \<Rightarrow> 'n env \<Rightarrow> 'n env" where
  "mock_clock_set h t e = e\<lparr>clock_now := (clock_now e)(h := t)\<rparr>"

definition mock_clock_advance :: "clock_ref \<Rightarrow> int \<Rightarrow> 'n env \<Rightarrow> 'n env" where
  "mock_clock_advance h d e = e\<lparr>clock_now := (clock_now e)(h := clock_now e h + d)\<rparr>"

text \<open>
  An order expires when its clock is advanced by the seconds it was given, and not before;
  other orders keep their time.
\<close>

lemma advance_expires:
  assumes "o_timestamp od = Some (clock_now e (o_clock od))" and "is_i64 (o_expires_in od - k)"
    and "0 \<le> k"
  shows "has_expired (mock_clock_advance (o_clock od) (k * ns_per_sec) e) od
    \<longleftrightarrow> o_expires_in od \<le> k"
  using assms
  by (auto simp: has_expired_def time_to_expiry_def mock_clock_advance_def num_seconds_def
      i64_sub_def ns_per_sec_def)

lemma advance_elsewhere:
  "o_clock od \<noteq> h \<Longrightarrow> has_expired (mock_clock_advance h d e) od = has_expired e od"
  by (simp add: has_expired_def time_to_expiry_def mock_clock_advance_def split: option.split)

end
