(* ===== verification/Sim_Async_Locks.thy ===== *)
theory Sim_Async_Locks
  imports Sim_Async_Replica
begin

text \<open>
  The locks of \<open>async_replica_broker.rs\<close>: one \<open>Mutex\<close> of the broker and one of each order, neither
  reentrant. An operation is a program of acquisitions, releases and phases; a phase runs under
  the locks its program holds and yields the rest of the program. The phases of modifications,
  cancellations and fills are the tasks of \<open>Sim_Async_Replica\<close>; a placement, one step there, is cut
  at its lock operations here, since it takes the lock of its order while it holds the broker's.

  A caller gets a handle from a listing of the broker, takes the lock of its order, writes the order
  and may call the broker for another listing before it lets go.
\<close>

section \<open>Programs\<close>

datatype lock = Broker | Handle nat

datatype ('n, 'f, 'r) phase =
    PlaceEnter string string "('f, 'r) vorder"
  | PlaceSymbol nat
  | PlaceRoute nat string
  | PlaceReject nat
  | PlacePush nat
  | PlaceMarket nat 'f
  | PlaceFill nat 'f
  | ModifyStart "'n args" "'n kwargs"
  | CancelStart "'n args"
  | FillStart
  | Work "('n, 'f) task"
  | UpdateInstruments "'f instrument list"
  | CallerLookup string "('f, 'r) vorder" bool
  | CallerWrite nat "('f, 'r) vorder" bool
  | CallerListing nat

datatype ('n, 'f, 'r) program =
    Finished
  | Acquire lock "('n, 'f, 'r) program"
  | Release lock "('n, 'f, 'r) program"
  | Run "('n, 'f, 'r) phase"

text \<open>The lock a task works under, and the program of the task that comes next.\<close>

fun task_lock :: "('n, 'f) task \<Rightarrow> lock" where
  "task_lock (ModifyMutate h _) = Handle h"
| "task_lock (CancelMutate h) = Handle h"
| "task_lock (CancelPush h) = Broker"
| "task_lock (FillPrices _) = Broker"
| "task_lock (FillSymbol [] _ _ _) = Broker"
| "task_lock (FillSymbol ((i, h) # _) _ _ _) = Handle h"
| "task_lock (FillApply i h _ _ _ _ _) = Handle h"
| "task_lock (FillCheck i h _ _ _ _ _) = Handle h"

definition next_program :: "('n, 'f) task list \<Rightarrow> ('n, 'f, 'r) program" where
  "next_program ts =
     (case ts of [] \<Rightarrow> Finished | t # _ \<Rightarrow> Acquire (task_lock t) (Run (Work t)))"

text \<open>A phase: the state after it and the rest of the program.\<close>

fun phase_step ::
  "('n, 'f::linordered_field, 'd) codec \<Rightarrow> ('n, 'f, 'r) phase \<Rightarrow> ('f, 'r) replica
     \<Rightarrow> ('f, 'r) replica \<times> ('n, 'f, 'r) program" where
  "phase_step c (PlaceEnter user order_id v) r =
     (let h = length (r_cells r)
      in (enter_order user order_id v r, Acquire (Handle h) (Run (PlaceSymbol h))))"
| "phase_step c (PlaceSymbol h) r =
     (r, Release (Handle h) (Run (PlaceRoute h (v_symbol (r_cells r ! h)))))"
| "phase_step c (PlaceRoute h symb) r =
     (r, Acquire (Handle h)
           (case r_instruments r symb of
              None \<Rightarrow> Run (PlaceReject h)
            | Some inst \<Rightarrow> Run (PlaceMarket h (i_last_price inst))))"
| "phase_step c (PlaceReject h) r =
     (r\<lparr>r_cells := (r_cells r)[h := reject_symbol (r_cells r ! h)]\<rparr>,
      Release (Handle h) (Run (PlacePush h)))"
| "phase_step c (PlacePush h) r =
     (r\<lparr>r_completed := push_completed_unique h (r_completed r)\<rparr>, Release Broker Finished)"
| "phase_step c (PlaceMarket h p) r =
     (r\<lparr>r_cells := (r_cells r)[h := apply_as_market p (r_cells r ! h)]\<rparr>,
      Release (Handle h) (Run (PlaceFill h p)))"
| "phase_step c (PlaceFill h p) r =
     (r\<lparr>r_pending := r_pending r @ [h], r_fills := r_fills r @ [(h, p)]\<rparr>,
      Release Broker Finished)"
| "phase_step c (ModifyStart args kwargs) r =
     (r, Release Broker (next_program (async_modify_start args kwargs r)))"
| "phase_step c (CancelStart args) r =
     (r, Release Broker (next_program (async_cancel_start args r)))"
| "phase_step c FillStart r = (r, Release Broker (next_program (async_fill_start r)))"
| "phase_step c (Work t) r =
     (let (r', new) = task_step c t r in (r', Release (task_lock t) (next_program new)))"
| "phase_step c (UpdateInstruments insts) r = (replica_update insts r, Release Broker Finished)"
| "phase_step c (CallerLookup order_id v nested) r =
     (r, Release Broker (case r_orders r order_id of
            None \<Rightarrow> Finished
          | Some h \<Rightarrow> Acquire (Handle h) (Run (CallerWrite h v nested))))"
| "phase_step c (CallerWrite h v nested) r =
     (r\<lparr>r_cells := (r_cells r)[h := v]\<rparr>,
      if nested then Acquire Broker (Run (CallerListing h)) else Release (Handle h) Finished)"
| "phase_step c (CallerListing h) r = (r, Release Broker (Release (Handle h) Finished))"


section \<open>Threads\<close>

text \<open>A thread holds locks and has a program left. An acquisition waits until nobody holds the lock.\<close>

type_synonym ('n, 'f, 'r) thread = "lock list \<times> ('n, 'f, 'r) program"
type_synonym ('n, 'f, 'r) locked_state = "('f, 'r) replica \<times> ('n, 'f, 'r) thread list"

definition lock_free :: "('n, 'f, 'r) thread list \<Rightarrow> lock \<Rightarrow> bool" where
  "lock_free ts l = list_all (\<lambda>t. l \<notin> set (fst t)) ts"

fun thread_step ::
  "('n, 'f::linordered_field, 'd) codec \<Rightarrow> (lock \<Rightarrow> bool) \<Rightarrow> ('n, 'f, 'r) thread \<Rightarrow> ('f, 'r) replica
     \<Rightarrow> (('f, 'r) replica \<times> ('n, 'f, 'r) thread) option" where
  "thread_step c free (held, Finished) r = None"
| "thread_step c free (held, Acquire l p) r = (if free l then Some (r, l # held, p) else None)"
| "thread_step c free (held, Release l p) r = Some (r, remove1 l held, p)"
| "thread_step c free (held, Run s) r = (let (r', p) = phase_step c s r in Some (r', held, p))"

inductive run_step ::
  "('n, 'f::linordered_field, 'd) codec \<Rightarrow> ('n, 'f, 'r) locked_state \<Rightarrow> ('n, 'f, 'r) locked_state
     \<Rightarrow> bool" for c where
  "i < length ts \<Longrightarrow> thread_step c (lock_free ts) (ts ! i) r = Some (r', t) \<Longrightarrow>
     run_step c (r, ts) (r', ts[i := t])"

text \<open>What an operation does before its first lock decides the program it starts with.\<close>

definition under_broker :: "('n, 'f, 'r) phase \<Rightarrow> ('n, 'f, 'r) program" where
  "under_broker s = Acquire Broker (Run s)"

definition place_program ::
  "('n, 'f::linordered_field, 'd) codec \<Rightarrow> ('r, 'f) rng_api \<Rightarrow> instant \<Rightarrow> string \<Rightarrow> 'n args
     \<Rightarrow> ('n, 'f, 'r) program attempt" where
  "place_program c g now order_id args =
     (let user = or_default ''default'' (arg_str args ''user'');
          args = args(''user'' := None) in
      case vorder_from_init g now (replica_init c order_id args) of
        Inl _ \<Rightarrow> Panicked
      | Inr v \<Rightarrow> Returned (under_broker (PlaceEnter user order_id v)))"

definition modify_program :: "'n args \<Rightarrow> 'n kwargs \<Rightarrow> ('n, 'f, 'r) program" where
  "modify_program args kwargs =
     (if arg_str args ''order_id'' = None then Finished else under_broker (ModifyStart args kwargs))"

definition cancel_program :: "'n args \<Rightarrow> ('n, 'f, 'r) program" where
  "cancel_program args =
     (if arg_str args ''order_id'' = None then Finished else under_broker (CancelStart args))"

inductive locked_step ::
  "('n, 'f::linordered_field, 'd) codec \<Rightarrow> ('r, 'f) rng_api \<Rightarrow> ('n, 'f, 'r) locked_state
     \<Rightarrow> ('n, 'f, 'r) locked_state \<Rightarrow> bool" for c g where
  place: "place_program c g now order_id args = Returned p \<Longrightarrow>
     locked_step c g (r, ts) (r, ts @ [([], p)])"
| modify: "locked_step c g (r, ts) (r, ts @ [([], modify_program args kwargs)])"
| cancel: "locked_step c g (r, ts) (r, ts @ [([], cancel_program args)])"
| fill: "locked_step c g (r, ts) (r, ts @ [([], under_broker FillStart)])"
| update: "locked_step c g (r, ts) (r, ts @ [([], under_broker (UpdateInstruments insts))])"
| caller: "locked_step c g (r, ts) (r, ts @ [([], under_broker (CallerLookup order_id v nested))])"
| run: "run_step c s s' \<Longrightarrow> locked_step c g s s'"

inductive locked_reachable ::
  "('n, 'f::linordered_field, 'd) codec \<Rightarrow> ('r, 'f) rng_api \<Rightarrow> ('n, 'f, 'r) locked_state \<Rightarrow> bool"
  for c g where
  start: "locked_reachable c g (replica_new, [])"
| step: "locked_reachable c g s \<Longrightarrow> locked_step c g s s' \<Longrightarrow> locked_reachable c g s'"

text \<open>A placement that is not interrupted does what \<open>async_place\<close> does in one step.\<close>

primrec run_alone ::
  "('n, 'f::linordered_field, 'd) codec \<Rightarrow> nat \<Rightarrow> ('f, 'r) replica \<times> ('n, 'f, 'r) thread
     \<Rightarrow> ('f, 'r) replica \<times> ('n, 'f, 'r) thread" where
  "run_alone c 0 s = s"
| "run_alone c (Suc n) s =
     (case thread_step c (lock_free [snd s]) (snd s) (fst s) of None \<Rightarrow> s | Some s' \<Rightarrow> run_alone c n s')"

lemma place_alone:
  assumes "async_place c g now order_id args r = Returned (h, r')"
  shows "\<exists>p. place_program c g now order_id args = Returned p
    \<and> run_alone c 11 (r, [], p) = (r', [], Finished)"
  using assms
  by (auto simp: async_place_def place_program_def under_broker_def enter_order_def lock_free_def
        Let_def numeral_eq_Suc nth_append list_update_append
      split: sum.splits option.splits)


section \<open>The lock discipline\<close>

text \<open>The order a placement has just entered: nobody else has its handle yet.\<close>

fun entered :: "('n, 'f, 'r) program \<Rightarrow> nat option" where
  "entered (Run (PlaceSymbol h)) = Some h"
| "entered (Run (PlaceRoute h _)) = Some h"
| "entered (Run (PlaceReject h)) = Some h"
| "entered (Run (PlaceMarket h _)) = Some h"
| "entered (Acquire _ p) = entered p"
| "entered (Release _ p) = entered p"
| "entered _ = None"

text \<open>The locks a phase runs under.\<close>

fun phase_locks :: "('n, 'f, 'r) phase \<Rightarrow> lock list" where
  "phase_locks (PlaceSymbol h) = [Handle h, Broker]"
| "phase_locks (PlaceReject h) = [Handle h, Broker]"
| "phase_locks (PlaceMarket h _) = [Handle h, Broker]"
| "phase_locks (Work t) = [task_lock t]"
| "phase_locks (CallerWrite h _ _) = [Handle h]"
| "phase_locks (CallerListing h) = [Broker, Handle h]"
| "phase_locks _ = [Broker]"

text \<open>
  Who may wait for what: a thread without a lock for any, a caller behind its handle for the
  broker, and only a placement that holds the broker's lock for an order's, that of the order it
  has just entered.
\<close>

fun may_wait :: "lock list \<Rightarrow> lock \<Rightarrow> nat option \<Rightarrow> bool" where
  "may_wait held Broker e = (e = None \<and> (held = [] \<or> (\<exists>h. held = [Handle h])))"
| "may_wait held (Handle h) e = (held = [] \<or> held = [Broker] \<and> e = Some h)"

fun disciplined :: "lock list \<Rightarrow> ('n, 'f, 'r) program \<Rightarrow> bool" where
  "disciplined held Finished = (held = [])"
| "disciplined held (Acquire l p) = (may_wait held l (entered p) \<and> disciplined (l # held) p)"
| "disciplined held (Release l p) = (l \<in> set held \<and> disciplined (remove1 l held) p)"
| "disciplined held (Run s) = (held = phase_locks s)"

lemma entered_next [simp]: "entered (next_program ts) = None"
  by (simp add: next_program_def split: list.split)

lemma disciplined_next [simp]: "disciplined [] (next_program ts)"
proof -
  have "may_wait [] l None" for l by (cases l) simp_all
  then show ?thesis by (simp add: next_program_def split: list.split)
qed

lemma phase_disciplined: "disciplined (phase_locks s) (snd (phase_step c s r))"
  by (cases s) (auto simp: Let_def split: option.split prod.split)

lemma entered_holds: "disciplined held p \<Longrightarrow> entered p \<noteq> None \<Longrightarrow> Broker \<in> set held"
proof (induction held p rule: disciplined.induct)
  case (2 held l p)
  then show ?case by (cases l) auto
next
  case (3 held l p)
  then have "Broker \<in> set (remove1 l held)" by simp
  then show ?case using set_remove1_subset [of l held] by blast
next
  case (4 held s)
  then show ?case by (cases s) auto
qed simp

section \<open>The handles a thread knows\<close>

fun lock_handles :: "lock \<Rightarrow> nat set" where
  "lock_handles Broker = {}"
| "lock_handles (Handle h) = {h}"

fun phase_handles :: "('n, 'f, 'r) phase \<Rightarrow> nat set" where
  "phase_handles (PlaceSymbol h) = {h}"
| "phase_handles (PlaceRoute h _) = {h}"
| "phase_handles (PlaceReject h) = {h}"
| "phase_handles (PlacePush h) = {h}"
| "phase_handles (PlaceMarket h _) = {h}"
| "phase_handles (PlaceFill h _) = {h}"
| "phase_handles (Work t) = set (task_handles t)"
| "phase_handles (CallerWrite h _ _) = {h}"
| "phase_handles (CallerListing h) = {h}"
| "phase_handles _ = {}"

fun program_handles :: "('n, 'f, 'r) program \<Rightarrow> nat set" where
  "program_handles Finished = {}"
| "program_handles (Acquire l p) = lock_handles l \<union> program_handles p"
| "program_handles (Release l p) = lock_handles l \<union> program_handles p"
| "program_handles (Run s) = phase_handles s"

definition known :: "('n, 'f, 'r) thread \<Rightarrow> nat set" where
  "known t = {h. Handle h \<in> set (fst t)} \<union> program_handles (snd t)"

lemma task_lock_handles: "lock_handles (task_lock t) \<subseteq> set (task_handles t)"
  by (cases t rule: task_lock.cases) auto

lemma next_handles: "program_handles (next_program ts) \<subseteq> (\<Union>t \<in> set ts. set (task_handles t))"
  using task_lock_handles by (auto simp: next_program_def split: list.split)

lemma task_step_handles:
  "task_step c t r = (r', new) \<Longrightarrow> u \<in> set new \<Longrightarrow> set (task_handles u) \<subseteq> set (task_handles t)"
  by (cases "(c, t, r)" rule: task_step.cases)
     (auto simp: Let_def split: if_splits option.splits)

text \<open>The handles the broker gives out.\<close>

definition listed :: "('f, 'r) replica \<Rightarrow> nat set" where
  "listed r = ran (r_orders r) \<union> fst ` set (r_fills r)"

lemma listed_fields [simp]:
  "listed (r\<lparr>r_cells := cells\<rparr>) = listed r" "listed (r\<lparr>r_completed := hs\<rparr>) = listed r"
  "listed (r\<lparr>r_pending := hs, r_fills := r_fills r @ [(h, p)]\<rparr>) = insert h (listed r)"
  by (auto simp: listed_def)

lemma started_handles:
  "program_handles (next_program (async_modify_start args kwargs r)) \<subseteq> listed r"
  "program_handles (next_program (async_cancel_start args r)) \<subseteq> listed r"
  "program_handles (next_program (async_fill_start r)) \<subseteq> listed r"
proof -
  have "set (map snd (enumerate 0 (map fst (r_fills r)))) = fst ` set (r_fills r)"
    by (simp only: map_snd_enumerate set_map)
  then show "program_handles (next_program (async_fill_start r)) \<subseteq> listed r"
    using next_handles [of "async_fill_start r"] by (auto simp: async_fill_start_def listed_def)
  show "program_handles (next_program (async_modify_start args kwargs r)) \<subseteq> listed r"
    "program_handles (next_program (async_cancel_start args r)) \<subseteq> listed r"
    by (auto simp: async_modify_start_def async_cancel_start_def next_program_def listed_def ran_def
        split: option.splits)
qed

lemma written_fill:
  assumes "(h, p) \<in> set (write_prices writes fills)" shows "h \<in> fst ` set fills"
proof -
  have "fst ` set (write_prices writes fills) = fst ` set fills"
    using arg_cong [OF write_prices_handles [of writes fills], of set] by (simp only: set_map)
  with assms show ?thesis by force
qed

lemma task_step_listed:
  assumes "task_step c t r = (r', new)"
  shows "length (r_cells r') = length (r_cells r) \<and> listed r' \<subseteq> listed r"
proof -
  show ?thesis using assms
    by (cases "(c, t, r)" rule: task_step.cases)
       (auto simp: Let_def listed_def reconcile_fills_def dest: written_fill split: if_splits option.splits)
qed

lemma phase_step_sound:
  assumes "phase_step c s r = (r', p)" and "phase_handles s \<subseteq> {..<length (r_cells r)}"
    and "listed r \<subseteq> {..<length (r_cells r)}"
  shows "length (r_cells r) \<le> length (r_cells r') \<and> listed r' \<subseteq> {..<length (r_cells r')}
    \<and> program_handles p \<subseteq> {..<length (r_cells r')}"
proof (cases s)
  case (Work t)
  obtain r1 new where t: "task_step c t r = (r1, new)" by (cases "task_step c t r")
  have "r' = r1" "p = Release (task_lock t) (next_program new)" using assms(1) Work t by auto
  moreover have "program_handles (next_program new) \<subseteq> set (task_handles t)"
    using next_handles [of new] task_step_handles [OF t] by blast
  ultimately show ?thesis
    using task_step_listed [OF t] task_lock_handles [of t] assms(2,3) Work by auto
next
  case (PlaceEnter user order_id v)
  let ?h = "length (r_cells r)"
  have "r' = enter_order user order_id v r" "p = Acquire (Handle ?h) (Run (PlaceSymbol ?h))"
    using assms(1) PlaceEnter by (auto simp: Let_def)
  moreover have "ran ((r_orders r)(order_id \<mapsto> ?h)) \<subseteq> insert ?h (ran (r_orders r))"
    by (auto simp: ran_def)
  ultimately show ?thesis using assms(3) by (fastforce simp: enter_order_def listed_def Let_def)
next
  case (ModifyStart args kwargs)
  then show ?thesis using assms(1,3) started_handles(1) [of args kwargs r] by auto
next
  case (CancelStart args)
  then show ?thesis using assms(1,3) started_handles(2) [of args r] by auto
next
  case FillStart
  then show ?thesis using assms(1,3) started_handles(3) [of r] by auto
next
  case (CallerLookup order_id v nested)
  then show ?thesis using assms(1,3) by (auto simp: listed_def ran_def split: option.splits)
next
  case (UpdateInstruments insts)
  then have "listed r' = listed r" "r_cells r' = r_cells r" "program_handles p = {}"
    using assms(1) by (auto simp: replica_update_def listed_def)
  then show ?thesis using assms(3) by simp
qed (use assms in \<open>auto split: if_splits option.splits\<close>)

lemma phase_step_handles:
  assumes "phase_step c s r = (r', p)" and "Broker \<notin> set (phase_locks s)"
  shows "program_handles p \<subseteq> phase_handles s"
proof (cases s)
  case (Work t)
  obtain r1 new where t: "task_step c t r = (r1, new)" by (cases "task_step c t r")
  have "p = Release (task_lock t) (next_program new)" using assms(1) Work t by auto
  moreover have "program_handles (next_program new) \<subseteq> set (task_handles t)"
    using next_handles [of new] task_step_handles [OF t] by blast
  ultimately show ?thesis using task_lock_handles [of t] Work by auto
qed (use assms in \<open>auto split: if_splits\<close>)

lemma phase_step_entered:
  "phase_step c s r = (r', p) \<Longrightarrow> entered p = Some h \<Longrightarrow>
     entered (Run s) = Some h \<or> h = length (r_cells r)"
  by (cases s) (auto simp: Let_def split: prod.splits option.splits if_splits)


section \<open>The invariant\<close>

text \<open>
  Threads follow the discipline and know only handles of orders there are; two threads hold
  different locks, and the order a placement has just entered is unknown to the others.
\<close>

definition apart :: "('n, 'f, 'r) thread \<Rightarrow> ('n, 'f, 'r) thread \<Rightarrow> bool" where
  "apart t u \<longleftrightarrow> set (fst t) \<inter> set (fst u) = {} \<and> (\<forall>h. entered (snd t) = Some h \<longrightarrow> h \<notin> known u)"

definition thread_ok :: "('f, 'r) replica \<Rightarrow> ('n, 'f, 'r) thread \<Rightarrow> bool" where
  "thread_ok r t \<longleftrightarrow> disciplined (fst t) (snd t) \<and> known t \<subseteq> {..<length (r_cells r)}"

definition locked_ok :: "('n, 'f, 'r) locked_state \<Rightarrow> bool" where
  "locked_ok s \<longleftrightarrow>
     listed (fst s) \<subseteq> {..<length (r_cells (fst s))} \<and> list_all (thread_ok (fst s)) (snd s)
     \<and> (\<forall>i < length (snd s). \<forall>j < length (snd s). i \<noteq> j \<longrightarrow> apart (snd s ! i) (snd s ! j))"

lemma known_acquire: "known (l # held, p) = known (held, Acquire l p)"
  by (cases l) (auto simp: known_def)

lemma known_release: "known (remove1 l held, p) \<subseteq> known (held, Release l p)"
  using set_remove1_subset [of l held] by (auto simp: known_def)

text \<open>What a step of one thread leaves of the others.\<close>

lemma thread_step_ok:
  assumes "thread_step c (lock_free ts) t r = Some (r', t')" and "thread_ok r t"
    and "listed r \<subseteq> {..<length (r_cells r)}"
  shows "thread_ok r' t' \<and> length (r_cells r) \<le> length (r_cells r')
    \<and> listed r' \<subseteq> {..<length (r_cells r')}"
proof -
  obtain held p where t: "t = (held, p)" by (cases t)
  show ?thesis
  proof (cases p)
    case (Run s)
    obtain r1 q where q: "phase_step c s r = (r1, q)" by (cases "phase_step c s r")
    have held: "held = phase_locks s" using assms(2) t Run by (simp add: thread_ok_def)
    have k: "known t \<subseteq> {..<length (r_cells r)}" using assms(2) by (simp add: thread_ok_def)
    have "disciplined held q" using phase_disciplined [of s c r] q held by simp
    moreover have "r' = r1" "t' = (held, q)" using assms(1) t Run q by auto
    ultimately show ?thesis
      using phase_step_sound [OF q _ assms(3)] k
      by (auto simp: thread_ok_def known_def t Run)
  next
    case (Acquire l q)
    then have "r' = r" "t' = (l # held, q)" using assms(1) t by (auto split: if_splits)
    then show ?thesis using assms(2,3) t Acquire by (simp add: thread_ok_def known_acquire)
  next
    case (Release l q)
    then have "r' = r" "t' = (remove1 l held, q)" using assms(1) t by auto
    then show ?thesis using assms(2,3) t Release known_release [of l held q]
      by (auto simp: thread_ok_def)
  qed (use assms(1) t in simp)
qed

lemma thread_step_apart:
  assumes "thread_step c (lock_free ts) t r = Some (r', t')" and "thread_ok r t"
    and "u \<in> set ts" and "thread_ok r u" and "apart t u" and "apart u t"
  shows "apart t' u \<and> apart u t'"
proof -
  obtain held p where t: "t = (held, p)" by (cases t)
  have d: "disciplined held p" using assms(2) t by (simp add: thread_ok_def)
  show ?thesis
  proof (cases p)
    case (Run s)
    obtain r1 q where q: "phase_step c s r = (r1, q)" by (cases "phase_step c s r")
    have t': "t' = (held, q)" and held: "held = phase_locks s" using assms(1) d t Run q by auto
    have "h \<notin> known u" if "entered q = Some h" for h
      using phase_step_entered [OF q that] assms(4,5) t Run
      by (auto simp: apart_def thread_ok_def)
    moreover have "h \<notin> known (held, q)" if h: "entered (snd u) = Some h" for h
    proof -
      have "disciplined (fst u) (snd u)" using assms(4) by (simp add: thread_ok_def)
      with h have "Broker \<in> set (fst u)" by (simp add: entered_holds)
      then have "Broker \<notin> set (phase_locks s)" using assms(6) t held by (auto simp: apart_def)
      from phase_step_handles [OF q this] have "known (held, q) \<subseteq> known t"
        by (auto simp: known_def t Run)
      then show ?thesis using assms(6) h by (auto simp: apart_def)
    qed
    ultimately show ?thesis using assms(5,6) t t' by (simp add: apart_def)
  next
    case (Acquire l q)
    then have t': "t' = (l # held, q)" and "lock_free ts l" using assms(1) t by (auto split: if_splits)
    then have "l \<notin> set (fst u)" using assms(3) by (auto simp: lock_free_def list_all_iff)
    then show ?thesis using assms(5,6) t t' Acquire by (auto simp: apart_def known_acquire)
  next
    case (Release l q)
    then have "t' = (remove1 l held, q)" using assms(1) t by auto
    then show ?thesis using assms(5,6) t Release known_release [of l held q] set_remove1_subset [of l held]
      by (auto simp: apart_def)
  qed (use assms(1) t in simp)
qed

lemma thread_ok_more: "thread_ok r t \<Longrightarrow> length (r_cells r) \<le> length (r_cells r') \<Longrightarrow> thread_ok r' t"
  by (auto simp: thread_ok_def)

lemma run_step_ok:
  assumes "run_step c s s'" and "locked_ok s" shows "locked_ok s'"
  using assms
proof cases
  case (1 i ts r r' t)
  have ok: "listed r \<subseteq> {..<length (r_cells r)}" "\<And>j. j < length ts \<Longrightarrow> thread_ok r (ts ! j)"
    and ap: "\<And>j k. j < length ts \<Longrightarrow> k < length ts \<Longrightarrow> j \<noteq> k \<Longrightarrow> apart (ts ! j) (ts ! k)"
    using assms(2) 1(1) by (auto simp: locked_ok_def list_all_length)
  from thread_step_ok [OF 1(4) ok(2) [OF 1(3)] ok(1)]
  have new: "thread_ok r' t" "length (r_cells r) \<le> length (r_cells r')"
      "listed r' \<subseteq> {..<length (r_cells r')}" by auto
  have side: "apart t (ts ! j) \<and> apart (ts ! j) t" if j: "j < length ts" "j \<noteq> i" for j
    using thread_step_apart [OF 1(4) ok(2) [OF 1(3)] nth_mem [OF j(1)] ok(2) [OF j(1)]]
      ap [OF 1(3) j(1)] ap [OF j(1) 1(3)] j(2) by simp
  have "thread_ok r' (ts[i := t] ! j)" if "j < length ts" for j
    using that new(1) thread_ok_more [OF ok(2) new(2)] by (cases "j = i") simp_all
  moreover have "apart (ts[i := t] ! j) (ts[i := t] ! k)"
    if "j < length ts" "k < length ts" "j \<noteq> k" for j k
    using that side [of j] side [of k] ap [of j k] by (cases "j = i"; cases "k = i") simp_all
  ultimately show ?thesis using new(3) 1(2) by (simp add: locked_ok_def list_all_length)
qed

definition startable :: "('n, 'f, 'r) program \<Rightarrow> bool" where
  "startable p \<longleftrightarrow> disciplined [] p \<and> entered p = None \<and> program_handles p = {}"

lemma started_startable [simp]:
  "startable (modify_program args kwargs)" "startable (cancel_program args)"
  "startable (under_broker FillStart)" "startable (under_broker (UpdateInstruments insts))"
  "startable (under_broker (CallerLookup order_id v nested))"
  by (auto simp: startable_def modify_program_def cancel_program_def under_broker_def)

lemma place_startable: "place_program c g now order_id args = Returned p \<Longrightarrow> startable p"
  by (auto simp: startable_def place_program_def under_broker_def Let_def split: sum.splits)

lemma started_ok:
  assumes "locked_ok (r, ts)" and "startable p" shows "locked_ok (r, ts @ [([], p)])"
proof -
  have "apart ([], p) t" "apart t ([], p)" for t
    using assms(2) by (auto simp: apart_def known_def startable_def)
  then show ?thesis
    using assms by (auto simp: locked_ok_def thread_ok_def known_def startable_def nth_append less_Suc_eq)
qed

lemma locked_step_ok:
  assumes "locked_step c g s s'" and "locked_ok s" shows "locked_ok s'"
  using assms(1)
proof cases
  case run
  then show ?thesis using assms(2) by (rule run_step_ok)
qed (use assms(2) in \<open>auto intro!: started_ok dest: place_startable\<close>)

lemma locked_reachable_ok: "locked_reachable c g s \<Longrightarrow> locked_ok s"
proof (induction rule: locked_reachable.induct)
  case start
  show ?case by (simp add: locked_ok_def listed_def replica_new_def)
next
  case (step s s')
  then show ?case by (blast intro: locked_step_ok)
qed


section \<open>No deadlock\<close>

definition quiet :: "('n, 'f, 'r) thread list \<Rightarrow> bool" where
  "quiet ts \<longleftrightarrow> list_all (\<lambda>t. t = ([], Finished)) ts"

definition can_step ::
  "('n, 'f::linordered_field, 'd) codec \<Rightarrow> ('n, 'f, 'r) locked_state \<Rightarrow> nat \<Rightarrow> bool" where
  "can_step c s i \<longleftrightarrow> thread_step c (lock_free (snd s)) (snd s ! i) (fst s) \<noteq> None"

lemma can_step_run:
  assumes "i < length ts" and "can_step c (r, ts) i" shows "\<exists>s'. run_step c (r, ts) s'"
proof -
  obtain r' t where "thread_step c (lock_free ts) (ts ! i) r = Some (r', t)"
    using assms(2) by (auto simp: can_step_def)
  from run_step.intros [OF assms(1) this] show ?thesis by blast
qed

text \<open>A thread that cannot move waits for a lock that is held.\<close>

lemma blocked:
  assumes "\<not> can_step c (r, ts) i" and "thread_ok r (ts ! i)" and "ts ! i \<noteq> ([], Finished)"
  obtains held l p where "ts ! i = (held, Acquire l p)" "\<not> lock_free ts l"
    "may_wait held l (entered p)"
proof -
  obtain held q where t: "ts ! i = (held, q)" by (cases "ts ! i")
  show thesis
  proof (cases q)
    case (Acquire l p)
    with t assms that show thesis by (auto simp: can_step_def thread_ok_def split: if_splits)
  qed (use t assms in \<open>auto simp: can_step_def thread_ok_def split: prod.splits\<close>)
qed

lemma holder:
  assumes "\<not> lock_free ts l" obtains j where "j < length ts" "l \<in> set (fst (ts ! j))"
  using assms by (auto simp: lock_free_def list_all_length)

lemma no_deadlock:
  assumes "locked_ok (r, ts)" and "\<not> quiet ts" shows "\<exists>s'. run_step c (r, ts) s'"
proof (rule ccontr)
  assume none: "\<nexists>s'. run_step c (r, ts) s'"
  have ok: "thread_ok r (ts ! i)" if "i < length ts" for i
    using assms(1) that by (simp add: locked_ok_def list_all_length)
  have stuck: "\<not> can_step c (r, ts) i" if "i < length ts" for i
    using none can_step_run [OF that] by blast
  have unfinished: "ts ! i \<noteq> ([], Finished)" if "l \<in> set (fst (ts ! i))" for i l
    using that by auto
  have free: "lock_free ts Broker"
  proof (rule ccontr)
    assume "\<not> lock_free ts Broker"
    then obtain j where j: "j < length ts" "Broker \<in> set (fst (ts ! j))" by (rule holder)
    from blocked [OF stuck [OF j(1)] ok [OF j(1)] unfinished [OF j(2)]] obtain held l p
      where w: "ts ! j = (held, Acquire l p)" "\<not> lock_free ts l" "may_wait held l (entered p)" .
    then obtain h where h: "l = Handle h" "entered p = Some h" using j(2) by (cases l) auto
    obtain k where k: "k < length ts" "Handle h \<in> set (fst (ts ! k))" using w(2) h(1) holder by blast
    have "k \<noteq> j" using w h j(2) k(2) by (cases "k = j") auto
    then have "apart (ts ! j) (ts ! k)" using assms(1) j(1) k(1) by (simp add: locked_ok_def)
    then show False using w(1) h k(2) by (auto simp: apart_def known_def)
  qed
  obtain i where i: "i < length ts" "ts ! i \<noteq> ([], Finished)"
    using assms(2) by (auto simp: quiet_def list_all_length)
  from blocked [OF stuck [OF i(1)] ok [OF i(1)] i(2)] obtain held l p
    where "ts ! i = (held, Acquire l p)" "\<not> lock_free ts l" "may_wait held l (entered p)" .
  with free obtain h where "\<not> lock_free ts (Handle h)" by (cases l) auto
  then obtain j where j: "j < length ts" "Handle h \<in> set (fst (ts ! j))" by (rule holder)
  from blocked [OF stuck [OF j(1)] ok [OF j(1)] unfinished [OF j(2)]] obtain held l p
    where "ts ! j = (held, Acquire l p)" "\<not> lock_free ts l" "may_wait held l (entered p)" .
  with free j(2) show False by (cases l) auto
qed


section \<open>Every schedule ends\<close>

text \<open>The fills a \<open>run_fill\<close> can still find: those there are and those of placements in flight.\<close>

fun adds_fill :: "('n, 'f, 'r) program \<Rightarrow> nat" where
  "adds_fill (Run (PlaceEnter _ _ _)) = 1"
| "adds_fill (Run (PlaceSymbol _)) = 1"
| "adds_fill (Run (PlaceRoute _ _)) = 1"
| "adds_fill (Run (PlaceMarket _ _)) = 1"
| "adds_fill (Run (PlaceFill _ _)) = 1"
| "adds_fill (Acquire _ p) = adds_fill p"
| "adds_fill (Release _ p) = adds_fill p"
| "adds_fill _ = 0"

definition fills_ahead :: "('n, 'f, 'r) locked_state \<Rightarrow> nat" where
  "fills_ahead s = length (r_fills (fst s)) + sum_list (map (\<lambda>t. adds_fill (snd t)) (snd s))"

text \<open>
  The steps a program takes at most, itself included, when a snapshot finds at most \<open>n\<close> fills: a
  task is an acquisition, a phase and a release.
\<close>

fun phase_work :: "nat \<Rightarrow> ('n, 'f, 'r) phase \<Rightarrow> nat" where
  "phase_work n (PlaceEnter _ _ _) = 10"
| "phase_work n (PlaceSymbol _) = 8"
| "phase_work n (PlaceRoute _ _) = 6"
| "phase_work n (PlaceReject _) = 4"
| "phase_work n (PlacePush _) = 2"
| "phase_work n (PlaceMarket _ _) = 4"
| "phase_work n (PlaceFill _ _) = 2"
| "phase_work n (ModifyStart _ _) = 5"
| "phase_work n (CancelStart _) = 8"
| "phase_work n FillStart = 9 * n + 8"
| "phase_work n (Work t) = 3 * work t - 1"
| "phase_work n (UpdateInstruments _) = 2"
| "phase_work n (CallerLookup _ _ _) = 8"
| "phase_work n (CallerWrite _ _ _) = 5"
| "phase_work n (CallerListing _) = 3"

fun program_work :: "nat \<Rightarrow> ('n, 'f, 'r) program \<Rightarrow> nat" where
  "program_work n Finished = 0"
| "program_work n (Acquire _ p) = Suc (program_work n p)"
| "program_work n (Release _ p) = Suc (program_work n p)"
| "program_work n (Run s) = phase_work n s"

definition locked_work :: "('n, 'f, 'r) locked_state \<Rightarrow> nat" where
  "locked_work s = sum_list (map (\<lambda>t. program_work (fills_ahead s) (snd t)) (snd s))"

lemma program_work_mono: "m \<le> n \<Longrightarrow> program_work m p \<le> program_work n p"
proof (induction p)
  case (Run s)
  then show ?case by (cases s) auto
qed auto

lemma work_pos: "0 < work t"
  by (cases t) auto

lemma next_work:
  "program_work n (next_program ts) \<le> 3 * total_work ts"
proof (cases ts)
  case (Cons t us)
  have "Suc (3 * work t - 1) = 3 * work t" using work_pos [of t] by simp
  then show ?thesis by (simp add: next_program_def total_work_def Cons)
qed (simp add: next_program_def)

lemma adds_next [simp]: "adds_fill (next_program ts) = 0"
  by (simp add: next_program_def split: list.split)

lemma filter_written: "length (filter P (write_prices writes fills)) \<le> length fills"
proof -
  have "length (write_prices writes fills) = length fills"
    using arg_cong [OF write_prices_handles [of writes fills], of length] by (simp only: length_map)
  then show ?thesis by (metis length_filter_le)
qed

lemma task_step_fills: "task_step c t r = (r', new) \<Longrightarrow> length (r_fills r') \<le> length (r_fills r)"
  by (cases "(c, t, r)" rule: task_step.cases)
     (auto simp: Let_def reconcile_fills_def filter_written split: if_splits)

lemma phase_step_fills:
  "phase_step c s r = (r', p) \<Longrightarrow>
     length (r_fills r') + adds_fill p \<le> length (r_fills r) + adds_fill (Run s)"
  by (cases s) (auto simp: Let_def enter_order_def replica_update_def task_step_fills
      split: prod.splits option.splits if_splits)

lemma phase_step_work:
  assumes "phase_step c s r = (r', p)" and "length (r_fills r) \<le> n"
  shows "program_work n p < phase_work n s"
proof (cases s)
  case (Work t)
  obtain r1 new where t: "task_step c t r = (r1, new)" by (cases "task_step c t r")
  have "p = Release (task_lock t) (next_program new)" using assms(1) Work t by auto
  then have "program_work n p \<le> Suc (3 * total_work new)" by (simp add: next_work)
  moreover have "3 * total_work new + 3 \<le> 3 * work t" using task_step_work [OF t] by simp
  ultimately show ?thesis using Work by simp
next
  case (ModifyStart args kwargs)
  have "total_work (async_modify_start args kwargs r) \<le> 1"
    by (simp add: async_modify_start_def total_work_def split: option.split)
  moreover have "p = Release Broker (next_program (async_modify_start args kwargs r))"
    using assms(1) ModifyStart by auto
  then have "program_work n p \<le> Suc (3 * total_work (async_modify_start args kwargs r))"
    by (simp add: next_work)
  ultimately show ?thesis using ModifyStart by simp
next
  case (CancelStart args)
  have "total_work (async_cancel_start args r) \<le> 2"
    by (simp add: async_cancel_start_def total_work_def split: option.split)
  moreover have "p = Release Broker (next_program (async_cancel_start args r))"
    using assms(1) CancelStart by auto
  then have "program_work n p \<le> Suc (3 * total_work (async_cancel_start args r))"
    by (simp add: next_work)
  ultimately show ?thesis using CancelStart by simp
next
  case FillStart
  then obtain us where us: "p = Release Broker (next_program us)" "us = async_fill_start r"
    using assms(1) by auto
  have "total_work us = 3 * length (r_fills r) + 2"
    by (simp add: us(2) async_fill_start_def total_work_def)
  moreover have "program_work n p \<le> Suc (3 * total_work us)" by (simp add: us(1) next_work)
  ultimately show ?thesis using assms(2) FillStart by simp
qed (use assms in \<open>auto simp: Let_def split: option.splits if_splits\<close>)

lemma thread_step_measure:
  assumes "thread_step c free t r = Some (r', t')" and "length (r_fills r) \<le> n"
  shows "length (r_fills r') + adds_fill (snd t') \<le> length (r_fills r) + adds_fill (snd t)"
    and "program_work n (snd t') < program_work n (snd t)"
proof -
  obtain held p where t: "t = (held, p)" by (cases t)
  have "length (r_fills r') + adds_fill (snd t') \<le> length (r_fills r) + adds_fill (snd t)
    \<and> program_work n (snd t') < program_work n (snd t)"
  proof (cases p)
    case (Run s)
    obtain r1 q where q: "phase_step c s r = (r1, q)" by (cases "phase_step c s r")
    then have "r' = r1" "t' = (held, q)" using assms(1) t Run by auto
    then show ?thesis
      using phase_step_fills [OF q] phase_step_work [OF q assms(2)] t Run by simp
  qed (use assms(1) t in \<open>auto split: if_splits\<close>)
  then show "length (r_fills r') + adds_fill (snd t') \<le> length (r_fills r) + adds_fill (snd t)"
    and "program_work n (snd t') < program_work n (snd t)" by auto
qed

lemma sum_changed:
  fixes f :: "'a \<Rightarrow> nat"
  assumes "i < length xs"
  shows "sum_list (map f (xs[i := x])) + f (xs ! i) = sum_list (map f xs) + f x"
proof -
  have "xs[i := x] = take i xs @ x # drop (Suc i) xs" using assms by (rule upd_conv_take_nth_drop)
  moreover have "map f xs = map f (take i xs) @ f (xs ! i) # map f (drop (Suc i) xs)"
    using arg_cong [OF id_take_nth_drop [OF assms], of "map f"] by simp
  ultimately show ?thesis by simp
qed

lemma run_step_work: "run_step c s s' \<Longrightarrow> locked_work s' < locked_work s"
proof (induction rule: run_step.induct)
  case (1 i ts r r' t)
  let ?n = "fills_ahead (r, ts)" and ?n' = "fills_ahead (r', ts[i := t])"
  have "length (r_fills r) \<le> ?n" by (simp add: fills_ahead_def)
  note m = thread_step_measure [OF 1(2) this]
  have "?n' \<le> ?n" using m(1) sum_changed [OF 1(1), of "\<lambda>t. adds_fill (snd t)" t]
    by (simp add: fills_ahead_def)
  then have "sum_list (map (\<lambda>t. program_work ?n' (snd t)) (ts[i := t]))
      \<le> sum_list (map (\<lambda>t. program_work ?n (snd t)) (ts[i := t]))"
    by (intro sum_list_mono program_work_mono)
  also have "\<dots> < sum_list (map (\<lambda>t. program_work ?n (snd t)) ts)"
    using m(2) sum_changed [OF 1(1), of "\<lambda>t. program_work ?n (snd t)" t] by simp
  finally show ?case by (simp add: locked_work_def)
qed

lemma run_steps_work: "(run_step c ^^ n) s s' \<Longrightarrow> n + locked_work s' \<le> locked_work s"
proof (induction n arbitrary: s')
  case (Suc n)
  then obtain s1 where "(run_step c ^^ n) s s1" "run_step c s1 s'" by auto
  then show ?case using Suc.IH [of s1] run_step_work [of c s1 s'] by simp
qed simp

lemma run_steps_ok: "(run_step c ^^ n) s s' \<Longrightarrow> locked_ok s \<Longrightarrow> locked_ok s'"
  by (induction n arbitrary: s') (auto intro: run_step_ok)

lemma run_ends: "locked_ok (r, ts) \<Longrightarrow> \<exists>m r' ts'. (run_step c ^^ m) (r, ts) (r', ts') \<and> quiet ts'"
proof (induction "locked_work (r, ts)" arbitrary: r ts rule: less_induct)
  case less
  show ?case
  proof (cases "quiet ts")
    case True
    then show ?thesis by (intro exI [of _ 0] exI [of _ r] exI [of _ ts]) simp
  next
    case False
    then obtain r1 ts1 where a: "run_step c (r, ts) (r1, ts1)"
      using no_deadlock [OF less.prems, of c] by auto
    from less.hyps [OF run_step_work [OF a] run_step_ok [OF a less.prems]] obtain m r' ts'
      where m: "(run_step c ^^ m) (r1, ts1) (r', ts')" "quiet ts'" by blast
    have "(run_step c ^^ Suc m) (r, ts) (r', ts')" using a m(1) by (rule relpowp_Suc_I2)
    then show ?thesis using m(2) by blast
  qed
qed

end
