(* ===== verification/Parity_Properties.thy ===== *)
theory Parity_Properties
  imports Parity_Facts Parity_Decimal Parity_Store_Demo Parity_Async_Basket Parity_Async_Broker Sim_Book
    Parity_Gate Sim_Async_Locks
begin

text \<open>
  The properties of the parity layer, each with a concrete instance: an order in a
  demonstration environment, its codec over rationals, and small runs.
\<close>

section \<open>A concrete environment\<close>

text \<open>Decimals that panic instead of rounding.\<close>

definition demo_fitted :: "rat \<Rightarrow> rat attempt" where
  "demo_fitted x = (if representable x then Returned x else Panicked)"

definition demo_codec :: "(int + rat, rat, rat) codec" where
  "demo_codec =
     \<lparr> number_i64 = case_sum Some (\<lambda>_. None),
       number_f64 = case_sum (\<lambda>i. Some (of_int i)) Some, i64_number = Inl,
       f64_number = Inr, decimal_of_f64 = Some, decimal_to_f64 = id,
       decimal_of_i64 = of_int, decimal_rat = id, decimal_neg = uminus,
       decimal_add = (\<lambda>a b. demo_fitted (a + b)), decimal_sub = (\<lambda>a b. demo_fitted (a - b)),
       decimal_mul = (\<lambda>a b. demo_fitted (a * b)),
       decimal_div = (\<lambda>a b. if b = 0 then Panicked else demo_fitted (a / b)), decimal_show = (\<lambda>d. show_nat (nat \<lfloor>d\<rfloor>)),
       decimal_parse = (\<lambda>s. Some (of_nat (digits_val s))),
       rfc3339_show = (\<lambda>t. show_nat (nat t)), rfc3339_parse = (\<lambda>s. Some (int (digits_val s))),
       f64_to_i64 = floor, json_text_map = (\<lambda>_. None) \<rparr>"

definition demo_env :: "(int + rat) env" where
  "demo_env = \<lparr> clock_now = (\<lambda>_. 7), upsert_reply = (\<lambda>_ _. True), runtime_present = True \<rparr>"

definition demo_init :: "(int + rat, rat) order_init" where
  "demo_init = default_init\<lparr>init_symbol := ''AAPL'', init_side := ''buy'', init_quantity := 10,
     init_id := Some ''x1'', init_expires_in := Some 60, init_connection := Some 3\<rparr>"

definition demo_held :: "(int + rat, rat) order" where
  "demo_held = (case from_init demo_env ''u1'' demo_init of Returned od \<Rightarrow> od)"

lemma demo_order_built: "from_init demo_env ''u1'' demo_init = Returned demo_held"
  by (simp add: demo_held_def from_init_def from_init_with_clock_def demo_init_def
      default_init_def Let_def)

lemma demo_order_fields:
  "o_quantity demo_held = 10" "o_filled_quantity demo_held = 0"
  "o_cancelled_quantity demo_held = 0" "o_status demo_held = None"
  "o_order_id demo_held = None" "o_max_modifications demo_held = 10"
  "o_num_modifications demo_held = 0" "o_disclosed_quantity demo_held = 0"
  "o_expires_in demo_held = 60" "o_retries demo_held = 0"
  "o_pending_quantity demo_held = Some 10" "o_price demo_held = None"
  "o_trigger_price demo_held = 0" "o_average_price demo_held = 0"
  "o_timestamp demo_held = Some 7" "o_broker_timestamp demo_held = None"
  "o_exchange_timestamp demo_held = None" "o_last_updated_at demo_held = None"
  "modification_lock_till (o_lock demo_held) = 0"
  by (simp_all add: demo_held_def from_init_def from_init_with_clock_def demo_init_def
      default_init_def Let_def expiry_of_def i64_abs_def is_i64_def demo_env_def with_timezone_def
      unlocked_with_clock_def)

definition fill_message :: "int \<Rightarrow> (int + rat) args" where
  "fill_message n = [''filled_quantity'' \<mapsto> JNumber (Inl n)]"

definition demo_broker :: "(int + rat) broker" where
  "demo_broker =
     \<lparr> attribs_to_copy_execute = None, attribs_to_copy_modify = None,
       attribs_to_copy_cancel = None, place_reply = (\<lambda>calls _. if calls = [] then None
         else Some ''B7'') \<rparr>"

definition demo_rng :: "(nat, rat) rng_api" where
  "demo_rng = \<lparr> seed_from = id, gen_range = (\<lambda>r lo hi. (lo, Suc r)),
     gen_unit = (\<lambda>r. (1 / 2, Suc r)), sample_normal = (\<lambda>r. (0, Suc r)) \<rparr>"


section \<open>Orders\<close>

text \<open>
  C31. Fill reports may arrive in any order: for an order that only fills, every sequence of
  messages without a status is processed without a panic, the filled quantity ends as the
  largest report capped at the order quantity and never decreases, and any other arrival order
  of the same messages ends with the same filled quantity.
\<close>

theorem fills_order_independent:
  assumes "only_filling od" and "\<forall>m \<in> set ms. snd m ''status'' = None"
    and "mset (map snd ms') = mset (map snd ms)"
  shows "\<exists>od1 calls1 od2 calls2.
    update_all c ms od calls = Returned (od1, calls1)
    \<and> update_all c ms' od calls = Returned (od2, calls2)
    \<and> o_filled_quantity od1
      = Max (set (o_filled_quantity od # clamped_reports c (o_quantity od) (map snd ms)))
    \<and> o_filled_quantity od2 = o_filled_quantity od1"
proof -
  have "set (map snd ms') = set (map snd ms)" using assms(3) by (rule mset_eq_setD)
  moreover have "\<forall>d \<in> set (map snd ms). d ''status'' = None" using assms(2) by simp
  ultimately have "\<forall>d \<in> set (map snd ms'). d ''status'' = None" by (simp only:)
  then have "\<forall>m \<in> set ms'. snd m ''status'' = None" by simp
  from update_all_filled [OF assms(1) this, of c calls] update_all_filled [OF assms(1,2), of c calls]
  show ?thesis using clamped_reports_perm [OF assms(3), of c "o_quantity od"]
    by (auto simp: fold_better_fill)
qed

theorem fills_order_independent_witness:
  "\<exists>od1 calls1 od2 calls2.
     update_all demo_codec [(demo_env, fill_message 4), (demo_env, fill_message 12),
         (demo_env, fill_message 3)] demo_held [] = Returned (od1, calls1)
     \<and> update_all demo_codec [(demo_env, fill_message 12), (demo_env, fill_message 3),
         (demo_env, fill_message 4)] demo_held [] = Returned (od2, calls2)
     \<and> o_filled_quantity od1 = 10 \<and> o_filled_quantity od2 = 10"
proof -
  let ?ms = "[(demo_env, fill_message 4), (demo_env, fill_message 12), (demo_env, fill_message 3)]"
  have "only_filling demo_held" by (simp add: only_filling_def demo_order_fields is_i64_def)
  moreover have "\<forall>m \<in> set ?ms. snd m ''status'' = None" by (simp add: fill_message_def)
  ultimately show ?thesis
    using fills_order_independent [of demo_held ?ms "[(demo_env, fill_message 12),
        (demo_env, fill_message 3), (demo_env, fill_message 4)]" demo_codec "[]"]
    by (auto simp: clamped_reports_Cons reported_fill_def fill_message_def demo_codec_def
        demo_order_fields add_mset_commute) (simp_all add: clamped_reports_def List.map_filter_def)
qed

text \<open>
  C32. What a broker sees of an order not placed yet, over any run of updates, executions,
  modifications, cancellations and locks: only placements until one is answered with an
  identifier, which the order then keeps; after that no placement again, and every
  cancellation names that identifier. So does every modification, unless a caller of \<open>modify\<close>
  passes an \<open>order_id\<close> of its own, which the code lets win (\<open>modify_names_other_order\<close>).
\<close>

theorem broker_sees_protocol:
  assumes "order_ops_run c b xs (od, []) = Returned (od', calls)" and "o_order_id od = None"
  shows "protocol (own_modifies xs) None calls = Some (o_order_id od')"
  using order_run_effect [OF assms(1), of "own_modifies xs"] assms(2)
  by (auto simp: step_effect_def)

text \<open>A refused placement, a placement, a modification, a placement that is not sent, a cancellation.\<close>

definition demo_run :: "((int + rat) env \<times> (int + rat) order_op) list" where
  "demo_run = [(demo_env, ExecuteOp None Map.empty), (demo_env, CancelOp None),
     (demo_env, ExecuteOp None Map.empty),
     (demo_env, ModifyOp None [(''quantity'', JNumber (Inl 8))]),
     (demo_env, ExecuteOp None Map.empty), (demo_env, CancelOp None)]"

lemma demo_run_returns:
  "\<exists>od' calls. order_ops_run demo_codec demo_broker demo_run (demo_held, []) = Returned (od', calls)
    \<and> o_order_id od' = Some ''B7'' \<and> modifications calls = 1"
proof -
  have attr: "get_attr c od ''quantity'' = Some (json_i64 c (o_quantity od))"
    for c :: "('n, 'f, 'd) codec" and od by (simp add: get_attr_def attr_table_def)
  have "o_connection demo_held = Some 3" "order_complete demo_held = False"
      "can_modify 7 (o_lock demo_held)" "can_cancel 7 (o_lock demo_held)"
    by (simp_all add: demo_held_def from_init_def from_init_with_clock_def demo_init_def
        order_complete_def default_init_def Let_def expiry_of_def i64_abs_def is_i64_def demo_env_def
        with_timezone_def unlocked_with_clock_def can_modify_def can_cancel_def)
  then show ?thesis
    by (simp add: demo_run_def attr demo_order_fields order_execute_def order_cancel_def
        order_modify_def saved_def save_to_db_def Let_def demo_broker_def demo_env_def demo_codec_def
        frozen_attrs_def set_local_field_def order_complete_def modifications_def)
qed

theorem broker_sees_protocol_witness:
  "\<exists>od' calls. order_ops_run demo_codec demo_broker demo_run (demo_held, []) = Returned (od', calls)
     \<and> modifications calls = 1 \<and> protocol True None calls = Some (Some ''B7'')"
proof -
  obtain od' calls where
    r: "order_ops_run demo_codec demo_broker demo_run (demo_held, []) = Returned (od', calls)"
    and "o_order_id od' = Some ''B7''" "modifications calls = 1" using demo_run_returns by blast
  moreover have "own_modifies demo_run" by (simp add: own_modifies_def own_modify_def demo_run_def)
  ultimately show ?thesis
    using broker_sees_protocol [OF r] by (simp add: demo_order_fields)
qed

text \<open>
  C33. Over any run an order sends the broker at most as many modifications as its budget had
  left, and counts each of them.
\<close>

theorem modification_budget:
  assumes "order_ops_run c b xs (od, calls) = Returned (od', calls')"
  shows "\<exists>new. calls' = calls @ new
    \<and> o_num_modifications od' = o_num_modifications od + int (modifications new)
    \<and> int (modifications new) \<le> max 0 (o_max_modifications od - o_num_modifications od)"
  using order_run_effect [OF assms, of False] by (auto simp: step_effect_def)

theorem modification_budget_witness:
  "\<exists>od' calls'. order_ops_run demo_codec demo_broker demo_run (demo_held, []) = Returned (od', calls')
     \<and> modifications calls' = 1 \<and> o_num_modifications od' = 1"
proof -
  obtain od' calls where
    r: "order_ops_run demo_codec demo_broker demo_run (demo_held, []) = Returned (od', calls)"
    and "modifications calls = 1" using demo_run_returns by blast
  with modification_budget [OF r] show ?thesis by (auto simp: demo_order_fields)
qed

text \<open>
  An order saved as a row loads back as itself, up to what the construction sets again
  (pending quantity, modification count, lock, clock, connection, an absent id or timestamp,
  the end-of-day expiry for zero); a negative quantity panics on loading.
\<close>

theorem row_roundtrip:
  assumes "row_exact c od"
  shows "order_from_row c e uuid (to_row c od)
    = (if 0 \<le> o_quantity od then Returned (reloaded e uuid od) else Panicked)"
proof (cases "0 \<le> o_quantity od")
  case True
  then show ?thesis
    using assms by (simp add: order_from_row_def init_from_to_row from_init_of_order)
next
  case False
  then show ?thesis
    using assms by (simp add: order_from_row_def init_from_to_row from_init_def
        from_init_with_clock_def init_of_order_def)
qed

theorem row_roundtrip_witness:
  "order_from_row demo_codec demo_env ''u2'' (to_row demo_codec demo_held)
   = Returned (reloaded demo_env ''u2'' demo_held)"
proof -
  have "row_exact demo_codec demo_held"
    by (simp add: row_exact_def demo_order_fields i64_exact_def decimal_exact_def
        instant_exact_def demo_codec_def show_nat.simps digits_val_def digit_val_def
        digit_char_def)
  from row_roundtrip [OF this] show ?thesis by (simp add: demo_order_fields)
qed

text \<open>
  C34. Persistence round trip, for a storable order: its decimals are exact as floats, its
  integers and timestamps read back from their text, and no identifier kept in a \<open>string\<close> column
  reads as a number (one that does is lost, \<open>numeric_identifier_lost\<close>). After such an order with an
  identifier and a non-negative quantity was saved, a query returns a row with that identifier, and
  every row with it loads as the saved order, up to what the construction sets again. The database
  replaces by primary key and has columns of SQLite's affinities.
\<close>

theorem saved_order_reloads:
  assumes "column_affinity store" and "replaces_by_id s store"
    and "set cols = dom (to_row c od)" and "distinct cols"
    and "upsert c x s cols (to_row c od) db = Inr db'"
    and "storable c x od" and "o_id od = Some oid" and "0 \<le> o_quantity od"
  shows "\<exists>rows. query_all c s db' = Inr rows
    \<and> (\<exists>row \<in> set rows. row ''id'' = Some (JString oid))
    \<and> (\<forall>row \<in> set rows. row ''id'' = Some (JString oid) \<longrightarrow>
         order_from_row c e uuid row = Returned (reloaded e uuid od))"
proof -
  let ?r = "returned store c x (to_row c od)"
  obtain rows where "query_all c s db' = Inr rows" and "?r \<in> set rows"
    and "\<forall>row \<in> set rows. row ''id'' = Some (JString oid) \<longrightarrow> row = ?r"
    by (rule saved_rows [OF assms(1-5,7)])
  moreover have "?r ''id'' = Some (JString oid)"
    using assms(1,7) by (simp add: returned_def columns to_row_optional column_affinity_def)
  moreover have "order_from_row c e uuid ?r = Returned (reloaded e uuid od)"
    by (simp add: order_from_row_def init_from_returned [OF assms(1,6)] from_init_of_order assms(8))
  ultimately show ?thesis by metis
qed

definition demo_texts :: "(int + rat) json_text" where
  "demo_texts = \<lparr> number_text = (\<lambda>_. ''0''), value_text = (\<lambda>_. ''{}'') \<rparr>"

theorem saved_order_reloads_witness:
  "\<exists>db' rows. upsert demo_codec demo_texts memory_table
       (filter (\<lambda>k. to_row demo_codec demo_held k \<noteq> None) order_columns)
       (to_row demo_codec demo_held) [] = Inr db'
     \<and> query_all demo_codec memory_table db' = Inr rows
     \<and> (\<exists>row \<in> set rows. order_from_row demo_codec demo_env ''u2'' row
          = Returned (reloaded demo_env ''u2'' demo_held))"
proof -
  let ?row = "to_row demo_codec demo_held"
  let ?cols = "filter (\<lambda>k. ?row k \<noteq> None) order_columns"
  have cols: "set ?cols = dom ?row" "distinct ?cols"
    using to_row_columns_known [of demo_codec demo_held] distinct_columns by auto
  obtain db' where u: "upsert demo_codec demo_texts memory_table ?cols ?row [] = Inr db'"
    by (simp add: upsert_def map_error_def memory_table_def Let_def)
  have f: "o_json demo_held = None" "o_tag demo_held = None" "o_pseudo_id demo_held = None"
      "o_strategy_id demo_held = None" "o_portfolio_id demo_held = None"
      "o_id demo_held = Some ''x1''"
    by (simp_all add: demo_held_def from_init_def from_init_with_clock_def demo_init_def
        default_init_def Let_def)
  have "storable demo_codec demo_texts demo_held"
    by (simp add: storable_def demo_order_fields f i64_exact_def float_exact_def
        instant_exact_def demo_codec_def show_nat.simps digits_val_def digit_val_def digit_char_def)
  from saved_order_reloads [OF memory_affinity memory_replaces cols u this f(6), of demo_env "''u2''"]
  show ?thesis using u by (auto simp: demo_order_fields)
qed

text \<open>
  C35. When the lock permits a modification, one that cuts the quantity of an order below what it
  has filled makes the next fill report panic, as long as the order is not done afterwards (no
  closing status, filled and cancelled not exactly the new quantity): the modification is applied
  unchecked, with or without a call to the broker, and the clamp of the report then has its bounds
  crossed.
\<close>

theorem quantity_cut_panics:
  assumes "can_modify (clock_now e (lock_clock (o_lock od))) (o_lock od)"
    and "as_i64 c v = Some k" and "k < o_filled_quantity od"
    and "i64_add (o_filled_quantity od) (o_cancelled_quantity od) \<noteq> k"
    and "o_status od \<notin> {Some ''COMPLETE'', Some ''CANCELED'', Some ''CANCELLED'', Some ''REJECTED''}"
    and "as_i64 c w = Some n"
  shows "order_ops_run c b
    [(e, ModifyOp attribs [(''quantity'', v)]), (e', UpdateOp [''filled_quantity'' \<mapsto> w])]
    (od, calls) = Panicked"
proof -
  have attr: "get_attr c od ''quantity'' = Some (json_i64 c (o_quantity od))"
    by (simp add: get_attr_def attr_table_def)
  obtain od1 calls1 where m: "order_modify c e b attribs [(''quantity'', v)] od calls
      = Returned (od1, calls1)"
    and f: "o_quantity od1 = k" "o_filled_quantity od1 = o_filled_quantity od"
      "o_cancelled_quantity od1 = o_cancelled_quantity od" "o_status od1 = o_status od"
    using assms(1,2) attr
    by (cases "o_num_modifications od < o_max_modifications od"; cases "o_order_id od")
       (auto simp: order_modify_def frozen_attrs_def set_local_field_def Let_def)
  have "\<not> order_done od1" using assms(3-5) f by (auto simp: order_done_def order_complete_def)
  moreover have "w \<noteq> JNull" using assms(6) by auto
  moreover have "clamp_filled n od1 = Panicked" using assms(3) f by (simp add: clamp_filled_panics)
  ultimately have "\<not> order_done od1"
      and "set_attrs c [''filled_quantity'' \<mapsto> w] update_attrs od1 = Panicked"
    using assms(6) by (simp_all add: update_attrs_def set_from_value_def)
  then show ?thesis by (simp add: m order_update_def)
qed

theorem quantity_cut_panics_witness:
  "order_ops_run demo_codec demo_broker
     [(demo_env, ModifyOp None [(''quantity'', JNumber (Inl 3))]),
      (demo_env, UpdateOp [''filled_quantity'' \<mapsto> JNumber (Inl 6)])]
     (demo_held\<lparr>o_filled_quantity := 5\<rparr>, []) = Panicked"
  by (rule quantity_cut_panics [where k = 3 and n = 6])
     (simp_all add: demo_order_fields demo_codec_def demo_env_def can_modify_def i64_add_def
        is_i64_def)


section \<open>Baskets and strategies\<close>

text \<open>
  C36. A basket built from any list of orders, and then worked on in any way but by building onto
  it again: orders added under an index and a key or constructed in it, fan-out of executions,
  checks and reports, prices and clocks. Every order answers to exactly one index and every index
  names an order. (\<open>with_orders\<close> on a basket that holds orders breaks this, \<open>with_orders_hides_order\<close>.)
\<close>

theorem basket_index_exact:
  assumes "basket_run c xs (with_orders ods (compound_with_clock uuid clock), calls)
    = Returned (co, calls')"
  shows "(\<forall>pos < length (co_orders co). \<exists>!idx. map_of (co_index co) idx = Some pos)
    \<and> (\<forall>idx pos. map_of (co_index co) idx = Some pos \<longrightarrow>
        get_by_index co idx = Some (co_orders co ! pos))"
proof -
  have i: "indexed co" by (rule basket_run_indexed [OF indexed_built assms])
  have "pos < length (co_orders co)" if "map_of (co_index co) idx = Some pos" for idx pos
  proof -
    have "pos \<in> snd ` set (co_index co)" using map_of_SomeD [OF that] by force
    then have "pos \<in> set (map snd (co_index co))" by (simp only: set_map)
    then show ?thesis using i unfolding indexed_def by (simp only: set_upt atLeastLessThan_iff)
  qed
  then show ?thesis using indexed_unique [OF i] by (simp add: get_by_index_def order_at_def)
qed

theorem basket_index_exact_witness:
  "\<exists>co calls'. basket_run demo_codec
       [(demo_env, AddOp ''a'' demo_held None None),
        (demo_env, AddOp ''b'' demo_held (Some 5) (Some ''k'')), (demo_env, ExecuteAllOp Map.empty)]
       (with_orders [demo_held] (compound_with_clock ''basket'' 0), []) = Returned (co, calls')
     \<and> (\<forall>idx pos. map_of (co_index co) idx = Some pos \<longrightarrow>
          get_by_index co idx = Some (co_orders co ! pos))"
proof -
  let ?xs = "[(demo_env, AddOp ''a'' demo_held None None),
    (demo_env, AddOp ''b'' demo_held (Some 5) (Some ''k'')), (demo_env, ExecuteAllOp Map.empty)]"
  have steps: "basket_step c e (AddOp uuid od i k) s
      = Returned (snd (compound_add c e uuid od i k (fst s) (snd s)))"
    "basket_step c e (ExecuteAllOp kw) s = Returned (execute_all c e kw (fst s) (snd s))"
    for c :: "(int + rat, rat, rat) codec" and e uuid od i k kw s by (cases s; simp)+
  have "basket_run demo_codec ?xs (with_orders [demo_held] (compound_with_clock ''basket'' 0), []) \<noteq> Panicked"
    by (simp add: steps)
  then obtain s where s: "basket_run demo_codec ?xs (with_orders [demo_held] (compound_with_clock ''basket'' 0), [])
      = Returned s" unfolding not_panicked by blast
  obtain co calls' where "s = (co, calls')" by (cases s)
  with s have "basket_run demo_codec ?xs (with_orders [demo_held] (compound_with_clock ''basket'' 0), [])
      = Returned (co, calls')" by simp
  with basket_index_exact [OF this] show ?thesis by blast
qed

text \<open>
  C37. The mark to market of a strategy, on decimals that round what does not fit and panic on an
  overflow. When the filled quantities of a basket fit an \<open>i64\<close>, every price has at most \<open>s \<le> 28\<close>
  decimals and the filled quantities times the absolute prices add up to less than \<open>2\<^sup>9\<^sup>6\<close> at that
  scale, it neither rounds nor panics: it is exactly the sum over the orders of all baskets of
  signed filled quantity times the distance from average price to market price (zero where the
  basket holds no price), in whatever order the map of symbols is iterated.
\<close>

theorem portfolio_mtm_exact:
  assumes "exact_decimals c" and "money_fits s c (st_orders st)"
  defines "exact \<equiv> sum_list (map (\<lambda>co. sum_list (map (fill_mtm c co) (co_orders co))) (st_orders st))"
  shows "(\<exists>d. strategy_total_mtm c st = Returned d \<and> decimal_rat c d = exact)
    \<and> (\<exists>m. strategy_mtm c st = Returned m
        \<and> (\<forall>ds. mset ds = mset (map snd m) \<longrightarrow>
              (\<exists>d. decimal_sum c ds = Returned d \<and> decimal_rat c d = exact)))"
proof -
  obtain m where m: "strategy_mtm c st = Returned m" "vals c m = exact_strategy_mtm c (st_orders st)"
      "gridded s (vals c m)" "inside s (mass (vals c m))"
    using strategy_mtm_exact [OF assms(1,2)] by blast
  have "s \<le> 28" and fit: "list_all (\<lambda>co. fills_fit (co_orders co)) (st_orders st)"
    using assms(2) by (auto simp: money_fits_def list_all_iff)
  have "sum_list (map snd (vals c m)) = exact"
    unfolding m(2) strategy_mtm_sum exact_def using fit
    by (intro arg_cong [where f = sum_list] map_cong refl) (simp add: total_mtm_sum list_all_iff)
  with values_sum_exact [OF assms(1) \<open>s \<le> 28\<close> m(3,4)]
  have "\<exists>d. decimal_sum c ds = Returned d \<and> decimal_rat c d = exact"
    if "mset ds = mset (map snd m)" for ds using that by metis
  then show ?thesis using m(1) by (auto simp: strategy_total_mtm_def)
qed

definition demo_basket :: "(int + rat, rat, rat) compound" where
  "demo_basket = (compound_with_clock ''basket'' 0)
     \<lparr>co_ltp := [(''AAPL'', 25 / 2)],
      co_orders := [demo_held\<lparr>o_filled_quantity := 5, o_average_price := 41 / 4\<rparr>]\<rparr>"

lemma demo_decimals: "exact_decimals demo_codec"
  by (simp add: exact_decimals_def exact_op_def demo_codec_def demo_fitted_def)

theorem portfolio_mtm_exact_witness:
  "strategy_total_mtm demo_codec ((strategy_with_clock ''s'' 0)\<lparr>st_orders := [demo_basket]\<rparr>)
    = Returned (45 / 4)"
proof -
  let ?st = "(strategy_with_clock ''s'' 0)\<lparr>st_orders := [demo_basket]\<rparr>"
  have f: "o_symbol demo_held = ''AAPL''" "o_side demo_held = ''buy''"
    by (simp_all add: demo_held_def from_init_def from_init_with_clock_def demo_init_def
        default_init_def Let_def)
  have fields: "co_orders demo_basket = [demo_held\<lparr>o_filled_quantity := 5, o_average_price := 41 / 4\<rparr>]"
      "co_ltp demo_basket = [(''AAPL'', 25 / 2)]" by (simp_all add: demo_basket_def)
  have price: "market_price demo_codec demo_basket ''AAPL'' = Some (25 / 2)"
    by (simp add: market_price_def fields demo_codec_def)
  have "money_fits 2 demo_codec (st_orders ?st)"
    by (simp add: money_fits_def fills_fit_def basket_grid_def on_grid_def inside_def
        strategy_mass_def cost_mass_def market_mass_def held_price_def fields f price average_price_def)
       (simp add: demo_codec_def)
  from portfolio_mtm_exact [OF demo_decimals this] show ?thesis
    by (simp add: fields f price fill_mtm_def average_price_def signed_fill_def side_sign_def
        eq_ignore_case_def to_lowercase_def ascii_lower_def) (auto simp: demo_codec_def)
qed


text \<open>
  C38. The asynchronous strategy and baskets are the synchronous ones: where every operation runs
  inside a runtime, any sequence of operations on a strategy and the baskets it holds (baskets
  added, orders added under an index and a key, fan-out of executions and checks, reports,
  prices, run functions) gives the same strategy, the same broker and database calls in the same
  order, and panics in the same cases; and the mark to market and what saving answers and
  writes are equal for every strategy.
\<close>

theorem async_mirrors_sync:
  assumes "\<forall>(e, x) \<in> set xs. runtime_present e"
  shows "trace (astrategy_step c fns) xs s = trace (strategy_step c fns) xs s
    \<and> astrategy_total_mtm c st = strategy_total_mtm c st
    \<and> astrategy_save c e st calls = strategy_save c e st calls"
  using async_trace_mirrors [OF assms] astrategy_mtm_mirrors asave_mirrors by blast

theorem async_mirrors_sync_witness:
  "\<exists>st calls. trace (astrategy_step demo_codec (\<lambda>_ co _. co))
       [(demo_env, AddBasketOp demo_basket), (demo_env, BasketOp 0 (ExecuteAllOp Map.empty)),
        (demo_env, StrategyLtpOp [(''AAPL'', 15)])]
       (strategy_with_clock ''s'' 0, []) = Returned (st, calls)
     \<and> trace (strategy_step demo_codec (\<lambda>_ co _. co))
       [(demo_env, AddBasketOp demo_basket), (demo_env, BasketOp 0 (ExecuteAllOp Map.empty)),
        (demo_env, StrategyLtpOp [(''AAPL'', 15)])]
       (strategy_with_clock ''s'' 0, []) = Returned (st, calls)
     \<and> length (st_orders st) = 1"
proof -
  let ?xs = "[(demo_env, AddBasketOp demo_basket), (demo_env, BasketOp 0 (ExecuteAllOp Map.empty)),
        (demo_env, StrategyLtpOp [(''AAPL'', 15)])]"
  have env: "\<forall>(e, x) \<in> set ?xs. runtime_present e" by (simp add: demo_env_def)
  have run: "\<exists>st calls. trace (strategy_step demo_codec (\<lambda>_ co _. co)) ?xs
      (strategy_with_clock ''s'' 0, []) = Returned (st, calls) \<and> length (st_orders st) = 1"
    by (simp add: strategy_add_def strategy_with_clock_def strategy_update_ltp_def Let_def
        split: prod.split)
  then show ?thesis using async_mirrors_sync [OF env] by metis
qed


section \<open>The asynchronous matching engine\<close>

text \<open>
  C39. In every interleaving of placements, modifications, cancellations, fills, price updates
  and writes of callers behind their handles, no order is lost and none completes twice: the
  completed orders are distinct, the waiting fills name distinct orders, and every order placed
  is among them.
\<close>

theorem async_nothing_lost:
  assumes "async_reachable c g (r, ts)"
  shows "distinct (r_completed r) \<and> distinct (map fst (r_fills r))
    \<and> (\<forall>h < length (r_cells r). h \<in> set (r_completed r) \<or> h \<in> fst ` set (r_fills r))"
  using async_reachable_ok [OF assms]
  by (auto simp: async_ok_def nothing_lost_def tracked_def)

definition demo_place_args :: "(int + rat) args" where
  "demo_place_args = [''symbol'' \<mapsto> JString ''AAPL'', ''side'' \<mapsto> JString ''buy'',
     ''quantity'' \<mapsto> JNumber (Inl 10)]"

theorem async_nothing_lost_witness:
  "\<exists>r ts. async_reachable demo_codec demo_rng (r, ts) \<and> length (r_cells r) = 1
     \<and> ts \<noteq> [] \<and> (0 \<in> set (r_completed r) \<or> 0 \<in> fst ` set (r_fills r))"
proof -
  let ?r0 = "replica_update [\<lparr>i_name = ''AAPL'', i_last_price = 12\<rparr>]
    (replica_new :: (rat, nat) replica)"
  have u: "async_reachable demo_codec demo_rng (?r0, [])"
    using async_reachable.start by (rule async_reachable.step) (rule async_step.update)
  have "async_place demo_codec demo_rng 7 ''id'' demo_place_args ?r0 \<noteq> Panicked"
    by (simp add: async_place_def vorder_from_init_def vinit_side_def vinit_order_type_def
        replica_init_def default_vinit_def demo_place_args_def arg_str_def arg_f64_def
        value_to_side_def side_parse_def ascii_lower_def Let_def split_beta'
        split: option.split)
  then obtain h r where p: "async_place demo_codec demo_rng 7 ''id'' demo_place_args ?r0
      = Returned (h, r)" unfolding not_panicked by auto
  have "async_reachable demo_codec demo_rng (r, [])"
    using u by (rule async_reachable.step) (rule async_step.place [OF p])
  then have a: "async_reachable demo_codec demo_rng (r, async_fill_start r @ [])"
    by (rule async_reachable.step) (rule async_step.fill)
  have "length (r_cells r) = 1"
    using place_shape [OF p] by (simp add: replica_new_def replica_update_def)
  then show ?thesis using async_nothing_lost [OF a] a
    by (auto simp: async_fill_start_def)
qed

text \<open>
  C40. The lock discipline of the asynchronous replica. In every state that placements,
  modifications, cancellations, fills, updates and callers reach, with every lock taken and released
  where the code does and callers that may list the broker while they hold the lock of an order:
  from there on every schedule of the operations in flight is at most \<open>locked_work\<close> steps long, and
  wherever it stands, some operation can take its next step, unless all are finished and hold no
  lock. So no interleaving deadlocks and each ends.
\<close>

theorem async_no_deadlock:
  assumes "locked_reachable c g s" and "(run_step c ^^ n) s (r, ts)"
  shows "n \<le> locked_work s \<and> ((\<exists>s'. run_step c (r, ts) s') \<or> quiet ts)"
proof -
  have "locked_ok (r, ts)" using run_steps_ok [OF assms(2)] locked_reachable_ok [OF assms(1)] .
  then show ?thesis using no_deadlock [of r ts c] run_steps_work [OF assms(2)] by auto
qed

text \<open>
  A placement that holds the broker's lock and is about to take its order's, and a fill that waits
  for the broker: the fill cannot move, and the theorem gives the step of the placement.
\<close>

theorem async_no_deadlock_witness:
  "\<exists>r ts. locked_reachable demo_codec demo_rng (r, ts) \<and> fst (ts ! 0) = [Broker]
     \<and> \<not> can_step demo_codec (r, ts) 1 \<and> (\<exists>s'. run_step demo_codec (r, ts) s')"
proof -
  have "place_program demo_codec demo_rng 7 ''id'' demo_place_args \<noteq> Panicked"
    by (simp add: place_program_def vorder_from_init_def vinit_side_def vinit_order_type_def
        replica_init_def default_vinit_def demo_place_args_def arg_str_def arg_f64_def
        value_to_side_def side_parse_def ascii_lower_def Let_def split_beta'
        split: option.split)
  then obtain user v where p: "place_program demo_codec demo_rng 7 ''id'' demo_place_args
      = Returned (under_broker (PlaceEnter user ''id'' v))"
    by (auto simp: place_program_def Let_def split: sum.splits)
  let ?fill = "([], under_broker FillStart)" and ?r = "enter_order user ''id'' v replica_new"
  let ?s0 = "(replica_new, [([], under_broker (PlaceEnter user ''id'' v)), ?fill])"
  let ?s1 = "(replica_new, [([Broker], Run (PlaceEnter user ''id'' v)), ?fill])"
  let ?s2 = "(?r, [([Broker], Acquire (Handle 0) (Run (PlaceSymbol 0))), ?fill])"
  have "locked_reachable demo_codec demo_rng (replica_new, [([], under_broker (PlaceEnter user ''id'' v))])"
    using locked_reachable.step [OF locked_reachable.start locked_step.place [OF p]] by simp
  from locked_reachable.step [OF this locked_step.fill] have s0: "locked_reachable demo_codec demo_rng ?s0"
    by simp
  have "run_step demo_codec ?s0 ?s1"
    using run_step.intros [of 0 "snd ?s0" demo_codec replica_new] by (simp add: under_broker_def lock_free_def)
  from locked_reachable.step [OF s0 locked_step.run [OF this]]
  have s1: "locked_reachable demo_codec demo_rng ?s1" .
  have "run_step demo_codec ?s1 ?s2"
    using run_step.intros [of 0 "snd ?s1" demo_codec replica_new] by (simp add: replica_new_def)
  from locked_reachable.step [OF s1 locked_step.run [OF this]]
  have s2: "locked_reachable demo_codec demo_rng ?s2" .
  have "\<exists>s'. run_step demo_codec ?s2 s'"
    using async_no_deadlock [OF s2, of 0] by (simp add: quiet_def)
  moreover have "\<not> can_step demo_codec ?s2 1"
    by (simp add: can_step_def lock_free_def under_broker_def)
  ultimately show ?thesis using s2 by (intro exI [of _ ?r] exI [of _ "snd ?s2"]) simp
qed

end
