(* ===== verification/Lifecycle_Types.thy ===== *)
theory Lifecycle_Types
  imports Identifiers
begin

text \<open>
  The data of the lifecycle core (\<^verbatim>\<open>src/lifecycle.rs\<close>): order states, halt and reject
  reasons, events, the order context and the outcome of a transition, with the records of
  \<^verbatim>\<open>src/execution.rs\<close> and \<^verbatim>\<open>src/observation.rs\<close> a journal record can carry.
  Constructors keep the source's names behind a short prefix of their type (\<open>St_\<close> for
  \<open>OrderState\<close>, \<open>Ev_\<close> for \<open>OrderEvent\<close>, \<open>H_\<close> for \<open>HaltReason\<close> and so on).
\<close>

section \<open>Order state\<close>

datatype submission_close_reason = LocalNotSent | DefiniteFailure | ExhaustiveAbsent

datatype reconcile_terminal = RT_Canceled | RT_Filled | RT_Terminal

record reconcile_target =
  rt_terminal :: reconcile_terminal
  rt_venue_filled_qty :: u64
  rt_venue_remaining_qty :: "u64 option"

datatype halt_reason =
    H_ImmediateFillCrossCheckMismatch u64 u64 u64 u64
  | H_CrossCheckMismatch string
  | H_ImmediateFillUnresolved
  | H_UnknownNoMatch
  | H_UnprovenIdempotentResubmit
  | H_PostTerminalFill
  | H_OverFill u64 u64 u64
  | H_ResponseZeroButLocalFills u64 u64
  | H_AmbiguousMatch nat
  | H_ConflictingFillPayload fill_id
  | H_FeeArrivedAfterNone fill_id
  | H_FeeOverflow fill_id
  | H_FillOwnershipMismatch fill_id venue_order_id venue_order_id
  | H_OwnershipConflict venue_order_id venue_order_id
  | H_ObligationExceedsOrderQty u64 u64
  | H_UnverifiedFillProvenance fill_id
  | H_Operator string

datatype order_state =
    St_New
  | St_SubmitPrepared
  | St_SubmitStarted attempt_id
  | St_SubmitUnknown
  | St_Accepted venue_order_id
  | St_Partial venue_order_id u64 u64
  | St_Filled
  | St_CancelPending venue_order_id u64 u64 "u64 option" "u64 option" "u64 option"
      "reconcile_target option"
  | St_ReconcilePending venue_order_id u64 u64 reconcile_target "u64 option" "u64 option" "u64 option"
  | St_Canceled
  | St_Terminal
  | St_ImmediateFillUnattributed venue_order_id u64 u64 "u64 option" "u64 option"
  | St_ImmediateFillUnresolved
  | St_UnknownNoMatch
  | St_Halted halt_reason
  | St_SubmissionClosed submission_close_reason

fun is_terminal_or_halt :: "order_state \<Rightarrow> bool" where
  "is_terminal_or_halt St_Filled = True"
| "is_terminal_or_halt St_Canceled = True"
| "is_terminal_or_halt St_Terminal = True"
| "is_terminal_or_halt St_ImmediateFillUnresolved = True"
| "is_terminal_or_halt St_UnknownNoMatch = True"
| "is_terminal_or_halt (St_Halted _) = True"
| "is_terminal_or_halt _ = False"

fun is_submission_closed :: "order_state \<Rightarrow> bool" where
  "is_submission_closed (St_SubmissionClosed _) = True"
| "is_submission_closed _ = False"

datatype reject_reason =
    R_IllegalTransition string string
  | R_OrderInvariantViolated string
  | R_AlreadyPrepared
  | R_NotApplicable string

datatype cancel_outcome =
    CO_Canceled | CO_Accepted | CO_NotFound | CO_AlreadyTerminal | CO_Rejected
  | CO_TransportUnknown | CO_Unknown


section \<open>Fills, backfill records and events\<close>

record fill_payload =
  fp_qty :: u64
  fp_price_cents :: u64
  fp_fee :: "u64 option"
  fp_venue_order_id :: "venue_order_id option"
  fp_ts_ns :: i64

datatype snapshot_boundary = TsNs i64 | BoundarySeq u64

record fill_record =
  fr_fill_id :: fill_id
  fr_qty :: u64
  fr_price_cents :: u64
  fr_ts_ns :: i64
  fr_venue_order_id :: "venue_order_id option"
  fr_fee_cents :: "u64 option"

datatype backfill_order_status = BS_Open | BS_Partial | BS_Filled | BS_Canceled

record backfill_order_record =
  bo_client_order_id :: client_order_id
  bo_venue_order_id :: venue_order_id
  bo_status :: backfill_order_status
  bo_filled_qty :: u64
  bo_remaining_qty :: u64
  bo_other_members_filled :: u64
  bo_fills :: "fill_record list"

datatype order_event =
    Ev_PrepareSubmit
  | Ev_StartSubmit attempt_id
  | Ev_SubmitResponse venue_order_id u64 u64 "u64 option" "u64 option" "snapshot_boundary option"
  | Ev_SubmitTimeout
  | Ev_UserOrderRestingClaim venue_order_id u64
  | Ev_UserOrderTerminalClaim venue_order_id u64 bool
  | Ev_Fill fill_id u64 u64 i64 "venue_order_id option" "u64 option"
  | Ev_CancelRequested
  | Ev_CancelOutcome cancel_outcome
  | Ev_UnknownBackfillResult bool "backfill_order_record list"
  | Ev_ImmediateFillBackfillResult "fill_record list"
  | Ev_BackfillDeadlineElapsed
  | Ev_RequestResubmit bool
  | Ev_ReconcileResult backfill_order_status "venue_order_id option" u64 u64 "fill_record list" bool
  | Ev_DecreaseObserved u64 i64
  | Ev_AmendObserved
  | Ev_CloseSubmission submission_close_reason

datatype own_action_kind = OA_Decrease u64 i64 | OA_Amend

datatype terminal_kind = TK_Filled | TK_Canceled | TK_Terminal


section \<open>Order context\<close>

text \<open>
  \<open>OrderCtx\<close>. \<open>applied_fills\<close> is the \<open>BTreeMap<FillId, FillPayload>\<close>.
\<close>

record order_ctx =
  client_order_id_of :: client_order_id
  market_of :: string
  strategy_of :: string
  side_of :: side
  price_cents_of :: u64
  order_qty :: u64
  applied_fills :: "(fill_id, fill_payload) btree"
  attributed_fill_qty :: u64
  fill_obligation :: u64
  venue_order_id_of :: "venue_order_id option"
  authority_complete :: bool
  authority_epoch :: u64
  authority_latched_epoch :: u64
  last_venue_remaining_qty :: "u64 option"
  response_fill_count :: "u64 option"
  response_remaining_count :: "u64 option"
  response_avg_price_cents :: "u64 option"
  response_fee_cents :: "u64 option"
  response_snapshot_boundary :: "snapshot_boundary option"
  attributed_notional_cents :: u128
  attributed_fee_cents :: u64
  response_domain_qty :: u64
  response_domain_notional_cents :: u128
  response_domain_fee_cents :: u64

definition order_ctx_new ::
  "client_order_id \<Rightarrow> string \<Rightarrow> string \<Rightarrow> side \<Rightarrow> u64 \<Rightarrow> u64 \<Rightarrow> order_ctx" where
  "order_ctx_new cid market strategy side price qty =
    \<lparr>client_order_id_of = cid, market_of = market, strategy_of = strategy, side_of = side,
     price_cents_of = price, order_qty = qty, applied_fills = [], attributed_fill_qty = 0,
     fill_obligation = 0, venue_order_id_of = None, authority_complete = False,
     authority_epoch = 0, authority_latched_epoch = 0, last_venue_remaining_qty = None,
     response_fill_count = None, response_remaining_count = None,
     response_avg_price_cents = None, response_fee_cents = None,
     response_snapshot_boundary = None, attributed_notional_cents = 0,
     attributed_fee_cents = 0, response_domain_qty = 0,
     response_domain_notional_cents = 0, response_domain_fee_cents = 0\<rparr>"

end
