(* ===== verification/Journal_Types.thy ===== *)
theory Journal_Types
  imports Lifecycle_Types
begin

text \<open>
  Journal records and effects. A journal record can carry a scoped transaction of
  \<^verbatim>\<open>src/execution.rs\<close> or an observation of \<^verbatim>\<open>src/observation.rs\<close>, and an order
  transaction carries the core records of its own transition, so the record types are mutually
  recursive. The data those transactions hold comes first. A \<open>BTreeSet\<close> is the ascending list
  of its elements.
\<close>

section \<open>Execution data\<close>

datatype execution_source = WsFill | RestFill | CreateResponseBackfill | VenueSeed

record execution_evidence =
  ev_scope :: execution_scope
  ev_market :: string
  ev_execution_id :: fill_id
  ev_side :: side
  ev_qty :: u64
  ev_price_cents :: u64
  ev_ts_ns :: i64
  ev_venue_order_id :: "venue_order_id option"
  ev_claimed_client_order_id :: "client_order_id option"
  ev_fee_cents :: "u64 option"
  ev_source :: execution_source

datatype batch_outcome = BO_Accept | BO_Halt halt_reason | BO_Reject reject_reason

datatype conflict_class = CC_Core | CC_Ownership | CC_Fee

datatype refusal_reason =
    RR_DuplicateOtherOwner client_order_id
  | RR_ConflictingExecution conflict_class
  | RR_FeeConflict
  | RR_SideMismatch side side
  | RR_RowForeign ledger_id string ledger_id
  | RR_InBatchDuplicate

datatype inventory_provenance =
    IP_Attributed
  | IP_Recovered
  | IP_LateBooked
  | IP_NotAttributedByOrder batch_outcome
  | IP_Refused refusal_reason
  | IP_NoRow
  | IP_RowForeign

record inventory_entry =
  ie_side :: side
  ie_qty :: u64
  ie_price_cents :: u64
  ie_first_seen_ts_ns :: i64
  ie_venue_order_id :: "venue_order_id option"
  ie_claimed_client_order_id :: "client_order_id option"
  ie_owner :: "client_order_id option"
  ie_fee_cents :: "u64 option"
  ie_source :: execution_source
  ie_provenance :: inventory_provenance

datatype conflict_witness =
    CW_Entry inventory_entry
  | CW_OrderApplied client_order_id fill_payload
  | CW_Both inventory_entry client_order_id fill_payload
  | CW_Staged inventory_entry

record conflict_fact =
  cf_execution_id :: fill_id
  cf_class :: conflict_class
  cf_witness :: conflict_witness
  cf_evidence :: execution_evidence

datatype ignore_reason = ZeroQty

datatype order_disposition =
    OD_Attributed
  | OD_Enriched
  | OD_Duplicate
  | OD_Ignored ignore_reason
  | OD_LateBooked
  | OD_NotAttributedByOrder batch_outcome
  | OD_NoRow
  | OD_Refused refusal_reason

datatype inventory_disposition =
    ID_Ingested inventory_provenance
  | ID_Duplicate
  | ID_Upgraded
  | ID_Conflict conflict_class
  | ID_Unchanged

record execution_outcome =
  eo_evidence :: execution_evidence
  eo_order :: order_disposition
  eo_inventory :: inventory_disposition
  eo_entry_after :: "inventory_entry option"
  eo_conflict :: "conflict_fact option"


section \<open>Observation data\<close>

datatype member_role = MR_Current | MR_Superseded | MR_Terminal

record member =
  mb_cid :: client_order_id
  mb_role :: member_role
  mb_bind_pos :: u64

datatype wire_kind = WK_Scoped | WK_VenueOnly

record remaining_observation =
  ro_remaining :: u64
  ro_covered :: "fill_id list"
  ro_generation :: u64

datatype amend_phase = AP_HttpPending | AP_AppliedNeedsObservation | AP_Unknown | AP_RestDue

record amend_lineage =
  al_old_cid :: client_order_id
  al_new_cid :: client_order_id
  al_pre_generation :: u64
  al_phase :: amend_phase
  al_declared_remaining :: u64
  al_applied_at_utc_ns :: "u64 option"

datatype user_order_status = UO_Resting | UO_Canceled | UO_Executed | UO_Unknown

record user_order_evidence =
  uo_wire :: venue_order_id
  uo_market :: string
  uo_exchange_index :: i64
  uo_subaccount_number :: i64
  uo_sid :: u64
  uo_side :: side
  uo_yes_price_e4 :: u64
  uo_client_order_id :: client_order_id
  uo_status :: user_order_status
  uo_filled :: u64
  uo_remaining :: u64
  uo_initial :: u64
  uo_updated_ts_ms :: u64
  uo_connection_generation :: u64
  uo_payload_digest :: string

datatype observation_outcome =
    OO_Conflict | OO_Incomplete | OO_NotCovered | OO_RowInconsistent | OO_Consistent bool

record wire_state =
  ws_members :: "member list"
  ws_kind :: wire_kind
  ws_held :: "fill_id list"
  ws_filled_hw :: u64
  ws_status :: backfill_order_status
  ws_generation :: u64
  ws_tracked :: bool
  ws_last :: "observation_outcome option"
  ws_resolved :: bool
  ws_remaining_observation :: "remaining_observation option"
  ws_amend_lineage :: "amend_lineage option"
  ws_latest_user_order :: "user_order_evidence option"
  ws_latest_user_order_revision :: u64
  ws_proved_current_cid :: "client_order_id option"
  ws_observed_exchange_index :: "i64 option"
  ws_authority_hold :: bool
  ws_authority_hold_revision :: u64

datatype wire_marker = WireMarker u64

record row_evidence =
  re_ledger :: ledger_id
  re_wire :: venue_order_id
  re_status :: backfill_order_status
  re_filled :: u64
  re_remaining :: u64
  re_client_order_id :: "client_order_id option"
  re_marker :: wire_marker

record page_meta =
  pm_exhaustive :: bool
  pm_parse_failures :: nat

record member_after =
  ma_client_order_id :: client_order_id
  ma_seq :: u64
  ma_state_after :: order_state
  ma_ctx_after :: order_ctx

record observation_txn_record =
  ob_ledger :: ledger_id
  ob_wire :: venue_order_id
  ob_row :: row_evidence
  ob_page :: "page_meta option"
  ob_page_ids :: "fill_id list"
  ob_outcome :: observation_outcome
  ob_inventory_generation_before :: u64
  ob_wire_generation_before :: u64
  ob_members_after :: "member_after list"
  ob_wire_after :: wire_state

record order_state_txn_record =
  os_ledger :: ledger_id
  os_wire :: venue_order_id
  os_evidence :: user_order_evidence
  os_inventory_generation_before :: u64
  os_wire_generation_before :: u64
  os_wire_after :: wire_state

record rest_order_proof_txn_record =
  rp_ledger :: ledger_id
  rp_wire :: venue_order_id
  rp_client_order_id :: client_order_id
  rp_filled :: u64
  rp_remaining :: u64
  rp_initial :: u64
  rp_inventory_generation_before :: u64
  rp_wire_generation_before :: u64
  rp_wire_after :: wire_state


section \<open>Journal records\<close>

datatype (plugins only: code size) journal_record =
    J_SubmitPrepared client_order_id
  | J_SubmitStarted attempt_id
  | J_SubmitResponse venue_order_id u64 u64 "u64 option" "u64 option" "snapshot_boundary option"
  | J_SubmitUnknown
  | J_SubmitUnknownCid client_order_id
  | J_Fill fill_id u64 u64 i64 "u64 option" "venue_order_id option"
  | J_FillCid client_order_id fill_id u64 u64 i64 "u64 option" "venue_order_id option"
  | J_FeeCorrection fill_id u64
  | J_CancelRequested
  | J_CancelOutcome cancel_outcome
  | J_CancelRequestedCid client_order_id
  | J_CancelOutcomeCid client_order_id cancel_outcome
  | J_VenueBoundCid client_order_id venue_order_id
  | J_ImmediateFillUnattributed venue_order_id u64 u64 "u64 option" "u64 option"
  | J_ImmediateFillUnresolved
  | J_ImmediateFillUnresolvedCid client_order_id
  | J_UnknownNoMatch
  | J_UnknownNoMatchCid client_order_id
  | J_Halted halt_reason
  | J_VenueBound venue_order_id
  | J_ObligationRaised u64 u64
  | J_AuthorityLatched u64
  | J_AuthorityInvalidated u64
  | J_ReconcileObserved venue_order_id u64 u64 u64 bool u64
  | J_OrderTerminal terminal_kind "venue_order_id option" u64 bool u64 u64 u64
  | J_OrderTxn order_txn_record
  | J_ExecutionTxn execution_txn_record
  | J_ObservationTxn observation_txn_record
  | J_AmendLineage ledger_id venue_order_id "amend_lineage option"
  | J_UserOrderReceived ledger_id venue_order_id user_order_evidence
  | J_UserOrderQuarantined ledger_id "venue_order_id option" "client_order_id option" string
  | J_OrderAuthorityHold ledger_id venue_order_id
  | J_UserOrderStaged ledger_id client_order_id "user_order_evidence option"
  | J_OrderStateTxn order_state_txn_record
  | J_RestOrderProofTxn rest_order_proof_txn_record
  | J_OwnActionCid client_order_id own_action_kind
and order_txn_record = OrderTxnRecord
      (ot_ledger: ledger_id) (ot_client_order_id: client_order_id) (ot_seq: u64)
      (ot_event: string) (ot_outcome: batch_outcome) (ot_core_records: "journal_record list")
      (ot_state_after: order_state) (ot_ctx_after: order_ctx)
and execution_txn_record = ExecutionTxnRecord
      (et_ledger: ledger_id) (et_inventory_generation_before: u64)
      (et_executions: "execution_outcome list") (et_order: "order_txn_record option")


section \<open>Effects and transition outcomes\<close>

datatype effect =
    AppendFsync journal_record
  | BackfillFills venue_order_id
  | BackfillUnknown client_order_id
  | ReconcileCancel "venue_order_id option"
  | RequestAuthorityReconcile "venue_order_id option" client_order_id
  | AccountFill fill_id u64 u64 i64 u64
  | AccountFeeCorrection fill_id u64
  | ReleaseReservation
  | ReserveFull
  | HaltNewExposure
  | Observation observation_outcome

definition fill_journal_record ::
  "client_order_id \<Rightarrow> fill_id \<Rightarrow> u64 \<Rightarrow> u64 \<Rightarrow> i64 \<Rightarrow> u64 option \<Rightarrow> venue_order_id option
    \<Rightarrow> journal_record" where
  "fill_journal_record cid fid qty price ts fee venue = J_FillCid cid fid qty price ts fee venue"

fun is_resubmit :: "effect \<Rightarrow> bool" where
  "is_resubmit _ = False"

fun is_io_effect :: "effect \<Rightarrow> bool" where
  "is_io_effect (AppendFsync _) = True"
| "is_io_effect (BackfillFills _) = True"
| "is_io_effect (BackfillUnknown _) = True"
| "is_io_effect (ReconcileCancel _) = True"
| "is_io_effect (RequestAuthorityReconcile _ _) = True"
| "is_io_effect HaltNewExposure = True"
| "is_io_effect ReserveFull = True"
| "is_io_effect _ = False"

fun is_account_fill :: "effect \<Rightarrow> bool" where
  "is_account_fill (AccountFill _ _ _ _ _) = True"
| "is_account_fill _ = False"

fun is_fee_correction :: "effect \<Rightarrow> bool" where
  "is_fee_correction (AccountFeeCorrection _ _) = True"
| "is_fee_correction _ = False"

datatype reservation_hold = Full | Released

fun reservation_held :: "order_state \<Rightarrow> reservation_hold" where
  "reservation_held St_Canceled = Released"
| "reservation_held St_Filled = Released"
| "reservation_held St_Terminal = Released"
| "reservation_held (St_SubmissionClosed _) = Released"
| "reservation_held _ = Full"

datatype transition_outcome =
    Accept order_state "effect list"
  | Reject reject_reason
  | Halt order_state halt_reason "effect list"

fun outcome_effects :: "transition_outcome \<Rightarrow> effect list" where
  "outcome_effects (Accept _ es) = es"
| "outcome_effects (Halt _ _ es) = es"
| "outcome_effects (Reject _) = []"

fun outcome_new_state :: "transition_outcome \<Rightarrow> order_state option" where
  "outcome_new_state (Accept s _) = Some s"
| "outcome_new_state (Halt s _ _) = Some s"
| "outcome_new_state (Reject _) = None"

fun is_reject :: "transition_outcome \<Rightarrow> bool" where
  "is_reject (Reject _) = True"
| "is_reject _ = False"

fun is_halt :: "transition_outcome \<Rightarrow> bool" where
  "is_halt (Halt _ _ _) = True"
| "is_halt _ = False"

definition has_resubmit_effect :: "transition_outcome \<Rightarrow> bool" where
  "has_resubmit_effect t = list_ex is_resubmit (outcome_effects t)"

definition account_fill_count :: "transition_outcome \<Rightarrow> nat" where
  "account_fill_count t = length (filter is_account_fill (outcome_effects t))"

fun prepend_effects :: "effect list \<Rightarrow> transition_outcome \<Rightarrow> transition_outcome" where
  "prepend_effects p (Accept s es) = Accept s (p @ es)"
| "prepend_effects p (Halt s r es) = Halt s r (p @ es)"
| "prepend_effects p (Reject r) = Reject r"

text \<open>The durable records among the effects, in order.\<close>

fun journal_of :: "effect list \<Rightarrow> journal_record list" where
  "journal_of [] = []"
| "journal_of (AppendFsync r # es) = r # journal_of es"
| "journal_of (_ # es) = journal_of es"

lemma journal_of_append [simp]: "journal_of (es @ fs) = journal_of es @ journal_of fs"
  by (induction es rule: journal_of.induct) auto

lemma outcome_effects_prepend:
  "\<not> is_reject t \<Longrightarrow> outcome_effects (prepend_effects p t) = p @ outcome_effects t"
  by (cases t) auto

lemma outcome_new_state_prepend [simp]:
  "outcome_new_state (prepend_effects p t) = outcome_new_state t"
  by (cases t) auto

end
