(* ===== verification/Order_Ctx.thy ===== *)
theory Order_Ctx
  imports Journal_Types
begin

text \<open>
  The order context and its primitive mutations (\<^verbatim>\<open>src/lifecycle.rs\<close>): obligation
  high-water mark, generation-scoped authority latch, parent venue binding, the response-snapshot
  domain and the booking of a fill. A method that mutates \<open>ctx\<close> returns the new context; a
  \<open>Result\<close> is a sum with the error on the left, and the error paths return exactly the
  context the code leaves behind.
\<close>

section \<open>Obligation, authority, remaining\<close>

definition invalidate_authority :: "order_ctx \<Rightarrow> order_ctx" where
  "invalidate_authority c =
     c\<lparr>authority_epoch := sat_add_u64 (authority_epoch c) 1, authority_complete := False\<rparr>"

definition raise_fill_obligation :: "order_ctx \<Rightarrow> u64 \<Rightarrow> halt_reason + order_ctx" where
  "raise_fill_obligation c evidence =
     (if evidence > order_qty c then Inl (H_ObligationExceedsOrderQty evidence (order_qty c))
      else if evidence > fill_obligation c then
        (let c1 = c\<lparr>fill_obligation := evidence\<rparr> in
         Inr (if attributed_fill_qty c1 < fill_obligation c1 then invalidate_authority c1 else c1))
      else Inr c)"

definition authority_is_fresh :: "order_ctx \<Rightarrow> bool" where
  "authority_is_fresh c =
     (authority_complete c \<and> authority_latched_epoch c = authority_epoch c)"

definition latch_authority_complete :: "order_ctx \<Rightarrow> order_ctx" where
  "latch_authority_complete c =
     c\<lparr>authority_complete := True, authority_latched_epoch := authority_epoch c\<rparr>"

definition note_venue_remaining :: "order_ctx \<Rightarrow> u64 \<Rightarrow> order_ctx" where
  "note_venue_remaining c r = c\<lparr>last_venue_remaining_qty := Some r\<rparr>"

definition remaining_qty_checked :: "order_ctx \<Rightarrow> u64 option" where
  "remaining_qty_checked c = checked_sub_u64 (order_qty c) (attributed_fill_qty c)"

definition remaining_qty :: "order_ctx \<Rightarrow> u64" where
  "remaining_qty c = (case remaining_qty_checked c of None \<Rightarrow> 0 | Some r \<Rightarrow> r)"

definition attributed_avg_price_cents :: "order_ctx \<Rightarrow> u64 option" where
  "attributed_avg_price_cents c =
     (if attributed_fill_qty c = 0 then None
      else Some (cast_u64 (attributed_notional_cents c div attributed_fill_qty c)))"


section \<open>Venue identity\<close>

text \<open>The first fill, in key order, that carries another venue id.\<close>

fun foreign_fill ::
  "venue_order_id \<Rightarrow> (fill_id, fill_payload) btree \<Rightarrow> (fill_id \<times> venue_order_id) option" where
  "foreign_fill v [] = None"
| "foreign_fill v ((fid, p) # m) =
     (case fp_venue_order_id p of
        Some got \<Rightarrow> if got \<noteq> v then Some (fid, got) else foreign_fill v m
      | None \<Rightarrow> foreign_fill v m)"

definition bind_venue_id ::
  "order_ctx \<Rightarrow> venue_order_id \<Rightarrow> halt_reason + (order_ctx \<times> journal_record option)" where
  "bind_venue_id c new_id =
     (case venue_order_id_of c of
        None \<Rightarrow>
          (case foreign_fill new_id (applied_fills c) of
             Some (fid, got) \<Rightarrow> Inl (H_FillOwnershipMismatch fid new_id got)
           | None \<Rightarrow>
               Inr (c\<lparr>venue_order_id_of := Some new_id\<rparr>,
                    Some (J_VenueBoundCid (client_order_id_of c) new_id)))
      | Some existing \<Rightarrow>
          if existing = new_id then Inr (c, None)
          else Inl (H_OwnershipConflict existing new_id))"

definition resolve_reconcile_venue ::
  "order_ctx \<Rightarrow> venue_order_id \<Rightarrow> venue_order_id option
    \<Rightarrow> order_ctx \<times> ((halt_reason \<times> journal_record option) + (venue_order_id \<times> journal_record option))"
  where
  "resolve_reconcile_venue c state_vid event_vid =
     (case bind_venue_id c state_vid of
        Inl reason \<Rightarrow> (c, Inl (reason, None))
      | Inr (c1, bind_jr) \<Rightarrow>
          (case event_vid of
             None \<Rightarrow> (c1, Inr (state_vid, bind_jr))
           | Some ev \<Rightarrow>
               (case bind_venue_id c1 ev of
                  Inl reason \<Rightarrow> (c1, Inl (reason, bind_jr))
                | Inr (c2, Some jr) \<Rightarrow> (c2, Inr (ev, Some jr))
                | Inr (c2, None) \<Rightarrow> (c2, Inr (ev, bind_jr)))))"


section \<open>Durable evidence\<close>

definition note_fill_evidence ::
  "order_ctx \<Rightarrow> u64 \<Rightarrow> halt_reason + (order_ctx \<times> journal_record option)" where
  "note_fill_evidence c venue_filled =
     (case raise_fill_obligation c venue_filled of
        Inl reason \<Rightarrow> Inl reason
      | Inr c1 \<Rightarrow>
          Inr (c1, if fill_obligation c1 > fill_obligation c
                   then Some (J_ObligationRaised (fill_obligation c1) (authority_epoch c1))
                   else None))"

definition restore_fill_obligation :: "order_ctx \<Rightarrow> u64 \<Rightarrow> halt_reason + order_ctx" where
  "restore_fill_obligation c evidence =
     (if evidence > order_qty c then Inl (H_ObligationExceedsOrderQty evidence (order_qty c))
      else Inr (if evidence > fill_obligation c then c\<lparr>fill_obligation := evidence\<rparr> else c))"

definition note_authority_complete ::
  "order_ctx \<Rightarrow> bool \<Rightarrow> order_ctx \<times> journal_record option" where
  "note_authority_complete c complete =
     (if complete
      then (latch_authority_complete c, Some (J_AuthorityLatched (authority_epoch c)))
      else (c, None))"

definition authority_invalidate_effects :: "order_ctx \<Rightarrow> order_ctx \<times> effect list" where
  "authority_invalidate_effects c =
     (let c1 = invalidate_authority c
      in (c1, [AppendFsync (J_AuthorityInvalidated (authority_epoch c1))]))"

text \<open>\<open>push_journal\<close> appends the record to the effects, when there is one.\<close>

fun jeff :: "journal_record option \<Rightarrow> effect list" where
  "jeff None = []"
| "jeff (Some jr) = [AppendFsync jr]"

definition push_journal :: "effect list \<Rightarrow> journal_record option \<Rightarrow> effect list" where
  "push_journal effects jr = effects @ jeff jr"


section \<open>Response-snapshot domain\<close>

definition has_reliable_boundary :: "order_ctx \<Rightarrow> bool" where
  "has_reliable_boundary c =
     (case response_snapshot_boundary c of Some (TsNs _) \<Rightarrow> True | _ \<Rightarrow> False)"

definition fill_in_response_domain :: "order_ctx \<Rightarrow> i64 \<Rightarrow> bool" where
  "fill_in_response_domain c ts =
     (case response_snapshot_boundary c of
        Some (TsNs boundary) \<Rightarrow> ts \<le> boundary
      | Some (BoundarySeq _) \<Rightarrow> False
      | None \<Rightarrow> False)"

definition domain_overfill_text :: "u64 \<Rightarrow> u64 \<Rightarrow> string" where
  "domain_overfill_text dq rc =
     ''response_domain_qty='' @ show_nat dq @ '' > response_fill_count='' @ show_nat rc"

definition response_domain_overfill_detail :: "order_ctx \<Rightarrow> string option" where
  "response_domain_overfill_detail c =
     (case response_fill_count c of
        None \<Rightarrow> None
      | Some rc \<Rightarrow>
          if has_reliable_boundary c \<and> response_domain_qty c > rc
          then Some (domain_overfill_text (response_domain_qty c) rc)
          else None)"

definition accumulate_response_domain ::
  "order_ctx \<Rightarrow> u64 \<Rightarrow> u64 \<Rightarrow> u64 option \<Rightarrow> i64 \<Rightarrow> order_ctx" where
  "accumulate_response_domain c qty price fee ts =
     (if response_fill_count c = None then c
      else if \<not> has_reliable_boundary c then c
      else if \<not> fill_in_response_domain c ts then c
      else
        (let c1 = c\<lparr>response_domain_qty := sat_add_u64 (response_domain_qty c) qty,
                    response_domain_notional_cents :=
                      sat_add_u128 (response_domain_notional_cents c) (qty * price)\<rparr>
         in case fee of
              Some f \<Rightarrow>
                c1\<lparr>response_domain_fee_cents := sat_add_u64 (response_domain_fee_cents c1) f\<rparr>
            | None \<Rightarrow> c1))"

fun accumulate_all :: "(fill_id, fill_payload) btree \<Rightarrow> order_ctx \<Rightarrow> order_ctx" where
  "accumulate_all [] c = c"
| "accumulate_all ((_, p) # m) c =
     accumulate_all m
       (accumulate_response_domain c (fp_qty p) (fp_price_cents p) (fp_fee p) (fp_ts_ns p))"

definition recompute_response_domain :: "order_ctx \<Rightarrow> order_ctx" where
  "recompute_response_domain c =
     (let c1 = c\<lparr>response_domain_qty := 0, response_domain_notional_cents := 0,
                 response_domain_fee_cents := 0\<rparr>
      in if response_fill_count c1 = None \<or> \<not> has_reliable_boundary c1 then c1
         else accumulate_all (applied_fills c1) c1)"

definition notional_avg_mismatch :: "u128 \<Rightarrow> u64 \<Rightarrow> u64 \<Rightarrow> string option" where
  "notional_avg_mismatch attributed response_avg fill_count =
     (if fill_count = 0 then None
      else
        (let expected = response_avg * fill_count;
             tol = fill_count;
             diff = (if attributed \<ge> expected then attributed - expected
                     else expected - attributed)
         in if diff > tol then
              Some (''avg/notional mismatch: response_avg='' @ show_nat response_avg
                @ '' fill_count='' @ show_nat fill_count
                @ '' expected_notional='' @ show_nat expected
                @ '' attributed_notional='' @ show_nat attributed
                @ '' tol='' @ [CHR 0xC2, CHR 0xB1] @ show_nat tol)
            else None))"

definition fee_cross_check_mismatch :: "u64 option \<Rightarrow> u64 \<Rightarrow> string option" where
  "fee_cross_check_mismatch response_fee attributed_fee =
     (case response_fee of
        None \<Rightarrow> None
      | Some resp \<Rightarrow>
          if resp \<noteq> attributed_fee then
            Some (''fee mismatch: response_fee_cents='' @ show_nat resp
              @ '' attributed_fee_cents='' @ show_nat attributed_fee)
          else None)"


section \<open>Fill accounting\<close>

datatype account_attempt =
    AA_NoOp
  | AA_Applied "effect list"
  | AA_Enriched "effect list"
  | AA_Halt halt_reason "effect list"

fun attempt_effects :: "account_attempt \<Rightarrow> effect list" where
  "attempt_effects AA_NoOp = []"
| "attempt_effects (AA_Applied es) = es"
| "attempt_effects (AA_Enriched es) = es"
| "attempt_effects (AA_Halt _ es) = es"

definition missing_venue :: venue_order_id where
  "missing_venue = VenueOrderId ''<missing>''"

text \<open>First sighting of a fill under a bound parent: the fill has to carry the parent's id.\<close>

definition first_sighting_gate ::
  "order_ctx \<Rightarrow> fill_id \<Rightarrow> venue_order_id option \<Rightarrow> halt_reason option" where
  "first_sighting_gate c fid fill_venue =
     (case venue_order_id_of c of
        None \<Rightarrow> None
      | Some expected \<Rightarrow>
          if bt_get (applied_fills c) fid \<noteq> None then None
          else
            (case fill_venue of
               Some got \<Rightarrow>
                 if got = expected then None else Some (H_FillOwnershipMismatch fid expected got)
             | None \<Rightarrow> Some (H_FillOwnershipMismatch fid expected missing_venue)))"

text \<open>
  Re-delivery, venue part: the upgraded venue id and whether it changed.
\<close>

definition upgrade_venue ::
  "order_ctx \<Rightarrow> fill_id \<Rightarrow> venue_order_id option \<Rightarrow> venue_order_id option
    \<Rightarrow> halt_reason + (venue_order_id option \<times> bool)" where
  "upgrade_venue c fid prev_venue fill_venue =
     (case (prev_venue, fill_venue) of
        (None, Some v) \<Rightarrow>
          (case venue_order_id_of c of
             Some bound \<Rightarrow>
               if v \<noteq> bound then Inl (H_FillOwnershipMismatch fid bound v) else Inr (Some v, True)
           | None \<Rightarrow> Inr (Some v, True))
      | (Some old, Some new_v) \<Rightarrow>
          if old \<noteq> new_v then Inl (H_ConflictingFillPayload fid) else Inr (prev_venue, False)
      | (Some _, None) \<Rightarrow> Inl (H_ConflictingFillPayload fid)
      | (None, None) \<Rightarrow> Inr (prev_venue, False))"

text \<open>
  Re-delivery, fee part: the context with the fee booked, the upgraded fee, the effects and
  whether it changed.
\<close>

definition upgrade_fee ::
  "order_ctx \<Rightarrow> fill_id \<Rightarrow> i64 \<Rightarrow> u64 option \<Rightarrow> u64 option
    \<Rightarrow> halt_reason + (order_ctx \<times> u64 option \<times> effect list \<times> bool)" where
  "upgrade_fee c fid prev_ts prev_fee fee =
     (case (prev_fee, fee) of
        (None, Some f) \<Rightarrow>
          (case checked_add_u64 (attributed_fee_cents c) f of
             None \<Rightarrow> Inl (H_FeeOverflow fid)
           | Some new_total \<Rightarrow>
               (let c1 = (if fill_in_response_domain c prev_ts \<and> response_fill_count c \<noteq> None
                          then c\<lparr>response_domain_fee_cents :=
                                   sat_add_u64 (response_domain_fee_cents c) f\<rparr>
                          else c);
                    c2 = c1\<lparr>attributed_fee_cents := new_total\<rparr>
                in Inr (c2, Some f,
                     [AppendFsync (J_FeeCorrection fid f), AccountFeeCorrection fid f], True)))
      | (Some a, Some b) \<Rightarrow>
          if a \<noteq> b then Inl (H_ConflictingFillPayload fid) else Inr (c, prev_fee, [], False)
      | (Some _, None) \<Rightarrow> Inl (H_ConflictingFillPayload fid)
      | (None, None) \<Rightarrow> Inr (c, prev_fee, [], False))"

text \<open>A fill id that is already applied: no-op, conflict, or metadata enrichment.\<close>

definition redeliver_fill ::
  "order_ctx \<Rightarrow> fill_id \<Rightarrow> fill_payload \<Rightarrow> u64 \<Rightarrow> u64 \<Rightarrow> i64 \<Rightarrow> venue_order_id option \<Rightarrow> u64 option
    \<Rightarrow> order_ctx \<times> account_attempt" where
  "redeliver_fill c fid prev qty price ts fill_venue fee =
     (if prev = \<lparr>fp_qty = qty, fp_price_cents = price, fp_fee = fee,
                 fp_venue_order_id = fill_venue, fp_ts_ns = ts\<rparr>
      then (c, AA_NoOp)
      else if fp_qty prev \<noteq> qty \<or> fp_price_cents prev \<noteq> price
      then (c, AA_Halt (H_ConflictingFillPayload fid) [])
      else
        (case upgrade_venue c fid (fp_venue_order_id prev) fill_venue of
           Inl reason \<Rightarrow> (c, AA_Halt reason [])
         | Inr (venue', venue_changed) \<Rightarrow>
             (case upgrade_fee c fid (fp_ts_ns prev) (fp_fee prev) fee of
                Inl reason \<Rightarrow> (c, AA_Halt reason [])
              | Inr (c1, fee', effects, fee_changed) \<Rightarrow>
                  if \<not> (venue_changed \<or> fee_changed) then
                    (if fp_ts_ns prev \<noteq> ts \<and> fp_fee prev = fee
                        \<and> fp_venue_order_id prev = fill_venue
                     then (c1, AA_NoOp)
                     else (c1, AA_Halt (H_ConflictingFillPayload fid) []))
                  else
                    (let upgraded = prev\<lparr>fp_venue_order_id := venue', fp_fee := fee'\<rparr>
                     in (c1\<lparr>applied_fills := bt_insert fid upgraded (applied_fills c1)\<rparr>,
                         AA_Enriched
                           (AppendFsync (fill_journal_record (client_order_id_of c1) fid qty price
                              (fp_ts_ns upgraded) (fp_fee upgraded) (fp_venue_order_id upgraded))
                            # effects))))))"

text \<open>The context after the plain booking of a new fill, before obligation and authority.\<close>

definition book_fill ::
  "order_ctx \<Rightarrow> fill_id \<Rightarrow> u64 \<Rightarrow> u64 \<Rightarrow> i64 \<Rightarrow> venue_order_id option \<Rightarrow> u64 option
    \<Rightarrow> u64 \<Rightarrow> u64 \<Rightarrow> order_ctx" where
  "book_fill c fid qty price ts fill_venue fee new_attr new_fee_total =
     c\<lparr>applied_fills :=
         bt_insert fid
           \<lparr>fp_qty = qty, fp_price_cents = price, fp_fee = fee,
            fp_venue_order_id = fill_venue, fp_ts_ns = ts\<rparr> (applied_fills c),
       attributed_fill_qty := new_attr,
       attributed_notional_cents := sat_add_u128 (attributed_notional_cents c) (qty * price),
       attributed_fee_cents := new_fee_total\<rparr>"

definition fee_or_zero :: "u64 option \<Rightarrow> u64" where
  "fee_or_zero fee = (case fee of None \<Rightarrow> 0 | Some f \<Rightarrow> f)"

text \<open>The live part of booking: authority, obligation, durable records, then the domain.\<close>

definition settle_booked_fill ::
  "order_ctx \<Rightarrow> fill_id \<Rightarrow> u64 \<Rightarrow> u64 \<Rightarrow> i64 \<Rightarrow> venue_order_id option \<Rightarrow> u64 option
    \<Rightarrow> u64 \<Rightarrow> order_ctx \<times> account_attempt" where
  "settle_booked_fill c fid qty price ts fill_venue fee new_attr =
     (let fill_effects =
            [AppendFsync (fill_journal_record (client_order_id_of c) fid qty price ts fee fill_venue),
             AccountFill fid qty price ts (fee_or_zero fee)];
          c1 = invalidate_authority c;
          effects = [AppendFsync (J_AuthorityInvalidated (authority_epoch c1))]
      in case raise_fill_obligation c1 new_attr of
           Inl reason \<Rightarrow> (c1, AA_Halt reason (effects @ fill_effects))
         | Inr c2 \<Rightarrow>
             (let effects1 = effects @
                    (if fill_obligation c2 > fill_obligation c1
                     then [AppendFsync (J_ObligationRaised (fill_obligation c2) (authority_epoch c2))]
                     else []) @ fill_effects;
                  c3 = accumulate_response_domain c2 qty price fee ts
              in case response_domain_overfill_detail c3 of
                   Some detail \<Rightarrow> (c3, AA_Halt (H_CrossCheckMismatch detail) effects1)
                 | None \<Rightarrow> (c3, AA_Applied effects1)))"

text \<open>The fold's part of booking: the high-water mark only, no epoch and no records.\<close>

definition restore_booked_fill ::
  "order_ctx \<Rightarrow> u64 \<Rightarrow> u64 \<Rightarrow> i64 \<Rightarrow> u64 option \<Rightarrow> u64 \<Rightarrow> order_ctx \<times> account_attempt" where
  "restore_booked_fill c qty price ts fee new_attr =
     (case restore_fill_obligation c new_attr of
        Inl reason \<Rightarrow> (c, AA_Halt reason [])
      | Inr c1 \<Rightarrow> (accumulate_response_domain c1 qty price fee ts, AA_Applied []))"

definition account_new_fill ::
  "order_ctx \<Rightarrow> fill_id \<Rightarrow> u64 \<Rightarrow> u64 \<Rightarrow> i64 \<Rightarrow> venue_order_id option \<Rightarrow> u64 option \<Rightarrow> bool
    \<Rightarrow> order_ctx \<times> account_attempt" where
  "account_new_fill c fid qty price ts fill_venue fee restore_mode =
     (case checked_add_u64 (attributed_fill_qty c) qty of
        None \<Rightarrow> (c, AA_Halt (H_OverFill (attributed_fill_qty c) qty (order_qty c)) [])
      | Some new_attr \<Rightarrow>
          if new_attr > order_qty c
          then (c, AA_Halt (H_OverFill (attributed_fill_qty c) qty (order_qty c)) [])
          else
            (case checked_add_u64 (attributed_fee_cents c) (fee_or_zero fee) of
               None \<Rightarrow> (c, AA_Halt (H_FeeOverflow fid) [])
             | Some new_fee_total \<Rightarrow>
                 (let c1 = book_fill c fid qty price ts fill_venue fee new_attr new_fee_total
                  in if restore_mode then restore_booked_fill c1 qty price ts fee new_attr
                     else settle_booked_fill c1 fid qty price ts fill_venue fee new_attr)))"

definition account_fill_core ::
  "order_ctx \<Rightarrow> fill_id \<Rightarrow> u64 \<Rightarrow> u64 \<Rightarrow> i64 \<Rightarrow> venue_order_id option \<Rightarrow> u64 option \<Rightarrow> bool
    \<Rightarrow> order_ctx \<times> account_attempt" where
  "account_fill_core c fid qty price ts fill_venue fee restore_mode =
     (case first_sighting_gate c fid fill_venue of
        Some reason \<Rightarrow> (c, AA_Halt reason [])
      | None \<Rightarrow>
          (case bt_get (applied_fills c) fid of
             Some prev \<Rightarrow> redeliver_fill c fid prev qty price ts fill_venue fee
           | None \<Rightarrow> account_new_fill c fid qty price ts fill_venue fee restore_mode))"

definition try_account_fill_owned ::
  "order_ctx \<Rightarrow> fill_id \<Rightarrow> u64 \<Rightarrow> u64 \<Rightarrow> i64 \<Rightarrow> venue_order_id option \<Rightarrow> u64 option
    \<Rightarrow> order_ctx \<times> account_attempt" where
  "try_account_fill_owned c fid qty price ts fill_venue fee =
     account_fill_core c fid qty price ts fill_venue fee False"

definition try_account_fill ::
  "order_ctx \<Rightarrow> fill_id \<Rightarrow> u64 \<Rightarrow> u64 \<Rightarrow> i64 \<Rightarrow> venue_order_id option \<Rightarrow> u64 option
    \<Rightarrow> order_ctx \<times> account_attempt" where
  "try_account_fill c fid qty price ts fill_venue fee =
     try_account_fill_owned c fid qty price ts fill_venue fee"

definition try_account_fill_record :: "order_ctx \<Rightarrow> fill_record \<Rightarrow> order_ctx \<times> account_attempt" where
  "try_account_fill_record c f =
     try_account_fill_owned c (fr_fill_id f) (fr_qty f) (fr_price_cents f) (fr_ts_ns f)
       (fr_venue_order_id f) (fr_fee_cents f)"

definition try_account_fill_for_fold ::
  "order_ctx \<Rightarrow> fill_id \<Rightarrow> u64 \<Rightarrow> u64 \<Rightarrow> i64 \<Rightarrow> venue_order_id option \<Rightarrow> u64 option
    \<Rightarrow> order_ctx \<times> account_attempt" where
  "try_account_fill_for_fold c fid qty price ts fill_venue fee =
     account_fill_core c fid qty price ts fill_venue fee True"


section \<open>Frames\<close>

text \<open>Which fields the primitives leave alone.\<close>

lemma accumulate_frame [simp]:
    "client_order_id_of (accumulate_response_domain c q p fee ts) = client_order_id_of c"
    "market_of (accumulate_response_domain c q p fee ts) = market_of c"
    "strategy_of (accumulate_response_domain c q p fee ts) = strategy_of c"
    "side_of (accumulate_response_domain c q p fee ts) = side_of c"
    "price_cents_of (accumulate_response_domain c q p fee ts) = price_cents_of c"
    "order_qty (accumulate_response_domain c q p fee ts) = order_qty c"
    "applied_fills (accumulate_response_domain c q p fee ts) = applied_fills c"
    "attributed_fill_qty (accumulate_response_domain c q p fee ts) = attributed_fill_qty c"
    "fill_obligation (accumulate_response_domain c q p fee ts) = fill_obligation c"
    "venue_order_id_of (accumulate_response_domain c q p fee ts) = venue_order_id_of c"
    "authority_complete (accumulate_response_domain c q p fee ts) = authority_complete c"
    "authority_epoch (accumulate_response_domain c q p fee ts) = authority_epoch c"
    "authority_latched_epoch (accumulate_response_domain c q p fee ts) = authority_latched_epoch c"
    "last_venue_remaining_qty (accumulate_response_domain c q p fee ts) = last_venue_remaining_qty c"
    "response_fill_count (accumulate_response_domain c q p fee ts) = response_fill_count c"
    "response_remaining_count (accumulate_response_domain c q p fee ts) = response_remaining_count c"
    "response_avg_price_cents (accumulate_response_domain c q p fee ts) = response_avg_price_cents c"
    "response_fee_cents (accumulate_response_domain c q p fee ts) = response_fee_cents c"
    "response_snapshot_boundary (accumulate_response_domain c q p fee ts) = response_snapshot_boundary c"
    "attributed_notional_cents (accumulate_response_domain c q p fee ts) = attributed_notional_cents c"
    "attributed_fee_cents (accumulate_response_domain c q p fee ts) = attributed_fee_cents c"
  by (auto simp: accumulate_response_domain_def Let_def split: option.split)

lemma accumulate_all_frame [simp]:
    "client_order_id_of (accumulate_all m c) = client_order_id_of c"
    "market_of (accumulate_all m c) = market_of c"
    "strategy_of (accumulate_all m c) = strategy_of c"
    "side_of (accumulate_all m c) = side_of c"
    "price_cents_of (accumulate_all m c) = price_cents_of c"
    "order_qty (accumulate_all m c) = order_qty c"
    "applied_fills (accumulate_all m c) = applied_fills c"
    "attributed_fill_qty (accumulate_all m c) = attributed_fill_qty c"
    "fill_obligation (accumulate_all m c) = fill_obligation c"
    "venue_order_id_of (accumulate_all m c) = venue_order_id_of c"
    "authority_complete (accumulate_all m c) = authority_complete c"
    "authority_epoch (accumulate_all m c) = authority_epoch c"
    "authority_latched_epoch (accumulate_all m c) = authority_latched_epoch c"
    "last_venue_remaining_qty (accumulate_all m c) = last_venue_remaining_qty c"
    "response_fill_count (accumulate_all m c) = response_fill_count c"
    "response_remaining_count (accumulate_all m c) = response_remaining_count c"
    "response_avg_price_cents (accumulate_all m c) = response_avg_price_cents c"
    "response_fee_cents (accumulate_all m c) = response_fee_cents c"
    "response_snapshot_boundary (accumulate_all m c) = response_snapshot_boundary c"
    "attributed_notional_cents (accumulate_all m c) = attributed_notional_cents c"
    "attributed_fee_cents (accumulate_all m c) = attributed_fee_cents c"
  by (induction m c rule: accumulate_all.induct) auto

lemma recompute_frame [simp]:
    "client_order_id_of (recompute_response_domain c) = client_order_id_of c"
    "market_of (recompute_response_domain c) = market_of c"
    "strategy_of (recompute_response_domain c) = strategy_of c"
    "side_of (recompute_response_domain c) = side_of c"
    "price_cents_of (recompute_response_domain c) = price_cents_of c"
    "order_qty (recompute_response_domain c) = order_qty c"
    "applied_fills (recompute_response_domain c) = applied_fills c"
    "attributed_fill_qty (recompute_response_domain c) = attributed_fill_qty c"
    "fill_obligation (recompute_response_domain c) = fill_obligation c"
    "venue_order_id_of (recompute_response_domain c) = venue_order_id_of c"
    "authority_complete (recompute_response_domain c) = authority_complete c"
    "authority_epoch (recompute_response_domain c) = authority_epoch c"
    "authority_latched_epoch (recompute_response_domain c) = authority_latched_epoch c"
    "last_venue_remaining_qty (recompute_response_domain c) = last_venue_remaining_qty c"
    "response_fill_count (recompute_response_domain c) = response_fill_count c"
    "response_remaining_count (recompute_response_domain c) = response_remaining_count c"
    "response_avg_price_cents (recompute_response_domain c) = response_avg_price_cents c"
    "response_fee_cents (recompute_response_domain c) = response_fee_cents c"
    "response_snapshot_boundary (recompute_response_domain c) = response_snapshot_boundary c"
    "attributed_notional_cents (recompute_response_domain c) = attributed_notional_cents c"
    "attributed_fee_cents (recompute_response_domain c) = attributed_fee_cents c"
  by (auto simp: recompute_response_domain_def Let_def)

lemma boundary_cong:
  "response_snapshot_boundary c = response_snapshot_boundary d \<Longrightarrow>
    has_reliable_boundary c = has_reliable_boundary d"
  "response_snapshot_boundary c = response_snapshot_boundary d \<Longrightarrow>
    fill_in_response_domain c ts = fill_in_response_domain d ts"
  by (auto simp: has_reliable_boundary_def fill_in_response_domain_def)

lemma bind_venue_frame:
  assumes "bind_venue_id c v = Inr (c1, jr)"
  shows "c1 = c\<lparr>venue_order_id_of := Some v\<rparr>"
  using assms by (auto simp: bind_venue_id_def split: option.splits if_splits)

lemma raise_obligation_frame:
  assumes "raise_fill_obligation c n = Inr c1"
  shows "c1 = c\<lparr>fill_obligation := fill_obligation c1, authority_epoch := authority_epoch c1,
                authority_complete := authority_complete c1\<rparr>"
    and "n \<le> fill_obligation c1" and "fill_obligation c1 = max n (fill_obligation c)"
    and "n \<le> order_qty c"
  using assms
  by (auto simp: raise_fill_obligation_def invalidate_authority_def Let_def split: if_splits)

lemma note_evidence_frame:
  assumes "note_fill_evidence c n = Inr (c1, jr)"
  shows "c1 = c\<lparr>fill_obligation := fill_obligation c1, authority_epoch := authority_epoch c1,
                authority_complete := authority_complete c1\<rparr>"
    and "n \<le> fill_obligation c1" and "fill_obligation c1 = max n (fill_obligation c)"
    and "n \<le> order_qty c"
  using assms raise_obligation_frame [of c n c1]
  by (auto simp: note_fill_evidence_def split: sum.splits)

lemma raise_obligation_fields:
  assumes "raise_fill_obligation c n = Inr c1"
  shows "
    client_order_id_of c1 = client_order_id_of c \<and> market_of c1 = market_of c \<and> strategy_of c1 = strategy_of c
    \<and> side_of c1 = side_of c \<and> price_cents_of c1 = price_cents_of c \<and> order_qty c1 = order_qty c
    \<and> applied_fills c1 = applied_fills c \<and> attributed_fill_qty c1 = attributed_fill_qty c \<and> venue_order_id_of c1 = venue_order_id_of c
    \<and> authority_latched_epoch c1 = authority_latched_epoch c \<and> last_venue_remaining_qty c1 = last_venue_remaining_qty c
    \<and> response_fill_count c1 = response_fill_count c \<and> response_remaining_count c1 = response_remaining_count c
    \<and> response_avg_price_cents c1 = response_avg_price_cents c \<and> response_fee_cents c1 = response_fee_cents c
    \<and> response_snapshot_boundary c1 = response_snapshot_boundary c \<and> attributed_notional_cents c1 = attributed_notional_cents c
    \<and> attributed_fee_cents c1 = attributed_fee_cents c \<and> response_domain_qty c1 = response_domain_qty c
    \<and> response_domain_notional_cents c1 = response_domain_notional_cents c \<and> response_domain_fee_cents c1 = response_domain_fee_cents c"
  using assms
  by (auto simp: raise_fill_obligation_def invalidate_authority_def Let_def split: if_splits)

lemma note_evidence_fields:
  assumes "note_fill_evidence c n = Inr (c1, jr)"
  shows "
    client_order_id_of c1 = client_order_id_of c \<and> market_of c1 = market_of c \<and> strategy_of c1 = strategy_of c
    \<and> side_of c1 = side_of c \<and> price_cents_of c1 = price_cents_of c \<and> order_qty c1 = order_qty c
    \<and> applied_fills c1 = applied_fills c \<and> attributed_fill_qty c1 = attributed_fill_qty c \<and> venue_order_id_of c1 = venue_order_id_of c
    \<and> authority_latched_epoch c1 = authority_latched_epoch c \<and> last_venue_remaining_qty c1 = last_venue_remaining_qty c
    \<and> response_fill_count c1 = response_fill_count c \<and> response_remaining_count c1 = response_remaining_count c
    \<and> response_avg_price_cents c1 = response_avg_price_cents c \<and> response_fee_cents c1 = response_fee_cents c
    \<and> response_snapshot_boundary c1 = response_snapshot_boundary c \<and> attributed_notional_cents c1 = attributed_notional_cents c
    \<and> attributed_fee_cents c1 = attributed_fee_cents c \<and> response_domain_qty c1 = response_domain_qty c
    \<and> response_domain_notional_cents c1 = response_domain_notional_cents c \<and> response_domain_fee_cents c1 = response_domain_fee_cents c"
  using assms raise_obligation_fields [of c n c1]
  by (auto simp: note_fill_evidence_def split: sum.splits)

lemma upgrade_fee_frame:
  assumes "upgrade_fee c fid pts pfee fee = Inr (c1, fee', es, ch)"
  shows "c1 = c\<lparr>response_domain_fee_cents := response_domain_fee_cents c1,
                attributed_fee_cents := attributed_fee_cents c1\<rparr>"
  using assms
  by (auto simp: upgrade_fee_def Let_def split: option.splits if_splits)

text \<open>A booking, whatever its outcome, keeps the identity of the order and its response evidence.\<close>

lemma account_frame:
  assumes "account_fill_core c fid q p ts fv fee restore = (c1, a)"
  shows "client_order_id_of c1 = client_order_id_of c \<and> market_of c1 = market_of c
    \<and> strategy_of c1 = strategy_of c \<and> side_of c1 = side_of c
    \<and> price_cents_of c1 = price_cents_of c \<and> order_qty c1 = order_qty c
    \<and> venue_order_id_of c1 = venue_order_id_of c
    \<and> last_venue_remaining_qty c1 = last_venue_remaining_qty c
    \<and> response_fill_count c1 = response_fill_count c
    \<and> response_remaining_count c1 = response_remaining_count c
    \<and> response_avg_price_cents c1 = response_avg_price_cents c
    \<and> response_fee_cents c1 = response_fee_cents c
    \<and> response_snapshot_boundary c1 = response_snapshot_boundary c
    \<and> fill_obligation c \<le> fill_obligation c1"
proof -
  have new: "account_new_fill c fid q p ts fv fee restore = (c1, a) \<Longrightarrow> ?thesis"
    by (auto simp: account_new_fill_def book_fill_def settle_booked_fill_def
        restore_booked_fill_def restore_fill_obligation_def raise_fill_obligation_def
        invalidate_authority_def Let_def split: option.splits if_splits sum.splits)
  have old: "redeliver_fill c fid prev q p ts fv fee = (c1, a) \<Longrightarrow> ?thesis" for prev
    by (auto simp: redeliver_fill_def upgrade_fee_def Let_def
        split: option.splits if_splits sum.splits prod.splits)
  from assms new old show ?thesis
    by (auto simp: account_fill_core_def split: option.splits)
qed

end
