(* ===== verification/Finalize.thy ===== *)
theory Finalize
  imports Order_Ctx
begin

text \<open>
  Halt construction and the single choke point of true terminal states and reservation release
  (\<open>try_finalize_terminal\<close> of \<^verbatim>\<open>src/lifecycle.rs\<close>), gate by gate in the order of
  the code.
\<close>

section \<open>Outcome helpers\<close>

definition accept :: "order_state \<Rightarrow> effect list \<Rightarrow> transition_outcome" where
  "accept st effects = Accept st effects"

definition halt_with_reason :: "halt_reason \<Rightarrow> effect list \<Rightarrow> transition_outcome" where
  "halt_with_reason reason prior =
     Halt (St_Halted reason) reason
       (prior @ [AppendFsync (J_Halted reason), HaltNewExposure])"

fun is_halt_journal :: "effect \<Rightarrow> bool" where
  "is_halt_journal (AppendFsync (J_Halted _)) = True"
| "is_halt_journal (AppendFsync (J_ImmediateFillUnresolvedCid _)) = True"
| "is_halt_journal (AppendFsync (J_UnknownNoMatchCid _)) = True"
| "is_halt_journal _ = False"

definition halt_with_reason_state ::
  "order_state \<Rightarrow> halt_reason \<Rightarrow> effect list \<Rightarrow> transition_outcome" where
  "halt_with_reason_state st reason prior =
     (let prior1 = (if list_ex is_halt_journal prior then prior
                    else prior @ [AppendFsync (J_Halted reason)]);
          prior2 = (if list_ex (\<lambda>e. e = HaltNewExposure) prior1 then prior1
                    else prior1 @ [HaltNewExposure])
      in Halt st reason prior2)"

fun state_name :: "order_state \<Rightarrow> string" where
  "state_name St_New = ''New''"
| "state_name St_SubmitPrepared = ''SubmitPrepared''"
| "state_name (St_SubmitStarted _) = ''SubmitStarted''"
| "state_name St_SubmitUnknown = ''SubmitUnknown''"
| "state_name (St_Accepted _) = ''Accepted''"
| "state_name (St_Partial _ _ _) = ''Partial''"
| "state_name St_Filled = ''Filled''"
| "state_name (St_CancelPending _ _ _ _ _ _ _) = ''CancelPending''"
| "state_name (St_ReconcilePending _ _ _ _ _ _ _) = ''ReconcilePending''"
| "state_name St_Canceled = ''Canceled''"
| "state_name St_Terminal = ''Terminal''"
| "state_name (St_ImmediateFillUnattributed _ _ _ _ _) = ''ImmediateFillUnattributed''"
| "state_name St_ImmediateFillUnresolved = ''ImmediateFillUnresolved''"
| "state_name St_UnknownNoMatch = ''UnknownNoMatch''"
| "state_name (St_Halted _) = ''Halted''"
| "state_name (St_SubmissionClosed _) = ''SubmissionClosed''"

fun event_name :: "order_event \<Rightarrow> string" where
  "event_name Ev_PrepareSubmit = ''PrepareSubmit''"
| "event_name (Ev_StartSubmit _) = ''StartSubmit''"
| "event_name (Ev_SubmitResponse _ _ _ _ _ _) = ''SubmitResponse''"
| "event_name Ev_SubmitTimeout = ''SubmitTimeout''"
| "event_name (Ev_UserOrderRestingClaim _ _) = ''UserOrderRestingClaim''"
| "event_name (Ev_UserOrderTerminalClaim _ _ _) = ''UserOrderTerminalClaim''"
| "event_name (Ev_Fill _ _ _ _ _ _) = ''Fill''"
| "event_name Ev_CancelRequested = ''CancelRequested''"
| "event_name (Ev_CancelOutcome _) = ''CancelOutcome''"
| "event_name (Ev_UnknownBackfillResult _ _) = ''UnknownBackfillResult''"
| "event_name (Ev_ImmediateFillBackfillResult _) = ''ImmediateFillBackfillResult''"
| "event_name Ev_BackfillDeadlineElapsed = ''BackfillDeadlineElapsed''"
| "event_name (Ev_RequestResubmit _) = ''RequestResubmit''"
| "event_name (Ev_ReconcileResult _ _ _ _ _ _) = ''ReconcileResult''"
| "event_name (Ev_DecreaseObserved _ _) = ''DecreaseObserved''"
| "event_name Ev_AmendObserved = ''AmendObserved''"
| "event_name (Ev_CloseSubmission _) = ''CloseSubmission''"

definition reject_illegal :: "order_state \<Rightarrow> order_event \<Rightarrow> transition_outcome" where
  "reject_illegal st ev = Reject (R_IllegalTransition (state_name st) (event_name ev))"


section \<open>Not ready: reconcile and keep the reservation\<close>

fun is_reconcile_cancel :: "effect \<Rightarrow> bool" where
  "is_reconcile_cancel (ReconcileCancel _) = True"
| "is_reconcile_cancel _ = False"

definition not_ready_effects ::
  "order_ctx \<Rightarrow> venue_order_id \<Rightarrow> effect list \<Rightarrow> bool \<Rightarrow> effect list" where
  "not_ready_effects c v effects request_authority =
     (let e1 = (if attributed_fill_qty c < fill_obligation c
                then effects @ [BackfillFills v] else effects)
      in if request_authority \<or> attributed_fill_qty c \<ge> fill_obligation c then
           (let e2 = e1 @ [RequestAuthorityReconcile (Some v) (client_order_id_of c)]
            in if request_authority \<and> \<not> list_ex is_reconcile_cancel e2
               then e2 @ [ReconcileCancel (Some v)] else e2)
         else e1)"

definition not_ready_for_terminal ::
  "order_ctx \<Rightarrow> venue_order_id \<Rightarrow> effect list \<Rightarrow> reconcile_terminal \<Rightarrow> bool \<Rightarrow> u64 option
    \<Rightarrow> transition_outcome" where
  "not_ready_for_terminal c v effects fallback request_authority venue_remaining =
     (let target_qty = max (fill_obligation c) (attributed_fill_qty c);
          vr = (case venue_remaining of Some r \<Rightarrow> Some r | None \<Rightarrow> last_venue_remaining_qty c)
      in accept
           (St_ReconcilePending v (attributed_fill_qty c) (remaining_qty c)
              \<lparr>rt_terminal = fallback, rt_venue_filled_qty = target_qty,
               rt_venue_remaining_qty = vr\<rparr>
              (response_fill_count c) (response_avg_price_cents c) (response_fee_cents c))
           (not_ready_effects c v effects request_authority))"


section \<open>The terminal choke point\<close>

datatype proposed_terminal = PT_Filled u64 u64 | PT_Canceled | PT_Terminal

text \<open>Gate 5: the first fill, in key order, without the parent's venue id.\<close>

datatype ownership_verdict = Owned | Foreign fill_id venue_order_id | Unverified fill_id

fun ownership_scan ::
  "venue_order_id \<Rightarrow> (fill_id, fill_payload) btree \<Rightarrow> ownership_verdict" where
  "ownership_scan v [] = Owned"
| "ownership_scan v ((fid, p) # m) =
     (case fp_venue_order_id p of
        Some got \<Rightarrow> if got = v then ownership_scan v m else Foreign fid got
      | None \<Rightarrow> Unverified fid)"

definition ownership_gate :: "order_ctx \<Rightarrow> ownership_verdict" where
  "ownership_gate c =
     (case venue_order_id_of c of
        None \<Rightarrow> Owned
      | Some expected \<Rightarrow> ownership_scan expected (applied_fills c))"

text \<open>Gate 3: the response-snapshot domain, then average price and fee over it.\<close>

datatype gate_verdict = Pass | Lagging | Contradiction halt_reason

definition response_domain_gate :: "order_ctx \<Rightarrow> gate_verdict" where
  "response_domain_gate c =
     (case response_fill_count c of
        None \<Rightarrow> Pass
      | Some rc \<Rightarrow>
          if has_reliable_boundary c then
            (if response_domain_qty c < rc then Lagging
             else if response_domain_qty c > rc then
               Contradiction (H_CrossCheckMismatch (domain_overfill_text (response_domain_qty c) rc))
             else
               (case (case response_avg_price_cents c of
                        Some avg \<Rightarrow>
                          notional_avg_mismatch (response_domain_notional_cents c) avg rc
                      | None \<Rightarrow> None) of
                  Some detail \<Rightarrow> Contradiction (H_CrossCheckMismatch detail)
                | None \<Rightarrow>
                    (case fee_cross_check_mismatch (response_fee_cents c)
                            (response_domain_fee_cents c) of
                       Some detail \<Rightarrow> Contradiction (H_CrossCheckMismatch detail)
                     | None \<Rightarrow> Pass)))
          else Pass)"

text \<open>Gate 4: a \<open>Filled\<close> terminal needs the whole order filled on both sides.\<close>

definition filled_gate :: "order_ctx \<Rightarrow> u64 \<Rightarrow> u64 \<Rightarrow> gate_verdict" where
  "filled_gate c venue_filled venue_remaining =
     (if venue_filled > order_qty c then
        Contradiction (H_OverFill (attributed_fill_qty c)
          (sat_sub_u64 venue_filled (attributed_fill_qty c)) (order_qty c))
      else
        (case remaining_qty_checked c of
           None \<Rightarrow> Contradiction (H_OverFill (attributed_fill_qty c) 0 (order_qty c))
         | Some remaining \<Rightarrow>
             if venue_filled \<noteq> order_qty c \<or> venue_remaining \<noteq> 0 \<or> remaining \<noteq> 0 then
               (if attributed_fill_qty c > order_qty c
                then Contradiction (H_OverFill (attributed_fill_qty c) 0 (order_qty c))
                else Lagging)
             else Pass))"

fun terminal_of :: "proposed_terminal \<Rightarrow> terminal_kind \<times> order_state" where
  "terminal_of (PT_Filled _ _) = (TK_Filled, St_Filled)"
| "terminal_of PT_Canceled = (TK_Canceled, St_Canceled)"
| "terminal_of PT_Terminal = (TK_Terminal, St_Terminal)"

definition release_terminal ::
  "order_ctx \<Rightarrow> proposed_terminal \<Rightarrow> effect list \<Rightarrow> transition_outcome" where
  "release_terminal c proposed effects =
     (let (kind, new_state) = terminal_of proposed
      in accept new_state
           (effects
            @ [AppendFsync (J_OrderTerminal kind (venue_order_id_of c) (fill_obligation c)
                 (authority_is_fresh c) (authority_epoch c) (attributed_fill_qty c)
                 (attributed_fee_cents c)),
               ReleaseReservation]))"

definition try_finalize_terminal ::
  "order_ctx \<Rightarrow> proposed_terminal \<Rightarrow> venue_order_id \<Rightarrow> effect list \<Rightarrow> reconcile_terminal
    \<Rightarrow> transition_outcome" where
  "try_finalize_terminal c proposed v effects fallback =
     (let pvr = (case proposed of PT_Filled _ r \<Rightarrow> Some r | _ \<Rightarrow> last_venue_remaining_qty c)
      in case ownership_gate c of
           Foreign fid got \<Rightarrow>
             halt_with_reason
               (H_FillOwnershipMismatch fid
                  (case venue_order_id_of c of Some e \<Rightarrow> e | None \<Rightarrow> v) got) effects
         | Unverified fid \<Rightarrow>
             not_ready_for_terminal c v (effects @ [BackfillFills v]) fallback True pvr
         | Owned \<Rightarrow>
             if \<not> authority_is_fresh c then
               not_ready_for_terminal c v effects fallback True pvr
             else if attributed_fill_qty c \<noteq> fill_obligation c then
               not_ready_for_terminal c v effects fallback False pvr
             else
               (case response_domain_gate c of
                  Lagging \<Rightarrow>
                    not_ready_for_terminal c v (effects @ [BackfillFills v]) fallback True pvr
                | Contradiction reason \<Rightarrow> halt_with_reason reason effects
                | Pass \<Rightarrow>
                    (case proposed of
                       PT_Filled vf vr \<Rightarrow>
                         (case filled_gate c vf vr of
                            Contradiction reason \<Rightarrow> halt_with_reason reason effects
                          | Lagging \<Rightarrow>
                              not_ready_for_terminal c v effects RT_Filled False (Some vr)
                          | Pass \<Rightarrow> release_terminal c proposed effects)
                     | _ \<Rightarrow> release_terminal c proposed effects)))"

text \<open>Attribution caught a reconcile target: finalize with the target's own evidence.\<close>

definition finalize_reconcile_target ::
  "order_ctx \<Rightarrow> reconcile_target \<Rightarrow> effect list \<Rightarrow> venue_order_id \<Rightarrow> transition_outcome" where
  "finalize_reconcile_target c target effects v =
     (case rt_terminal target of
        RT_Canceled \<Rightarrow> try_finalize_terminal c PT_Canceled v effects RT_Canceled
      | RT_Filled \<Rightarrow>
          (let vr = (case rt_venue_remaining_qty target of
                       Some r \<Rightarrow> r
                     | None \<Rightarrow>
                         (case last_venue_remaining_qty c of
                            Some r \<Rightarrow> r
                          | None \<Rightarrow>
                              if rt_venue_filled_qty target = order_qty c then 0 else 1))
           in try_finalize_terminal c (PT_Filled (rt_venue_filled_qty target) vr) v effects RT_Filled)
      | RT_Terminal \<Rightarrow> try_finalize_terminal c PT_Terminal v effects RT_Terminal)"

end
