(* ===== verification/Lifecycle.thy ===== *)
theory Lifecycle
  imports Finalize
begin

text \<open>
  The per-order transition function \<open>apply_event\<close> of \<^verbatim>\<open>src/lifecycle.rs\<close> with
  its handlers. A handler that takes \<open>&mut ctx\<close> returns the context beside the outcome. The
  match of the code is one function per group of states, in the order of its arms.
\<close>

section \<open>Live routing\<close>

definition route_live_or_filled ::
  "order_ctx \<Rightarrow> venue_order_id \<Rightarrow> effect list \<Rightarrow> order_ctx \<times> transition_outcome" where
  "route_live_or_filled c v effects =
     (case remaining_qty_checked c of
        None \<Rightarrow> (c, halt_with_reason (H_OverFill (attributed_fill_qty c) 0 (order_qty c)) effects)
      | Some remaining \<Rightarrow>
          if remaining = 0 then
            (let (c1, jr) = note_authority_complete c True
             in (c1, try_finalize_terminal c1 (PT_Filled (attributed_fill_qty c1) 0) v
                       (push_journal effects jr) RT_Filled))
          else if attributed_fill_qty c = 0 then (c, accept (St_Accepted v) effects)
          else (c, accept (St_Partial v (attributed_fill_qty c) remaining) effects))"


section \<open>Immediate fills\<close>

text \<open>The response-domain part of \<open>resolve_unattributed\<close>: stay, halt, or go on.\<close>

datatype resolve_verdict = RV_Stay | RV_Halt halt_reason | RV_Go

definition resolve_domain_check :: "order_ctx \<Rightarrow> u64 \<Rightarrow> u64 \<Rightarrow> resolve_verdict" where
  "resolve_domain_check c rfc rrc =
     (if has_reliable_boundary c then
        (if response_domain_qty c < rfc then RV_Stay
         else if response_domain_qty c \<noteq> rfc then
           RV_Halt (H_ImmediateFillCrossCheckMismatch rfc (response_domain_qty c) rrc
             (sat_sub_u64 (order_qty c) (response_domain_qty c)))
         else if sat_sub_u64 (order_qty c) rfc \<noteq> rrc then
           RV_Halt (H_ImmediateFillCrossCheckMismatch rfc (response_domain_qty c) rrc
             (sat_sub_u64 (order_qty c) rfc))
         else RV_Go)
      else
        (if attributed_fill_qty c < rfc then RV_Stay
         else if remaining_qty_checked c = None then
           RV_Halt (H_OverFill (attributed_fill_qty c) 0 (order_qty c))
         else RV_Go))"

definition resolve_price_check ::
  "order_ctx \<Rightarrow> u64 \<Rightarrow> u64 option \<Rightarrow> u64 option \<Rightarrow> string option" where
  "resolve_price_check c rfc ravg rfee =
     (if has_reliable_boundary c \<and> response_domain_qty c = rfc then
        (let resp_avg = (case ravg of Some a \<Rightarrow> Some a | None \<Rightarrow> response_avg_price_cents c);
             resp_fee = (case rfee of Some f \<Rightarrow> Some f | None \<Rightarrow> response_fee_cents c)
         in case (case resp_avg of
                    Some avg \<Rightarrow> notional_avg_mismatch (response_domain_notional_cents c) avg rfc
                  | None \<Rightarrow> None) of
              Some detail \<Rightarrow> Some detail
            | None \<Rightarrow> fee_cross_check_mismatch resp_fee (response_domain_fee_cents c))
      else None)"

definition carry_avg_fee :: "order_ctx \<Rightarrow> u64 option \<Rightarrow> u64 option \<Rightarrow> order_ctx" where
  "carry_avg_fee c ravg rfee =
     (let c1 = (if response_avg_price_cents c = None
                then c\<lparr>response_avg_price_cents := ravg\<rparr> else c)
      in if response_fee_cents c1 = None then c1\<lparr>response_fee_cents := rfee\<rparr> else c1)"

fun resolve_unattributed ::
  "order_ctx \<Rightarrow> order_state \<Rightarrow> effect list \<Rightarrow> effect list \<Rightarrow> order_ctx \<times> transition_outcome" where
  "resolve_unattributed c (St_ImmediateFillUnattributed v rfc rrc ravg rfee) prior enter =
     (case resolve_domain_check c rfc rrc of
        RV_Stay \<Rightarrow>
          (c, accept (St_ImmediateFillUnattributed v rfc rrc ravg rfee) (prior @ enter))
      | RV_Halt reason \<Rightarrow> (c, halt_with_reason reason (prior @ enter))
      | RV_Go \<Rightarrow>
          (case resolve_price_check c rfc ravg rfee of
             Some detail \<Rightarrow> (c, halt_with_reason (H_CrossCheckMismatch detail) (prior @ enter))
           | None \<Rightarrow> route_live_or_filled (carry_avg_fee c ravg rfee) v (prior @ enter)))"
| "resolve_unattributed c _ prior enter =
     (c, Reject (R_NotApplicable ''resolve_unattributed requires ImmediateFillUnattributed''))"

text \<open>The loop that books the fills of a page, stopping at the first halt.\<close>

fun account_fill_records ::
  "order_ctx \<Rightarrow> effect list \<Rightarrow> fill_record list
    \<Rightarrow> order_ctx \<times> ((halt_reason \<times> effect list) + effect list)" where
  "account_fill_records c effects [] = (c, Inr effects)"
| "account_fill_records c effects (f # fs) =
     (case try_account_fill_record c f of
        (c1, AA_NoOp) \<Rightarrow> account_fill_records c1 effects fs
      | (c1, AA_Applied e) \<Rightarrow> account_fill_records c1 (effects @ e) fs
      | (c1, AA_Enriched e) \<Rightarrow> account_fill_records c1 (effects @ e) fs
      | (c1, AA_Halt reason e) \<Rightarrow> (c1, Inl (reason, effects @ e)))"

definition apply_immediate_fill_backfill ::
  "order_ctx \<Rightarrow> order_state \<Rightarrow> fill_record list \<Rightarrow> order_ctx \<times> transition_outcome" where
  "apply_immediate_fill_backfill c st fills =
     (case st of
        St_ImmediateFillUnattributed v rfc rrc ravg rfee \<Rightarrow>
          (case bind_venue_id c v of
             Inl reason \<Rightarrow> (c, halt_with_reason reason [])
           | Inr (c1, jr) \<Rightarrow>
               (case account_fill_records c1 (push_journal [] jr) fills of
                  (c2, Inl (reason, effects)) \<Rightarrow> (c2, halt_with_reason reason effects)
                | (c2, Inr effects) \<Rightarrow>
                    resolve_unattributed c2 (St_ImmediateFillUnattributed v rfc rrc ravg rfee)
                      effects []))
      | _ \<Rightarrow> (c, reject_illegal st (Ev_ImmediateFillBackfillResult fills)))"


section \<open>Submit response\<close>

definition submit_response_zero ::
  "order_ctx \<Rightarrow> venue_order_id \<Rightarrow> u64 \<Rightarrow> effect list \<Rightarrow> order_ctx \<times> transition_outcome" where
  "submit_response_zero c v remaining_count effects =
     (if attributed_fill_qty c \<noteq> 0 then
        (if remaining_count = order_qty c then route_live_or_filled c v effects
         else (c, halt_with_reason
                    (H_ResponseZeroButLocalFills (attributed_fill_qty c) remaining_count) effects))
      else if remaining_count \<noteq> order_qty c then
        (if remaining_count = 0 then
           (let (c1, jr) = note_authority_complete c True
            in (c1, try_finalize_terminal c1 PT_Canceled v (push_journal effects jr) RT_Canceled))
         else
           (c, halt_with_reason
                 (H_CrossCheckMismatch (''fill_count=0 remaining_count='' @ show_nat remaining_count
                    @ '' != order_qty='' @ show_nat (order_qty c))) effects))
      else (c, accept (St_Accepted v) effects))"

definition set_response_snapshot ::
  "order_ctx \<Rightarrow> u64 \<Rightarrow> u64 \<Rightarrow> u64 option \<Rightarrow> u64 option \<Rightarrow> snapshot_boundary option \<Rightarrow> order_ctx"
  where
  "set_response_snapshot c fill_count remaining_count avg fee boundary =
     c\<lparr>response_fill_count := Some fill_count, response_remaining_count := Some remaining_count,
       response_avg_price_cents := avg, response_fee_cents := fee,
       response_snapshot_boundary := boundary\<rparr>"

definition obligation_records :: "order_ctx \<Rightarrow> order_ctx \<Rightarrow> effect list" where
  "obligation_records before after =
     (if fill_obligation after > fill_obligation before
      then [AppendFsync (J_ObligationRaised (fill_obligation after) (authority_epoch after))]
      else [])
     @ (if authority_epoch after \<noteq> authority_epoch before
        then [AppendFsync (J_AuthorityInvalidated (authority_epoch after))] else [])"

definition submit_response_fills ::
  "order_ctx \<Rightarrow> venue_order_id \<Rightarrow> u64 \<Rightarrow> u64 \<Rightarrow> u64 option \<Rightarrow> u64 option \<Rightarrow> snapshot_boundary option
    \<Rightarrow> effect list \<Rightarrow> order_ctx \<times> transition_outcome" where
  "submit_response_fills c v fill_count remaining_count avg fee boundary effects =
     (let c1 = set_response_snapshot c fill_count remaining_count avg fee boundary
      in case raise_fill_obligation c1 fill_count of
           Inl reason \<Rightarrow> (c1, halt_with_reason reason effects)
         | Inr c2 \<Rightarrow>
             (let effects1 = effects @ obligation_records c1 c2;
                  c3 = recompute_response_domain c2
              in case response_domain_overfill_detail c3 of
                   Some detail \<Rightarrow> (c3, halt_with_reason (H_CrossCheckMismatch detail) effects1)
                 | None \<Rightarrow>
                     (let effects2 = effects1
                            @ [AppendFsync (J_ImmediateFillUnattributed v fill_count remaining_count
                                 avg fee),
                               BackfillFills v];
                          unattributed =
                            St_ImmediateFillUnattributed v fill_count remaining_count avg fee
                      in if attributed_fill_qty c3 > 0
                         then resolve_unattributed c3 unattributed [] effects2
                         else (c3, accept unattributed effects2))))"

definition apply_submit_response ::
  "order_ctx \<Rightarrow> venue_order_id \<Rightarrow> u64 \<Rightarrow> u64 \<Rightarrow> u64 option \<Rightarrow> u64 option \<Rightarrow> snapshot_boundary option
    \<Rightarrow> order_ctx \<times> transition_outcome" where
  "apply_submit_response c v fill_count remaining_count avg fee boundary =
     (let response =
            [AppendFsync (J_SubmitResponse v fill_count remaining_count avg fee boundary)]
      in case bind_venue_id c v of
           Inl reason \<Rightarrow> (c, halt_with_reason reason response)
         | Inr (c1, jr) \<Rightarrow>
             (let effects = push_journal response jr;
                  c2 = note_venue_remaining c1 remaining_count
              in if fill_count = 0 then submit_response_zero c2 v remaining_count effects
                 else submit_response_fills c2 v fill_count remaining_count avg fee boundary
                        effects))"


section \<open>Fills while open\<close>

definition cancel_pending_from ::
  "order_ctx \<Rightarrow> venue_order_id \<Rightarrow> u64 \<Rightarrow> order_state" where
  "cancel_pending_from c v remaining =
     St_CancelPending v (attributed_fill_qty c) remaining (response_fill_count c)
       (response_avg_price_cents c) (response_fee_cents c) None"

definition reconcile_pending_from ::
  "order_ctx \<Rightarrow> venue_order_id \<Rightarrow> u64 \<Rightarrow> reconcile_target \<Rightarrow> order_state" where
  "reconcile_pending_from c v remaining target =
     St_ReconcilePending v (attributed_fill_qty c) remaining target (response_fill_count c)
       (response_avg_price_cents c) (response_fee_cents c)"

text \<open>With a reconcile target: its own evidence decides, never a synthetic remaining.\<close>

definition after_fill_with_target ::
  "order_ctx \<Rightarrow> venue_order_id \<Rightarrow> reconcile_target \<Rightarrow> effect list \<Rightarrow> u64
    \<Rightarrow> order_ctx \<times> transition_outcome" where
  "after_fill_with_target c v target effects remaining =
     (case note_fill_evidence c (rt_venue_filled_qty target) of
        Inl reason \<Rightarrow> (c, halt_with_reason reason effects)
      | Inr (c1, jr) \<Rightarrow>
          (let effects1 = push_journal effects jr
           in if attributed_fill_qty c1 > rt_venue_filled_qty target then
                (if attributed_fill_qty c1 \<le> order_qty c1 then
                   (c1, not_ready_for_terminal c1 v effects1 (rt_terminal target) True
                          (rt_venue_remaining_qty target))
                 else
                   (c1, halt_with_reason
                          (H_CrossCheckMismatch (''attributed_fill_qty=''
                             @ show_nat (attributed_fill_qty c1) @ '' > target.venue_filled_qty=''
                             @ show_nat (rt_venue_filled_qty target))) effects1))
              else if attributed_fill_qty c1 = rt_venue_filled_qty target
                \<and> attributed_fill_qty c1 = fill_obligation c1 then
                (if attributed_fill_qty c1 = order_qty c1 then
                   (let (c2, jr2) = note_authority_complete c1 True
                    in (c2, finalize_reconcile_target c2 target (push_journal effects1 jr2) v))
                 else (c1, finalize_reconcile_target c1 target effects1 v))
              else (c1, accept (reconcile_pending_from c1 v remaining target) effects1)))"

definition after_fill_without_target ::
  "order_ctx \<Rightarrow> venue_order_id \<Rightarrow> effect list \<Rightarrow> u64 \<Rightarrow> bool \<Rightarrow> order_ctx \<times> transition_outcome" where
  "after_fill_without_target c v effects remaining is_enrichment =
     (if remaining = 0 \<and> \<not> is_enrichment then
        (let (c1, jr) = note_authority_complete c True
         in (c1, try_finalize_terminal c1 (PT_Filled (attributed_fill_qty c1) 0) v
                   (push_journal effects jr) RT_Filled))
      else if remaining = 0 \<and> is_enrichment then
        (c, accept (cancel_pending_from c v remaining) effects)
      else if attributed_fill_qty c < fill_obligation c then
        (c, accept (cancel_pending_from c v remaining) effects)
      else (c, accept (cancel_pending_from c v remaining) effects))"

definition after_fill_cancel_or_reconcile ::
  "order_ctx \<Rightarrow> venue_order_id \<Rightarrow> reconcile_target option \<Rightarrow> effect list \<Rightarrow> u64 \<Rightarrow> bool
    \<Rightarrow> order_ctx \<times> transition_outcome" where
  "after_fill_cancel_or_reconcile c v target effects last_fill_qty is_enrichment =
     (case remaining_qty_checked c of
        None \<Rightarrow>
          (c, halt_with_reason
                (H_OverFill (attributed_fill_qty c) last_fill_qty (order_qty c)) effects)
      | Some remaining \<Rightarrow>
          (case target of
             Some t \<Rightarrow> after_fill_with_target c v t effects remaining
           | None \<Rightarrow> after_fill_without_target c v effects remaining is_enrichment))"

definition unknown_venue :: venue_order_id where
  "unknown_venue = VenueOrderId ''unknown''"

definition apply_fill_while_open ::
  "order_state \<Rightarrow> order_ctx \<Rightarrow> fill_id \<Rightarrow> u64 \<Rightarrow> u64 \<Rightarrow> i64 \<Rightarrow> venue_order_id option \<Rightarrow> u64 option
    \<Rightarrow> order_ctx \<times> transition_outcome" where
  "apply_fill_while_open st c fid qty price ts fill_venue fee =
     (case try_account_fill c fid qty price ts fill_venue fee of
        (c1, AA_NoOp) \<Rightarrow> (c1, accept st [])
      | (c1, AA_Halt reason effects) \<Rightarrow> (c1, halt_with_reason reason effects)
      | (c1, AA_Enriched effects) \<Rightarrow>
          (case st of
             St_SubmitStarted _ \<Rightarrow> (c1, accept st effects)
           | St_CancelPending v _ _ _ _ _ target \<Rightarrow>
               after_fill_cancel_or_reconcile c1 v target effects 0 True
           | St_ReconcilePending v _ _ target _ _ _ \<Rightarrow>
               after_fill_cancel_or_reconcile c1 v (Some target) effects 0 True
           | _ \<Rightarrow> (c1, accept st effects))
      | (c1, AA_Applied effects) \<Rightarrow>
          (case st of
             St_SubmitStarted _ \<Rightarrow> (c1, accept st effects)
           | St_CancelPending v _ _ _ _ _ target \<Rightarrow>
               after_fill_cancel_or_reconcile c1 v target effects qty False
           | St_ReconcilePending v _ _ target _ _ _ \<Rightarrow>
               after_fill_cancel_or_reconcile c1 v (Some target) effects qty False
           | _ \<Rightarrow>
               route_live_or_filled c1
                 (case venue_order_id_of c1 of Some v \<Rightarrow> v | None \<Rightarrow> unknown_venue) effects))"

definition apply_fill_dedup_only ::
  "order_ctx \<Rightarrow> fill_id \<Rightarrow> u64 \<Rightarrow> u64 \<Rightarrow> i64 \<Rightarrow> venue_order_id option \<Rightarrow> u64 option \<Rightarrow> order_state
    \<Rightarrow> order_ctx \<times> transition_outcome" where
  "apply_fill_dedup_only c fid qty price ts fill_venue fee stay =
     (case try_account_fill c fid qty price ts fill_venue fee of
        (c1, AA_NoOp) \<Rightarrow> (c1, accept stay [])
      | (c1, AA_Halt reason effects) \<Rightarrow> (c1, halt_with_reason reason effects)
      | (c1, AA_Applied effects) \<Rightarrow> (c1, accept stay effects)
      | (c1, AA_Enriched effects) \<Rightarrow> (c1, accept stay effects))"

end
