(* ===== verification/Reconcile.thy ===== *)
theory Reconcile
  imports Lifecycle
begin

text \<open>
  Recovery of an unknown submission, routing by venue status and the seven-way cancel outcome
  (\<^verbatim>\<open>src/lifecycle.rs\<close>, sections 6.B and 6.C of its design).
\<close>

section \<open>Member frame of a venue snapshot\<close>

definition backfill_member_quantities ::
  "order_ctx \<Rightarrow> u64 \<Rightarrow> u64 \<Rightarrow> halt_reason + (u64 \<times> u64)" where
  "backfill_member_quantities c venue_filled other_members =
     (case (checked_sub_u64 venue_filled other_members, checked_sub_u64 (order_qty c) other_members) of
        (Some filled, Some capacity) \<Rightarrow> Inr (filled, capacity)
      | _ \<Rightarrow>
          Inl (H_CrossCheckMismatch (''other_members_filled='' @ show_nat other_members
            @ '' exceeds venue_filled='' @ show_nat venue_filled
            @ '' or order_qty='' @ show_nat (order_qty c))))"


section \<open>Routing by venue status\<close>

fun is_backfill_unknown :: "effect \<Rightarrow> bool" where
  "is_backfill_unknown (BackfillUnknown _) = True"
| "is_backfill_unknown _ = False"

text \<open>A non-exhaustive match of an unknown submission stays matching-pending.\<close>

definition stay_matching ::
  "order_ctx \<Rightarrow> bool \<Rightarrow> bool \<Rightarrow> transition_outcome \<Rightarrow> transition_outcome" where
  "stay_matching c from_submit_unknown shell_complete t =
     (if from_submit_unknown \<and> \<not> shell_complete then
        (case t of
           Accept (St_ReconcilePending _ _ _ _ _ _ _) e \<Rightarrow>
             accept St_SubmitUnknown
               (if list_ex is_backfill_unknown e then e
                else e @ [BackfillUnknown (client_order_id_of c)])
         | _ \<Rightarrow> t)
      else t)"

definition continue_reconcile_pending ::
  "order_ctx \<Rightarrow> venue_order_id \<Rightarrow> u64 \<Rightarrow> effect list \<Rightarrow> bool \<Rightarrow> bool \<Rightarrow> reconcile_target option
    \<Rightarrow> transition_outcome" where
  "continue_reconcile_pending c v venue_filled effects from_submit_unknown complete target =
     (let effects1 =
            (if attributed_fill_qty c < venue_filled then effects @ [BackfillFills v]
             else if from_submit_unknown \<and> \<not> complete
               then effects @ [BackfillUnknown (client_order_id_of c)]
             else if \<not> complete
               then effects @ [RequestAuthorityReconcile (Some v) (client_order_id_of c),
                               BackfillFills v]
             else effects @ [BackfillFills v])
      in if from_submit_unknown \<and> \<not> complete then accept St_SubmitUnknown effects1
         else
           (case target of
              Some t \<Rightarrow> accept (reconcile_pending_from c v (remaining_qty c) t) effects1
            | None \<Rightarrow>
                if attributed_fill_qty c = 0 then accept (St_Accepted v) effects1
                else accept (St_Partial v (attributed_fill_qty c) (remaining_qty c)) effects1))"

definition route_open ::
  "order_ctx \<Rightarrow> venue_order_id \<Rightarrow> u64 \<Rightarrow> u64 \<Rightarrow> u64 \<Rightarrow> bool \<Rightarrow> bool \<Rightarrow> effect list
    \<Rightarrow> transition_outcome" where
  "route_open c v member_filled member_capacity venue_remaining shell_complete
     from_submit_unknown effects =
     (if from_submit_unknown \<and> \<not> shell_complete then
        accept St_SubmitUnknown
          ((if attributed_fill_qty c < member_filled then effects @ [BackfillFills v] else effects)
           @ [BackfillUnknown (client_order_id_of c)])
      else if attributed_fill_qty c \<noteq> member_filled then
        continue_reconcile_pending c v member_filled effects from_submit_unknown shell_complete None
      else
        (case checked_sub_u64 member_capacity (attributed_fill_qty c) of
           None \<Rightarrow>
             halt_with_reason (H_OverFill (attributed_fill_qty c) 0 (order_qty c)) effects
         | Some remaining \<Rightarrow>
             if venue_remaining \<noteq> remaining then
               halt_with_reason
                 (H_CrossCheckMismatch (''venue_remaining='' @ show_nat venue_remaining
                    @ '' != local_remaining='' @ show_nat remaining)) effects
             else if attributed_fill_qty c = 0 then accept (St_Accepted v) effects
             else accept (St_Partial v (attributed_fill_qty c) remaining) effects))"

definition over_attribution_text :: "order_ctx \<Rightarrow> u64 \<Rightarrow> u64 \<Rightarrow> u64 \<Rightarrow> string" where
  "over_attribution_text c venue_filled other_members member_filled =
     (if other_members = 0 then
        ''attributed_fill_qty='' @ show_nat (attributed_fill_qty c)
        @ '' > venue_filled_qty='' @ show_nat venue_filled
      else
        ''attributed_fill_qty='' @ show_nat (attributed_fill_qty c)
        @ '' > member_filled_qty='' @ show_nat member_filled)"

definition route_by_status ::
  "order_ctx \<Rightarrow> venue_order_id \<Rightarrow> backfill_order_status \<Rightarrow> u64 \<Rightarrow> u64 \<Rightarrow> u64 \<times> u64 \<Rightarrow> u64
    \<Rightarrow> bool \<Rightarrow> bool \<Rightarrow> effect list \<Rightarrow> transition_outcome" where
  "route_by_status c v status venue_filled venue_remaining member other_members shell_complete
     from_submit_unknown effects =
     (if attributed_fill_qty c > fst member then
        halt_with_reason
          (H_CrossCheckMismatch
             (over_attribution_text c venue_filled other_members (fst member))) effects
      else
        (case status of
           BS_Canceled \<Rightarrow>
             stay_matching c from_submit_unknown shell_complete
               (try_finalize_terminal c PT_Canceled v effects RT_Canceled)
         | BS_Filled \<Rightarrow>
             stay_matching c from_submit_unknown shell_complete
               (try_finalize_terminal c (PT_Filled venue_filled venue_remaining) v effects RT_Filled)
         | _ \<Rightarrow>
             route_open c v (fst member) (snd member) venue_remaining shell_complete
               from_submit_unknown effects))"

text \<open>
  The snapshot part, shared by the two callers: bind the parent, note the venue's remaining
  quantity with its durable record, then raise the obligation. An error carries the context and
  the effects the code halts with.
\<close>

definition observe_snapshot ::
  "order_ctx \<Rightarrow> venue_order_id \<Rightarrow> u64 \<Rightarrow> u64 \<Rightarrow> u64 \<Rightarrow> u64
    \<Rightarrow> (order_ctx \<times> halt_reason \<times> effect list) + (order_ctx \<times> effect list)" where
  "observe_snapshot c v venue_filled venue_remaining other_members member_filled =
     (case bind_venue_id c v of
        Inl reason \<Rightarrow> Inl (c, reason, [])
      | Inr (c1, jr) \<Rightarrow>
          (let c2 = note_venue_remaining c1 venue_remaining;
               effects = push_journal [] jr
                 @ [AppendFsync (J_ReconcileObserved v venue_filled venue_remaining other_members
                      False (authority_epoch c2))]
           in case note_fill_evidence c2 member_filled of
                Inl reason \<Rightarrow> Inl (c2, reason, effects)
              | Inr (c3, jr3) \<Rightarrow> Inr (c3, push_journal effects jr3)))"

definition route_from_backfill_status ::
  "order_ctx \<Rightarrow> venue_order_id \<Rightarrow> backfill_order_status \<Rightarrow> u64 \<Rightarrow> u64 \<Rightarrow> u64 \<Rightarrow> fill_record list
    \<Rightarrow> bool \<Rightarrow> bool \<Rightarrow> order_ctx \<times> transition_outcome" where
  "route_from_backfill_status c v status venue_filled venue_remaining other_members extra_fills
     shell_complete from_submit_unknown =
     (case backfill_member_quantities c venue_filled other_members of
        Inl reason \<Rightarrow> (c, halt_with_reason reason [])
      | Inr member \<Rightarrow>
          (case observe_snapshot c v venue_filled venue_remaining other_members (fst member) of
             Inl (c1, reason, effects) \<Rightarrow> (c1, halt_with_reason reason effects)
           | Inr (c1, effects) \<Rightarrow>
               (case account_fill_records c1 effects extra_fills of
                  (c2, Inl (reason, effects1)) \<Rightarrow> (c2, halt_with_reason reason effects1)
                | (c2, Inr effects1) \<Rightarrow>
                    (let (c3, jr) = note_authority_complete c2 shell_complete;
                         effects2 = push_journal effects1 jr
                           @ (if shell_complete then
                                [AppendFsync (J_ReconcileObserved v venue_filled venue_remaining
                                   other_members shell_complete (authority_epoch c3))]
                              else [])
                     in (c3, route_by_status c3 v status venue_filled venue_remaining member
                               other_members shell_complete from_submit_unknown effects2)))))"


section \<open>Unknown submission\<close>

fun account_exhaustive_fills ::
  "venue_order_id \<Rightarrow> order_ctx \<Rightarrow> effect list \<Rightarrow> fill_record list
    \<Rightarrow> order_ctx \<times> ((halt_reason \<times> effect list) + effect list)" where
  "account_exhaustive_fills rv c effects [] = (c, Inr effects)"
| "account_exhaustive_fills rv c effects (f # fs) =
     (if fr_venue_order_id f = None then
        (c, Inl (H_FillOwnershipMismatch (fr_fill_id f) rv missing_venue, effects))
      else
        (case try_account_fill_record c f of
           (c1, AA_NoOp) \<Rightarrow> account_exhaustive_fills rv c1 effects fs
         | (c1, AA_Applied e) \<Rightarrow> account_exhaustive_fills rv c1 (effects @ e) fs
         | (c1, AA_Enriched e) \<Rightarrow> account_exhaustive_fills rv c1 (effects @ e) fs
         | (c1, AA_Halt reason e) \<Rightarrow> (c1, Inl (reason, effects @ e))))"

definition apply_unique_backfill ::
  "order_ctx \<Rightarrow> backfill_order_record \<Rightarrow> order_ctx \<times> transition_outcome" where
  "apply_unique_backfill c rec =
     (case backfill_member_quantities c (bo_filled_qty rec) (bo_other_members_filled rec) of
        Inl reason \<Rightarrow> (c, halt_with_reason reason [])
      | Inr member \<Rightarrow>
          (case observe_snapshot c (bo_venue_order_id rec) (bo_filled_qty rec)
                  (bo_remaining_qty rec) (bo_other_members_filled rec) (fst member) of
             Inl (c1, reason, effects) \<Rightarrow> (c1, halt_with_reason reason effects)
           | Inr (c1, effects) \<Rightarrow>
               (let (c2, jr) = note_authority_complete c1 True
                in case account_exhaustive_fills (bo_venue_order_id rec) c2
                          (push_journal effects jr) (bo_fills rec) of
                     (c3, Inl (reason, effects1)) \<Rightarrow> (c3, halt_with_reason reason effects1)
                   | (c3, Inr effects1) \<Rightarrow>
                       (let (c4, jr4) = note_authority_complete c3 True;
                            (c5, t) = route_from_backfill_status c4 (bo_venue_order_id rec)
                              (bo_status rec) (bo_filled_qty rec) (bo_remaining_qty rec)
                              (bo_other_members_filled rec) [] True True
                        in (c5, prepend_effects (push_journal effects1 jr4) t)))))"

definition apply_unknown_backfill ::
  "order_ctx \<Rightarrow> bool \<Rightarrow> backfill_order_record list \<Rightarrow> order_ctx \<times> transition_outcome" where
  "apply_unknown_backfill c exhaustive matched =
     (case matched of
        [] \<Rightarrow>
          (if exhaustive then
             (c, halt_with_reason_state St_UnknownNoMatch H_UnknownNoMatch
                   [AppendFsync (J_UnknownNoMatchCid (client_order_id_of c))])
           else (c, accept St_SubmitUnknown [BackfillUnknown (client_order_id_of c)]))
      | [rec] \<Rightarrow>
          (if bo_client_order_id rec \<noteq> client_order_id_of c then
             (c, halt_with_reason
                   (H_Operator (''backfill client_order_id mismatch: got ''
                      @ client_str (bo_client_order_id rec) @ '', expected ''
                      @ client_str (client_order_id_of c))) [])
           else if \<not> exhaustive then
             (c, accept St_SubmitUnknown
                   (BackfillUnknown (client_order_id_of c)
                    # (if bo_filled_qty rec > 0 \<and> bo_fills rec = []
                       then [BackfillFills (bo_venue_order_id rec)] else [])))
           else apply_unique_backfill c rec)
      | _ \<Rightarrow> (c, halt_with_reason (H_AmbiguousMatch (length matched)) []))"


section \<open>Cancel outcome\<close>

definition or_else :: "'a option \<Rightarrow> 'a option \<Rightarrow> 'a option" where
  "or_else a b = (case a of Some x \<Rightarrow> Some x | None \<Rightarrow> b)"

text \<open>
  What a cancel outcome does before it is routed: the response snapshot carried by the state
  is kept on the context and raises the obligation.
\<close>

definition carry_response_count ::
  "order_ctx \<Rightarrow> u64 option \<Rightarrow> effect list
    \<Rightarrow> (order_ctx \<times> halt_reason \<times> effect list) + (order_ctx \<times> effect list)" where
  "carry_response_count c rfc effects =
     (case rfc of
        None \<Rightarrow> Inr (c, effects)
      | Some rc \<Rightarrow>
          (let c1 = c\<lparr>response_fill_count := or_else (response_fill_count c) (Some rc)\<rparr>
           in case raise_fill_obligation c1 rc of
                Inl reason \<Rightarrow> Inl (c1, reason, effects)
              | Inr c2 \<Rightarrow> Inr (c2, effects @ obligation_records c1 c2)))"

definition carry_response_prices ::
  "order_ctx \<Rightarrow> u64 option \<Rightarrow> u64 option \<Rightarrow> order_ctx" where
  "carry_response_prices c ravg rfee =
     (let c1 = (if ravg \<noteq> None
                then c\<lparr>response_avg_price_cents := or_else (response_avg_price_cents c) ravg\<rparr>
                else c)
      in if rfee \<noteq> None
         then c1\<lparr>response_fee_cents := or_else (response_fee_cents c1) rfee\<rparr> else c1)"

definition carry_reconcile_target ::
  "order_ctx \<Rightarrow> reconcile_target option \<Rightarrow> effect list
    \<Rightarrow> (order_ctx \<times> halt_reason \<times> effect list) + (order_ctx \<times> effect list)" where
  "carry_reconcile_target c target effects =
     (case target of
        None \<Rightarrow> Inr (c, effects)
      | Some t \<Rightarrow>
          (case note_fill_evidence c (rt_venue_filled_qty t) of
             Inl reason \<Rightarrow> Inl (c, reason, effects)
           | Inr (c1, jr) \<Rightarrow>
               Inr (case rt_venue_remaining_qty t of
                      Some r \<Rightarrow> note_venue_remaining c1 r
                    | None \<Rightarrow> c1,
                    push_journal effects jr)))"

definition route_cancel_outcome ::
  "order_ctx \<Rightarrow> venue_order_id \<Rightarrow> u64 \<Rightarrow> u64 \<Rightarrow> reconcile_target option \<Rightarrow> cancel_outcome
    \<Rightarrow> effect list \<Rightarrow> transition_outcome" where
  "route_cancel_outcome c v filled remaining target outcome effects =
     (let pending = St_CancelPending v filled remaining (response_fill_count c)
                      (response_avg_price_cents c) (response_fee_cents c) target
      in case outcome of
           CO_Canceled \<Rightarrow> try_finalize_terminal c PT_Canceled v effects RT_Canceled
         | CO_AlreadyTerminal \<Rightarrow>
             try_finalize_terminal c PT_Terminal v effects
               (if fill_obligation c > 0 then RT_Filled else RT_Canceled)
         | CO_Accepted \<Rightarrow> accept pending effects
         | CO_Rejected \<Rightarrow>
             (if filled = 0 \<and> attributed_fill_qty c = 0 then accept (St_Accepted v) effects
              else accept (St_Partial v (max (attributed_fill_qty c) filled) (remaining_qty c))
                     effects)
         | _ \<Rightarrow> accept pending (effects @ [ReconcileCancel (Some v)]))"

definition apply_cancel_outcome ::
  "order_ctx \<Rightarrow> venue_order_id \<Rightarrow> u64 \<Rightarrow> u64 \<Rightarrow> u64 option \<Rightarrow> u64 option \<Rightarrow> u64 option
    \<Rightarrow> reconcile_target option \<Rightarrow> cancel_outcome \<Rightarrow> order_ctx \<times> transition_outcome" where
  "apply_cancel_outcome c v filled remaining rfc ravg rfee target outcome =
     (let (c1, inval) = authority_invalidate_effects c;
          effects = inval @ [AppendFsync (J_CancelOutcomeCid (client_order_id_of c1) outcome)]
      in case carry_response_count c1 rfc effects of
           Inl (c2, reason, effects1) \<Rightarrow> (c2, halt_with_reason reason effects1)
         | Inr (c2, effects1) \<Rightarrow>
             (let c3 = carry_response_prices c2 ravg rfee
              in case carry_reconcile_target c3 target effects1 of
                   Inl (c4, reason, effects2) \<Rightarrow> (c4, halt_with_reason reason effects2)
                 | Inr (c4, effects2) \<Rightarrow>
                     (case bind_venue_id c4 v of
                        Inl reason \<Rightarrow> (c4, halt_with_reason reason effects2)
                      | Inr (c5, jr) \<Rightarrow>
                          (c5, route_cancel_outcome c5 v filled remaining target outcome
                                 (push_journal effects2 jr)))))"

end
