(* ===== verification/Apply_Event.thy ===== *)
theory Apply_Event
  imports Reconcile
begin

text \<open>
  \<open>apply_event\<close> of \<^verbatim>\<open>src/lifecycle.rs\<close>: the restart-safe path of frozen states and
  the arms of the match, one function per group of states.
\<close>

section \<open>Submission closure and frozen states\<close>

fun is_restart_frozen :: "order_state \<Rightarrow> bool" where
  "is_restart_frozen St_Filled = True"
| "is_restart_frozen St_Canceled = True"
| "is_restart_frozen St_Terminal = True"
| "is_restart_frozen St_ImmediateFillUnresolved = True"
| "is_restart_frozen St_UnknownNoMatch = True"
| "is_restart_frozen (St_Halted _) = True"
| "is_restart_frozen (St_SubmissionClosed _) = True"
| "is_restart_frozen _ = False"

definition submission_close_blocked :: "order_ctx \<Rightarrow> bool" where
  "submission_close_blocked c =
     (venue_order_id_of c \<noteq> None
      \<or> applied_fills c \<noteq> []
      \<or> attributed_fill_qty c > 0
      \<or> fill_obligation c > 0
      \<or> response_fill_count c \<noteq> None
      \<or> response_remaining_count c \<noteq> None
      \<or> response_avg_price_cents c \<noteq> None
      \<or> response_fee_cents c \<noteq> None
      \<or> response_snapshot_boundary c \<noteq> None
      \<or> last_venue_remaining_qty c \<noteq> None
      \<or> attributed_notional_cents c > 0
      \<or> attributed_fee_cents c > 0
      \<or> response_domain_qty c > 0
      \<or> response_domain_notional_cents c > 0
      \<or> response_domain_fee_cents c > 0
      \<or> authority_complete c)"

definition try_close_submission ::
  "order_ctx \<Rightarrow> submission_close_reason \<Rightarrow> transition_outcome" where
  "try_close_submission c reason =
     (if submission_close_blocked c then
        Reject (R_NotApplicable ''submission close contradiction: bound venue, fill evidence, obligation, or create-response present'')
      else accept (St_SubmissionClosed reason) [])"

definition reserve_again :: "order_state \<Rightarrow> effect list \<Rightarrow> effect list" where
  "reserve_again st effects =
     (if reservation_held st = Released then effects @ [ReserveFull] else effects)"

definition quoted :: "string \<Rightarrow> string" where
  "quoted s = [CHR 0x22] @ s @ [CHR 0x22]"

definition restart_safe_handle ::
  "order_state \<Rightarrow> order_ctx \<Rightarrow> order_event \<Rightarrow> order_ctx \<times> transition_outcome" where
  "restart_safe_handle st c ev =
     (case ev of
        Ev_DecreaseObserved _ _ \<Rightarrow> (c, accept st [])
      | Ev_AmendObserved \<Rightarrow> (c, accept st [])
      | Ev_Fill fid qty price ts venue fee \<Rightarrow>
          (case try_account_fill c fid qty price ts venue fee of
             (c1, AA_NoOp) \<Rightarrow> (c1, accept st [])
           | (c1, AA_Halt reason effects) \<Rightarrow>
               (c1, halt_with_reason reason (reserve_again st effects))
           | (c1, AA_Enriched effects) \<Rightarrow> (c1, accept st effects)
           | (c1, AA_Applied effects) \<Rightarrow>
               (c1, halt_with_reason H_PostTerminalFill (reserve_again st effects)))
      | _ \<Rightarrow>
          (c, Reject (R_NotApplicable (''restart-safe: state '' @ quoted (state_name st)
                @ '' ignores event '' @ event_name ev))))"


section \<open>Shared arms\<close>

definition own_action_accept ::
  "order_state \<Rightarrow> order_ctx \<Rightarrow> order_event \<Rightarrow> transition_outcome" where
  "own_action_accept st c ev =
     (case ev of
        Ev_DecreaseObserved remaining ts \<Rightarrow>
          accept st [AppendFsync (J_OwnActionCid (client_order_id_of c) (OA_Decrease remaining ts))]
      | Ev_AmendObserved \<Rightarrow>
          accept st [AppendFsync (J_OwnActionCid (client_order_id_of c) OA_Amend)]
      | _ \<Rightarrow> reject_illegal st ev)"

definition user_order_terminal_claim ::
  "order_state \<Rightarrow> order_ctx \<Rightarrow> venue_order_id \<Rightarrow> u64 \<Rightarrow> bool \<Rightarrow> order_ctx \<times> transition_outcome" where
  "user_order_terminal_claim st c v filled executed =
     (if venue_order_id_of c \<noteq> Some v
        \<or> attributed_fill_qty c \<noteq> filled
        \<or> (executed \<and> filled \<noteq> order_qty c)
        \<or> (\<not> executed \<and> filled > order_qty c)
      then (c, reject_illegal st (Ev_UserOrderTerminalClaim v filled executed))
      else
        (let c1 = note_venue_remaining c 0;
             (c2, jr) = note_authority_complete c1 True
         in (c2, try_finalize_terminal c2 (if executed then PT_Filled filled 0 else PT_Canceled) v
                   (push_journal [] jr) (if executed then RT_Filled else RT_Canceled))))"

definition cancel_requested ::
  "order_ctx \<Rightarrow> venue_order_id \<Rightarrow> u64 option \<Rightarrow> u64 option \<Rightarrow> u64 option
    \<Rightarrow> order_ctx \<times> transition_outcome" where
  "cancel_requested c v rfc ravg rfee =
     (let (c1, inval) = authority_invalidate_effects c
      in (c1, accept
                (St_CancelPending v (attributed_fill_qty c1) (remaining_qty c1) rfc ravg rfee None)
                (inval @ [AppendFsync (J_CancelRequestedCid (client_order_id_of c1))])))"

definition reconcile_result ::
  "order_ctx \<Rightarrow> venue_order_id \<Rightarrow> backfill_order_status \<Rightarrow> venue_order_id option \<Rightarrow> u64 \<Rightarrow> u64
    \<Rightarrow> fill_record list \<Rightarrow> bool \<Rightarrow> order_ctx \<times> transition_outcome" where
  "reconcile_result c state_vid status vid filled remaining fills complete =
     (case resolve_reconcile_venue c state_vid vid of
        (c1, Inl (reason, bind_jr)) \<Rightarrow> (c1, halt_with_reason reason (push_journal [] bind_jr))
      | (c1, Inr (v, bind_jr)) \<Rightarrow>
          (let (c2, t) = route_from_backfill_status c1 v status filled remaining 0 fills complete False
           in (c2, prepend_effects (push_journal [] bind_jr) t)))"


section \<open>The arms, state by state\<close>

definition on_new :: "order_state \<Rightarrow> order_ctx \<Rightarrow> order_event \<Rightarrow> order_ctx \<times> transition_outcome" where
  "on_new st c ev =
     (case ev of
        Ev_PrepareSubmit \<Rightarrow>
          (c, accept St_SubmitPrepared [AppendFsync (J_SubmitPrepared (client_order_id_of c))])
      | _ \<Rightarrow> (c, reject_illegal st ev))"

definition on_submit_prepared ::
  "order_state \<Rightarrow> order_ctx \<Rightarrow> order_event \<Rightarrow> order_ctx \<times> transition_outcome" where
  "on_submit_prepared st c ev =
     (case ev of
        Ev_StartSubmit attempt \<Rightarrow>
          (c, accept (St_SubmitStarted attempt) [AppendFsync (J_SubmitStarted attempt)])
      | Ev_SubmitResponse _ _ _ _ _ _ \<Rightarrow>
          (c, Reject (R_OrderInvariantViolated
                ''SubmitResponse requires SubmitStarted (Started must be fsynced before HTTP/response)''))
      | Ev_SubmitTimeout \<Rightarrow>
          (c, Reject (R_OrderInvariantViolated ''SubmitTimeout only valid from SubmitStarted''))
      | Ev_PrepareSubmit \<Rightarrow> (c, Reject R_AlreadyPrepared)
      | _ \<Rightarrow> (c, reject_illegal st ev))"

definition on_submit_started ::
  "order_state \<Rightarrow> order_ctx \<Rightarrow> order_event \<Rightarrow> order_ctx \<times> transition_outcome" where
  "on_submit_started st c ev =
     (case ev of
        Ev_SubmitResponse v fill_count remaining_count avg fee boundary \<Rightarrow>
          apply_submit_response c v fill_count remaining_count avg fee boundary
      | Ev_SubmitTimeout \<Rightarrow>
          (c, accept St_SubmitUnknown
                [AppendFsync (J_SubmitUnknownCid (client_order_id_of c)),
                 BackfillUnknown (client_order_id_of c)])
      | Ev_Fill fid qty price ts venue fee \<Rightarrow> apply_fill_while_open st c fid qty price ts venue fee
      | Ev_StartSubmit _ \<Rightarrow> (c, Reject (R_OrderInvariantViolated ''already SubmitStarted''))
      | Ev_CloseSubmission reason \<Rightarrow>
          (case reason of
             ExhaustiveAbsent \<Rightarrow> (c, reject_illegal st ev)
           | _ \<Rightarrow> (c, try_close_submission c reason))
      | _ \<Rightarrow> (c, reject_illegal st ev))"

definition resting_claim ::
  "order_state \<Rightarrow> order_ctx \<Rightarrow> venue_order_id \<Rightarrow> u64 \<Rightarrow> order_ctx \<times> transition_outcome" where
  "resting_claim st c v remaining =
     (if attributed_fill_qty c \<noteq> 0 \<or> remaining \<noteq> order_qty c
      then (c, reject_illegal st (Ev_UserOrderRestingClaim v remaining))
      else
        (case bind_venue_id c v of
           Inl reason \<Rightarrow> (c, halt_with_reason reason [])
         | Inr (c1, jr) \<Rightarrow>
             (note_venue_remaining c1 remaining, accept (St_Accepted v) (push_journal [] jr))))"

definition on_submit_unknown ::
  "order_state \<Rightarrow> order_ctx \<Rightarrow> order_event \<Rightarrow> order_ctx \<times> transition_outcome" where
  "on_submit_unknown st c ev =
     (case ev of
        Ev_UnknownBackfillResult exhaustive matched \<Rightarrow> apply_unknown_backfill c exhaustive matched
      | Ev_UserOrderRestingClaim v remaining \<Rightarrow> resting_claim st c v remaining
      | Ev_RequestResubmit proven \<Rightarrow>
          (if proven then
             (c, Reject (R_NotApplicable ''core never emits resubmit; shell must open a new prepared attempt under proven venue-idempotency policy''))
           else (c, halt_with_reason H_UnprovenIdempotentResubmit []))
      | Ev_Fill fid qty price ts venue fee \<Rightarrow> apply_fill_dedup_only c fid qty price ts venue fee st
      | Ev_CloseSubmission reason \<Rightarrow>
          (case reason of
             ExhaustiveAbsent \<Rightarrow> (c, try_close_submission c reason)
           | _ \<Rightarrow> (c, reject_illegal st ev))
      | _ \<Rightarrow> (c, reject_illegal st ev))"

definition on_live ::
  "order_state \<Rightarrow> venue_order_id \<Rightarrow> order_ctx \<Rightarrow> order_event \<Rightarrow> order_ctx \<times> transition_outcome" where
  "on_live st v c ev =
     (case ev of
        Ev_UserOrderTerminalClaim vid filled executed \<Rightarrow>
          user_order_terminal_claim st c vid filled executed
      | Ev_Fill fid qty price ts venue fee \<Rightarrow> apply_fill_while_open st c fid qty price ts venue fee
      | Ev_CancelRequested \<Rightarrow>
          cancel_requested c v (response_fill_count c) (response_avg_price_cents c)
            (response_fee_cents c)
      | Ev_DecreaseObserved _ _ \<Rightarrow> (c, own_action_accept st c ev)
      | Ev_AmendObserved \<Rightarrow> (c, own_action_accept st c ev)
      | _ \<Rightarrow> (c, reject_illegal st ev))"

definition on_cancel_pending ::
  "order_state \<Rightarrow> venue_order_id \<Rightarrow> u64 \<Rightarrow> u64 \<Rightarrow> u64 option \<Rightarrow> u64 option \<Rightarrow> u64 option
    \<Rightarrow> reconcile_target option \<Rightarrow> order_ctx \<Rightarrow> order_event \<Rightarrow> order_ctx \<times> transition_outcome" where
  "on_cancel_pending st v filled remaining rfc ravg rfee target c ev =
     (case ev of
        Ev_UserOrderTerminalClaim vid claimed executed \<Rightarrow>
          user_order_terminal_claim st c vid claimed executed
      | Ev_CancelOutcome outcome \<Rightarrow>
          apply_cancel_outcome c v filled remaining rfc ravg rfee target outcome
      | Ev_Fill fid qty price ts venue fee \<Rightarrow> apply_fill_while_open st c fid qty price ts venue fee
      | Ev_ReconcileResult status vid vfilled vremaining fills complete \<Rightarrow>
          reconcile_result c v status vid vfilled vremaining fills complete
      | Ev_CancelRequested \<Rightarrow> (c, accept st [])
      | Ev_DecreaseObserved _ _ \<Rightarrow> (c, own_action_accept st c ev)
      | Ev_AmendObserved \<Rightarrow> (c, own_action_accept st c ev)
      | _ \<Rightarrow> (c, reject_illegal st ev))"

definition on_reconcile_pending ::
  "order_state \<Rightarrow> venue_order_id \<Rightarrow> order_ctx \<Rightarrow> order_event \<Rightarrow> order_ctx \<times> transition_outcome" where
  "on_reconcile_pending st v c ev =
     (case ev of
        Ev_UserOrderTerminalClaim vid filled executed \<Rightarrow>
          user_order_terminal_claim st c vid filled executed
      | Ev_Fill fid qty price ts venue fee \<Rightarrow> apply_fill_while_open st c fid qty price ts venue fee
      | Ev_ReconcileResult status vid filled remaining fills complete \<Rightarrow>
          reconcile_result c v status vid filled remaining fills complete
      | Ev_CancelRequested \<Rightarrow> (c, accept st [])
      | Ev_CancelOutcome _ \<Rightarrow> (c, accept st [])
      | Ev_DecreaseObserved _ _ \<Rightarrow> (c, own_action_accept st c ev)
      | Ev_AmendObserved \<Rightarrow> (c, own_action_accept st c ev)
      | _ \<Rightarrow> (c, reject_illegal st ev))"

definition on_immediate_fill ::
  "order_state \<Rightarrow> venue_order_id \<Rightarrow> u64 \<Rightarrow> u64 option \<Rightarrow> u64 option \<Rightarrow> order_ctx \<Rightarrow> order_event
    \<Rightarrow> order_ctx \<times> transition_outcome" where
  "on_immediate_fill st v rfc ravg rfee c ev =
     (case ev of
        Ev_ImmediateFillBackfillResult fills \<Rightarrow> apply_immediate_fill_backfill c st fills
      | Ev_Fill fid qty price ts venue fee \<Rightarrow>
          apply_immediate_fill_backfill c st
            [\<lparr>fr_fill_id = fid, fr_qty = qty, fr_price_cents = price, fr_ts_ns = ts,
              fr_venue_order_id = venue, fr_fee_cents = fee\<rparr>]
      | Ev_CancelRequested \<Rightarrow> cancel_requested c v (Some rfc) ravg rfee
      | Ev_DecreaseObserved _ _ \<Rightarrow> (c, own_action_accept st c ev)
      | Ev_AmendObserved \<Rightarrow> (c, own_action_accept st c ev)
      | Ev_BackfillDeadlineElapsed \<Rightarrow>
          (c, halt_with_reason_state St_ImmediateFillUnresolved H_ImmediateFillUnresolved
                [AppendFsync (J_ImmediateFillUnresolvedCid (client_order_id_of c))])
      | _ \<Rightarrow> (c, reject_illegal st ev))"

definition on_open_state ::
  "order_state \<Rightarrow> order_ctx \<Rightarrow> order_event \<Rightarrow> order_ctx \<times> transition_outcome" where
  "on_open_state st c ev =
     (case st of
        St_New \<Rightarrow> on_new st c ev
      | St_SubmitPrepared \<Rightarrow> on_submit_prepared st c ev
      | St_SubmitStarted _ \<Rightarrow> on_submit_started st c ev
      | St_SubmitUnknown \<Rightarrow> on_submit_unknown st c ev
      | St_Accepted v \<Rightarrow> on_live st v c ev
      | St_Partial v _ _ \<Rightarrow> on_live st v c ev
      | St_CancelPending v filled remaining rfc ravg rfee target \<Rightarrow>
          on_cancel_pending st v filled remaining rfc ravg rfee target c ev
      | St_ReconcilePending v _ _ _ _ _ _ \<Rightarrow> on_reconcile_pending st v c ev
      | St_ImmediateFillUnattributed v rfc _ ravg rfee \<Rightarrow> on_immediate_fill st v rfc ravg rfee c ev
      | _ \<Rightarrow> (c, reject_illegal st ev))"

definition apply_event ::
  "order_state \<Rightarrow> order_ctx \<Rightarrow> order_event \<Rightarrow> order_ctx \<times> transition_outcome" where
  "apply_event st c ev =
     (case (st, ev) of
        (St_SubmissionClosed committed, Ev_CloseSubmission _) \<Rightarrow>
          (c, accept (St_SubmissionClosed committed) [])
      | (St_UnknownNoMatch, Ev_CloseSubmission ExhaustiveAbsent) \<Rightarrow>
          (c, try_close_submission c ExhaustiveAbsent)
      | _ \<Rightarrow>
          if is_restart_frozen st then restart_safe_handle st c ev else on_open_state st c ev)"

end
