(* ===== verification/Journal_Rebuild.thy ===== *)
theory Journal_Rebuild
  imports Apply_Event
begin

text \<open>
  Crash rebuild (\<open>rebuild_ctx_from_journal\<close>) and event replay (\<open>replay\<close>) of
  \<^verbatim>\<open>src/lifecycle.rs\<close>. The match over the record is one function, its larger arms
  definitions of their own.
\<close>

section \<open>Crash rebuild\<close>

definition bind_only :: "order_ctx \<Rightarrow> venue_order_id \<Rightarrow> halt_reason + order_ctx" where
  "bind_only c v = (case bind_venue_id c v of Inl reason \<Rightarrow> Inl reason | Inr (c1, _) \<Rightarrow> Inr c1)"

definition fold_submit_response ::
  "order_ctx \<Rightarrow> venue_order_id \<Rightarrow> u64 \<Rightarrow> u64 \<Rightarrow> u64 option \<Rightarrow> u64 option \<Rightarrow> snapshot_boundary option
    \<Rightarrow> halt_reason + order_ctx" where
  "fold_submit_response c v fill_count remaining_count avg fee boundary =
     (case bind_only c v of
        Inl reason \<Rightarrow> Inl reason
      | Inr c1 \<Rightarrow>
          (let c2 = note_venue_remaining c1 remaining_count
           in if fill_count > 0 then
                (case restore_fill_obligation
                        (set_response_snapshot c2 fill_count remaining_count avg fee boundary)
                        fill_count of
                   Inl reason \<Rightarrow> Inl reason
                 | Inr c3 \<Rightarrow> Inr (recompute_response_domain c3))
              else Inr c2))"

definition fold_fill ::
  "order_ctx \<Rightarrow> fill_id \<Rightarrow> u64 \<Rightarrow> u64 \<Rightarrow> i64 \<Rightarrow> u64 option \<Rightarrow> venue_order_id option
    \<Rightarrow> halt_reason + order_ctx" where
  "fold_fill c fid qty price ts fee venue =
     (case try_account_fill_for_fold c fid qty price ts venue fee of
        (c1, AA_Halt reason _) \<Rightarrow> Inl reason
      | (c1, _) \<Rightarrow> Inr c1)"

definition fold_fee_correction ::
  "order_ctx \<Rightarrow> fill_id \<Rightarrow> u64 \<Rightarrow> halt_reason + order_ctx" where
  "fold_fee_correction c fid delta =
     (case bt_get (applied_fills c) fid of
        None \<Rightarrow> Inr c
      | Some p \<Rightarrow>
          if fp_fee p = None then
            (case checked_add_u64 (attributed_fee_cents c) delta of
               None \<Rightarrow> Inl (H_FeeOverflow fid)
             | Some new_total \<Rightarrow>
                 Inr (c\<lparr>attributed_fee_cents := new_total,
                        applied_fills :=
                          bt_insert fid (p\<lparr>fp_fee := Some delta\<rparr>) (applied_fills c)\<rparr>))
          else Inr c)"

definition fold_cancel :: "order_ctx \<Rightarrow> order_ctx" where
  "fold_cancel c = (if authority_complete c then invalidate_authority c else c)"

definition fold_immediate_fill ::
  "order_ctx \<Rightarrow> venue_order_id \<Rightarrow> u64 \<Rightarrow> u64 \<Rightarrow> u64 option \<Rightarrow> u64 option
    \<Rightarrow> halt_reason + order_ctx" where
  "fold_immediate_fill c v fill_count remaining_count avg fee =
     (case bind_only c v of
        Inl reason \<Rightarrow> Inl reason
      | Inr c1 \<Rightarrow>
          (let c2 = c1\<lparr>response_fill_count := Some fill_count,
                       response_remaining_count := Some remaining_count,
                       response_avg_price_cents := avg, response_fee_cents := fee\<rparr>
           in restore_fill_obligation (note_venue_remaining c2 remaining_count) fill_count))"

definition fold_obligation_raised :: "order_ctx \<Rightarrow> u64 \<Rightarrow> u64 \<Rightarrow> halt_reason + order_ctx" where
  "fold_obligation_raised c obligation epoch =
     (case restore_fill_obligation c obligation of
        Inl reason \<Rightarrow> Inl reason
      | Inr c1 \<Rightarrow>
          (let c2 = c1\<lparr>authority_epoch := max epoch (authority_epoch c1)\<rparr>
           in Inr (if attributed_fill_qty c2 < fill_obligation c2
                   then c2\<lparr>authority_complete := False\<rparr> else c2)))"

definition fold_latched :: "order_ctx \<Rightarrow> u64 \<Rightarrow> order_ctx" where
  "fold_latched c epoch =
     c\<lparr>authority_epoch := max epoch (authority_epoch c), authority_complete := True,
       authority_latched_epoch := epoch\<rparr>"

definition fold_invalidated :: "order_ctx \<Rightarrow> u64 \<Rightarrow> order_ctx" where
  "fold_invalidated c epoch =
     c\<lparr>authority_epoch := max epoch (authority_epoch c), authority_complete := False\<rparr>"

definition fold_observed ::
  "order_ctx \<Rightarrow> venue_order_id \<Rightarrow> u64 \<Rightarrow> u64 \<Rightarrow> u64 \<Rightarrow> bool \<Rightarrow> u64 \<Rightarrow> halt_reason + order_ctx" where
  "fold_observed c v venue_filled venue_remaining other_members shell_complete epoch =
     (case bind_only c v of
        Inl reason \<Rightarrow> Inl reason
      | Inr c1 \<Rightarrow>
          (let c2 = note_venue_remaining c1 venue_remaining;
               c3 = c2\<lparr>authority_epoch := max epoch (authority_epoch c2)\<rparr>
           in case backfill_member_quantities c3 venue_filled other_members of
                Inl reason \<Rightarrow> Inl reason
              | Inr (member_filled, _) \<Rightarrow>
                  if member_filled > order_qty c3 then Inr c3
                  else
                    (case restore_fill_obligation c3 member_filled of
                       Inl reason \<Rightarrow> Inl reason
                     | Inr c4 \<Rightarrow>
                         Inr (if shell_complete then latch_authority_complete c4
                              else if attributed_fill_qty c4 < fill_obligation c4
                              then c4\<lparr>authority_complete := False\<rparr> else c4))))"

definition fold_terminal ::
  "order_ctx \<Rightarrow> venue_order_id option \<Rightarrow> u64 \<Rightarrow> bool \<Rightarrow> u64 \<Rightarrow> u64 \<Rightarrow> u64
    \<Rightarrow> halt_reason + order_ctx" where
  "fold_terminal c venue obligation complete epoch attributed fee =
     (case (case venue of None \<Rightarrow> Inr c | Some v \<Rightarrow> bind_only c v) of
        Inl reason \<Rightarrow> Inl reason
      | Inr c1 \<Rightarrow>
          (case restore_fill_obligation c1 obligation of
             Inl reason \<Rightarrow> Inl reason
           | Inr c2 \<Rightarrow>
               (let c3 = c2\<lparr>authority_epoch := max epoch (authority_epoch c2)\<rparr>;
                    c4 = (if complete
                          then c3\<lparr>authority_complete := True, authority_latched_epoch := epoch\<rparr>
                          else c3);
                    c5 = (if attributed > attributed_fill_qty c4
                          then c4\<lparr>attributed_fill_qty := attributed\<rparr> else c4)
                in Inr (if fee > attributed_fee_cents c5
                        then c5\<lparr>attributed_fee_cents := fee\<rparr> else c5))))"

fun rebuild_step :: "order_ctx \<Rightarrow> journal_record \<Rightarrow> halt_reason + order_ctx" where
  "rebuild_step c (J_SubmitPrepared cid) = Inr (c\<lparr>client_order_id_of := cid\<rparr>)"
| "rebuild_step c (J_SubmitStarted _) = Inr c"
| "rebuild_step c (J_SubmitResponse v fc rc avg fee b) = fold_submit_response c v fc rc avg fee b"
| "rebuild_step c J_SubmitUnknown = Inr c"
| "rebuild_step c (J_SubmitUnknownCid _) = Inr c"
| "rebuild_step c (J_Fill fid q p ts fee v) = fold_fill c fid q p ts fee v"
| "rebuild_step c (J_FillCid _ fid q p ts fee v) = fold_fill c fid q p ts fee v"
| "rebuild_step c (J_FeeCorrection fid delta) = fold_fee_correction c fid delta"
| "rebuild_step c J_CancelRequested = Inr (fold_cancel c)"
| "rebuild_step c (J_CancelOutcome _) = Inr (fold_cancel c)"
| "rebuild_step c (J_CancelRequestedCid _) = Inr (fold_cancel c)"
| "rebuild_step c (J_CancelOutcomeCid _ _) = Inr (fold_cancel c)"
| "rebuild_step c (J_ImmediateFillUnattributed v fc rc avg fee) = fold_immediate_fill c v fc rc avg fee"
| "rebuild_step c (J_VenueBound v) = bind_only c v"
| "rebuild_step c (J_VenueBoundCid _ v) = bind_only c v"
| "rebuild_step c (J_ObligationRaised obl epoch) = fold_obligation_raised c obl epoch"
| "rebuild_step c (J_AuthorityLatched epoch) = Inr (fold_latched c epoch)"
| "rebuild_step c (J_AuthorityInvalidated epoch) = Inr (fold_invalidated c epoch)"
| "rebuild_step c (J_ReconcileObserved v vf vr om shell epoch) = fold_observed c v vf vr om shell epoch"
| "rebuild_step c (J_OrderTerminal _ venue obl complete epoch attr fee) =
     fold_terminal c venue obl complete epoch attr fee"
| "rebuild_step c _ = Inr c"

fun rebuild_ctx_from_journal :: "order_ctx \<Rightarrow> journal_record list \<Rightarrow> halt_reason + order_ctx" where
  "rebuild_ctx_from_journal c [] = Inr c"
| "rebuild_ctx_from_journal c (r # rs) =
     (case rebuild_step c r of
        Inl reason \<Rightarrow> Inl reason
      | Inr c1 \<Rightarrow> rebuild_ctx_from_journal c1 rs)"


section \<open>Replay\<close>

record replay_result =
  rr_state :: order_state
  rr_ctx :: order_ctx
  rr_effects :: "effect list"
  rr_reject :: "reject_reason option"
  rr_halt :: "halt_reason option"

fun replay_from ::
  "order_state \<Rightarrow> order_ctx \<Rightarrow> effect list \<Rightarrow> halt_reason option \<Rightarrow> order_event list
    \<Rightarrow> replay_result" where
  "replay_from st c effects halted [] =
     \<lparr>rr_state = st, rr_ctx = c, rr_effects = effects, rr_reject = None, rr_halt = halted\<rparr>"
| "replay_from st c effects halted (ev # evs) =
     (case apply_event st c ev of
        (c1, Accept st1 es) \<Rightarrow> replay_from st1 c1 (effects @ es) halted evs
      | (c1, Halt st1 reason es) \<Rightarrow> replay_from st1 c1 (effects @ es) (Some reason) evs
      | (c1, Reject reason) \<Rightarrow>
          \<lparr>rr_state = st, rr_ctx = c1, rr_effects = effects, rr_reject = Some reason,
           rr_halt = halted\<rparr>)"

definition replay :: "order_state \<Rightarrow> order_ctx \<Rightarrow> order_event list \<Rightarrow> replay_result" where
  "replay st c evs = replay_from st c [] None evs"

lemma rebuild_append:
  "rebuild_ctx_from_journal c (rs @ ss) =
     (case rebuild_ctx_from_journal c rs of
        Inl reason \<Rightarrow> Inl reason
      | Inr c1 \<Rightarrow> rebuild_ctx_from_journal c1 ss)"
  by (induction rs arbitrary: c) (auto split: sum.splits)

end
