(* ===== verification/Contract.thy ===== *)
theory Contract
  imports Journal_Rebuild
begin

text \<open>
  The contract of a transition. Most properties of \<open>apply_event\<close> relate the context before,
  the effects emitted and the context after, and hold because they hold of each primitive mutation
  with the records the code emits for it. The locale states what such a relation has to satisfy at
  the primitives; the walk through the handlers is done once, inside it, and each property is an
  interpretation.
\<close>

section \<open>Effects without bearing on the context\<close>

fun record_neutral :: "journal_record \<Rightarrow> bool" where
  "record_neutral (J_SubmitStarted _) = True"
| "record_neutral (J_SubmitUnknownCid _) = True"
| "record_neutral (J_ImmediateFillUnresolvedCid _) = True"
| "record_neutral (J_UnknownNoMatchCid _) = True"
| "record_neutral (J_Halted _) = True"
| "record_neutral (J_OwnActionCid _ _) = True"
| "record_neutral _ = False"

fun ctx_neutral :: "effect \<Rightarrow> bool" where
  "ctx_neutral (AppendFsync r) = record_neutral r"
| "ctx_neutral (AccountFill _ _ _ _ _) = False"
| "ctx_neutral (AccountFeeCorrection _ _) = False"
| "ctx_neutral _ = True"

fun is_cancel_record :: "journal_record \<Rightarrow> bool" where
  "is_cancel_record (J_CancelRequestedCid _) = True"
| "is_cancel_record (J_CancelOutcomeCid _ _) = True"
| "is_cancel_record _ = False"

fun is_halt_attempt :: "account_attempt \<Rightarrow> bool" where
  "is_halt_attempt (AA_Halt _ _) = True"
| "is_halt_attempt _ = False"

definition terminal_record :: "order_ctx \<Rightarrow> terminal_kind \<Rightarrow> journal_record" where
  "terminal_record c k =
     J_OrderTerminal k (venue_order_id_of c) (fill_obligation c) (authority_is_fresh c)
       (authority_epoch c) (attributed_fill_qty c) (attributed_fee_cents c)"

text \<open>The events that note a venue remaining without a record of it.\<close>

fun is_claim :: "order_event \<Rightarrow> bool" where
  "is_claim (Ev_UserOrderRestingClaim _ _) = True"
| "is_claim (Ev_UserOrderTerminalClaim _ _ _) = True"
| "is_claim _ = False"

text \<open>The response evidence a state carries is the context's own.\<close>

fun carried :: "order_state \<Rightarrow> order_ctx \<Rightarrow> bool" where
  "carried (St_CancelPending _ _ _ rfc ravg rfee target) c =
     (target = None \<and> rfc = response_fill_count c \<and> ravg = response_avg_price_cents c
      \<and> rfee = response_fee_cents c)"
| "carried (St_ImmediateFillUnattributed v rfc rrc ravg rfee) c =
     (Some rfc = response_fill_count c \<and> ravg = response_avg_price_cents c
      \<and> rfee = response_fee_cents c)"
| "carried _ c = True"

fun outcome_within ::
  "(order_ctx \<Rightarrow> effect list \<Rightarrow> order_ctx \<Rightarrow> bool) \<Rightarrow> (order_ctx \<Rightarrow> effect list \<Rightarrow> order_ctx \<Rightarrow> bool)
    \<Rightarrow> order_ctx \<Rightarrow> order_ctx \<times> transition_outcome \<Rightarrow> bool" where
  "outcome_within R H c0 (c, Accept _ es) = R c0 es c"
| "outcome_within R H c0 (c, Halt _ _ es) = H c0 es c"
| "outcome_within R H c0 (c, Reject _) = True"


section \<open>The contract\<close>

locale transition_contract =
  fixes R :: "order_ctx \<Rightarrow> effect list \<Rightarrow> order_ctx \<Rightarrow> bool"
    and H :: "order_ctx \<Rightarrow> effect list \<Rightarrow> order_ctx \<Rightarrow> bool"
    and silent :: bool
  assumes R_refl: "R c [] c"
    and R_trans: "R c es c1 \<Longrightarrow> R c1 fs c2 \<Longrightarrow> R c (es @ fs) c2"
    and R_H: "R c es c1 \<Longrightarrow> H c es c1"
    and H_trans: "R c es c1 \<Longrightarrow> H c1 fs c2 \<Longrightarrow> H c (es @ fs) c2"
    and H_neutral: "H c es c1 \<Longrightarrow> ctx_neutral e \<Longrightarrow> H c (es @ [e]) c1"
    and neutral: "ctx_neutral e \<Longrightarrow> R c [e] c"
    and prepared: "R c [AppendFsync (J_SubmitPrepared (client_order_id_of c))] c"
    and bind: "bind_venue_id c v = Inr (c1, jr) \<Longrightarrow> R c (jeff jr) c1"
    and evidence: "note_fill_evidence c n = Inr (c1, jr) \<Longrightarrow> R c (jeff jr) c1"
    and raise: "raise_fill_obligation c n = Inr c1 \<Longrightarrow> R c (obligation_records c c1) c1"
    and latch: "R c [AppendFsync (J_AuthorityLatched (authority_epoch c))]
      (latch_authority_complete c)"
    and cancel: "is_cancel_record rec \<Longrightarrow>
      R c [AppendFsync (J_AuthorityInvalidated (authority_epoch (invalidate_authority c))),
           AppendFsync rec] (invalidate_authority c)"
    and account: "account_fill_core c fid q p ts fv fee False = (c1, a) \<Longrightarrow>
      \<not> is_halt_attempt a \<Longrightarrow> R c (attempt_effects a) c1"
    and account_halt: "account_fill_core c fid q p ts fv fee False = (c1, AA_Halt reason es) \<Longrightarrow> H c es c1"
    and observe: "backfill_member_quantities c vf om = Inr m \<Longrightarrow>
      observe_snapshot c v vf vr om (fst m) = Inr (c1, es) \<Longrightarrow> R c es c1"
    and observe_halt: "backfill_member_quantities c vf om = Inr m \<Longrightarrow>
      observe_snapshot c v vf vr om (fst m) = Inl (c1, reason, es) \<Longrightarrow> H c es c1"
    and observed_again: "backfill_member_quantities c vf om = Inr m \<Longrightarrow>
      venue_order_id_of c = Some v \<Longrightarrow> last_venue_remaining_qty c = Some vr \<Longrightarrow>
      authority_is_fresh c \<Longrightarrow> fst m \<le> fill_obligation c \<Longrightarrow>
      R c [AppendFsync (J_ReconcileObserved v vf vr om True (authority_epoch c))] c"
    and terminal: "R c [AppendFsync (terminal_record c k)] c"
    and respond_zero: "bind_venue_id c v = Inr (c1, jr) \<Longrightarrow>
      R c (AppendFsync (J_SubmitResponse v 0 rc avg fee b) # jeff jr) (note_venue_remaining c1 rc)"
    and respond_unbound: "bind_venue_id c v = Inl reason \<Longrightarrow>
      H c [AppendFsync (J_SubmitResponse v fc rc avg fee b)] c"
    and respond_fills: "bind_venue_id c v = Inr (c1, jr) \<Longrightarrow> fc > 0 \<Longrightarrow>
      c2 = set_response_snapshot (note_venue_remaining c1 rc) fc rc avg fee b \<Longrightarrow>
      raise_fill_obligation c2 fc = Inr c3 \<Longrightarrow>
      R c ((AppendFsync (J_SubmitResponse v fc rc avg fee b) # jeff jr) @ obligation_records c2 c3)
        (recompute_response_domain c3)"
    and respond_exceeds: "bind_venue_id c v = Inr (c1, jr) \<Longrightarrow> fc > 0 \<Longrightarrow>
      c2 = set_response_snapshot (note_venue_remaining c1 rc) fc rc avg fee b \<Longrightarrow>
      raise_fill_obligation c2 fc = Inl reason \<Longrightarrow>
      H c (AppendFsync (J_SubmitResponse v fc rc avg fee b) # jeff jr) c2"
    and unattributed: "venue_order_id_of c = Some v \<Longrightarrow> response_fill_count c = Some fc \<Longrightarrow>
      response_remaining_count c = Some rc \<Longrightarrow> response_avg_price_cents c = avg \<Longrightarrow>
      response_fee_cents c = fee \<Longrightarrow> last_venue_remaining_qty c = Some rc \<Longrightarrow>
      fc \<le> fill_obligation c \<Longrightarrow>
      R c [AppendFsync (J_ImmediateFillUnattributed v fc rc avg fee)] c"
    and silent_remaining: "silent \<Longrightarrow> R c [] (note_venue_remaining c r)"
    and silent_count: "silent \<Longrightarrow>
      R c [] (c\<lparr>response_fill_count := or_else (response_fill_count c) (Some n)\<rparr>)"
    and silent_prices: "silent \<Longrightarrow> R c [] (carry_response_prices c ravg rfee)"
    and silent_avg_fee: "silent \<Longrightarrow> R c [] (carry_avg_fee c ravg rfee)"
begin

lemma R_snoc: "R c0 es c \<Longrightarrow> ctx_neutral e \<Longrightarrow> R c0 (es @ [e]) c"
  by (rule R_trans [OF _ neutral])

lemma R_neutrals: "list_all ctx_neutral fs \<Longrightarrow> R c0 es c \<Longrightarrow> R c0 (es @ fs) c"
proof (induction fs arbitrary: es)
  case (Cons f fs)
  then show ?case using R_snoc [of c0 es c f] by fastforce
qed simp

lemma H_neutrals: "list_all ctx_neutral fs \<Longrightarrow> H c0 es c \<Longrightarrow> H c0 (es @ fs) c"
proof (induction fs arbitrary: es)
  case (Cons f fs)
  then show ?case using H_neutral [of c0 es c f] by fastforce
qed simp

lemma halted_H:
  "H c0 es c \<Longrightarrow> outcome_within R H c0 (c, halt_with_reason reason es)"
  by (auto simp: halt_with_reason_def intro!: H_neutrals [of "[_, _]", simplified])

lemma halted: "R c0 es c \<Longrightarrow> outcome_within R H c0 (c, halt_with_reason reason es)"
  by (rule halted_H [OF R_H])

lemma accepted: "R c0 es c \<Longrightarrow> outcome_within R H c0 (c, accept st es)"
  by (simp add: accept_def)

lemma R_push: "R c0 es c \<Longrightarrow> R c (jeff jr) c1 \<Longrightarrow> R c0 (push_journal es jr) c1"
  by (auto simp: push_journal_def intro: R_trans)

lemma R_latch:
  "R c0 es c \<Longrightarrow> note_authority_complete c b = (c1, jr) \<Longrightarrow> R c0 (push_journal es jr) c1"
  by (auto simp: note_authority_complete_def intro!: R_push R_refl latch split: if_splits)

end

end
