(* ===== verification/Contract_Walk.thy ===== *)
theory Contract_Walk
  imports Contract
begin

text \<open>
  The walk through the handlers, inside the contract: every outcome of \<open>apply_event\<close> is
  within the relation. One lemma per definition of the model, in the order the code calls them.
\<close>

lemma carry_avg_fee_own:
  "response_avg_price_cents c = ravg \<Longrightarrow> response_fee_cents c = rfee \<Longrightarrow>
    carry_avg_fee c ravg rfee = c"
  by (cases c) (auto simp: carry_avg_fee_def Let_def)

context transition_contract
begin

lemma not_ready_within:
  "R c0 es c \<Longrightarrow> outcome_within R H c0 (c, not_ready_for_terminal c v es fb ra vr)"
  by (auto simp: not_ready_for_terminal_def not_ready_effects_def Let_def
      intro!: accepted R_neutrals)

lemma release_within:
  assumes "R c0 es c" shows "outcome_within R H c0 (c, release_terminal c p es)"
proof -
  obtain k st where k: "terminal_of p = (k, st)" by (cases "terminal_of p")
  have "R c0 ((es @ [AppendFsync (terminal_record c k)]) @ [ReleaseReservation]) c"
    by (rule R_snoc [OF R_trans [OF assms terminal]]) simp
  then show ?thesis by (simp add: release_terminal_def k terminal_record_def accept_def)
qed

lemma finalize_within:
  assumes "R c0 es c"
  shows "outcome_within R H c0 (c, try_finalize_terminal c p v es fb)"
proof -
  have bf: "R c0 (es @ [BackfillFills v]) c" by (rule R_snoc [OF assms]) simp
  show ?thesis
    using assms bf
    by (auto simp: try_finalize_terminal_def Let_def
        split: ownership_verdict.split gate_verdict.split proposed_terminal.split
        intro: not_ready_within release_within halted)
qed

lemma finalize_target_within:
  "R c0 es c \<Longrightarrow> outcome_within R H c0 (c, finalize_reconcile_target c t es v)"
  by (auto simp: finalize_reconcile_target_def Let_def
      split: reconcile_terminal.split intro: finalize_within)

lemma route_live_within:
  "R c0 es c \<Longrightarrow> outcome_within R H c0 (route_live_or_filled c v es)"
  by (auto simp: route_live_or_filled_def split: option.split prod.split
      intro: halted accepted finalize_within R_latch)

lemma resolve_within:
  assumes "R c0 (prior @ enter) c"
    and "silent \<or> carried (St_ImmediateFillUnattributed v rfc rrc ravg rfee) c"
  shows "outcome_within R H c0
    (resolve_unattributed c (St_ImmediateFillUnattributed v rfc rrc ravg rfee) prior enter)"
proof -
  have "R c [] (carry_avg_fee c ravg rfee)"
    using assms(2) silent_avg_fee R_refl by (auto simp: carry_avg_fee_own)
  from R_trans [OF assms(1) this] have "R c0 (prior @ enter) (carry_avg_fee c ravg rfee)" by simp
  with assms(1) show ?thesis
    by (auto split: resolve_verdict.split option.split intro: halted accepted route_live_within)
qed

lemma account_record_within:
  "try_account_fill_record c f = (c1, a) \<Longrightarrow> \<not> is_halt_attempt a \<Longrightarrow> R c (attempt_effects a) c1"
  "try_account_fill_record c f = (c1, AA_Halt reason es) \<Longrightarrow> H c es c1"
  by (auto simp: try_account_fill_record_def try_account_fill_owned_def intro: account account_halt)

lemma account_records_within:
  assumes "R c0 es c"
  shows "case account_fill_records c es fs of
      (c1, Inl (reason, fs1)) \<Rightarrow> H c0 fs1 c1 | (c1, Inr fs1) \<Rightarrow> R c0 fs1 c1"
  using assms
proof (induction fs arbitrary: c es)
  case (Cons f fs)
  obtain c1 a where a: "try_account_fill_record c f = (c1, a)"
    by (cases "try_account_fill_record c f")
  show ?case
  proof (cases a)
    case AA_NoOp
    with a account_record_within(1) [OF a] R_trans [OF Cons.prems, of "[]" c1]
    have "R c0 es c1" by simp
    from Cons.IH [OF this] a AA_NoOp show ?thesis by simp
  next
    case (AA_Applied e)
    with account_record_within(1) [OF a] R_trans [OF Cons.prems, of e c1]
    have "R c0 (es @ e) c1" by simp
    from Cons.IH [OF this] a AA_Applied show ?thesis by simp
  next
    case (AA_Enriched e)
    with account_record_within(1) [OF a] R_trans [OF Cons.prems, of e c1]
    have "R c0 (es @ e) c1" by simp
    from Cons.IH [OF this] a AA_Enriched show ?thesis by simp
  next
    case (AA_Halt reason e)
    with account_record_within(2) [of c f c1 reason e] a H_trans [OF Cons.prems, of e c1]
    show ?thesis by simp
  qed
qed simp

lemma account_exhaustive_within:
  assumes "R c0 es c"
  shows "case account_exhaustive_fills rv c es fs of
      (c1, Inl (reason, fs1)) \<Rightarrow> H c0 fs1 c1 | (c1, Inr fs1) \<Rightarrow> R c0 fs1 c1"
  using assms
proof (induction fs arbitrary: c es)
  case (Cons f fs)
  show ?case
  proof (cases "fr_venue_order_id f")
    case None
    with R_H [OF Cons.prems] show ?thesis by simp
  next
    case (Some fv)
    obtain c1 a where a: "try_account_fill_record c f = (c1, a)"
      by (cases "try_account_fill_record c f")
    note step = account_record_within(1) [OF a] R_trans [OF Cons.prems]
    show ?thesis
    proof (cases a)
      case AA_NoOp
      with step(1) step(2) [of "[]" c1] have "R c0 es c1" by simp
      from Cons.IH [OF this] a AA_NoOp Some show ?thesis by simp
    next
      case (AA_Applied e)
      with step(1) step(2) [of e c1] have "R c0 (es @ e) c1" by simp
      from Cons.IH [OF this] a AA_Applied Some show ?thesis by simp
    next
      case (AA_Enriched e)
      with step(1) step(2) [of e c1] have "R c0 (es @ e) c1" by simp
      from Cons.IH [OF this] a AA_Enriched Some show ?thesis by simp
    next
      case (AA_Halt reason e)
      with account_record_within(2) [of c f c1 reason e] a H_trans [OF Cons.prems, of e c1] Some
      show ?thesis by simp
    qed
  qed
qed simp

lemma submit_zero_within:
  "R c0 es c \<Longrightarrow> outcome_within R H c0 (submit_response_zero c v rc es)"
  by (auto simp: submit_response_zero_def split: prod.split
      intro: halted accepted finalize_within route_live_within R_latch)

lemma submit_fills_within:
  assumes bound: "bind_venue_id c v = Inr (c1, jr)" and pos: "fc > 0"
  shows "outcome_within R H c
    (submit_response_fills (note_venue_remaining c1 rc) v fc rc avg fee b
       (AppendFsync (J_SubmitResponse v fc rc avg fee b) # jeff jr))"
proof -
  let ?resp = "AppendFsync (J_SubmitResponse v fc rc avg fee b) # jeff jr"
  let ?c2 = "set_response_snapshot (note_venue_remaining c1 rc) fc rc avg fee b"
  show ?thesis
  proof (cases "raise_fill_obligation ?c2 fc")
    case (Inl reason)
    with respond_exceeds [OF bound pos refl Inl, THEN halted_H] show ?thesis
      by (simp add: submit_response_fills_def)
  next
    case (Inr c3)
    let ?c4 = "recompute_response_domain c3"
    let ?es = "?resp @ obligation_records ?c2 c3"
    let ?rec = "J_ImmediateFillUnattributed v fc rc avg fee"
    note c3 = raise_obligation_frame [OF Inr]
    have own: "venue_order_id_of ?c4 = Some v" "response_fill_count ?c4 = Some fc"
      "response_remaining_count ?c4 = Some rc" "response_avg_price_cents ?c4 = avg"
      "response_fee_cents ?c4 = fee" "last_venue_remaining_qty ?c4 = Some rc"
      using raise_obligation_fields [OF Inr] bind_venue_frame [OF bound]
      by (simp_all add: set_response_snapshot_def note_venue_remaining_def)
    have base: "R c ?es ?c4" by (rule respond_fills [OF bound pos refl Inr])
    have full: "R c (?es @ [AppendFsync ?rec, BackfillFills v]) ?c4"
    proof -
      have "R ?c4 [AppendFsync ?rec] ?c4"
        by (rule unattributed) (use own c3(2) in simp_all)
      from R_snoc [OF R_trans [OF base this], of "BackfillFills v"] show ?thesis by simp
    qed
    have res: "outcome_within R H c
        (resolve_unattributed ?c4 (St_ImmediateFillUnattributed v fc rc avg fee) []
           (?es @ [AppendFsync ?rec, BackfillFills v]))"
      by (rule resolve_within) (use full own in simp_all)
    show ?thesis
      using res accepted [OF full] halted [OF base] Inr
      by (auto simp: submit_response_fills_def Let_def simp del: resolve_unattributed.simps
          outcome_within.simps split: option.split)
  qed
qed

lemma submit_response_within:
  "outcome_within R H c (apply_submit_response c v fc rc avg fee b)"
proof (cases "bind_venue_id c v")
  case (Inl reason)
  with respond_unbound [OF Inl, THEN halted_H] show ?thesis
    by (simp add: apply_submit_response_def)
next
  case (Inr p)
  then obtain c1 jr where bound: "bind_venue_id c v = Inr (c1, jr)" by (cases p) auto
  show ?thesis
  proof (cases "fc = 0")
    case True
    with bound submit_zero_within [OF respond_zero [OF bound, of rc avg fee b]] show ?thesis
      by (simp add: apply_submit_response_def push_journal_def)
  next
    case False
    with bound submit_fills_within [OF bound, of fc] show ?thesis
      by (simp add: apply_submit_response_def push_journal_def)
  qed
qed

end

end
