(* ===== verification/Event_Contract.thy ===== *)
theory Event_Contract
  imports Contract_Walk
begin

text \<open>
  Second half of the walk: fills while open, reconciliation, cancel outcomes, and the top of
  \<open>apply_event\<close>. Its last lemma is the contract of the whole transition.
\<close>

lemma member_quantities_cong:
  "order_qty c = order_qty d \<Longrightarrow>
    backfill_member_quantities c vf om = backfill_member_quantities d vf om"
  by (simp add: backfill_member_quantities_def cong: option.case_cong)

lemma observe_fields:
  assumes "observe_snapshot c v vf vr om mf = Inr (c1, es)"
  shows "venue_order_id_of c1 = Some v \<and> last_venue_remaining_qty c1 = Some vr
    \<and> order_qty c1 = order_qty c \<and> mf \<le> fill_obligation c1"
  using assms note_evidence_fields note_evidence_frame(2)
  by (fastforce simp: observe_snapshot_def Let_def note_venue_remaining_def
      split: sum.splits dest: bind_venue_frame)

lemma account_records_frame:
  "account_fill_records c es fs = (c1, x) \<Longrightarrow>
    order_qty c1 = order_qty c \<and> venue_order_id_of c1 = venue_order_id_of c
    \<and> last_venue_remaining_qty c1 = last_venue_remaining_qty c
    \<and> fill_obligation c \<le> fill_obligation c1"
proof (induction fs arbitrary: c es)
  case (Cons f fs)
  obtain c2 a where a: "try_account_fill_record c f = (c2, a)"
    by (cases "try_account_fill_record c f")
  then have "order_qty c2 = order_qty c \<and> venue_order_id_of c2 = venue_order_id_of c
    \<and> last_venue_remaining_qty c2 = last_venue_remaining_qty c
    \<and> fill_obligation c \<le> fill_obligation c2"
    using account_frame
    by (fastforce simp: try_account_fill_record_def try_account_fill_owned_def)
  with Cons a show ?case by (cases a) (fastforce dest: order.trans)+
qed simp

lemma account_records_response:
  "account_fill_records c es fs = (c1, x) \<Longrightarrow>
    response_fill_count c1 = response_fill_count c
    \<and> response_remaining_count c1 = response_remaining_count c
    \<and> response_avg_price_cents c1 = response_avg_price_cents c
    \<and> response_fee_cents c1 = response_fee_cents c"
proof (induction fs arbitrary: c es)
  case (Cons f fs)
  obtain c2 a where a: "try_account_fill_record c f = (c2, a)"
    by (cases "try_account_fill_record c f")
  then have "response_fill_count c2 = response_fill_count c
    \<and> response_remaining_count c2 = response_remaining_count c
    \<and> response_avg_price_cents c2 = response_avg_price_cents c
    \<and> response_fee_cents c2 = response_fee_cents c"
    using account_frame
    by (fastforce simp: try_account_fill_record_def try_account_fill_owned_def)
  with Cons a show ?case by (cases a) fastforce+
qed simp

context transition_contract
begin

lemma after_fill_within:
  assumes "R c0 es c"
  shows "outcome_within R H c0 (after_fill_cancel_or_reconcile c v target es lq en)"
proof -
  have with_target: "outcome_within R H c0 (after_fill_with_target c v t es remaining)" for t remaining
    using assms
    by (auto simp: after_fill_with_target_def Let_def split: sum.split prod.split
        intro: halted accepted not_ready_within finalize_target_within R_push R_latch evidence)
  have without: "outcome_within R H c0 (after_fill_without_target c v es remaining en)" for remaining
    using assms
    by (auto simp: after_fill_without_target_def split: prod.split
        intro: accepted finalize_within R_latch)
  show ?thesis
    using with_target without halted [OF assms]
    by (auto simp: after_fill_cancel_or_reconcile_def split: option.split)
qed

lemma fill_while_open_within:
  "outcome_within R H c (apply_fill_while_open st c fid q p ts fv fee)"
proof -
  obtain c1 a where a: "try_account_fill c fid q p ts fv fee = (c1, a)"
    by (cases "try_account_fill c fid q p ts fv fee")
  then have acc: "account_fill_core c fid q p ts fv fee False = (c1, a)"
    by (simp add: try_account_fill_def try_account_fill_owned_def)
  show ?thesis
  proof (cases a)
    case (AA_Halt reason es)
    with a account_halt [OF acc [unfolded AA_Halt], THEN halted_H] show ?thesis
      by (simp add: apply_fill_while_open_def)
  qed (use a account [OF acc] in \<open>auto simp: apply_fill_while_open_def
      split: order_state.split intro: accepted after_fill_within route_live_within\<close>)
qed

lemma dedup_only_within:
  "outcome_within R H c (apply_fill_dedup_only c fid q p ts fv fee st)"
proof -
  obtain c1 a where a: "try_account_fill c fid q p ts fv fee = (c1, a)"
    by (cases "try_account_fill c fid q p ts fv fee")
  then have acc: "account_fill_core c fid q p ts fv fee False = (c1, a)"
    by (simp add: try_account_fill_def try_account_fill_owned_def)
  show ?thesis
  proof (cases a)
    case (AA_Halt reason es)
    with a account_halt [OF acc [unfolded AA_Halt], THEN halted_H] show ?thesis
      by (simp add: apply_fill_dedup_only_def)
  qed (use a account [OF acc] in \<open>auto simp: apply_fill_dedup_only_def intro: accepted\<close>)
qed

lemma restart_safe_within:
  "outcome_within R H c (restart_safe_handle st c ev)"
proof (cases ev)
  case (Ev_Fill fid q p ts fv fee)
  obtain c1 a where a: "try_account_fill c fid q p ts fv fee = (c1, a)"
    by (cases "try_account_fill c fid q p ts fv fee")
  then have acc: "account_fill_core c fid q p ts fv fee False = (c1, a)"
    by (simp add: try_account_fill_def try_account_fill_owned_def)
  show ?thesis
  proof (cases a)
    case (AA_Halt reason es)
    from account_halt [OF acc [unfolded AA_Halt]] have "H c (reserve_again st es) c1"
      by (auto simp: reserve_again_def intro: H_neutral)
    with a AA_Halt Ev_Fill halted_H show ?thesis by (simp add: restart_safe_handle_def)
  next
    case (AA_Applied es)
    with account [OF acc] have "R c (reserve_again st es) c1"
      by (auto simp: reserve_again_def intro: R_snoc)
    with a AA_Applied Ev_Fill halted show ?thesis by (simp add: restart_safe_handle_def)
  qed (use a Ev_Fill account [OF acc] in \<open>auto simp: restart_safe_handle_def intro: accepted\<close>)
qed (auto simp: restart_safe_handle_def intro: accepted R_refl)

lemma immediate_backfill_within:
  assumes "silent \<or> carried st c"
  shows "outcome_within R H c (apply_immediate_fill_backfill c st fills)"
proof (cases st)
  case (St_ImmediateFillUnattributed v rfc rrc ravg rfee)
  show ?thesis
  proof (cases "bind_venue_id c v")
    case (Inl reason)
    with St_ImmediateFillUnattributed halted [OF R_refl] show ?thesis
      by (simp add: apply_immediate_fill_backfill_def)
  next
    case (Inr p)
    then obtain c1 jr where bound: "bind_venue_id c v = Inr (c1, jr)" by (cases p) auto
    obtain c2 x where x: "account_fill_records c1 (push_journal [] jr) fills = (c2, x)"
      by (cases "account_fill_records c1 (push_journal [] jr) fills")
    have "R c (push_journal [] jr) c1" by (rule R_push [OF R_refl bind [OF bound]])
    from account_records_within [OF this, of fills] x
    have seg: "case x of Inl (reason, fs1) \<Rightarrow> H c fs1 c2 | Inr fs1 \<Rightarrow> R c fs1 c2" by simp
    have "silent \<or> carried (St_ImmediateFillUnattributed v rfc rrc ravg rfee) c2"
      using assms St_ImmediateFillUnattributed bind_venue_frame [OF bound]
        account_records_response [OF x] by auto
    with seg x bound St_ImmediateFillUnattributed show ?thesis
      by (auto simp: apply_immediate_fill_backfill_def simp del: resolve_unattributed.simps
          split: sum.splits intro: halted_H resolve_within)
  qed
qed (simp_all add: apply_immediate_fill_backfill_def reject_illegal_def)

lemma prepend_within:
  "R c0 p c \<Longrightarrow> outcome_within R H c (c1, t) \<Longrightarrow> outcome_within R H c0 (c1, prepend_effects p t)"
  by (cases t) (auto intro: R_trans H_trans)

lemma stay_matching_within:
  "outcome_within R H c0 (c, t) \<Longrightarrow> outcome_within R H c0 (c, stay_matching c fsu sc t)"
  by (cases t)
    (auto simp: stay_matching_def accept_def split: order_state.split intro!: R_snoc)

lemma continue_reconcile_within:
  "R c0 es c \<Longrightarrow> outcome_within R H c0 (c, continue_reconcile_pending c v vf es fsu sc t)"
  by (auto simp: continue_reconcile_pending_def Let_def split: option.split
      intro!: accepted R_neutrals)

lemma route_open_within:
  assumes "R c0 es c"
  shows "outcome_within R H c0 (c, route_open c v mf mc vr sc fsu es)"
  using assms
  by (auto simp: route_open_def split: option.split
      intro: continue_reconcile_within halted intro!: accepted R_neutrals)

lemma route_status_within:
  "R c0 es c \<Longrightarrow> outcome_within R H c0 (c, route_by_status c v status vf vr m om sc fsu es)"
  by (auto simp: route_by_status_def split: backfill_order_status.split
      intro: halted stay_matching_within finalize_within route_open_within)

lemma route_backfill_within:
  "outcome_within R H c (route_from_backfill_status c v status vf vr om fills sc fsu)"
proof (cases "backfill_member_quantities c vf om")
  case (Inl reason)
  with halted [OF R_refl] show ?thesis by (simp add: route_from_backfill_status_def)
next
  case (Inr m)
  show ?thesis
  proof (cases "observe_snapshot c v vf vr om (fst m)")
    case (Inl p)
    then obtain c1 reason es where p: "observe_snapshot c v vf vr om (fst m) = Inl (c1, reason, es)"
      by (cases p) auto
    with Inr observe_halt [OF Inr p, THEN halted_H] show ?thesis
      by (simp add: route_from_backfill_status_def)
  next
    case (Inr p)
    note m = \<open>backfill_member_quantities c vf om = Inr m\<close>
    from Inr obtain c1 es where obs: "observe_snapshot c v vf vr om (fst m) = Inr (c1, es)"
      by (cases p) auto
    obtain c2 x where x: "account_fill_records c1 es fills = (c2, x)"
      by (cases "account_fill_records c1 es fills")
    from account_records_within [OF observe [OF m obs], of fills] x
    have seg: "case x of Inl (reason, fs1) \<Rightarrow> H c fs1 c2 | Inr fs1 \<Rightarrow> R c fs1 c2" by simp
    show ?thesis
    proof (cases x)
      case (Inl q)
      with seg x m obs show ?thesis
        by (auto simp: route_from_backfill_status_def intro: halted_H)
    next
      case (Inr fs1)
      obtain c3 jr where l: "note_authority_complete c2 sc = (c3, jr)"
        by (cases "note_authority_complete c2 sc")
      from seg Inr have "R c fs1 c2" by simp
      then have base: "R c (push_journal fs1 jr) c3" by (rule R_latch [OF _ l])
      let ?again = "if sc then [AppendFsync (J_ReconcileObserved v vf vr om sc (authority_epoch c3))]
        else []"
      have "R c3 ?again c3"
      proof (cases sc)
        case True
        with l have c3: "c3 = latch_authority_complete c2" by (simp add: note_authority_complete_def)
        note fr = observe_fields [OF obs] account_records_frame [OF x]
        have "R c3 [AppendFsync (J_ReconcileObserved v vf vr om True (authority_epoch c3))] c3"
        proof (rule observed_again)
          show "backfill_member_quantities c3 vf om = Inr m"
            using m fr member_quantities_cong [of c3 c vf om]
            by (simp add: c3 latch_authority_complete_def)
        qed (use fr in \<open>auto simp: c3 latch_authority_complete_def authority_is_fresh_def\<close>)
        with True show ?thesis by simp
      qed (simp add: R_refl)
      from route_status_within [OF R_trans [OF base this]] m obs x Inr l show ?thesis
        by (simp add: route_from_backfill_status_def)
    qed
  qed
qed

lemma unique_backfill_within:
  "outcome_within R H c (apply_unique_backfill c rec)"
proof (cases "backfill_member_quantities c (bo_filled_qty rec) (bo_other_members_filled rec)")
  case (Inl reason)
  with halted [OF R_refl] show ?thesis by (simp add: apply_unique_backfill_def)
next
  case (Inr m)
  let ?obs = "observe_snapshot c (bo_venue_order_id rec) (bo_filled_qty rec) (bo_remaining_qty rec)
    (bo_other_members_filled rec) (fst m)"
  show ?thesis
  proof (cases ?obs)
    case (Inl p)
    then obtain c1 reason es where p: "?obs = Inl (c1, reason, es)" by (cases p) auto
    with Inr observe_halt [OF Inr p, THEN halted_H] show ?thesis
      by (simp add: apply_unique_backfill_def)
  next
    case (Inr p)
    note m = \<open>backfill_member_quantities c _ _ = Inr m\<close>
    from Inr obtain c1 es where obs: "?obs = Inr (c1, es)" by (cases p) auto
    obtain c2 jr where l: "note_authority_complete c1 True = (c2, jr)"
      by (cases "note_authority_complete c1 True")
    from R_latch [OF observe [OF m obs] l] have "R c (push_journal es jr) c2" .
    note seg = account_exhaustive_within [OF this, of "bo_venue_order_id rec" "bo_fills rec"]
    obtain c3 x where x: "account_exhaustive_fills (bo_venue_order_id rec) c2
        (push_journal es jr) (bo_fills rec) = (c3, x)"
      by (cases "account_exhaustive_fills (bo_venue_order_id rec) c2 (push_journal es jr)
        (bo_fills rec)")
    show ?thesis
    proof (cases x)
      case (Inl q)
      with seg x m obs l show ?thesis
        by (auto simp: apply_unique_backfill_def intro: halted_H)
    next
      case (Inr fs1)
      obtain c4 jr4 where l4: "note_authority_complete c3 True = (c4, jr4)"
        by (cases "note_authority_complete c3 True")
      from seg x Inr have "R c fs1 c3" by simp
      then have "R c (push_journal fs1 jr4) c4" by (rule R_latch [OF _ l4])
      note pre = prepend_within [OF this]
      obtain c5 t where r: "route_from_backfill_status c4 (bo_venue_order_id rec) (bo_status rec)
          (bo_filled_qty rec) (bo_remaining_qty rec) (bo_other_members_filled rec) [] True True
          = (c5, t)" by fastforce
      show ?thesis
        using m obs l x Inr l4 r pre
          route_backfill_within [of c4 "bo_venue_order_id rec" "bo_status rec" "bo_filled_qty rec"
            "bo_remaining_qty rec" "bo_other_members_filled rec" "[]" True True]
        by (simp add: apply_unique_backfill_def)
    qed
  qed
qed

lemma unknown_backfill_within:
  "outcome_within R H c (apply_unknown_backfill c exhaustive matched)"
  by (auto simp: apply_unknown_backfill_def halt_with_reason_state_def split: list.split
      intro: halted [OF R_refl] unique_backfill_within
      intro!: accepted R_neutrals [OF _ R_refl, simplified] R_H)

lemma carry_count_within:
  assumes "R c0 es c" and "silent \<or> rfc = response_fill_count c"
  shows "case carry_response_count c rfc es of
      Inl (c1, reason, fs) \<Rightarrow> H c0 fs c1 | Inr (c1, fs) \<Rightarrow> R c0 fs c1"
proof (cases rfc)
  case None
  with assms show ?thesis by (simp add: carry_response_count_def)
next
  case (Some rc)
  let ?c1 = "c\<lparr>response_fill_count := or_else (response_fill_count c) (Some rc)\<rparr>"
  have "R c [] ?c1"
  proof (cases silent)
    case False
    with assms(2) Some have "?c1 = c"
      by (cases c) (auto simp: or_else_def split: option.split)
    then show ?thesis by (simp add: R_refl)
  qed (rule silent_count)
  from R_trans [OF assms(1) this] have base: "R c0 es ?c1" by simp
  show ?thesis
  proof (cases "raise_fill_obligation ?c1 rc")
    case (Inl reason)
    with Some R_H [OF base] show ?thesis by (simp add: carry_response_count_def)
  next
    case (Inr c2)
    with Some R_trans [OF base raise [OF Inr]] show ?thesis by (simp add: carry_response_count_def)
  qed
qed

lemma carry_prices_within:
  assumes "R c0 es c"
    and "silent \<or> (ravg = response_avg_price_cents c \<and> rfee = response_fee_cents c)"
  shows "R c0 es (carry_response_prices c ravg rfee)"
proof (cases silent)
  case True
  from R_trans [OF assms(1) silent_prices [OF True]] show ?thesis by simp
next
  case False
  with assms(2) have "carry_response_prices c ravg rfee = c"
    by (cases c) (auto simp: carry_response_prices_def or_else_def Let_def split: option.split)
  with assms(1) show ?thesis by simp
qed

lemma carry_target_within:
  assumes "R c0 es c" and "silent \<or> target = None"
  shows "case carry_reconcile_target c target es of
      Inl (c1, reason, fs) \<Rightarrow> H c0 fs c1 | Inr (c1, fs) \<Rightarrow> R c0 fs c1"
proof (cases target)
  case None
  with assms show ?thesis by (simp add: carry_reconcile_target_def)
next
  case (Some t)
  with assms(2) have sil: silent by simp
  show ?thesis
  proof (cases "note_fill_evidence c (rt_venue_filled_qty t)")
    case (Inl reason)
    with Some R_H [OF assms(1)] show ?thesis by (simp add: carry_reconcile_target_def)
  next
    case (Inr p)
    then obtain c1 jr where e: "note_fill_evidence c (rt_venue_filled_qty t) = Inr (c1, jr)"
      by (cases p) auto
    have step: "R c0 (push_journal es jr) c1" by (rule R_push [OF assms(1) evidence [OF e]])
    with R_trans [OF step silent_remaining [OF sil]] e Some show ?thesis
      by (auto simp: carry_reconcile_target_def split: option.split)
  qed
qed

lemma route_cancel_within:
  "R c0 es c \<Longrightarrow> outcome_within R H c0 (c, route_cancel_outcome c v filled rem target outcome es)"
  by (cases outcome) (auto simp: route_cancel_outcome_def Let_def
      intro: accepted finalize_within intro!: accepted R_snoc)

lemma cancel_outcome_within:
  assumes "silent \<or> carried (St_CancelPending v filled rem rfc ravg rfee target) c"
  shows "outcome_within R H c (apply_cancel_outcome c v filled rem rfc ravg rfee target outcome)"
proof -
  let ?c1 = "invalidate_authority c"
  let ?es = "[AppendFsync (J_AuthorityInvalidated (authority_epoch ?c1)),
    AppendFsync (J_CancelOutcomeCid (client_order_id_of ?c1) outcome)]"
  have c1: "silent \<or> (target = None \<and> rfc = response_fill_count ?c1
      \<and> ravg = response_avg_price_cents ?c1 \<and> rfee = response_fee_cents ?c1)"
    using assms by (simp add: invalidate_authority_def)
  have "R c ?es ?c1" by (rule cancel) simp
  note count = carry_count_within [OF this, of rfc]
  show ?thesis
  proof (cases "carry_response_count ?c1 rfc ?es")
    case (Inl p)
    with count c1 show ?thesis
      by (auto simp: apply_cancel_outcome_def authority_invalidate_effects_def Let_def
          intro: halted_H split: prod.split)
  next
    case (Inr p)
    then obtain c2 es2 where r: "carry_response_count ?c1 rfc ?es = Inr (c2, es2)" by (cases p) auto
    have "response_avg_price_cents c2 = response_avg_price_cents ?c1
        \<and> response_fee_cents c2 = response_fee_cents ?c1"
      using r raise_obligation_fields
      by (fastforce simp: carry_response_count_def Let_def split: option.splits sum.splits)
    with c1 count r have
      "R c es2 (carry_response_prices c2 ravg rfee)"
      by (auto intro!: carry_prices_within)
    note tgt = carry_target_within [OF this, of target]
    show ?thesis
    proof (cases "carry_reconcile_target (carry_response_prices c2 ravg rfee) target es2")
      case (Inl q)
      with tgt c1 r show ?thesis
        by (auto simp: apply_cancel_outcome_def authority_invalidate_effects_def Let_def
            intro: halted_H split: prod.split)
    next
      case (Inr q)
      then obtain c4 es4 where q:
        "carry_reconcile_target (carry_response_prices c2 ravg rfee) target es2 = Inr (c4, es4)"
        by (cases q) auto
      with tgt c1 have base: "R c es4 c4" by auto
      show ?thesis
      proof (cases "bind_venue_id c4 v")
        case (Inl reason)
        with r q halted [OF base] show ?thesis
          by (simp add: apply_cancel_outcome_def authority_invalidate_effects_def Let_def)
      next
        case (Inr b)
        then obtain c5 jr where b: "bind_venue_id c4 v = Inr (c5, jr)" by (cases b) auto
        with r q route_cancel_within [OF R_push [OF base bind [OF b]]] show ?thesis
          by (simp add: apply_cancel_outcome_def authority_invalidate_effects_def Let_def)
      qed
    qed
  qed
qed

lemma reconcile_result_within:
  "outcome_within R H c (reconcile_result c sv status vid filled rem fills complete)"
proof -
  have seg: "case resolve_reconcile_venue c sv vid of
      (c1, Inl (reason, jr)) \<Rightarrow> R c (push_journal [] jr) c1
    | (c1, Inr (v, jr)) \<Rightarrow> R c (push_journal [] jr) c1"
  proof (cases "bind_venue_id c sv")
    case (Inl reason)
    then show ?thesis by (simp add: resolve_reconcile_venue_def push_journal_def R_refl)
  next
    case (Inr p)
    then obtain c1 jr where b: "bind_venue_id c sv = Inr (c1, jr)" by (cases p) auto
    have one: "R c (jeff jr) c1" by (rule bind [OF b])
    show ?thesis
    proof (cases vid)
      case None
      with b one show ?thesis by (simp add: resolve_reconcile_venue_def push_journal_def)
    next
      case (Some ev)
      have bound: "venue_order_id_of c1 = Some sv" using bind_venue_frame [OF b] by simp
      show ?thesis
      proof (cases "ev = sv")
        case True
        with bound have "bind_venue_id c1 ev = Inr (c1, None)" by (simp add: bind_venue_id_def)
        with b one Some show ?thesis by (simp add: resolve_reconcile_venue_def push_journal_def)
      next
        case False
        with bound have "bind_venue_id c1 ev = Inl (H_OwnershipConflict sv ev)"
          by (simp add: bind_venue_id_def)
        with b one Some show ?thesis by (simp add: resolve_reconcile_venue_def push_journal_def)
      qed
    qed
  qed
  show ?thesis
  proof (cases "resolve_reconcile_venue c sv vid")
    case (Pair c1 x)
    show ?thesis
    proof (cases x)
      case (Inl q)
      with seg Pair show ?thesis by (auto simp: reconcile_result_def intro: halted)
    next
      case (Inr q)
      then obtain v jr where q: "x = Inr (v, jr)" by (cases q) auto
      obtain c2 t where r: "route_from_backfill_status c1 v status filled rem 0 fills complete False
        = (c2, t)" by fastforce
      with seg Pair q prepend_within [of c "push_journal [] jr" c1 c2 t]
        route_backfill_within [of c1 v status filled rem 0 fills complete False]
      show ?thesis by (simp add: reconcile_result_def)
    qed
  qed
qed

lemma cancel_requested_within:
  "outcome_within R H c (cancel_requested c v rfc ravg rfee)"
  using cancel [of "J_CancelRequestedCid (client_order_id_of (invalidate_authority c))" c]
  by (simp add: cancel_requested_def authority_invalidate_effects_def Let_def accept_def)

lemma terminal_claim_within:
  assumes silent
  shows "outcome_within R H c (user_order_terminal_claim st c v filled executed)"
proof -
  have "R c [] (note_venue_remaining c 0)" by (rule silent_remaining [OF assms])
  note step = R_latch [OF this]
  show ?thesis
    by (auto simp: user_order_terminal_claim_def reject_illegal_def Let_def split: prod.split
        intro: finalize_within step)
qed

lemma resting_claim_within:
  assumes silent
  shows "outcome_within R H c (resting_claim st c v rem)"
proof (cases "bind_venue_id c v")
  case (Inl reason)
  with halted [OF R_refl] show ?thesis by (simp add: resting_claim_def reject_illegal_def)
next
  case (Inr p)
  then obtain c1 jr where b: "bind_venue_id c v = Inr (c1, jr)" by (cases p) auto
  from R_trans [OF R_push [OF R_refl bind [OF b]] silent_remaining [OF assms]] b
  show ?thesis by (auto simp: resting_claim_def reject_illegal_def intro: accepted)
qed

lemma own_action_within: "outcome_within R H c (c, own_action_accept st c ev)"
  by (cases ev) (auto simp: own_action_accept_def reject_illegal_def intro!: accepted neutral)

lemma close_within: "outcome_within R H c (c, try_close_submission c reason)"
  by (auto simp: try_close_submission_def intro: accepted R_refl)

lemmas stay_within = accepted [OF R_refl] halted [OF R_refl]

lemma submit_unknown_arm_within:
  assumes "silent \<or> \<not> is_claim ev"
  shows "outcome_within R H c (on_submit_unknown st c ev)"
  using assms unknown_backfill_within dedup_only_within
  by (cases ev) (auto simp: on_submit_unknown_def reject_illegal_def
      split: submission_close_reason.split intro: close_within resting_claim_within stay_within)

lemma submit_started_arm_within: "outcome_within R H c (on_submit_started st c ev)"
proof -
  have "R c ([AppendFsync (J_SubmitUnknownCid (client_order_id_of c))] @
      [BackfillUnknown (client_order_id_of c)]) c"
    by (rule R_snoc [OF neutral]) simp_all
  then show ?thesis
    using submit_response_within fill_while_open_within
    by (cases ev) (auto simp: on_submit_started_def reject_illegal_def
        split: submission_close_reason.split intro: close_within accepted)
qed

lemma early_arms_within:
  "outcome_within R H c (on_new st c ev)" "outcome_within R H c (on_submit_prepared st c ev)"
  using prepared neutral [of "AppendFsync (J_SubmitStarted a)" for a]
  by (cases ev, auto simp: on_new_def on_submit_prepared_def reject_illegal_def intro: accepted)+

lemma live_arm_within:
  "silent \<or> \<not> is_claim ev \<Longrightarrow> outcome_within R H c (on_live st v c ev)"
  by (cases ev) (auto simp: on_live_def reject_illegal_def
      intro: terminal_claim_within fill_while_open_within cancel_requested_within own_action_within)

lemma cancel_pending_arm_within:
  "silent \<or> (\<not> is_claim ev \<and> carried (St_CancelPending v filled rem rfc ravg rfee target) c) \<Longrightarrow>
    outcome_within R H c (on_cancel_pending st v filled rem rfc ravg rfee target c ev)"
  by (cases ev) (auto simp: on_cancel_pending_def reject_illegal_def
      simp del: carried.simps
      intro: terminal_claim_within fill_while_open_within cancel_outcome_within
        reconcile_result_within own_action_within stay_within)

lemma reconcile_pending_arm_within:
  "silent \<or> \<not> is_claim ev \<Longrightarrow> outcome_within R H c (on_reconcile_pending st v c ev)"
  by (cases ev) (auto simp: on_reconcile_pending_def reject_illegal_def
      intro: terminal_claim_within fill_while_open_within reconcile_result_within
        own_action_within stay_within)

lemma immediate_arm_within:
  assumes "silent \<or> carried st c"
  shows "outcome_within R H c (on_immediate_fill st v rfc ravg rfee c ev)"
proof -
  have "H c ([AppendFsync (J_ImmediateFillUnresolvedCid (client_order_id_of c))]
      @ [HaltNewExposure]) c"
    by (rule H_neutral [OF R_H [OF neutral]]) simp_all
  then have deadline: "outcome_within R H c
      (c, halt_with_reason_state St_ImmediateFillUnresolved H_ImmediateFillUnresolved
        [AppendFsync (J_ImmediateFillUnresolvedCid (client_order_id_of c))])"
    by (simp add: halt_with_reason_state_def)
  show ?thesis
    using immediate_backfill_within [OF assms] deadline
    by (cases ev) (auto simp: on_immediate_fill_def reject_illegal_def
        intro: cancel_requested_within own_action_within)
qed

theorem apply_event_within:
  assumes "silent \<or> (\<not> is_claim ev \<and> carried st c)"
  shows "outcome_within R H c (apply_event st c ev)"
proof -
  have open_state: "outcome_within R H c (on_open_state st c ev)"
    using assms
    by (cases st) (auto simp: on_open_state_def reject_illegal_def
        simp del: carried.simps(1,2)
        intro: early_arms_within submit_started_arm_within submit_unknown_arm_within live_arm_within
          cancel_pending_arm_within reconcile_pending_arm_within immediate_arm_within)
  show ?thesis
    using open_state restart_safe_within close_within
    by (auto simp: apply_event_def intro: stay_within
        split: order_state.split order_event.split submission_close_reason.split)
qed

end

end
