(* ===== verification/Replay_Contract.thy ===== *)
theory Replay_Contract
  imports Event_Contract
begin

text \<open>
  A rejected event changes nothing; with that, a relation that satisfies the transition contract
  holds across a whole replay.
\<close>

section \<open>A reject leaves the context alone\<close>

text \<open>The handlers below their guards never reject.\<close>

named_theorems no_reject \<open>outcomes that are not a rejection\<close>

lemma halt_no_reject [no_reject]:
  "\<not> is_reject (halt_with_reason r es)" "\<not> is_reject (accept st es)"
  "\<not> is_reject (halt_with_reason_state st r es)"
  by (simp_all add: halt_with_reason_def accept_def halt_with_reason_state_def Let_def)

lemma finalize_no_reject [no_reject]:
  "\<not> is_reject (not_ready_for_terminal c v es fb ra vr)"
  "\<not> is_reject (release_terminal c p es)"
  "\<not> is_reject (try_finalize_terminal c p v es fb)"
  "\<not> is_reject (finalize_reconcile_target c t es v)"
  by (auto simp: not_ready_for_terminal_def release_terminal_def try_finalize_terminal_def
      finalize_reconcile_target_def Let_def no_reject
      split: prod.split ownership_verdict.split gate_verdict.split proposed_terminal.split
        reconcile_terminal.split)

lemma live_no_reject [no_reject]:
  "\<not> is_reject (snd (route_live_or_filled c v es))"
  by (auto simp: route_live_or_filled_def no_reject split: option.split prod.split)

lemma resolve_no_reject [no_reject]:
  "\<not> is_reject (snd (resolve_unattributed c (St_ImmediateFillUnattributed v rfc rrc ravg rfee) prior enter))"
  by (auto simp: no_reject split: resolve_verdict.split option.split)

lemma submit_no_reject [no_reject]:
  "\<not> is_reject (snd (apply_submit_response c v fc rc avg fee b))"
  by (auto simp: apply_submit_response_def submit_response_zero_def submit_response_fills_def
      no_reject Let_def simp del: resolve_unattributed.simps
      split: sum.split prod.split option.split)

lemma after_fill_no_reject [no_reject]:
  "\<not> is_reject (snd (after_fill_cancel_or_reconcile c v target es lq en))"
  by (auto simp: after_fill_cancel_or_reconcile_def after_fill_with_target_def
      after_fill_without_target_def no_reject Let_def
      split: sum.split prod.split option.split)

lemma fill_no_reject [no_reject]:
  "\<not> is_reject (snd (apply_fill_while_open st c fid q p ts fv fee))"
  "\<not> is_reject (snd (apply_fill_dedup_only c fid q p ts fv fee stay))"
  by (auto simp: apply_fill_while_open_def apply_fill_dedup_only_def no_reject
      split: prod.split account_attempt.split order_state.split)

lemma stay_no_reject: "\<not> is_reject t \<Longrightarrow> \<not> is_reject (stay_matching c f s t)"
  by (auto simp: stay_matching_def no_reject split: transition_outcome.split order_state.split)

lemma status_no_reject [no_reject]:
  "\<not> is_reject (route_by_status c v status vf vr m om sc fsu es)"
  by (auto simp: route_by_status_def route_open_def continue_reconcile_pending_def no_reject Let_def
      stay_no_reject split: backfill_order_status.split option.split)

lemma backfill_no_reject [no_reject]:
  "\<not> is_reject (snd (route_from_backfill_status c v status vf vr om fills sc fsu))"
  by (auto simp: route_from_backfill_status_def no_reject Let_def
      split: sum.split prod.split)

lemma backfill_not_rejected:
  "route_from_backfill_status c v status vf vr om fills sc fsu = (c1, t) \<Longrightarrow> \<not> is_reject t"
  using backfill_no_reject [of c v status vf vr om fills sc fsu] by simp

lemma prepend_no_reject: "is_reject (prepend_effects p t) = is_reject t"
  by (cases t) auto

lemma unknown_no_reject [no_reject]:
  "\<not> is_reject (snd (apply_unique_backfill c rec))"
  "\<not> is_reject (snd (apply_unknown_backfill c exhaustive matched))"
proof -
  show unique: "\<not> is_reject (snd (apply_unique_backfill c rec))" for c rec
    by (auto simp: apply_unique_backfill_def no_reject prepend_no_reject Let_def
        split: sum.split prod.split dest: backfill_not_rejected)
  show "\<not> is_reject (snd (apply_unknown_backfill c exhaustive matched))"
    using unique by (auto simp: apply_unknown_backfill_def no_reject split: list.split)
qed

lemma cancel_no_reject [no_reject]:
  "\<not> is_reject (snd (apply_cancel_outcome c v filled rem rfc ravg rfee target outcome))"
  by (auto simp: apply_cancel_outcome_def route_cancel_outcome_def no_reject Let_def
      split: sum.split prod.split cancel_outcome.split)

lemma reconcile_no_reject [no_reject]:
  "\<not> is_reject (snd (reconcile_result c sv status vid filled rem fills complete))"
  "\<not> is_reject (snd (cancel_requested c v rfc ravg rfee))"
  by (auto simp: reconcile_result_def cancel_requested_def no_reject prepend_no_reject Let_def
      split: sum.split prod.split dest: backfill_not_rejected)

lemma immediate_reject:
  "is_reject (snd (apply_immediate_fill_backfill c st fills)) \<Longrightarrow>
    fst (apply_immediate_fill_backfill c st fills) = c"
  by (cases st) (auto simp: apply_immediate_fill_backfill_def no_reject
      simp del: resolve_unattributed.simps split: sum.split prod.split)

lemma arms_reject:
  "is_reject (snd (on_open_state st c ev)) \<Longrightarrow> fst (on_open_state st c ev) = c"
  by (cases st; cases ev)
    (auto simp: on_open_state_def on_new_def on_submit_prepared_def on_submit_started_def
      on_submit_unknown_def on_live_def on_cancel_pending_def on_reconcile_pending_def
      on_immediate_fill_def resting_claim_def user_order_terminal_claim_def immediate_reject
      no_reject Let_def split: sum.split prod.split submission_close_reason.split)

lemma frozen_reject:
  "is_reject (snd (restart_safe_handle st c ev)) \<Longrightarrow> fst (restart_safe_handle st c ev) = c"
  by (cases ev) (auto simp: restart_safe_handle_def no_reject
      split: prod.split account_attempt.split)

lemma reject_keeps_ctx: "apply_event st c ev = (c1, Reject r) \<Longrightarrow> c1 = c"
  using arms_reject [of st c ev] frozen_reject [of st c ev]
  by (auto simp: apply_event_def accept_def
      split: order_state.splits order_event.splits submission_close_reason.splits if_splits)


section \<open>Contracts that hold on every outcome\<close>

locale stable_contract = transition_contract R R True
  for R :: "order_ctx \<Rightarrow> effect list \<Rightarrow> order_ctx \<Rightarrow> bool"
begin

lemma event:
  assumes "apply_event st c ev = (c1, t)" shows "R c (outcome_effects t) c1"
proof (cases t)
  case (Reject r)
  with assms have "c1 = c" by (auto dest: reject_keeps_ctx)
  with Reject R_refl show ?thesis by simp
qed (use assms apply_event_within [of ev st c] in simp_all)

lemma replay_run:
  "R c0 es c \<Longrightarrow> R c0 (rr_effects (replay_from st c es h evs)) (rr_ctx (replay_from st c es h evs))"
proof (induction evs arbitrary: st c es h)
  case (Cons ev evs)
  obtain c1 t where a: "apply_event st c ev = (c1, t)" by fastforce
  show ?case
  proof (cases t)
    case (Reject r)
    with a have "c1 = c" by (auto dest: reject_keeps_ctx)
    with a Reject Cons.prems show ?thesis by simp
  qed (use R_trans [OF Cons.prems event [OF a]] Cons.IH a in simp_all)
qed simp

lemma replay_effects: "R c (rr_effects (replay st c evs)) (rr_ctx (replay st c evs))"
  unfolding replay_def by (rule replay_run [OF R_refl])

end

end
