(* ===== verification/Order_Run.thy ===== *)
theory Order_Run
  imports Replay_Contract
begin

text \<open>
  The life of one order as a step relation. The shell feeds events one by one, keeps the context and
  the state of the last outcome, executes the effects, and goes on after a rejected event. The
  relation is what \<open>replay\<close> computes when no event is rejected.
\<close>

inductive order_run ::
  "order_state \<Rightarrow> order_ctx \<Rightarrow> order_state \<Rightarrow> order_ctx \<Rightarrow> effect list \<Rightarrow> bool"
  for s0 :: order_state and c0 :: order_ctx where
  start: "order_run s0 c0 s0 c0 []"
| step: "order_run s0 c0 st c es \<Longrightarrow> apply_event st c ev = (c1, t) \<Longrightarrow>
    outcome_new_state t = Some st1 \<Longrightarrow> order_run s0 c0 st1 c1 (es @ outcome_effects t)"

inductive_cases order_runE: "order_run s0 c0 st c es"

text \<open>A rejected event is no step, and changes nothing.\<close>

lemma rejected_no_step:
  "apply_event st c ev = (c1, t) \<Longrightarrow> outcome_new_state t = None \<Longrightarrow> c1 = c"
  by (cases t) (auto dest: reject_keeps_ctx)

lemma run_trans:
  "order_run s1 c1 st c fs \<Longrightarrow> order_run s0 c0 s1 c1 es \<Longrightarrow> order_run s0 c0 st c (es @ fs)"
proof (induction rule: order_run.induct)
  case (step st c fs ev c2 t st2)
  from order_run.step [OF step.IH [OF step.prems] step.hyps(2,3)] show ?case by simp
qed simp

lemma replay_from_run:
  "order_run s0 c0 st c es \<Longrightarrow>
    order_run s0 c0 (rr_state (replay_from st c es h evs)) (rr_ctx (replay_from st c es h evs))
      (rr_effects (replay_from st c es h evs))"
proof (induction evs arbitrary: st c es h)
  case (Cons ev evs)
  obtain c1 t where a: "apply_event st c ev = (c1, t)" by fastforce
  show ?case
  proof (cases t)
    case (Reject r)
    with a have "c1 = c" by (auto dest: reject_keeps_ctx)
    with a Reject Cons.prems show ?thesis by simp
  qed (use a Cons.IH order_run.step [OF Cons.prems a] in auto)
qed simp

lemma replay_is_run:
  "order_run st c (rr_state (replay st c evs)) (rr_ctx (replay st c evs)) (rr_effects (replay st c evs))"
  unfolding replay_def by (rule replay_from_run [OF order_run.start])

context stable_contract
begin

lemma run: "order_run s0 c0 st c es \<Longrightarrow> R c0 es c"
proof (induction rule: order_run.induct)
  case start
  then show ?case by (rule R_refl)
next
  case (step st c es ev c1 t st1)
  from R_trans [OF step.IH event [OF step.hyps(2)]] show ?case .
qed

end

end
