(* ===== verification/Booking.thy ===== *)
theory Booking
  imports Order_Run
begin

text \<open>
  What booking a fill amounts to. \<open>account_fill_core\<close> is a long function with many exits; its
  specification has three outcomes: nothing changes, a known fill gains metadata, or a new fill is
  booked. The properties of booking are proved of the specification.
\<close>

section \<open>Specification\<close>

text \<open>
  Field by field, in plain arithmetic: what the context is after a new fill was booked. The fill
  counts for the response when the response has a fill count and the fill is no younger than the
  response's time.
\<close>

definition booked_ctx ::
  "order_ctx \<Rightarrow> fill_id \<Rightarrow> u64 \<Rightarrow> u64 \<Rightarrow> i64 \<Rightarrow> venue_order_id option \<Rightarrow> u64 option \<Rightarrow> order_ctx" where
  "booked_ctx c fid q p ts fv fee =
     (let fee0 = (case fee of None \<Rightarrow> 0 | Some f \<Rightarrow> f);
          counts = (response_fill_count c \<noteq> None
            \<and> (case response_snapshot_boundary c of Some (TsNs b) \<Rightarrow> ts \<le> b | _ \<Rightarrow> False))
      in c\<lparr>applied_fills := bt_insert fid
              \<lparr>fp_qty = q, fp_price_cents = p, fp_fee = fee, fp_venue_order_id = fv,
               fp_ts_ns = ts\<rparr> (applied_fills c),
            attributed_fill_qty := attributed_fill_qty c + q,
            fill_obligation := max (attributed_fill_qty c + q) (fill_obligation c),
            authority_complete := False,
            authority_epoch := min (authority_epoch c + 1) u64_max,
            attributed_notional_cents := min (attributed_notional_cents c + q * p) u128_max,
            attributed_fee_cents := attributed_fee_cents c + fee0,
            response_domain_qty := (if counts then min (response_domain_qty c + q) u64_max
              else response_domain_qty c),
            response_domain_notional_cents :=
              (if counts then min (response_domain_notional_cents c + q * p) u128_max
               else response_domain_notional_cents c),
            response_domain_fee_cents :=
              (if counts \<and> fee \<noteq> None then min (response_domain_fee_cents c + fee0) u64_max
               else response_domain_fee_cents c)\<rparr>)"

definition booking_effects ::
  "order_ctx \<Rightarrow> fill_id \<Rightarrow> u64 \<Rightarrow> u64 \<Rightarrow> i64 \<Rightarrow> venue_order_id option \<Rightarrow> u64 option \<Rightarrow> effect list" where
  "booking_effects c fid q p ts fv fee =
     (let epoch = sat_add_u64 (authority_epoch c) 1; total = attributed_fill_qty c + q
      in AppendFsync (J_AuthorityInvalidated epoch)
         # (if total > fill_obligation c then [AppendFsync (J_ObligationRaised total epoch)] else [])
         @ [AppendFsync (J_FillCid (client_order_id_of c) fid q p ts fee fv),
            AccountFill fid q p ts (fee_or_zero fee)])"

definition fee_gain :: "fill_payload \<Rightarrow> u64 option \<Rightarrow> u64 option" where
  "fee_gain prev fee = (if fp_fee prev = None then fee else None)"

definition enriched_ctx ::
  "order_ctx \<Rightarrow> fill_id \<Rightarrow> fill_payload \<Rightarrow> venue_order_id option \<Rightarrow> u64 option \<Rightarrow> order_ctx" where
  "enriched_ctx c fid prev v gain =
     (let fills = bt_insert fid
            (prev\<lparr>fp_venue_order_id := v,
                  fp_fee := (if gain = None then fp_fee prev else gain)\<rparr>) (applied_fills c)
      in case gain of
           None \<Rightarrow> c\<lparr>applied_fills := fills\<rparr>
         | Some f \<Rightarrow>
             c\<lparr>applied_fills := fills,
               attributed_fee_cents := attributed_fee_cents c + f,
               response_domain_fee_cents :=
                 (if fill_in_response_domain c (fp_ts_ns prev) \<and> response_fill_count c \<noteq> None
                  then sat_add_u64 (response_domain_fee_cents c) f
                  else response_domain_fee_cents c)\<rparr>)"

definition enrichment_effects ::
  "order_ctx \<Rightarrow> fill_id \<Rightarrow> fill_payload \<Rightarrow> venue_order_id option \<Rightarrow> u64 option \<Rightarrow> effect list" where
  "enrichment_effects c fid prev v gain =
     AppendFsync (J_FillCid (client_order_id_of c) fid (fp_qty prev) (fp_price_cents prev)
       (fp_ts_ns prev) (if gain = None then fp_fee prev else gain) v)
     # (case gain of
          None \<Rightarrow> []
        | Some f \<Rightarrow> [AppendFsync (J_FeeCorrection fid f), AccountFeeCorrection fid f])"

text \<open>The metadata a re-delivery may add: a venue id or a fee where there was none.\<close>

definition may_enrich ::
  "order_ctx \<Rightarrow> fill_payload \<Rightarrow> venue_order_id option \<Rightarrow> u64 option \<Rightarrow> bool" where
  "may_enrich c prev v gain =
     ((fp_venue_order_id prev \<noteq> None \<longrightarrow> v = fp_venue_order_id prev)
      \<and> (venue_order_id_of c \<noteq> None \<and> v \<noteq> fp_venue_order_id prev \<longrightarrow> v = venue_order_id_of c)
      \<and> (gain \<noteq> None \<longrightarrow> fp_fee prev = None)
      \<and> (v \<noteq> fp_venue_order_id prev \<or> gain \<noteq> None)
      \<and> attributed_fee_cents c + fee_or_zero gain \<le> max u64_max (attributed_fee_cents c))"


section \<open>The code implements it\<close>

text \<open>The specification in the steps of the code: book, invalidate, raise, accumulate.\<close>

lemma booked_ctx_code:
  "booked_ctx c fid q p ts fv fee =
     accumulate_response_domain
       ((invalidate_authority
          (book_fill c fid q p ts fv fee (attributed_fill_qty c + q)
             (attributed_fee_cents c + fee_or_zero fee)))
        \<lparr>fill_obligation := max (attributed_fill_qty c + q) (fill_obligation c)\<rparr>)
       q p fee ts"
  by (cases "response_snapshot_boundary c")
    (auto simp: booked_ctx_def accumulate_response_domain_def invalidate_authority_def book_fill_def
      fee_or_zero_def has_reliable_boundary_def fill_in_response_domain_def sat_add_u64_def
      sat_add_u128_def Let_def intro!: order_ctx.equality
      split: option.split snapshot_boundary.split)

lemma settle_is_booked:
  assumes "settle_booked_fill (book_fill c fid q p ts fv fee (attributed_fill_qty c + q)
      (attributed_fee_cents c + fee_or_zero fee)) fid q p ts fv fee (attributed_fill_qty c + q) = (c1, a)"
    and "attributed_fill_qty c + q \<le> order_qty c"
  shows "c1 = booked_ctx c fid q p ts fv fee \<and> attempt_effects a = booking_effects c fid q p ts fv fee
    \<and> (if response_domain_overfill_detail c1 = None then \<not> is_halt_attempt a else is_halt_attempt a)
    \<and> a \<noteq> AA_NoOp \<and> (\<forall>es. a \<noteq> AA_Enriched es)"
  using assms
  by (auto simp: settle_booked_fill_def booked_ctx_code booking_effects_def raise_fill_obligation_def
      book_fill_def invalidate_authority_def fill_journal_record_def max_def Let_def
      split: if_splits option.splits)

lemma redeliver_outcome:
  assumes "redeliver_fill c fid prev q p ts fv fee = (c1, a)"
  shows "(c1 = c \<and> attempt_effects a = [] \<and> (a = AA_NoOp \<or> is_halt_attempt a))
    \<or> (\<exists>v gain. fp_qty prev = q \<and> fp_price_cents prev = p \<and> may_enrich c prev v gain
        \<and> c1 = enriched_ctx c fid prev v gain
        \<and> a = AA_Enriched (enrichment_effects c fid prev v gain))"
proof -
  have venue: "\<lbrakk>upgrade_venue c fid (fp_venue_order_id prev) fv = Inr (v', vch)\<rbrakk> \<Longrightarrow>
      (vch = (v' \<noteq> fp_venue_order_id prev)) \<and> (fp_venue_order_id prev \<noteq> None \<longrightarrow> v' = fp_venue_order_id prev)
      \<and> (venue_order_id_of c \<noteq> None \<and> v' \<noteq> fp_venue_order_id prev \<longrightarrow> v' = venue_order_id_of c)" for v' vch
    by (auto simp: upgrade_venue_def split: option.splits if_splits dest: sym)
  have fee: "\<lbrakk>upgrade_fee c fid (fp_ts_ns prev) (fp_fee prev) fee = Inr (c2, f', es, fch)\<rbrakk> \<Longrightarrow>
      (fch = (fp_fee prev = None \<and> fee \<noteq> None))
      \<and> (\<not> fch \<longrightarrow> c2 = c \<and> f' = fp_fee prev \<and> es = [])
      \<and> (fch \<longrightarrow> f' = fee \<and> (\<exists>f. fee = Some f \<and> attributed_fee_cents c + f \<le> u64_max
          \<and> es = [AppendFsync (J_FeeCorrection fid f), AccountFeeCorrection fid f]
          \<and> c2 = c\<lparr>attributed_fee_cents := attributed_fee_cents c + f,
              response_domain_fee_cents :=
                (if fill_in_response_domain c (fp_ts_ns prev) \<and> response_fill_count c \<noteq> None
                 then sat_add_u64 (response_domain_fee_cents c) f
                 else response_domain_fee_cents c)\<rparr>))" for c2 f' es fch
    by (auto simp: upgrade_fee_def Let_def checked_add_u64_def split: option.splits if_splits)
  show ?thesis
  proof (cases "upgrade_venue c fid (fp_venue_order_id prev) fv")
    case (Inl r)
    with assms show ?thesis by (auto simp: redeliver_fill_def split: if_splits)
  next
    case (Inr x)
    obtain v' vch where v: "upgrade_venue c fid (fp_venue_order_id prev) fv = Inr (v', vch)"
      using Inr by (cases x) auto
    show ?thesis
    proof (cases "upgrade_fee c fid (fp_ts_ns prev) (fp_fee prev) fee")
      case (Inl r)
      with v assms show ?thesis by (auto simp: redeliver_fill_def split: if_splits)
    next
      case (Inr y)
      obtain c2 f' es fch where f: "upgrade_fee c fid (fp_ts_ns prev) (fp_fee prev) fee
          = Inr (c2, f', es, fch)"
        using Inr by (cases y) auto
      note facts = venue [OF v] fee [OF f]
      show ?thesis
      proof (cases "c1 = c \<and> attempt_effects a = [] \<and> (a = AA_NoOp \<or> is_halt_attempt a)")
        case False
        have cha: "c2 = c" if "\<not> fch" using facts that by simp
        from assms False v f cha have ch: "vch \<or> fch" and eq: "fp_qty prev = q \<and> fp_price_cents prev = p"
          by (auto simp: redeliver_fill_def split: if_splits)
        let ?gain = "if fch then fee else None"
        from assms False v f ch
        have res: "c1 = c2\<lparr>applied_fills := bt_insert fid
              (prev\<lparr>fp_venue_order_id := v', fp_fee := f'\<rparr>) (applied_fills c2)\<rparr>"
          "a = AA_Enriched (AppendFsync (fill_journal_record (client_order_id_of c2) fid q p
                (fp_ts_ns prev) f' v') # es)"
          by (auto simp: redeliver_fill_def Let_def split: if_splits)
        have "may_enrich c prev v' ?gain"
          using facts ch by (auto simp: may_enrich_def fee_or_zero_def)
        moreover have "c1 = enriched_ctx c fid prev v' ?gain"
          using facts ch res(1) by (cases fch) (auto simp: enriched_ctx_def Let_def)
        moreover have "a = AA_Enriched (enrichment_effects c fid prev v' ?gain)"
          using facts ch res eq by (auto simp: enrichment_effects_def fill_journal_record_def)
        ultimately show ?thesis using eq by blast
      qed simp
    qed
  qed
qed

lemma account_core_cases:
  assumes "account_fill_core c fid q p ts fv fee False = (c1, a)"
  obtains (unchanged) "c1 = c" "attempt_effects a = []" "a = AA_NoOp \<or> is_halt_attempt a"
  | (enriched) prev v gain where "bt_get (applied_fills c) fid = Some prev" "fp_qty prev = q"
      "fp_price_cents prev = p" "may_enrich c prev v gain" "c1 = enriched_ctx c fid prev v gain"
      "a = AA_Enriched (enrichment_effects c fid prev v gain)"
  | (booked) "bt_get (applied_fills c) fid = None"
      "venue_order_id_of c \<noteq> None \<Longrightarrow> fv = venue_order_id_of c"
      "attributed_fill_qty c + q \<le> order_qty c" "attributed_fill_qty c + q \<le> u64_max"
      "attributed_fee_cents c + fee_or_zero fee \<le> u64_max"
      "c1 = booked_ctx c fid q p ts fv fee" "attempt_effects a = booking_effects c fid q p ts fv fee"
      "is_halt_attempt a = (response_domain_overfill_detail c1 \<noteq> None)"
      "a \<noteq> AA_NoOp" "\<forall>es. a \<noteq> AA_Enriched es"
proof (cases "first_sighting_gate c fid fv")
  case (Some r)
  with assms unchanged show ?thesis by (auto simp: account_fill_core_def)
next
  case None
  show ?thesis
  proof (cases "bt_get (applied_fills c) fid")
    case (Some prev)
    with assms \<open>first_sighting_gate c fid fv = None\<close> have
      r: "redeliver_fill c fid prev q p ts fv fee = (c1, a)" by (simp add: account_fill_core_def)
    from redeliver_outcome [OF this] Some show ?thesis
      by (elim disjE exE conjE) (auto intro: unchanged enriched)
  next
    case None
    note fresh = None
    with assms \<open>first_sighting_gate c fid fv = None\<close> have
      r: "account_new_fill c fid q p ts fv fee False = (c1, a)" by (simp add: account_fill_core_def)
    show ?thesis
    proof (cases "attributed_fill_qty c + q \<le> order_qty c \<and> attributed_fill_qty c + q \<le> u64_max
        \<and> attributed_fee_cents c + fee_or_zero fee \<le> u64_max")
      case True
      with r have s: "settle_booked_fill (book_fill c fid q p ts fv fee (attributed_fill_qty c + q)
          (attributed_fee_cents c + fee_or_zero fee)) fid q p ts fv fee (attributed_fill_qty c + q)
          = (c1, a)"
        by (simp add: account_new_fill_def checked_add_u64_def Let_def)
      have owner: "venue_order_id_of c \<noteq> None \<Longrightarrow> fv = venue_order_id_of c"
        using \<open>first_sighting_gate c fid fv = None\<close> fresh
        by (auto simp: first_sighting_gate_def split: option.splits if_splits)
      from settle_is_booked [OF s] True show ?thesis
        by (intro booked [OF fresh owner]) (auto split: if_splits)
    next
      case False
      with r show ?thesis
        by (intro unchanged) (auto simp: account_new_fill_def checked_add_u64_def Let_def split: if_splits)
    qed
  qed
qed

end
