(* ===== verification/Monotone.thy ===== *)
theory Monotone
  imports Booking
begin

text \<open>
  What no event takes back. \<open>ctx_step\<close> orders contexts: identity of the order and a bound parent
  venue id are fixed, attribution, obligation and fees only grow, applied fills keep their economic
  terms and only gain metadata, and the authority epoch never runs backwards.
\<close>

section \<open>The order on contexts\<close>

definition keeps_some :: "'a option \<Rightarrow> 'a option \<Rightarrow> bool" where
  "keeps_some a b = (a = None \<or> a = b)"

definition payload_extends :: "fill_payload \<Rightarrow> fill_payload \<Rightarrow> bool" where
  "payload_extends p q =
     (fp_qty q = fp_qty p \<and> fp_price_cents q = fp_price_cents p \<and> fp_ts_ns q = fp_ts_ns p
      \<and> keeps_some (fp_fee p) (fp_fee q) \<and> keeps_some (fp_venue_order_id p) (fp_venue_order_id q))"

definition fills_extend ::
  "(fill_id, fill_payload) btree \<Rightarrow> (fill_id, fill_payload) btree \<Rightarrow> bool" where
  "fills_extend m n =
     list_all (\<lambda>(k, _). case (bt_get m k, bt_get n k) of
                  (Some p, Some q) \<Rightarrow> payload_extends p q | _ \<Rightarrow> False) m"

definition ctx_step :: "order_ctx \<Rightarrow> order_ctx \<Rightarrow> bool" where
  "ctx_step c d =
     (client_order_id_of d = client_order_id_of c \<and> market_of d = market_of c
      \<and> strategy_of d = strategy_of c \<and> side_of d = side_of c
      \<and> price_cents_of d = price_cents_of c \<and> order_qty d = order_qty c
      \<and> keeps_some (venue_order_id_of c) (venue_order_id_of d)
      \<and> attributed_fill_qty c \<le> attributed_fill_qty d
      \<and> fill_obligation c \<le> fill_obligation d
      \<and> attributed_fee_cents c \<le> attributed_fee_cents d
      \<and> min (authority_epoch c) u64_max \<le> authority_epoch d
      \<and> fills_extend (applied_fills c) (applied_fills d))"

lemma keeps_some_refl [simp]: "keeps_some a a"
  by (simp add: keeps_some_def)

lemma keeps_some_trans: "keeps_some a b \<Longrightarrow> keeps_some b c \<Longrightarrow> keeps_some a c"
  by (auto simp: keeps_some_def)

lemma payload_extends_refl [simp]: "payload_extends p p"
  by (simp add: payload_extends_def)

lemma fills_extend_iff:
  "fills_extend m n \<longleftrightarrow>
    (\<forall>k p. bt_get m k = Some p \<longrightarrow> (\<exists>q. bt_get n k = Some q \<and> payload_extends p q))"
proof
  assume l: "fills_extend m n"
  show "\<forall>k p. bt_get m k = Some p \<longrightarrow> (\<exists>q. bt_get n k = Some q \<and> payload_extends p q)"
  proof (intro allI impI)
    fix k p
    assume g: "bt_get m k = Some p"
    from bt_get_Some_in [OF g] l
    have "case (bt_get m k, bt_get n k) of
        (Some p, Some q) \<Rightarrow> payload_extends p q | _ \<Rightarrow> False"
      by (fastforce simp: fills_extend_def list_all_iff)
    with g show "\<exists>q. bt_get n k = Some q \<and> payload_extends p q"
      by (auto split: option.splits)
  qed
next
  assume r: "\<forall>k p. bt_get m k = Some p \<longrightarrow> (\<exists>q. bt_get n k = Some q \<and> payload_extends p q)"
  have "\<exists>p q. bt_get m k = Some p \<and> bt_get n k = Some q \<and> payload_extends p q"
    if "(k, x) \<in> set m" for k x
  proof -
    from that have "k \<in> fst ` set m" by (rule rev_image_eqI) simp
    then obtain p where "bt_get m k = Some p" using bt_get_None [of m k] by auto
    with r show ?thesis by auto
  qed
  then show "fills_extend m n"
    by (fastforce simp: fills_extend_def list_all_iff)
qed

lemma fills_extend_refl [simp]: "fills_extend m m"
  by (simp add: fills_extend_iff)

lemma fills_extend_trans: "fills_extend l m \<Longrightarrow> fills_extend m n \<Longrightarrow> fills_extend l n"
  by (fastforce simp: fills_extend_iff payload_extends_def intro: keeps_some_trans)

lemma fills_extend_insert:
  "\<lbrakk>\<And>p. bt_get m k = Some p \<Longrightarrow> payload_extends p v\<rbrakk> \<Longrightarrow> fills_extend m (bt_insert k v m)"
  by (auto simp: fills_extend_iff bt_get_insert)

lemma ctx_step_refl [simp]: "ctx_step c c"
  by (simp add: ctx_step_def)

lemma ctx_step_trans: "ctx_step a b \<Longrightarrow> ctx_step b c \<Longrightarrow> ctx_step a c"
  by (auto simp: ctx_step_def min_def intro: keeps_some_trans fills_extend_trans split: if_splits)


section \<open>Primitives\<close>

lemma sat_add_epoch: "min e u64_max \<le> sat_add_u64 e n"
  by (simp add: sat_add_u64_def)

lemma raise_step: "raise_fill_obligation c n = Inr c1 \<Longrightarrow> ctx_step c c1"
  by (auto simp: raise_fill_obligation_def invalidate_authority_def ctx_step_def Let_def
      sat_add_epoch split: if_splits)

lemma evidence_step: "note_fill_evidence c n = Inr (c1, jr) \<Longrightarrow> ctx_step c c1"
  by (auto simp: note_fill_evidence_def intro: raise_step split: sum.splits)

lemma bind_step: "bind_venue_id c v = Inr (c1, jr) \<Longrightarrow> ctx_step c c1"
  by (auto simp: bind_venue_id_def ctx_step_def keeps_some_def split: option.splits if_splits)

lemma invalidate_step: "ctx_step c (invalidate_authority c)"
  by (simp add: invalidate_authority_def ctx_step_def sat_add_epoch)

lemma latch_step: "ctx_step c (latch_authority_complete c)"
  by (simp add: latch_authority_complete_def ctx_step_def)

lemma remaining_step: "ctx_step c (note_venue_remaining c r)"
  by (simp add: note_venue_remaining_def ctx_step_def)

lemma snapshot_step: "ctx_step c (set_response_snapshot c fc rc avg fee b)"
  by (simp add: set_response_snapshot_def ctx_step_def)

lemma recompute_step: "ctx_step c (recompute_response_domain c)"
  by (simp add: ctx_step_def)

lemma booked_step: "bt_get (applied_fills c) fid = None \<Longrightarrow> ctx_step c (booked_ctx c fid q p ts fv fee)"
  by (auto simp: booked_ctx_code book_fill_def invalidate_authority_def ctx_step_def sat_add_epoch
      intro: fills_extend_insert)

lemma enriched_step:
  assumes "bt_get (applied_fills c) fid = Some prev" and "may_enrich c prev v gain"
  shows "ctx_step c (enriched_ctx c fid prev v gain)"
proof -
  have "payload_extends prev (prev\<lparr>fp_venue_order_id := v,
      fp_fee := (if gain = None then fp_fee prev else gain)\<rparr>)"
    using assms(2) by (auto simp: may_enrich_def payload_extends_def keeps_some_def)
  with assms(1) have "fills_extend (applied_fills c) (bt_insert fid (prev\<lparr>fp_venue_order_id := v,
      fp_fee := (if gain = None then fp_fee prev else gain)\<rparr>) (applied_fills c))"
    by (intro fills_extend_insert) simp
  then show ?thesis
    by (auto simp: enriched_ctx_def ctx_step_def Let_def split: option.split)
qed

lemma account_step:
  "account_fill_core c fid q p ts fv fee False = (c1, a) \<Longrightarrow> ctx_step c c1"
  by (erule account_core_cases) (auto intro: booked_step enriched_step)

lemma observe_step:
  "observe_snapshot c v vf vr om mf = Inr (c1, es) \<Longrightarrow> ctx_step c c1"
  "observe_snapshot c v vf vr om mf = Inl (c1, reason, es) \<Longrightarrow> ctx_step c c1"
  by (auto simp: observe_snapshot_def Let_def split: sum.splits
      intro: ctx_step_trans [OF ctx_step_trans [OF bind_step remaining_step] evidence_step]
        ctx_step_trans [OF bind_step remaining_step])

lemma respond_step:
  assumes "bind_venue_id c v = Inr (c1, jr)"
  shows "ctx_step c (note_venue_remaining c1 rc)"
    and "c2 = set_response_snapshot (note_venue_remaining c1 rc) fc rc avg fee b \<Longrightarrow> ctx_step c c2"
    and "c2 = set_response_snapshot (note_venue_remaining c1 rc) fc rc avg fee b \<Longrightarrow>
      raise_fill_obligation c2 fc = Inr c3 \<Longrightarrow> ctx_step c (recompute_response_domain c3)"
proof -
  show base: "ctx_step c (note_venue_remaining c1 rc)" for rc
    by (rule ctx_step_trans [OF bind_step [OF assms] remaining_step])
  show "ctx_step c c2"
    if "c2 = set_response_snapshot (note_venue_remaining c1 rc) fc rc avg fee b" for c2
    using ctx_step_trans [OF base snapshot_step] that by simp
  then show "ctx_step c (recompute_response_domain c3)"
    if "c2 = set_response_snapshot (note_venue_remaining c1 rc) fc rc avg fee b"
      and "raise_fill_obligation c2 fc = Inr c3"
    using that ctx_step_trans raise_step recompute_step by metis
qed

lemma carry_step:
  "ctx_step c (c\<lparr>response_fill_count := n\<rparr>)"
  "ctx_step c (carry_response_prices c ravg rfee)"
  "ctx_step c (carry_avg_fee c ravg rfee)"
  by (simp_all add: ctx_step_def carry_response_prices_def carry_avg_fee_def Let_def)

interpretation monotone: stable_contract "\<lambda>c _ d. ctx_step c d"
  by unfold_locales
    (assumption | rule ctx_step_refl invalidate_step latch_step remaining_step carry_step
      | erule bind_step evidence_step raise_step account_step observe_step respond_step(1)
      | erule (1) ctx_step_trans | erule (1) respond_step(2) | erule (2) respond_step(3))+

end
