(* ===== verification/Accounting.thy ===== *)
theory Accounting
  imports Booking
begin

text \<open>
  Exactly-once accounting. The effects the shell executes for its books (\<open>AccountFill\<close>,
  \<open>AccountFeeCorrection\<close>) against the totals of the order context, and the write-ahead order of the
  durable record before the effect it stands for.
\<close>

section \<open>What effects say about the books\<close>

fun account_ids :: "effect list \<Rightarrow> fill_id list" where
  "account_ids [] = []"
| "account_ids (AccountFill fid _ _ _ _ # es) = fid # account_ids es"
| "account_ids (_ # es) = account_ids es"

fun accounted_qty :: "effect list \<Rightarrow> nat" where
  "accounted_qty [] = 0"
| "accounted_qty (AccountFill _ q _ _ _ # es) = q + accounted_qty es"
| "accounted_qty (_ # es) = accounted_qty es"

fun accounted_fee :: "effect list \<Rightarrow> nat" where
  "accounted_fee [] = 0"
| "accounted_fee (AccountFill _ _ _ _ f # es) = f + accounted_fee es"
| "accounted_fee (AccountFeeCorrection _ d # es) = d + accounted_fee es"
| "accounted_fee (_ # es) = accounted_fee es"

definition applied_ids :: "order_ctx \<Rightarrow> fill_id set" where
  "applied_ids c = fst ` set (applied_fills c)"

text \<open>
  \<open>booked c es d\<close>: the effects \<open>es\<close> account exactly what the context gained between \<open>c\<close> and \<open>d\<close>,
  each new fill once.
\<close>

definition booked :: "order_ctx \<Rightarrow> effect list \<Rightarrow> order_ctx \<Rightarrow> bool" where
  "booked c es d =
     (attributed_fill_qty d = attributed_fill_qty c + accounted_qty es
      \<and> attributed_fee_cents d = attributed_fee_cents c + accounted_fee es
      \<and> distinct (account_ids es)
      \<and> set (account_ids es) \<inter> applied_ids c = {}
      \<and> applied_ids d = applied_ids c \<union> set (account_ids es))"

text \<open>An accounting effect comes right after the durable record with the same content.\<close>

fun covers :: "effect option \<Rightarrow> effect \<Rightarrow> bool" where
  "covers prev (AccountFill fid q p ts f) =
     (case prev of
        Some (AppendFsync (J_FillCid _ fid' q' p' ts' fee _)) \<Rightarrow>
          fid' = fid \<and> q' = q \<and> p' = p \<and> ts' = ts \<and> fee_or_zero fee = f
      | _ \<Rightarrow> False)"
| "covers prev (AccountFeeCorrection fid d) = (prev = Some (AppendFsync (J_FeeCorrection fid d)))"
| "covers prev _ = True"

fun write_ahead :: "effect option \<Rightarrow> effect list \<Rightarrow> bool" where
  "write_ahead prev [] = True"
| "write_ahead prev (e # es) = (covers prev e \<and> write_ahead (Some e) es)"

lemma account_ids_append [simp]: "account_ids (es @ fs) = account_ids es @ account_ids fs"
  by (induction es rule: account_ids.induct) auto

lemma accounted_append [simp]:
  "accounted_qty (es @ fs) = accounted_qty es + accounted_qty fs"
  "accounted_fee (es @ fs) = accounted_fee es + accounted_fee fs"
  by (induction es rule: accounted_fee.induct) auto

lemma covers_None: "covers None e \<Longrightarrow> covers prev e"
  by (cases e) auto

lemma write_ahead_weaken: "write_ahead None es \<Longrightarrow> write_ahead prev es"
  by (cases es) (auto intro: covers_None)

lemma write_ahead_append:
  "write_ahead prev es \<Longrightarrow> write_ahead None fs \<Longrightarrow> write_ahead prev (es @ fs)"
  by (induction prev es rule: write_ahead.induct) (auto intro: write_ahead_weaken)


section \<open>Primitives\<close>

definition accounted :: "order_ctx \<Rightarrow> effect list \<Rightarrow> order_ctx \<Rightarrow> bool" where
  "accounted c es d = (booked c es d \<and> write_ahead None es)"

text \<open>Effects without accounting, over an unchanged book.\<close>

fun off_book :: "effect \<Rightarrow> bool" where
  "off_book (AccountFill _ _ _ _ _) = False"
| "off_book (AccountFeeCorrection _ _) = False"
| "off_book _ = True"

definition same_book :: "order_ctx \<Rightarrow> order_ctx \<Rightarrow> bool" where
  "same_book c d =
     (attributed_fill_qty d = attributed_fill_qty c
      \<and> attributed_fee_cents d = attributed_fee_cents c \<and> applied_fills d = applied_fills c)"

lemma off_book_accounted:
  assumes "list_all off_book es" and "same_book c d" shows "accounted c es d"
proof -
  have "account_ids es = [] \<and> accounted_qty es = 0 \<and> accounted_fee es = 0" if "list_all off_book es"
    using that by (induction es rule: accounted_fee.induct) auto
  moreover have "write_ahead prev es" if "list_all off_book es" for prev
    using that
  proof (induction prev es rule: write_ahead.induct)
    case (2 prev e es)
    then show ?case by (cases e) auto
  qed simp
  ultimately show ?thesis
    using assms by (simp add: accounted_def booked_def same_book_def applied_ids_def)
qed

lemma accounted_trans:
  "accounted c es c1 \<Longrightarrow> accounted c1 fs c2 \<Longrightarrow> accounted c (es @ fs) c2"
  by (auto simp: accounted_def booked_def intro: write_ahead_append)

lemma neutral_off_book: "ctx_neutral e \<Longrightarrow> off_book e"
  by (cases e) auto

lemma booked_accounted:
  "bt_get (applied_fills c) fid = None \<Longrightarrow>
    accounted c (booking_effects c fid q p ts fv fee) (booked_ctx c fid q p ts fv fee)"
  by (simp add: accounted_def booked_def booked_ctx_code booking_effects_def book_fill_def
      invalidate_authority_def applied_ids_def fst_set_bt_insert bt_get_None Let_def)

lemma enriched_accounted:
  assumes "bt_get (applied_fills c) fid = Some prev"
  shows "accounted c (enrichment_effects c fid prev v gain) (enriched_ctx c fid prev v gain)"
proof -
  have "fid \<in> fst ` set (applied_fills c)"
    using assms bt_get_None [of "applied_fills c" fid] by auto
  then show ?thesis
    by (auto simp: accounted_def booked_def enriched_ctx_def enrichment_effects_def
        applied_ids_def fst_set_bt_insert Let_def split: option.split)
qed

lemma account_accounted:
  assumes "account_fill_core c fid q p ts fv fee False = (c1, a)"
  shows "accounted c (attempt_effects a) c1"
  using assms
proof (cases rule: account_core_cases)
  case unchanged
  then show ?thesis by (simp add: off_book_accounted same_book_def)
next
  case (enriched prev v gain)
  then show ?thesis by (simp add: enriched_accounted)
next
  case booked
  then show ?thesis by (simp add: booked_accounted)
qed

lemma book_frames:
  "bind_venue_id c v = Inr (c1, jr) \<Longrightarrow> same_book c c1"
  "note_fill_evidence c n = Inr (c1, jr) \<Longrightarrow> same_book c c1"
  "raise_fill_obligation c n = Inr c1 \<Longrightarrow> same_book c c1"
  by (auto simp: same_book_def dest: bind_venue_frame note_evidence_fields raise_obligation_fields)

lemma jeff_off_book:
  "bind_venue_id c v = Inr (c1, jr) \<Longrightarrow> list_all off_book (jeff jr)"
  "note_fill_evidence c n = Inr (c1, jr) \<Longrightarrow> list_all off_book (jeff jr)"
  by (cases jr; simp)+

lemma same_book_trans: "same_book c d \<Longrightarrow> same_book d e \<Longrightarrow> same_book c e"
  by (simp add: same_book_def)

lemma remaining_book: "same_book c (note_venue_remaining c r)"
  by (simp add: same_book_def note_venue_remaining_def)

lemma observe_book:
  "observe_snapshot c v vf vr om mf = Inr (c1, es) \<Longrightarrow> accounted c es c1"
  "observe_snapshot c v vf vr om mf = Inl (c1, reason, es) \<Longrightarrow> accounted c es c1"
proof -
  have bound: "same_book c (note_venue_remaining d vr)"
    if "bind_venue_id c v = Inr (d, jr)" for d jr
    by (rule same_book_trans [OF book_frames(1) [OF that] remaining_book])
  have noted: "same_book c e"
    if "bind_venue_id c v = Inr (d, jr)" "note_fill_evidence (note_venue_remaining d vr) mf = Inr (e, jr')"
    for d e jr jr'
    by (rule same_book_trans [OF bound [OF that(1)] book_frames(2) [OF that(2)]])
  show "observe_snapshot c v vf vr om mf = Inr (c1, es) \<Longrightarrow> accounted c es c1"
    using noted jeff_off_book
    by (auto simp: observe_snapshot_def Let_def push_journal_def intro!: off_book_accounted
        split: sum.splits)
  show "observe_snapshot c v vf vr om mf = Inl (c1, reason, es) \<Longrightarrow> accounted c es c1"
    using bound jeff_off_book(1)
    by (auto simp: observe_snapshot_def Let_def push_journal_def same_book_def
        intro!: off_book_accounted split: sum.splits)
qed

lemma obligation_records_off_book: "list_all off_book (obligation_records c d)"
  by (simp add: obligation_records_def)

lemma respond_book:
  assumes "bind_venue_id c v = Inr (c1, jr)"
  shows "same_book c (note_venue_remaining c1 rc)"
    and "same_book c (set_response_snapshot (note_venue_remaining c1 rc) fc rc avg fee b)"
    and "c2 = set_response_snapshot (note_venue_remaining c1 rc) fc rc avg fee b \<Longrightarrow>
      raise_fill_obligation c2 fc = Inr c3 \<Longrightarrow> same_book c (recompute_response_domain c3)"
  using book_frames(1) [OF assms] raise_obligation_fields [of c2 fc c3]
  by (auto simp: same_book_def note_venue_remaining_def set_response_snapshot_def)

lemma account_halt_accounted:
  "account_fill_core c fid q p ts fv fee False = (c1, AA_Halt reason es) \<Longrightarrow> accounted c es c1"
  using account_accounted [of c fid q p ts fv fee c1 "AA_Halt reason es"] by simp

lemma record_accounted:
  "same_book c d \<Longrightarrow> list_all off_book es \<Longrightarrow> off_book e \<Longrightarrow> accounted c (e # es) d"
  by (rule off_book_accounted) simp_all

lemma same_books [simp]:
  "same_book c c" "same_book c (invalidate_authority c)" "same_book c (latch_authority_complete c)"
  "same_book c (note_venue_remaining c r)" "same_book c (c\<lparr>response_fill_count := n\<rparr>)"
  "same_book c (carry_response_prices c ravg rfee)" "same_book c (carry_avg_fee c ravg rfee)"
  by (simp_all add: same_book_def invalidate_authority_def latch_authority_complete_def
      note_venue_remaining_def carry_response_prices_def carry_avg_fee_def Let_def)

lemma law_accounted:
  "accounted c [] c"
  "ctx_neutral e \<Longrightarrow> accounted c [e] c"
  "ctx_neutral e \<Longrightarrow> accounted c es d \<Longrightarrow> accounted c (es @ [e]) d"
  "bind_venue_id c v = Inr (c1, jr) \<Longrightarrow> accounted c (jeff jr) c1"
  "note_fill_evidence c n = Inr (c1, jr) \<Longrightarrow> accounted c (jeff jr) c1"
  "raise_fill_obligation c n = Inr c1 \<Longrightarrow> accounted c (obligation_records c c1) c1"
  "accounted c [AppendFsync r] c"
  "accounted c [AppendFsync r, AppendFsync s] (invalidate_authority c)"
  "accounted c [AppendFsync r] (latch_authority_complete c)"
  "accounted c [] (note_venue_remaining c x)"
  "accounted c [] (c\<lparr>response_fill_count := m\<rparr>)"
  "accounted c [] (carry_response_prices c ravg rfee)"
  "accounted c [] (carry_avg_fee c ravg rfee)"
  by (simp_all add: off_book_accounted neutral_off_book book_frames jeff_off_book
      obligation_records_off_book accounted_trans [OF _ off_book_accounted [OF _ same_books(1)]])

lemma respond_accounted:
  assumes "bind_venue_id c v = Inr (c1, jr)"
  shows "accounted c (AppendFsync r # jeff jr) (note_venue_remaining c1 rc)"
    and "c2 = set_response_snapshot (note_venue_remaining c1 rc) fc rc avg fee b \<Longrightarrow>
      accounted c (AppendFsync r # jeff jr) c2"
    and "c2 = set_response_snapshot (note_venue_remaining c1 rc) fc rc avg fee b \<Longrightarrow>
      raise_fill_obligation c2 fc = Inr c3 \<Longrightarrow>
      accounted c ((AppendFsync r # jeff jr) @ obligation_records c2 c3) (recompute_response_domain c3)"
  using respond_book [OF assms] jeff_off_book(1) [OF assms]
  by (auto intro!: off_book_accounted simp: obligation_records_off_book)

interpretation accounting: stable_contract accounted
  by unfold_locales
    (assumption | erule (1) accounted_trans | erule (1) law_accounted(3) [rotated]
      | erule account_accounted account_halt_accounted observe_book
      | rule law_accounted(1,7-13) | erule law_accounted(2,4-6) respond_accounted(1)
      | erule (2) respond_accounted(3) | erule (1) respond_accounted(2))+

end
