(* ===== verification/Release_Safety.thy ===== *)
theory Release_Safety
  imports Order_Run
begin

text \<open>
  The shape of every outcome of an open order: a release comes last, right after its durable
  terminal record, and only with the evidence of all gates; a halt ends with its durable record and
  the order to stop new exposure; every other outcome carries neither.
\<close>

section \<open>Shapes\<close>

fun terminal_kind_of :: "order_state \<Rightarrow> terminal_kind option" where
  "terminal_kind_of St_Filled = Some TK_Filled"
| "terminal_kind_of St_Canceled = Some TK_Canceled"
| "terminal_kind_of St_Terminal = Some TK_Terminal"
| "terminal_kind_of _ = None"

fun plain :: "effect \<Rightarrow> bool" where
  "plain ReleaseReservation = False"
| "plain ReserveFull = False"
| "plain HaltNewExposure = False"
| "plain (AppendFsync (J_OrderTerminal _ _ _ _ _ _ _)) = False"
| "plain (AppendFsync (J_Halted _)) = False"
| "plain (AppendFsync (J_ImmediateFillUnresolvedCid _)) = False"
| "plain (AppendFsync (J_UnknownNoMatchCid _)) = False"
| "plain _ = True"

text \<open>What has to be known of an order before its reservation is released.\<close>

definition average_agrees :: "order_ctx \<Rightarrow> u64 \<Rightarrow> bool" where
  "average_agrees c rc =
     (case response_avg_price_cents c of
        None \<Rightarrow> True
      | Some avg \<Rightarrow>
          rc = 0 \<or> \<bar>int (response_domain_notional_cents c) - int (avg * rc)\<bar> \<le> int rc)"

definition response_closed :: "order_ctx \<Rightarrow> bool" where
  "response_closed c =
     (case response_fill_count c of
        None \<Rightarrow> True
      | Some rc \<Rightarrow>
          \<not> has_reliable_boundary c
          \<or> (response_domain_qty c = rc \<and> average_agrees c rc
             \<and> response_fee_cents c \<in> {None, Some (response_domain_fee_cents c)}))"

definition fills_owned :: "order_ctx \<Rightarrow> bool" where
  "fills_owned c =
     (case venue_order_id_of c of
        None \<Rightarrow> True
      | Some v \<Rightarrow> list_all (\<lambda>(_, p). fp_venue_order_id p = Some v) (applied_fills c))"

definition terminal_evidence :: "order_ctx \<Rightarrow> order_state \<Rightarrow> bool" where
  "terminal_evidence c st =
     (authority_is_fresh c \<and> attributed_fill_qty c = fill_obligation c \<and> fills_owned c
      \<and> response_closed c \<and> (st = St_Filled \<longrightarrow> attributed_fill_qty c = order_qty c))"

definition ends_with :: "effect list \<Rightarrow> effect \<Rightarrow> effect \<Rightarrow> bool" where
  "ends_with es a b =
     (2 \<le> length es \<and> drop (length es - 2) es = [a, b] \<and> list_all plain (take (length es - 2) es))"

definition releases_with :: "order_ctx \<Rightarrow> order_state \<Rightarrow> effect list \<Rightarrow> bool" where
  "releases_with c st es =
     (case terminal_kind_of st of
        None \<Rightarrow> False
      | Some k \<Rightarrow>
          terminal_evidence c st
          \<and> ends_with es (AppendFsync (terminal_record c k)) ReleaseReservation)"

definition halts_with :: "order_state \<Rightarrow> halt_reason \<Rightarrow> order_ctx \<Rightarrow> effect list \<Rightarrow> bool" where
  "halts_with st r c es =
     (if st = St_ImmediateFillUnresolved then
        ends_with es (AppendFsync (J_ImmediateFillUnresolvedCid (client_order_id_of c))) HaltNewExposure
      else if st = St_UnknownNoMatch then
        ends_with es (AppendFsync (J_UnknownNoMatchCid (client_order_id_of c))) HaltNewExposure
      else st = St_Halted r \<and> ends_with es (AppendFsync (J_Halted r)) HaltNewExposure)"

fun settled :: "order_ctx \<times> transition_outcome \<Rightarrow> bool" where
  "settled (c, Reject _) = True"
| "settled (c, Halt st r es) = halts_with st r c es"
| "settled (c, Accept st es) =
     (if terminal_kind_of st = None then list_all plain es else releases_with c st es)"

lemma ends_with_append [simp]: "ends_with (es @ [a, b]) a' b' = (a = a' \<and> b = b' \<and> list_all plain es)"
  by (auto simp: ends_with_def)

lemma ends_with_pair [simp]: "ends_with [a, b] a' b' = (a = a' \<and> b = b')"
  using ends_with_append [of "[]" a b a' b'] by simp

lemma ends_with_prepend: "list_all plain p \<Longrightarrow> ends_with es a b \<Longrightarrow> ends_with (p @ es) a b"
  by (auto simp: ends_with_def)


section \<open>Plain effects\<close>

named_theorems shape \<open>shapes of effects and outcomes\<close>

lemma plain_jeff [shape]:
  "bind_venue_id c v = Inr (c1, jr) \<Longrightarrow> list_all plain (jeff jr)"
  "note_fill_evidence c n = Inr (c1, jr) \<Longrightarrow> list_all plain (jeff jr)"
  "note_authority_complete c b = (c1, jr) \<Longrightarrow> list_all plain (jeff jr)"
  "resolve_reconcile_venue c sv ev = (c1, Inl (r, jr)) \<Longrightarrow> list_all plain (jeff jr)"
  "resolve_reconcile_venue c sv ev = (c1, Inr (v, jr)) \<Longrightarrow> list_all plain (jeff jr)"
  by (auto simp: bind_venue_id_def note_fill_evidence_def note_authority_complete_def
      resolve_reconcile_venue_def split: option.splits if_splits sum.splits prod.splits)

lemma plain_push [shape]: "list_all plain (push_journal es jr) = (list_all plain es \<and> list_all plain (jeff jr))"
  by (simp add: push_journal_def)

lemma plain_obligation [shape]: "list_all plain (obligation_records c d)"
  by (simp add: obligation_records_def)

lemma plain_attempt [shape]:
  "try_account_fill c fid q p ts fv fee = (c1, a) \<Longrightarrow> list_all plain (attempt_effects a)"
proof -
  assume "try_account_fill c fid q p ts fv fee = (c1, a)"
  then have "account_fill_core c fid q p ts fv fee False = (c1, a)"
    by (simp add: try_account_fill_def try_account_fill_owned_def)
  then show ?thesis
    by (auto simp: account_fill_core_def account_new_fill_def settle_booked_fill_def
        redeliver_fill_def upgrade_fee_def fill_journal_record_def Let_def
        split: option.splits if_splits sum.splits prod.splits)
qed

lemma plain_attempt_record [shape]:
  "try_account_fill_record c f = (c1, a) \<Longrightarrow> list_all plain (attempt_effects a)"
  using plain_attempt by (auto simp: try_account_fill_record_def try_account_fill_def)

lemma plain_attempt_cases:
  "try_account_fill c fid q p ts fv fee = (c1, AA_Applied es) \<Longrightarrow> list_all plain es"
  "try_account_fill c fid q p ts fv fee = (c1, AA_Enriched es) \<Longrightarrow> list_all plain es"
  "try_account_fill c fid q p ts fv fee = (c1, AA_Halt r es) \<Longrightarrow> list_all plain es"
  by (auto dest: plain_attempt)

lemma plain_records_seg:
  "list_all plain es \<Longrightarrow> case snd (account_fill_records c es fs) of
    Inl (r, es1) \<Rightarrow> list_all plain es1 | Inr es2 \<Rightarrow> list_all plain es2"
  by (induction fs arbitrary: c es)
    (simp_all split: prod.split account_attempt.split, (fastforce dest: plain_attempt_record)+)

lemma plain_records:
  "account_fill_records c es fs = (c1, Inl (r, es1)) \<Longrightarrow> list_all plain es \<Longrightarrow> list_all plain es1"
  "account_fill_records c es fs = (c1, Inr es2) \<Longrightarrow> list_all plain es \<Longrightarrow> list_all plain es2"
  using plain_records_seg [of es c fs] by simp_all

lemma plain_exhaustive_seg:
  "list_all plain es \<Longrightarrow> case snd (account_exhaustive_fills rv c es fs) of
    Inl (r, es1) \<Rightarrow> list_all plain es1 | Inr es2 \<Rightarrow> list_all plain es2"
  by (induction fs arbitrary: c es)
    (simp_all split: prod.split account_attempt.split, (fastforce dest: plain_attempt_record)+)

lemma plain_exhaustive:
  "account_exhaustive_fills rv c es fs = (c1, Inl (r, es1)) \<Longrightarrow> list_all plain es \<Longrightarrow> list_all plain es1"
  "account_exhaustive_fills rv c es fs = (c1, Inr es2) \<Longrightarrow> list_all plain es \<Longrightarrow> list_all plain es2"
  using plain_exhaustive_seg [of es rv c fs] by simp_all

lemma plain_observe:
  "observe_snapshot c v vf vr om mf = Inl (c1, r, es) \<Longrightarrow> list_all plain es"
  "observe_snapshot c v vf vr om mf = Inr (c1, es) \<Longrightarrow> list_all plain es"
  by (auto simp: observe_snapshot_def Let_def shape split: sum.splits)


section \<open>The walk\<close>

lemma halt_settled [shape]:
  "list_all plain es \<Longrightarrow> settled (c, halt_with_reason r es)"
  by (simp add: halt_with_reason_def halts_with_def)

lemma accept_settled [shape]:
  "terminal_kind_of st = None \<Longrightarrow> list_all plain es \<Longrightarrow> settled (c, accept st es)"
  by (simp add: accept_def)

lemma scan_owned:
  "ownership_scan v m = Owned \<Longrightarrow> list_all (\<lambda>(_, p). fp_venue_order_id p = Some v) m"
  by (induction v m rule: ownership_scan.induct) (auto split: option.splits if_splits)

lemma average_within:
  "notional_avg_mismatch a avg rc = None \<Longrightarrow>
    rc = 0 \<or> \<bar>int a - int (avg * rc)\<bar> \<le> int rc"
  by (auto simp: notional_avg_mismatch_def Let_def simp del: of_nat_mult split: if_splits)

lemma gates_evidence:
  assumes "ownership_gate c = Owned" "authority_is_fresh c" "attributed_fill_qty c = fill_obligation c"
    "response_domain_gate c = Pass" "st = St_Filled \<Longrightarrow> filled_gate c vf vr = Pass"
  shows "terminal_evidence c st"
proof -
  have "fills_owned c" using assms(1)
    by (auto simp: ownership_gate_def fills_owned_def intro: scan_owned split: option.splits)
  moreover have "response_closed c" using assms(4)
    by (auto simp: response_domain_gate_def response_closed_def average_agrees_def
        fee_cross_check_mismatch_def split: option.splits if_splits dest!: average_within)
  moreover have "attributed_fill_qty c = order_qty c" if "st = St_Filled"
    using assms(5) [OF that]
    by (auto simp: filled_gate_def remaining_qty_checked_def checked_sub_u64_def
        split: option.splits if_splits)
  ultimately show ?thesis using assms(2,3) by (simp add: terminal_evidence_def)
qed

lemma not_ready_settled [shape]:
  "list_all plain es \<Longrightarrow> settled (c, not_ready_for_terminal c v es fb ra vr)"
  by (simp add: not_ready_for_terminal_def not_ready_effects_def accept_def Let_def)

lemma release_settled:
  assumes "list_all plain es" "ownership_gate c = Owned" "authority_is_fresh c"
    "attributed_fill_qty c = fill_obligation c" "response_domain_gate c = Pass"
    "\<And>vf vr. p = PT_Filled vf vr \<Longrightarrow> filled_gate c vf vr = Pass"
  shows "settled (c, release_terminal c p es)"
  using assms(1,6) gates_evidence [OF assms(2-5)]
  by (cases p) (auto simp: release_terminal_def accept_def releases_with_def terminal_record_def)

lemma finalize_settled [shape]:
  assumes "list_all plain es" shows "settled (c, try_finalize_terminal c p v es fb)"
  using assms
  by (auto simp: try_finalize_terminal_def Let_def shape
      split: ownership_verdict.split gate_verdict.split proposed_terminal.split
      intro!: release_settled)

lemma target_settled [shape]:
  "list_all plain es \<Longrightarrow> settled (c, finalize_reconcile_target c t es v)"
  by (simp add: finalize_reconcile_target_def shape Let_def split: reconcile_terminal.split)

lemma live_settled [shape]:
  "list_all plain es \<Longrightarrow> settled (route_live_or_filled c v es)"
  by (auto simp: route_live_or_filled_def note_authority_complete_def shape Let_def
      split: option.split)

lemma resolve_settled [shape]:
  "list_all plain (prior @ enter) \<Longrightarrow>
    settled (resolve_unattributed c (St_ImmediateFillUnattributed v rfc rrc ravg rfee) prior enter)"
  by (auto simp: shape split: resolve_verdict.split option.split)

lemma submit_settled [shape]: "settled (apply_submit_response c v fc rc avg fee b)"
  by (auto simp: apply_submit_response_def submit_response_zero_def submit_response_fills_def
      note_authority_complete_def shape Let_def simp del: resolve_unattributed.simps
      split: sum.split prod.split option.split)

lemma after_fill_settled [shape]:
  "list_all plain es \<Longrightarrow> settled (after_fill_cancel_or_reconcile c v target es lq en)"
  by (auto simp: after_fill_cancel_or_reconcile_def after_fill_with_target_def
      after_fill_without_target_def cancel_pending_from_def reconcile_pending_from_def
      note_authority_complete_def shape Let_def split: sum.split option.split)

lemma fill_settled [shape]:
  "terminal_kind_of st = None \<Longrightarrow> settled (apply_fill_while_open st c fid q p ts fv fee)"
  "terminal_kind_of st = None \<Longrightarrow> settled (apply_fill_dedup_only c fid q p ts fv fee st)"
  by (auto simp: apply_fill_while_open_def apply_fill_dedup_only_def shape
      dest: plain_attempt_cases split: prod.split account_attempt.split order_state.split)

lemma immediate_settled [shape]:
  "settled (apply_immediate_fill_backfill c st fills)"
  by (auto simp: apply_immediate_fill_backfill_def reject_illegal_def shape
      simp del: resolve_unattributed.simps
      dest: plain_records split: order_state.split sum.split prod.split)

lemma stay_settled: "settled (c, t) \<Longrightarrow> settled (c, stay_matching d f s t)"
  by (cases t) (auto simp: stay_matching_def accept_def split: order_state.split)

lemma status_settled [shape]:
  "list_all plain es \<Longrightarrow> settled (c, route_by_status c v status vf vr m om sc fsu es)"
  by (auto simp: route_by_status_def route_open_def continue_reconcile_pending_def
      reconcile_pending_from_def shape Let_def
      split: backfill_order_status.split option.split intro!: stay_settled)

lemma backfill_settled [shape]:
  "settled (route_from_backfill_status c v status vf vr om fills sc fsu)"
  by (auto simp: route_from_backfill_status_def note_authority_complete_def shape Let_def
      dest: plain_records plain_observe split: sum.split prod.split)

lemma prepend_settled: "list_all plain p \<Longrightarrow> settled (c, t) \<Longrightarrow> settled (c, prepend_effects p t)"
  by (cases t) (auto simp: releases_with_def halts_with_def intro: ends_with_prepend
      split: option.splits if_splits)

lemma backfill_settled_eq:
  "route_from_backfill_status c v status vf vr om fills sc fsu = (c1, t) \<Longrightarrow> settled (c1, t)"
  using backfill_settled [of c v status vf vr om fills sc fsu] by simp

lemma unknown_settled [shape]:
  "settled (apply_unique_backfill c rec)"
  "settled (apply_unknown_backfill c exhaustive matched)"
proof -
  note pushed = plain_exhaustive [of rv d "push_journal b (Some (J_AuthorityLatched e))" for rv d b e,
    unfolded plain_push, simplified]
  show unique: "settled (apply_unique_backfill c rec)" for c rec
    by (auto simp: apply_unique_backfill_def note_authority_complete_def shape Let_def
        dest: pushed plain_observe backfill_settled_eq
        split: sum.split prod.split intro!: prepend_settled)
  show "settled (apply_unknown_backfill c exhaustive matched)"
    using unique
    by (auto simp: apply_unknown_backfill_def halt_with_reason_state_def halts_with_def shape
        split: list.split)
qed

lemma cancel_settled [shape]:
  "settled (apply_cancel_outcome c v filled rem rfc ravg rfee target outcome)"
  by (auto simp: apply_cancel_outcome_def route_cancel_outcome_def authority_invalidate_effects_def
      carry_response_count_def carry_reconcile_target_def shape Let_def
      split: sum.splits prod.split cancel_outcome.split option.splits)

lemma reconcile_settled [shape]:
  "settled (reconcile_result c sv status vid filled rem fills complete)"
  "settled (cancel_requested c v rfc ravg rfee)"
  by (auto simp: reconcile_result_def cancel_requested_def authority_invalidate_effects_def
      shape Let_def dest: backfill_settled_eq
      split: sum.split prod.split intro!: prepend_settled)

lemma claims_settled [shape]:
  "settled (user_order_terminal_claim st c v filled executed)"
  "settled (resting_claim st c v rem)"
  "terminal_kind_of st = None \<Longrightarrow> settled (c, own_action_accept st c ev)"
  "settled (c, try_close_submission c reason)"
  by (auto simp: user_order_terminal_claim_def resting_claim_def own_action_accept_def
      try_close_submission_def reject_illegal_def note_authority_complete_def shape Let_def
      split: sum.split prod.split order_event.split)

lemma open_settled: "settled (on_open_state st c ev)"
  by (cases st; cases ev)
    (auto simp: on_open_state_def on_new_def on_submit_prepared_def on_submit_started_def
      on_submit_unknown_def on_live_def on_cancel_pending_def on_reconcile_pending_def
      on_immediate_fill_def halt_with_reason_state_def halts_with_def reject_illegal_def
      shape Let_def split: submission_close_reason.split)

lemma no_terminal_no_release:
  "settled (c, t) \<Longrightarrow> (\<And>s. outcome_new_state t = Some s \<Longrightarrow> terminal_kind_of s = None) \<Longrightarrow>
    ReleaseReservation \<notin> set (outcome_effects t)"
proof -
  have plain: "ReleaseReservation \<notin> set es" if "list_all plain es" for es
    using that by (auto simp: list_all_iff)
  have tail: "ReleaseReservation \<notin> set es" if "ends_with es (AppendFsync a) HaltNewExposure" for es a
  proof -
    have "set es = set (take (length es - 2) es) \<union> {AppendFsync a, HaltNewExposure}"
      using that by (metis append_take_drop_id set_append ends_with_def list.simps(15) empty_set)
    with that plain show ?thesis by (auto simp: ends_with_def)
  qed
  assume "settled (c, t)" and "\<And>s. outcome_new_state t = Some s \<Longrightarrow> terminal_kind_of s = None"
  then show ?thesis
    by (cases t) (auto simp: halts_with_def dest: plain tail split: if_splits)
qed

end
