(* ===== verification/Reservation.thy ===== *)
theory Reservation
  imports Release_Safety Booking
begin

text \<open>
  Frozen orders and the reservation. A frozen order never opens again; the shell's reservation,
  folded from the effects, is the one the state stands for along every replay.
\<close>

section \<open>Frozen orders\<close>

definition frozen_halt :: "order_state \<Rightarrow> halt_reason \<Rightarrow> effect list \<Rightarrow> effect list \<Rightarrow> bool" where
  "frozen_halt st r body es \<longleftrightarrow>
     es = body @ (if reservation_held st = Released then [ReserveFull] else [])
       @ [AppendFsync (J_Halted r), HaltNewExposure]"

text \<open>
  What a fill does to a frozen order. A rejection is no answer to it. It is accepted only when the
  order has applied it already, with the same quantity and price: unchanged, or enriched by a
  venue id or a fee with the durable metadata. It halts the order when booking refuses it, which
  leaves the context as it was, and also when it was booked, with the records of the booking in
  front of the halt.
\<close>

fun frozen_fill ::
  "order_state \<Rightarrow> order_ctx \<Rightarrow> fill_id \<Rightarrow> u64 \<Rightarrow> u64 \<Rightarrow> i64 \<Rightarrow> venue_order_id option \<Rightarrow> u64 option
    \<Rightarrow> order_ctx \<times> transition_outcome \<Rightarrow> bool" where
  "frozen_fill st c fid q p ts fv fee (c1, Reject _) = False"
| "frozen_fill st c fid q p ts fv fee (c1, Accept st' es) =
     (st' = st
      \<and> (\<exists>prev. bt_get (applied_fills c) fid = Some prev \<and> fp_qty prev = q \<and> fp_price_cents prev = p
           \<and> (c1 = c \<and> es = []
              \<or> (\<exists>v gain. may_enrich c prev v gain \<and> c1 = enriched_ctx c fid prev v gain
                    \<and> es = enrichment_effects c fid prev v gain))))"
| "frozen_fill st c fid q p ts fv fee (c1, Halt st' r es) =
     (st' = St_Halted r
      \<and> (c1 = c \<and> frozen_halt st r [] es
         \<or> bt_get (applied_fills c) fid = None
            \<and> c1 = booked_ctx c fid q p ts fv fee
            \<and> frozen_halt st r (booking_effects c fid q p ts fv fee) es
            \<and> (response_domain_overfill_detail c1 = None \<longrightarrow> r = H_PostTerminalFill)))"

text \<open>
  Every event on a frozen order. Observations of own actions are noted by the caller and change
  nothing; closing acts on a closed submission (nothing) and on an unknown order found absent; any
  other event is rejected.
\<close>

definition frozen_settled ::
  "order_state \<Rightarrow> order_ctx \<Rightarrow> order_event \<Rightarrow> order_ctx \<times> transition_outcome \<Rightarrow> bool" where
  "frozen_settled st c ev x \<longleftrightarrow>
     (case ev of
        Ev_Fill fid q p ts fv fee \<Rightarrow> frozen_fill st c fid q p ts fv fee x
      | Ev_DecreaseObserved _ _ \<Rightarrow> x = (c, Accept st [])
      | Ev_AmendObserved \<Rightarrow> x = (c, Accept st [])
      | Ev_CloseSubmission reason \<Rightarrow>
          if is_submission_closed st then x = (c, Accept st [])
          else if st = St_UnknownNoMatch \<and> reason = ExhaustiveAbsent \<and> \<not> submission_close_blocked c
          then x = (c, Accept (St_SubmissionClosed ExhaustiveAbsent) [])
          else fst x = c \<and> is_reject (snd x)
      | _ \<Rightarrow> fst x = c \<and> is_reject (snd x))"

lemma frozen_account:
  assumes "try_account_fill c fid q p ts fv fee = (c1, a)"
  shows "frozen_fill st c fid q p ts fv fee
    (case a of AA_NoOp \<Rightarrow> (c1, accept st [])
     | AA_Halt reason effects \<Rightarrow> (c1, halt_with_reason reason (reserve_again st effects))
     | AA_Enriched effects \<Rightarrow> (c1, accept st effects)
     | AA_Applied effects \<Rightarrow> (c1, halt_with_reason H_PostTerminalFill (reserve_again st effects)))"
proof -
  from assms have core: "account_fill_core c fid q p ts fv fee False = (c1, a)"
    by (simp add: try_account_fill_def try_account_fill_owned_def)
  then show ?thesis
  proof (cases rule: account_core_cases)
    case unchanged
    have "bt_get (applied_fills c) fid \<noteq> None \<and> fp_qty (the (bt_get (applied_fills c) fid)) = q
        \<and> fp_price_cents (the (bt_get (applied_fills c) fid)) = p" if "a = AA_NoOp"
      using core that
      by (auto simp: account_fill_core_def account_new_fill_def settle_booked_fill_def
          redeliver_fill_def Let_def split: option.splits if_splits sum.splits prod.splits)
    with unchanged show ?thesis
      by (cases a) (auto simp: accept_def halt_with_reason_def frozen_halt_def reserve_again_def)
  next
    case booked
    then show ?thesis
      by (cases a) (auto simp: accept_def halt_with_reason_def frozen_halt_def reserve_again_def)
  qed (auto simp: accept_def)
qed

lemma restart_fill:
  "frozen_fill st c fid q p ts fv fee (restart_safe_handle st c (Ev_Fill fid q p ts fv fee))"
  using frozen_account [of c fid q p ts fv fee _ _ st]
  by (cases "try_account_fill c fid q p ts fv fee")
    (fastforce simp: restart_safe_handle_def split: account_attempt.splits)

lemma restart_other:
  assumes "case ev of Ev_Fill _ _ _ _ _ _ \<Rightarrow> False | Ev_CloseSubmission _ \<Rightarrow> False | _ \<Rightarrow> True"
  shows "frozen_settled st c ev (restart_safe_handle st c ev)"
  using assms by (cases ev) (auto simp: frozen_settled_def restart_safe_handle_def accept_def)

lemma frozen_event:
  assumes "is_restart_frozen st"
  shows "frozen_settled st c ev (apply_event st c ev)"
proof -
  have app: "apply_event st c ev = restart_safe_handle st c ev" if "\<And>r. ev \<noteq> Ev_CloseSubmission r"
    using assms that
    by (auto simp: apply_event_def split: order_state.splits order_event.splits)
  show ?thesis
  proof (cases ev)
    case (Ev_Fill fid q p ts fv fee)
    with app restart_fill [of st c fid q p ts fv fee] show ?thesis by (simp add: frozen_settled_def)
  next
    case (Ev_CloseSubmission reason)
    with assms show ?thesis
      by (cases st; cases reason)
        (auto simp: frozen_settled_def apply_event_def restart_safe_handle_def accept_def
          try_close_submission_def)
  qed (use app restart_other [of ev st c] in auto)
qed

text \<open>The shape of a frozen outcome, for the reservation.\<close>

definition frozen_successor :: "order_state \<Rightarrow> order_state \<Rightarrow> bool" where
  "frozen_successor st st' \<longleftrightarrow>
     st' = st \<or> st = St_UnknownNoMatch \<and> st' = St_SubmissionClosed ExhaustiveAbsent"

lemma plain_spec_effects:
  "list_all plain (booking_effects c fid q p ts fv fee)"
  "list_all plain (enrichment_effects c fid prev v gain)"
  by (auto simp: booking_effects_def enrichment_effects_def Let_def split: option.split)

lemma frozen_accept:
  assumes "frozen_settled st c ev (c1, Accept st' es)"
  shows "frozen_successor st st' \<and> list_all plain es"
  using assms plain_spec_effects
  by (auto simp: frozen_settled_def frozen_successor_def split: order_event.splits if_splits)

lemma frozen_halt_shape:
  assumes "frozen_settled st c ev (c1, Halt st' r es)"
  shows "st' = St_Halted r \<and> (\<exists>body. list_all plain body \<and> frozen_halt st r body es)"
  using assms plain_spec_effects
  by (auto simp: frozen_settled_def split: order_event.splits if_splits)
    (metis list.pred_inject(1))+

lemma open_event: "\<not> is_restart_frozen st \<Longrightarrow> apply_event st c ev = on_open_state st c ev"
  by (cases st) (auto simp: apply_event_def)


section \<open>The reservation along a replay\<close>

fun reserve_step :: "reservation_hold \<Rightarrow> effect \<Rightarrow> reservation_hold" where
  "reserve_step h ReleaseReservation = Released"
| "reserve_step h ReserveFull = Full"
| "reserve_step h _ = h"

definition reservation_after :: "reservation_hold \<Rightarrow> effect list \<Rightarrow> reservation_hold" where
  "reservation_after h es = foldl reserve_step h es"

text \<open>
  What folding the effects of a run gives in each state. It is the hold the state stands for, but
  for a closed submission: that state counts as released, and since nothing was ever sent no
  effect says so, so the fold still holds in full what was reserved.
\<close>

definition folded_hold :: "order_state \<Rightarrow> reservation_hold" where
  "folded_hold st = (if is_submission_closed st then Full else reservation_held st)"

definition release_count :: "effect list \<Rightarrow> nat" where
  "release_count es = length (filter (\<lambda>e. e = ReleaseReservation) es)"

lemma reservation_after_append [simp]:
  "reservation_after h (es @ fs) = reservation_after (reservation_after h es) fs"
  by (simp add: reservation_after_def)

lemma release_count_append [simp]: "release_count (es @ fs) = release_count es + release_count fs"
  by (simp add: release_count_def)

lemma plain_reservation: "list_all plain es \<Longrightarrow> reservation_after h es = h \<and> release_count es = 0"
proof (induction es arbitrary: h)
  case (Cons e es)
  then show ?case by (cases e) (auto simp: reservation_after_def release_count_def)
qed (simp add: reservation_after_def release_count_def)

lemma tail_reservation:
  assumes "length tail \<le> length es" "drop (length es - length tail) es = tail"
    "list_all plain (take (length es - length tail) es)"
  shows "reservation_after h es = reservation_after h tail \<and> release_count es = release_count tail"
proof -
  have "es = take (length es - length tail) es @ tail" using assms(2) by (metis append_take_drop_id)
  with plain_reservation [OF assms(3)] show ?thesis
    by (metis add_0 release_count_append reservation_after_append)
qed

lemma ends_with_reservation:
  "ends_with es a b \<Longrightarrow>
    reservation_after h es = reservation_after h [a, b] \<and> release_count es = release_count [a, b]"
  by (rule tail_reservation) (auto simp: ends_with_def numeral_2_eq_2)

text \<open>One step: the reservation is tracked, at most one release, and it freezes the order.\<close>

definition step_reservation ::
  "order_state \<Rightarrow> reservation_hold \<Rightarrow> transition_outcome \<Rightarrow> bool" where
  "step_reservation st h t =
     (case outcome_new_state t of
        None \<Rightarrow> True
      | Some st' \<Rightarrow>
          reservation_after h (outcome_effects t) = folded_hold st'
          \<and> (is_restart_frozen st \<longrightarrow> is_restart_frozen st' \<and> release_count (outcome_effects t) = 0)
          \<and> release_count (outcome_effects t) \<le> 1
          \<and> (release_count (outcome_effects t) = 1 \<longrightarrow> is_restart_frozen st'))"

lemma open_step_reservation:
  assumes "settled (c1, t)" and "\<not> is_restart_frozen st" and "h = folded_hold st"
  shows "step_reservation st h t"
proof -
  from assms(2,3) have h: "h = Full" by (cases st) (auto simp: folded_hold_def)
  show ?thesis
  proof (cases t)
    case (Accept st' es)
    show ?thesis
    proof (cases "terminal_kind_of st'")
      case None
      with assms Accept have "list_all plain es" by simp
      from plain_reservation [OF this, of h] None assms(2) h show ?thesis
        by (cases st') (auto simp: Accept step_reservation_def folded_hold_def)
    next
      case (Some k)
      with assms Accept have "ends_with es (AppendFsync (terminal_record c1 k)) ReleaseReservation"
        by (simp add: releases_with_def)
      from ends_with_reservation [OF this, of h] Some assms(2) show ?thesis
        by (cases st') (auto simp: Accept step_reservation_def folded_hold_def
            reservation_after_def release_count_def)
    qed
  next
    case (Halt st' r es)
    with assms(1) obtain a where "ends_with es (AppendFsync a) HaltNewExposure"
      and "reservation_held st' = Full"
      by (auto simp: halts_with_def split: if_splits)
    with ends_with_reservation [of es "AppendFsync a" HaltNewExposure h] h assms(2) show ?thesis
      by (auto simp: Halt step_reservation_def folded_hold_def reservation_after_def
          release_count_def)
  qed (simp add: step_reservation_def)
qed

lemma frozen_step_reservation:
  assumes "frozen_settled st c ev (c1, t)" and "is_restart_frozen st" and "h = folded_hold st"
  shows "step_reservation st h t"
proof (cases t)
  case (Accept st' es)
  with frozen_accept [of st c ev c1 st' es] assms(1)
  have "list_all plain es" and s: "frozen_successor st st'" by auto
  from plain_reservation [OF this(1), of h] s assms(2,3) show ?thesis
    by (auto simp: Accept step_reservation_def frozen_successor_def folded_hold_def)
next
  case (Halt st' r es)
  with frozen_halt_shape [of st c ev c1 st' r es] assms(1) obtain body
    where st': "st' = St_Halted r" and b: "list_all plain body" and es: "frozen_halt st r body es"
    by auto
  let ?tail = "(if reservation_held st = Released then [ReserveFull] else [])
    @ [AppendFsync (J_Halted r), HaltNewExposure]"
  have tail: "release_count ?tail = 0" "reservation_after h ?tail = Full"
    using assms(3)
    by (cases "reservation_held st"; simp add: release_count_def reservation_after_def folded_hold_def)+
  have "es = body @ ?tail" using es by (simp add: frozen_halt_def)
  with plain_reservation [OF b] tail have "reservation_after h es = Full" and "release_count es = 0"
    by (simp_all only: reservation_after_append release_count_append)
  then show ?thesis using st' by (auto simp: Halt step_reservation_def folded_hold_def)
qed (simp add: step_reservation_def)

lemma event_reservation:
  "apply_event st c ev = (c1, t) \<Longrightarrow> h = folded_hold st \<Longrightarrow> step_reservation st h t"
  using frozen_event [of st c ev] open_event [of st c ev] open_settled [of st c ev]
  by (cases "is_restart_frozen st")
    (auto intro: frozen_step_reservation open_step_reservation)

lemma release_evidence:
  assumes "apply_event st c ev = (c1, t)" and "ReleaseReservation \<in> set (outcome_effects t)"
  shows "\<not> is_restart_frozen st \<and> (\<exists>st1 es. t = Accept st1 es \<and> releases_with c1 st1 es)"
proof (cases "is_restart_frozen st")
  case True
  with frozen_step_reservation [of st c ev c1 t "folded_hold st"] frozen_event [OF True, of c ev] assms
  have "release_count (outcome_effects t) = 0 \<or> outcome_new_state t = None"
    by (auto simp: step_reservation_def folded_hold_def split: option.splits)
  with assms(2) show ?thesis by (cases t) (auto simp: release_count_def filter_empty_conv)
next
  case False
  with open_event [of st c ev] open_settled [of st c ev] assms(1) have s: "settled (c1, t)" by simp
  show ?thesis
  proof (cases "\<exists>st1. outcome_new_state t = Some st1 \<and> terminal_kind_of st1 \<noteq> None")
    case True
    with s False show ?thesis by (cases t) (auto simp: halts_with_def split: if_splits)
  next
    case none: False
    with no_terminal_no_release [OF s] assms(2) show ?thesis by auto
  qed
qed

definition reservation_tracked :: "order_state \<Rightarrow> effect list \<Rightarrow> bool" where
  "reservation_tracked st es =
     (reservation_after Full es = folded_hold st
      \<and> release_count es \<le> (if is_restart_frozen st then 1 else 0))"

text \<open>Along a run from an open order.\<close>

lemma run_reservation:
  "order_run s0 c0 st c es \<Longrightarrow> \<not> is_restart_frozen s0 \<Longrightarrow> reservation_tracked st es"
proof (induction rule: order_run.induct)
  case start
  then show ?case by (cases s0) (auto simp: reservation_tracked_def folded_hold_def
      reservation_after_def release_count_def)
next
  case (step st c es ev c1 t st1)
  from step.IH [OF step.prems] have "reservation_after Full es = folded_hold st"
    and n: "release_count es \<le> (if is_restart_frozen st then 1 else 0)"
    by (simp_all add: reservation_tracked_def)
  from event_reservation [OF step.hyps(2) this(1)] n step.hyps(3) show ?case
    by (auto simp: reservation_tracked_def step_reservation_def split: if_splits)
qed

lemma run_frozen:
  "order_run s0 c0 st c es \<Longrightarrow> is_restart_frozen s0 \<Longrightarrow>
    is_restart_frozen st \<and> ReleaseReservation \<notin> set es"
proof (induction rule: order_run.induct)
  case (step st c es ev c1 t st1)
  then have fr: "is_restart_frozen st" and no: "ReleaseReservation \<notin> set es" by auto
  from event_reservation [OF step.hyps(2), of "folded_hold st"] fr step.hyps(3)
  show ?case using no by (auto simp: step_reservation_def folded_hold_def release_count_def
      filter_empty_conv)
qed simp

end
