(* ===== verification/Ctx_Invariant.thy ===== *)
theory Ctx_Invariant
  imports Monotone
begin

text \<open>
  The data invariants of the order context. \<open>ledger_ok\<close>: the running totals are the sums over the
  applied fills, attribution never passes the obligation nor the obligation the order, the latch
  belongs to the current authority epoch and no fill belongs to another parent. \<open>domain_ok\<close>: the
  incrementally kept response-snapshot domain is what a recomputation from the fills would give.
\<close>

section \<open>The invariants\<close>

definition fill_notional :: "fill_payload \<Rightarrow> nat" where
  "fill_notional p = fp_qty p * fp_price_cents p"

definition fill_fee :: "fill_payload \<Rightarrow> nat" where
  "fill_fee p = fee_or_zero (fp_fee p)"

definition parent_owns :: "order_ctx \<Rightarrow> bool" where
  "parent_owns c =
     (case venue_order_id_of c of None \<Rightarrow> True | Some v \<Rightarrow> foreign_fill v (applied_fills c) = None)"

lemma parent_owns_iff:
  "parent_owns c \<longleftrightarrow>
    (\<forall>v. venue_order_id_of c = Some v \<longrightarrow> foreign_fill v (applied_fills c) = None)"
  by (simp add: parent_owns_def split: option.split)

definition ledger_ok :: "order_ctx \<Rightarrow> bool" where
  "ledger_ok c =
     (bt_ok (applied_fills c)
      \<and> attributed_fill_qty c = bt_sum fp_qty (applied_fills c)
      \<and> attributed_fee_cents c = bt_sum fill_fee (applied_fills c)
      \<and> attributed_notional_cents c = min (bt_sum fill_notional (applied_fills c)) u128_max
      \<and> attributed_fill_qty c \<le> fill_obligation c \<and> fill_obligation c \<le> order_qty c
      \<and> attributed_fill_qty c \<le> u64_max \<and> attributed_fee_cents c \<le> u64_max
      \<and> (authority_complete c \<longrightarrow> authority_latched_epoch c = authority_epoch c)
      \<and> parent_owns c)"

text \<open>The part of a sum that lies in the response-snapshot domain.\<close>

definition domain_part :: "order_ctx \<Rightarrow> (fill_payload \<Rightarrow> nat) \<Rightarrow> fill_payload \<Rightarrow> nat" where
  "domain_part c f p =
     (if response_fill_count c \<noteq> None \<and> fill_in_response_domain c (fp_ts_ns p) then f p else 0)"

definition domain_sums :: "order_ctx \<Rightarrow> bool" where
  "domain_sums c =
     (response_domain_qty c = min (bt_sum (domain_part c fp_qty) (applied_fills c)) u64_max
      \<and> response_domain_notional_cents c =
          min (bt_sum (domain_part c fill_notional) (applied_fills c)) u128_max
      \<and> response_domain_fee_cents c = min (bt_sum (domain_part c fill_fee) (applied_fills c)) u64_max)"

definition domain_ok :: "order_ctx \<Rightarrow> bool" where
  "domain_ok c =
     ((response_snapshot_boundary c \<noteq> None \<longrightarrow> response_fill_count c \<noteq> None) \<and> domain_sums c)"


section \<open>The domain is its recomputation\<close>

lemma domain_part_cong:
  "response_fill_count c = response_fill_count d \<Longrightarrow>
    response_snapshot_boundary c = response_snapshot_boundary d \<Longrightarrow> domain_part c = domain_part d"
  by (auto simp: domain_part_def fun_eq_iff fill_in_response_domain_def)

lemma domain_part_updates [simp]:
  "domain_part (c\<lparr>client_order_id_of := x0\<rparr>) = domain_part c"
  "domain_part (c\<lparr>order_qty := x1\<rparr>) = domain_part c"
  "domain_part (c\<lparr>applied_fills := x2\<rparr>) = domain_part c"
  "domain_part (c\<lparr>attributed_fill_qty := x3\<rparr>) = domain_part c"
  "domain_part (c\<lparr>fill_obligation := x4\<rparr>) = domain_part c"
  "domain_part (c\<lparr>venue_order_id_of := x5\<rparr>) = domain_part c"
  "domain_part (c\<lparr>authority_complete := x6\<rparr>) = domain_part c"
  "domain_part (c\<lparr>authority_epoch := x7\<rparr>) = domain_part c"
  "domain_part (c\<lparr>authority_latched_epoch := x8\<rparr>) = domain_part c"
  "domain_part (c\<lparr>last_venue_remaining_qty := x9\<rparr>) = domain_part c"
  "domain_part (c\<lparr>response_remaining_count := x10\<rparr>) = domain_part c"
  "domain_part (c\<lparr>response_avg_price_cents := x11\<rparr>) = domain_part c"
  "domain_part (c\<lparr>response_fee_cents := x12\<rparr>) = domain_part c"
  "domain_part (c\<lparr>attributed_notional_cents := x13\<rparr>) = domain_part c"
  "domain_part (c\<lparr>attributed_fee_cents := x14\<rparr>) = domain_part c"
  "domain_part (c\<lparr>response_domain_qty := x15\<rparr>) = domain_part c"
  "domain_part (c\<lparr>response_domain_notional_cents := x16\<rparr>) = domain_part c"
  "domain_part (c\<lparr>response_domain_fee_cents := x17\<rparr>) = domain_part c"
  by (rule domain_part_cong; simp)+

lemma bt_sum_zero [simp]: "bt_sum (\<lambda>_. 0) m = 0"
  by (induction m) auto

lemma sat_min: "min (min a m + b) m = min (a + b) (m::nat)"
  by (simp add: min_def)

lemma accumulate_domain:
  assumes "d = accumulate_response_domain c q p fee ts"
    and "pl = \<lparr>fp_qty = q, fp_price_cents = p, fp_fee = fee, fp_venue_order_id = v, fp_ts_ns = ts\<rparr>"
  shows "response_domain_qty c \<le> u64_max \<Longrightarrow>
      response_domain_qty d = min (response_domain_qty c + domain_part c fp_qty pl) u64_max"
    and "response_domain_notional_cents c \<le> u128_max \<Longrightarrow> response_domain_notional_cents d
      = min (response_domain_notional_cents c + domain_part c fill_notional pl) u128_max"
    and "response_domain_fee_cents c \<le> u64_max \<Longrightarrow> response_domain_fee_cents d
      = min (response_domain_fee_cents c + domain_part c fill_fee pl) u64_max"
  using assms
  by (auto simp: accumulate_response_domain_def domain_part_def fill_notional_def fill_fee_def
      fee_or_zero_def Let_def has_reliable_boundary_def fill_in_response_domain_def sat_add_u64_def
      sat_add_u128_def split: option.splits snapshot_boundary.splits)

lemma accumulate_all_domain:
  assumes "response_domain_qty c \<le> u64_max" "response_domain_notional_cents c \<le> u128_max"
    "response_domain_fee_cents c \<le> u64_max"
  shows "response_domain_qty (accumulate_all m c)
      = min (response_domain_qty c + bt_sum (domain_part c fp_qty) m) u64_max
    \<and> response_domain_notional_cents (accumulate_all m c)
      = min (response_domain_notional_cents c + bt_sum (domain_part c fill_notional) m) u128_max
    \<and> response_domain_fee_cents (accumulate_all m c)
      = min (response_domain_fee_cents c + bt_sum (domain_part c fill_fee) m) u64_max"
  using assms
proof (induction m arbitrary: c)
  case Nil
  then show ?case by simp
next
  case (Cons x m)
  obtain k pl where x: "x = (k, pl)" by (cases x)
  let ?d = "accumulate_response_domain c (fp_qty pl) (fp_price_cents pl) (fp_fee pl) (fp_ts_ns pl)"
  note acc = accumulate_domain [of ?d c "fp_qty pl" "fp_price_cents pl" "fp_fee pl" "fp_ts_ns pl"
      pl "fp_venue_order_id pl", OF refl]
  have part: "domain_part ?d = domain_part c" by (rule domain_part_cong) simp_all
  show ?case
    using Cons.IH [of ?d] Cons.prems acc unfolding part by (simp add: x min_def)
qed

lemma recompute_domain_sums:
  "(response_snapshot_boundary c \<noteq> None \<longrightarrow> response_fill_count c \<noteq> None) \<Longrightarrow>
    domain_sums (recompute_response_domain c)"
proof -
  let ?z = "c\<lparr>response_domain_qty := 0, response_domain_notional_cents := 0,
    response_domain_fee_cents := 0\<rparr>"
  have part: "domain_part (recompute_response_domain c) = domain_part c"
    and zpart: "domain_part ?z = domain_part c"
    by (rule domain_part_cong; simp)+
  show ?thesis
  proof (cases "response_fill_count c = None \<or> \<not> has_reliable_boundary c")
    case True
    then have "domain_part c f = (\<lambda>_. 0)" for f
      by (auto simp: domain_part_def fun_eq_iff has_reliable_boundary_def fill_in_response_domain_def
          split: option.splits snapshot_boundary.splits)
    with True show ?thesis
      unfolding domain_sums_def part
      by (auto simp: recompute_response_domain_def has_reliable_boundary_def Let_def)
  next
    case False
    then have "recompute_response_domain c = accumulate_all (applied_fills c) ?z"
      by (auto simp: recompute_response_domain_def has_reliable_boundary_def Let_def)
    with accumulate_all_domain [of ?z "applied_fills c"] show ?thesis
      unfolding domain_sums_def part zpart by simp
  qed
qed

text \<open>So in every context that satisfies the invariant, recomputing changes nothing.\<close>

lemma domain_sums_fix:
  assumes "domain_ok c"
  shows "recompute_response_domain c = c"
proof -
  let ?d = "recompute_response_domain c"
  have part: "domain_part ?d = domain_part c" by (rule domain_part_cong) simp_all
  have "domain_sums ?d" using assms recompute_domain_sums [of c] by (auto simp: domain_ok_def)
  with assms have "response_domain_qty ?d = response_domain_qty c
    \<and> response_domain_notional_cents ?d = response_domain_notional_cents c
    \<and> response_domain_fee_cents ?d = response_domain_fee_cents c"
    by (simp add: domain_ok_def domain_sums_def part)
  then show ?thesis by (intro order_ctx.equality) simp_all
qed


section \<open>Primitives keep the invariants\<close>

definition keeps_ok :: "order_ctx \<Rightarrow> order_ctx \<Rightarrow> bool" where
  "keeps_ok c d = (ledger_ok c \<longrightarrow> ledger_ok d \<and> (domain_ok c \<longrightarrow> domain_ok d))"

definition keeps_ledger :: "order_ctx \<Rightarrow> order_ctx \<Rightarrow> bool" where
  "keeps_ledger c d = (ledger_ok c \<longrightarrow> ledger_ok d)"

lemma keeps_ok_trans: "keeps_ok a b \<Longrightarrow> keeps_ok b c \<Longrightarrow> keeps_ok a c"
  by (auto simp: keeps_ok_def)

lemmas keeps_defs = keeps_ok_def ledger_ok_def parent_owns_iff domain_ok_def domain_sums_def

lemma foreign_fill_insert:
  "foreign_fill v m = None \<Longrightarrow> fp_venue_order_id p \<in> {None, Some v} \<Longrightarrow>
    foreign_fill v (bt_insert k p m) = None"
  by (induction m) (auto split: option.splits if_splits)

lemma bind_keeps: "bind_venue_id c v = Inr (c1, jr) \<Longrightarrow> keeps_ok c c1"
  by (auto simp: bind_venue_id_def keeps_defs split: option.splits if_splits)

lemma raise_keeps: "raise_fill_obligation c n = Inr c1 \<Longrightarrow> keeps_ok c c1"
  by (auto simp: raise_fill_obligation_def invalidate_authority_def Let_def keeps_defs split: if_splits)

lemma evidence_keeps: "note_fill_evidence c n = Inr (c1, jr) \<Longrightarrow> keeps_ok c c1"
  by (auto simp: note_fill_evidence_def intro: raise_keeps split: sum.splits)

lemma invalidate_keeps: "keeps_ok c (invalidate_authority c)"
  by (simp add: invalidate_authority_def keeps_defs)

lemma latch_keeps: "keeps_ok c (latch_authority_complete c)"
  by (simp add: latch_authority_complete_def keeps_defs)

lemma remaining_keeps: "keeps_ok c (note_venue_remaining c r)"
  by (simp add: note_venue_remaining_def keeps_defs)

lemma snapshot_keeps: "keeps_ledger c (set_response_snapshot c fc rc avg fee b)"
  by (simp add: set_response_snapshot_def keeps_ledger_def ledger_ok_def parent_owns_iff)

lemma ledger_recompute [simp]: "ledger_ok (recompute_response_domain c) = ledger_ok c"
  by (simp add: ledger_ok_def parent_owns_iff)

lemma carry_keeps:
  "keeps_ok c (c\<lparr>response_fill_count := or_else (response_fill_count c) (Some n)\<rparr>)"
  "keeps_ok c (carry_response_prices c ravg rfee)"
  "keeps_ok c (carry_avg_fee c ravg rfee)"
proof -
  have "domain_ok (c\<lparr>response_fill_count := or_else (response_fill_count c) (Some n)\<rparr>)"
    if "domain_ok c"
  proof (cases "response_fill_count c")
    case None
    with that have b: "response_snapshot_boundary c = None" by (auto simp: domain_ok_def)
    have "domain_part c f = (\<lambda>_. 0)" for f using None by (auto simp: domain_part_def)
    moreover have "domain_part (c\<lparr>response_fill_count := Some n\<rparr>) f = (\<lambda>_. 0)" for f
      using b by (auto simp: domain_part_def fill_in_response_domain_def)
    ultimately show ?thesis
      using that None by (simp add: domain_ok_def domain_sums_def or_else_def)
  next
    case (Some m)
    then have "c\<lparr>response_fill_count := or_else (response_fill_count c) (Some n)\<rparr> = c"
      by (cases c) (simp add: or_else_def)
    with that show ?thesis by simp
  qed
  then show "keeps_ok c (c\<lparr>response_fill_count := or_else (response_fill_count c) (Some n)\<rparr>)"
    by (simp add: keeps_ok_def ledger_ok_def parent_owns_iff)
qed (simp_all add: keeps_defs
      carry_response_prices_def carry_avg_fee_def Let_def)


section \<open>Booking keeps the invariants\<close>

lemma foreign_fill_get:
  "foreign_fill v m = None \<Longrightarrow> bt_get m k = Some p \<Longrightarrow> fp_venue_order_id p \<in> {None, Some v}"
  by (induction m) (auto split: option.splits if_splits)

lemma booked_keeps:
  assumes fresh: "bt_get (applied_fills c) fid = None"
    and owner: "venue_order_id_of c \<noteq> None \<Longrightarrow> fv = venue_order_id_of c"
    and fits: "attributed_fill_qty c + q \<le> order_qty c" "attributed_fill_qty c + q \<le> u64_max"
      "attributed_fee_cents c + fee_or_zero fee \<le> u64_max"
  shows "keeps_ok c (booked_ctx c fid q p ts fv fee)"
proof -
  let ?pl = "\<lparr>fp_qty = q, fp_price_cents = p, fp_fee = fee, fp_venue_order_id = fv, fp_ts_ns = ts\<rparr>"
  let ?i = "(invalidate_authority (book_fill c fid q p ts fv fee (attributed_fill_qty c + q)
      (attributed_fee_cents c + fee_or_zero fee)))
      \<lparr>fill_obligation := max (attributed_fill_qty c + q) (fill_obligation c)\<rparr>"
  let ?d = "booked_ctx c fid q p ts fv fee"
  have d: "?d = accumulate_response_domain ?i q p fee ts" by (simp add: booked_ctx_code)
  have part: "domain_part ?i = domain_part c"
    by (rule domain_part_cong) (simp_all add: invalidate_authority_def book_fill_def)
  have dpart: "domain_part ?d = domain_part c"
    by (rule domain_part_cong) (simp_all add: d invalidate_authority_def book_fill_def)
  have fields: "applied_fills ?d = bt_insert fid ?pl (applied_fills c)"
    "attributed_fill_qty ?d = attributed_fill_qty c + q"
    "attributed_fee_cents ?d = attributed_fee_cents c + fee_or_zero fee"
    "attributed_notional_cents ?d = sat_add_u128 (attributed_notional_cents c) (q * p)"
    "fill_obligation ?d = max (attributed_fill_qty c + q) (fill_obligation c)"
    "order_qty ?d = order_qty c" "venue_order_id_of ?d = venue_order_id_of c"
    "\<not> authority_complete ?d"
    "response_fill_count ?d = response_fill_count c"
    "response_snapshot_boundary ?d = response_snapshot_boundary c"
    "response_domain_qty ?i = response_domain_qty c"
    "response_domain_notional_cents ?i = response_domain_notional_cents c"
    "response_domain_fee_cents ?i = response_domain_fee_cents c"
    by (simp_all add: d invalidate_authority_def book_fill_def)
  note new = bt_sum_insert_new [OF fresh, of _ ?pl]
  have own: "parent_owns ?d" if "parent_owns c"
    unfolding parent_owns_iff fields
  proof (intro allI impI)
    fix w assume w: "venue_order_id_of c = Some w"
    with that owner show "foreign_fill w (bt_insert fid ?pl (applied_fills c)) = None"
      by (intro foreign_fill_insert) (auto simp: parent_owns_iff)
  qed
  have ledger: "ledger_ok ?d" if "ledger_ok c"
    using that fits own
    by (auto simp: ledger_ok_def fields new bt_ok_insert fill_fee_def
        fill_notional_def sat_add_u128_def min_def)
  have sums: "domain_ok ?d" if "domain_ok c"
  proof -
    from that have le: "response_domain_qty c \<le> u64_max"
      "response_domain_notional_cents c \<le> u128_max" "response_domain_fee_cents c \<le> u64_max"
      by (auto simp: domain_ok_def domain_sums_def)
    note acc = accumulate_domain [OF d refl, of fv, unfolded part fields]
    from that acc(1) [OF le(1)] acc(2) [OF le(2)] acc(3) [OF le(3)] show ?thesis
      by (simp add: domain_ok_def domain_sums_def fields dpart new sat_min)
  qed
  from ledger sums show ?thesis by (simp add: keeps_ok_def)
qed

lemma enriched_keeps:
  assumes known: "bt_get (applied_fills c) fid = Some prev" and may: "may_enrich c prev v gain"
  shows "keeps_ok c (enriched_ctx c fid prev v gain)"
proof -
  let ?pl = "prev\<lparr>fp_venue_order_id := v, fp_fee := (if gain = None then fp_fee prev else gain)\<rparr>"
  let ?d = "enriched_ctx c fid prev v gain"
  have fields: "applied_fills ?d = bt_insert fid ?pl (applied_fills c)"
    "attributed_fill_qty ?d = attributed_fill_qty c"
    "attributed_fee_cents ?d = attributed_fee_cents c + fee_or_zero gain"
    "attributed_notional_cents ?d = attributed_notional_cents c"
    "fill_obligation ?d = fill_obligation c" "order_qty ?d = order_qty c"
    "venue_order_id_of ?d = venue_order_id_of c" "authority_complete ?d = authority_complete c"
    "authority_epoch ?d = authority_epoch c"
    "authority_latched_epoch ?d = authority_latched_epoch c"
    "response_fill_count ?d = response_fill_count c"
    "response_snapshot_boundary ?d = response_snapshot_boundary c"
    "response_domain_qty ?d = response_domain_qty c"
    "response_domain_notional_cents ?d = response_domain_notional_cents c"
    by (auto simp: enriched_ctx_def Let_def fee_or_zero_def split: option.split)
  have dfee: "response_domain_fee_cents ?d =
      min (response_domain_fee_cents c + (domain_part c fill_fee ?pl - domain_part c fill_fee prev)) u64_max"
    if "response_domain_fee_cents c \<le> u64_max"
    using that may
    by (auto simp: enriched_ctx_def Let_def domain_part_def fill_fee_def fee_or_zero_def may_enrich_def
        sat_add_u64_def split: option.split)
  have dpart: "domain_part ?d = domain_part c" by (rule domain_part_cong) (simp_all add: fields)
  note rep = btree.total_replace_same [OF _ known, of _ ?pl]
  have gain: "fill_fee ?pl = fill_fee prev + fee_or_zero gain"
    using may by (auto simp: fill_fee_def may_enrich_def fee_or_zero_def)
  have ledger: "ledger_ok ?d" if ok: "ledger_ok c"
  proof -
    from ok have bt: "bt_ok (applied_fills c)" by (simp add: ledger_ok_def)
    have fee: "bt_sum fill_fee (bt_insert fid ?pl (applied_fills c))
        = bt_sum fill_fee (applied_fills c) + fee_or_zero gain"
      using bt_sum_insert_replace [OF bt known, of fill_fee ?pl] gain by simp
    have own: "parent_owns ?d"
      unfolding parent_owns_iff fields
    proof (intro allI impI)
      fix w assume w: "venue_order_id_of c = Some w"
      with ok have none: "foreign_fill w (applied_fills c) = None"
        by (simp add: ledger_ok_def parent_owns_iff)
      from foreign_fill_get [OF none known] w may have "v \<in> {None, Some w}"
        by (auto simp: may_enrich_def)
      with none show "foreign_fill w (bt_insert fid ?pl (applied_fills c)) = None"
        by (intro foreign_fill_insert) simp_all
    qed
    show ?thesis
      using ok own fee may rep [OF bt, of fp_qty] rep [OF bt, of fill_notional]
      by (auto simp: ledger_ok_def fields bt_ok_insert fill_notional_def may_enrich_def)
  qed
  have sums: "domain_ok ?d" if "ledger_ok c" "domain_ok c"
  proof -
    from that have bt: "bt_ok (applied_fills c)" by (simp add: ledger_ok_def)
    have part: "domain_part c f ?pl = domain_part c f prev" if "f ?pl = f prev" for f
      using that by (simp add: domain_part_def)
    have le: "domain_part c fill_fee prev \<le> domain_part c fill_fee ?pl"
      using gain by (simp add: domain_part_def)
    have df: "bt_sum (domain_part c fill_fee) (bt_insert fid ?pl (applied_fills c))
        = bt_sum (domain_part c fill_fee) (applied_fills c)
          + (domain_part c fill_fee ?pl - domain_part c fill_fee prev)"
      using bt_sum_insert_replace [OF bt known, of "domain_part c fill_fee" ?pl] le by simp
    from that have "response_domain_fee_cents c \<le> u64_max" by (simp add: domain_ok_def domain_sums_def)
    note d = dfee [OF this]
    have "response_domain_fee_cents ?d
        = min (bt_sum (domain_part c fill_fee) (bt_insert fid ?pl (applied_fills c))) u64_max"
      using that by (simp only: d df) (simp add: domain_ok_def domain_sums_def sat_min)
    then show ?thesis
      using that rep [OF bt, of "domain_part c fp_qty"] rep [OF bt, of "domain_part c fill_notional"]
        part [of fp_qty] part [of fill_notional]
      by (simp add: domain_ok_def domain_sums_def fields dpart fill_notional_def)
  qed
  from ledger sums show ?thesis by (simp add: keeps_ok_def)
qed

lemma account_keeps:
  "account_fill_core c fid q p ts fv fee False = (c1, a) \<Longrightarrow> keeps_ok c c1"
  by (erule account_core_cases) (auto simp: keeps_ok_def [of c c] intro: booked_keeps enriched_keeps)


section \<open>Every transition keeps the invariants\<close>

lemma keeps_refl [simp]: "keeps_ok c c" "keeps_ledger c c"
  by (simp_all add: keeps_ok_def keeps_ledger_def)

lemma keeps_weaken: "keeps_ok c d \<Longrightarrow> keeps_ledger c d"
  by (simp add: keeps_ok_def keeps_ledger_def)

lemma keeps_ledger_trans: "keeps_ok a b \<Longrightarrow> keeps_ledger b c \<Longrightarrow> keeps_ledger a c"
  by (simp add: keeps_ok_def keeps_ledger_def)

lemma observe_keeps:
  "observe_snapshot c v vf vr om mf = Inr (c1, es) \<Longrightarrow> keeps_ok c c1"
  "observe_snapshot c v vf vr om mf = Inl (c1, reason, es) \<Longrightarrow> keeps_ledger c c1"
  by (auto simp: observe_snapshot_def Let_def split: sum.splits
      intro: keeps_ok_trans [OF keeps_ok_trans [OF bind_keeps remaining_keeps] evidence_keeps]
        keeps_weaken [OF keeps_ok_trans [OF bind_keeps remaining_keeps]])

lemma respond_keeps:
  assumes "bind_venue_id c v = Inr (c1, jr)"
  shows "keeps_ok c (note_venue_remaining c1 rc)"
    and "c2 = set_response_snapshot (note_venue_remaining c1 rc) fc rc avg fee b \<Longrightarrow>
      keeps_ledger c c2"
    and "c2 = set_response_snapshot (note_venue_remaining c1 rc) fc rc avg fee b \<Longrightarrow>
      raise_fill_obligation c2 fc = Inr c3 \<Longrightarrow> keeps_ok c (recompute_response_domain c3)"
proof -
  show base: "keeps_ok c (note_venue_remaining c1 rc)" for rc
    by (rule keeps_ok_trans [OF bind_keeps [OF assms] remaining_keeps])
  show snap: "keeps_ledger c c2"
    if "c2 = set_response_snapshot (note_venue_remaining c1 rc) fc rc avg fee b" for c2
    using keeps_ledger_trans [OF base snapshot_keeps] that by simp
  show "keeps_ok c (recompute_response_domain c3)"
    if c2: "c2 = set_response_snapshot (note_venue_remaining c1 rc) fc rc avg fee b"
      and r: "raise_fill_obligation c2 fc = Inr c3"
  proof -
    have "ledger_ok c \<Longrightarrow> ledger_ok c3"
      using snap [OF c2] raise_keeps [OF r] by (simp add: keeps_ok_def keeps_ledger_def)
    moreover have "response_fill_count c3 \<noteq> None"
      using raise_obligation_fields [OF r] c2 by (simp add: set_response_snapshot_def)
    ultimately show ?thesis
      by (simp add: keeps_ok_def domain_ok_def recompute_domain_sums)
  qed
qed

lemma account_halt_keeps:
  "account_fill_core c fid q p ts fv fee False = (c1, a) \<Longrightarrow> keeps_ledger c c1"
  by (rule keeps_weaken [OF account_keeps])

interpretation invariant: transition_contract
  "\<lambda>c _ d. keeps_ok c d" "\<lambda>c _ d. keeps_ledger c d" True
  by unfold_locales
    (assumption | rule keeps_refl invalidate_keeps latch_keeps remaining_keeps carry_keeps
      | erule bind_keeps evidence_keeps raise_keeps account_keeps account_halt_keeps observe_keeps
          keeps_weaken respond_keeps(1)
      | erule (1) keeps_ok_trans | erule (1) keeps_ledger_trans
      | erule (1) respond_keeps(2) | erule (2) respond_keeps(3))+

lemma keeps_ledger_chain: "keeps_ledger a b \<Longrightarrow> keeps_ledger b c \<Longrightarrow> keeps_ledger a c"
  by (simp add: keeps_ledger_def)

interpretation ledger: stable_contract "\<lambda>c _ d. keeps_ledger c d"
  by unfold_locales
    (assumption | rule keeps_refl carry_keeps [THEN keeps_weaken] invalidate_keeps [THEN keeps_weaken]
        latch_keeps [THEN keeps_weaken] remaining_keeps [THEN keeps_weaken]
      | erule bind_keeps [THEN keeps_weaken] evidence_keeps [THEN keeps_weaken]
          raise_keeps [THEN keeps_weaken] account_halt_keeps
          observe_keeps(1) [THEN keeps_weaken] observe_keeps(2) respond_keeps(1) [THEN keeps_weaken]
      | erule (1) keeps_ledger_chain | erule (1) respond_keeps(2)
      | erule (2) respond_keeps(3) [THEN keeps_weaken])+

end
