(* ===== verification/Fold_Refinement.thy ===== *)
theory Fold_Refinement
  imports Ctx_Invariant
begin

text \<open>
  Crash rebuild against memory. Folding the durable records an event emitted over a rebuilt context
  follows the live transition, up to a latch the fold may have dropped: the rebuilt context never
  claims an authority the memory does not have.
\<close>

section \<open>The simulation\<close>

definition rebuilt :: "order_ctx \<Rightarrow> order_ctx \<Rightarrow> bool" where
  "rebuilt c d =
     (d = c\<lparr>authority_complete := authority_complete d\<rparr>
      \<and> (authority_complete d \<longrightarrow> authority_complete c))"

definition mem_ok :: "order_ctx \<Rightarrow> bool" where
  "mem_ok c = (ledger_ok c \<and> authority_epoch c \<le> u64_max)"

definition folds :: "order_ctx \<Rightarrow> effect list \<Rightarrow> order_ctx \<Rightarrow> bool" where
  "folds c es c1 =
     (mem_ok c \<longrightarrow> mem_ok c1 \<and>
        (\<forall>d. rebuilt c d \<longrightarrow>
           (case rebuild_ctx_from_journal d (journal_of es) of
              Inl _ \<Rightarrow> False | Inr d1 \<Rightarrow> rebuilt c1 d1)))"

definition folds_or_fails :: "order_ctx \<Rightarrow> effect list \<Rightarrow> order_ctx \<Rightarrow> bool" where
  "folds_or_fails c es c1 =
     (mem_ok c \<longrightarrow> mem_ok c1 \<and>
        (\<forall>d. rebuilt c d \<longrightarrow>
           (case rebuild_ctx_from_journal d (journal_of es) of
              Inl _ \<Rightarrow> True | Inr d1 \<Rightarrow> rebuilt c1 d1)))"

lemma rebuilt_refl [simp]: "rebuilt c c"
  by (simp add: rebuilt_def)

lemma rebuilt_drop: "rebuilt c (c\<lparr>authority_complete := False\<rparr>)"
  by (simp add: rebuilt_def)

text \<open>Only two contexts are rebuilt from \<open>c\<close>: itself, and itself without the latch.\<close>

lemma rebuilt_cases:
  "rebuilt c d \<longleftrightarrow> d = c \<or> d = c\<lparr>authority_complete := False\<rparr>"
proof
  assume r: "rebuilt c d"
  show "d = c \<or> d = c\<lparr>authority_complete := False\<rparr>"
  proof (cases "authority_complete d")
    case True
    with r have "authority_complete c" and "d = c\<lparr>authority_complete := True\<rparr>"
      by (auto simp: rebuilt_def)
    then show ?thesis by (cases c) simp
  next
    case False
    with r show ?thesis by (simp add: rebuilt_def)
  qed
qed (auto intro: rebuilt_drop)

lemma folds_iff:
  "folds c es c1 \<longleftrightarrow> (mem_ok c \<longrightarrow> mem_ok c1 \<and>
     (\<forall>d. rebuilt c d \<longrightarrow>
        (\<exists>d1. rebuild_ctx_from_journal d (journal_of es) = Inr d1 \<and> rebuilt c1 d1)))"
proof -
  have "(case x of Inl _ \<Rightarrow> False | Inr d1 \<Rightarrow> P d1) = (\<exists>d1. x = Inr d1 \<and> P d1)"
    for x :: "halt_reason + order_ctx" and P
    by (cases x) auto
  then show ?thesis by (simp add: folds_def)
qed

lemma folds_or_fails_iff:
  "folds_or_fails c es c1 \<longleftrightarrow> (mem_ok c \<longrightarrow> mem_ok c1 \<and>
     (\<forall>d d1. rebuilt c d \<longrightarrow> rebuild_ctx_from_journal d (journal_of es) = Inr d1 \<longrightarrow> rebuilt c1 d1))"
  unfolding folds_or_fails_def
  by (rule imp_cong [OF refl], rule conj_cong [OF refl]) (auto split: sum.split)

lemma foldsI:
  assumes "\<And>b. \<lbrakk>mem_ok c; b \<longrightarrow> authority_complete c\<rbrakk> \<Longrightarrow>
    mem_ok c1 \<and> (\<exists>d1. rebuild_ctx_from_journal (c\<lparr>authority_complete := b\<rparr>) (journal_of es) = Inr d1
      \<and> rebuilt c1 d1)"
  shows "folds c es c1"
  unfolding folds_iff
proof (intro impI conjI allI)
  assume "mem_ok c"
  then show "mem_ok c1" using assms [of False] by simp
  fix d assume "rebuilt c d"
  then have "d = c\<lparr>authority_complete := authority_complete d\<rparr>"
    and "authority_complete d \<longrightarrow> authority_complete c" by (simp_all add: rebuilt_def)
  with assms [OF \<open>mem_ok c\<close>, of "authority_complete d"]
  show "\<exists>d1. rebuild_ctx_from_journal d (journal_of es) = Inr d1 \<and> rebuilt c1 d1" by simp
qed

lemma folds_trans:
  assumes "folds c es c1" and "folds c1 fs c2" shows "folds c (es @ fs) c2"
  unfolding folds_iff
proof (intro impI conjI allI)
  assume ok: "mem_ok c"
  with assms show "mem_ok c2" by (simp add: folds_iff)
  fix d assume "rebuilt c d"
  with assms(1) ok obtain d1 where
    "rebuild_ctx_from_journal d (journal_of es) = Inr d1" "rebuilt c1 d1" "mem_ok c1"
    by (auto simp: folds_iff)
  with assms(2) show "\<exists>d2. rebuild_ctx_from_journal d (journal_of (es @ fs)) = Inr d2 \<and> rebuilt c2 d2"
    by (auto simp: folds_iff rebuild_append)
qed

lemma folds_weaken: "folds c es c1 \<Longrightarrow> folds_or_fails c es c1"
  by (auto simp: folds_iff folds_or_fails_iff)

lemma fails_trans:
  assumes "folds_or_fails c es c1" and "folds_or_fails c1 fs c2"
  shows "folds_or_fails c (es @ fs) c2"
  using assms by (auto simp: folds_or_fails_iff rebuild_append split: sum.splits)


section \<open>Authority, venue and obligation\<close>

lemma mem_ok_step: "mem_ok c \<Longrightarrow> keeps_ok c c1 \<Longrightarrow> authority_epoch c1 \<le> u64_max \<Longrightarrow> mem_ok c1"
  by (simp add: mem_ok_def keeps_ok_def)

lemma epoch_bound: "authority_epoch c \<le> u64_max \<Longrightarrow> sat_add_u64 (authority_epoch c) 1 \<le> u64_max
    \<and> max (sat_add_u64 (authority_epoch c) 1) (authority_epoch c) = sat_add_u64 (authority_epoch c) 1"
  by (auto simp: sat_add_u64_def)

lemma fold_invalidate:
  "authority_epoch c \<le> u64_max \<Longrightarrow>
    fold_invalidated (c\<lparr>authority_complete := b\<rparr>) (authority_epoch (invalidate_authority c))
    = invalidate_authority c"
  using epoch_bound [of c] by (simp add: fold_invalidated_def invalidate_authority_def)

lemma mem_ok_invalidate: "mem_ok c \<Longrightarrow> mem_ok (invalidate_authority c)"
  using invalidate_keeps [of c] epoch_bound [of c]
  by (auto simp: mem_ok_def keeps_ok_def invalidate_authority_def)

lemma folds_neutral: "ctx_neutral e \<Longrightarrow> folds c [e] c"
proof (rule foldsI)
  fix b assume "mem_ok c" "b \<longrightarrow> authority_complete c" "ctx_neutral e"
  moreover have "rebuild_ctx_from_journal d (journal_of [e]) = Inr d" for d
  proof (cases e)
    case (AppendFsync r)
    with \<open>ctx_neutral e\<close> show ?thesis by (cases r) auto
  qed (use \<open>ctx_neutral e\<close> in auto)
  ultimately show "mem_ok c \<and> (\<exists>d1. rebuild_ctx_from_journal (c\<lparr>authority_complete := b\<rparr>)
      (journal_of [e]) = Inr d1 \<and> rebuilt c d1)"
    by (auto simp: rebuilt_def)
qed

lemma folds_prepared: "folds c [AppendFsync (J_SubmitPrepared (client_order_id_of c))] c"
  by (rule foldsI) (auto simp: rebuilt_def)

lemma bind_only_complete:
  "bind_venue_id c v = Inr (c1, jr) \<Longrightarrow>
    bind_only (c\<lparr>authority_complete := b\<rparr>) v = Inr (c1\<lparr>authority_complete := b\<rparr>)"
  by (auto simp: bind_only_def bind_venue_id_def split: option.splits if_splits)

lemma bind_only_again:
  "venue_order_id_of c = Some v \<Longrightarrow> bind_only c v = Inr c"
  by (simp add: bind_only_def bind_venue_id_def)

lemma bind_only_fails:
  "bind_venue_id c v = Inl r \<Longrightarrow> bind_only (c\<lparr>authority_complete := b\<rparr>) v = Inl r"
  by (auto simp: bind_only_def bind_venue_id_def split: option.splits if_splits)

lemma bind_record:
  "bind_venue_id c v = Inr (c1, jr) \<Longrightarrow> (jr = None \<and> c1 = c) \<or> (\<exists>cid. jr = Some (J_VenueBoundCid cid v))"
  by (auto simp: bind_venue_id_def split: option.splits if_splits)

lemma mem_ok_bind: "bind_venue_id c v = Inr (c1, jr) \<Longrightarrow> mem_ok c \<Longrightarrow> mem_ok c1"
  using bind_keeps [of c v c1 jr] bind_venue_frame [of c v c1 jr]
  by (simp add: mem_ok_def keeps_ok_def)

lemma folds_bind:
  assumes b: "bind_venue_id c v = Inr (c1, jr)" shows "folds c (jeff jr) c1"
proof (rule foldsI)
  fix b assume "mem_ok c" "b \<longrightarrow> authority_complete c"
  with assms bind_record [OF assms] bind_only_complete [OF assms, of b] mem_ok_bind [OF assms]
    bind_venue_frame [OF assms]
  show "mem_ok c1 \<and> (\<exists>d1. rebuild_ctx_from_journal (c\<lparr>authority_complete := b\<rparr>)
      (journal_of (jeff jr)) = Inr d1 \<and> rebuilt c1 d1)"
    by (auto simp: rebuilt_def)
qed

text \<open>The records of a raised obligation, folded over any epoch up to the live one.\<close>

lemma mem_ok_raise: "raise_fill_obligation c n = Inr c1 \<Longrightarrow> mem_ok c \<Longrightarrow> mem_ok c1"
  using raise_keeps [of c n c1] epoch_bound [of c]
  by (auto simp: mem_ok_def keeps_ok_def raise_fill_obligation_def invalidate_authority_def Let_def
      split: if_splits)

lemma raise_cases:
  assumes "raise_fill_obligation c n = Inr c1" and "mem_ok c"
  obtains "n \<le> fill_obligation c" "c1 = c"
  | "n > fill_obligation c" "n \<le> order_qty c" "attributed_fill_qty c < n"
    "c1 = (invalidate_authority c)\<lparr>fill_obligation := n\<rparr>"
proof (cases "n \<le> fill_obligation c")
  case True
  with assms that(1) show ?thesis by (auto simp: raise_fill_obligation_def split: if_splits)
next
  case False
  moreover have "attributed_fill_qty c < n"
    using False assms(2) by (simp add: mem_ok_def ledger_ok_def)
  ultimately show ?thesis
    using assms(1) that(2)
    by (auto simp: raise_fill_obligation_def invalidate_authority_def Let_def split: if_splits)
qed

lemma fold_raised:
  assumes "mem_ok c" "n \<le> order_qty c" "attributed_fill_qty c < n" "n > fill_obligation c"
    and "e = authority_epoch (invalidate_authority c)"
  shows "fold_obligation_raised (c\<lparr>authority_complete := b\<rparr>) n e
      = Inr ((invalidate_authority c)\<lparr>fill_obligation := n\<rparr>)"
  using assms epoch_bound [of c]
  by (simp add: fold_obligation_raised_def restore_fill_obligation_def invalidate_authority_def
      mem_ok_def Let_def)

lemma fold_invalidated_same:
  "\<not> authority_complete c \<Longrightarrow> fold_invalidated c (authority_epoch c) = c"
  by (cases c) (simp add: fold_invalidated_def)

lemma folds_raise:
  assumes "raise_fill_obligation c n = Inr c1" shows "folds c (obligation_records c c1) c1"
proof (rule foldsI)
  fix b assume ok: "mem_ok c" and b: "b \<longrightarrow> authority_complete c"
  from assms ok show "mem_ok c1 \<and> (\<exists>d1. rebuild_ctx_from_journal (c\<lparr>authority_complete := b\<rparr>)
      (journal_of (obligation_records c c1)) = Inr d1 \<and> rebuilt c1 d1)"
  proof (cases rule: raise_cases)
    case 1
    with ok b show ?thesis by (auto simp: obligation_records_def rebuilt_def)
  next
    case 2
    let ?i = "(invalidate_authority c)\<lparr>fill_obligation := n\<rparr>"
    have "fold_invalidated ?i (authority_epoch ?i) = ?i"
      by (rule fold_invalidated_same) (simp add: invalidate_authority_def)
    with 2 fold_raised [OF ok 2(2,3,1) refl, of b] mem_ok_raise [OF assms ok] show ?thesis
      by (auto simp: obligation_records_def)
  qed
qed

lemma folds_evidence:
  assumes "note_fill_evidence c n = Inr (c1, jr)" shows "folds c (jeff jr) c1"
proof (rule foldsI)
  fix b assume ok: "mem_ok c" and b: "b \<longrightarrow> authority_complete c"
  from assms have r: "raise_fill_obligation c n = Inr c1"
    and jr: "jr = (if fill_obligation c1 > fill_obligation c
      then Some (J_ObligationRaised (fill_obligation c1) (authority_epoch c1)) else None)"
    by (auto simp: note_fill_evidence_def split: sum.splits)
  from r ok show "mem_ok c1 \<and> (\<exists>d1. rebuild_ctx_from_journal (c\<lparr>authority_complete := b\<rparr>)
      (journal_of (jeff jr)) = Inr d1 \<and> rebuilt c1 d1)"
  proof (cases rule: raise_cases)
    case 1
    with ok b jr show ?thesis by (auto simp: rebuilt_def)
  next
    case 2
    with jr fold_raised [OF ok 2(2,3,1) refl, of b] mem_ok_raise [OF r ok] show ?thesis
      by auto
  qed
qed

lemma folds_latch:
  "folds c [AppendFsync (J_AuthorityLatched (authority_epoch c))] (latch_authority_complete c)"
  by (rule foldsI) (auto simp: mem_ok_def fold_latched_def latch_authority_complete_def rebuilt_def
      ledger_ok_def parent_owns_iff)

lemma folds_cancel:
  assumes "is_cancel_record r"
  shows "folds c [AppendFsync (J_AuthorityInvalidated (authority_epoch (invalidate_authority c))),
    AppendFsync r] (invalidate_authority c)"
proof (rule foldsI)
  fix b assume ok: "mem_ok c"
  have "rebuild_step (invalidate_authority c) r = Inr (invalidate_authority c)"
    using assms by (cases r) (simp_all add: fold_cancel_def invalidate_authority_def)
  with ok mem_ok_invalidate [OF ok] fold_invalidate [of c b]
  show "mem_ok (invalidate_authority c) \<and> (\<exists>d1. rebuild_ctx_from_journal
      (c\<lparr>authority_complete := b\<rparr>) (journal_of [AppendFsync (J_AuthorityInvalidated
        (authority_epoch (invalidate_authority c))), AppendFsync r]) = Inr d1
      \<and> rebuilt (invalidate_authority c) d1)"
    by (auto simp: mem_ok_def)
qed


section \<open>Booking\<close>

lemma book_commutes:
  "book_fill ((invalidate_authority c)\<lparr>fill_obligation := n\<rparr>) fid q p ts fv fee a f
    = (invalidate_authority (book_fill c fid q p ts fv fee a f))\<lparr>fill_obligation := n\<rparr>"
  by (rule order_ctx.equality) (simp_all add: book_fill_def invalidate_authority_def)

text \<open>The fold books a recorded fill on a context whose epoch and obligation it already restored.\<close>

lemma fold_booked:
  assumes "bt_get (applied_fills c) fid = None"
    and "venue_order_id_of c \<noteq> None \<Longrightarrow> fv = venue_order_id_of c"
    and "attributed_fill_qty c + q \<le> order_qty c" "attributed_fill_qty c + q \<le> u64_max"
    and "attributed_fee_cents c + fee_or_zero fee \<le> u64_max"
    and "i = (invalidate_authority c)\<lparr>fill_obligation :=
          max (attributed_fill_qty c + q) (fill_obligation c)\<rparr>"
  shows "fold_fill i fid q p ts fee fv = Inr (booked_ctx c fid q p ts fv fee)"
proof -
  have gate: "first_sighting_gate i fid fv = None" "bt_get (applied_fills i) fid = None"
    and same: "attributed_fill_qty i = attributed_fill_qty c" "order_qty i = order_qty c"
      "attributed_fee_cents i = attributed_fee_cents c"
    using assms(1,2,6) by (auto simp: first_sighting_gate_def invalidate_authority_def split: option.split)
  let ?b = "book_fill i fid q p ts fv fee (attributed_fill_qty c + q)
    (attributed_fee_cents c + fee_or_zero fee)"
  have b: "restore_fill_obligation ?b (attributed_fill_qty c + q) = Inr ?b"
    using assms(3,6) by (simp add: restore_fill_obligation_def book_fill_def invalidate_authority_def)
  have "account_fill_core i fid q p ts fv fee True
      = (accumulate_response_domain ?b q p fee ts, AA_Applied [])"
    using gate same assms(3-5) b
    by (simp add: account_fill_core_def account_new_fill_def checked_add_u64_def
        restore_booked_fill_def Let_def)
  moreover have "accumulate_response_domain ?b q p fee ts = booked_ctx c fid q p ts fv fee"
    by (simp add: assms(6) book_commutes booked_ctx_code)
  ultimately show ?thesis by (simp add: fold_fill_def try_account_fill_for_fold_def)
qed

lemma mem_ok_account:
  assumes "account_fill_core c fid q p ts fv fee False = (c1, a)" and "mem_ok c"
  shows "mem_ok c1"
proof -
  have "authority_epoch c1 \<le> u64_max"
    using assms(1)
  proof (cases rule: account_core_cases)
    case (enriched prev v gain)
    with assms(2) show ?thesis
      by (simp add: mem_ok_def enriched_ctx_def Let_def split: option.split)
  next
    case booked
    with assms(2) epoch_bound [of c] show ?thesis
      by (simp add: mem_ok_def booked_ctx_code book_fill_def invalidate_authority_def)
  qed (use assms(2) in \<open>simp add: mem_ok_def\<close>)
  with account_keeps [OF assms(1)] assms(2) show ?thesis by (simp add: mem_ok_def keeps_ok_def)
qed

lemma folds_booked:
  assumes "account_fill_core c fid q p ts fv fee False = (c1, a)"
    and "bt_get (applied_fills c) fid = None"
    and "venue_order_id_of c \<noteq> None \<Longrightarrow> fv = venue_order_id_of c"
    and "attributed_fill_qty c + q \<le> order_qty c" "attributed_fill_qty c + q \<le> u64_max"
    and "attributed_fee_cents c + fee_or_zero fee \<le> u64_max"
    and c1: "c1 = booked_ctx c fid q p ts fv fee"
  shows "folds c (booking_effects c fid q p ts fv fee) c1"
proof (rule foldsI)
  fix b assume ok: "mem_ok c"
  let ?total = "attributed_fill_qty c + q" and ?inv = "invalidate_authority c"
  let ?i = "?inv\<lparr>fill_obligation := max ?total (fill_obligation c)\<rparr>"
  from ok have inv: "fold_invalidated (c\<lparr>authority_complete := b\<rparr>) (authority_epoch ?inv) = ?inv"
    by (intro fold_invalidate) (simp add: mem_ok_def)
  have raise: "fold_obligation_raised ?inv ?total (authority_epoch ?inv) = Inr ?i"
    if "?total > fill_obligation c"
    using that assms(4) by (simp add: fold_obligation_raised_def restore_fill_obligation_def
        invalidate_authority_def Let_def)
  have fill: "fold_fill ?i fid q p ts fee fv = Inr c1"
    unfolding c1 by (rule fold_booked [OF assms(2-6) refl])
  have same: "?i = ?inv" if "\<not> ?total > fill_obligation c"
    using that by (simp add: invalidate_authority_def max_def)
  have "rebuild_ctx_from_journal (c\<lparr>authority_complete := b\<rparr>)
      (journal_of (booking_effects c fid q p ts fv fee)) = Inr c1"
    using inv raise fill same
    by (cases "?total > fill_obligation c")
      (simp_all add: booking_effects_def Let_def invalidate_authority_def)
  with mem_ok_account [OF assms(1) ok] show "mem_ok c1 \<and>
      (\<exists>d1. rebuild_ctx_from_journal (c\<lparr>authority_complete := b\<rparr>)
        (journal_of (booking_effects c fid q p ts fv fee)) = Inr d1 \<and> rebuilt c1 d1)"
    by auto
qed

text \<open>The recorded metadata of an enrichment, folded over the fill that lacks it.\<close>

lemma redeliver_enrichment:
  assumes may: "may_enrich c prev v gain" and fee: "attributed_fee_cents c \<le> u64_max"
  shows "redeliver_fill c fid prev (fp_qty prev) (fp_price_cents prev) (fp_ts_ns prev) v
      (if gain = None then fp_fee prev else gain)
    = (enriched_ctx c fid prev v gain, AA_Enriched (enrichment_effects c fid prev v gain))"
proof -
  have diff: "prev \<noteq> \<lparr>fp_qty = fp_qty prev, fp_price_cents = fp_price_cents prev,
      fp_fee = (if gain = None then fp_fee prev else gain), fp_venue_order_id = v,
      fp_ts_ns = fp_ts_ns prev\<rparr>"
    using may by (cases prev) (auto simp: may_enrich_def)
  have venue: "upgrade_venue c fid (fp_venue_order_id prev) v
      = Inr (v, v \<noteq> fp_venue_order_id prev)"
    using may by (auto simp: upgrade_venue_def may_enrich_def split: option.split dest: sym)
  show ?thesis
  proof (cases gain)
    case None
    have "upgrade_fee c fid (fp_ts_ns prev) (fp_fee prev) (fp_fee prev) = Inr (c, fp_fee prev, [], False)"
      by (simp add: upgrade_fee_def split: option.split)
    with None diff venue may show ?thesis
      by (auto simp: redeliver_fill_def may_enrich_def enriched_ctx_def enrichment_effects_def
          fill_journal_record_def Let_def)
  next
    case (Some f)
    with may fee have "fp_fee prev = None" "attributed_fee_cents c + f \<le> u64_max"
      by (auto simp: may_enrich_def fee_or_zero_def)
    with Some diff venue show ?thesis
      by (auto simp: redeliver_fill_def upgrade_fee_def enriched_ctx_def enrichment_effects_def
          checked_add_u64_def fill_journal_record_def Let_def)
  qed
qed

lemma may_enrich_complete [simp]:
  "may_enrich (c\<lparr>authority_complete := b\<rparr>) prev v gain = may_enrich c prev v gain"
  by (simp add: may_enrich_def)

lemma enriched_complete [simp]:
  "enriched_ctx (c\<lparr>authority_complete := b\<rparr>) fid prev v gain
    = (enriched_ctx c fid prev v gain)\<lparr>authority_complete := b\<rparr>"
  by (cases gain; rule order_ctx.equality)
    (auto simp: enriched_ctx_def fill_in_response_domain_def Let_def)

lemma folds_enriched:
  assumes "account_fill_core c fid q p ts fv fee False = (c1, a)"
    and known: "bt_get (applied_fills c) fid = Some prev" and may: "may_enrich c prev v gain"
    and c1: "c1 = enriched_ctx c fid prev v gain"
  shows "folds c (enrichment_effects c fid prev v gain) c1"
proof (rule foldsI)
  fix b assume ok: "mem_ok c" and b: "b \<longrightarrow> authority_complete c"
  let ?d = "c\<lparr>authority_complete := b\<rparr>"
  let ?e = "(enriched_ctx c fid prev v gain)\<lparr>authority_complete := b\<rparr>"
  let ?fee = "if gain = None then fp_fee prev else gain"
  from ok have "attributed_fee_cents c \<le> u64_max" by (simp add: mem_ok_def ledger_ok_def)
  then have "redeliver_fill ?d fid prev (fp_qty prev) (fp_price_cents prev) (fp_ts_ns prev) v ?fee
      = (?e, AA_Enriched (enrichment_effects ?d fid prev v gain))"
    using redeliver_enrichment [of ?d prev v gain fid] may by simp
  moreover have "first_sighting_gate ?d fid v = None"
    using known by (simp add: first_sighting_gate_def split: option.split)
  ultimately have fill: "fold_fill ?d fid (fp_qty prev) (fp_price_cents prev) (fp_ts_ns prev) ?fee v = Inr ?e"
    using known by (simp add: fold_fill_def try_account_fill_for_fold_def account_fill_core_def)
  have corr: "fold_fee_correction ?e fid f = Inr ?e" if "gain = Some f" for f
    using that by (simp add: fold_fee_correction_def enriched_ctx_def bt_get_insert Let_def)
  have "rebuild_ctx_from_journal ?d (journal_of (enrichment_effects c fid prev v gain)) = Inr ?e"
    using fill corr by (cases gain) (simp_all add: enrichment_effects_def)
  moreover have "rebuilt c1 ?e"
    using b unfolding c1 rebuilt_def by (auto simp: enriched_ctx_def Let_def split: option.split)
  ultimately show "mem_ok c1 \<and> (\<exists>d1. rebuild_ctx_from_journal ?d
      (journal_of (enrichment_effects c fid prev v gain)) = Inr d1 \<and> rebuilt c1 d1)"
    using mem_ok_account [OF assms(1) ok] by blast
qed

lemma folds_unchanged: "folds c [] c"
  by (rule foldsI) (auto simp: rebuilt_def)

lemma folds_account:
  assumes "account_fill_core c fid q p ts fv fee False = (c1, a)"
  shows "folds c (attempt_effects a) c1"
  using assms
proof (cases rule: account_core_cases)
  case unchanged
  then show ?thesis by (simp add: folds_unchanged)
next
  case (enriched prev v gain)
  from folds_enriched [OF assms enriched(1,4,5)] enriched(6) show ?thesis by simp
next
  case booked
  from folds_booked [OF assms booked(1-6)] booked(7) show ?thesis by simp
qed


section \<open>Venue snapshots\<close>

lemma member_quantities_complete [simp]:
  "backfill_member_quantities (c\<lparr>authority_complete := b\<rparr>) vf om = backfill_member_quantities c vf om"
  "backfill_member_quantities (c\<lparr>last_venue_remaining_qty := r\<rparr>) vf om
    = backfill_member_quantities c vf om"
  "backfill_member_quantities (c\<lparr>authority_epoch := e\<rparr>) vf om = backfill_member_quantities c vf om"
  by (rule member_quantities_cong; simp)+

text \<open>Folding a non-exhaustive snapshot: the latch may be dropped although memory keeps it.\<close>

lemma fold_observed_step:
  assumes "venue_order_id_of c = Some v" and m: "backfill_member_quantities c vf om = Inr m"
  shows "fold_observed (c\<lparr>authority_complete := b\<rparr>) v vf vr om False (authority_epoch c)
      = (if fst m > order_qty c then Inr ((note_venue_remaining c vr)\<lparr>authority_complete := b\<rparr>)
         else Inr ((note_venue_remaining c vr)
           \<lparr>fill_obligation := max (fst m) (fill_obligation c),
            authority_complete :=
              (b \<and> \<not> attributed_fill_qty c < max (fst m) (fill_obligation c))\<rparr>))"
proof -
  obtain mf mc where "m = (mf, mc)" by (cases m)
  moreover have "bind_only (c\<lparr>authority_complete := b\<rparr>) v = Inr (c\<lparr>authority_complete := b\<rparr>)"
    by (rule bind_only_again) (simp add: assms(1))
  ultimately show ?thesis
    using m by (auto simp: fold_observed_def note_venue_remaining_def restore_fill_obligation_def
        max_def Let_def)
qed

lemma mem_ok_remaining: "mem_ok (note_venue_remaining c r) = mem_ok c"
  by (simp add: mem_ok_def note_venue_remaining_def ledger_ok_def parent_owns_iff)

lemma folds_snapshot:
  assumes v: "venue_order_id_of c = Some v" and m: "backfill_member_quantities c vf om = Inr m"
    and e: "note_fill_evidence (note_venue_remaining c vr) (fst m) = Inr (c1, jr)"
  shows "folds c (AppendFsync (J_ReconcileObserved v vf vr om False (authority_epoch c)) # jeff jr) c1"
proof (rule foldsI)
  fix b assume ok: "mem_ok c" and b: "b \<longrightarrow> authority_complete c"
  let ?n = "note_venue_remaining c vr" and ?d = "c\<lparr>authority_complete := b\<rparr>"
  from e have r: "raise_fill_obligation ?n (fst m) = Inr c1"
    and jr: "jr = (if fill_obligation c1 > fill_obligation ?n
      then Some (J_ObligationRaised (fill_obligation c1) (authority_epoch c1)) else None)"
    by (auto simp: note_fill_evidence_def split: sum.splits)
  have okn: "mem_ok ?n" using ok by (simp add: mem_ok_remaining)
  note step = fold_observed_step [OF v m, of b vr]
  from r okn show "mem_ok c1 \<and> (\<exists>d1. rebuild_ctx_from_journal ?d (journal_of
      (AppendFsync (J_ReconcileObserved v vf vr om False (authority_epoch c)) # jeff jr)) = Inr d1
      \<and> rebuilt c1 d1)"
  proof (cases rule: raise_cases)
    case 1
    with ok have "fst m \<le> fill_obligation c" "fst m \<le> order_qty c"
      by (auto simp: note_venue_remaining_def mem_ok_def ledger_ok_def)
    with 1 step jr b okn show ?thesis
      by (auto simp: rebuilt_def note_venue_remaining_def max_def)
  next
    case 2
    let ?s = "?n\<lparr>fill_obligation := fst m, authority_complete := False\<rparr>"
    have "fst m > fill_obligation c" "attributed_fill_qty c < fst m" "fst m \<le> order_qty c"
      using 2 by (auto simp: note_venue_remaining_def)
    with step have one: "fold_observed ?d v vf vr om False (authority_epoch c) = Inr ?s"
      by (simp add: max_def)
    have "fold_obligation_raised ?s (fst m) (authority_epoch (invalidate_authority c)) = Inr c1"
      using 2 epoch_bound [of c] ok
      by (auto simp: fold_obligation_raised_def restore_fill_obligation_def invalidate_authority_def
          note_venue_remaining_def mem_ok_def Let_def)
    with one 2 jr mem_ok_raise [OF r okn] show ?thesis
      by (auto simp: invalidate_authority_def note_venue_remaining_def)
  qed
qed

lemma folds_snapshot_halt:
  assumes v: "venue_order_id_of c = Some v" and m: "backfill_member_quantities c vf om = Inr m"
    and e: "note_fill_evidence (note_venue_remaining c vr) (fst m) = Inl reason"
  shows "folds c [AppendFsync (J_ReconcileObserved v vf vr om False (authority_epoch c))]
    (note_venue_remaining c vr)"
proof (rule foldsI)
  fix b assume ok: "mem_ok c" and b: "b \<longrightarrow> authority_complete c"
  have "fst m > order_qty c"
    using e by (auto simp: note_fill_evidence_def raise_fill_obligation_def note_venue_remaining_def
        Let_def split: sum.splits if_splits)
  with fold_observed_step [OF v m, of b vr] have
    "fold_observed (c\<lparr>authority_complete := b\<rparr>) v vf vr om False (authority_epoch c)
      = Inr ((note_venue_remaining c vr)\<lparr>authority_complete := b\<rparr>)" by simp
  moreover have "rebuilt (note_venue_remaining c vr) ((note_venue_remaining c vr)\<lparr>authority_complete := b\<rparr>)"
    using b by (simp add: rebuilt_def note_venue_remaining_def)
  moreover have "mem_ok (note_venue_remaining c vr)" using ok by (simp add: mem_ok_remaining)
  ultimately show "mem_ok (note_venue_remaining c vr) \<and> (\<exists>d1. rebuild_ctx_from_journal
      (c\<lparr>authority_complete := b\<rparr>) (journal_of [AppendFsync (J_ReconcileObserved v vf vr om False
        (authority_epoch c))]) = Inr d1 \<and> rebuilt (note_venue_remaining c vr) d1)"
    by simp
qed

lemma observe_parts:
  assumes "observe_snapshot c v vf vr om mf = Inr (c1, es)"
  obtains d jr jr' where "bind_venue_id c v = Inr (d, jr)"
    "note_fill_evidence (note_venue_remaining d vr) mf = Inr (c1, jr')"
    "es = jeff jr @ AppendFsync (J_ReconcileObserved v vf vr om False (authority_epoch d)) # jeff jr'"
  using assms
  by (auto simp: observe_snapshot_def Let_def push_journal_def note_venue_remaining_def split: sum.splits)

lemma folds_observe:
  assumes m: "backfill_member_quantities c vf om = Inr m"
    and "observe_snapshot c v vf vr om (fst m) = Inr (c1, es)"
  shows "folds c es c1"
  using assms(2)
proof (cases rule: observe_parts)
  case (1 d jr jr')
  have "backfill_member_quantities d vf om = Inr m" "venue_order_id_of d = Some v"
    using m bind_venue_frame [OF 1(1)] member_quantities_cong [of d c vf om] by simp_all
  from folds_trans [OF folds_bind [OF 1(1)] folds_snapshot [OF this(2,1) 1(2)]] 1(3) show ?thesis
    by simp
qed

lemma folds_observe_halt:
  assumes m: "backfill_member_quantities c vf om = Inr m"
    and o: "observe_snapshot c v vf vr om (fst m) = Inl (c1, reason, es)"
  shows "folds c es c1"
proof (cases "bind_venue_id c v")
  case (Inl r)
  with o folds_unchanged show ?thesis by (simp add: observe_snapshot_def)
next
  case (Inr p)
  then obtain d jr where b: "bind_venue_id c v = Inr (d, jr)" by (cases p) auto
  from b o have e: "note_fill_evidence (note_venue_remaining d vr) (fst m) = Inl reason"
    "c1 = note_venue_remaining d vr"
    "es = jeff jr @ [AppendFsync (J_ReconcileObserved v vf vr om False (authority_epoch d))]"
    by (auto simp: observe_snapshot_def Let_def push_journal_def note_venue_remaining_def
        split: sum.splits)
  have "backfill_member_quantities d vf om = Inr m" "venue_order_id_of d = Some v"
    using m bind_venue_frame [OF b] member_quantities_cong [of d c vf om] by simp_all
  from folds_trans [OF folds_bind [OF b] folds_snapshot_halt [OF this(2,1) e(1)]] e(2,3)
  show ?thesis by simp
qed

lemma folds_observed_again:
  assumes m: "backfill_member_quantities c vf om = Inr m" and v: "venue_order_id_of c = Some v"
    and r: "last_venue_remaining_qty c = Some vr" and fresh: "authority_is_fresh c"
    and le: "fst m \<le> fill_obligation c"
  shows "folds c [AppendFsync (J_ReconcileObserved v vf vr om True (authority_epoch c))] c"
proof (rule foldsI)
  fix b assume ok: "mem_ok c"
  obtain mf mc where mm: "m = (mf, mc)" by (cases m)
  let ?d = "c\<lparr>authority_complete := b\<rparr>"
  have epoch: "?d\<lparr>authority_epoch := authority_epoch c\<rparr> = ?d" by (cases c) simp
  have "mf \<le> order_qty c" using le ok mm by (simp add: mem_ok_def ledger_ok_def)
  moreover have "bind_only ?d v = Inr ?d" by (rule bind_only_again) (simp add: v)
  moreover have "note_venue_remaining ?d vr = ?d" using r by (cases c) (simp add: note_venue_remaining_def)
  ultimately have "fold_observed ?d v vf vr om True (authority_epoch c) = Inr (latch_authority_complete ?d)"
    using m mm le
    using epoch by (simp add: fold_observed_def restore_fill_obligation_def Let_def)
  moreover have "latch_authority_complete ?d = c"
    using fresh by (cases c) (simp add: latch_authority_complete_def authority_is_fresh_def)
  ultimately show "mem_ok c \<and> (\<exists>d1. rebuild_ctx_from_journal ?d (journal_of
      [AppendFsync (J_ReconcileObserved v vf vr om True (authority_epoch c))]) = Inr d1 \<and> rebuilt c d1)"
    using ok by simp
qed


section \<open>Terminals and submit responses\<close>

lemma folds_terminal: "folds c [AppendFsync (terminal_record c k)] c"
proof (rule foldsI)
  fix b assume ok: "mem_ok c" and b: "b \<longrightarrow> authority_complete c"
  let ?d = "c\<lparr>authority_complete := b\<rparr>"
  have bound: "(case venue_order_id_of c of None \<Rightarrow> Inr ?d | Some v \<Rightarrow> bind_only ?d v) = Inr ?d"
    by (auto intro: bind_only_again split: option.split)
  have obl: "restore_fill_obligation ?d (fill_obligation c) = Inr ?d"
    using ok by (simp add: restore_fill_obligation_def mem_ok_def ledger_ok_def)
  have epoch: "?d\<lparr>authority_epoch := authority_epoch c\<rparr> = ?d" by (cases c) simp
  have "rebuild_step ?d (terminal_record c k)
      = Inr (if authority_is_fresh c then c else ?d)"
    unfolding terminal_record_def rebuild_step.simps fold_terminal_def bound
    by (cases c) (use obl epoch in \<open>simp add: Let_def authority_is_fresh_def\<close>)
  with ok b show "mem_ok c \<and> (\<exists>d1. rebuild_ctx_from_journal ?d
      (journal_of [AppendFsync (terminal_record c k)]) = Inr d1 \<and> rebuilt c d1)"
    by (simp add: rebuilt_def)
qed

lemma folds_unattributed:
  assumes "venue_order_id_of c = Some v" "response_fill_count c = Some fc"
    "response_remaining_count c = Some rc" "response_avg_price_cents c = avg"
    "response_fee_cents c = fee" "last_venue_remaining_qty c = Some rc" "fc \<le> fill_obligation c"
  shows "folds c [AppendFsync (J_ImmediateFillUnattributed v fc rc avg fee)] c"
proof (rule foldsI)
  fix b assume ok: "mem_ok c" and b: "b \<longrightarrow> authority_complete c"
  let ?d = "c\<lparr>authority_complete := b\<rparr>"
  have bound: "bind_only ?d v = Inr ?d" by (rule bind_only_again) (simp add: assms)
  have "note_venue_remaining (?d\<lparr>response_fill_count := Some fc, response_remaining_count := Some rc,
      response_avg_price_cents := avg, response_fee_cents := fee\<rparr>) rc = ?d"
    by (rule order_ctx.equality) (simp_all add: note_venue_remaining_def assms)
  moreover have "fc \<le> order_qty c" using ok assms(7) by (simp add: mem_ok_def ledger_ok_def)
  ultimately have "fold_immediate_fill ?d v fc rc avg fee = Inr ?d"
    using bound assms(7) by (simp add: fold_immediate_fill_def restore_fill_obligation_def Let_def)
  with ok b show "mem_ok c \<and> (\<exists>d1. rebuild_ctx_from_journal ?d (journal_of
      [AppendFsync (J_ImmediateFillUnattributed v fc rc avg fee)]) = Inr d1 \<and> rebuilt c d1)"
    by (simp add: rebuilt_def)
qed

text \<open>A recomputed domain does not depend on obligation or authority.\<close>

definition reauthorise :: "u64 \<Rightarrow> u64 \<Rightarrow> bool \<Rightarrow> order_ctx \<Rightarrow> order_ctx" where
  "reauthorise n e b c = c\<lparr>fill_obligation := n, authority_epoch := e, authority_complete := b\<rparr>"

lemma accumulate_reauthorise:
  "accumulate_response_domain (reauthorise n e b c) q p fee ts
    = reauthorise n e b (accumulate_response_domain c q p fee ts)"
  by (rule order_ctx.equality)
    (auto simp: accumulate_response_domain_def reauthorise_def has_reliable_boundary_def
      fill_in_response_domain_def Let_def split: option.split)

lemma accumulate_all_reauthorise:
  "accumulate_all m (reauthorise n e b c) = reauthorise n e b (accumulate_all m c)"
  by (induction m c rule: accumulate_all.induct) (simp_all add: accumulate_reauthorise)

lemma recompute_reauthorise:
  "recompute_response_domain (reauthorise n e b c) = reauthorise n e b (recompute_response_domain c)"
proof -
  let ?z = "\<lambda>c. c\<lparr>response_domain_qty := 0, response_domain_notional_cents := 0,
    response_domain_fee_cents := 0\<rparr>"
  have "?z (reauthorise n e b c) = reauthorise n e b (?z c)"
    by (simp add: reauthorise_def)
  moreover have "applied_fills (reauthorise n e b c) = applied_fills c"
    "response_fill_count (reauthorise n e b d) = response_fill_count d"
    "has_reliable_boundary (reauthorise n e b d) = has_reliable_boundary d" for d
    by (simp_all add: reauthorise_def has_reliable_boundary_def)
  ultimately show ?thesis
    by (simp add: recompute_response_domain_def accumulate_all_reauthorise Let_def)
      (simp add: reauthorise_def has_reliable_boundary_def)
qed


lemma mem_ok_recompute [simp]: "mem_ok (recompute_response_domain c) = mem_ok c"
  by (simp add: mem_ok_def)

lemma mem_ok_snapshot:
  "bind_venue_id c v = Inr (c1, jr) \<Longrightarrow> mem_ok c \<Longrightarrow>
    mem_ok (set_response_snapshot (note_venue_remaining c1 rc) fc rc avg fee b)"
  using mem_ok_bind [of c v c1 jr]
  by (simp add: mem_ok_def set_response_snapshot_def note_venue_remaining_def ledger_ok_def
      parent_owns_iff)

lemma rebuild_bound:
  assumes "bind_venue_id c v = Inr (c1, jr)" and "venue_order_id_of d = Some v"
  shows "rebuild_ctx_from_journal d (journal_of (jeff jr @ es)) = rebuild_ctx_from_journal d (journal_of es)"
  using bind_record [OF assms(1)] bind_only_again [OF assms(2)] by auto

lemma folds_respond_zero:
  assumes b: "bind_venue_id c v = Inr (c1, jr)"
  shows "folds c (AppendFsync (J_SubmitResponse v 0 rc avg fee bd) # jeff jr) (note_venue_remaining c1 rc)"
proof (rule foldsI)
  fix b assume ok: "mem_ok c" and b': "b \<longrightarrow> authority_complete c"
  let ?d = "note_venue_remaining (c1\<lparr>authority_complete := b\<rparr>) rc"
  have v: "venue_order_id_of ?d = Some v" "authority_complete c1 = authority_complete c"
    using bind_venue_frame [OF b] by (simp_all add: note_venue_remaining_def)
  have "fold_submit_response (c\<lparr>authority_complete := b\<rparr>) v 0 rc avg fee bd = Inr ?d"
    by (simp add: fold_submit_response_def bind_only_complete [OF b] Let_def)
  with rebuild_bound [OF b v(1), of "[]"] mem_ok_bind [OF b ok] b' v(2)
  show "mem_ok (note_venue_remaining c1 rc) \<and> (\<exists>d1. rebuild_ctx_from_journal
      (c\<lparr>authority_complete := b\<rparr>) (journal_of (AppendFsync (J_SubmitResponse v 0 rc avg fee bd) # jeff jr))
        = Inr d1 \<and> rebuilt (note_venue_remaining c1 rc) d1)"
    by (simp add: mem_ok_remaining) (simp add: rebuilt_def note_venue_remaining_def)
qed

lemma fold_response:
  assumes b: "bind_venue_id c v = Inr (c1, jr)" and pos: "fc > 0"
    and c2: "c2 = set_response_snapshot (note_venue_remaining c1 rc) fc rc avg fee bd"
    and fits: "fc \<le> order_qty c2"
  shows "fold_submit_response (c\<lparr>authority_complete := b\<rparr>) v fc rc avg fee bd
    = Inr (reauthorise (max fc (fill_obligation c2)) (authority_epoch c2) b (recompute_response_domain c2))"
proof -
  let ?s = "set_response_snapshot (note_venue_remaining (c1\<lparr>authority_complete := b\<rparr>) rc) fc rc avg fee bd"
  have s: "restore_fill_obligation ?s fc = Inr (reauthorise (max fc (fill_obligation c2)) (authority_epoch c2) b c2)"
    using fits by (auto simp: c2 restore_fill_obligation_def set_response_snapshot_def
        note_venue_remaining_def reauthorise_def max_def)
  with pos show ?thesis
    by (simp add: fold_submit_response_def bind_only_complete [OF b] recompute_reauthorise Let_def)
qed

lemma folds_respond_fills:
  assumes b: "bind_venue_id c v = Inr (c1, jr)" and pos: "fc > 0"
    and c2: "c2 = set_response_snapshot (note_venue_remaining c1 rc) fc rc avg fee bd"
    and r: "raise_fill_obligation c2 fc = Inr c3"
  shows "folds c ((AppendFsync (J_SubmitResponse v fc rc avg fee bd) # jeff jr) @ obligation_records c2 c3)
    (recompute_response_domain c3)"
proof (rule foldsI)
  fix b assume ok: "mem_ok c" and b': "b \<longrightarrow> authority_complete c"
  let ?c = "c\<lparr>authority_complete := b\<rparr>" and ?r = "recompute_response_domain c2"
  let ?d = "reauthorise (max fc (fill_obligation c2)) (authority_epoch c2) b ?r"
  have ok2: "mem_ok c2" unfolding c2 by (rule mem_ok_snapshot [OF b ok])
  have c2f: "venue_order_id_of c2 = Some v" "authority_complete c2 = authority_complete c"
    using bind_venue_frame [OF b] by (simp_all add: c2 set_response_snapshot_def note_venue_remaining_def)
  have fits: "fc \<le> order_qty c2" by (rule raise_obligation_frame(4) [OF r])
  have v: "venue_order_id_of ?d = Some v" using c2f by (simp add: reauthorise_def)
  from fold_response [OF b pos c2 fits, of b] rebuild_bound [OF b v, of "obligation_records c2 c3"]
  have start: "rebuild_ctx_from_journal ?c (journal_of ((AppendFsync (J_SubmitResponse v fc rc avg fee bd)
      # jeff jr) @ obligation_records c2 c3)) = rebuild_ctx_from_journal ?d (journal_of (obligation_records c2 c3))"
    by simp
  from r ok2 have "\<exists>d1. rebuild_ctx_from_journal ?d (journal_of (obligation_records c2 c3)) = Inr d1
      \<and> rebuilt (recompute_response_domain c3) d1"
  proof (cases rule: raise_cases)
    case 1
    then have "?d = ?r\<lparr>authority_complete := b\<rparr>"
      by (intro order_ctx.equality) (simp_all add: reauthorise_def)
    with 1 b' c2f show ?thesis by (simp add: obligation_records_def rebuilt_def)
  next
    case 2
    let ?e = "sat_add_u64 (authority_epoch c2) 1"
    have c3: "c3 = reauthorise fc ?e False c2"
      using 2(4) by (auto simp: reauthorise_def invalidate_authority_def)
    have goal: "recompute_response_domain c3 = reauthorise fc ?e False ?r"
      unfolding c3 by (rule recompute_reauthorise)
    have "fold_obligation_raised ?d fc ?e = Inr (reauthorise fc ?e False ?r)"
      using 2 fits epoch_bound [of c2] ok2
      by (auto simp: fold_obligation_raised_def restore_fill_obligation_def reauthorise_def
          mem_ok_def max_def Let_def)
    moreover have "fold_invalidated (reauthorise fc ?e False ?r) ?e = reauthorise fc ?e False ?r"
      by (simp add: fold_invalidated_def reauthorise_def)
    moreover have "fill_obligation c3 = fc" "authority_epoch c3 = ?e"
      by (simp_all add: c3 reauthorise_def)
    ultimately show ?thesis using 2(1) goal by (simp add: obligation_records_def)
  qed
  with start mem_ok_raise [OF r ok2]
  show "mem_ok (recompute_response_domain c3) \<and> (\<exists>d1. rebuild_ctx_from_journal ?c
      (journal_of ((AppendFsync (J_SubmitResponse v fc rc avg fee bd) # jeff jr) @ obligation_records c2 c3))
        = Inr d1 \<and> rebuilt (recompute_response_domain c3) d1)"
    by (simp only:) simp
qed

lemma folds_respond_exceeds:
  assumes b: "bind_venue_id c v = Inr (c1, jr)" and pos: "fc > 0"
    and c2: "c2 = set_response_snapshot (note_venue_remaining c1 rc) fc rc avg fee bd"
    and r: "raise_fill_obligation c2 fc = Inl reason"
  shows "folds_or_fails c (AppendFsync (J_SubmitResponse v fc rc avg fee bd) # jeff jr) c2"
proof -
  have "fc > order_qty c2" using r by (auto simp: raise_fill_obligation_def Let_def split: if_splits)
  then have "fold_submit_response (c\<lparr>authority_complete := b\<rparr>) v fc rc avg fee bd
      = Inl (H_ObligationExceedsOrderQty fc (order_qty c2))" for b
    using pos by (simp add: fold_submit_response_def bind_only_complete [OF b] c2
        restore_fill_obligation_def set_response_snapshot_def note_venue_remaining_def Let_def)
  moreover have "mem_ok c2" if "mem_ok c" unfolding c2 by (rule mem_ok_snapshot [OF b that])
  moreover have "\<exists>b. d = c\<lparr>authority_complete := b\<rparr>" if "rebuilt c d" for d
    using that by (auto simp: rebuilt_def)
  ultimately show ?thesis by (fastforce simp: folds_or_fails_iff)
qed

lemma folds_respond_unbound:
  assumes "bind_venue_id c v = Inl reason"
  shows "folds_or_fails c [AppendFsync (J_SubmitResponse v fc rc avg fee bd)] c"
proof -
  have "fold_submit_response (c\<lparr>authority_complete := b\<rparr>) v fc rc avg fee bd = Inl reason" for b
    by (simp add: fold_submit_response_def bind_only_fails [OF assms])
  moreover have "\<exists>b. d = c\<lparr>authority_complete := b\<rparr>" if "rebuilt c d" for d
    using that by (auto simp: rebuilt_def)
  ultimately show ?thesis by (fastforce simp: folds_or_fails_iff)
qed

lemma account_halt_folds:
  "account_fill_core c fid q p ts fv fee False = (c1, AA_Halt reason es) \<Longrightarrow> folds_or_fails c es c1"
  using folds_weaken [OF folds_account [of c fid q p ts fv fee c1 "AA_Halt reason es"]] by simp


section \<open>Every transition refines the fold\<close>

interpretation fold_refinement: transition_contract folds folds_or_fails False
  by unfold_locales
    (assumption | erule (1) folds_trans | erule folds_weaken
      | erule (1) fails_trans [OF folds_weaken]
      | erule fails_trans, erule folds_weaken [OF folds_neutral]
      | rule folds_unchanged folds_prepared folds_latch folds_terminal
      | erule folds_bind folds_evidence folds_raise folds_neutral folds_cancel
          folds_account account_halt_folds folds_respond_zero folds_respond_unbound
      | erule (1) folds_observe folds_observe_halt [THEN folds_weaken]
      | erule (3) folds_respond_fills folds_respond_exceeds
      | erule (4) folds_observed_again | erule (6) folds_unattributed | simp)+

end
