(* ===== verification/Fold_Replay.thy ===== *)
theory Fold_Replay
  imports Fold_Refinement
begin

text \<open>
  The refinement along a whole replay. The response evidence a state carries stays the context's
  own, so the contract applies to every event of a replay without claim events.
\<close>

section \<open>Carried evidence\<close>

fun carries :: "order_ctx \<times> transition_outcome \<Rightarrow> bool" where
  "carries (c, Accept st _) = carried st c"
| "carries (c, Halt st _ _) = carried st c"
| "carries (c, Reject _) = True"

named_theorems carry \<open>outcomes whose state carries the context's own evidence\<close>

lemma halt_carries [carry]:
  "carries (c, halt_with_reason r es)" "carries (c, accept st es) = carried st c"
  "carries (c, halt_with_reason_state st r es) = carried st c"
  by (simp_all add: halt_with_reason_def accept_def halt_with_reason_state_def Let_def)

lemma finalize_carries [carry]:
  "carries (c, try_finalize_terminal c p v es fb)"
  "carries (c, not_ready_for_terminal c v es fb ra vr)"
  "carries (c, finalize_reconcile_target c t es v)"
  by (auto simp: not_ready_for_terminal_def release_terminal_def try_finalize_terminal_def
      finalize_reconcile_target_def Let_def accept_def halt_with_reason_def
      split: prod.split ownership_verdict.split gate_verdict.split proposed_terminal.split
        reconcile_terminal.split elim!: terminal_of.elims)

lemma live_carries [carry]: "carries (route_live_or_filled c v es)"
  by (auto simp: route_live_or_filled_def carry Let_def split: option.split prod.split)

lemma resolve_carries:
  assumes "carried (St_ImmediateFillUnattributed v rfc rrc ravg rfee) c"
  shows "carries (resolve_unattributed c (St_ImmediateFillUnattributed v rfc rrc ravg rfee) prior enter)"
  using assms by (auto simp: carry split: resolve_verdict.split option.split)

lemma submit_carries [carry]: "carries (apply_submit_response c v fc rc avg fee b)"
proof -
  have "carried (St_ImmediateFillUnattributed v fc rc avg fee) (recompute_response_domain c3)"
    if "raise_fill_obligation (set_response_snapshot c2 fc rc avg fee b) fc = Inr c3" for c2 c3
    using raise_obligation_fields [OF that] by (simp add: set_response_snapshot_def)
  then show ?thesis
    by (auto simp: apply_submit_response_def submit_response_zero_def submit_response_fills_def
        carry Let_def simp del: resolve_unattributed.simps
        split: sum.split prod.split option.split intro!: resolve_carries)
qed

lemma after_fill_carries [carry]: "carries (after_fill_cancel_or_reconcile c v target es lq en)"
  by (auto simp: after_fill_cancel_or_reconcile_def after_fill_with_target_def
      after_fill_without_target_def cancel_pending_from_def reconcile_pending_from_def carry Let_def
      split: sum.split prod.split option.split)

lemma account_carried:
  "try_account_fill c fid q p ts fv fee = (c1, a) \<Longrightarrow> carried st c \<Longrightarrow> carried st c1"
  using account_frame
  by (cases st) (fastforce simp: try_account_fill_def try_account_fill_owned_def)+

lemma fill_carries [carry]:
  "carried st c \<Longrightarrow> carries (apply_fill_while_open st c fid q p ts fv fee)"
  "carried st c \<Longrightarrow> carries (apply_fill_dedup_only c fid q p ts fv fee st)"
  by (auto simp: apply_fill_while_open_def apply_fill_dedup_only_def carry
      split: prod.split account_attempt.split order_state.split dest: account_carried)

lemma immediate_carries [carry]:
  assumes "carried st c" shows "carries (apply_immediate_fill_backfill c st fills)"
proof (cases st)
  case (St_ImmediateFillUnattributed v rfc rrc ravg rfee)
  have "carried st c2" if "bind_venue_id c v = Inr (c1, jr)"
    "account_fill_records c1 es fills = (c2, x)" for c1 jr es c2 x
    using assms St_ImmediateFillUnattributed bind_venue_frame [OF that(1)]
      account_records_response [OF that(2)] by simp
  with St_ImmediateFillUnattributed show ?thesis
    by (auto simp: apply_immediate_fill_backfill_def carry simp del: resolve_unattributed.simps
        carried.simps split: sum.split prod.split intro!: resolve_carries)
qed (simp_all add: apply_immediate_fill_backfill_def reject_illegal_def)

lemma stay_carries: "carries (c, t) \<Longrightarrow> carries (c, stay_matching d f s t)"
  by (cases t) (auto simp: stay_matching_def accept_def split: order_state.split)

lemma status_carries [carry]: "carries (c, route_by_status c v status vf vr m om sc fsu es)"
  by (auto simp: route_by_status_def route_open_def continue_reconcile_pending_def
      reconcile_pending_from_def carry Let_def
      split: backfill_order_status.split option.split intro!: stay_carries)

lemma backfill_carries [carry]:
  "carries (route_from_backfill_status c v status vf vr om fills sc fsu)"
  by (auto simp: route_from_backfill_status_def carry Let_def split: sum.split prod.split)

lemma prepend_carries: "carries (c, prepend_effects p t) = carries (c, t)"
  by (cases t) auto

lemma backfill_carries_eq:
  "route_from_backfill_status c v status vf vr om fills sc fsu = (c1, t) \<Longrightarrow> carries (c1, t)"
  using backfill_carries [of c v status vf vr om fills sc fsu] by simp

lemma unknown_carries [carry]: "carries (apply_unknown_backfill c exhaustive matched)"
proof -
  have "carries (apply_unique_backfill c rec)" for c rec
    by (auto simp: apply_unique_backfill_def carry prepend_carries Let_def
        dest: backfill_carries_eq split: sum.split prod.split)
  then show ?thesis
    by (auto simp: apply_unknown_backfill_def carry split: list.split)
qed

lemma cancel_carries [carry]:
  "carries (apply_cancel_outcome c v filled rem rfc ravg rfee None outcome)"
  by (auto simp: apply_cancel_outcome_def route_cancel_outcome_def carry_reconcile_target_def
      carry Let_def split: sum.split prod.split cancel_outcome.split)

lemma reconcile_carries [carry]:
  "carries (reconcile_result c sv status vid filled rem fills complete)"
  by (auto simp: reconcile_result_def carry prepend_carries Let_def dest: backfill_carries_eq
      split: sum.split prod.split)

lemma requested_carries:
  "rfc = response_fill_count c \<Longrightarrow> ravg = response_avg_price_cents c \<Longrightarrow>
    rfee = response_fee_cents c \<Longrightarrow> carries (cancel_requested c v rfc ravg rfee)"
  by (simp add: cancel_requested_def authority_invalidate_effects_def invalidate_authority_def
      accept_def Let_def)

lemma claims_carry [carry]:
  "carries (user_order_terminal_claim st c v filled executed)"
  "carries (resting_claim st c v rem)"
  "carried st c \<Longrightarrow> carries (c, own_action_accept st c ev)"
  "carries (c, try_close_submission c reason)"
  by (auto simp: user_order_terminal_claim_def resting_claim_def own_action_accept_def
      try_close_submission_def reject_illegal_def carry Let_def
      split: sum.split prod.split order_event.split)

lemma open_carries: "carried st c \<Longrightarrow> carries (on_open_state st c ev)"
  by (cases st; cases ev)
    (auto simp: on_open_state_def on_new_def on_submit_prepared_def on_submit_started_def
      on_submit_unknown_def on_live_def on_cancel_pending_def on_reconcile_pending_def
      on_immediate_fill_def reject_illegal_def carry requested_carries
      split: submission_close_reason.split)

lemma frozen_carries: "is_restart_frozen st \<Longrightarrow> carries (restart_safe_handle st c ev)"
  by (cases st; cases ev) (auto simp: restart_safe_handle_def carry
      split: prod.split account_attempt.split)

lemma event_carries: "carried st c \<Longrightarrow> carries (apply_event st c ev)"
  using open_carries [of st c ev] frozen_carries [of st c ev]
  by (auto simp: apply_event_def carry
      split: order_state.split order_event.split submission_close_reason.split)


section \<open>The refinement along a replay\<close>

definition claim_free :: "order_event list \<Rightarrow> bool" where
  "claim_free evs = list_all (\<lambda>ev. \<not> is_claim ev) evs"

text \<open>A halt may leave records the fold refuses; without one the fold always succeeds.\<close>

definition fold_agrees :: "order_ctx \<Rightarrow> replay_result \<Rightarrow> bool" where
  "fold_agrees c r =
     (case rebuild_ctx_from_journal c (journal_of (rr_effects r)) of
        Inl _ \<Rightarrow> rr_halt r \<noteq> None
      | Inr d \<Rightarrow> rebuilt (rr_ctx r) d)"

lemma replay_keeps_halt: "h \<noteq> None \<Longrightarrow> rr_halt (replay_from st c es h evs) \<noteq> None"
  by (induction evs arbitrary: st c es h) (auto split: prod.split transition_outcome.split)

lemma folds_or_failsD:
  "folds_or_fails c es c1 \<Longrightarrow> mem_ok c \<Longrightarrow> rebuilt c d \<Longrightarrow>
    rebuild_ctx_from_journal d (journal_of es) = Inr d1 \<Longrightarrow> rebuilt c1 d1"
  by (simp add: folds_or_fails_iff)

lemma stop_agrees:
  assumes "mem_ok c0" and "if h = None then folds c0 es c else folds_or_fails c0 es c"
  shows "fold_agrees c0 \<lparr>rr_state = st, rr_ctx = c, rr_effects = es, rr_reject = r, rr_halt = h\<rparr>"
proof (cases h)
  case None
  with assms have "\<exists>d1. rebuild_ctx_from_journal c0 (journal_of es) = Inr d1 \<and> rebuilt c d1"
    using rebuilt_refl [of c0] unfolding folds_iff by simp
  with None show ?thesis by (auto simp: fold_agrees_def)
next
  case (Some y)
  with assms have "rebuilt c d1" if "rebuild_ctx_from_journal c0 (journal_of es) = Inr d1" for d1
    using that folds_or_failsD [OF _ assms(1) rebuilt_refl] by simp
  with Some show ?thesis by (auto simp: fold_agrees_def split: sum.split)
qed

lemma replay_folds:
  assumes "mem_ok c0" "carried st c" "claim_free evs"
    and "if h = None then folds c0 es c else folds_or_fails c0 es c"
  shows "fold_agrees c0 (replay_from st c es h evs)"
  using assms(2-)
proof (induction evs arbitrary: st c es h)
  case Nil
  with stop_agrees [OF assms(1)] show ?case by simp
next
  case (Cons ev evs)
  obtain c1 t where a: "apply_event st c ev = (c1, t)" by fastforce
  have cf: "\<not> is_claim ev" "claim_free evs" using Cons.prems(2) by (simp_all add: claim_free_def)
  have within: "outcome_within folds folds_or_fails c (c1, t)"
    using fold_refinement.apply_event_within [of ev st c] cf Cons.prems(1) a by simp
  have car: "carries (c1, t)" using event_carries [OF Cons.prems(1), of ev] a by simp
  have weak: "folds_or_fails c0 es c" using Cons.prems(3) by (auto intro: folds_weaken split: if_splits)
  show ?case
  proof (cases t)
    case (Accept st1 fs)
    with within Cons.prems(3) have "if h = None then folds c0 (es @ fs) c1 else folds_or_fails c0 (es @ fs) c1"
      by (auto intro: folds_trans fails_trans folds_weaken split: if_splits)
    from Cons.IH [OF _ cf(2) this] car a Accept show ?thesis by simp
  next
    case (Halt st1 r fs)
    with within have "folds_or_fails c0 (es @ fs) c1" by (auto intro: fails_trans [OF weak])
    with Cons.IH [of st1 c1 "Some r" "es @ fs"] cf car a Halt show ?thesis by simp
  next
    case (Reject r)
    with a have "c1 = c" by (auto dest: reject_keeps_ctx)
    with a Reject stop_agrees [OF assms(1) Cons.prems(3)] show ?thesis by simp
  qed
qed

lemma new_mem_ok [simp]: "mem_ok (order_ctx_new cid market strategy side price qty)"
  by (simp add: mem_ok_def ledger_ok_def order_ctx_new_def parent_owns_def)

text \<open>What a rebuilt context releases, memory releases too.\<close>

lemma rebuilt_release:
  assumes "rebuilt c d"
    and "ReleaseReservation \<in> set (outcome_effects (try_finalize_terminal d p v es fb))"
    and "ReleaseReservation \<notin> set es"
  shows "try_finalize_terminal d p v es fb = try_finalize_terminal c p v es fb"
proof (cases "authority_complete d")
  case True
  with assms(1) have "d = c" by (auto simp: rebuilt_cases)
  then show ?thesis by simp
next
  case False
  then have stale: "\<not> authority_is_fresh d" by (simp add: authority_is_fresh_def)
  have "ReleaseReservation \<notin> set (outcome_effects (not_ready_for_terminal d v fs fb ra vr))"
    if "ReleaseReservation \<notin> set fs" for fs ra vr
    using that by (auto simp: not_ready_for_terminal_def not_ready_effects_def accept_def Let_def)
  with stale assms(2,3) show ?thesis
    by (auto simp: try_finalize_terminal_def halt_with_reason_def Let_def
        split: ownership_verdict.splits)
qed

end
