(* ===== verification/Fill_Laws.thy ===== *)
theory Fill_Laws
  imports Ctx_Invariant
begin

text \<open>
  Laws of fill booking a client sees: re-delivery is idempotent, the refusals leave the context
  alone, the average price is exact, and the cross-check of a response average is a tolerance of
  one cent per contract.
\<close>

section \<open>Re-delivery\<close>

lemma booked_fill_stored:
  "bt_get (applied_fills (booked_ctx c fid q p ts fv fee)) fid
    = Some \<lparr>fp_qty = q, fp_price_cents = p, fp_fee = fee, fp_venue_order_id = fv, fp_ts_ns = ts\<rparr>"
  by (simp add: booked_ctx_code book_fill_def invalidate_authority_def bt_get_insert)

lemma known_fill_gate:
  "bt_get (applied_fills c) fid = Some prev \<Longrightarrow> first_sighting_gate c fid fv = None"
  by (simp add: first_sighting_gate_def split: option.split)

lemma redeliver_same:
  assumes "bt_get (applied_fills c) fid
    = Some \<lparr>fp_qty = q, fp_price_cents = p, fp_fee = fee, fp_venue_order_id = fv, fp_ts_ns = ts\<rparr>"
  shows "try_account_fill c fid q p ts fv fee = (c, AA_NoOp)"
  using assms known_fill_gate [OF assms]
  by (simp add: try_account_fill_def try_account_fill_owned_def account_fill_core_def redeliver_fill_def)

lemma applied_is_booked:
  assumes "try_account_fill c fid q p ts fv fee = (c1, AA_Applied es)"
  shows "c1 = booked_ctx c fid q p ts fv fee"
proof -
  from assms have "account_fill_core c fid q p ts fv fee False = (c1, AA_Applied es)"
    by (simp add: try_account_fill_def try_account_fill_owned_def)
  then show ?thesis by (cases rule: account_core_cases) simp_all
qed


section \<open>Average price\<close>

lemma bt_sum_le:
  assumes "list_all (\<lambda>(_, p). f p \<le> k * g p) m" shows "bt_sum f m \<le> k * bt_sum g m"
  using assms by (induction m) (auto simp: algebra_simps)

lemma average_exact:
  assumes "ledger_ok c" and "list_all (\<lambda>(_, p). fp_price_cents p \<le> u64_max) (applied_fills c)"
    and "bt_sum fp_qty (applied_fills c) > 0"
  shows "attributed_avg_price_cents c
    = Some (min (bt_sum fill_notional (applied_fills c)) u128_max div bt_sum fp_qty (applied_fills c))"
proof -
  let ?n = "bt_sum fill_notional (applied_fills c)" and ?q = "bt_sum fp_qty (applied_fills c)"
  have "?n \<le> u64_max * ?q"
    using assms(2) by (intro bt_sum_le) (auto simp: list_all_iff fill_notional_def)
  then have "min ?n u128_max \<le> u64_max * ?q" by simp
  then have "min ?n u128_max div ?q \<le> u64_max * ?q div ?q" by (rule div_le_mono)
  also have "\<dots> = u64_max" using assms(3) by simp
  finally have "cast_u64 (min ?n u128_max div ?q) = min ?n u128_max div ?q"
    by (simp add: cast_u64_def)
  with assms(1,3) show ?thesis by (simp add: attributed_avg_price_cents_def ledger_ok_def)
qed

text \<open>No saturation below the limit: while every price and the order fit, the notional is exact.\<close>

lemma notional_fits:
  assumes "ledger_ok c" and "list_all (\<lambda>(_, p). fp_price_cents p \<le> u64_max) (applied_fills c)"
  shows "attributed_notional_cents c = bt_sum fill_notional (applied_fills c)"
proof -
  have "bt_sum fill_notional (applied_fills c) \<le> u64_max * bt_sum fp_qty (applied_fills c)"
    using assms(2) by (intro bt_sum_le) (auto simp: list_all_iff fill_notional_def)
  also have "\<dots> \<le> u64_max * u64_max" using assms(1) by (intro mult_le_mono) (auto simp: ledger_ok_def)
  also have "\<dots> \<le> u128_max" by (simp add: u64_max_def u128_max_def)
  finally show ?thesis using assms(1) by (simp add: ledger_ok_def)
qed

lemma average_tolerance:
  "notional_avg_mismatch a avg n = None \<longleftrightarrow> n = 0 \<or> \<bar>int a - int (avg * n)\<bar> \<le> int n"
  by (auto simp: notional_avg_mismatch_def Let_def simp del: of_nat_mult)

section \<open>Outcomes of booking\<close>

lemma new_fill_spec:
  assumes "bt_get (applied_fills c) fid = None"
    and "venue_order_id_of c = None \<or> fv = venue_order_id_of c"
    and "attributed_fill_qty c + q \<le> order_qty c" and "attributed_fill_qty c + q \<le> u64_max"
    and "attributed_fee_cents c + fee_or_zero fee \<le> u64_max"
  shows "try_account_fill c fid q p ts fv fee =
    (let c1 = booked_ctx c fid q p ts fv fee; es = booking_effects c fid q p ts fv fee
     in (c1, case response_domain_overfill_detail c1 of
               None \<Rightarrow> AA_Applied es | Some detail \<Rightarrow> AA_Halt (H_CrossCheckMismatch detail) es))"
proof -
  have "first_sighting_gate c fid fv = None"
    using assms(2) by (auto simp: first_sighting_gate_def split: option.split)
  with assms show ?thesis
    by (auto simp: try_account_fill_def try_account_fill_owned_def account_fill_core_def
        account_new_fill_def checked_add_u64_def settle_booked_fill_def booked_ctx_code
        booking_effects_def raise_fill_obligation_def book_fill_def invalidate_authority_def
        fill_journal_record_def max_def Let_def split: option.split)
qed

lemma refused_fill:
  assumes "try_account_fill c fid q p ts fv fee = (c1, AA_Halt reason es)"
  shows "(c1 = c \<and> es = [])
    \<or> (c1 = booked_ctx c fid q p ts fv fee \<and> es = booking_effects c fid q p ts fv fee
       \<and> response_domain_overfill_detail c1 \<noteq> None)"
proof -
  from assms have "account_fill_core c fid q p ts fv fee False = (c1, AA_Halt reason es)"
    by (simp add: try_account_fill_def try_account_fill_owned_def)
  then show ?thesis by (cases rule: account_core_cases) auto
qed

lemma overfill_refused:
  assumes "bt_get (applied_fills c) fid = None" and "attributed_fill_qty c + q > order_qty c"
  shows "\<exists>reason. try_account_fill c fid q p ts fv fee = (c, AA_Halt reason [])"
  using assms
  by (auto simp: try_account_fill_def try_account_fill_owned_def account_fill_core_def
      account_new_fill_def checked_add_u64_def split: option.split)

end
