(* ===== verification/Submission_Laws.thy ===== *)
theory Submission_Laws
  imports Release_Safety
begin

text \<open>
  Laws of submission and cancellation: what may follow an unknown submission, what closes one, and
  why the answer to a cancel never frees the reservation by itself.
\<close>

section \<open>Cancel outcomes\<close>

text \<open>Without a fresh authority the choke point never releases.\<close>

lemma stale_not_released:
  "\<not> authority_is_fresh c \<Longrightarrow>
    outcome_new_state (try_finalize_terminal c p v es fb) = Some s \<Longrightarrow> terminal_kind_of s = None"
  by (auto simp: try_finalize_terminal_def not_ready_for_terminal_def halt_with_reason_def accept_def
      Let_def split: ownership_verdict.splits if_splits)

lemma raise_stale:
  "raise_fill_obligation c n = Inr c1 \<Longrightarrow> \<not> authority_complete c \<Longrightarrow> \<not> authority_complete c1"
  by (auto simp: raise_fill_obligation_def invalidate_authority_def Let_def split: if_splits)

lemma cancel_outcome_not_terminal:
  assumes "outcome_new_state (snd (apply_cancel_outcome c v filled rem rfc ravg rfee target outcome)) = Some s"
  shows "terminal_kind_of s = None"
proof -
  let ?ok = "\<lambda>x. case x of Inl _ \<Rightarrow> True | Inr (c1, _) \<Rightarrow> \<not> authority_complete c1"
  have count: "?ok (carry_response_count d r es)" if "\<not> authority_complete d" for d r es
    using that by (auto simp: carry_response_count_def Let_def dest: raise_stale split: option.split sum.split)
  have prices: "authority_complete (carry_response_prices d a f) = authority_complete d" for d a f
    by (simp add: carry_response_prices_def Let_def)
  have tgt: "?ok (carry_reconcile_target d t es)" if "\<not> authority_complete d" for d t es
    using that by (auto simp: carry_reconcile_target_def note_fill_evidence_def note_venue_remaining_def
        dest: raise_stale split: option.split sum.splits)
  have stale: "\<not> authority_complete c5" if "bind_venue_id c4 v = Inr (c5, jr)" "\<not> authority_complete c4"
    for c4 c5 jr using that bind_venue_frame by fastforce
  have route: "terminal_kind_of s = None"
    if "outcome_new_state (route_cancel_outcome c5 v filled rem target outcome es) = Some s"
      "\<not> authority_complete c5" for c5 es
  proof -
    have "\<not> authority_is_fresh c5" using that(2) by (simp add: authority_is_fresh_def)
    note stale_not_released [OF this]
    with that(1) show ?thesis
      by (auto simp: route_cancel_outcome_def accept_def Let_def split: cancel_outcome.splits if_splits)
  qed
  have start: "\<not> authority_complete (invalidate_authority c)" by (simp add: invalidate_authority_def)
  let ?es = "[AppendFsync (J_AuthorityInvalidated (authority_epoch (invalidate_authority c))),
    AppendFsync (J_CancelOutcomeCid (client_order_id_of (invalidate_authority c)) outcome)]"
  show ?thesis
  proof (cases "carry_response_count (invalidate_authority c) rfc ?es")
    case (Inl x)
    with assms show ?thesis
      by (auto simp: apply_cancel_outcome_def authority_invalidate_effects_def halt_with_reason_def
          Let_def split: prod.splits)
  next
    case (Inr x)
    obtain c2 es2 where c2: "carry_response_count (invalidate_authority c) rfc ?es = Inr (c2, es2)"
      using Inr by (cases x) auto
    let ?c3 = "carry_response_prices c2 ravg rfee"
    have c3: "\<not> authority_complete ?c3" using count [OF start, of rfc ?es] c2 prices by simp
    show ?thesis
    proof (cases "carry_reconcile_target ?c3 target es2")
      case (Inl y)
      with assms c2 show ?thesis
        by (auto simp: apply_cancel_outcome_def authority_invalidate_effects_def halt_with_reason_def
            Let_def split: prod.splits)
    next
      case (Inr y)
      obtain c4 es4 where c4: "carry_reconcile_target ?c3 target es2 = Inr (c4, es4)"
        using Inr by (cases y) auto
      have "\<not> authority_complete c4" using tgt [OF c3, of target es2] c4 by simp
      with assms c2 c4 route stale show ?thesis
        by (auto simp: apply_cancel_outcome_def authority_invalidate_effects_def halt_with_reason_def
            Let_def split: sum.splits prod.splits)
    qed
  qed
qed

section \<open>Unknown submissions\<close>

lemma partial_page_keeps:
  "apply_unknown_backfill c False matched = (c1, t) \<Longrightarrow>
    c1 = c \<and> (is_halt t \<or> outcome_new_state t = Some St_SubmitUnknown)
    \<and> account_fill_count t = 0"
  by (auto simp: apply_unknown_backfill_def accept_def halt_with_reason_def account_fill_count_def
      split: list.splits if_splits)

lemma dedup_stays:
  "apply_fill_dedup_only c fid q p ts fv fee st = (c1, Accept st1 es) \<Longrightarrow> st1 = st"
  by (auto simp: apply_fill_dedup_only_def accept_def halt_with_reason_def
      split: prod.splits account_attempt.splits)


section \<open>The submission is logged first\<close>

text \<open>
  The effects of an order's life start with its prepared record, then the started record, before
  any other effect: nothing of a response, a fill or a request can precede the durable start.
\<close>

fun submit_logged :: "client_order_id \<Rightarrow> order_state \<Rightarrow> effect list \<Rightarrow> bool" where
  "submit_logged cid st [] = (st = St_New)"
| "submit_logged cid st [e] = (st = St_SubmitPrepared \<and> e = AppendFsync (J_SubmitPrepared cid))"
| "submit_logged cid st (e # AppendFsync (J_SubmitStarted a) # es) =
     (e = AppendFsync (J_SubmitPrepared cid))"
| "submit_logged cid st (_ # _ # _) = False"

lemma submit_logged_more: "submit_logged cid st (e1 # e2 # es) \<Longrightarrow> submit_logged cid st' ((e1 # e2 # es) @ fs)"
  by (cases "(cid, st, e1 # e2 # es)" rule: submit_logged.cases) auto

lemma new_event:
  "apply_event St_New c ev = (c1, t) \<Longrightarrow> outcome_new_state t = Some st1 \<Longrightarrow>
    c1 = c \<and> st1 = St_SubmitPrepared
    \<and> outcome_effects t = [AppendFsync (J_SubmitPrepared (client_order_id_of c))]"
  by (auto simp: apply_event_def on_open_state_def on_new_def accept_def reject_illegal_def
      split: order_event.splits)

lemma prepared_event:
  "apply_event St_SubmitPrepared c ev = (c1, t) \<Longrightarrow> outcome_new_state t = Some st1 \<Longrightarrow>
    c1 = c \<and> (\<exists>a. st1 = St_SubmitStarted a \<and> outcome_effects t = [AppendFsync (J_SubmitStarted a)])"
  by (auto simp: apply_event_def on_open_state_def on_submit_prepared_def accept_def
      reject_illegal_def split: order_event.splits)

lemma run_submit_logged:
  "order_run St_New c0 st c es \<Longrightarrow>
    submit_logged (client_order_id_of c0) st es \<and> (length es < 2 \<longrightarrow> c = c0)"
proof (induction rule: order_run.induct)
  case (step st c es ev c1 t st1)
  show ?case
  proof (cases es)
    case Nil
    with step.IH have "st = St_New" "c = c0" by auto
    with step.hyps(2,3) Nil show ?thesis by (auto dest!: new_event)
  next
    case (Cons e1 es1)
    show ?thesis
    proof (cases es1)
      case Nil
      with Cons step.IH have "st = St_SubmitPrepared" "c = c0"
        "e1 = AppendFsync (J_SubmitPrepared (client_order_id_of c0))" by auto
      with step.hyps(2,3) Cons Nil show ?thesis by (auto dest!: prepared_event)
    next
      case (Cons e2 es2)
      with \<open>es = e1 # es1\<close> step.IH submit_logged_more [of "client_order_id_of c0" st e1 e2 es2]
      show ?thesis by simp
    qed
  qed
qed simp

end
