(* ===== verification/Bound_Identity.thy ===== *)
theory Bound_Identity
  imports Order_Run
begin

text \<open>
  The venue id a state carries is the parent bound on the context, and an open state without one
  has no parent: the two copies of the identity never drift apart. A closed submission stands for an
  order that never existed: its context holds no evidence of one.
\<close>

section \<open>The invariant\<close>

fun state_venue :: "order_state \<Rightarrow> venue_order_id option" where
  "state_venue (St_Accepted v) = Some v"
| "state_venue (St_Partial v _ _) = Some v"
| "state_venue (St_CancelPending v _ _ _ _ _ _) = Some v"
| "state_venue (St_ReconcilePending v _ _ _ _ _ _) = Some v"
| "state_venue (St_ImmediateFillUnattributed v _ _ _ _) = Some v"
| "state_venue _ = None"

definition same_identity :: "order_state \<Rightarrow> order_ctx \<Rightarrow> bool" where
  "same_identity st c =
     (if is_submission_closed st then \<not> submission_close_blocked c
      else is_restart_frozen st \<or> venue_order_id_of c = state_venue st)"

fun identified :: "order_ctx \<times> transition_outcome \<Rightarrow> bool" where
  "identified (c, Accept st _) = same_identity st c"
| "identified (c, Halt st _ _) = same_identity st c"
| "identified (c, Reject _) = True"


section \<open>The walk\<close>

named_theorems ident \<open>outcomes whose state carries the parent's venue id\<close>

lemma halt_ident [ident]:
  "identified (c, halt_with_reason r es)" "identified (c, accept st es) = same_identity st c"
  "identified (c, halt_with_reason_state st r es) = same_identity st c"
  by (simp_all add: halt_with_reason_def accept_def halt_with_reason_state_def same_identity_def Let_def)

lemma bound_ident [ident]:
  "venue_order_id_of c = Some v \<Longrightarrow> same_identity (St_Accepted v) c"
  "venue_order_id_of c = Some v \<Longrightarrow> same_identity (St_Partial v a r) c"
  "venue_order_id_of c = Some v \<Longrightarrow> same_identity (St_CancelPending v a r x y z target) c"
  "venue_order_id_of c = Some v \<Longrightarrow> same_identity (St_ReconcilePending v a r t x y z) c"
  "venue_order_id_of c = Some v \<Longrightarrow> same_identity (St_ImmediateFillUnattributed v a r x y) c"
  "venue_order_id_of c = None \<Longrightarrow> same_identity St_SubmitUnknown c"
  "venue_order_id_of c = None \<Longrightarrow> same_identity (St_SubmitStarted att) c"
  "same_identity St_Filled c" "same_identity St_Canceled c" "same_identity St_Terminal c"
  "same_identity St_UnknownNoMatch c" "same_identity St_ImmediateFillUnresolved c"
  "\<not> submission_close_blocked c \<Longrightarrow> same_identity (St_SubmissionClosed cr) c"
  by (simp_all add: same_identity_def)

lemma venue_frames [simp]:
  "venue_order_id_of (latch_authority_complete c) = venue_order_id_of c"
  "venue_order_id_of (note_venue_remaining c r) = venue_order_id_of c"
  "venue_order_id_of (set_response_snapshot c fc rc avg fee b) = venue_order_id_of c"
  "venue_order_id_of (carry_avg_fee c ravg rfee) = venue_order_id_of c"
  "venue_order_id_of (carry_response_prices c ravg rfee) = venue_order_id_of c"
  "venue_order_id_of (invalidate_authority c) = venue_order_id_of c"
  by (simp_all add: latch_authority_complete_def note_venue_remaining_def set_response_snapshot_def
      carry_avg_fee_def carry_response_prices_def invalidate_authority_def Let_def)

lemma venue_steps:
  "bind_venue_id c v = Inr (c1, jr) \<Longrightarrow> venue_order_id_of c1 = Some v"
  "raise_fill_obligation c n = Inr c1 \<Longrightarrow> venue_order_id_of c1 = venue_order_id_of c"
  "note_fill_evidence c n = Inr (c1, jr) \<Longrightarrow> venue_order_id_of c1 = venue_order_id_of c"
  "note_authority_complete c b = (c1, jr) \<Longrightarrow> venue_order_id_of c1 = venue_order_id_of c"
  "try_account_fill c fid q p ts fv fee = (c1, a) \<Longrightarrow> venue_order_id_of c1 = venue_order_id_of c"
  "account_fill_records c es fs = (c1, x) \<Longrightarrow> venue_order_id_of c1 = venue_order_id_of c"
  "observe_snapshot c v vf vr om mf = Inr (c1, es) \<Longrightarrow> venue_order_id_of c1 = Some v"
proof -
  show "bind_venue_id c v = Inr (c1, jr) \<Longrightarrow> venue_order_id_of c1 = Some v"
    by (drule bind_venue_frame) simp
  show "raise_fill_obligation c n = Inr c1 \<Longrightarrow> venue_order_id_of c1 = venue_order_id_of c"
    by (drule raise_obligation_fields) simp
  show "note_fill_evidence c n = Inr (c1, jr) \<Longrightarrow> venue_order_id_of c1 = venue_order_id_of c"
    by (drule note_evidence_fields) simp
  show "note_authority_complete c b = (c1, jr) \<Longrightarrow> venue_order_id_of c1 = venue_order_id_of c"
    by (auto simp: note_authority_complete_def split: if_splits)
  show "try_account_fill c fid q p ts fv fee = (c1, a) \<Longrightarrow> venue_order_id_of c1 = venue_order_id_of c"
    unfolding try_account_fill_def try_account_fill_owned_def by (drule account_frame) simp
  show "account_fill_records c es fs = (c1, x) \<Longrightarrow> venue_order_id_of c1 = venue_order_id_of c"
    by (drule account_records_frame) simp
  show "observe_snapshot c v vf vr om mf = Inr (c1, es) \<Longrightarrow> venue_order_id_of c1 = Some v"
    by (drule observe_fields) simp
qed

lemma finalize_ident [ident]:
  "venue_order_id_of c = Some v \<Longrightarrow> identified (c, not_ready_for_terminal c v es fb ra vr)"
  "identified (c, release_terminal c p es)"
  "venue_order_id_of c = Some v \<Longrightarrow> identified (c, try_finalize_terminal c p v es fb)"
  "venue_order_id_of c = Some v \<Longrightarrow> identified (c, finalize_reconcile_target c t es v)"
proof -
  show nr: "identified (c, not_ready_for_terminal c v es fb ra vr)"
    if "venue_order_id_of c = Some v" for v es fb ra vr
    using that by (simp add: not_ready_for_terminal_def ident Let_def)
  show rel: "identified (c, release_terminal c p es)" for p es
    by (cases p) (simp_all add: release_terminal_def ident)
  show fin: "identified (c, try_finalize_terminal c p v es fb)"
    if "venue_order_id_of c = Some v" for p v es fb
    using that by (auto simp: try_finalize_terminal_def nr rel ident Let_def
        split: ownership_verdict.split gate_verdict.split proposed_terminal.split)
  show "identified (c, finalize_reconcile_target c t es v)" if "venue_order_id_of c = Some v"
    using that by (simp add: finalize_reconcile_target_def fin Let_def split: reconcile_terminal.split)
qed

lemma live_ident [ident]:
  "venue_order_id_of c = Some v \<Longrightarrow> identified (route_live_or_filled c v es)"
  by (auto simp: route_live_or_filled_def note_authority_complete_def ident Let_def split: option.split)

lemma resolve_ident [ident]:
  "venue_order_id_of c = Some v \<Longrightarrow>
    identified (resolve_unattributed c (St_ImmediateFillUnattributed v rfc rrc ravg rfee) prior enter)"
  by (auto simp: ident split: resolve_verdict.split option.split)

lemma submit_ident [ident]: "identified (apply_submit_response c v fc rc avg fee b)"
  by (auto simp: apply_submit_response_def submit_response_zero_def submit_response_fills_def ident
      Let_def simp del: resolve_unattributed.simps dest!: venue_steps
      split: sum.split prod.split option.split)

lemma after_fill_ident [ident]:
  "venue_order_id_of c = Some v \<Longrightarrow> identified (after_fill_cancel_or_reconcile c v target es lq en)"
  by (auto simp: after_fill_cancel_or_reconcile_def after_fill_with_target_def
      after_fill_without_target_def cancel_pending_from_def reconcile_pending_from_def ident Let_def
      dest!: venue_steps split: sum.split prod.split option.split)

lemma same_identity_open: "\<not> is_restart_frozen st \<Longrightarrow> same_identity st c = (venue_order_id_of c = state_venue st)"
  by (cases st) (simp_all add: same_identity_def)

lemma fill_ident [ident]:
  "same_identity st c \<Longrightarrow> state_venue st \<noteq> None \<or> (\<exists>a. st = St_SubmitStarted a) \<Longrightarrow>
    identified (apply_fill_while_open st c fid q p ts fv fee)"
  by (cases st) (auto simp: apply_fill_while_open_def same_identity_open ident
      dest!: venue_steps split: prod.split account_attempt.split)

lemma dedup_ident [ident]:
  "venue_order_id_of c = None \<Longrightarrow> identified (apply_fill_dedup_only c fid q p ts fv fee St_SubmitUnknown)"
  by (auto simp: apply_fill_dedup_only_def ident dest!: venue_steps
      split: prod.split account_attempt.split)

lemma immediate_ident [ident]:
  "same_identity st c \<Longrightarrow> identified (apply_immediate_fill_backfill c st fills)"
  by (cases st) (auto simp: apply_immediate_fill_backfill_def reject_illegal_def ident
      simp del: resolve_unattributed.simps dest!: venue_steps split: sum.split prod.split)

lemma status_ident:
  assumes "venue_order_id_of c = Some v" and "\<not> (fsu \<and> \<not> sc)"
  shows "identified (c, route_by_status c v status vf vr m om sc fsu es)"
  using assms
  by (auto simp: route_by_status_def stay_matching_def route_open_def continue_reconcile_pending_def
      reconcile_pending_from_def ident Let_def split: backfill_order_status.split option.split)

lemma backfill_ident:
  assumes "\<not> (fsu \<and> \<not> sc)" and "route_from_backfill_status c v status vf vr om fills sc fsu = (c1, t)"
  shows "identified (c1, t)"
proof -
  have status: "identified (d, route_by_status d v status vf vr m om sc fsu es)"
    if "venue_order_id_of d = Some v" for d m es
    by (rule status_ident [OF that assms(1)])
  show ?thesis using assms(2)
    by (auto simp: route_from_backfill_status_def ident Let_def
        split: sum.splits prod.splits dest!: venue_steps intro!: status)
qed

lemma prepend_ident: "identified (c, prepend_effects p t) = identified (c, t)"
  by (cases t) auto

lemma unknown_ident [ident]:
  assumes "venue_order_id_of c = None" shows "identified (apply_unknown_backfill c exhaustive matched)"
proof -
  have "identified (apply_unique_backfill c rec)" for c rec
    by (auto simp: apply_unique_backfill_def ident prepend_ident Let_def
        dest: backfill_ident [rotated] split: sum.split prod.split)
  with assms show ?thesis by (auto simp: apply_unknown_backfill_def ident split: list.split)
qed

lemma cancel_ident [ident]:
  "identified (apply_cancel_outcome c v filled rem rfc ravg rfee target outcome)"
  by (auto simp: apply_cancel_outcome_def route_cancel_outcome_def ident Let_def
      dest!: venue_steps split: sum.split prod.split cancel_outcome.split)

lemma reconcile_ident [ident]:
  "identified (reconcile_result c sv status vid filled rem fills complete)"
  "venue_order_id_of c = Some v \<Longrightarrow> identified (cancel_requested c v rfc ravg rfee)"
  by (auto simp: reconcile_result_def cancel_requested_def authority_invalidate_effects_def ident
      prepend_ident Let_def dest: backfill_ident [rotated] split: sum.split prod.split)

lemma claims_ident [ident]:
  "identified (user_order_terminal_claim st c v filled executed)"
  "identified (resting_claim st c v rem)"
  "same_identity st c \<Longrightarrow> identified (c, own_action_accept st c ev)"
  "identified (c, try_close_submission c reason)"
  by (auto simp: user_order_terminal_claim_def resting_claim_def own_action_accept_def
      try_close_submission_def reject_illegal_def note_authority_complete_def ident Let_def
      dest!: venue_steps split: sum.split prod.split order_event.split)

lemma open_ident: "same_identity st c \<Longrightarrow> \<not> is_restart_frozen st \<Longrightarrow> identified (on_open_state st c ev)"
  by (cases st; cases ev)
    (auto simp: on_open_state_def on_new_def on_submit_prepared_def on_submit_started_def
      on_submit_unknown_def on_live_def on_cancel_pending_def on_reconcile_pending_def
      on_immediate_fill_def reject_illegal_def ident same_identity_open
      split: submission_close_reason.split)

lemma no_fills_no_enrichment:
  assumes "applied_fills c = []" shows "try_account_fill c fid q p ts fv fee \<noteq> (c1, AA_Enriched es)"
  using assms
  by (auto simp: try_account_fill_def try_account_fill_owned_def account_fill_core_def
      account_new_fill_def settle_booked_fill_def Let_def split: option.splits if_splits sum.splits)

lemma no_op_keeps: "try_account_fill c fid q p ts fv fee = (c1, AA_NoOp) \<Longrightarrow> c1 = c"
  by (auto simp: try_account_fill_def try_account_fill_owned_def account_fill_core_def
      account_new_fill_def settle_booked_fill_def redeliver_fill_def upgrade_fee_def Let_def
      split: option.splits if_splits sum.splits prod.splits)

lemma frozen_ident:
  "is_restart_frozen st \<Longrightarrow> same_identity st c \<Longrightarrow> identified (apply_event st c ev)"
  using no_fills_no_enrichment [of c]
  by (cases st; cases ev) (auto simp: apply_event_def restart_safe_handle_def ident same_identity_def
      submission_close_blocked_def dest: no_op_keeps
      split: prod.split account_attempt.split submission_close_reason.split)

lemma event_ident: "same_identity st c \<Longrightarrow> identified (apply_event st c ev)"
  using open_ident [of st c ev] frozen_ident [of st c ev]
  by (cases "is_restart_frozen st") (cases st; simp add: apply_event_def; fail)+

lemma run_identity:
  "order_run s0 c0 st c es \<Longrightarrow> same_identity s0 c0 \<Longrightarrow> same_identity st c"
proof (induction rule: order_run.induct)
  case (step st c es ev c1 t st1)
  from event_ident [OF step.IH [OF step.prems], of ev] step.hyps(2,3) show ?case by (cases t) auto
qed

end
