(* ===== verification/Terminal_Totals.thy ===== *)
theory Terminal_Totals
  imports Reservation Booking
begin

text \<open>
  What a terminal state says of the totals, and that it keeps saying so: late metadata never moves
  quantity or obligation of an order that reached it.
\<close>

definition terminal_totals :: "order_state \<Rightarrow> order_ctx \<Rightarrow> bool" where
  "terminal_totals st c =
     (case terminal_kind_of st of
        None \<Rightarrow> True
      | Some k \<Rightarrow>
          attributed_fill_qty c = fill_obligation c
          \<and> (k = TK_Filled \<longrightarrow> attributed_fill_qty c = order_qty c))"

definition same_totals :: "order_ctx \<Rightarrow> order_ctx \<Rightarrow> bool" where
  "same_totals c d =
     (attributed_fill_qty d = attributed_fill_qty c \<and> fill_obligation d = fill_obligation c
      \<and> order_qty d = order_qty c)"

lemma same_totals_refl [simp]: "same_totals c c"
  by (simp add: same_totals_def)

lemma metadata_totals:
  assumes "try_account_fill c fid q p ts fv fee = (c1, a)" and "\<And>es. a \<noteq> AA_Applied es"
    and "\<not> is_halt_attempt a"
  shows "same_totals c c1"
proof -
  from assms(1) have "account_fill_core c fid q p ts fv fee False = (c1, a)"
    by (simp add: try_account_fill_def try_account_fill_owned_def)
  then show ?thesis
  proof (cases rule: account_core_cases)
    case (enriched prev v gain)
    then show ?thesis by (auto simp: same_totals_def enriched_ctx_def Let_def split: option.split)
  next
    case booked
    with assms(2,3) show ?thesis by (cases a) auto
  qed (simp add: same_totals_def)
qed

lemma frozen_accept_totals:
  assumes "is_restart_frozen st" and "apply_event st c ev = (c1, Accept st1 es)"
  shows "same_totals c c1"
proof -
  have "same_totals c c1" if "restart_safe_handle st c ev = (c1, Accept st1 es)"
    using that by (cases ev) (auto simp: restart_safe_handle_def accept_def halt_with_reason_def
        intro: metadata_totals split: prod.splits account_attempt.splits)
  then show ?thesis
    using assms by (auto simp: apply_event_def accept_def try_close_submission_def same_totals_def
        split: order_state.splits order_event.splits submission_close_reason.splits if_splits)
qed

lemma event_terminal_totals:
  assumes "apply_event st c ev = (c1, t)" and "outcome_new_state t = Some st1"
    and "terminal_totals st c"
  shows "terminal_totals st1 c1"
proof (cases "is_restart_frozen st")
  case True
  from frozen_event [OF True, of c ev] assms(1) have f: "frozen_settled st c ev (c1, t)" by simp
  show ?thesis
  proof (cases t)
    case (Accept s es)
    with f have "frozen_successor st s" using frozen_accept [of st c ev c1 s es] by simp
    with frozen_accept_totals [OF True, of c ev c1 s es] assms Accept show ?thesis
      by (auto simp: frozen_successor_def terminal_totals_def same_totals_def split: option.splits)
  next
    case (Halt s r es)
    with f have "s = St_Halted r" using frozen_halt_shape [of st c ev c1 s r es] by simp
    with Halt assms(2) have "terminal_kind_of st1 = None" by auto
    then show ?thesis by (simp add: terminal_totals_def)
  qed (use assms(2) in simp)
next
  case False
  with open_event [of st c ev] open_settled [of st c ev] assms(1) have s: "settled (c1, t)" by simp
  show ?thesis
  proof (cases t)
    case (Accept s1 es)
    with s assms(2) show ?thesis
      by (cases st1) (auto simp: terminal_totals_def releases_with_def terminal_evidence_def)
  qed (use s assms(2) in \<open>auto simp: terminal_totals_def halts_with_def split: if_splits\<close>)
qed

lemma run_terminal_totals:
  "order_run s0 c0 st c es \<Longrightarrow> terminal_totals s0 c0 \<Longrightarrow> terminal_totals st c"
  by (induction rule: order_run.induct) (auto intro: event_terminal_totals)

end
