(* ===== verification/Domain_Run.thy ===== *)
theory Domain_Run
  imports Reservation Ctx_Invariant
begin

text \<open>
  The response domain along a run. An accepted event keeps the domain equal to its recomputation;
  a halt may leave it behind (a refused submit response stores the response and returns before the
  recomputation). Every halt orders the shell to stop new exposure, so the runs without that order
  are those in which no event halted.
\<close>

lemma plain_no_halt: "list_all plain es \<Longrightarrow> HaltNewExposure \<notin> set es"
  by (auto simp: list_all_iff)

lemma ends_with_halts: "ends_with es a HaltNewExposure \<Longrightarrow> HaltNewExposure \<in> set es"
  by (metis ends_with_def in_set_dropD list.set_intros(1) list.set_intros(2))

lemma halt_stops_exposure:
  assumes "apply_event st c ev = (c1, Halt st1 r es)"
  shows "HaltNewExposure \<in> set es"
proof (cases "is_restart_frozen st")
  case True
  from frozen_halt_shape [of st c ev c1 st1 r es] frozen_event [OF True, of c ev] assms
  obtain body where "frozen_halt st r body es" by auto
  then show ?thesis by (simp add: frozen_halt_def)
next
  case False
  from open_settled [of st c ev] open_event [OF False, of c ev] assms
  have "settled (c1, Halt st1 r es)" by simp
  then have "halts_with st1 r c1 es" by simp
  then show ?thesis by (auto simp: halts_with_def intro: ends_with_halts split: if_splits)
qed

lemma run_domain:
  "order_run s0 c0 st c es \<Longrightarrow> HaltNewExposure \<notin> set es \<Longrightarrow> ledger_ok c0 \<Longrightarrow> domain_ok c0 \<Longrightarrow>
    ledger_ok c \<and> domain_ok c"
proof (induction rule: order_run.induct)
  case (step st c es ev c1 t st1)
  then have ok: "ledger_ok c" "domain_ok c" by auto
  show ?case
  proof (cases t)
    case (Accept s fs)
    with step.hyps(2) have "keeps_ok c c1" using invariant.apply_event_within [of ev st c] by simp
    with ok show ?thesis by (simp add: keeps_ok_def)
  next
    case (Halt s r fs)
    with halt_stops_exposure [of st c ev c1 s r fs] step.hyps(2) step.prems(1) show ?thesis by simp
  qed (use step.hyps(3) in simp)
qed simp

lemma new_domain_ok: "domain_ok (order_ctx_new cid market strategy side price qty)"
  by (simp add: domain_ok_def domain_sums_def order_ctx_new_def)

end
