(* ===== verification/Market_Inventory.thy ===== *)
theory Market_Inventory
  imports Apply_Event
begin

text \<open>
  The durable market inventory and its rebuild from the journal (\<^verbatim>\<open>src/execution.rs\<close>): one
  entry per execution id of a ledger, one conflict fact per contested id, and a generation that
  counts every mutation. A \<open>BTreeSet\<close> is the ordered map to the unit type. A result type
  is \<open>failure + 'a\<close>: \<open>Err\<close> is the error the code returns, \<open>Panic\<close> an indexing or unwrapping panic.
\<close>

section \<open>Types\<close>

datatype 'e failure = Panic | Err 'e

type_synonym 'k bset = "('k, unit) btree"

definition bs_member :: "'k \<Rightarrow> 'k bset \<Rightarrow> bool" where
  "bs_member k s = (bt_get s k \<noteq> None)"

definition bs_insert :: "'k::linorder \<Rightarrow> 'k bset \<Rightarrow> 'k bset" where
  "bs_insert k s = bt_insert k () s"

definition bt_remove :: "'k \<Rightarrow> ('k, 'v) btree \<Rightarrow> ('k, 'v) btree" where
  "bt_remove k m = filter (\<lambda>(a, _). a \<noteq> k) m"

record order_cursor =
  oc_seq :: u64

text \<open>
  \<open>OrderRef\<close> borrows the row of an order, \<open>OrderTarget\<close> borrows the same fields mutably; both are
  the row itself here, and an operation on a target returns the row it leaves.
\<close>

record order_row =
  row_ledger :: ledger_id
  row_cursor :: order_cursor
  row_state :: order_state
  row_ctx :: order_ctx

record market_inventory =
  mi_ledger :: ledger_id
  mi_generation :: u64
  mi_entries :: "(fill_id, inventory_entry) btree"
  mi_conflicts :: "(fill_id, conflict_fact) btree"

datatype inventory_health = IH_Clean | IH_Conflicted nat nat nat

record inventory_view =
  iv_net :: int
  iv_executions :: nat
  iv_health :: inventory_health

datatype checksum_diagnostic = CD_Match | CD_Mismatch int int

datatype prepare_error =
    PE_ForeignLedger ledger_id ledger_id
  | PE_FillsMustUseExecutionApi string nat
  | PE_EvidenceFillMismatch nat string
  | PE_MixedLedgerBatch
  | PE_OrderRefInconsistent string string

datatype apply_mismatch =
    AM_LedgerIdentity
  | AM_InventoryGeneration u64 u64
  | AM_OrderCursor u64 u64
  | AM_OrderStateOrCtx
  | AM_OrderTarget bool bool

datatype rebuild_error =
    RE_SeqGap client_order_id u64 u64
  | RE_Divergent client_order_id u64
  | RE_DuplicateExecutionRecord fill_id


section \<open>The inventory\<close>

definition inventory_new :: "ledger_id \<Rightarrow> market_inventory" where
  "inventory_new ledger =
     \<lparr>mi_ledger = ledger, mi_generation = 0, mi_entries = [], mi_conflicts = []\<rparr>"

definition inventory_get :: "market_inventory \<Rightarrow> fill_id \<Rightarrow> inventory_entry option" where
  "inventory_get mi fid = bt_get (mi_entries mi) fid"

text \<open>The \<open>i128\<close> accumulator cannot overflow before \<open>2^63\<close> entries; it is an \<open>int\<close>.\<close>

definition signed_qty :: "inventory_entry \<Rightarrow> int" where
  "signed_qty e = (case ie_side e of BuyYes \<Rightarrow> int (ie_qty e) | SellYes \<Rightarrow> - int (ie_qty e))"

definition inventory_net :: "market_inventory \<Rightarrow> int" where
  "inventory_net mi = foldl (\<lambda>n (_, e). n + signed_qty e) 0 (mi_entries mi)"

definition count_class :: "conflict_class \<Rightarrow> market_inventory \<Rightarrow> nat" where
  "count_class k mi = length (filter (\<lambda>(_, f). cf_class f = k) (mi_conflicts mi))"

definition inventory_view_of :: "market_inventory \<Rightarrow> inventory_view" where
  "inventory_view_of mi =
     (let core = count_class CC_Core mi; ownership = count_class CC_Ownership mi;
          fee = count_class CC_Fee mi
      in \<lparr>iv_net = inventory_net mi, iv_executions = length (mi_entries mi),
          iv_health = (if core + ownership + fee = 0 then IH_Clean
                       else IH_Conflicted core ownership fee)\<rparr>)"

definition inventory_checksum :: "market_inventory \<Rightarrow> int \<Rightarrow> checksum_diagnostic" where
  "inventory_checksum mi observed =
     (let ledger = inventory_net mi
      in if ledger = observed then CD_Match else CD_Mismatch ledger observed)"


section \<open>Rebuild of the inventory\<close>

text \<open>
  The locals of the loop over the outcomes of one transaction: entries, conflicts, the ids ingested
  so far, and the ids this transaction mutated and put in conflict.
\<close>

record rebuild_locals =
  rl_entries :: "(fill_id, inventory_entry) btree"
  rl_conflicts :: "(fill_id, conflict_fact) btree"
  rl_ingested :: "fill_id bset"
  rl_mutated :: "fill_id bset"
  rl_conflict_ids :: "fill_id bset"

definition note_conflict :: "conflict_fact option \<Rightarrow> rebuild_locals \<Rightarrow> rebuild_locals" where
  "note_conflict cf l =
     (case cf of
        None \<Rightarrow> l
      | Some c \<Rightarrow>
          l\<lparr>rl_conflicts := bt_insert (cf_execution_id c) c (rl_conflicts l),
            rl_conflict_ids := bs_insert (cf_execution_id c) (rl_conflict_ids l)\<rparr>)"

definition put_entry :: "fill_id \<Rightarrow> inventory_entry \<Rightarrow> rebuild_locals \<Rightarrow> rebuild_locals" where
  "put_entry fid e l =
     l\<lparr>rl_entries := bt_insert fid e (rl_entries l), rl_mutated := bs_insert fid (rl_mutated l)\<rparr>"

definition rebuild_outcome ::
  "execution_outcome \<Rightarrow> rebuild_locals \<Rightarrow> rebuild_error + rebuild_locals" where
  "rebuild_outcome out l =
     (let fid = ev_execution_id (eo_evidence out); l1 = note_conflict (eo_conflict out) l
      in case eo_inventory out of
           ID_Ingested _ \<Rightarrow>
             if bs_member fid (rl_ingested l1) then Inl (RE_DuplicateExecutionRecord fid)
             else (case eo_entry_after out of
                     Some e \<Rightarrow>
                       Inr (put_entry fid e (l1\<lparr>rl_ingested := bs_insert fid (rl_ingested l1)\<rparr>))
                   | None \<Rightarrow> Inr l1)
         | ID_Upgraded \<Rightarrow>
             (case eo_entry_after out of
                Some e \<Rightarrow> Inr (put_entry fid e l1)
              | None \<Rightarrow> Inr l1)
         | _ \<Rightarrow> Inr l1)"

fun rebuild_outcomes ::
  "execution_outcome list \<Rightarrow> rebuild_locals \<Rightarrow> rebuild_error + rebuild_locals" where
  "rebuild_outcomes [] l = Inr l"
| "rebuild_outcomes (out # outs) l =
     (case rebuild_outcome out l of Inl e \<Rightarrow> Inl e | Inr l1 \<Rightarrow> rebuild_outcomes outs l1)"

fun rebuild_records ::
  "ledger_id \<Rightarrow> journal_record list \<Rightarrow> u64 \<Rightarrow> rebuild_locals \<Rightarrow> rebuild_error + (u64 \<times> rebuild_locals)"
  where
  "rebuild_records ledger [] gen l = Inr (gen, l)"
| "rebuild_records ledger (J_ExecutionTxn txn # recs) gen l =
     (if et_ledger txn \<noteq> ledger then rebuild_records ledger recs gen l
      else case rebuild_outcomes (et_executions txn) (l\<lparr>rl_mutated := [], rl_conflict_ids := []\<rparr>) of
             Inl e \<Rightarrow> Inl e
           | Inr l1 \<Rightarrow>
               rebuild_records ledger recs
                 (sat_add_u64 (sat_add_u64 gen (length (rl_mutated l1)))
                    (length (rl_conflict_ids l1))) l1)"
| "rebuild_records ledger (_ # recs) gen l = rebuild_records ledger recs gen l"

definition inventory_rebuild ::
  "ledger_id \<Rightarrow> journal_record list \<Rightarrow> rebuild_error + market_inventory" where
  "inventory_rebuild ledger records =
     (case rebuild_records ledger records 0
             \<lparr>rl_entries = [], rl_conflicts = [], rl_ingested = [], rl_mutated = [],
              rl_conflict_ids = []\<rparr> of
        Inl e \<Rightarrow> Inl e
      | Inr (gen, l) \<Rightarrow>
          Inr \<lparr>mi_ledger = ledger, mi_generation = gen, mi_entries = rl_entries l,
               mi_conflicts = rl_conflicts l\<rparr>)"


section \<open>Rebuild of an order row\<close>

fun order_part_of :: "journal_record \<Rightarrow> order_txn_record option" where
  "order_part_of (J_OrderTxn ot) = Some ot"
| "order_part_of (J_ExecutionTxn e) = et_order e"
| "order_part_of _ = None"

fun collect_snaps ::
  "ledger_id \<Rightarrow> client_order_id \<Rightarrow> journal_record list \<Rightarrow> (u64, order_txn_record) btree
    \<Rightarrow> rebuild_error + (u64, order_txn_record) btree" where
  "collect_snaps ledger cid [] snaps = Inr snaps"
| "collect_snaps ledger cid (r # recs) snaps =
     (case order_part_of r of
        None \<Rightarrow> collect_snaps ledger cid recs snaps
      | Some ot \<Rightarrow>
          if ot_ledger ot \<noteq> ledger \<or> ot_client_order_id ot \<noteq> cid
          then collect_snaps ledger cid recs snaps
          else (case bt_get snaps (ot_seq ot) of
                  Some prev \<Rightarrow>
                    if prev \<noteq> ot then Inl (RE_Divergent cid (ot_seq ot))
                    else collect_snaps ledger cid recs snaps
                | None \<Rightarrow> collect_snaps ledger cid recs (bt_insert (ot_seq ot) ot snaps)))"

fun walk_snaps ::
  "client_order_id \<Rightarrow> u64 \<Rightarrow> order_txn_record option \<Rightarrow> (u64, order_txn_record) btree
    \<Rightarrow> rebuild_error + order_txn_record option" where
  "walk_snaps cid expected prev [] = Inr prev"
| "walk_snaps cid expected prev ((s, rec) # snaps) =
     (if s \<noteq> expected then Inl (RE_SeqGap cid expected s)
      else walk_snaps cid (expected + 1) (Some rec) snaps)"

definition rebuild_order ::
  "ledger_id \<Rightarrow> client_order_id \<Rightarrow> journal_record list
    \<Rightarrow> rebuild_error failure + (order_state \<times> order_ctx \<times> order_cursor) option" where
  "rebuild_order ledger cid records =
     (case collect_snaps ledger cid records [] of
        Inl e \<Rightarrow> Inl (Err e)
      | Inr snaps \<Rightarrow>
          if snaps = [] then Inr None
          else (case walk_snaps cid 1 None snaps of
                  Inl e \<Rightarrow> Inl (Err e)
                | Inr None \<Rightarrow> Inl Panic
                | Inr (Some rec) \<Rightarrow>
                    Inr (Some (ot_state_after rec, ot_ctx_after rec, \<lparr>oc_seq = ot_seq rec\<rparr>))))"

fun legacy_fill_ids_from :: "journal_record list \<Rightarrow> fill_id bset \<Rightarrow> fill_id bset" where
  "legacy_fill_ids_from [] out = out"
| "legacy_fill_ids_from (J_Fill fid _ _ _ _ _ # recs) out =
     legacy_fill_ids_from recs (bs_insert fid out)"
| "legacy_fill_ids_from (J_FillCid _ fid _ _ _ _ _ # recs) out =
     legacy_fill_ids_from recs (bs_insert fid out)"
| "legacy_fill_ids_from (_ # recs) out = legacy_fill_ids_from recs out"

definition legacy_fill_ids :: "journal_record list \<Rightarrow> fill_id bset" where
  "legacy_fill_ids records = legacy_fill_ids_from records []"

fun execution_debt_from :: "u64 \<Rightarrow> order_ctx list \<Rightarrow> u64" where
  "execution_debt_from acc [] = acc"
| "execution_debt_from acc (c # ctxs) =
     execution_debt_from
       (sat_add_u64 acc (sat_sub_u64 (fill_obligation c) (attributed_fill_qty c))) ctxs"

definition execution_debt :: "order_ctx list \<Rightarrow> u64" where
  "execution_debt ctxs = execution_debt_from 0 ctxs"

end
