(* ===== verification/Execution_Txn.thy ===== *)
theory Execution_Txn
  imports Market_Inventory
begin

text \<open>
  Helpers of the batch layer and the order transactions of \<^verbatim>\<open>src/execution.rs\<close>: an event without
  fills is prepared on a copy of the row (the durable record, the effects, the row after) and
  applied only to the row it was prepared on.
\<close>

section \<open>Diagnostics\<close>

text \<open>
  The \<open>{:?}\<close> rendering of a string newtype. Bytes from 128 up are left alone, which is what the
  standard library does for printable characters.
\<close>

definition hex_char :: "nat \<Rightarrow> char" where
  "hex_char d = char_of (if d < 10 then 48 + d else 87 + d)"

definition escape_char :: "char \<Rightarrow> string" where
  "escape_char ch =
     (let n = of_char ch :: nat; backslash = CHR 0x5C
      in if n = 34 \<or> n = 92 then [backslash, ch]
         else if n = 10 then [backslash, CHR ''n'']
         else if n = 13 then [backslash, CHR ''r'']
         else if n = 9 then [backslash, CHR ''t'']
         else if n = 0 then [backslash, CHR ''0'']
         else if n < 16 then backslash # ''u{'' @ [hex_char n] @ ''}''
         else if n < 32 \<or> n = 127 then
           backslash # ''u{'' @ [hex_char (n div 16), hex_char (n mod 16)] @ ''}''
         else [ch])"

definition debug_newtype :: "string \<Rightarrow> string \<Rightarrow> string" where
  "debug_newtype name s = name @ ''('' @ [CHR 0x22] @ concat (map escape_char s) @ [CHR 0x22] @ '')''"


section \<open>Helpers\<close>

definition evidence_ledger :: "execution_evidence \<Rightarrow> ledger_id" where
  "evidence_ledger e = LedgerId (ev_scope e) (ev_market e)"

fun is_append_fsync :: "effect \<Rightarrow> bool" where
  "is_append_fsync (AppendFsync _) = True"
| "is_append_fsync _ = False"

definition split_effects :: "effect list \<Rightarrow> journal_record list \<times> effect list" where
  "split_effects es = (journal_of es, filter (\<lambda>e. \<not> is_append_fsync e) es)"

fun outcome_from_transition :: "transition_outcome \<Rightarrow> batch_outcome" where
  "outcome_from_transition (Accept _ _) = BO_Accept"
| "outcome_from_transition (Halt _ reason _) = BO_Halt reason"
| "outcome_from_transition (Reject reason) = BO_Reject reason"

fun state_after_transition :: "transition_outcome \<Rightarrow> order_state \<Rightarrow> order_state" where
  "state_after_transition (Accept st _) prior = st"
| "state_after_transition (Halt st _ _) prior = st"
| "state_after_transition (Reject _) prior = prior"

fun count_event_fills :: "order_event \<Rightarrow> nat" where
  "count_event_fills (Ev_Fill _ _ _ _ _ _) = 1"
| "count_event_fills (Ev_ImmediateFillBackfillResult fills) = length fills"
| "count_event_fills (Ev_UnknownBackfillResult _ matched) =
     sum_list (map (\<lambda>m. length (bo_fills m)) matched)"
| "count_event_fills (Ev_ReconcileResult _ _ _ _ fills _) = length fills"
| "count_event_fills _ = 0"

fun carries_fills :: "order_event \<Rightarrow> bool" where
  "carries_fills (Ev_Fill _ _ _ _ _ _) = True"
| "carries_fills (Ev_ImmediateFillBackfillResult _) = True"
| "carries_fills (Ev_UnknownBackfillResult _ _) = True"
| "carries_fills (Ev_ReconcileResult _ _ _ _ _ _) = True"
| "carries_fills _ = False"

definition event_has_identified_fills :: "order_event \<Rightarrow> bool" where
  "event_has_identified_fills ev = (count_event_fills ev > 0 \<and> carries_fills ev)"

fun flatten_event_fills :: "order_event \<Rightarrow> fill_record list" where
  "flatten_event_fills (Ev_Fill fid qty price ts venue fee) =
     [\<lparr>fr_fill_id = fid, fr_qty = qty, fr_price_cents = price, fr_ts_ns = ts,
       fr_venue_order_id = venue, fr_fee_cents = fee\<rparr>]"
| "flatten_event_fills (Ev_ImmediateFillBackfillResult fills) = fills"
| "flatten_event_fills (Ev_UnknownBackfillResult _ matched) = concat (map bo_fills matched)"
| "flatten_event_fills (Ev_ReconcileResult _ _ _ _ fills _) = fills"
| "flatten_event_fills _ = []"

text \<open>The first disagreement between a fill of the event and its evidence.\<close>

definition pair_mismatch :: "fill_record \<Rightarrow> execution_evidence \<Rightarrow> string option" where
  "pair_mismatch f e =
     (if fr_fill_id f \<noteq> ev_execution_id e then
        Some (''execution_id: event '' @ debug_newtype ''FillId'' (fill_str (fr_fill_id f))
              @ '' vs evidence '' @ debug_newtype ''FillId'' (fill_str (ev_execution_id e)))
      else if fr_qty f \<noteq> ev_qty e then
        Some (''qty: event '' @ show_nat (fr_qty f) @ '' vs evidence '' @ show_nat (ev_qty e))
      else if fr_price_cents f \<noteq> ev_price_cents e then
        Some (''price_cents: event '' @ show_nat (fr_price_cents f) @ '' vs evidence ''
              @ show_nat (ev_price_cents e))
      else
        (case (case (fr_venue_order_id f, ev_venue_order_id e) of
                 (Some a, Some b) \<Rightarrow>
                   if a \<noteq> b then
                     Some (''venue_order_id both Some unequal: ''
                           @ debug_newtype ''VenueOrderId'' (venue_str a) @ '' vs ''
                           @ debug_newtype ''VenueOrderId'' (venue_str b))
                   else None
               | (Some _, None) \<Rightarrow> Some ''venue_order_id: event Some vs evidence None''
               | _ \<Rightarrow> None) of
           Some detail \<Rightarrow> Some detail
         | None \<Rightarrow>
             (case (fr_fee_cents f, ev_fee_cents e) of
                (Some a, Some b) \<Rightarrow>
                  if a \<noteq> b then
                    Some (''fee_cents both Some unequal: '' @ show_nat a @ '' vs '' @ show_nat b)
                  else None
              | (Some _, None) \<Rightarrow> Some ''fee_cents: event Some vs evidence None''
              | _ \<Rightarrow> None)))"

fun check_pairs_from :: "nat \<Rightarrow> (fill_record \<times> execution_evidence) list \<Rightarrow> prepare_error option" where
  "check_pairs_from i [] = None"
| "check_pairs_from i ((f, e) # ps) =
     (case pair_mismatch f e of
        Some detail \<Rightarrow> Some (PE_EvidenceFillMismatch i detail)
      | None \<Rightarrow> check_pairs_from (i + 1) ps)"

definition check_evidence_matches_fills ::
  "fill_record list \<Rightarrow> execution_evidence list \<Rightarrow> prepare_error option" where
  "check_evidence_matches_fills fills evidences =
     (if length fills \<noteq> length evidences then
        Some (PE_EvidenceFillMismatch 0
                (''length mismatch: event fills '' @ show_nat (length fills) @ '' vs evidences ''
                 @ show_nat (length evidences)))
      else check_pairs_from 0 (zip fills evidences))"

text \<open>
  \<open>cursor.seq + 1\<close> is unchecked: a release build wraps (a debug build panics) past \<open>u64::MAX\<close>.
\<close>

definition next_seq :: "u64 \<Rightarrow> u64" where
  "next_seq n = (n + 1) mod (u64_max + 1)"


section \<open>Order transactions\<close>

record order_transaction =
  ox_journal :: "journal_record option"
  ox_effects :: "effect list"
  ox_rejected :: "reject_reason option"
  ox_prepared_ledger :: ledger_id
  ox_expected_cursor :: order_cursor
  ox_expected_state :: order_state
  ox_expected_ctx :: order_ctx
  ox_state_after :: order_state
  ox_ctx_after :: order_ctx
  ox_advance_cursor :: bool
  ox_next_seq :: u64

text \<open>A transaction that leaves its row alone.\<close>

definition unchanged_txn :: "order_row \<Rightarrow> reject_reason option \<Rightarrow> order_transaction" where
  "unchanged_txn row rejected =
     \<lparr>ox_journal = None, ox_effects = [], ox_rejected = rejected,
      ox_prepared_ledger = row_ledger row, ox_expected_cursor = row_cursor row,
      ox_expected_state = row_state row, ox_expected_ctx = row_ctx row,
      ox_state_after = row_state row, ox_ctx_after = row_ctx row,
      ox_advance_cursor = False, ox_next_seq = oc_seq (row_cursor row)\<rparr>"

definition order_record_of ::
  "order_row \<Rightarrow> order_event \<Rightarrow> transition_outcome \<Rightarrow> order_state \<Rightarrow> order_ctx \<Rightarrow> order_txn_record"
  where
  "order_record_of row ev t st_after ctx_after =
     OrderTxnRecord (row_ledger row) (client_order_id_of (row_ctx row))
       (next_seq (oc_seq (row_cursor row))) (event_name ev) (outcome_from_transition t)
       (fst (split_effects (outcome_effects t))) st_after ctx_after"

text \<open>Did the transition change the row or emit anything.\<close>

definition row_changed ::
  "order_row \<Rightarrow> transition_outcome \<Rightarrow> order_state \<Rightarrow> order_ctx \<Rightarrow> bool" where
  "row_changed row t st_after ctx_after =
     (st_after \<noteq> row_state row \<or> ctx_after \<noteq> row_ctx row
      \<or> fst (split_effects (outcome_effects t)) \<noteq> []
      \<or> snd (split_effects (outcome_effects t)) \<noteq> []
      \<or> outcome_effects t \<noteq> [])"

text \<open>A transaction that moves its row on, with the durable record of the move.\<close>

definition advancing_txn ::
  "order_row \<Rightarrow> order_event \<Rightarrow> transition_outcome \<Rightarrow> order_ctx \<Rightarrow> order_transaction" where
  "advancing_txn row ev t scratch =
     (let st_after = state_after_transition t (row_state row)
      in \<lparr>ox_journal = Some (J_OrderTxn (order_record_of row ev t st_after scratch)),
          ox_effects = snd (split_effects (outcome_effects t)), ox_rejected = None,
          ox_prepared_ledger = row_ledger row, ox_expected_cursor = row_cursor row,
          ox_expected_state = row_state row, ox_expected_ctx = row_ctx row,
          ox_state_after = st_after, ox_ctx_after = scratch, ox_advance_cursor = True,
          ox_next_seq = next_seq (oc_seq (row_cursor row))\<rparr>)"

definition prepare_order_event ::
  "order_row \<Rightarrow> order_event \<Rightarrow> prepare_error + order_transaction" where
  "prepare_order_event row ev =
     (if market_of (row_ctx row) \<noteq> ledger_market (row_ledger row) then
        Inl (PE_OrderRefInconsistent (ledger_market (row_ledger row)) (market_of (row_ctx row)))
      else if event_has_identified_fills ev then
        Inl (PE_FillsMustUseExecutionApi (event_name ev) (count_event_fills ev))
      else
        (let (scratch, t) = apply_event (row_state row) (row_ctx row) ev
         in case t of
              Reject reason \<Rightarrow> Inr (unchanged_txn row (Some reason))
            | _ \<Rightarrow>
                if \<not> row_changed row t (state_after_transition t (row_state row)) scratch
                then Inr (unchanged_txn row None)
                else Inr (advancing_txn row ev t scratch)))"

definition order_transaction_apply ::
  "order_transaction \<Rightarrow> order_row \<Rightarrow> apply_mismatch + order_row" where
  "order_transaction_apply x target =
     (if row_ledger target \<noteq> ox_prepared_ledger x then Inl AM_LedgerIdentity
      else if oc_seq (row_cursor target) \<noteq> oc_seq (ox_expected_cursor x) then
        Inl (AM_OrderCursor (oc_seq (ox_expected_cursor x)) (oc_seq (row_cursor target)))
      else if row_state target \<noteq> ox_expected_state x \<or> row_ctx target \<noteq> ox_expected_ctx x then
        Inl AM_OrderStateOrCtx
      else if ox_advance_cursor x then
        Inr (target\<lparr>row_state := ox_state_after x, row_ctx := ox_ctx_after x,
                    row_cursor := (row_cursor target)\<lparr>oc_seq := ox_next_seq x\<rparr>\<rparr>)
      else Inr target)"

end
