(* ===== verification/Fill_Scope.thy ===== *)
theory Fill_Scope
  imports Accounting Execution_Txn
begin

text \<open>
  A transition books no fill but those its event carries: the applied ids after it are the applied
  ids before it and ids of \<open>flatten_event_fills\<close>. With the accounting contract this bounds the ids
  an outcome may account for, and an event without fills accounts nothing.
\<close>

definition within :: "fill_id set \<Rightarrow> order_ctx \<Rightarrow> order_ctx \<Rightarrow> bool" where
  "within S c d = (applied_ids d \<subseteq> applied_ids c \<union> S)"

lemma same_within: "applied_fills d = applied_fills c \<Longrightarrow> within S c d"
  by (simp add: within_def applied_ids_def)

lemma within_trans: "within S c d \<Longrightarrow> within S d e \<Longrightarrow> within S c e"
  by (auto simp: within_def)

lemma within_after: "applied_fills d = applied_fills c \<Longrightarrow> within S d e \<Longrightarrow> within S c e"
  by (simp add: within_def applied_ids_def)

section \<open>Booking\<close>

lemma account_within:
  assumes "account_fill_core c fid q p ts fv fee False = (c1, a)" and "fid \<in> S"
  shows "within S c c1"
proof -
  have "applied_ids c1 \<subseteq> insert fid (applied_ids c)"
    using assms(1)
  proof (cases rule: account_core_cases)
    case (enriched prev v gain)
    then show ?thesis
      by (auto simp: enriched_ctx_def applied_ids_def fst_set_bt_insert Let_def split: option.split)
  next
    case booked
    then show ?thesis
      by (auto simp: booked_ctx_code book_fill_def invalidate_authority_def applied_ids_def
          fst_set_bt_insert Let_def)
  qed auto
  with assms(2) show ?thesis by (auto simp: within_def)
qed

lemma try_within:
  "try_account_fill c fid q p ts fv fee = (c1, a) \<Longrightarrow> fid \<in> S \<Longrightarrow> within S c c1"
  "try_account_fill_record c f = (c1, a) \<Longrightarrow> fr_fill_id f \<in> S \<Longrightarrow> within S c c1"
  by (auto simp: try_account_fill_def try_account_fill_record_def try_account_fill_owned_def
      intro: account_within)

lemma records_within:
  "account_fill_records c es fs = (c1, r) \<Longrightarrow> fr_fill_id ` set fs \<subseteq> S \<Longrightarrow> within S c c1"
  by (induction c es fs rule: account_fill_records.induct)
    (auto simp: same_within split: prod.splits account_attempt.splits
      dest: try_within(2) intro: within_trans)

lemma exhaustive_within:
  "account_exhaustive_fills rv c es fs = (c1, r) \<Longrightarrow> fr_fill_id ` set fs \<subseteq> S \<Longrightarrow> within S c c1"
  by (induction rv c es fs rule: account_exhaustive_fills.induct)
    (auto simp: same_within split: prod.splits account_attempt.splits if_splits
      dest: try_within(2) intro: within_trans)


section \<open>The other mutations keep the applied fills\<close>

named_theorems keeps_fills \<open>primitives that leave the applied fills alone\<close>

lemma primitives_keep [keeps_fills]:
  "bind_venue_id c v = Inr (c1, jr) \<Longrightarrow> applied_fills c1 = applied_fills c"
  "note_fill_evidence c n = Inr (c2, jr2) \<Longrightarrow> applied_fills c2 = applied_fills c"
  "raise_fill_obligation c n = Inr c3 \<Longrightarrow> applied_fills c3 = applied_fills c"
  "note_authority_complete c b = (c4, jr4) \<Longrightarrow> applied_fills c4 = applied_fills c"
  "authority_invalidate_effects c = (c5, es) \<Longrightarrow> applied_fills c5 = applied_fills c"
  by (auto simp: note_authority_complete_def latch_authority_complete_def
      authority_invalidate_effects_def invalidate_authority_def Let_def
      dest: bind_venue_frame note_evidence_fields raise_obligation_fields split: if_splits)

lemma updates_keep [simp]:
  "applied_fills (note_venue_remaining c r) = applied_fills c"
  "applied_fills (fst (note_authority_complete c b)) = applied_fills c"
  "applied_fills (carry_avg_fee c ravg rfee) = applied_fills c"
  "applied_fills (carry_response_prices c ravg rfee) = applied_fills c"
  "applied_fills (set_response_snapshot c fc rc avg fee bd) = applied_fills c"
  by (auto simp: note_venue_remaining_def note_authority_complete_def latch_authority_complete_def
      carry_avg_fee_def carry_response_prices_def set_response_snapshot_def Let_def)

lemma observe_keeps_fills [keeps_fills]:
  "observe_snapshot c v vf vr om mf = Inr (c1, es) \<Longrightarrow> applied_fills c1 = applied_fills c"
  "observe_snapshot c v vf vr om mf = Inl (c2, reason, es) \<Longrightarrow> applied_fills c2 = applied_fills c"
  by (auto simp: observe_snapshot_def Let_def dest!: keeps_fills split: sum.splits)

lemma live_keeps [simp]: "applied_fills (fst (route_live_or_filled c v es)) = applied_fills c"
  by (auto simp: route_live_or_filled_def dest: keeps_fills split: option.split prod.split)

lemma resolve_keeps [simp]: "applied_fills (fst (resolve_unattributed c st prior es)) = applied_fills c"
  by (cases st) (auto split: resolve_verdict.split option.split)

lemma submit_keeps:
  "applied_fills (fst (apply_submit_response c v fc rc avg fee bd)) = applied_fills c"
proof -
  have zero: "applied_fills (fst (submit_response_zero d v rc es)) = applied_fills d" for d es
    by (auto simp: submit_response_zero_def dest: keeps_fills split: prod.split)
  have fills: "applied_fills (fst (submit_response_fills d v fc rc avg fee bd es)) = applied_fills d"
    for d es
    by (auto simp: submit_response_fills_def Let_def simp del: resolve_unattributed.simps
        dest: keeps_fills split: sum.split option.split)
  show ?thesis
    by (auto simp: apply_submit_response_def Let_def zero fills dest: keeps_fills
        split: sum.split prod.split)
qed

lemma after_fill_keeps [simp]:
  "applied_fills (fst (after_fill_cancel_or_reconcile c v target es lq en)) = applied_fills c"
  by (auto simp: after_fill_cancel_or_reconcile_def after_fill_with_target_def
      after_fill_without_target_def Let_def dest!: keeps_fills
      split: option.split sum.split prod.split)

lemma cancel_keeps:
  "applied_fills (fst (apply_cancel_outcome c v f r rfc ravg rfee target oc)) = applied_fills c"
  "applied_fills (fst (cancel_requested c v rfc ravg rfee)) = applied_fills c"
  "applied_fills (fst (user_order_terminal_claim st c v f ex)) = applied_fills c"
  "applied_fills (fst (resting_claim st c v r)) = applied_fills c"
  by (auto simp: apply_cancel_outcome_def cancel_requested_def user_order_terminal_claim_def
      resting_claim_def carry_response_count_def carry_reconcile_target_def Let_def
      dest!: keeps_fills split: sum.splits prod.splits option.splits)


section \<open>Handlers\<close>

lemma same_ids: "applied_fills d = applied_fills c \<Longrightarrow> applied_ids d = applied_ids c"
  by (simp add: applied_ids_def)

lemmas keeps_ids = keeps_fills [THEN same_ids]

lemmas updates_ids [simp] =
  updates_keep [THEN same_ids] live_keeps [THEN same_ids] resolve_keeps [THEN same_ids]
  after_fill_keeps [THEN same_ids]

lemma while_open_within:
  "fid \<in> S \<Longrightarrow> within S c (fst (apply_fill_while_open st c fid q p ts fv fee))"
  "fid \<in> S \<Longrightarrow> within S c (fst (apply_fill_dedup_only c fid q p ts fv fee st))"
  by (auto simp: apply_fill_while_open_def apply_fill_dedup_only_def within_def
      dest!: try_within(1) [where S = S] split: prod.split account_attempt.split order_state.split)

lemma immediate_within:
  "fr_fill_id ` set fs \<subseteq> S \<Longrightarrow> within S c (fst (apply_immediate_fill_backfill c st fs))"
  by (cases st)
    (auto simp: apply_immediate_fill_backfill_def within_def
      simp del: resolve_unattributed.simps dest!: records_within [where S = S] keeps_ids
      split: sum.split prod.split)

lemma backfill_within:
  "fr_fill_id ` set fs \<subseteq> S \<Longrightarrow>
    within S c (fst (route_from_backfill_status c v status vf vr om fs sc fsu))"
  by (auto simp: route_from_backfill_status_def Let_def within_def
      dest!: records_within [where S = S] keeps_ids split: sum.split prod.split)

lemma unique_within:
  "fr_fill_id ` set (bo_fills rec) \<subseteq> S \<Longrightarrow> within S c (fst (apply_unique_backfill c rec))"
proof -
  assume S: "fr_fill_id ` set (bo_fills rec) \<subseteq> S"
  have route: "within S d e" if "route_from_backfill_status d v status vf vr om [] sc fsu = (e, t)"
    for d e v status vf vr om sc fsu t
    using that backfill_within [of "[]" S d v status vf vr om sc fsu] by simp
  show ?thesis
    by (auto simp: apply_unique_backfill_def Let_def within_def
        dest!: keeps_ids exhaustive_within [OF _ S] route split: sum.split prod.split) blast+
qed

lemma reconcile_within:
  "fr_fill_id ` set fs \<subseteq> S \<Longrightarrow>
    within S c (fst (reconcile_result c sv status vid filled rem fs complete))"
proof -
  assume S: "fr_fill_id ` set fs \<subseteq> S"
  have resolve: "applied_ids d = applied_ids c" if "resolve_reconcile_venue c sv vid = (d, r)" for d r
    using that by (auto simp: resolve_reconcile_venue_def dest!: keeps_ids
        split: sum.splits option.splits prod.splits)
  have route: "within S d e" if "route_from_backfill_status d v status vf vr om fs sc fsu = (e, t)"
    for d e v status vf vr om sc fsu t
    using that backfill_within [OF S, of d v status vf vr om sc fsu] by simp
  obtain d r where d: "resolve_reconcile_venue c sv vid = (d, r)" by fastforce
  show ?thesis
  proof (cases r)
    case (Inl err)
    with d resolve [OF d] show ?thesis
      by (cases err) (simp add: reconcile_result_def within_def)
  next
    case (Inr vj)
    obtain v jr where vj: "vj = (v, jr)" by fastforce
    obtain e t where e: "route_from_backfill_status d v status filled rem 0 fs complete False = (e, t)"
      by fastforce
    from d e Inr vj route [OF e] resolve [OF d] show ?thesis
      by (simp add: reconcile_result_def within_def)
  qed
qed

lemma unknown_within:
  "fr_fill_id ` set (concat (map bo_fills matched)) \<subseteq> S \<Longrightarrow>
    within S c (fst (apply_unknown_backfill c ex matched))"
  by (auto simp: apply_unknown_backfill_def same_within intro!: unique_within split: list.split)

definition event_ids :: "order_event \<Rightarrow> fill_id set" where
  "event_ids ev = fr_fill_id ` set (flatten_event_fills ev)"

lemma frozen_within: "within (event_ids ev) c (fst (restart_safe_handle st c ev))"
  by (cases ev)
    (auto simp: restart_safe_handle_def event_ids_def same_within
      split: prod.split account_attempt.split dest: try_within(1))

lemma open_within: "within (event_ids ev) c (fst (on_open_state st c ev))"
  by (cases st; cases ev)
    (auto simp: on_open_state_def on_new_def on_submit_prepared_def on_submit_started_def
      on_submit_unknown_def on_live_def on_cancel_pending_def on_reconcile_pending_def
      on_immediate_fill_def same_within submit_keeps cancel_keeps event_ids_def
      intro!: while_open_within immediate_within reconcile_within unknown_within
      split: submission_close_reason.split)

theorem event_books_its_fills:
  "apply_event st c ev = (c1, t) \<Longrightarrow> applied_ids c1 \<subseteq> applied_ids c \<union> event_ids ev"
  using frozen_within [of ev c st] open_within [of ev c st]
  by (auto simp: apply_event_def within_def
      split: order_state.splits order_event.splits submission_close_reason.splits if_splits)

lemma event_accounts_its_fills:
  assumes "apply_event st c ev = (c1, t)"
  shows "set (account_ids (outcome_effects t)) \<subseteq> event_ids ev - applied_ids c"
proof -
  have "booked c (outcome_effects t) c1"
    using accounting.event [OF assms] by (simp add: accounted_def)
  with event_books_its_fills [OF assms] show ?thesis by (auto simp: booked_def)
qed

end
