(* ===== verification/Execution_Batch.thy ===== *)
theory Execution_Batch
  imports Execution_Txn
begin

text \<open>
  Execution transactions of \<^verbatim>\<open>src/execution.rs\<close>: every execution of a batch is adjudicated
  against the entry of the inventory (\<open>p\<close>), the payload applied to the row (\<open>q\<close>) and the payload
  staged earlier in the batch (\<open>s\<close>); what is admitted is fed to the order as one event, and the
  outcomes, the planned inventory writes and the durable record follow from the context after it.
\<close>

section \<open>Staged payloads and conflicts\<close>

record staged_payload =
  sp_side :: side
  sp_qty :: u64
  sp_price_cents :: u64
  sp_first_seen_ts_ns :: i64
  sp_venue_order_id :: "venue_order_id option"
  sp_claimed_client_order_id :: "client_order_id option"
  sp_fee_cents :: "u64 option"
  sp_source :: execution_source

definition staged_entry ::
  "staged_payload \<Rightarrow> client_order_id option \<Rightarrow> inventory_provenance \<Rightarrow> inventory_entry" where
  "staged_entry s owner provenance =
     \<lparr>ie_side = sp_side s, ie_qty = sp_qty s, ie_price_cents = sp_price_cents s,
      ie_first_seen_ts_ns = sp_first_seen_ts_ns s, ie_venue_order_id = sp_venue_order_id s,
      ie_claimed_client_order_id = sp_claimed_client_order_id s, ie_owner = owner,
      ie_fee_cents = sp_fee_cents s, ie_source = sp_source s, ie_provenance = provenance\<rparr>"

definition staged_fill_record :: "staged_payload \<Rightarrow> fill_id \<Rightarrow> fill_record" where
  "staged_fill_record s fid =
     \<lparr>fr_fill_id = fid, fr_qty = sp_qty s, fr_price_cents = sp_price_cents s,
      fr_ts_ns = sp_first_seen_ts_ns s, fr_venue_order_id = sp_venue_order_id s,
      fr_fee_cents = sp_fee_cents s\<rparr>"

definition core_disagree_qty_price_venue ::
  "u64 \<Rightarrow> u64 \<Rightarrow> venue_order_id option \<Rightarrow> u64 \<Rightarrow> u64 \<Rightarrow> venue_order_id option \<Rightarrow> bool" where
  "core_disagree_qty_price_venue qa pa va qb pb vb =
     (if qa \<noteq> qb \<or> pa \<noteq> pb then True
      else case (va, vb) of (Some a, Some b) \<Rightarrow> a \<noteq> b | _ \<Rightarrow> False)"

definition fee_conflict :: "u64 option \<Rightarrow> u64 option \<Rightarrow> bool" where
  "fee_conflict a b = (case (a, b) of (Some x, Some y) \<Rightarrow> x \<noteq> y | _ \<Rightarrow> False)"

definition placeholder_entry :: inventory_entry where
  "placeholder_entry =
     \<lparr>ie_side = BuyYes, ie_qty = 0, ie_price_cents = 0, ie_first_seen_ts_ns = 0,
      ie_venue_order_id = None, ie_claimed_client_order_id = None, ie_owner = None,
      ie_fee_cents = None, ie_source = WsFill, ie_provenance = IP_NoRow\<rparr>"

definition build_conflict_witness ::
  "staged_payload option \<Rightarrow> inventory_entry option \<Rightarrow> (client_order_id \<times> fill_payload) option
    \<Rightarrow> conflict_witness" where
  "build_conflict_witness staged entry q =
     (case staged of
        Some s \<Rightarrow> CW_Staged (staged_entry s None IP_NoRow)
      | None \<Rightarrow>
          (case (entry, q) of
             (Some e, Some (cid, p)) \<Rightarrow> CW_Both e cid p
           | (Some e, None) \<Rightarrow> CW_Entry e
           | (None, Some (cid, p)) \<Rightarrow> CW_OrderApplied cid p
           | (None, None) \<Rightarrow> CW_Staged placeholder_entry))"

definition conflict_of ::
  "execution_evidence \<Rightarrow> conflict_class \<Rightarrow> conflict_witness \<Rightarrow> conflict_fact" where
  "conflict_of e k w =
     \<lparr>cf_execution_id = ev_execution_id e, cf_class = k, cf_witness = w, cf_evidence = e\<rparr>"

text \<open>The pairwise comparisons of the evidence \<open>e\<close>, \<open>s\<close>, \<open>p\<close> and \<open>q\<close>; a fill payload has no side.\<close>

definition disagree_es :: "execution_evidence \<Rightarrow> staged_payload \<Rightarrow> bool" where
  "disagree_es e s =
     (ev_side e \<noteq> sp_side s
      \<or> core_disagree_qty_price_venue (ev_qty e) (ev_price_cents e) (ev_venue_order_id e)
           (sp_qty s) (sp_price_cents s) (sp_venue_order_id s))"

definition disagree_ep :: "execution_evidence \<Rightarrow> inventory_entry \<Rightarrow> bool" where
  "disagree_ep e p =
     (ev_side e \<noteq> ie_side p
      \<or> core_disagree_qty_price_venue (ev_qty e) (ev_price_cents e) (ev_venue_order_id e)
           (ie_qty p) (ie_price_cents p) (ie_venue_order_id p))"

definition disagree_eq :: "execution_evidence \<Rightarrow> fill_payload \<Rightarrow> bool" where
  "disagree_eq e q =
     core_disagree_qty_price_venue (ev_qty e) (ev_price_cents e) (ev_venue_order_id e)
       (fp_qty q) (fp_price_cents q) (fp_venue_order_id q)"

definition disagree_sp :: "staged_payload \<Rightarrow> inventory_entry \<Rightarrow> bool" where
  "disagree_sp s p =
     (sp_side s \<noteq> ie_side p
      \<or> core_disagree_qty_price_venue (sp_qty s) (sp_price_cents s) (sp_venue_order_id s)
           (ie_qty p) (ie_price_cents p) (ie_venue_order_id p))"

definition disagree_sq :: "staged_payload \<Rightarrow> fill_payload \<Rightarrow> bool" where
  "disagree_sq s q =
     core_disagree_qty_price_venue (sp_qty s) (sp_price_cents s) (sp_venue_order_id s)
       (fp_qty q) (fp_price_cents q) (fp_venue_order_id q)"

definition disagree_pq :: "inventory_entry \<Rightarrow> fill_payload \<Rightarrow> bool" where
  "disagree_pq p q =
     core_disagree_qty_price_venue (ie_qty p) (ie_price_cents p) (ie_venue_order_id p)
       (fp_qty q) (fp_price_cents q) (fp_venue_order_id q)"

definition opt_holds :: "('a \<Rightarrow> bool) \<Rightarrow> 'a option \<Rightarrow> bool" where
  "opt_holds P x = (case x of None \<Rightarrow> False | Some a \<Rightarrow> P a)"

definition opt_holds2 :: "('a \<Rightarrow> 'b \<Rightarrow> bool) \<Rightarrow> 'a option \<Rightarrow> 'b option \<Rightarrow> bool" where
  "opt_holds2 P x y = opt_holds (\<lambda>a. opt_holds (P a) y) x"

definition core_hit ::
  "execution_evidence \<Rightarrow> staged_payload option \<Rightarrow> inventory_entry option \<Rightarrow> fill_payload option \<Rightarrow> bool"
  where
  "core_hit e s p q =
     (opt_holds (disagree_es e) s \<or> opt_holds (disagree_ep e) p \<or> opt_holds (disagree_eq e) q
      \<or> opt_holds2 disagree_sp s p \<or> opt_holds2 disagree_sq s q \<or> opt_holds2 disagree_pq p q)"

definition fee_hit ::
  "execution_evidence \<Rightarrow> staged_payload option \<Rightarrow> inventory_entry option \<Rightarrow> fill_payload option \<Rightarrow> bool"
  where
  "fee_hit e s p q =
     (let fe = ev_fee_cents e; fs = Option.bind s sp_fee_cents; fp = Option.bind p ie_fee_cents;
          fq = Option.bind q fp_fee
      in fee_conflict fe fs \<or> fee_conflict fe fp \<or> fee_conflict fe fq
         \<or> fee_conflict fs fp \<or> fee_conflict fs fq \<or> fee_conflict fp fq)"

text \<open>\<open>None\<close> to \<open>Some\<close> upgrades: metadata is filled in, never replaced.\<close>

definition fills_in :: "'a option \<Rightarrow> 'a option \<Rightarrow> bool" where
  "fills_in a b = (a = None \<and> b \<noteq> None)"

definition merge_staged :: "staged_payload \<Rightarrow> execution_evidence \<Rightarrow> staged_payload" where
  "merge_staged s e =
     s\<lparr>sp_venue_order_id := or_else (sp_venue_order_id s) (ev_venue_order_id e),
       sp_fee_cents := or_else (sp_fee_cents s) (ev_fee_cents e),
       sp_claimed_client_order_id :=
         or_else (sp_claimed_client_order_id s) (ev_claimed_client_order_id e)\<rparr>"

text \<open>An upgrade of an entry by venue and fee, and whether it filled anything in.\<close>

definition upgrade_entry ::
  "inventory_entry \<Rightarrow> venue_order_id option \<Rightarrow> u64 option \<Rightarrow> inventory_entry \<times> bool" where
  "upgrade_entry p venue fee =
     (p\<lparr>ie_venue_order_id := or_else (ie_venue_order_id p) venue,
        ie_fee_cents := or_else (ie_fee_cents p) fee\<rparr>,
      fills_in (ie_venue_order_id p) venue \<or> fills_in (ie_fee_cents p) fee)"


section \<open>The transaction\<close>

record execution_transaction =
  xt_outcomes :: "execution_outcome list"
  xt_journal :: "journal_record option"
  xt_effects :: "effect list"
  xt_prepared_inventory_ledger :: ledger_id
  xt_expected_generation :: u64
  xt_prepared_order_ledger :: "ledger_id option"
  xt_expected_cursor :: "order_cursor option"
  xt_expected_state :: "order_state option"
  xt_expected_ctx :: "order_ctx option"
  xt_order_state_after :: "order_state option"
  xt_order_ctx_after :: "order_ctx option"
  xt_advance_cursor :: bool
  xt_next_seq :: u64
  xt_planned_entries :: "(fill_id, inventory_entry) btree"
  xt_planned_conflicts :: "(fill_id, conflict_fact) btree"

definition outcome_with ::
  "execution_evidence \<Rightarrow> order_disposition \<Rightarrow> inventory_disposition \<Rightarrow> inventory_entry option
    \<Rightarrow> conflict_fact option \<Rightarrow> execution_outcome" where
  "outcome_with e od idisp entry conflict =
     \<lparr>eo_evidence = e, eo_order = od, eo_inventory = idisp, eo_entry_after = entry,
      eo_conflict = conflict\<rparr>"

definition zero_outcome :: "execution_evidence \<Rightarrow> execution_outcome" where
  "zero_outcome e = outcome_with e (OD_Ignored ZeroQty) ID_Unchanged None None"

fun durable_disposition :: "inventory_disposition \<Rightarrow> bool" where
  "durable_disposition (ID_Ingested _) = True"
| "durable_disposition ID_Upgraded = True"
| "durable_disposition (ID_Conflict _) = True"
| "durable_disposition _ = False"


section \<open>Evidence without a row\<close>

text \<open>The outcome of one execution, the planned entry and the planned conflict.\<close>

definition norow_outcome ::
  "inventory_entry option \<Rightarrow> execution_evidence
    \<Rightarrow> execution_outcome \<times> inventory_entry option \<times> conflict_fact option" where
  "norow_outcome existing e =
     (case existing of
        Some p \<Rightarrow>
          if disagree_ep e p then
            (let f = conflict_of e CC_Core (CW_Entry p)
             in (outcome_with e (OD_Refused (RR_ConflictingExecution CC_Core)) (ID_Conflict CC_Core)
                   (Some p) (Some f), None, Some f))
          else if fee_conflict (ev_fee_cents e) (ie_fee_cents p) then
            (let f = conflict_of e CC_Fee (CW_Entry p)
             in (outcome_with e (OD_Refused RR_FeeConflict) (ID_Conflict CC_Fee) (Some p) (Some f),
                 None, Some f))
          else
            (let (up, changed) = upgrade_entry p (ev_venue_order_id e) (ev_fee_cents e);
                 claimed = fills_in (ie_claimed_client_order_id p) (ev_claimed_client_order_id e);
                 entry = up\<lparr>ie_claimed_client_order_id :=
                   or_else (ie_claimed_client_order_id p) (ev_claimed_client_order_id e)\<rparr>
             in if changed \<or> claimed
                then (outcome_with e OD_NoRow ID_Upgraded (Some entry) None, Some entry, None)
                else (outcome_with e OD_NoRow ID_Duplicate (Some entry) None, None, None))
      | None \<Rightarrow>
          (let entry = \<lparr>ie_side = ev_side e, ie_qty = ev_qty e, ie_price_cents = ev_price_cents e,
                 ie_first_seen_ts_ns = ev_ts_ns e, ie_venue_order_id = ev_venue_order_id e,
                 ie_claimed_client_order_id = ev_claimed_client_order_id e, ie_owner = None,
                 ie_fee_cents = ev_fee_cents e, ie_source = ev_source e,
                 ie_provenance = IP_NoRow\<rparr>
           in (outcome_with e OD_NoRow (ID_Ingested IP_NoRow) (Some entry) None, Some entry, None)))"

definition put_planned ::
  "fill_id \<Rightarrow> 'v option \<Rightarrow> (fill_id, 'v) btree \<Rightarrow> (fill_id, 'v) btree" where
  "put_planned fid v m = (case v of None \<Rightarrow> m | Some x \<Rightarrow> bt_insert fid x m)"

definition norow_transaction ::
  "market_inventory \<Rightarrow> execution_outcome list \<Rightarrow> (fill_id, inventory_entry) btree
    \<Rightarrow> (fill_id, conflict_fact) btree \<Rightarrow> execution_transaction" where
  "norow_transaction mi outs entries conflicts =
     \<lparr>xt_outcomes = outs,
      xt_journal =
        (if list_ex (\<lambda>out. durable_disposition (eo_inventory out)) outs
         then Some (J_ExecutionTxn
                (ExecutionTxnRecord (mi_ledger mi) (mi_generation mi) outs None))
         else None),
      xt_effects = [], xt_prepared_inventory_ledger = mi_ledger mi,
      xt_expected_generation = mi_generation mi, xt_prepared_order_ledger = None,
      xt_expected_cursor = None, xt_expected_state = None, xt_expected_ctx = None,
      xt_order_state_after = None, xt_order_ctx_after = None, xt_advance_cursor = False,
      xt_next_seq = 0, xt_planned_entries = entries, xt_planned_conflicts = conflicts\<rparr>"

definition prepare_execution_norow ::
  "market_inventory \<Rightarrow> execution_evidence \<Rightarrow> prepare_error failure + execution_transaction" where
  "prepare_execution_norow mi e =
     (if evidence_ledger e \<noteq> mi_ledger mi then
        Inl (Err (PE_ForeignLedger (mi_ledger mi) (evidence_ledger e)))
      else if ev_qty e = 0 then Inr (norow_transaction mi [zero_outcome e] [] [])
      else
        (let (out, entry, conflict) = norow_outcome (inventory_get mi (ev_execution_id e)) e
         in Inr (norow_transaction mi [out] (put_planned (ev_execution_id e) entry [])
              (put_planned (ev_execution_id e) conflict []))))"

end
