(* ===== verification/Execution_Prepare.thy ===== *)
theory Execution_Prepare
  imports Execution_Batch
begin

text \<open>
  \<open>prepare_execution_batch\<close> of \<^verbatim>\<open>src/execution.rs\<close>, phase by phase: adjudication of every
  evidence (with a foreign row, or with the row of the ledger), the side check on what was admitted,
  the core call, and the emission of the outcomes and planned writes; then
  \<open>ExecutionTransaction::apply\<close>.
\<close>

section \<open>Adjudication\<close>

datatype pre_core =
    PC_IgnoredZero
  | PC_Refused order_disposition inventory_disposition "inventory_entry option" "conflict_fact option"
  | PC_Admitted staged_payload

type_synonym staging = "(fill_id, staged_payload) btree"
type_synonym pre_item = "execution_evidence \<times> pre_core"

definition foreign_refusal :: "order_row \<Rightarrow> market_inventory \<Rightarrow> refusal_reason" where
  "foreign_refusal row mi =
     RR_RowForeign (row_ledger row) (market_of (row_ctx row)) (mi_ledger mi)"

definition staged_of ::
  "execution_evidence \<Rightarrow> i64 \<Rightarrow> venue_order_id option \<Rightarrow> u64 option \<Rightarrow> staged_payload" where
  "staged_of e ts venue fee =
     \<lparr>sp_side = ev_side e, sp_qty = ev_qty e, sp_price_cents = ev_price_cents e,
      sp_first_seen_ts_ns = ts, sp_venue_order_id = venue,
      sp_claimed_client_order_id = ev_claimed_client_order_id e, sp_fee_cents = fee,
      sp_source = ev_source e\<rparr>"

text \<open>A foreign row: the row's own fills are not read and the order part is always refused.\<close>

definition adjudicate_foreign ::
  "order_row \<Rightarrow> market_inventory \<Rightarrow> staging \<Rightarrow> execution_evidence \<Rightarrow> staging \<times> pre_core" where
  "adjudicate_foreign row mi staging e =
     (let fid = ev_execution_id e; p = inventory_get mi fid; s = bt_get staging fid;
          refused = OD_Refused (foreign_refusal row mi)
      in if ev_qty e = 0 then (staging, PC_IgnoredZero)
         else if core_hit e s p None then
           (staging, PC_Refused refused (ID_Conflict CC_Core) p
              (Some (conflict_of e CC_Core (build_conflict_witness s p None))))
         else if fee_hit e s p None then
           (staging, PC_Refused refused (ID_Conflict CC_Fee) p
              (Some (conflict_of e CC_Fee (build_conflict_witness s p None))))
         else
           (case s of
              Some sp \<Rightarrow>
                (bt_insert fid (merge_staged sp e) staging, PC_Refused refused ID_Duplicate p None)
            | None \<Rightarrow>
                (case p of
                   Some entry \<Rightarrow>
                     (let (up, changed) = upgrade_entry entry (ev_venue_order_id e) (ev_fee_cents e)
                      in (staging,
                          if changed then PC_Refused refused ID_Upgraded (Some up) None
                          else PC_Refused refused ID_Duplicate (Some entry) None))
                 | None \<Rightarrow>
                     (let staged = staged_of e (ev_ts_ns e) (ev_venue_order_id e) (ev_fee_cents e)
                      in (bt_insert fid staged staging,
                          PC_Refused refused (ID_Ingested IP_RowForeign)
                            (Some (staged_entry staged None IP_RowForeign)) None)))))"

definition other_owner :: "order_row \<Rightarrow> inventory_entry option \<Rightarrow> (inventory_entry \<times> client_order_id) option"
  where
  "other_owner row p =
     (case p of
        None \<Rightarrow> None
      | Some entry \<Rightarrow>
          (case ie_owner entry of
             None \<Rightarrow> None
           | Some owner \<Rightarrow>
               if owner \<noteq> client_order_id_of (row_ctx row) then Some (entry, owner) else None))"

text \<open>What is staged first for an id: the inventory and the row know better than the evidence.\<close>

definition canonical_staged ::
  "inventory_entry option \<Rightarrow> fill_payload option \<Rightarrow> execution_evidence \<Rightarrow> staged_payload" where
  "canonical_staged p q e =
     staged_of e
       (case p of Some entry \<Rightarrow> ie_first_seen_ts_ns entry
        | None \<Rightarrow> (case q of Some payload \<Rightarrow> fp_ts_ns payload | None \<Rightarrow> ev_ts_ns e))
       (or_else (or_else (Option.bind p ie_venue_order_id) (Option.bind q fp_venue_order_id))
          (ev_venue_order_id e))
       (or_else (or_else (Option.bind p ie_fee_cents) (Option.bind q fp_fee)) (ev_fee_cents e))"

definition adjudicate_row ::
  "order_row \<Rightarrow> market_inventory \<Rightarrow> staging \<Rightarrow> execution_evidence \<Rightarrow> staging \<times> pre_core" where
  "adjudicate_row row mi staging e =
     (let fid = ev_execution_id e; p = inventory_get mi fid;
          q = bt_get (applied_fills (row_ctx row)) fid; s = bt_get staging fid;
          witness = build_conflict_witness s p
            (map_option (\<lambda>payload. (client_order_id_of (row_ctx row), payload)) q)
      in if ev_qty e = 0 then (staging, PC_IgnoredZero)
         else if core_hit e s p q then
           (staging, PC_Refused (OD_Refused (RR_ConflictingExecution CC_Core)) (ID_Conflict CC_Core) p
              (Some (conflict_of e CC_Core witness)))
         else
           (case other_owner row p of
              Some (entry, owner) \<Rightarrow>
                (staging, PC_Refused (OD_Refused (RR_DuplicateOtherOwner owner))
                   (ID_Conflict CC_Ownership) (Some entry)
                   (Some (conflict_of e CC_Ownership (CW_Entry entry))))
            | None \<Rightarrow>
                if fee_hit e s p q then
                  (staging, PC_Refused (OD_Refused RR_FeeConflict) (ID_Conflict CC_Fee) p
                     (Some (conflict_of e CC_Fee witness)))
                else
                  (case s of
                     Some sp \<Rightarrow>
                       (bt_insert fid (merge_staged sp e) staging,
                        PC_Refused (OD_Refused RR_InBatchDuplicate) ID_Duplicate p None)
                   | None \<Rightarrow>
                       (let staged = canonical_staged p q e
                        in (bt_insert fid staged staging, PC_Admitted staged)))))"

fun adjudicate_all ::
  "(staging \<Rightarrow> execution_evidence \<Rightarrow> staging \<times> pre_core) \<Rightarrow> staging \<Rightarrow> execution_evidence list
    \<Rightarrow> staging \<times> pre_item list" where
  "adjudicate_all judge staging [] = (staging, [])"
| "adjudicate_all judge staging (e # es) =
     (let (staging1, pc) = judge staging e; (staging2, pre) = adjudicate_all judge staging1 es
      in (staging2, (e, pc) # pre))"

text \<open>The side of what was admitted against the side of the order.\<close>

definition side_refused ::
  "order_row \<Rightarrow> market_inventory \<Rightarrow> staging \<Rightarrow> execution_evidence \<Rightarrow> pre_core" where
  "side_refused row mi staging e =
     (let refusal = RR_SideMismatch (side_of (row_ctx row)) (ev_side e)
      in case inventory_get mi (ev_execution_id e) of
           Some p \<Rightarrow> PC_Refused (OD_Refused refusal) ID_Duplicate (Some p) None
         | None \<Rightarrow>
             (case bt_get staging (ev_execution_id e) of
                Some sp \<Rightarrow>
                  PC_Refused (OD_Refused refusal) (ID_Ingested (IP_Refused refusal))
                    (Some (staged_entry sp None (IP_Refused refusal))) None
              | None \<Rightarrow> PC_Refused (OD_Refused refusal) ID_Unchanged None None))"

fun side_check ::
  "order_row \<Rightarrow> market_inventory \<Rightarrow> staging \<Rightarrow> pre_item list \<Rightarrow> staging \<times> pre_item list" where
  "side_check row mi staging [] = (staging, [])"
| "side_check row mi staging ((e, PC_Admitted staged) # pre) =
     (if side_of (row_ctx row) \<noteq> ev_side e then
        (let (staging1, pre1) = side_check row mi (bt_remove (ev_execution_id e) staging) pre
         in (staging1, (e, side_refused row mi staging e) # pre1))
      else
        (let (staging1, pre1) = side_check row mi staging pre
         in (staging1, (e, PC_Admitted staged) # pre1)))"
| "side_check row mi staging ((e, pc) # pre) =
     (let (staging1, pre1) = side_check row mi staging pre in (staging1, (e, pc) # pre1))"

definition is_row_foreign :: "order_row \<Rightarrow> market_inventory \<Rightarrow> bool" where
  "is_row_foreign row mi =
     (row_ledger row \<noteq> mi_ledger mi
      \<or> market_of (row_ctx row) \<noteq> ledger_market (row_ledger row))"

definition adjudicate_batch ::
  "order_row \<Rightarrow> market_inventory \<Rightarrow> execution_evidence list \<Rightarrow> staging \<times> pre_item list" where
  "adjudicate_batch row mi evidences =
     (if is_row_foreign row mi then adjudicate_all (adjudicate_foreign row mi) [] evidences
      else (let (staging, pre) = adjudicate_all (adjudicate_row row mi) [] evidences
            in side_check row mi staging pre))"


section \<open>The core call\<close>

definition final_staged :: "staging \<Rightarrow> fill_id \<Rightarrow> staged_payload \<Rightarrow> staged_payload" where
  "final_staged staging fid staged =
     (case bt_get staging fid of Some sp \<Rightarrow> sp | None \<Rightarrow> staged)"

text \<open>
  The admitted ids with their final payload, each with its position in the batch
  (\<open>admitted_at\<close> of the code).
\<close>

fun admitted_from ::
  "staging \<Rightarrow> nat \<Rightarrow> pre_item list \<Rightarrow> (nat \<times> fill_id \<times> staged_payload) list" where
  "admitted_from staging i [] = []"
| "admitted_from staging i ((e, PC_Admitted staged) # pre) =
     (i, ev_execution_id e, final_staged staging (ev_execution_id e) staged)
       # admitted_from staging (i + 1) pre"
| "admitted_from staging i (_ # pre) = admitted_from staging (i + 1) pre"

fun is_side_refusal :: "pre_core \<Rightarrow> bool" where
  "is_side_refusal (PC_Refused (OD_Refused (RR_SideMismatch _ _)) _ _ _) = True"
| "is_side_refusal _ = False"

definition all_side_mismatch ::
  "execution_evidence list \<Rightarrow> pre_item list \<Rightarrow> (nat \<times> fill_id \<times> staged_payload) list \<Rightarrow> bool" where
  "all_side_mismatch evidences pre admitted =
     (evidences \<noteq> []
      \<and> list_all (\<lambda>(_, pc). is_side_refusal pc \<or> pc = PC_IgnoredZero) pre
      \<and> list_ex (\<lambda>(_, pc). is_side_refusal pc) pre
      \<and> admitted = [])"

fun is_structured :: "order_event \<Rightarrow> bool" where
  "is_structured (Ev_ImmediateFillBackfillResult _) = True"
| "is_structured (Ev_UnknownBackfillResult _ _) = True"
| "is_structured (Ev_ReconcileResult _ _ _ _ _ _) = True"
| "is_structured _ = False"

text \<open>Which matched record holds the fill at a flattened position.\<close>

fun record_at :: "nat \<Rightarrow> nat \<Rightarrow> nat \<Rightarrow> backfill_order_record list \<Rightarrow> nat option" where
  "record_at idx n ri [] = None"
| "record_at idx n ri (m # ms) =
     (if idx < n + length (bo_fills m) then Some ri
      else record_at idx (n + length (bo_fills m)) (ri + 1) ms)"

fun place_fills ::
  "backfill_order_record list \<Rightarrow> (nat \<times> fill_id \<times> staged_payload) list
    \<Rightarrow> fill_record list list \<Rightarrow> fill_record list list" where
  "place_fills matched [] rec_fills = rec_fills"
| "place_fills matched ((idx, fid, staged) # adm) rec_fills =
     place_fills matched adm
       (case record_at idx 0 0 matched of
          Some ri \<Rightarrow> rec_fills[ri := rec_fills ! ri @ [staged_fill_record staged fid]]
        | None \<Rightarrow>
            if matched \<noteq> []
            then rec_fills[length matched - 1 :=
                   rec_fills ! (length matched - 1) @ [staged_fill_record staged fid]]
            else rec_fills)"

text \<open>\<open>None\<close> is the panic of \<open>admitted[0]\<close>.\<close>

definition rebuild_event_with_fills ::
  "order_event \<Rightarrow> (nat \<times> fill_id \<times> staged_payload) list \<Rightarrow> order_event option" where
  "rebuild_event_with_fills ev admitted =
     (let fills = map (\<lambda>(_, fid, s). staged_fill_record s fid) admitted
      in case ev of
           Ev_Fill _ _ _ _ _ _ \<Rightarrow>
             (case admitted of
                [] \<Rightarrow> None
              | (_, fid, s) # _ \<Rightarrow>
                  Some (Ev_Fill fid (sp_qty s) (sp_price_cents s) (sp_first_seen_ts_ns s)
                          (sp_venue_order_id s) (sp_fee_cents s)))
         | Ev_ImmediateFillBackfillResult _ \<Rightarrow> Some (Ev_ImmediateFillBackfillResult fills)
         | Ev_UnknownBackfillResult exhaustive matched \<Rightarrow>
             Some (Ev_UnknownBackfillResult exhaustive
               (map (\<lambda>(m, fs). m\<lparr>bo_fills := fs\<rparr>)
                  (zip matched (place_fills matched admitted (replicate (length matched) [])))))
         | Ev_ReconcileResult status venue filled remaining _ complete \<Rightarrow>
             Some (Ev_ReconcileResult status venue filled remaining fills complete)
         | _ \<Rightarrow> Some ev)"

definition side_mismatch_text :: string where
  "side_mismatch_text = ''execution side mismatch with order ctx.side''"

text \<open>The context after the core call and its outcome, when there is a core call.\<close>

definition core_call ::
  "order_row \<Rightarrow> market_inventory \<Rightarrow> order_event \<Rightarrow> execution_evidence list \<Rightarrow> staging
    \<Rightarrow> pre_item list \<Rightarrow> prepare_error failure + (order_ctx \<times> transition_outcome) option" where
  "core_call row mi ev evidences staging pre =
     (let admitted = admitted_from staging 0 pre
      in if is_row_foreign row mi then Inr None
         else if all_side_mismatch evidences pre admitted \<and> \<not> is_restart_frozen (row_state row) then
           Inr (Some (row_ctx row,
             halt_with_reason (H_CrossCheckMismatch side_mismatch_text) []))
         else if all_side_mismatch evidences pre admitted \<and> is_restart_frozen (row_state row) then Inr None
         else if admitted \<noteq> [] \<or> is_structured ev then
           (case rebuild_event_with_fills ev admitted of
              None \<Rightarrow> Inl Panic
            | Some core_event \<Rightarrow>
                Inr (Some (apply_event (row_state row) (row_ctx row) core_event)))
         else Inr None)"


section \<open>Emission\<close>

definition owner_for ::
  "order_disposition \<Rightarrow> client_order_id \<Rightarrow> bool \<Rightarrow> bool \<Rightarrow> client_order_id option" where
  "owner_for od cid row_foreign in_after =
     (if row_foreign \<or> \<not> in_after then None
      else case od of
             OD_Attributed \<Rightarrow> Some cid
           | OD_LateBooked \<Rightarrow> Some cid
           | OD_Duplicate \<Rightarrow> Some cid
           | OD_Enriched \<Rightarrow> Some cid
           | _ \<Rightarrow> None)"

text \<open>What the core did with an admitted id, read off the applied fills before and after.\<close>

definition admitted_disposition ::
  "batch_outcome \<Rightarrow> fill_payload option \<Rightarrow> fill_payload option \<Rightarrow> order_disposition" where
  "admitted_disposition batch before after =
     (case (before, after) of
        (_, None) \<Rightarrow> OD_NotAttributedByOrder batch
      | (None, Some _) \<Rightarrow> if batch = BO_Halt H_PostTerminalFill then OD_LateBooked else OD_Attributed
      | (Some b, Some a) \<Rightarrow> if b \<noteq> a then OD_Enriched else OD_Duplicate)"

definition ingest_provenance :: "bool \<Rightarrow> order_disposition \<Rightarrow> bool \<Rightarrow> inventory_provenance" where
  "ingest_provenance row_foreign od in_before =
     (if row_foreign then IP_RowForeign
      else if (od = OD_Duplicate \<or> od = OD_Enriched) \<and> in_before then IP_Recovered
      else case od of
             OD_Attributed \<Rightarrow> IP_Attributed
           | OD_LateBooked \<Rightarrow> IP_LateBooked
           | OD_NotAttributedByOrder out \<Rightarrow> IP_NotAttributedByOrder out
           | OD_Refused r \<Rightarrow> IP_Refused r
           | OD_NoRow \<Rightarrow> IP_NoRow
           | _ \<Rightarrow> IP_Attributed)"

text \<open>The entry of an admitted id: a new one, or the known one with owner and metadata filled in.\<close>

definition ingested_entry ::
  "execution_evidence \<Rightarrow> staged_payload \<Rightarrow> client_order_id option \<Rightarrow> inventory_provenance
    \<Rightarrow> inventory_entry" where
  "ingested_entry e final owner provenance =
     \<lparr>ie_side = sp_side final, ie_qty = sp_qty final, ie_price_cents = sp_price_cents final,
      ie_first_seen_ts_ns = ev_ts_ns e, ie_venue_order_id = sp_venue_order_id final,
      ie_claimed_client_order_id = ev_claimed_client_order_id e, ie_owner = owner,
      ie_fee_cents = sp_fee_cents final, ie_source = ev_source e, ie_provenance = provenance\<rparr>"

definition upgraded_entry ::
  "inventory_entry \<Rightarrow> staged_payload \<Rightarrow> client_order_id option \<Rightarrow> inventory_entry \<times> bool" where
  "upgraded_entry existing final owner =
     (let owned = existing\<lparr>ie_owner := or_else (ie_owner existing) owner\<rparr>;
          (up, changed) = upgrade_entry owned (sp_venue_order_id final) (sp_fee_cents final)
      in (up, fills_in (ie_owner existing) owner \<or> changed))"

text \<open>One outcome with the planned entry, if any.\<close>

definition emit_admitted ::
  "order_row \<Rightarrow> market_inventory \<Rightarrow> order_ctx \<Rightarrow> batch_outcome \<Rightarrow> staging
    \<Rightarrow> execution_evidence \<Rightarrow> staged_payload \<Rightarrow> execution_outcome \<times> inventory_entry option" where
  "emit_admitted row mi scratch batch staging e staged =
     (let fid = ev_execution_id e; foreign = is_row_foreign row mi;
          before = bt_get (applied_fills (row_ctx row)) fid;
          after = bt_get (applied_fills scratch) fid;
          od = admitted_disposition batch before after;
          owner = owner_for od (client_order_id_of (row_ctx row)) foreign (after \<noteq> None);
          final = final_staged staging fid staged
      in case inventory_get mi fid of
           None \<Rightarrow>
             (let prov = ingest_provenance foreign od (before \<noteq> None);
                  entry = ingested_entry e final owner prov
              in (outcome_with e od (ID_Ingested prov) (Some entry) None, Some entry))
         | Some existing \<Rightarrow>
             (let (entry, upgraded) = upgraded_entry existing final owner
              in if upgraded then (outcome_with e od ID_Upgraded (Some entry) None, Some entry)
                 else (outcome_with e od ID_Duplicate (Some entry) None, None)))"

definition publish_foreign ::
  "staging \<Rightarrow> fill_id \<Rightarrow> inventory_disposition \<Rightarrow> inventory_entry option \<Rightarrow> inventory_entry option"
  where
  "publish_foreign staging fid idisp entry =
     (if idisp = ID_Ingested IP_RowForeign then
        (case (entry, bt_get staging fid) of
           (Some ent, Some sp) \<Rightarrow>
             Some (ent\<lparr>ie_venue_order_id := sp_venue_order_id sp, ie_fee_cents := sp_fee_cents sp,
                       ie_claimed_client_order_id := sp_claimed_client_order_id sp\<rparr>)
         | _ \<Rightarrow> entry)
      else entry)"

fun writes_entry :: "inventory_disposition \<Rightarrow> bool" where
  "writes_entry (ID_Ingested _) = True"
| "writes_entry ID_Upgraded = True"
| "writes_entry _ = False"

fun emit_item ::
  "order_row \<Rightarrow> market_inventory \<Rightarrow> order_ctx \<Rightarrow> batch_outcome \<Rightarrow> staging \<Rightarrow> pre_item
    \<Rightarrow> execution_outcome \<times> inventory_entry option" where
  "emit_item row mi scratch batch staging (e, PC_IgnoredZero) = (zero_outcome e, None)"
| "emit_item row mi scratch batch staging (e, PC_Refused od idisp entry conflict) =
     (let entry1 = publish_foreign staging (ev_execution_id e) idisp entry
      in (outcome_with e od idisp entry1 conflict, if writes_entry idisp then entry1 else None))"
| "emit_item row mi scratch batch staging (e, PC_Admitted staged) =
     emit_admitted row mi scratch batch staging e staged"

text \<open>
  The planned writes in batch order. The conflicts are inserted during adjudication and again at
  emission, both times in batch order, so the map is the same.
\<close>

fun plan_entries ::
  "(execution_outcome \<times> inventory_entry option) list \<Rightarrow> (fill_id, inventory_entry) btree
    \<Rightarrow> (fill_id, inventory_entry) btree" where
  "plan_entries [] m = m"
| "plan_entries ((out, entry) # items) m =
     plan_entries items (put_planned (ev_execution_id (eo_evidence out)) entry m)"

fun plan_conflicts ::
  "pre_item list \<Rightarrow> (fill_id, conflict_fact) btree \<Rightarrow> (fill_id, conflict_fact) btree" where
  "plan_conflicts [] m = m"
| "plan_conflicts ((e, PC_Refused od idisp entry (Some f)) # pre) m =
     plan_conflicts pre (bt_insert (cf_execution_id f) f m)"
| "plan_conflicts (_ # pre) m = plan_conflicts pre m"


section \<open>The batch\<close>

definition batch_ledger_error ::
  "market_inventory \<Rightarrow> execution_evidence list \<Rightarrow> prepare_error option" where
  "batch_ledger_error mi evidences =
     (case evidences of
        [] \<Rightarrow> None
      | first # rest \<Rightarrow>
          if list_ex (\<lambda>e. evidence_ledger e \<noteq> evidence_ledger first) rest
          then Some PE_MixedLedgerBatch
          else if evidence_ledger first \<noteq> mi_ledger mi
          then Some (PE_ForeignLedger (mi_ledger mi) (evidence_ledger first))
          else None)"

text \<open>The transaction from the adjudicated batch and the result of the core call.\<close>

definition assemble_batch ::
  "order_row \<Rightarrow> market_inventory \<Rightarrow> order_event \<Rightarrow> staging \<Rightarrow> pre_item list
    \<Rightarrow> (order_ctx \<times> transition_outcome) option \<Rightarrow> execution_transaction" where
  "assemble_batch row mi ev staging pre core =
     (let scratch = (case core of Some (c, _) \<Rightarrow> c | None \<Rightarrow> row_ctx row);
          st_after = (case core of Some (_, t) \<Rightarrow> state_after_transition t (row_state row)
                      | None \<Rightarrow> row_state row);
          batch = (case core of Some (_, t) \<Rightarrow> outcome_from_transition t | None \<Rightarrow> BO_Accept);
          items = map (emit_item row mi scratch batch staging) pre;
          outs = map fst items;
          effects = (case core of Some (_, t) \<Rightarrow> snd (split_effects (outcome_effects t)) | None \<Rightarrow> []);
          order_part = (case core of
              Some (_, t) \<Rightarrow>
                if row_changed row t st_after scratch
                then Some (order_record_of row ev t st_after scratch) else None
            | None \<Rightarrow> None);
          advance = (order_part \<noteq> None)
      in \<lparr>xt_outcomes = outs,
          xt_journal =
            (if advance \<or> list_ex (\<lambda>out. durable_disposition (eo_inventory out)) outs
             then Some (J_ExecutionTxn
                    (ExecutionTxnRecord (mi_ledger mi) (mi_generation mi) outs order_part))
             else None),
          xt_effects = effects, xt_prepared_inventory_ledger = mi_ledger mi,
          xt_expected_generation = mi_generation mi,
          xt_prepared_order_ledger = Some (row_ledger row),
          xt_expected_cursor = Some (row_cursor row), xt_expected_state = Some (row_state row),
          xt_expected_ctx = Some (row_ctx row),
          xt_order_state_after = (if advance then Some st_after else None),
          xt_order_ctx_after = (if advance then Some scratch else None),
          xt_advance_cursor = advance,
          xt_next_seq = (if advance then next_seq (oc_seq (row_cursor row))
                         else oc_seq (row_cursor row)),
          xt_planned_entries = plan_entries items [],
          xt_planned_conflicts = plan_conflicts pre (plan_conflicts pre [])\<rparr>)"

definition prepare_execution_batch ::
  "order_row \<Rightarrow> market_inventory \<Rightarrow> order_event \<Rightarrow> execution_evidence list
    \<Rightarrow> prepare_error failure + execution_transaction" where
  "prepare_execution_batch row mi ev evidences =
     (case check_evidence_matches_fills (flatten_event_fills ev) evidences of
        Some err \<Rightarrow> Inl (Err err)
      | None \<Rightarrow>
          (case batch_ledger_error mi evidences of
             Some err \<Rightarrow> Inl (Err err)
           | None \<Rightarrow>
               (let (staging, pre) = adjudicate_batch row mi evidences
                in case core_call row mi ev evidences staging pre of
                     Inl f \<Rightarrow> Inl f
                   | Inr core \<Rightarrow> Inr (assemble_batch row mi ev staging pre core))))"

definition evidence_event :: "execution_evidence \<Rightarrow> order_event" where
  "evidence_event e =
     Ev_Fill (ev_execution_id e) (ev_qty e) (ev_price_cents e) (ev_ts_ns e) (ev_venue_order_id e)
       (ev_fee_cents e)"

definition prepare_execution ::
  "order_row option \<Rightarrow> market_inventory \<Rightarrow> execution_evidence
    \<Rightarrow> prepare_error failure + execution_transaction" where
  "prepare_execution row mi e =
     (case row of
        None \<Rightarrow> prepare_execution_norow mi e
      | Some r \<Rightarrow> prepare_execution_batch r mi (evidence_event e) [e])"


section \<open>Apply\<close>

fun write_entries ::
  "(fill_id, inventory_entry) btree \<Rightarrow> market_inventory \<Rightarrow> market_inventory" where
  "write_entries [] mi = mi"
| "write_entries ((fid, entry) # m) mi =
     write_entries m
       (mi\<lparr>mi_entries := bt_insert fid entry (mi_entries mi),
           mi_generation := sat_add_u64 (mi_generation mi) 1\<rparr>)"

fun write_conflicts ::
  "(fill_id, conflict_fact) btree \<Rightarrow> market_inventory \<Rightarrow> market_inventory" where
  "write_conflicts [] mi = mi"
| "write_conflicts ((fid, f) # m) mi =
     write_conflicts m
       (mi\<lparr>mi_conflicts := bt_insert fid f (mi_conflicts mi),
           mi_generation := sat_add_u64 (mi_generation mi) 1\<rparr>)"

text \<open>The row a transaction writes; \<open>Panic\<close> is an \<open>unwrap\<close> of a field that is \<open>None\<close>.\<close>

definition apply_to_target ::
  "execution_transaction \<Rightarrow> order_row \<Rightarrow> apply_mismatch failure + order_row" where
  "apply_to_target x target =
     (case (xt_prepared_order_ledger x, xt_expected_cursor x, xt_expected_state x, xt_expected_ctx x) of
        (Some led, Some cur, Some st, Some c) \<Rightarrow>
          if row_ledger target \<noteq> led then Inl (Err AM_LedgerIdentity)
          else if oc_seq (row_cursor target) \<noteq> oc_seq cur then
            Inl (Err (AM_OrderCursor (oc_seq cur) (oc_seq (row_cursor target))))
          else if row_state target \<noteq> st \<or> row_ctx target \<noteq> c then Inl (Err AM_OrderStateOrCtx)
          else if xt_advance_cursor x then
            (case (xt_order_state_after x, xt_order_ctx_after x) of
               (Some st1, Some c1) \<Rightarrow>
                 Inr (target\<lparr>row_state := st1, row_ctx := c1,
                             row_cursor := (row_cursor target)\<lparr>oc_seq := xt_next_seq x\<rparr>\<rparr>)
             | _ \<Rightarrow> Inl Panic)
          else Inr target
      | _ \<Rightarrow> Inl Panic)"

definition execution_transaction_apply ::
  "execution_transaction \<Rightarrow> order_row option \<Rightarrow> market_inventory
    \<Rightarrow> apply_mismatch failure + (execution_outcome list \<times> order_row option \<times> market_inventory)"
  where
  "execution_transaction_apply x order mi =
     (let expect = (xt_prepared_order_ledger x \<noteq> None); found = (order \<noteq> None)
      in if expect \<noteq> found then Inl (Err (AM_OrderTarget expect found))
         else if mi_ledger mi \<noteq> xt_prepared_inventory_ledger x then Inl (Err AM_LedgerIdentity)
         else if mi_generation mi \<noteq> xt_expected_generation x then
           Inl (Err (AM_InventoryGeneration (xt_expected_generation x) (mi_generation mi)))
         else
           (let written = write_conflicts (xt_planned_conflicts x)
                            (write_entries (xt_planned_entries x) mi)
            in case order of
                 None \<Rightarrow> Inr (xt_outcomes x, None, written)
               | Some target \<Rightarrow>
                   (case apply_to_target x target of
                      Inl f \<Rightarrow> Inl f
                    | Inr row1 \<Rightarrow> Inr (xt_outcomes x, Some row1, written))))"

end
