(* ===== verification/Batch_Plan.thy ===== *)
theory Batch_Plan
  imports Execution_Prepare Monotone
begin

text \<open>
  What a prepared transaction plans against what its outcomes record: the planned entries and
  conflicts are the ones of the outcomes, in order, and no id is ingested twice. This is what makes
  the rebuild from the journal agree with the applied writes.
\<close>

section \<open>Ordered maps up to lookup\<close>

lemma bt_ext:
  "bt_ok m \<Longrightarrow> bt_ok n \<Longrightarrow> (\<And>k. bt_get m k = bt_get n k) \<Longrightarrow> m = n"
proof (induction m arbitrary: n)
  case Nil
  show ?case
  proof (cases n)
    case (Cons p n')
    with Nil.prems(3) [of "fst p"] show ?thesis by (cases p) simp
  qed simp
next
  case (Cons p m)
  obtain a b where p: "p = (a, b)" by (cases p)
  have "bt_get n a = Some b" using Cons.prems(3) [of a] p by simp
  then obtain c d n' where n: "n = (c, d) # n'" by (cases n) auto
  have low: "\<forall>x \<in> fst ` set m. a < x" "\<forall>x \<in> fst ` set n'. c < x" "bt_ok m" "bt_ok n'"
    using Cons.prems(1,2) p n by (auto simp: bt_ok_Cons)
  have "a = c"
  proof (rule ccontr)
    assume ne: "a \<noteq> c"
    have "a \<in> fst ` set n'" using \<open>bt_get n a = Some b\<close> n ne bt_get_Some_in by force
    moreover have "bt_get m c = Some d" using Cons.prems(3) [of c] p n ne by simp
    then have "c \<in> fst ` set m" using bt_get_Some_in by force
    ultimately show False using low(1,2) by (meson order.asym)
  qed
  moreover from this have "b = d" using \<open>bt_get n a = Some b\<close> n by simp
  moreover have "m = n'"
  proof (rule Cons.IH [OF low(3,4)])
    fix k
    show "bt_get m k = bt_get n' k"
    proof (cases "k = a")
      case True
      then have "k \<notin> fst ` set m" "k \<notin> fst ` set n'" using low(1,2) \<open>a = c\<close> by auto
      then show ?thesis by (simp add: bt_get_None [symmetric])
    next
      case False
      with Cons.prems(3) [of k] p n \<open>a = c\<close> show ?thesis by simp
    qed
  qed
  ultimately show ?case using p n by simp
qed

lemma bt_get_iff: "bt_get m k \<noteq> None \<longleftrightarrow> k \<in> fst ` set m"
  by (simp add: bt_get_None)

lemma bt_length: "bt_ok m \<Longrightarrow> length m = card (dom (bt_get m))"
proof -
  assume "bt_ok m"
  then have "distinct (map fst m)"
    by (simp add: bt_ok_def strict_sorted_iff)
  moreover have "dom (bt_get m) = set (map fst m)" unfolding dom_def bt_get_iff by simp
  ultimately show ?thesis by (metis distinct_card length_map)
qed

lemma dom_bt_Nil [simp]: "dom (bt_get []) = {}"
  by (simp add: dom_def)

lemma bt_empty: "bt_ok m \<Longrightarrow> dom (bt_get m) = {} \<Longrightarrow> m = []"
  using bt_length [of m] by simp

text \<open>Writing a whole map, in key order, into another one.\<close>

fun bt_overlay :: "('k::linorder, 'v) btree \<Rightarrow> ('k, 'v) btree \<Rightarrow> ('k, 'v) btree" where
  "bt_overlay [] m = m"
| "bt_overlay ((k, v) # n) m = bt_overlay n (bt_insert k v m)"

lemma bt_ok_overlay: "bt_ok m \<Longrightarrow> bt_ok (bt_overlay n m)"
  by (induction n m rule: bt_overlay.induct) (auto simp: bt_ok_insert)

lemma bt_get_overlay:
  "bt_ok n \<Longrightarrow> bt_get (bt_overlay n m) k = (case bt_get n k of Some v \<Rightarrow> Some v | None \<Rightarrow> bt_get m k)"
proof (induction n m rule: bt_overlay.induct)
  case (2 a b n m)
  then have ok: "bt_ok n" and low: "\<forall>x \<in> fst ` set n. a < x" by (auto simp: bt_ok_Cons)
  have "bt_get n a = None" using low by (auto simp: bt_get_None)
  then show ?case using "2.IH" [OF ok] by (auto simp: bt_get_insert split: option.splits)
qed simp

lemma overlay_insert:
  "bt_ok n \<Longrightarrow> bt_ok m \<Longrightarrow> bt_overlay (bt_insert k v n) m = bt_insert k v (bt_overlay n m)"
  by (rule bt_ext) (auto simp: bt_ok_overlay bt_ok_insert bt_get_overlay bt_get_insert)

lemma dom_overlay: "bt_ok n \<Longrightarrow> dom (bt_get (bt_overlay n m)) = dom (bt_get n) \<union> dom (bt_get m)"
  by (auto simp: bt_get_overlay dom_def split: option.splits)


section \<open>The writes recorded in outcomes\<close>

definition outcome_id :: "execution_outcome \<Rightarrow> fill_id" where
  "outcome_id out = ev_execution_id (eo_evidence out)"

definition outcome_entry :: "execution_outcome \<Rightarrow> inventory_entry option" where
  "outcome_entry out = (if writes_entry (eo_inventory out) then eo_entry_after out else None)"

fun entries_of :: "execution_outcome list \<Rightarrow> (fill_id, inventory_entry) btree
    \<Rightarrow> (fill_id, inventory_entry) btree" where
  "entries_of [] m = m"
| "entries_of (out # outs) m = entries_of outs (put_planned (outcome_id out) (outcome_entry out) m)"

fun conflicts_of :: "execution_outcome list \<Rightarrow> (fill_id, conflict_fact) btree
    \<Rightarrow> (fill_id, conflict_fact) btree" where
  "conflicts_of [] m = m"
| "conflicts_of (out # outs) m =
     conflicts_of outs
       (case eo_conflict out of None \<Rightarrow> m | Some f \<Rightarrow> bt_insert (cf_execution_id f) f m)"

fun is_ingest :: "inventory_disposition \<Rightarrow> bool" where
  "is_ingest (ID_Ingested _) = True"
| "is_ingest _ = False"

definition ingest_ids :: "execution_outcome list \<Rightarrow> fill_id list" where
  "ingest_ids outs = map outcome_id (filter (\<lambda>out. is_ingest (eo_inventory out)) outs)"

definition entry_ids :: "execution_outcome list \<Rightarrow> fill_id set" where
  "entry_ids outs = {outcome_id out | out. out \<in> set outs \<and> outcome_entry out \<noteq> None}"

definition conflict_ids :: "execution_outcome list \<Rightarrow> fill_id set" where
  "conflict_ids outs = {cf_execution_id f | f. Some f \<in> eo_conflict ` set outs}"

lemma ingest_ids_simps [simp]:
  "ingest_ids [] = []"
  "ingest_ids (out # outs) =
    (if is_ingest (eo_inventory out) then outcome_id out # ingest_ids outs else ingest_ids outs)"
  by (simp_all add: ingest_ids_def)

lemma entry_ids_simps [simp]:
  "entry_ids [] = {}"
  "entry_ids (out # outs) =
    (if outcome_entry out = None then entry_ids outs else insert (outcome_id out) (entry_ids outs))"
  by (auto simp: entry_ids_def)

lemma conflict_ids_simps [simp]:
  "conflict_ids [] = {}"
  "conflict_ids (out # outs) =
    (case eo_conflict out of None \<Rightarrow> conflict_ids outs
      | Some f \<Rightarrow> insert (cf_execution_id f) (conflict_ids outs))"
  by (auto simp: conflict_ids_def split: option.split)

lemma bt_ok_put: "bt_ok m \<Longrightarrow> bt_ok (put_planned k v m)"
  by (simp add: put_planned_def bt_ok_insert split: option.split)

lemma bt_get_put:
  "bt_get (put_planned k v m) k' = (if k = k' \<and> v \<noteq> None then v else bt_get m k')"
  by (simp add: put_planned_def bt_get_insert split: option.split)

lemma put_overlay:
  "bt_ok n \<Longrightarrow> bt_ok m \<Longrightarrow> bt_overlay (put_planned k v n) m = put_planned k v (bt_overlay n m)"
  by (simp add: put_planned_def overlay_insert split: option.split)

lemma entries_of_ok: "bt_ok m \<Longrightarrow> bt_ok (entries_of outs m)"
  by (induction outs m rule: entries_of.induct) (simp_all add: bt_ok_put)

lemma conflicts_of_ok: "bt_ok m \<Longrightarrow> bt_ok (conflicts_of outs m)"
  by (induction outs m rule: conflicts_of.induct) (simp_all add: bt_ok_insert split: option.split)

lemma entries_of_overlay:
  "bt_ok n \<Longrightarrow> bt_ok m \<Longrightarrow> entries_of outs (bt_overlay n m) = bt_overlay (entries_of outs n) m"
proof (induction outs arbitrary: n)
  case (Cons out outs)
  show ?case
    using Cons.IH [OF bt_ok_put [OF Cons.prems(1)] Cons.prems(2)] Cons.prems by (simp add: put_overlay)
qed simp

lemma conflicts_of_overlay:
  "bt_ok n \<Longrightarrow> bt_ok m \<Longrightarrow> conflicts_of outs (bt_overlay n m) = bt_overlay (conflicts_of outs n) m"
proof (induction outs arbitrary: n)
  case (Cons out outs)
  show ?case
    using Cons.IH [OF bt_ok_insert [OF Cons.prems(1)] Cons.prems(2)] Cons.IH [OF Cons.prems]
      Cons.prems by (simp add: overlay_insert split: option.split)
qed simp

lemma dom_entries_of: "dom (bt_get (entries_of outs m)) = entry_ids outs \<union> dom (bt_get m)"
  by (induction outs m rule: entries_of.induct)
    (auto simp: put_planned_def bt_get_insert dom_def split: option.splits)

lemma dom_conflicts_of: "dom (bt_get (conflicts_of outs m)) = conflict_ids outs \<union> dom (bt_get m)"
  by (induction outs m rule: conflicts_of.induct)
    (auto simp: bt_get_insert dom_def split: option.splits)

lemma entries_of_get:
  "bt_get (entries_of outs m) k = Some e \<Longrightarrow>
    (\<exists>out \<in> set outs. outcome_id out = k \<and> outcome_entry out = Some e)
    \<or> k \<notin> entry_ids outs \<and> bt_get m k = Some e"
proof (induction outs arbitrary: m)
  case (Cons out outs)
  from Cons.IH [of "put_planned (outcome_id out) (outcome_entry out) m"] Cons.prems
  show ?case by (auto simp: bt_get_put split: if_splits)
qed simp


section \<open>Rebuilding one transaction\<close>

definition locals_ok :: "rebuild_locals \<Rightarrow> bool" where
  "locals_ok l =
     (bt_ok (rl_entries l) \<and> bt_ok (rl_conflicts l) \<and> bt_ok (rl_ingested l) \<and> bt_ok (rl_mutated l)
      \<and> bt_ok (rl_conflict_ids l))"

definition ids_of :: "fill_id bset \<Rightarrow> fill_id set" where
  "ids_of s = dom (bt_get s)"

lemma bs_simps [simp]:
  "bs_member k s \<longleftrightarrow> k \<in> ids_of s" "ids_of (bs_insert k s) = insert k (ids_of s)" "ids_of [] = {}"
  "bt_ok s \<Longrightarrow> bt_ok (bs_insert k s)"
  by (auto simp: bs_member_def ids_of_def bs_insert_def bt_get_insert dom_def bt_ok_insert)

lemma rebuild_outcome_step:
  assumes "locals_ok l"
    and fresh: "is_ingest (eo_inventory out) \<Longrightarrow> outcome_id out \<notin> ids_of (rl_ingested l)"
  shows "\<exists>l1. rebuild_outcome out l = Inr l1 \<and> locals_ok l1
    \<and> rl_entries l1 = put_planned (outcome_id out) (outcome_entry out) (rl_entries l)
    \<and> rl_conflicts l1 = (case eo_conflict out of None \<Rightarrow> rl_conflicts l
        | Some f \<Rightarrow> bt_insert (cf_execution_id f) f (rl_conflicts l))
    \<and> ids_of (rl_mutated l1) = entry_ids [out] \<union> ids_of (rl_mutated l)
    \<and> ids_of (rl_conflict_ids l1) = conflict_ids [out] \<union> ids_of (rl_conflict_ids l)
    \<and> ids_of (rl_ingested l1) \<subseteq> set (ingest_ids [out]) \<inter> entry_ids [out] \<union> ids_of (rl_ingested l)"
  using assms
  by (cases "eo_inventory out"; cases "eo_entry_after out"; cases "eo_conflict out")
    (simp_all add: rebuild_outcome_def note_conflict_def put_entry_def locals_ok_def bt_ok_insert
      outcome_entry_def outcome_id_def put_planned_def Let_def)

lemma rebuild_outcomes_all:
  assumes "locals_ok l" and "distinct (ingest_ids outs)"
    and "set (ingest_ids outs) \<inter> ids_of (rl_ingested l) = {}"
  shows "\<exists>l1. rebuild_outcomes outs l = Inr l1 \<and> locals_ok l1
    \<and> rl_entries l1 = entries_of outs (rl_entries l)
    \<and> rl_conflicts l1 = conflicts_of outs (rl_conflicts l)
    \<and> ids_of (rl_mutated l1) = entry_ids outs \<union> ids_of (rl_mutated l)
    \<and> ids_of (rl_conflict_ids l1) = conflict_ids outs \<union> ids_of (rl_conflict_ids l)
    \<and> ids_of (rl_ingested l1) \<subseteq> entry_ids outs \<union> ids_of (rl_ingested l)"
  using assms
proof (induction outs arbitrary: l)
  case (Cons out outs)
  have "is_ingest (eo_inventory out) \<Longrightarrow> outcome_id out \<notin> ids_of (rl_ingested l)"
    using Cons.prems(3) by (auto split: if_splits)
  from rebuild_outcome_step [OF Cons.prems(1) this] obtain l1 where
    l1: "rebuild_outcome out l = Inr l1" "locals_ok l1"
      "rl_entries l1 = put_planned (outcome_id out) (outcome_entry out) (rl_entries l)"
      "rl_conflicts l1 = (case eo_conflict out of None \<Rightarrow> rl_conflicts l
          | Some f \<Rightarrow> bt_insert (cf_execution_id f) f (rl_conflicts l))"
      "ids_of (rl_mutated l1) = entry_ids [out] \<union> ids_of (rl_mutated l)"
      "ids_of (rl_conflict_ids l1) = conflict_ids [out] \<union> ids_of (rl_conflict_ids l)"
      "ids_of (rl_ingested l1) \<subseteq> set (ingest_ids [out]) \<inter> entry_ids [out] \<union> ids_of (rl_ingested l)"
    by blast
  have "set (ingest_ids outs) \<inter> ids_of (rl_ingested l1) = {}" "distinct (ingest_ids outs)"
    using l1(7) Cons.prems(2,3) by (auto split: if_splits)
  from Cons.IH [OF l1(2) this(2,1)] obtain l2 where
    l2: "rebuild_outcomes outs l1 = Inr l2" "locals_ok l2"
      "rl_entries l2 = entries_of outs (rl_entries l1)"
      "rl_conflicts l2 = conflicts_of outs (rl_conflicts l1)"
      "ids_of (rl_mutated l2) = entry_ids outs \<union> ids_of (rl_mutated l1)"
      "ids_of (rl_conflict_ids l2) = conflict_ids outs \<union> ids_of (rl_conflict_ids l1)"
      "ids_of (rl_ingested l2) \<subseteq> entry_ids outs \<union> ids_of (rl_ingested l1)"
    by blast
  have "ids_of (rl_ingested l2) \<subseteq> entry_ids (out # outs) \<union> ids_of (rl_ingested l)"
    using l2(7) l1(7) by (auto split: if_splits)
  with l1 l2 show ?case by (intro exI [of _ l2]) (auto split: option.split)
qed simp


section \<open>Entries only gain metadata\<close>

text \<open>
  An entry keeps its side, quantity, price, first sighting, source and provenance; owner, venue id,
  fee and claimed id are filled in once.
\<close>

definition entry_extends :: "inventory_entry \<Rightarrow> inventory_entry \<Rightarrow> bool" where
  "entry_extends p e =
     (ie_side e = ie_side p \<and> ie_qty e = ie_qty p \<and> ie_price_cents e = ie_price_cents p
      \<and> ie_first_seen_ts_ns e = ie_first_seen_ts_ns p \<and> ie_source e = ie_source p
      \<and> ie_provenance e = ie_provenance p
      \<and> keeps_some (ie_owner p) (ie_owner e)
      \<and> keeps_some (ie_venue_order_id p) (ie_venue_order_id e)
      \<and> keeps_some (ie_fee_cents p) (ie_fee_cents e)
      \<and> keeps_some (ie_claimed_client_order_id p) (ie_claimed_client_order_id e))"

lemma entry_extends_refl [simp]: "entry_extends p p"
  by (simp add: entry_extends_def)

lemma entry_extends_trans: "entry_extends p e \<Longrightarrow> entry_extends e f \<Longrightarrow> entry_extends p f"
  by (auto simp: entry_extends_def intro: keeps_some_trans)

lemma keeps_or_else [simp]: "keeps_some a (or_else a b)"
  by (simp add: keeps_some_def or_else_def split: option.split)

lemma upgrade_extends: "upgrade_entry p v f = (e, b) \<Longrightarrow> entry_extends p e"
  by (auto simp: upgrade_entry_def entry_extends_def)

lemma upgraded_extends: "upgraded_entry p s owner = (e, b) \<Longrightarrow> entry_extends p e"
  by (auto simp: upgraded_entry_def upgrade_entry_def entry_extends_def Let_def)

text \<open>An ingested entry is new, an upgraded one extends the known entry.\<close>

definition write_ok :: "market_inventory \<Rightarrow> fill_id \<Rightarrow> bool \<Rightarrow> inventory_entry \<Rightarrow> bool" where
  "write_ok mi fid ingest e =
     (if ingest then inventory_get mi fid = None
      else \<exists>p. inventory_get mi fid = Some p \<and> entry_extends p e)"


section \<open>Adjudication claims each id once\<close>

fun claims_id :: "pre_core \<Rightarrow> bool" where
  "claims_id (PC_Admitted _) = True"
| "claims_id (PC_Refused _ (ID_Ingested _) _ _) = True"
| "claims_id _ = False"

fun refused_ingest :: "pre_core \<Rightarrow> bool" where
  "refused_ingest (PC_Refused _ (ID_Ingested _) _ _) = True"
| "refused_ingest _ = False"

fun pc_conflict :: "pre_core \<Rightarrow> conflict_fact option" where
  "pc_conflict (PC_Refused _ _ _ f) = f"
| "pc_conflict _ = None"

fun refused_conflict :: "pre_core \<Rightarrow> bool" where
  "refused_conflict (PC_Refused _ (ID_Conflict _) _ _) = True"
| "refused_conflict _ = False"

fun refused_upgrade :: "pre_core \<Rightarrow> inventory_entry option" where
  "refused_upgrade (PC_Refused _ ID_Upgraded entry _) = entry"
| "refused_upgrade _ = None"

text \<open>
  An item ingests only an absent id, carries a conflict fact only as a conflict, and upgrades an
  entry only by metadata.
\<close>

definition judged_ok :: "market_inventory \<Rightarrow> execution_evidence \<Rightarrow> pre_core \<Rightarrow> bool" where
  "judged_ok mi e pc =
     ((refused_ingest pc \<longrightarrow> inventory_get mi (ev_execution_id e) = None)
      \<and> (pc_conflict pc \<noteq> None \<longrightarrow> refused_conflict pc)
      \<and> (\<forall>up. refused_upgrade pc = Some up \<longrightarrow> write_ok mi (ev_execution_id e) False up))"

definition new_ids :: "pre_item list \<Rightarrow> fill_id list" where
  "new_ids pre = map (\<lambda>(e, _). ev_execution_id e) (filter (\<lambda>(_, pc). claims_id pc) pre)"

definition well_judged :: "market_inventory \<Rightarrow> pre_item list \<Rightarrow> bool" where
  "well_judged mi pre = list_all (\<lambda>(e, pc). judged_ok mi e pc) pre"

lemma new_ids_simps [simp]:
  "new_ids [] = []"
  "new_ids ((e, pc) # pre) = (if claims_id pc then ev_execution_id e # new_ids pre else new_ids pre)"
  by (simp_all add: new_ids_def)

lemma well_judged_simps [simp]:
  "well_judged mi []"
  "well_judged mi ((e, pc) # pre) \<longleftrightarrow> judged_ok mi e pc \<and> well_judged mi pre"
  by (simp_all add: well_judged_def)

text \<open>
  What the batch loop relies on in an adjudication: it claims an id only while the id is not staged,
  stages what it claims, forgets nothing, ingests only ids the inventory does not hold, and records a
  conflict as one.
\<close>

locale adjudication =
  fixes judge :: "staging \<Rightarrow> execution_evidence \<Rightarrow> staging \<times> pre_core"
    and mi :: market_inventory
  assumes keeps: "judge s e = (s1, pc) \<Longrightarrow> dom (bt_get s) \<subseteq> dom (bt_get s1)"
    and claims: "judge s e = (s1, pc) \<Longrightarrow> claims_id pc \<Longrightarrow>
      ev_execution_id e \<notin> dom (bt_get s) \<and> ev_execution_id e \<in> dom (bt_get s1)"
    and judged: "judge s e = (s1, pc) \<Longrightarrow> judged_ok mi e pc"
begin

lemma batch:
  "adjudicate_all judge s es = (s1, pre) \<Longrightarrow>
    distinct (new_ids pre) \<and> set (new_ids pre) \<inter> dom (bt_get s) = {} \<and> well_judged mi pre
    \<and> map fst pre = es"
proof (induction es arbitrary: s s1 pre)
  case (Cons e es)
  obtain s2 pc where j: "judge s e = (s2, pc)" by fastforce
  obtain s3 rest where r: "adjudicate_all judge s2 es = (s3, rest)" by fastforce
  from Cons.prems j r have pre: "pre = (e, pc) # rest" by simp
  show ?case
    using Cons.IH [OF r] keeps [OF j] claims [OF j] judged [OF j] pre by auto
qed simp

end

lemma foreign_claims:
  "adjudicate_foreign row mi s e = (s1, pc) \<Longrightarrow> claims_id pc \<Longrightarrow>
    ev_execution_id e \<notin> dom (bt_get s) \<and> ev_execution_id e \<in> dom (bt_get s1)"
  by (auto simp: adjudicate_foreign_def Let_def bt_get_insert upgrade_entry_def domIff
      split: if_splits option.splits prod.splits)

lemma row_claims:
  "adjudicate_row row mi s e = (s1, pc) \<Longrightarrow> claims_id pc \<Longrightarrow>
    ev_execution_id e \<notin> dom (bt_get s) \<and> ev_execution_id e \<in> dom (bt_get s1)"
  by (auto simp: adjudicate_row_def Let_def bt_get_insert domIff
      split: if_splits option.splits prod.splits)

lemma adjudication_keeps:
  "adjudicate_foreign row mi s e = (s1, pc) \<Longrightarrow> dom (bt_get s) \<subseteq> dom (bt_get s1)"
  "adjudicate_row row mi s e = (s1, pc) \<Longrightarrow> dom (bt_get s) \<subseteq> dom (bt_get s1)"
  by (auto simp: adjudicate_foreign_def adjudicate_row_def Let_def bt_get_insert upgrade_entry_def
      dom_def split: if_splits option.splits prod.splits)

lemma adjudication_judged:
  "adjudicate_foreign row mi s e = (s1, pc) \<Longrightarrow> judged_ok mi e pc"
  "adjudicate_row row mi s e = (s1, pc) \<Longrightarrow> judged_ok mi e pc"
  by (auto simp: adjudicate_foreign_def adjudicate_row_def judged_ok_def write_ok_def Let_def
      split: if_splits option.splits prod.splits dest: upgrade_extends)

interpretation foreign: adjudication "adjudicate_foreign row mi" mi for row mi
  by unfold_locales (auto dest: foreign_claims adjudication_keeps(1) adjudication_judged(1))

interpretation own: adjudication "adjudicate_row row mi" mi for row mi
  by unfold_locales (auto dest: row_claims adjudication_keeps(2) adjudication_judged(2))

lemma side_refused_props: "judged_ok mi e (side_refused row mi s e)"
  by (auto simp: side_refused_def judged_ok_def Let_def split: option.splits)

lemma side_check_props:
  "side_check row mi s pre = (s1, pre1) \<Longrightarrow> distinct (new_ids pre) \<Longrightarrow> well_judged mi pre \<Longrightarrow>
    distinct (new_ids pre1) \<and> set (new_ids pre1) \<subseteq> set (new_ids pre) \<and> well_judged mi pre1
    \<and> map fst pre1 = map fst pre"
proof (induction row mi s pre arbitrary: s1 pre1 rule: side_check.induct)
  case (2 row mi s e staged pre)
  then show ?case
    by (auto simp: Let_def side_refused_props split: if_splits prod.splits)
qed (auto split: prod.splits if_splits)

lemma adjudicate_batch_props:
  assumes "adjudicate_batch row mi evs = (staging, pre)"
  shows "distinct (new_ids pre)" and "well_judged mi pre" and "map fst pre = evs"
  using assms foreign.batch [of row mi "[]" evs] own.batch [of row mi "[]" evs]
  by (auto simp: adjudicate_batch_def split: if_splits prod.splits dest!: side_check_props)


section \<open>Emission records what is planned\<close>

lemma emit_item_props:
  assumes "emit_item row mi scratch batch staging (e, pc) = (out, entry)"
  shows "eo_evidence out = e" and "entry = outcome_entry out" and "eo_conflict out = pc_conflict pc"
    and "is_ingest (eo_inventory out) \<Longrightarrow> claims_id pc \<and>
      (refused_ingest pc \<or> inventory_get mi (ev_execution_id e) = None)"
proof -
  have "eo_evidence out = e \<and> entry = outcome_entry out \<and> eo_conflict out = pc_conflict pc
    \<and> (is_ingest (eo_inventory out) \<longrightarrow> claims_id pc \<and>
      (refused_ingest pc \<or> inventory_get mi (ev_execution_id e) = None))"
  proof (cases pc)
    case (PC_Refused od idisp en f)
    then show ?thesis using assms
      by (cases idisp) (auto simp: outcome_with_def outcome_entry_def Let_def)
  qed (use assms in \<open>auto simp: emit_admitted_def zero_outcome_def outcome_with_def outcome_entry_def
      Let_def split: option.splits prod.splits if_splits\<close>)
  then show "eo_evidence out = e" and "entry = outcome_entry out" and "eo_conflict out = pc_conflict pc"
    and "is_ingest (eo_inventory out) \<Longrightarrow> claims_id pc \<and>
      (refused_ingest pc \<or> inventory_get mi (ev_execution_id e) = None)" by auto
qed

lemma emit_plan:
  fixes row mi scratch batch staging pre
  defines "items \<equiv> map (emit_item row mi scratch batch staging) pre"
  shows "plan_entries items m = entries_of (map fst items) m"
    and "plan_conflicts pre c = conflicts_of (map fst items) c"
  unfolding items_def
proof (induction pre arbitrary: m c)
  case (Cons item pre)
  obtain e pc where item: "item = (e, pc)" by (cases item)
  obtain out entry where em: "emit_item row mi scratch batch staging (e, pc) = (out, entry)"
    by fastforce
  note props = emit_item_props [OF em]
  { case 1 then show ?case using Cons.IH(1) em item props(1,2) by (simp add: outcome_id_def) }
  { case 2
    have "plan_conflicts ((e, pc) # pre) c = plan_conflicts pre
        (case pc_conflict pc of None \<Rightarrow> c | Some f \<Rightarrow> bt_insert (cf_execution_id f) f c)"
      by (cases pc) (auto split: option.splits)
    then show ?case using Cons.IH(2) em item props(3) by simp }
qed simp_all

lemma emit_ingests:
  fixes row mi scratch batch staging pre
  defines "outs \<equiv> map fst (map (emit_item row mi scratch batch staging) pre)"
  assumes "well_judged mi pre"
  shows "set (ingest_ids outs) \<subseteq> set (new_ids pre)"
    and "distinct (new_ids pre) \<Longrightarrow> distinct (ingest_ids outs)"
    and "fid \<in> set (ingest_ids outs) \<Longrightarrow> inventory_get mi fid = None"
proof -
  have "set (ingest_ids outs) \<subseteq> set (new_ids pre)
    \<and> (distinct (new_ids pre) \<longrightarrow> distinct (ingest_ids outs))
    \<and> (\<forall>fid \<in> set (ingest_ids outs). inventory_get mi fid = None)"
    using assms(2) unfolding outs_def
  proof (induction pre)
    case (Cons item pre)
    obtain e pc where item: "item = (e, pc)" by (cases item)
    obtain out entry where em: "emit_item row mi scratch batch staging (e, pc) = (out, entry)"
      by fastforce
    note props = emit_item_props [OF em]
    show ?case using Cons item em props(1,4) by (auto simp: outcome_id_def judged_ok_def)
  qed simp
  then show "set (ingest_ids outs) \<subseteq> set (new_ids pre)"
    and "distinct (new_ids pre) \<Longrightarrow> distinct (ingest_ids outs)"
    and "fid \<in> set (ingest_ids outs) \<Longrightarrow> inventory_get mi fid = None" by auto
qed


lemma emit_durable:
  assumes "well_judged mi pre" and "out \<in> set (map fst (map (emit_item row mi scratch batch staging) pre))"
    and "outcome_entry out \<noteq> None \<or> eo_conflict out \<noteq> None"
  shows "durable_disposition (eo_inventory out)"
proof -
  obtain e pc where in_pre: "(e, pc) \<in> set pre"
    and out: "out = fst (emit_item row mi scratch batch staging (e, pc))" using assms(2) by auto
  obtain entry where em: "emit_item row mi scratch batch staging (e, pc) = (out, entry)"
    using out by (cases "emit_item row mi scratch batch staging (e, pc)") simp
  have ok: "judged_ok mi e pc" using assms(1) in_pre by (auto simp: well_judged_def list_all_iff)
  show ?thesis
  proof (cases "eo_conflict out = None")
    case True
    with assms(3) show ?thesis
      by (cases "eo_inventory out") (auto simp: outcome_entry_def)
  next
    case False
    with ok emit_item_props(3) [OF em] have "refused_conflict pc" by (simp add: judged_ok_def)
    with em show ?thesis
      by (cases pc rule: refused_conflict.cases) (auto simp: outcome_with_def Let_def)
  qed
qed


lemma emit_writes:
  assumes "well_judged mi pre" and "out \<in> set (map fst (map (emit_item row mi scratch batch staging) pre))"
    and "outcome_entry out = Some entry"
  shows "write_ok mi (outcome_id out) (is_ingest (eo_inventory out)) entry"
proof -
  obtain e pc where in_pre: "(e, pc) \<in> set pre"
    and out: "out = fst (emit_item row mi scratch batch staging (e, pc))" using assms(2) by auto
  have ok: "judged_ok mi e pc" using assms(1) in_pre by (auto simp: well_judged_def list_all_iff)
  obtain en where em: "emit_item row mi scratch batch staging (e, pc) = (out, en)"
    using out by (cases "emit_item row mi scratch batch staging (e, pc)") simp
  have id: "outcome_id out = ev_execution_id e"
    using emit_item_props(1) [OF em] by (simp add: outcome_id_def)
  show ?thesis
  proof (cases "is_ingest (eo_inventory out)")
    case True
    with emit_item_props(4) [OF em] ok id show ?thesis by (auto simp: judged_ok_def write_ok_def)
  next
    case False
    with assms(3) have "eo_inventory out = ID_Upgraded"
      by (cases "eo_inventory out") (auto simp: outcome_entry_def)
    with em assms(3) ok id show ?thesis
      by (cases pc)
        (auto simp: emit_admitted_def zero_outcome_def outcome_with_def outcome_entry_def
          publish_foreign_def judged_ok_def write_ok_def Let_def
          split: option.splits prod.splits if_splits dest: upgraded_extends)
  qed
qed


section \<open>Prepared transactions\<close>

text \<open>
  The plan is the outcomes' writes, the durable record carries the same outcomes, there is no record
  only when there is nothing to write, and what is ingested is new.
\<close>

definition recorded :: "market_inventory \<Rightarrow> execution_transaction \<Rightarrow> bool" where
  "recorded mi x =
     (case xt_journal x of
        None \<Rightarrow> entry_ids (xt_outcomes x) = {} \<and> conflict_ids (xt_outcomes x) = {}
      | Some r \<Rightarrow> (\<exists>part. r = J_ExecutionTxn
          (ExecutionTxnRecord (mi_ledger mi) (mi_generation mi) (xt_outcomes x) part)))"

definition planned :: "market_inventory \<Rightarrow> execution_transaction \<Rightarrow> bool" where
  "planned mi x =
     (xt_planned_entries x = entries_of (xt_outcomes x) []
      \<and> xt_planned_conflicts x = conflicts_of (xt_outcomes x) []
      \<and> distinct (ingest_ids (xt_outcomes x))
      \<and> (\<forall>fid \<in> set (ingest_ids (xt_outcomes x)). inventory_get mi fid = None)
      \<and> (\<forall>out \<in> set (xt_outcomes x). \<forall>e. outcome_entry out = Some e \<longrightarrow>
           write_ok mi (outcome_id out) (is_ingest (eo_inventory out)) e)
      \<and> recorded mi x
      \<and> xt_prepared_inventory_ledger x = mi_ledger mi \<and> xt_expected_generation x = mi_generation mi)"

lemma nothing_durable:
  assumes "\<And>out. out \<in> set outs \<Longrightarrow> outcome_entry out \<noteq> None \<or> eo_conflict out \<noteq> None \<Longrightarrow>
    durable_disposition (eo_inventory out)"
    and "\<not> list_ex (\<lambda>out. durable_disposition (eo_inventory out)) outs"
  shows "entry_ids outs = {}" and "conflict_ids outs = {}"
proof -
  have "outcome_entry out = None \<and> eo_conflict out = None" if "out \<in> set outs" for out
    using assms(1) [OF that] assms(2) that unfolding list_ex_iff by blast
  then show "entry_ids outs = {}" and "conflict_ids outs = {}"
    by (auto simp: entry_ids_def conflict_ids_def)
qed

lemma conflicts_again:
  assumes "bt_ok n" and "dom (bt_get n) \<subseteq> conflict_ids outs"
  shows "conflicts_of outs n = conflicts_of outs []"
proof (rule bt_ext)
  fix k
  have "bt_get (conflicts_of outs []) k = None \<Longrightarrow> bt_get n k = None"
    using assms(2) dom_conflicts_of [of outs "[]"] by (auto simp: domIff [symmetric])
  then show "bt_get (conflicts_of outs n) k = bt_get (conflicts_of outs []) k"
    using conflicts_of_overlay [of "[]" n outs] assms(1)
    by (simp add: bt_get_overlay conflicts_of_ok split: option.split)
qed (simp_all add: assms(1) conflicts_of_ok)

lemma conflicts_twice: "conflicts_of outs (conflicts_of outs []) = conflicts_of outs []"
  using dom_conflicts_of [of outs "[]"] by (intro conflicts_again) (auto simp: conflicts_of_ok)

lemma assembled_planned:
  assumes "well_judged mi pre" and "distinct (new_ids pre)"
  shows "planned mi (assemble_batch row mi ev staging pre core)"
proof -
  define scratch where "scratch = (case core of Some (c, _) \<Rightarrow> c | None \<Rightarrow> row_ctx row)"
  define batch where
    "batch = (case core of Some (_, t) \<Rightarrow> outcome_from_transition t | None \<Rightarrow> BO_Accept)"
  define outs where "outs = map fst (map (emit_item row mi scratch batch staging) pre)"
  define x where "x = assemble_batch row mi ev staging pre core"
  have outs: "xt_outcomes x = outs"
    and entries: "xt_planned_entries x = entries_of outs []"
    and conflicts: "xt_planned_conflicts x = conflicts_of outs []"
    and frame: "xt_prepared_inventory_ledger x = mi_ledger mi" "xt_expected_generation x = mi_generation mi"
    using emit_plan [where row = row and mi = mi and scratch = scratch and batch = batch
        and staging = staging and pre = pre] conflicts_twice [of outs]
    by (simp_all add: x_def assemble_batch_def Let_def outs_def scratch_def batch_def
        del: map_map list.map_comp)
  have none: "xt_journal x = None \<Longrightarrow>
      \<not> list_ex (\<lambda>out. durable_disposition (eo_inventory out)) outs"
    and some: "xt_journal x = Some r \<Longrightarrow>
      \<exists>part. r = J_ExecutionTxn (ExecutionTxnRecord (mi_ledger mi) (mi_generation mi) outs part)" for r
    by (auto simp: x_def assemble_batch_def Let_def outs_def scratch_def batch_def
        simp del: map_map list.map_comp split: if_splits)
  have "recorded mi x"
    using none some nothing_durable [of outs] emit_durable [OF assms(1), of _ row scratch batch staging]
    by (auto simp: recorded_def outs outs_def simp del: map_map list.map_comp split: option.split)
  then show ?thesis
    using entries conflicts frame outs emit_ingests [OF assms(1), where row = row
        and scratch = scratch and batch = batch and staging = staging] assms(2)
      emit_writes [OF assms(1), of _ row scratch batch staging]
    unfolding planned_def x_def [symmetric] by (auto simp: outs_def simp del: map_map list.map_comp)
qed

lemma batch_planned:
  "prepare_execution_batch row mi ev evs = Inr x \<Longrightarrow> planned mi x"
  using adjudicate_batch_props [of row mi evs]
  by (auto simp: prepare_execution_batch_def intro!: assembled_planned
      split: option.splits prod.splits sum.splits)

lemma norow_planned:
  assumes "prepare_execution_norow mi e = Inr x" shows "planned mi x"
  using assms
  by (auto simp: prepare_execution_norow_def norow_transaction_def planned_def recorded_def
      norow_outcome_def zero_outcome_def outcome_with_def outcome_entry_def outcome_id_def
      put_planned_def conflict_of_def write_ok_def upgrade_entry_def entry_extends_def Let_def
      split: if_splits option.splits prod.splits)

end
