(* ===== verification/Batch_Row.thy ===== *)
theory Batch_Row
  imports Fill_Scope Batch_Plan
begin

text \<open>
  What an execution transaction does to its row. It is one transition of the lifecycle core on an
  event that carries only admitted fills, or the halt on a side mismatch, or nothing; and the
  ids it attributes are owned by the order afterwards.
\<close>

section \<open>The row transition\<close>

text \<open>The transitions the batch layer makes on a row: the core, or the halt it synthesises.\<close>

definition row_transition ::
  "order_row \<Rightarrow> fill_id set \<Rightarrow> order_ctx \<Rightarrow> transition_outcome \<Rightarrow> bool" where
  "row_transition row S c1 t =
     ((\<exists>ev. apply_event (row_state row) (row_ctx row) ev = (c1, t) \<and> event_ids ev \<subseteq> S)
      \<or> (c1 = row_ctx row \<and> \<not> is_restart_frozen (row_state row)
         \<and> t = halt_with_reason (H_CrossCheckMismatch side_mismatch_text) []))"

lemma side_halt_effects:
  "outcome_effects (halt_with_reason r []) = [AppendFsync (J_Halted r), HaltNewExposure]
    \<or> outcome_effects (halt_with_reason r []) = [HaltNewExposure, AppendFsync (J_Halted r)]"
  by (simp add: halt_with_reason_def)

lemma side_halt_accounted: "accounted c (outcome_effects (halt_with_reason r [])) c"
  using side_halt_effects [of r] by (auto intro!: off_book_accounted)

lemma transition_accounted:
  "row_transition row S c1 t \<Longrightarrow> accounted (row_ctx row) (outcome_effects t) c1"
  by (auto simp: row_transition_def side_halt_accounted intro: accounting.event)

lemma transition_scope:
  "row_transition row S c1 t \<Longrightarrow> applied_ids c1 \<subseteq> applied_ids (row_ctx row) \<union> S"
  by (auto simp: row_transition_def dest!: event_books_its_fills)


section \<open>The admitted ids\<close>

definition admitted_ids :: "pre_item list \<Rightarrow> fill_id set" where
  "admitted_ids pre = {ev_execution_id e | e staged. (e, PC_Admitted staged) \<in> set pre}"

lemma admitted_from_ids: "(fst \<circ> snd) ` set (admitted_from staging i pre) = admitted_ids pre"
  by (induction staging i pre rule: admitted_from.induct) (auto simp: admitted_ids_def image_iff)

lemma admitted_from_empty: "admitted_from staging i pre = [] \<longleftrightarrow> admitted_ids pre = {}"
  using admitted_from_ids [of staging i pre] by (metis image_is_empty set_empty)

lemma record_at_bound: "record_at idx n ri ms = Some k \<Longrightarrow> ri \<le> k \<and> k < ri + length ms"
  by (induction idx n ri ms rule: record_at.induct) (auto split: if_splits)

lemma concat_push:
  assumes "k < length xs"
  shows "set (concat (xs[k := xs ! k @ [y]])) \<subseteq> insert y (set (concat xs))"
proof -
  have "set (concat (xs[k := z])) \<subseteq> set (concat xs) \<union> set z" for z
    using set_update_subset_insert [of xs k z] by auto
  from this [of "xs ! k @ [y]"] nth_mem [OF assms] show ?thesis by auto
qed

lemma pushed_ids:
  assumes "k < length xs"
  shows "fr_fill_id ` set (concat (xs[k := xs ! k @ [staged_fill_record staged fid]]))
    \<subseteq> insert fid (fr_fill_id ` set (concat xs))"
  using image_mono [OF concat_push [OF assms], of fr_fill_id "staged_fill_record staged fid"]
  by (simp add: staged_fill_record_def)

lemma placed_ids:
  "length rec_fills = length matched \<Longrightarrow>
    length (place_fills matched adm rec_fills) = length matched
    \<and> fr_fill_id ` set (concat (place_fills matched adm rec_fills))
      \<subseteq> fr_fill_id ` set (concat rec_fills) \<union> (fst \<circ> snd) ` set adm"
proof (induction matched adm rec_fills rule: place_fills.induct)
  case (2 matched idx fid staged adm rec_fills)
  define next_fills where "next_fills = (case record_at idx 0 0 matched of
      Some ri \<Rightarrow> rec_fills[ri := rec_fills ! ri @ [staged_fill_record staged fid]]
    | None \<Rightarrow> if matched \<noteq> []
        then rec_fills[length matched - 1 :=
          rec_fills ! (length matched - 1) @ [staged_fill_record staged fid]]
        else rec_fills)"
  have bound: "record_at idx 0 0 matched = Some k \<Longrightarrow> k < length rec_fills" for k
    using record_at_bound [of idx 0 0 matched k] "2.prems" by simp
  have len: "length next_fills = length matched"
    using "2.prems" by (simp add: next_fills_def split: option.split)
  have ids: "fr_fill_id ` set (concat next_fills) \<subseteq> insert fid (fr_fill_id ` set (concat rec_fills))"
  proof (cases "record_at idx 0 0 matched")
    case None
    show ?thesis
    proof (cases "matched = []")
      case False
      with "2.prems" have "length matched - 1 < length rec_fills" by simp
      then show ?thesis unfolding next_fills_def None using False
        by (simp only: option.case if_True not_False_eq_True) (rule pushed_ids)
    qed (use None in \<open>auto simp: next_fills_def\<close>)
  next
    case (Some k)
    show ?thesis unfolding next_fills_def Some option.case by (rule pushed_ids [OF bound [OF Some]])
  qed
  have head: "(fst \<circ> snd) ` set ((idx, fid, staged) # adm) = insert fid ((fst \<circ> snd) ` set adm)"
    by simp
  show ?case
    unfolding place_fills.simps next_fills_def [symmetric] head
    using "2.IH" [folded next_fills_def, OF len] ids by blast
qed simp

lemma admitted_records:
  "fr_fill_id ` set (map (\<lambda>(_, fid, s). staged_fill_record s fid) adm) = (fst \<circ> snd) ` set adm"
  by (induction adm) (auto simp: staged_fill_record_def)

lemma rebuilt_event_ids:
  assumes "rebuild_event_with_fills ev adm = Some core"
    and "adm = [] \<Longrightarrow> is_structured ev"
  shows "event_ids core \<subseteq> (fst \<circ> snd) ` set adm"
proof (cases ev)
  case (Ev_UnknownBackfillResult exhaustive matched)
  let ?placed = "place_fills matched adm (replicate (length matched) [])"
  have len: "length ?placed = length matched"
    and ids: "fr_fill_id ` set (concat ?placed) \<subseteq> (fst \<circ> snd) ` set adm"
    using placed_ids [of "replicate (length matched) []" matched adm] by (auto simp: image_iff)
  have "map bo_fills (map (\<lambda>(m, fs). m\<lparr>bo_fills := fs\<rparr>) (zip matched ?placed)) = ?placed"
    using len by (intro nth_equalityI) simp_all
  with assms(1) Ev_UnknownBackfillResult ids show ?thesis
    by (auto simp: rebuild_event_with_fills_def event_ids_def)
next
  case (Ev_Fill fid q p ts v fee)
  with assms(1) show ?thesis
    by (auto simp: rebuild_event_with_fills_def event_ids_def split: list.splits)
qed (use assms admitted_records [of adm] in \<open>auto simp: rebuild_event_with_fills_def event_ids_def\<close>)


section \<open>The outcome of the core call\<close>

lemma core_call_transition:
  assumes "core_call row mi ev evs staging pre = Inr (Some (c1, t))"
  shows "row_transition row (admitted_ids pre) c1 t" and "\<not> is_row_foreign row mi"
proof -
  show "\<not> is_row_foreign row mi"
    using assms by (auto simp: core_call_def Let_def split: if_splits)
  from assms consider
      "c1 = row_ctx row" "\<not> is_restart_frozen (row_state row)"
        "t = halt_with_reason (H_CrossCheckMismatch side_mismatch_text) []"
    | core where "rebuild_event_with_fills ev (admitted_from staging 0 pre) = Some core"
        "admitted_from staging 0 pre \<noteq> [] \<or> is_structured ev"
        "apply_event (row_state row) (row_ctx row) core = (c1, t)"
    by (auto simp: core_call_def Let_def split: if_splits option.splits)
  then show "row_transition row (admitted_ids pre) c1 t"
  proof cases
    case 2
    from rebuilt_event_ids [OF 2(1)] 2(2) have "event_ids core \<subseteq> admitted_ids pre"
      unfolding admitted_from_ids by blast
    with 2(3) show ?thesis by (auto simp: row_transition_def)
  qed (simp add: row_transition_def)
qed

text \<open>The row after an execution transaction on it.\<close>

definition row_after :: "order_row \<Rightarrow> order_ctx \<Rightarrow> transition_outcome \<Rightarrow> order_row \<Rightarrow> bool" where
  "row_after row c1 t row1 =
     (row_ctx row1 = c1 \<and> row_state row1 = state_after_transition t (row_state row)
      \<and> row_ledger row1 = row_ledger row)"

text \<open>
  The three ways a batch leaves the row and the shell: no transition, a transition that changed
  nothing, or a transition with its record and the next sequence number.
\<close>

lemma assembled_row:
  assumes "apply_to_target (assemble_batch row mi ev staging pre core) row = Inr row1"
  shows "core = None \<Longrightarrow> row1 = row \<and> xt_effects (assemble_batch row mi ev staging pre core) = []"
    and "core = Some (c1, t) \<Longrightarrow> row_after row c1 t row1
      \<and> xt_effects (assemble_batch row mi ev staging pre core)
        = filter (\<lambda>e. \<not> is_append_fsync e) (outcome_effects t)"
  using assms
  by (auto simp: apply_to_target_def assemble_batch_def row_after_def row_changed_def split_effects_def
      Let_def split: if_splits option.splits)


section \<open>Ownership\<close>

text \<open>In a batch of its own ledger, an item upgrades nothing by refusal and admits nothing foreign.\<close>

definition own_item :: "order_row \<Rightarrow> market_inventory \<Rightarrow> execution_evidence \<Rightarrow> pre_core \<Rightarrow> bool" where
  "own_item row mi e pc =
     (refused_upgrade pc = None
      \<and> (\<forall>staged. pc = PC_Admitted staged \<longrightarrow>
           other_owner row (inventory_get mi (ev_execution_id e)) = None))"

lemma adjudicate_all_list:
  assumes "\<And>s e s1 pc. judge s e = (s1, pc) \<Longrightarrow> P e pc"
  shows "adjudicate_all judge s es = (s1, pre) \<Longrightarrow> list_all (\<lambda>(e, pc). P e pc) pre"
  using assms by (induction es arbitrary: s s1 pre) (auto split: prod.splits)

lemma side_check_list:
  assumes "\<And>s e. P e (side_refused row mi s e)"
  shows "side_check row mi s pre = (s1, pre1) \<Longrightarrow> list_all (\<lambda>(e, pc). P e pc) pre \<Longrightarrow>
    list_all (\<lambda>(e, pc). P e pc) pre1"
  using assms
  by (induction row mi s pre arbitrary: s1 pre1 rule: side_check.induct)
    (auto split: prod.splits if_splits)

lemma own_items:
  assumes "adjudicate_batch row mi evs = (staging, pre)" and "\<not> is_row_foreign row mi"
    and "(e, pc) \<in> set pre"
  shows "own_item row mi e pc"
proof -
  have judge: "own_item row mi e pc" if "adjudicate_row row mi s e = (s1, pc)" for s e s1 pc
    using that by (auto simp: adjudicate_row_def own_item_def Let_def split: if_splits option.splits)
  have side: "own_item row mi e (side_refused row mi s e)" for s e
    by (auto simp: side_refused_def own_item_def Let_def split: option.split)
  obtain s1 pre1 where a: "adjudicate_all (adjudicate_row row mi) [] evs = (s1, pre1)"
    and b: "side_check row mi s1 pre1 = (staging, pre)"
    using assms(1,2) by (auto simp: adjudicate_batch_def split: prod.splits)
  have "list_all (\<lambda>(e, pc). own_item row mi e pc) pre1"
    by (rule adjudicate_all_list [where P = "own_item row mi", OF judge a])
  then have "list_all (\<lambda>(e, pc). own_item row mi e pc) pre"
    by (rule side_check_list [where P = "own_item row mi", OF side b])
  with assms(3) show ?thesis by (auto simp: list_all_iff)
qed

lemma writer_claims:
  assumes "emit_item row mi scratch batch staging (e, pc) = (out, Some entry)"
    and "refused_upgrade pc = None"
  shows "claims_id pc"
proof (cases pc)
  case (PC_Refused od idisp en f)
  with assms show ?thesis by (cases idisp) (auto simp: publish_foreign_def Let_def)
qed (use assms in simp_all)

text \<open>What is emitted for an admitted id the order holds afterwards.\<close>

lemma admitted_owner:
  assumes "emit_admitted row mi scratch batch staging e staged = (out, entry)"
    and "\<not> is_row_foreign row mi" and "other_owner row (inventory_get mi (ev_execution_id e)) = None"
    and "bt_get (applied_fills scratch) (ev_execution_id e) \<noteq> None"
  shows "(case entry of
      Some en \<Rightarrow> ie_owner en = Some (client_order_id_of (row_ctx row))
    | None \<Rightarrow> \<exists>p. inventory_get mi (ev_execution_id e) = Some p
        \<and> ie_owner p = Some (client_order_id_of (row_ctx row)))"
proof -
  obtain a where a: "bt_get (applied_fills scratch) (ev_execution_id e) = Some a"
    using assms(4) by blast
  have own: "owner_for (admitted_disposition batch b (Some a)) cid False True = Some cid" for b cid
    by (auto simp: owner_for_def admitted_disposition_def split: option.split)
  show ?thesis
    using assms(1-3) a own
    by (auto simp: emit_admitted_def ingested_entry_def upgraded_entry_def upgrade_entry_def
        other_owner_def or_else_def fills_in_def Let_def split: option.splits if_splits)
qed


lemma new_ids_unique:
  assumes "distinct (new_ids pre)" and "(e, pc) \<in> set pre" and "(e', pc') \<in> set pre"
    and "claims_id pc" and "claims_id pc'" and "ev_execution_id e = ev_execution_id e'"
  shows "(e, pc) = (e', pc')"
proof -
  have "inj_on (\<lambda>(e, _). ev_execution_id e) (set (filter (\<lambda>(_, pc). claims_id pc) pre))"
    using assms(1) by (simp add: new_ids_def distinct_map)
  from inj_onD [OF this, of "(e, pc)" "(e', pc')"] assms show ?thesis by simp
qed

lemma emitted_owner:
  fixes row mi scratch batch staging pre
  defines "outs \<equiv> map fst (map (emit_item row mi scratch batch staging) pre)"
  assumes adj: "adjudicate_batch row mi evs = (staging, pre)" and own: "\<not> is_row_foreign row mi"
    and adm: "fid \<in> admitted_ids pre" and after: "bt_get (applied_fills scratch) fid \<noteq> None"
  shows "\<exists>en. bt_get (entries_of outs (mi_entries mi)) fid = Some en
    \<and> ie_owner en = Some (client_order_id_of (row_ctx row))"
proof -
  from adm obtain e staged where e: "(e, PC_Admitted staged) \<in> set pre" "fid = ev_execution_id e"
    by (auto simp: admitted_ids_def)
  have other: "other_owner row (inventory_get mi fid) = None"
    using own_items [OF adj own e(1)] e(2) by (simp add: own_item_def)
  obtain out entry where em: "emit_admitted row mi scratch batch staging e staged = (out, entry)"
    by fastforce
  note owner = admitted_owner [OF em own other [unfolded e(2)] after [unfolded e(2)]]
  have em': "emit_item row mi scratch batch staging (e, PC_Admitted staged) = (out, entry)"
    using em by simp
  have out: "out \<in> set outs" "outcome_id out = fid" "outcome_entry out = entry"
    using emit_item_props(1,2) [OF em'] e em' unfolding outs_def
    by (force simp: outcome_id_def image_iff)+
  have same: "out' = out" if out': "out' \<in> set outs" "outcome_id out' = fid" "outcome_entry out' \<noteq> None"
    for out'
  proof -
    from out'(1) obtain e' pc' where e': "(e', pc') \<in> set pre"
        "out' = fst (emit_item row mi scratch batch staging (e', pc'))" by (auto simp: outs_def)
    then obtain entry' where em1: "emit_item row mi scratch batch staging (e', pc') = (out', entry')"
      by (cases "emit_item row mi scratch batch staging (e', pc')") simp
    with emit_item_props(2) [OF em1] out'(3) obtain en where "entry' = Some en" by auto
    with em1 own_items [OF adj own e'(1)] have "claims_id pc'"
      by (auto simp: own_item_def intro: writer_claims)
    moreover have "ev_execution_id e' = fid"
      using emit_item_props(1) [OF em1] out'(2) by (simp add: outcome_id_def)
    ultimately have "(e', pc') = (e, PC_Admitted staged)"
      using new_ids_unique [OF adjudicate_batch_props(1) [OF adj] e'(1) e(1)] e(2) by simp
    with em1 em' show ?thesis by simp
  qed
  show ?thesis
  proof (cases entry)
    case (Some en)
    with out have "fid \<in> entry_ids outs" by (auto simp: entry_ids_def)
    then obtain en' where g: "bt_get (entries_of outs (mi_entries mi)) fid = Some en'"
      using dom_entries_of [of outs "mi_entries mi"] by blast
    from entries_of_get [OF g] \<open>fid \<in> entry_ids outs\<close> obtain out' where
        "out' \<in> set outs" "outcome_id out' = fid" "outcome_entry out' = Some en'" by auto
    with same [of out'] out(3) Some have "en' = en" by simp
    with g owner Some show ?thesis by simp
  next
    case None
    with owner e(2) obtain p where p: "inventory_get mi fid = Some p"
        "ie_owner p = Some (client_order_id_of (row_ctx row))" by auto
    have "fid \<notin> entry_ids outs" using same out(3) None by (force simp: entry_ids_def)
    moreover obtain en where g: "bt_get (entries_of outs (mi_entries mi)) fid = Some en"
      using dom_entries_of [of outs "mi_entries mi"] p(1) by (auto simp: inventory_get_def)
    ultimately have "en = p" using entries_of_get [OF g] p(1)
      by (auto simp: inventory_get_def entry_ids_def)
    with g p show ?thesis by simp
  qed
qed

end
