(* ===== verification/Inventory_Rebuild.thy ===== *)
theory Inventory_Rebuild
  imports Batch_Plan
begin

text \<open>
  Applying a prepared transaction and rebuilding from its record do the same to the inventory:
  entries, conflicts and the generation agree, and the rebuild never meets an id ingested twice.
\<close>

section \<open>The written inventory\<close>

definition written :: "execution_transaction \<Rightarrow> market_inventory \<Rightarrow> market_inventory" where
  "written x mi = write_conflicts (xt_planned_conflicts x) (write_entries (xt_planned_entries x) mi)"

lemma sat_add_chain: "sat_add_u64 (sat_add_u64 g m) n = sat_add_u64 g (m + n)"
  by (simp add: sat_add_u64_def)

lemma write_entries_overlay:
  "mi_generation mi \<le> u64_max \<Longrightarrow> write_entries m mi =
    mi\<lparr>mi_entries := bt_overlay m (mi_entries mi),
       mi_generation := sat_add_u64 (mi_generation mi) (length m)\<rparr>"
proof (induction m mi rule: write_entries.induct)
  case (1 mi)
  then show ?case by (simp add: sat_add_u64_def)
next
  case (2 fid e m mi)
  then show ?case by (simp add: sat_add_u64_le sat_add_chain)
qed

lemma write_conflicts_overlay:
  "mi_generation mi \<le> u64_max \<Longrightarrow> write_conflicts m mi =
    mi\<lparr>mi_conflicts := bt_overlay m (mi_conflicts mi),
       mi_generation := sat_add_u64 (mi_generation mi) (length m)\<rparr>"
proof (induction m mi rule: write_conflicts.induct)
  case (1 mi)
  then show ?case by (simp add: sat_add_u64_def)
next
  case (2 fid f m mi)
  then show ?case by (simp add: sat_add_u64_le sat_add_chain)
qed

definition inventory_ok :: "market_inventory \<Rightarrow> bool" where
  "inventory_ok mi =
     (bt_ok (mi_entries mi) \<and> bt_ok (mi_conflicts mi) \<and> mi_generation mi \<le> u64_max)"

lemma written_fields:
  assumes "inventory_ok mi" and "planned mi x"
  shows "mi_ledger (written x mi) = mi_ledger mi"
    and "mi_entries (written x mi) = entries_of (xt_outcomes x) (mi_entries mi)"
    and "mi_conflicts (written x mi) = conflicts_of (xt_outcomes x) (mi_conflicts mi)"
    and "mi_generation (written x mi) =
      sat_add_u64 (mi_generation mi)
        (card (entry_ids (xt_outcomes x)) + card (conflict_ids (xt_outcomes x)))"
    and "inventory_ok (written x mi)"
proof -
  let ?outs = "xt_outcomes x"
  have le: "length (entries_of ?outs []) = card (entry_ids ?outs)"
    and lc: "length (conflicts_of ?outs []) = card (conflict_ids ?outs)"
    using bt_length [OF entries_of_ok [of "[]" ?outs]] bt_length [OF conflicts_of_ok [of "[]" ?outs]]
    by (simp_all add: dom_entries_of dom_conflicts_of)
  have "bt_overlay (entries_of ?outs []) (mi_entries mi) = entries_of ?outs (mi_entries mi)"
    "bt_overlay (conflicts_of ?outs []) (mi_conflicts mi) = conflicts_of ?outs (mi_conflicts mi)"
    using assms(1) entries_of_overlay [of "[]" "mi_entries mi" ?outs]
      conflicts_of_overlay [of "[]" "mi_conflicts mi" ?outs] by (simp_all add: inventory_ok_def)
  then have "written x mi = mi\<lparr>mi_entries := entries_of ?outs (mi_entries mi),
      mi_conflicts := conflicts_of ?outs (mi_conflicts mi),
      mi_generation := sat_add_u64 (mi_generation mi)
        (card (entry_ids ?outs) + card (conflict_ids ?outs))\<rparr>"
    using assms le lc by (simp add: written_def write_entries_overlay write_conflicts_overlay
        inventory_ok_def planned_def sat_add_u64_le sat_add_chain)
  then show "mi_ledger (written x mi) = mi_ledger mi"
    and "mi_entries (written x mi) = entries_of (xt_outcomes x) (mi_entries mi)"
    and "mi_conflicts (written x mi) = conflicts_of (xt_outcomes x) (mi_conflicts mi)"
    and "mi_generation (written x mi) =
      sat_add_u64 (mi_generation mi)
        (card (entry_ids (xt_outcomes x)) + card (conflict_ids (xt_outcomes x)))"
    and "inventory_ok (written x mi)"
    using assms(1) by (simp_all add: inventory_ok_def entries_of_ok conflicts_of_ok sat_add_u64_le)
qed

lemma planned_write:
  assumes "planned mi x" and "out \<in> set (xt_outcomes x)" and "outcome_entry out = Some e"
    and "inventory_get mi (outcome_id out) = Some p"
  shows "entry_extends p e"
proof -
  have "write_ok mi (outcome_id out) (is_ingest (eo_inventory out)) e"
    using assms(1-3) by (simp add: planned_def)
  with assms(4) show ?thesis by (simp add: write_ok_def split: if_splits)
qed

lemma written_extends:
  assumes "inventory_ok mi" and "planned mi x" and "inventory_get mi fid = Some p"
  shows "\<exists>e. inventory_get (written x mi) fid = Some e \<and> entry_extends p e"
proof -
  have entries: "mi_entries (written x mi) = entries_of (xt_outcomes x) (mi_entries mi)"
    by (rule written_fields(2) [OF assms(1,2)])
  obtain e where e: "bt_get (entries_of (xt_outcomes x) (mi_entries mi)) fid = Some e"
    using dom_entries_of [of "xt_outcomes x" "mi_entries mi"] assms(3)
    by (auto simp: inventory_get_def)
  from entries_of_get [OF e] assms(3) planned_write [OF assms(2)] have "entry_extends p e"
    by (auto simp: inventory_get_def)
  with e entries show ?thesis by (simp add: inventory_get_def)
qed


section \<open>Apply\<close>

lemma execution_apply_written:
  assumes "execution_transaction_apply x order mi = Inr (outs, order1, mi1)"
  shows "outs = xt_outcomes x" and "mi1 = written x mi"
    and "order = None \<longleftrightarrow> order1 = None"
    and "order = Some row \<Longrightarrow> order1 = Some row1 \<Longrightarrow> apply_to_target x row = Inr row1"
  using assms
  by (auto simp: execution_transaction_apply_def written_def Let_def
      split: if_splits option.splits sum.splits)


section \<open>The rebuild follows\<close>

definition rebuild_start :: rebuild_locals where
  "rebuild_start =
     \<lparr>rl_entries = [], rl_conflicts = [], rl_ingested = [], rl_mutated = [], rl_conflict_ids = []\<rparr>"

definition tracks :: "journal_record list \<Rightarrow> market_inventory \<Rightarrow> bool" where
  "tracks recs mi =
     (inventory_ok mi
      \<and> (\<exists>l. rebuild_records (mi_ledger mi) recs 0 rebuild_start = Inr (mi_generation mi, l)
          \<and> locals_ok l \<and> rl_entries l = mi_entries mi \<and> rl_conflicts l = mi_conflicts mi
          \<and> ids_of (rl_ingested l) \<subseteq> dom (bt_get (mi_entries mi))))"

lemma tracks_rebuild: "tracks recs mi \<Longrightarrow> inventory_rebuild (mi_ledger mi) recs = Inr mi"
  by (auto simp: tracks_def inventory_rebuild_def rebuild_start_def)

lemma tracks_new: "tracks [] (inventory_new ledger)"
  by (simp add: tracks_def inventory_ok_def inventory_new_def rebuild_start_def locals_ok_def)

lemma rebuild_records_append:
  "rebuild_records ledger (xs @ ys) g l =
    (case rebuild_records ledger xs g l of
       Inl e \<Rightarrow> Inl e
     | Inr (g1, l1) \<Rightarrow> rebuild_records ledger ys g1 l1)"
  by (induction ledger xs g l rule: rebuild_records.induct) (auto split: sum.split)

text \<open>A record that is no execution transaction of the ledger is skipped.\<close>

fun elsewhere :: "ledger_id \<Rightarrow> journal_record \<Rightarrow> bool" where
  "elsewhere ledger (J_ExecutionTxn txn) = (et_ledger txn \<noteq> ledger)"
| "elsewhere ledger _ = True"

lemma rebuild_elsewhere: "elsewhere ledger r \<Longrightarrow> rebuild_records ledger [r] g l = Inr (g, l)"
  by (cases r) auto

lemma tracks_elsewhere: "tracks recs mi \<Longrightarrow> elsewhere (mi_ledger mi) r \<Longrightarrow> tracks (recs @ [r]) mi"
  by (auto simp: tracks_def rebuild_records_append rebuild_elsewhere)

lemma bset_length: "bt_ok s \<Longrightarrow> length s = card (ids_of s)"
  by (simp add: bt_length ids_of_def)

fun opt_list :: "'a option \<Rightarrow> 'a list" where
  "opt_list None = []"
| "opt_list (Some x) = [x]"

lemma tracks_step:
  assumes tr: "tracks recs mi" and pl: "planned mi x"
  shows "tracks (recs @ opt_list (xt_journal x)) (written x mi)"
proof -
  let ?outs = "xt_outcomes x"
  from tr obtain l where ok: "inventory_ok mi" and l:
      "rebuild_records (mi_ledger mi) recs 0 rebuild_start = Inr (mi_generation mi, l)"
      "locals_ok l" "rl_entries l = mi_entries mi" "rl_conflicts l = mi_conflicts mi"
      "ids_of (rl_ingested l) \<subseteq> dom (bt_get (mi_entries mi))" by (auto simp: tracks_def)
  note w = written_fields [OF ok pl]
  show ?thesis
  proof (cases "xt_journal x")
    case None
    with pl have "entry_ids ?outs = {}" "conflict_ids ?outs = {}"
      by (auto simp: planned_def recorded_def)
    then have "entries_of ?outs [] = []" and "conflicts_of ?outs [] = []"
      using bt_empty [OF entries_of_ok, of "[]" ?outs] bt_empty [OF conflicts_of_ok, of "[]" ?outs]
      by (simp_all add: dom_entries_of dom_conflicts_of)
    with pl have "written x mi = mi" by (simp add: written_def planned_def)
    with None tr show ?thesis by simp
  next
    case (Some r)
    with pl obtain part where r: "r = J_ExecutionTxn
        (ExecutionTxnRecord (mi_ledger mi) (mi_generation mi) ?outs part)"
      by (auto simp: planned_def recorded_def)
    define l0 where "l0 = l\<lparr>rl_mutated := [], rl_conflict_ids := []\<rparr>"
    have l0: "locals_ok l0" "rl_entries l0 = mi_entries mi" "rl_conflicts l0 = mi_conflicts mi"
        "ids_of (rl_ingested l0) \<subseteq> dom (bt_get (mi_entries mi))"
        "ids_of (rl_mutated l0) = {}" "ids_of (rl_conflict_ids l0) = {}"
      using l by (simp_all add: l0_def locals_ok_def)
    have "distinct (ingest_ids ?outs)" "set (ingest_ids ?outs) \<inter> ids_of (rl_ingested l0) = {}"
      using pl l0(4) by (auto simp: planned_def inventory_get_def)
    from rebuild_outcomes_all [OF l0(1) this] l0 obtain l1 where l1: "rebuild_outcomes ?outs l0 = Inr l1" "locals_ok l1"
        "rl_entries l1 = entries_of ?outs (mi_entries mi)"
        "rl_conflicts l1 = conflicts_of ?outs (mi_conflicts mi)"
        "ids_of (rl_mutated l1) = entry_ids ?outs" "ids_of (rl_conflict_ids l1) = conflict_ids ?outs"
        "ids_of (rl_ingested l1) \<subseteq> entry_ids ?outs \<union> ids_of (rl_ingested l0)"
      by auto
    have len: "length (rl_mutated l1) = card (entry_ids ?outs)"
        "length (rl_conflict_ids l1) = card (conflict_ids ?outs)"
      using l1(2,5,6) bset_length by (simp_all add: locals_ok_def)
    have "rebuild_records (mi_ledger mi) [r] (mi_generation mi) l
        = Inr (mi_generation (written x mi), l1)"
      using l1(1) len w(4) by (simp add: r l0_def sat_add_chain)
    moreover have "ids_of (rl_ingested l1) \<subseteq> dom (bt_get (mi_entries (written x mi)))"
      using l1(7) l0(4) by (auto simp: w(2) dom_entries_of)
    ultimately show ?thesis
      using l(1) l1(2-4) w Some by (simp add: tracks_def rebuild_records_append)
  qed
qed

end
