(* ===== verification/Wire_Registry.thy ===== *)
theory Wire_Registry
  imports Execution_Prepare "HOL-Library.Product_Lexorder"
begin

text \<open>
  The wire registry of \<^verbatim>\<open>src/observation.rs\<close>: which orders are members of a venue order, which
  executions the venue order holds, and what is known of its remaining quantity. Records of the
  journal fold into it; amend lineages, user-order frames and proofs of the remaining quantity are
  prepared against it and applied to it.
\<close>

section \<open>Keys and sets\<close>

text \<open>The derived order of a ledger id compares the scope, then the market.\<close>

lemma ledger_id_eqI:
  "scope_str (ledger_scope a) = scope_str (ledger_scope b) \<Longrightarrow> ledger_market a = ledger_market b \<Longrightarrow> a = b"
  by (intro ledger_id.expand) (auto intro: execution_scope.expand)

instantiation ledger_id :: linorder
begin
definition less_eq_ledger_id :: "ledger_id \<Rightarrow> ledger_id \<Rightarrow> bool" where
  "less_eq_ledger_id a b =
     ((scope_str (ledger_scope a), ledger_market a) \<le> (scope_str (ledger_scope b), ledger_market b))"
definition less_ledger_id :: "ledger_id \<Rightarrow> ledger_id \<Rightarrow> bool" where
  "less_ledger_id a b =
     ((scope_str (ledger_scope a), ledger_market a) < (scope_str (ledger_scope b), ledger_market b))"
instance
  by intro_classes
    (auto simp: less_eq_ledger_id_def less_ledger_id_def intro: ledger_id_eqI)
end

text \<open>A set of execution ids is the ascending list of its elements.\<close>

definition asc_insert :: "'a::linorder \<Rightarrow> 'a list \<Rightarrow> 'a list" where
  "asc_insert x xs = (if x \<in> set xs then xs else insort x xs)"

record wire_registry =
  wr_wires :: "(ledger_id \<times> venue_order_id, wire_state) btree"
  wr_id_index :: "(venue_order_id, fill_id list) btree"
  wr_seen_order :: "(ledger_id \<times> client_order_id \<times> u64, order_txn_record) btree"

datatype route =
    R_ExistingOwner client_order_id
  | R_UnownedUnique client_order_id
  | R_UnownedAmbiguous
  | R_NewUnique client_order_id
  | R_NewAmbiguous
  | R_VenueOnly

datatype working_view = WV_Known u64 | WV_Unresolved

datatype order_state_proof_error =
    SP_MissingWire
  | SP_MissingCurrent
  | SP_WrongCurrent
  | SP_PendingAmend
  | SP_LineageMismatch
  | SP_InvalidTransition
  | SP_StaleOrConflictingVersion
  | SP_FillMismatch
  | SP_QuantityMismatch
  | SP_GenerationChanged
  | SP_InventoryChanged

text \<open>Unresolved: member debt, wire residual, unresolved venue-only wires, tracked scoped wires.\<close>

datatype readiness = RD_Ready | RD_Unresolved u64 u64 nat nat | RD_Conflict

datatype member_mismatch_reason = MM_WrongCid | MM_ForeignScope | MM_ForeignMarket

datatype readiness_error =
    RY_MissingMember client_order_id
  | RY_MemberMismatch client_order_id member_mismatch_reason


section \<open>Looking up a wire\<close>

definition same_user_order_state :: "user_order_evidence \<Rightarrow> user_order_evidence \<Rightarrow> bool" where
  "same_user_order_state a b =
     (uo_wire a = uo_wire b \<and> uo_market a = uo_market b
      \<and> uo_exchange_index a = uo_exchange_index b
      \<and> uo_subaccount_number a = uo_subaccount_number b
      \<and> uo_side a = uo_side b \<and> uo_yes_price_e4 a = uo_yes_price_e4 b
      \<and> uo_client_order_id a = uo_client_order_id b \<and> uo_status a = uo_status b
      \<and> uo_filled a = uo_filled b \<and> uo_remaining a = uo_remaining b
      \<and> uo_initial a = uo_initial b \<and> uo_updated_ts_ms a = uo_updated_ts_ms b)"

definition venue_only_wire :: wire_state where
  "venue_only_wire =
     \<lparr>ws_members = [], ws_kind = WK_VenueOnly, ws_held = [], ws_filled_hw = 0, ws_status = BS_Open,
      ws_generation = 0, ws_tracked = False, ws_last = None, ws_resolved = False,
      ws_remaining_observation = None, ws_amend_lineage = None, ws_latest_user_order = None,
      ws_latest_user_order_revision = 0, ws_proved_current_cid = None,
      ws_observed_exchange_index = None, ws_authority_hold = False,
      ws_authority_hold_revision = 0\<rparr>"

definition current_member :: "wire_state \<Rightarrow> member option" where
  "current_member ws = find (\<lambda>m. mb_role m = MR_Current) (ws_members ws)"

definition current_cid :: "wire_state \<Rightarrow> client_order_id option" where
  "current_cid ws = map_option mb_cid (current_member ws)"

definition non_terminal_cids :: "wire_state \<Rightarrow> client_order_id list" where
  "non_terminal_cids ws = map mb_cid (filter (\<lambda>m. mb_role m \<noteq> MR_Terminal) (ws_members ws))"

definition registry_new :: wire_registry where
  "registry_new = \<lparr>wr_wires = [], wr_id_index = [], wr_seen_order = []\<rparr>"

definition registry_wire :: "wire_registry \<Rightarrow> ledger_id \<Rightarrow> venue_order_id \<Rightarrow> wire_state option" where
  "registry_wire reg ledger wire = bt_get (wr_wires reg) (ledger, wire)"

definition put_wire :: "ledger_id \<Rightarrow> venue_order_id \<Rightarrow> wire_state \<Rightarrow> wire_registry \<Rightarrow> wire_registry" where
  "put_wire ledger wire ws reg = reg\<lparr>wr_wires := bt_insert (ledger, wire) ws (wr_wires reg)\<rparr>"

text \<open>\<open>ensure\<close> and the mutation of the wire it returns.\<close>

definition wire_or_new :: "wire_registry \<Rightarrow> ledger_id \<Rightarrow> venue_order_id \<Rightarrow> wire_state" where
  "wire_or_new reg ledger wire =
     (case registry_wire reg ledger wire of Some ws \<Rightarrow> ws | None \<Rightarrow> venue_only_wire)"

definition ensure_wire ::
  "ledger_id \<Rightarrow> venue_order_id \<Rightarrow> (wire_state \<Rightarrow> wire_state) \<Rightarrow> wire_registry \<Rightarrow> wire_registry" where
  "ensure_wire ledger wire f reg = put_wire ledger wire (f (wire_or_new reg ledger wire)) reg"

definition registry_marker :: "wire_registry \<Rightarrow> ledger_id \<Rightarrow> venue_order_id \<Rightarrow> wire_marker" where
  "registry_marker reg ledger wire =
     WireMarker (case registry_wire reg ledger wire of Some ws \<Rightarrow> ws_generation ws | None \<Rightarrow> 0)"

definition matches_client :: "ledger_id \<Rightarrow> client_order_id \<Rightarrow> ledger_id \<Rightarrow> wire_state \<Rightarrow> bool" where
  "matches_client ledger cid candidate ws =
     (candidate = ledger
      \<and> (list_ex (\<lambda>m. mb_cid m = cid) (ws_members ws)
         \<or> (case ws_amend_lineage ws of
              Some l \<Rightarrow> al_old_cid l = cid \<or> al_new_cid l = cid
            | None \<Rightarrow> False)))"

definition wire_for_client :: "wire_registry \<Rightarrow> ledger_id \<Rightarrow> client_order_id \<Rightarrow> venue_order_id option"
  where
  "wire_for_client reg ledger cid =
     (case filter (\<lambda>((led, _), ws). matches_client ledger cid led ws) (wr_wires reg) of
        [((_, wire), _)] \<Rightarrow> Some wire
      | _ \<Rightarrow> None)"

definition has_client :: "wire_registry \<Rightarrow> ledger_id \<Rightarrow> client_order_id \<Rightarrow> bool" where
  "has_client reg ledger cid =
     list_ex (\<lambda>((led, _), ws). matches_client ledger cid led ws) (wr_wires reg)"


section \<open>Amend lineage and user-order frames\<close>

definition prepare_amend_lineage ::
  "wire_registry \<Rightarrow> ledger_id \<Rightarrow> venue_order_id \<Rightarrow> amend_lineage
    \<Rightarrow> order_state_proof_error + journal_record" where
  "prepare_amend_lineage reg ledger wire lineage =
     (case registry_wire reg ledger wire of
        None \<Rightarrow> Inl SP_MissingWire
      | Some ws \<Rightarrow>
          (let prepared = Inr (J_AmendLineage ledger wire (Some lineage))
           in if al_phase lineage = AP_HttpPending then
                (if ws_amend_lineage ws \<noteq> None \<or> ws_generation ws \<noteq> al_pre_generation lineage then
                   Inl SP_PendingAmend
                 else if current_cid ws \<noteq> Some (al_old_cid lineage)
                    \<or> al_old_cid lineage = al_new_cid lineage then Inl SP_WrongCurrent
                 else prepared)
              else
                (case ws_amend_lineage ws of
                   None \<Rightarrow> Inl SP_LineageMismatch
                 | Some prior \<Rightarrow>
                     if al_old_cid prior \<noteq> al_old_cid lineage \<or> al_new_cid prior \<noteq> al_new_cid lineage
                        \<or> al_pre_generation prior \<noteq> al_pre_generation lineage
                        \<or> al_declared_remaining prior \<noteq> al_declared_remaining lineage
                     then Inl SP_LineageMismatch
                     else if al_phase lineage = AP_AppliedNeedsObservation
                        \<and> (Some (ws_generation ws) \<noteq> checked_add_u64 (al_pre_generation lineage) 1
                           \<or> current_cid ws \<noteq> Some (al_new_cid lineage))
                     then Inl SP_GenerationChanged
                     else prepared)))"

fun quantity_valid :: "user_order_status \<Rightarrow> u64 \<Rightarrow> u64 \<Rightarrow> u64 \<Rightarrow> bool" where
  "quantity_valid UO_Resting initial filled remaining = (checked_sub_u64 initial filled = Some remaining)"
| "quantity_valid UO_Unknown initial filled remaining = (checked_sub_u64 initial filled = Some remaining)"
| "quantity_valid UO_Canceled initial filled remaining = (remaining = 0 \<and> filled \<le> initial)"
| "quantity_valid UO_Executed initial filled remaining = (remaining = 0 \<and> filled = initial)"

definition lineage_successor :: "wire_state \<Rightarrow> client_order_id \<Rightarrow> bool" where
  "lineage_successor ws cid =
     (case ws_amend_lineage ws of Some l \<Rightarrow> al_new_cid l = cid | None \<Rightarrow> False)"

text \<open>A frame that is older than, or contradicts, the last one of the same client order.\<close>

definition stale_frame :: "user_order_evidence \<Rightarrow> user_order_evidence \<Rightarrow> bool" where
  "stale_frame prev e =
     (uo_updated_ts_ms e < uo_updated_ts_ms prev \<or> uo_filled e < uo_filled prev
      \<or> (uo_updated_ts_ms e = uo_updated_ts_ms prev \<and> \<not> same_user_order_state e prev)
      \<or> (uo_status prev \<noteq> UO_Resting \<and> uo_status e = UO_Resting))"

definition prepare_user_order_received ::
  "wire_registry \<Rightarrow> ledger_id \<Rightarrow> venue_order_id \<Rightarrow> user_order_evidence
    \<Rightarrow> order_state_proof_error + journal_record option" where
  "prepare_user_order_received reg ledger wire e =
     (case registry_wire reg ledger wire of
        None \<Rightarrow> Inl SP_MissingWire
      | Some ws \<Rightarrow>
          (let received = Inr (Some (J_UserOrderReceived ledger wire e));
               belongs = (current_cid ws = Some (uo_client_order_id e)
                          \<or> lineage_successor ws (uo_client_order_id e))
           in if uo_wire e \<noteq> wire \<or> uo_market e \<noteq> ledger_market ledger
                 \<or> (case ws_observed_exchange_index ws of
                      Some i \<Rightarrow> i \<noteq> uo_exchange_index e | None \<Rightarrow> False)
              then Inl SP_WrongCurrent
              else if \<not> belongs then Inl SP_WrongCurrent
              else if \<not> quantity_valid (uo_status e) (uo_initial e) (uo_filled e) (uo_remaining e)
              then Inl SP_QuantityMismatch
              else
                (case ws_latest_user_order ws of
                   None \<Rightarrow> received
                 | Some prev \<Rightarrow>
                     if uo_client_order_id prev = uo_client_order_id e then
                       (if stale_frame prev e then Inl SP_StaleOrConflictingVersion
                        else if same_user_order_state e prev then Inr None
                        else received)
                     else if \<not> belongs then Inl SP_WrongCurrent
                     else received)))"


section \<open>Proofs of the remaining quantity\<close>

text \<open>The quantity of the held executions the inventory knows, with checked addition.\<close>

fun held_filled :: "market_inventory \<Rightarrow> u64 \<Rightarrow> fill_id list \<Rightarrow> u64 option" where
  "held_filled mi acc [] = Some acc"
| "held_filled mi acc (fid # ids) =
     (case checked_add_u64 acc (case inventory_get mi fid of Some e \<Rightarrow> ie_qty e | None \<Rightarrow> 0) of
        None \<Rightarrow> None
      | Some acc1 \<Rightarrow> held_filled mi acc1 ids)"

definition prove_remaining :: "wire_state \<Rightarrow> client_order_id \<Rightarrow> u64 \<Rightarrow> wire_state" where
  "prove_remaining ws cid remaining =
     ws\<lparr>ws_last := Some (OO_Consistent True),
        ws_remaining_observation := Some
          \<lparr>ro_remaining = remaining, ro_covered = ws_held ws, ro_generation = ws_generation ws\<rparr>,
        ws_proved_current_cid := Some cid, ws_amend_lineage := None\<rparr>"

definition resting_lineage_error :: "wire_state \<Rightarrow> user_order_evidence \<Rightarrow> order_state_proof_error option"
  where
  "resting_lineage_error ws e =
     (case ws_amend_lineage ws of
        Some l \<Rightarrow>
          if al_phase l \<noteq> AP_AppliedNeedsObservation \<or> uo_client_order_id e \<noteq> al_new_cid l
          then Some SP_LineageMismatch
          else (case checked_add_u64 (al_pre_generation l) 1 of
                  None \<Rightarrow> Some SP_GenerationChanged
                | Some g \<Rightarrow>
                    if ws_generation ws \<noteq> g then Some SP_LineageMismatch
                    else if uo_initial e \<noteq> al_declared_remaining l then Some SP_QuantityMismatch
                    else None)
      | None \<Rightarrow>
          if ws_generation ws \<noteq> 0 \<and> ws_proved_current_cid ws \<noteq> Some (uo_client_order_id e)
          then Some SP_LineageMismatch else None)"

definition prepare_order_state_resting ::
  "wire_registry \<Rightarrow> ledger_id \<Rightarrow> venue_order_id \<Rightarrow> market_inventory
    \<Rightarrow> order_state_proof_error + order_state_txn_record" where
  "prepare_order_state_resting reg ledger wire mi =
     (case registry_wire reg ledger wire of
        None \<Rightarrow> Inl SP_MissingWire
      | Some ws \<Rightarrow>
          if ws_authority_hold ws then Inl SP_InvalidTransition
          else
            (case ws_latest_user_order ws of
               None \<Rightarrow> Inl SP_MissingCurrent
             | Some e \<Rightarrow>
                 if uo_status e \<noteq> UO_Resting then Inl SP_InvalidTransition
                 else if current_cid ws \<noteq> Some (uo_client_order_id e) then Inl SP_LineageMismatch
                 else
                   (case resting_lineage_error ws e of
                      Some err \<Rightarrow> Inl err
                    | None \<Rightarrow>
                        (case held_filled mi 0 (ws_held ws) of
                           None \<Rightarrow> Inl SP_FillMismatch
                         | Some filled \<Rightarrow>
                             if uo_filled e \<noteq> filled then Inl SP_FillMismatch
                             else Inr
                               \<lparr>os_ledger = ledger, os_wire = wire, os_evidence = e,
                                os_inventory_generation_before = mi_generation mi,
                                os_wire_generation_before = ws_generation ws,
                                os_wire_after =
                                  prove_remaining ws (uo_client_order_id e) (uo_remaining e)\<rparr>))))"

definition apply_order_state_resting ::
  "wire_registry \<Rightarrow> order_state_txn_record \<Rightarrow> market_inventory
    \<Rightarrow> order_state_proof_error + wire_registry" where
  "apply_order_state_resting reg txn mi =
     (if mi_generation mi \<noteq> os_inventory_generation_before txn then Inl SP_InventoryChanged
      else
        (case prepare_order_state_resting reg (os_ledger txn) (os_wire txn) mi of
           Inl err \<Rightarrow> Inl err
         | Inr fresh \<Rightarrow>
             if fresh \<noteq> txn then Inl SP_GenerationChanged
             else Inr (put_wire (os_ledger txn) (os_wire txn) (os_wire_after txn) reg)))"

definition prepare_rest_order_proof ::
  "wire_registry \<Rightarrow> ledger_id \<Rightarrow> venue_order_id \<Rightarrow> client_order_id \<Rightarrow> u64 \<Rightarrow> u64 \<Rightarrow> u64
    \<Rightarrow> market_inventory \<Rightarrow> order_state_proof_error + rest_order_proof_txn_record" where
  "prepare_rest_order_proof reg ledger wire cid filled remaining initial mi =
     (case registry_wire reg ledger wire of
        None \<Rightarrow> Inl SP_MissingWire
      | Some ws \<Rightarrow>
          (case ws_amend_lineage ws of
             None \<Rightarrow> Inl SP_LineageMismatch
           | Some l \<Rightarrow>
               if (al_phase l \<noteq> AP_AppliedNeedsObservation \<and> al_phase l \<noteq> AP_RestDue)
                  \<or> current_cid ws \<noteq> Some cid \<or> al_new_cid l \<noteq> cid
               then Inl SP_LineageMismatch
               else
                 (case checked_add_u64 (al_pre_generation l) 1 of
                    None \<Rightarrow> Inl SP_GenerationChanged
                  | Some g \<Rightarrow>
                      if ws_generation ws \<noteq> g then Inl SP_LineageMismatch
                      else if initial \<noteq> al_declared_remaining l
                         \<or> checked_add_u64 filled remaining \<noteq> Some initial
                         \<or> ws_last ws \<noteq> Some (OO_Consistent False)
                      then Inl SP_QuantityMismatch
                      else
                        (case held_filled mi 0 (ws_held ws) of
                           None \<Rightarrow> Inl SP_FillMismatch
                         | Some covered \<Rightarrow>
                             if covered \<noteq> filled then Inl SP_FillMismatch
                             else Inr
                               \<lparr>rp_ledger = ledger, rp_wire = wire, rp_client_order_id = cid,
                                rp_filled = filled, rp_remaining = remaining, rp_initial = initial,
                                rp_inventory_generation_before = mi_generation mi,
                                rp_wire_generation_before = ws_generation ws,
                                rp_wire_after =
                                  (prove_remaining ws cid remaining)\<lparr>ws_authority_hold := False\<rparr>\<rparr>))))"

definition apply_rest_order_proof ::
  "wire_registry \<Rightarrow> rest_order_proof_txn_record \<Rightarrow> market_inventory
    \<Rightarrow> order_state_proof_error + wire_registry" where
  "apply_rest_order_proof reg txn mi =
     (if mi_generation mi \<noteq> rp_inventory_generation_before txn then Inl SP_InventoryChanged
      else
        (case prepare_rest_order_proof reg (rp_ledger txn) (rp_wire txn) (rp_client_order_id txn)
                (rp_filled txn) (rp_remaining txn) (rp_initial txn) mi of
           Inl err \<Rightarrow> Inl err
         | Inr fresh \<Rightarrow>
             if fresh \<noteq> txn then Inl SP_GenerationChanged
             else Inr (put_wire (rp_ledger txn) (rp_wire txn) (rp_wire_after txn) reg)))"

end
