(* ===== verification/Wire_Fold.thy ===== *)
theory Wire_Fold
  imports Wire_Registry
begin

text \<open>
  The fold of journal records into the wire registry, and what is read off it: the route of an
  execution, the working quantity of a wire or a member, and the readiness of a ledger.
\<close>

section \<open>Members\<close>

fun is_terminal_state :: "order_state \<Rightarrow> bool" where
  "is_terminal_state St_Filled = True"
| "is_terminal_state St_Canceled = True"
| "is_terminal_state St_Terminal = True"
| "is_terminal_state (St_Halted _) = True"
| "is_terminal_state St_ImmediateFillUnresolved = True"
| "is_terminal_state St_UnknownNoMatch = True"
| "is_terminal_state _ = False"

text \<open>The first member of that client order becomes terminal.\<close>

fun terminalize_first :: "client_order_id \<Rightarrow> member list \<Rightarrow> member list" where
  "terminalize_first cid [] = []"
| "terminalize_first cid (m # ms) =
     (if mb_cid m = cid then m\<lparr>mb_role := MR_Terminal\<rparr> # ms else m # terminalize_first cid ms)"

definition supersede :: "member \<Rightarrow> member" where
  "supersede m = (if mb_role m \<noteq> MR_Terminal then m\<lparr>mb_role := MR_Superseded\<rparr> else m)"

definition bind_to_wire :: "u64 \<Rightarrow> client_order_id \<Rightarrow> wire_state \<Rightarrow> wire_state" where
  "bind_to_wire pos cid ws =
     (if list_ex (\<lambda>m. mb_cid m = cid) (ws_members ws) then ws
      else
        (let joined = \<lparr>mb_cid = cid, mb_role = MR_Current, mb_bind_pos = pos\<rparr>
         in if ws_members ws = [] then
              ws\<lparr>ws_members := [joined], ws_kind := WK_Scoped,
                 ws_tracked := (ws_held ws \<noteq> [] \<and> \<not> ws_resolved ws)\<rparr>
            else
              ws\<lparr>ws_members := map supersede (ws_members ws) @ [joined], ws_kind := WK_Scoped\<rparr>))"

definition bind_member ::
  "u64 \<Rightarrow> ledger_id \<Rightarrow> venue_order_id \<Rightarrow> client_order_id \<Rightarrow> wire_registry \<Rightarrow> wire_registry" where
  "bind_member pos ledger wire cid reg = ensure_wire ledger wire (bind_to_wire pos cid) reg"

text \<open>A change to every wire of the ledger.\<close>

definition on_wires ::
  "ledger_id \<Rightarrow> (wire_state \<Rightarrow> wire_state) \<Rightarrow> wire_registry \<Rightarrow> wire_registry" where
  "on_wires ledger f reg =
     reg\<lparr>wr_wires := map (\<lambda>((led, wire), ws). ((led, wire), if led = ledger then f ws else ws))
          (wr_wires reg)\<rparr>"

definition terminalize_wire :: "client_order_id \<Rightarrow> wire_state \<Rightarrow> wire_state" where
  "terminalize_wire cid ws = ws\<lparr>ws_members := terminalize_first cid (ws_members ws)\<rparr>"

definition terminalize_cid :: "ledger_id \<Rightarrow> client_order_id \<Rightarrow> wire_registry \<Rightarrow> wire_registry" where
  "terminalize_cid ledger cid reg = on_wires ledger (terminalize_wire cid) reg"

definition bump_wire :: "client_order_id \<Rightarrow> wire_state \<Rightarrow> wire_state" where
  "bump_wire cid ws =
     (if list_ex (\<lambda>m. mb_cid m = cid) (ws_members ws)
      then ws\<lparr>ws_generation := sat_add_u64 (ws_generation ws) 1, ws_remaining_observation := None,
              ws_proved_current_cid := None\<rparr>
      else ws)"

definition bump_generation :: "ledger_id \<Rightarrow> client_order_id \<Rightarrow> wire_registry \<Rightarrow> wire_registry" where
  "bump_generation ledger cid reg = on_wires ledger (bump_wire cid) reg"


section \<open>Order parts\<close>

text \<open>
  A terminal claim, or a fill that filled the order, that the admitted terminal frame of the proved
  child confirms: it discharges a hold older than the frame.
\<close>

definition confirms_terminal :: "order_txn_record \<Rightarrow> venue_order_id \<Rightarrow> wire_state \<Rightarrow> bool" where
  "confirms_terminal o_rec wire ws =
     (ws_authority_hold ws \<and> ws_generation ws > 0 \<and> ws_amend_lineage ws = None
      \<and> ws_latest_user_order_revision ws > ws_authority_hold_revision ws
      \<and> current_cid ws = Some (ot_client_order_id o_rec)
      \<and> ws_proved_current_cid ws = Some (ot_client_order_id o_rec)
      \<and> (case ws_latest_user_order ws of
           None \<Rightarrow> False
         | Some e \<Rightarrow>
             uo_wire e = wire \<and> uo_market e = ledger_market (ot_ledger o_rec)
             \<and> uo_client_order_id e = ot_client_order_id o_rec
             \<and> ws_observed_exchange_index ws = Some (uo_exchange_index e)
             \<and> (uo_status e = UO_Canceled \<or> uo_status e = UO_Executed)
             \<and> (ot_event o_rec \<noteq> ''Fill'' \<or> uo_status e = UO_Executed)
             \<and> uo_filled e = attributed_fill_qty (ot_ctx_after o_rec)))"

definition terminal_hold_wire :: "wire_registry \<Rightarrow> order_txn_record \<Rightarrow> venue_order_id option" where
  "terminal_hold_wire reg o_rec =
     (if (ot_event o_rec = ''UserOrderTerminalClaim''
          \<or> ot_event o_rec = ''Fill'' \<and> ot_state_after o_rec = St_Filled)
         \<and> (ot_state_after o_rec = St_Canceled \<or> ot_state_after o_rec = St_Filled
            \<or> ot_state_after o_rec = St_Terminal)
      then
        (case venue_order_id_of (ot_ctx_after o_rec) of
           None \<Rightarrow> None
         | Some wire \<Rightarrow>
             (case registry_wire reg (ot_ledger o_rec) wire of
                None \<Rightarrow> None
              | Some ws \<Rightarrow> if confirms_terminal o_rec wire ws then Some wire else None))
      else None)"

fun fold_core_record :: "u64 \<Rightarrow> order_txn_record \<Rightarrow> journal_record \<Rightarrow> wire_registry \<Rightarrow> wire_registry" where
  "fold_core_record pos o_rec (J_VenueBoundCid cid wire) reg = bind_member pos (ot_ledger o_rec) wire cid reg"
| "fold_core_record pos o_rec (J_OrderTerminal _ _ _ _ _ _ _) reg =
     terminalize_cid (ot_ledger o_rec) (ot_client_order_id o_rec) reg"
| "fold_core_record pos o_rec (J_Halted _) reg =
     terminalize_cid (ot_ledger o_rec) (ot_client_order_id o_rec) reg"
| "fold_core_record pos o_rec (J_OwnActionCid cid _) reg = bump_generation (ot_ledger o_rec) cid reg"
| "fold_core_record pos o_rec _ reg = reg"

fun fold_core_records ::
  "u64 \<Rightarrow> order_txn_record \<Rightarrow> journal_record list \<Rightarrow> wire_registry \<Rightarrow> wire_registry" where
  "fold_core_records pos o_rec [] reg = reg"
| "fold_core_records pos o_rec (r # rs) reg = fold_core_records pos o_rec rs (fold_core_record pos o_rec r reg)"

definition discharge_hold :: "client_order_id \<Rightarrow> wire_state \<Rightarrow> wire_state" where
  "discharge_hold cid ws =
     (if list_ex (\<lambda>m. mb_cid m = cid \<and> mb_role m = MR_Terminal) (ws_members ws)
         \<and> list_all (\<lambda>m. mb_role m \<noteq> MR_Current) (ws_members ws)
      then ws\<lparr>ws_authority_hold := False\<rparr> else ws)"

definition fold_order_part ::
  "u64 \<Rightarrow> order_txn_record \<Rightarrow> wire_registry \<Rightarrow> rebuild_error + wire_registry" where
  "fold_order_part pos o_rec reg =
     (let key = (ot_ledger o_rec, ot_client_order_id o_rec, ot_seq o_rec)
      in case bt_get (wr_seen_order reg) key of
           Some prev \<Rightarrow>
             if prev \<noteq> o_rec then Inl (RE_Divergent (ot_client_order_id o_rec) (ot_seq o_rec)) else Inr reg
         | None \<Rightarrow>
             (let seen = reg\<lparr>wr_seen_order := bt_insert key o_rec (wr_seen_order reg)\<rparr>;
                  hold = terminal_hold_wire seen o_rec;
                  folded = fold_core_records pos o_rec (ot_core_records o_rec) seen
              in Inr (case hold of
                        None \<Rightarrow> folded
                      | Some wire \<Rightarrow>
                          (case registry_wire folded (ot_ledger o_rec) wire of
                             None \<Rightarrow> folded
                           | Some ws \<Rightarrow>
                               put_wire (ot_ledger o_rec) wire
                                 (discharge_hold (ot_client_order_id o_rec) ws) folded))))"


section \<open>Executions\<close>

definition hold_execution :: "fill_id \<Rightarrow> inventory_entry \<Rightarrow> wire_state \<Rightarrow> wire_state" where
  "hold_execution fid entry ws =
     (let held = ws\<lparr>ws_held := asc_insert fid (ws_held ws)\<rparr>
      in if fid \<notin> set (ws_held ws) \<and> ie_owner entry = None then
           (case ws_kind ws of
              WK_VenueOnly \<Rightarrow> held\<lparr>ws_resolved := False\<rparr>
            | WK_Scoped \<Rightarrow> held\<lparr>ws_tracked := True\<rparr>)
         else held)"

definition index_execution :: "execution_outcome \<Rightarrow> wire_registry \<Rightarrow> wire_registry" where
  "index_execution out reg =
     (case or_else (Option.bind (eo_entry_after out) ie_venue_order_id)
             (ev_venue_order_id (eo_evidence out)) of
        None \<Rightarrow> reg
      | Some w \<Rightarrow>
          reg\<lparr>wr_id_index := bt_insert w
                (asc_insert (ev_execution_id (eo_evidence out))
                  (case bt_get (wr_id_index reg) w of Some ids \<Rightarrow> ids | None \<Rightarrow> []))
                (wr_id_index reg)\<rparr>)"

definition fold_execution :: "ledger_id \<Rightarrow> execution_outcome \<Rightarrow> wire_registry \<Rightarrow> wire_registry" where
  "fold_execution ledger out reg =
     (let reg1 = index_execution out reg
      in if writes_entry (eo_inventory out) then
           (case eo_entry_after out of
              None \<Rightarrow> reg1
            | Some entry \<Rightarrow>
                (case ie_venue_order_id entry of
                   None \<Rightarrow> reg1
                 | Some w \<Rightarrow>
                     ensure_wire ledger w
                       (hold_execution (ev_execution_id (eo_evidence out)) entry) reg1))
         else reg1)"

fun fold_executions ::
  "ledger_id \<Rightarrow> execution_outcome list \<Rightarrow> wire_registry \<Rightarrow> wire_registry" where
  "fold_executions ledger [] reg = reg"
| "fold_executions ledger (out # outs) reg = fold_executions ledger outs (fold_execution ledger out reg)"


section \<open>The fold\<close>

text \<open>Members an observation made terminal become so on the wire it wrote.\<close>

fun terminalize_members :: "member_after list \<Rightarrow> wire_state \<Rightarrow> wire_state" where
  "terminalize_members [] ws = ws"
| "terminalize_members (m # ms) ws =
     terminalize_members ms
       (if is_terminal_state (ma_state_after m) then terminalize_wire (ma_client_order_id m) ws else ws)"

fun registry_fold ::
  "u64 \<Rightarrow> journal_record \<Rightarrow> wire_registry \<Rightarrow> rebuild_error + wire_registry" where
  "registry_fold pos (J_OrderTxn o_rec) reg = fold_order_part pos o_rec reg"
| "registry_fold pos (J_ExecutionTxn txn) reg =
     (case (case et_order txn of Some o_rec \<Rightarrow> fold_order_part pos o_rec reg | None \<Rightarrow> Inr reg) of
        Inl err \<Rightarrow> Inl err
      | Inr reg1 \<Rightarrow> Inr (fold_executions (et_ledger txn) (et_executions txn) reg1))"
| "registry_fold pos (J_ObservationTxn t) reg =
     Inr (put_wire (ob_ledger t) (ob_wire t)
            (terminalize_members (ob_members_after t) (ob_wire_after t)) reg)"
| "registry_fold pos (J_AmendLineage ledger wire lineage) reg =
     Inr (ensure_wire ledger wire (\<lambda>ws. ws\<lparr>ws_amend_lineage := lineage\<rparr>) reg)"
| "registry_fold pos (J_UserOrderReceived ledger wire e) reg =
     Inr (ensure_wire ledger wire
            (\<lambda>ws. ws\<lparr>ws_latest_user_order := Some e,
                     ws_latest_user_order_revision := sat_add_u64 pos 1,
                     ws_observed_exchange_index := Some (uo_exchange_index e)\<rparr>) reg)"
| "registry_fold pos (J_OrderAuthorityHold ledger wire) reg =
     Inr (ensure_wire ledger wire
            (\<lambda>ws. ws\<lparr>ws_authority_hold := True, ws_authority_hold_revision := sat_add_u64 pos 1\<rparr>) reg)"
| "registry_fold pos (J_OrderStateTxn t) reg =
     Inr (put_wire (os_ledger t) (os_wire t) (os_wire_after t) reg)"
| "registry_fold pos (J_RestOrderProofTxn t) reg =
     Inr (put_wire (rp_ledger t) (rp_wire t) (rp_wire_after t) reg)"
| "registry_fold pos _ reg = Inr reg"

fun registry_fold_all ::
  "u64 \<Rightarrow> journal_record list \<Rightarrow> wire_registry \<Rightarrow> rebuild_error + wire_registry" where
  "registry_fold_all pos [] reg = Inr reg"
| "registry_fold_all pos (r # rs) reg =
     (case registry_fold pos r reg of
        Inl err \<Rightarrow> Inl err
      | Inr reg1 \<Rightarrow> registry_fold_all (pos + 1) rs reg1)"

definition registry_rebuild :: "journal_record list \<Rightarrow> rebuild_error + wire_registry" where
  "registry_rebuild recs = registry_fold_all 0 recs registry_new"


section \<open>What the registry answers\<close>

definition route_of ::
  "wire_registry \<Rightarrow> ledger_id \<Rightarrow> venue_order_id \<Rightarrow> fill_id \<Rightarrow> market_inventory \<Rightarrow> route" where
  "route_of reg ledger wire fid mi =
     (let members = (case registry_wire reg ledger wire of Some ws \<Rightarrow> ws_members ws | None \<Rightarrow> []);
          known = inventory_get mi fid
      in case Option.bind known ie_owner of
           Some c \<Rightarrow> R_ExistingOwner c
         | None \<Rightarrow>
             (case members of
                [] \<Rightarrow> R_VenueOnly
              | [m] \<Rightarrow> if known \<noteq> None then R_UnownedUnique (mb_cid m) else R_NewUnique (mb_cid m)
              | _ \<Rightarrow> if known \<noteq> None then R_UnownedAmbiguous else R_NewAmbiguous))"

definition wire_working :: "wire_state \<Rightarrow> working_view" where
  "wire_working ws =
     (if ws_authority_hold ws then WV_Unresolved
      else
        (case ws_remaining_observation ws of
           None \<Rightarrow> WV_Unresolved
         | Some obs \<Rightarrow>
             if ws_last ws = Some (OO_Consistent True) \<and> ro_covered obs = ws_held ws
                \<and> ro_generation obs = ws_generation ws
                \<and> (ws_generation ws = 0 \<or> ws_proved_current_cid ws = current_cid ws)
             then WV_Known (ro_remaining obs) else WV_Unresolved))"

definition working_view_of :: "wire_registry \<Rightarrow> ledger_id \<Rightarrow> venue_order_id \<Rightarrow> working_view" where
  "working_view_of reg ledger wire =
     (case registry_wire reg ledger wire of None \<Rightarrow> WV_Unresolved | Some ws \<Rightarrow> wire_working ws)"

fun first_member_view ::
  "wire_registry \<Rightarrow> ledger_id \<Rightarrow> client_order_id \<Rightarrow> ((ledger_id \<times> venue_order_id) \<times> wire_state) list
    \<Rightarrow> working_view" where
  "first_member_view reg ledger cid [] = WV_Unresolved"
| "first_member_view reg ledger cid (((led, wire), ws) # wires) =
     (if led \<noteq> ledger then first_member_view reg ledger cid wires
      else
        (case find (\<lambda>m. mb_cid m = cid) (ws_members ws) of
           None \<Rightarrow> first_member_view reg ledger cid wires
         | Some m \<Rightarrow>
             if mb_role m \<noteq> MR_Current then WV_Unresolved else working_view_of reg led wire))"

definition member_working_view :: "wire_registry \<Rightarrow> ledger_id \<Rightarrow> client_order_id \<Rightarrow> working_view" where
  "member_working_view reg ledger cid = first_member_view reg ledger cid (wr_wires reg)"

text \<open>The debt of the members of one wire; the total so far rides along.\<close>

fun members_debt ::
  "(client_order_id \<Rightarrow> order_row option) \<Rightarrow> ledger_id \<Rightarrow> member list \<Rightarrow> u64 \<Rightarrow> u64
    \<Rightarrow> readiness_error + (u64 \<times> u64)" where
  "members_debt lookup led [] wire_debt debt = Inr (wire_debt, debt)"
| "members_debt lookup led (m # ms) wire_debt debt =
     (case lookup (mb_cid m) of
        None \<Rightarrow> Inl (RY_MissingMember (mb_cid m))
      | Some row \<Rightarrow>
          if client_order_id_of (row_ctx row) \<noteq> mb_cid m then
            Inl (RY_MemberMismatch (mb_cid m) MM_WrongCid)
          else if ledger_scope (row_ledger row) \<noteq> ledger_scope led then
            Inl (RY_MemberMismatch (mb_cid m) MM_ForeignScope)
          else if ledger_market (row_ledger row) \<noteq> ledger_market led
             \<or> market_of (row_ctx row) \<noteq> ledger_market led then
            Inl (RY_MemberMismatch (mb_cid m) MM_ForeignMarket)
          else
            (let d = sat_sub_u64 (fill_obligation (row_ctx row)) (attributed_fill_qty (row_ctx row))
             in members_debt lookup led ms (sat_add_u64 wire_debt d) (sat_add_u64 debt d)))"

fun held_sum :: "market_inventory \<Rightarrow> u64 \<Rightarrow> fill_id list \<Rightarrow> u64" where
  "held_sum mi acc [] = acc"
| "held_sum mi acc (fid # ids) =
     held_sum mi (sat_add_u64 acc (case inventory_get mi fid of Some e \<Rightarrow> ie_qty e | None \<Rightarrow> 0)) ids"

definition venue_only_open :: "wire_state \<Rightarrow> bool" where
  "venue_only_open ws = (ws_kind ws = WK_VenueOnly \<and> \<not> ws_resolved ws)"

definition scoped_tracked :: "wire_state \<Rightarrow> bool" where
  "scoped_tracked ws = (ws_kind ws = WK_Scoped \<and> ws_tracked ws)"

fun readiness_wires ::
  "(client_order_id \<Rightarrow> order_row option) \<Rightarrow> market_inventory \<Rightarrow> ledger_id
    \<Rightarrow> ((ledger_id \<times> venue_order_id) \<times> wire_state) list \<Rightarrow> u64 \<Rightarrow> u64 \<Rightarrow> nat \<Rightarrow> nat
    \<Rightarrow> readiness_error + readiness" where
  "readiness_wires lookup mi ledger [] debt residual venue_only tracked =
     Inr (if venue_only \<noteq> 0 \<or> tracked \<noteq> 0 then RD_Unresolved debt residual venue_only tracked
          else RD_Ready)"
| "readiness_wires lookup mi ledger (((led, wire), ws) # wires) debt residual venue_only tracked =
     (if led \<noteq> ledger then readiness_wires lookup mi ledger wires debt residual venue_only tracked
      else
        (case members_debt lookup led (ws_members ws) 0 debt of
           Inl err \<Rightarrow> Inl err
         | Inr (wire_debt, debt1) \<Rightarrow>
             readiness_wires lookup mi ledger wires debt1
               (sat_add_u64 residual
                 (sat_sub_u64 (sat_sub_u64 (ws_filled_hw ws) (held_sum mi 0 (ws_held ws))) wire_debt))
               (if venue_only_open ws then venue_only + 1 else venue_only)
               (if scoped_tracked ws then tracked + 1 else tracked)))"

definition readiness_of ::
  "wire_registry \<Rightarrow> ledger_id \<Rightarrow> (client_order_id \<Rightarrow> order_row option) \<Rightarrow> market_inventory
    \<Rightarrow> readiness_error + readiness" where
  "readiness_of reg ledger lookup mi =
     (if mi_ledger mi = ledger \<and> mi_conflicts mi \<noteq> [] then Inr RD_Conflict
      else readiness_wires lookup mi ledger (wr_wires reg) 0 0 0 0)"

end
