(* ===== verification/Observation_Round.thy ===== *)
theory Observation_Round
  imports Wire_Fold
begin

text \<open>
  Observation rounds of \<^verbatim>\<open>src/observation.rs\<close>: a round collects the outcomes of one backfill of a
  wire, \<open>finish\<close> judges the venue's row against what the wire holds and prepares a transaction over all
  non-terminal members, and \<open>apply\<close> commits it to the rows and the registry. The rebuild of an order
  reads the members an observation moved as well.
\<close>

section \<open>The round\<close>

datatype round_error =
    RN_ForeignRow
  | RN_MembersInvalid "client_order_id list" "client_order_id list" "client_order_id list"
      "client_order_id list"

datatype observation_apply_mismatch =
    OM_WireGeneration u64 u64
  | OM_Targets "client_order_id list" "client_order_id list"
  | OM_Member apply_mismatch

record observation_round =
  rd_ledger :: ledger_id
  rd_wire :: venue_order_id
  rd_outcomes :: "execution_outcome list"
  rd_page :: "page_meta option"

record prepared_member =
  pm_cid :: client_order_id
  pm_ledger :: ledger_id
  pm_expected_cursor :: order_cursor
  pm_expected_state :: order_state
  pm_expected_ctx :: order_ctx

record observation_transaction =
  bx_outcome :: observation_outcome
  bx_journal :: "journal_record option"
  bx_effects :: "effect list"
  bx_prepared_cids :: "client_order_id list"
  bx_prepared_members :: "prepared_member list"
  bx_expected_inventory_generation :: u64
  bx_expected_wire_generation :: u64
  bx_ledger :: ledger_id
  bx_wire :: venue_order_id
  bx_members_after :: "member_after list"
  bx_wire_after :: wire_state

definition round_begin :: "ledger_id \<Rightarrow> venue_order_id \<Rightarrow> observation_round" where
  "round_begin ledger wire =
     \<lparr>rd_ledger = ledger, rd_wire = wire, rd_outcomes = [], rd_page = None\<rparr>"

definition round_record ::
  "observation_round \<Rightarrow> execution_outcome \<Rightarrow> round_error + observation_round" where
  "round_record rd out =
     (if or_else (ev_venue_order_id (eo_evidence out)) (Option.bind (eo_entry_after out) ie_venue_order_id)
         = Some (rd_wire rd)
      then Inr (rd\<lparr>rd_outcomes := rd_outcomes rd @ [out]\<rparr>) else Inl RN_ForeignRow)"

definition round_page :: "observation_round \<Rightarrow> page_meta \<Rightarrow> observation_round" where
  "round_page rd meta = rd\<lparr>rd_page := Some meta\<rparr>"

fun is_conflict :: "inventory_disposition \<Rightarrow> bool" where
  "is_conflict (ID_Conflict _) = True"
| "is_conflict _ = False"

fun page_ids :: "execution_outcome list \<Rightarrow> fill_id list" where
  "page_ids [] = []"
| "page_ids (out # outs) =
     (if eo_order out \<noteq> OD_Ignored ZeroQty
         \<and> (eo_entry_after out \<noteq> None \<or> is_conflict (eo_inventory out))
      then asc_insert (ev_execution_id (eo_evidence out)) (page_ids outs) else page_ids outs)"


section \<open>The members of the round\<close>

text \<open>
  One pass over the rows: client orders seen twice, not expected on the wire, and rows of another
  ledger or market. A second pass in the code flags rows of another ledger again, without repeating
  one; the first has flagged them all.
\<close>

fun scan_members ::
  "ledger_id \<Rightarrow> client_order_id list \<Rightarrow> order_row list \<Rightarrow> client_order_id list
    \<Rightarrow> client_order_id list \<times> client_order_id list \<times> client_order_id list" where
  "scan_members ledger expected [] seen = ([], [], [])"
| "scan_members ledger expected (row # rows) seen =
     (let cid = client_order_id_of (row_ctx row);
          (duplicate, extra, mismatched) = scan_members ledger expected rows (cid # seen)
      in (if cid \<in> set seen then cid # duplicate else duplicate,
          if cid \<notin> set expected then cid # extra else extra,
          if row_ledger row \<noteq> ledger \<or> market_of (row_ctx row) \<noteq> ledger_market ledger
             \<or> ledger_market (row_ledger row) \<noteq> ledger_market ledger
          then cid # mismatched else mismatched))"

definition members_error ::
  "ledger_id \<Rightarrow> client_order_id list \<Rightarrow> order_row list \<Rightarrow> round_error option" where
  "members_error ledger expected rows =
     (let (duplicate, extra, mismatched) = scan_members ledger expected rows [];
          found = map (\<lambda>row. client_order_id_of (row_ctx row)) rows;
          missing = filter (\<lambda>cid. cid \<notin> set found) expected
      in if missing \<noteq> [] \<or> extra \<noteq> [] \<or> duplicate \<noteq> [] \<or> mismatched \<noteq> []
         then Some (RN_MembersInvalid missing extra duplicate mismatched) else None)"


section \<open>The judgement\<close>

definition judge_round ::
  "execution_outcome list \<Rightarrow> page_meta option \<Rightarrow> fill_id list \<Rightarrow> u64 \<Rightarrow> u64 \<Rightarrow> bool \<Rightarrow> observation_outcome"
  where
  "judge_round outs page held high_water covered fresh =
     (if list_ex (\<lambda>out. is_conflict (eo_inventory out) \<or> eo_conflict out \<noteq> None) outs then OO_Conflict
      else if (case page of None \<Rightarrow> True | Some p \<Rightarrow> \<not> pm_exhaustive p \<or> pm_parse_failures p > 0)
      then OO_Incomplete
      else if page_ids outs \<noteq> held then OO_NotCovered
      else if high_water > covered then OO_RowInconsistent
      else OO_Consistent fresh)"

fun venue_from_state :: "order_state \<Rightarrow> venue_order_id option" where
  "venue_from_state (St_Accepted v) = Some v"
| "venue_from_state (St_Partial v _ _) = Some v"
| "venue_from_state (St_CancelPending v _ _ _ _ _ _) = Some v"
| "venue_from_state (St_ReconcilePending v _ _ _ _ _ _) = Some v"
| "venue_from_state (St_ImmediateFillUnattributed v _ _ _ _) = Some v"
| "venue_from_state _ = None"

definition live_with_remaining :: "order_state \<Rightarrow> order_ctx \<Rightarrow> u64 \<Rightarrow> order_state" where
  "live_with_remaining st c remaining =
     (case or_else (venue_from_state st) (venue_order_id_of c) of
        None \<Rightarrow> st
      | Some v \<Rightarrow>
          if attributed_fill_qty c = 0 \<and> remaining = order_qty c then St_Accepted v
          else St_Partial v (attributed_fill_qty c) remaining)"

text \<open>
  The state, context and effects of one member. The members have distinct client orders at this
  point, so the scratch copy of a member is its own row.
\<close>

type_synonym member_step = "order_state \<times> order_ctx \<times> effect list"

definition with_transition ::
  "order_state \<Rightarrow> order_ctx \<Rightarrow> effect list \<Rightarrow> transition_outcome \<Rightarrow> member_step" where
  "with_transition st c effects t = (state_after_transition t st, c, effects @ outcome_effects t)"

definition observe_unproved :: "bool \<Rightarrow> u64 \<Rightarrow> order_state \<Rightarrow> order_ctx \<Rightarrow> member_step" where
  "observe_unproved single high_water st c =
     (let request = [RequestAuthorityReconcile (or_else (venue_order_id_of c) (venue_from_state st))
                       (client_order_id_of c)]
      in if single then
           (case raise_fill_obligation c high_water of
              Inr c1 \<Rightarrow>
                (st, c1, if fill_obligation c1 > fill_obligation c
                   then request @ [AppendFsync (J_ObligationRaised (fill_obligation c1) (authority_epoch c1))]
                   else request)
            | Inl reason \<Rightarrow> with_transition st c request (halt_with_reason reason []))
         else (st, c, request))"

definition live_excess_text :: "u64 \<Rightarrow> u64 \<Rightarrow> string" where
  "live_excess_text remaining cap =
     ''live remaining '' @ show_nat remaining @ '' > qty-attributed '' @ show_nat cap"

definition observe_consistent ::
  "bool \<Rightarrow> bool \<Rightarrow> bool \<Rightarrow> venue_order_id \<Rightarrow> u64 \<Rightarrow> row_evidence \<Rightarrow> order_state \<Rightarrow> order_ctx \<Rightarrow> member_step"
  where
  "observe_consistent fresh single is_current wire high_water row st c =
     (let v = (case or_else (venue_order_id_of c) (venue_from_state st) of Some v \<Rightarrow> v | None \<Rightarrow> wire);
          c1 = latch_authority_complete c;
          latched = [AppendFsync (J_AuthorityLatched (authority_epoch c1))]
      in case re_status row of
           BS_Canceled \<Rightarrow>
             with_transition st c1 latched
               (if is_current then try_finalize_terminal c1 PT_Canceled v [] RT_Canceled
                else try_finalize_terminal c1 PT_Terminal v [] RT_Terminal)
         | BS_Filled \<Rightarrow>
             with_transition st c1 latched
               (if single \<and> high_water = order_qty c1 \<and> re_remaining row = 0
                then try_finalize_terminal c1 (PT_Filled high_water 0) v [] RT_Filled
                else try_finalize_terminal c1 PT_Terminal v [] RT_Terminal)
         | _ \<Rightarrow>
             if \<not> is_current then
               with_transition st c1 latched (try_finalize_terminal c1 PT_Terminal v [] RT_Terminal)
             else if fresh then
               (let cap = sat_sub_u64 (order_qty c1) (attributed_fill_qty c1)
                in if single \<and> re_remaining row > cap then
                     with_transition st c1 latched
                       (halt_with_reason
                         (H_CrossCheckMismatch (live_excess_text (re_remaining row) cap)) [])
                   else
                     (let c2 = note_venue_remaining c1 (re_remaining row)
                      in (live_with_remaining st c2 (re_remaining row), c2, latched)))
             else (st, c1, latched))"

definition observe_member ::
  "wire_state \<Rightarrow> venue_order_id \<Rightarrow> u64 \<Rightarrow> row_evidence \<Rightarrow> observation_outcome \<Rightarrow> order_row \<Rightarrow> member_step"
  where
  "observe_member ws wire high_water row outcome r =
     (let single = (length (ws_members ws) = 1);
          is_current = (current_cid ws = Some (client_order_id_of (row_ctx r)))
      in if is_restart_frozen (row_state r) then (row_state r, row_ctx r, [])
         else
           (case outcome of
              OO_Conflict \<Rightarrow> (row_state r, row_ctx r, [])
            | OO_Consistent fresh \<Rightarrow>
                observe_consistent fresh single is_current wire high_water row (row_state r) (row_ctx r)
            | _ \<Rightarrow> observe_unproved single high_water (row_state r) (row_ctx r)))"

fun is_reconcile_pending :: "order_state \<Rightarrow> bool" where
  "is_reconcile_pending (St_ReconcilePending _ _ _ _ _ _ _) = True"
| "is_reconcile_pending _ = False"

definition member_moved :: "order_row \<Rightarrow> member_step \<Rightarrow> member_after option" where
  "member_moved r ms =
     (case ms of (st, c, _) \<Rightarrow>
        if st \<noteq> row_state r \<or> c \<noteq> row_ctx r
        then Some \<lparr>ma_client_order_id = client_order_id_of (row_ctx r),
                   ma_seq = next_seq (oc_seq (row_cursor r)), ma_state_after = st, ma_ctx_after = c\<rparr>
        else None)"


section \<open>Finishing a round\<close>

definition sticky_status :: "backfill_order_status \<Rightarrow> backfill_order_status \<Rightarrow> backfill_order_status" where
  "sticky_status old new = (if old = BS_Filled \<or> old = BS_Canceled then old else new)"

definition is_consistent :: "observation_outcome \<Rightarrow> bool" where
  "is_consistent outcome = (case outcome of OO_Consistent _ \<Rightarrow> True | _ \<Rightarrow> False)"

definition role_after :: "member_after list \<Rightarrow> member \<Rightarrow> member" where
  "role_after moved m =
     (case find (\<lambda>a. ma_client_order_id a = mb_cid m) moved of
        Some a \<Rightarrow> if is_terminal_state (ma_state_after a) then m\<lparr>mb_role := MR_Terminal\<rparr> else m
      | None \<Rightarrow> m)"

definition observed_wire ::
  "wire_state \<Rightarrow> u64 \<Rightarrow> row_evidence \<Rightarrow> observation_outcome \<Rightarrow> bool \<Rightarrow> member_after list \<Rightarrow> wire_state" where
  "observed_wire ws high_water row outcome pending moved =
     (let status = sticky_status (ws_status ws) (re_status row);
          w1 = ws\<lparr>ws_filled_hw := high_water, ws_status := status,
                  ws_tracked := (\<not> is_consistent outcome \<or> pending), ws_last := Some outcome\<rparr>;
          w2 = (if outcome = OO_Consistent True
                then w1\<lparr>ws_authority_hold := False,
                        ws_remaining_observation := Some
                          \<lparr>ro_remaining = re_remaining row, ro_covered = ws_held ws,
                           ro_generation = ws_generation ws\<rparr>\<rparr>
                else w1\<lparr>ws_remaining_observation := None\<rparr>);
          w3 = (if ws_kind w2 = WK_VenueOnly
                then w2\<lparr>ws_resolved := ((status = BS_Filled \<or> status = BS_Canceled)
                                        \<and> is_consistent outcome)\<rparr>
                else w2);
          w4 = w3\<lparr>ws_members := map (role_after moved) (ws_members w3)\<rparr>
      in if ws_authority_hold ws \<and> (re_status row = BS_Canceled \<or> re_status row = BS_Filled)
            \<and> is_consistent outcome \<and> \<not> pending \<and> ws_members w4 \<noteq> []
            \<and> list_all (\<lambda>m. mb_role m = MR_Terminal) (ws_members w4)
         then w4\<lparr>ws_authority_hold := False\<rparr> else w4)"

definition prepared_of :: "order_row \<Rightarrow> prepared_member" where
  "prepared_of r =
     \<lparr>pm_cid = client_order_id_of (row_ctx r), pm_ledger = row_ledger r,
      pm_expected_cursor = row_cursor r, pm_expected_state = row_state r,
      pm_expected_ctx = row_ctx r\<rparr>"

fun keep_some :: "'a option list \<Rightarrow> 'a list" where
  "keep_some [] = []"
| "keep_some (None # xs) = keep_some xs"
| "keep_some (Some x # xs) = x # keep_some xs"

text \<open>The judgement of a row and its transaction, once the members are valid.\<close>

definition round_outcome ::
  "observation_round \<Rightarrow> wire_state \<Rightarrow> market_inventory \<Rightarrow> row_evidence \<Rightarrow> observation_outcome" where
  "round_outcome rd ws mi row =
     (let covered = held_sum mi 0 (ws_held ws);
          fresh = (re_filled row = covered \<and> ws_generation ws = 0 \<and> re_marker row = WireMarker 0)
      in judge_round (rd_outcomes rd) (rd_page rd) (ws_held ws) (max (ws_filled_hw ws) (re_filled row))
           covered fresh)"

definition round_transaction ::
  "observation_round \<Rightarrow> wire_state \<Rightarrow> market_inventory \<Rightarrow> order_row list \<Rightarrow> row_evidence
    \<Rightarrow> observation_transaction" where
  "round_transaction rd ws mi rows row =
     (let outcome = round_outcome rd ws mi row;
          high_water = max (ws_filled_hw ws) (re_filled row);
          steps = map (\<lambda>r. (r, observe_member ws (rd_wire rd) high_water row outcome r)) rows;
          moved = keep_some (map (\<lambda>(r, ms). member_moved r ms) steps);
          pending = list_ex (\<lambda>(_, st, _). is_reconcile_pending st) steps;
          after = observed_wire ws high_water row outcome pending moved
      in \<lparr>bx_outcome = outcome,
          bx_journal =
            (if moved = [] \<and> after = ws then None
             else Some (J_ObservationTxn
               \<lparr>ob_ledger = rd_ledger rd, ob_wire = rd_wire rd, ob_row = row, ob_page = rd_page rd,
                ob_page_ids = page_ids (rd_outcomes rd), ob_outcome = outcome,
                ob_inventory_generation_before = mi_generation mi,
                ob_wire_generation_before = ws_generation ws, ob_members_after = moved,
                ob_wire_after = after\<rparr>)),
          bx_effects = Observation outcome # concat (map (\<lambda>(_, _, _, es). es) steps),
          bx_prepared_cids = map pm_cid (map prepared_of rows),
          bx_prepared_members = map prepared_of rows,
          bx_expected_inventory_generation = mi_generation mi,
          bx_expected_wire_generation = ws_generation ws, bx_ledger = rd_ledger rd,
          bx_wire = rd_wire rd, bx_members_after = moved, bx_wire_after = after\<rparr>)"

definition round_finish ::
  "observation_round \<Rightarrow> wire_registry \<Rightarrow> market_inventory \<Rightarrow> order_row list \<Rightarrow> row_evidence
    \<Rightarrow> round_error + observation_transaction" where
  "round_finish rd reg mi rows row =
     (if re_ledger row \<noteq> rd_ledger rd \<or> re_wire row \<noteq> rd_wire rd then Inl RN_ForeignRow
      else
        (let ws = wire_or_new reg (rd_ledger rd) (rd_wire rd)
         in case members_error (rd_ledger rd) (non_terminal_cids ws) rows of
              Some err \<Rightarrow> Inl err
            | None \<Rightarrow> Inr (round_transaction rd ws mi rows row)))"


section \<open>Applying an observation\<close>

fun check_targets ::
  "observation_transaction \<Rightarrow> client_order_id list \<Rightarrow> order_row list \<Rightarrow> observation_apply_mismatch option"
  where
  "check_targets x found [] = None"
| "check_targets x found (t # ts) =
     (case find (\<lambda>p. pm_cid p = client_order_id_of (row_ctx t)) (bx_prepared_members x) of
        None \<Rightarrow> Some (OM_Targets (bx_prepared_cids x) found)
      | Some p \<Rightarrow>
          if row_ledger t \<noteq> pm_ledger p then Some (OM_Member AM_LedgerIdentity)
          else if oc_seq (row_cursor t) \<noteq> oc_seq (pm_expected_cursor p) then
            Some (OM_Member
              (AM_OrderCursor (oc_seq (pm_expected_cursor p)) (oc_seq (row_cursor t))))
          else if row_state t \<noteq> pm_expected_state p \<or> row_ctx t \<noteq> pm_expected_ctx p then
            Some (OM_Member AM_OrderStateOrCtx)
          else check_targets x found ts)"

definition moved_row :: "member_after list \<Rightarrow> order_row \<Rightarrow> order_row" where
  "moved_row moved t =
     (case find (\<lambda>m. ma_client_order_id m = client_order_id_of (row_ctx t)) moved of
        Some m \<Rightarrow> t\<lparr>row_state := ma_state_after m, row_ctx := ma_ctx_after m,
                    row_cursor := (row_cursor t)\<lparr>oc_seq := ma_seq m\<rparr>\<rparr>
      | None \<Rightarrow> t)"

definition observation_apply ::
  "observation_transaction \<Rightarrow> order_row list \<Rightarrow> wire_registry \<Rightarrow> market_inventory
    \<Rightarrow> observation_apply_mismatch + (observation_outcome \<times> order_row list \<times> wire_registry)" where
  "observation_apply x targets reg mi =
     (let found = map (\<lambda>t. client_order_id_of (row_ctx t)) targets;
          generation = (case registry_wire reg (bx_ledger x) (bx_wire x) of
                          Some ws \<Rightarrow> ws_generation ws | None \<Rightarrow> 0)
      in if sort found \<noteq> sort (bx_prepared_cids x) \<or> length found \<noteq> length (bx_prepared_cids x)
            \<or> \<not> distinct found
         then Inl (OM_Targets (bx_prepared_cids x) found)
         else
           (case check_targets x found targets of
              Some err \<Rightarrow> Inl err
            | None \<Rightarrow>
                if mi_generation mi \<noteq> bx_expected_inventory_generation x then
                  Inl (OM_Member (AM_InventoryGeneration (bx_expected_inventory_generation x)
                    (mi_generation mi)))
                else if generation \<noteq> bx_expected_wire_generation x then
                  Inl (OM_WireGeneration (bx_expected_wire_generation x) generation)
                else
                  Inr (bx_outcome x, map (moved_row (bx_members_after x)) targets,
                       put_wire (bx_ledger x) (bx_wire x) (bx_wire_after x) reg)))"


section \<open>Rebuild with observations\<close>

type_synonym snap = "order_state \<times> order_ctx"

definition insert_snap ::
  "client_order_id \<Rightarrow> u64 \<Rightarrow> snap \<Rightarrow> (u64, snap) btree \<Rightarrow> rebuild_error + (u64, snap) btree" where
  "insert_snap cid seq sn m =
     (case bt_get m seq of
        Some prev \<Rightarrow> if prev \<noteq> sn then Inl (RE_Divergent cid seq) else Inr m
      | None \<Rightarrow> Inr (bt_insert seq sn m))"

fun insert_members ::
  "client_order_id \<Rightarrow> member_after list \<Rightarrow> (u64, snap) btree \<Rightarrow> rebuild_error + (u64, snap) btree" where
  "insert_members cid [] m = Inr m"
| "insert_members cid (a # as) m =
     (if ma_client_order_id a \<noteq> cid then insert_members cid as m
      else
        (case insert_snap cid (ma_seq a) (ma_state_after a, ma_ctx_after a) m of
           Inl err \<Rightarrow> Inl err
         | Inr m1 \<Rightarrow> insert_members cid as m1))"

text \<open>The snapshots one record holds of an order.\<close>

fun record_snaps ::
  "ledger_id \<Rightarrow> client_order_id \<Rightarrow> journal_record \<Rightarrow> (u64, snap) btree
    \<Rightarrow> rebuild_error + (u64, snap) btree" where
  "record_snaps ledger cid (J_ObservationTxn t) m =
     (if ob_ledger t = ledger then insert_members cid (ob_members_after t) m else Inr m)"
| "record_snaps ledger cid r m =
     (case order_part_of r of
        Some p \<Rightarrow>
          if ot_ledger p = ledger \<and> ot_client_order_id p = cid
          then insert_snap cid (ot_seq p) (ot_state_after p, ot_ctx_after p) m else Inr m
      | None \<Rightarrow> Inr m)"

fun collect_all_snaps ::
  "ledger_id \<Rightarrow> client_order_id \<Rightarrow> journal_record list \<Rightarrow> (u64, snap) btree
    \<Rightarrow> rebuild_error + (u64, snap) btree" where
  "collect_all_snaps ledger cid [] m = Inr m"
| "collect_all_snaps ledger cid (r # rs) m =
     (case record_snaps ledger cid r m of
        Inl err \<Rightarrow> Inl err
      | Inr m1 \<Rightarrow> collect_all_snaps ledger cid rs m1)"

fun walk_all_snaps ::
  "client_order_id \<Rightarrow> u64 \<Rightarrow> snap option \<Rightarrow> (u64 \<times> snap) list
    \<Rightarrow> rebuild_error + (snap option \<times> u64)" where
  "walk_all_snaps cid expected prev [] = Inr (prev, expected)"
| "walk_all_snaps cid expected prev ((seq, sn) # m) =
     (if seq \<noteq> expected then Inl (RE_SeqGap cid expected seq)
      else walk_all_snaps cid (expected + 1) (Some sn) m)"

definition rebuild_order_with_observations ::
  "ledger_id \<Rightarrow> client_order_id \<Rightarrow> journal_record list
    \<Rightarrow> rebuild_error failure + (order_state \<times> order_ctx \<times> order_cursor) option" where
  "rebuild_order_with_observations ledger cid recs =
     (case collect_all_snaps ledger cid recs [] of
        Inl err \<Rightarrow> Inl (Err err)
      | Inr snaps \<Rightarrow>
          if snaps = [] then Inr None
          else
            (case walk_all_snaps cid 1 None snaps of
               Inl err \<Rightarrow> Inl (Err err)
             | Inr (None, expected) \<Rightarrow> Inl Panic
             | Inr (Some (st, c), expected) \<Rightarrow> Inr (Some (st, c, \<lparr>oc_seq = expected - 1\<rparr>))))"

end
