(* ===== verification/Machine_Range.thy ===== *)
theory Machine_Range
  imports Booking Order_Run
begin

text \<open>
  Every number a transition computes stays in its Rust type. The fields a transition merely stores
  (fill terms, response counts) are as wide as the event's; the fields it computes are the ones of
  \<open>in_range\<close>, and no event, whatever it carries, takes them out of \<open>u64\<close> or \<open>u128\<close>. This is also
  what entitles the model to read \<open>u64\<close> as bounded naturals.
\<close>

definition in_range :: "order_ctx \<Rightarrow> bool" where
  "in_range c =
     (order_qty c \<le> u64_max \<and> attributed_fill_qty c \<le> order_qty c
      \<and> fill_obligation c \<le> order_qty c \<and> attributed_fee_cents c \<le> u64_max
      \<and> attributed_notional_cents c \<le> u128_max
      \<and> authority_epoch c \<le> u64_max \<and> authority_latched_epoch c \<le> u64_max
      \<and> response_domain_qty c \<le> u64_max \<and> response_domain_notional_cents c \<le> u128_max
      \<and> response_domain_fee_cents c \<le> u64_max)"

definition stays_in_range :: "order_ctx \<Rightarrow> order_ctx \<Rightarrow> bool" where
  "stays_in_range c d = (in_range c \<longrightarrow> in_range d)"

lemma accumulate_range: "in_range c \<Longrightarrow> in_range (accumulate_response_domain c q p fee ts)"
  by (auto simp: in_range_def accumulate_response_domain_def sat_add_u64_def sat_add_u128_def Let_def
      split: option.split)

lemma accumulate_all_range: "in_range c \<Longrightarrow> in_range (accumulate_all m c)"
  by (induction m c rule: accumulate_all.induct) (auto intro: accumulate_range)

lemma recompute_range: "in_range c \<Longrightarrow> in_range (recompute_response_domain c)"
  by (auto simp: recompute_response_domain_def Let_def intro!: accumulate_all_range)
    (simp_all add: in_range_def)

lemma raise_range: "raise_fill_obligation c n = Inr c1 \<Longrightarrow> in_range c \<Longrightarrow> in_range c1"
  by (auto simp: raise_fill_obligation_def invalidate_authority_def in_range_def sat_add_u64_le Let_def
      split: if_splits)

lemma evidence_range: "note_fill_evidence c n = Inr (c1, jr) \<Longrightarrow> in_range c \<Longrightarrow> in_range c1"
  by (auto simp: note_fill_evidence_def split: sum.splits intro: raise_range)

lemma update_range:
  "in_range c \<Longrightarrow> in_range (c\<lparr>venue_order_id_of := v\<rparr>)"
  "in_range c \<Longrightarrow> in_range (note_venue_remaining c r)"
  "in_range c \<Longrightarrow> in_range (invalidate_authority c)"
  "in_range c \<Longrightarrow> in_range (latch_authority_complete c)"
  "in_range c \<Longrightarrow> in_range (set_response_snapshot c fc rc avg fee b)"
  "in_range c \<Longrightarrow> in_range (c\<lparr>response_fill_count := m\<rparr>)"
  "in_range c \<Longrightarrow> in_range (carry_response_prices c ravg rfee)"
  "in_range c \<Longrightarrow> in_range (carry_avg_fee c ravg rfee)"
  by (simp_all add: in_range_def note_venue_remaining_def invalidate_authority_def sat_add_u64_le
      latch_authority_complete_def set_response_snapshot_def carry_response_prices_def
      carry_avg_fee_def Let_def)

lemma bind_range: "bind_venue_id c v = Inr (c1, jr) \<Longrightarrow> in_range c \<Longrightarrow> in_range c1"
  by (auto dest!: bind_venue_frame intro: update_range(1))

lemma booked_range:
  assumes "in_range c" and "attributed_fill_qty c + q \<le> order_qty c"
    and "attributed_fee_cents c + fee_or_zero fee \<le> u64_max"
  shows "in_range (booked_ctx c fid q p ts fv fee)"
  unfolding booked_ctx_code
  by (rule accumulate_range) (use assms in \<open>simp add: in_range_def book_fill_def invalidate_authority_def
      sat_add_u64_le sat_add_u128_def\<close>)

lemma enriched_range:
  assumes "in_range c" and "may_enrich c prev v gain"
  shows "in_range (enriched_ctx c fid prev v gain)"
  using assms
  by (auto simp: in_range_def may_enrich_def enriched_ctx_def fee_or_zero_def sat_add_u64_le Let_def
      split: option.split)

lemma account_range:
  assumes "account_fill_core c fid q p ts fv fee False = (c1, a)" and "in_range c"
  shows "in_range c1"
  using assms(1)
  by (cases rule: account_core_cases) (use assms(2) in \<open>auto intro: booked_range enriched_range\<close>)

lemma observe_range:
  "observe_snapshot c v vf vr om mf = Inr (c1, es) \<Longrightarrow> in_range c \<Longrightarrow> in_range c1"
  "observe_snapshot c v vf vr om mf = Inl (c1, reason, es) \<Longrightarrow> in_range c \<Longrightarrow> in_range c1"
  by (auto simp: observe_snapshot_def Let_def split: sum.splits
      dest!: bind_range evidence_range intro: update_range(2))

lemma stays_refl: "stays_in_range c c"
  by (simp add: stays_in_range_def)

lemma stays_trans: "stays_in_range c d \<Longrightarrow> stays_in_range d e \<Longrightarrow> stays_in_range c e"
  by (simp add: stays_in_range_def)

lemma stays_laws:
  "bind_venue_id c v = Inr (c1, jr) \<Longrightarrow> stays_in_range c c1"
  "note_fill_evidence c n = Inr (c1, jr) \<Longrightarrow> stays_in_range c c1"
  "raise_fill_obligation c n = Inr c1 \<Longrightarrow> stays_in_range c c1"
  "account_fill_core c fid q p ts fv fee False = (c1, a) \<Longrightarrow> stays_in_range c c1"
  "observe_snapshot c v vf vr om mf = Inr (c1, es) \<Longrightarrow> stays_in_range c c1"
  "observe_snapshot c v vf vr om mf = Inl (c1, reason, es) \<Longrightarrow> stays_in_range c c1"
  by (auto simp: stays_in_range_def intro: bind_range evidence_range raise_range account_range
      observe_range)

lemma stays_updates:
  "stays_in_range c (invalidate_authority c)" "stays_in_range c (latch_authority_complete c)"
  "stays_in_range c (note_venue_remaining c r)" "stays_in_range c (c\<lparr>response_fill_count := m\<rparr>)"
  "stays_in_range c (carry_response_prices c ravg rfee)"
  "stays_in_range c (carry_avg_fee c ravg rfee)"
  by (auto simp: stays_in_range_def intro: update_range)

lemma stays_respond:
  assumes "bind_venue_id c v = Inr (c1, jr)"
  shows "stays_in_range c (note_venue_remaining c1 rc)"
    and "c2 = set_response_snapshot (note_venue_remaining c1 rc) fc rc avg fee b \<Longrightarrow>
      stays_in_range c c2"
    and "c2 = set_response_snapshot (note_venue_remaining c1 rc) fc rc avg fee b \<Longrightarrow>
      raise_fill_obligation c2 fc = Inr c3 \<Longrightarrow> stays_in_range c (recompute_response_domain c3)"
  using bind_range [OF assms]
  by (auto simp: stays_in_range_def intro: update_range recompute_range
      dest!: raise_range [of "set_response_snapshot (note_venue_remaining c1 rc) fc rc avg fee b"])

interpretation machine_range: stable_contract "\<lambda>c _ d. stays_in_range c d"
  by unfold_locales
    (assumption | rule stays_refl stays_updates
      | erule stays_laws stays_respond(1) | erule (1) stays_trans | erule (1) stays_respond(2)
      | erule (2) stays_respond(3))+

lemma run_in_range: "order_run s0 c0 st c es \<Longrightarrow> in_range c0 \<Longrightarrow> in_range c"
  using machine_range.run by (simp add: stays_in_range_def)

lemma new_in_range: "qty \<le> u64_max \<Longrightarrow> in_range (order_ctx_new cid market strategy side price qty)"
  by (simp add: in_range_def order_ctx_new_def)

end
