(* ===== verification/Observation_Laws.thy ===== *)
theory Observation_Laws
  imports Observation_Round Accounting Machine_Range Monotone
begin

text \<open>
  What an observation does to the orders of a wire: it latches or raises the obligation, finalizes or
  notes the remaining quantity, and books nothing. The rows it writes are the ones it judged.
\<close>

section \<open>One member\<close>

definition member_result :: "wire_state \<Rightarrow> venue_order_id \<Rightarrow> u64 \<Rightarrow> row_evidence \<Rightarrow> observation_outcome
    \<Rightarrow> order_row \<Rightarrow> order_row" where
  "member_result ws wire high_water row outcome r =
     (case observe_member ws wire high_water row outcome r of (st, c, _) \<Rightarrow>
        if st \<noteq> row_state r \<or> c \<noteq> row_ctx r
        then r\<lparr>row_state := st, row_ctx := c,
               row_cursor := (row_cursor r)\<lparr>oc_seq := next_seq (oc_seq (row_cursor r))\<rparr>\<rparr>
        else r)"

lemma member_result_fields:
  assumes "observe_member ws wire high_water row outcome r = (st, c, es)"
  shows "row_state (member_result ws wire high_water row outcome r) = st"
    and "row_ctx (member_result ws wire high_water row outcome r) = c"
    and "row_ledger (member_result ws wire high_water row outcome r) = row_ledger r"
  using assms by (simp_all add: member_result_def)

text \<open>The context of a member afterwards.\<close>

lemma observed_ctx:
  assumes "observe_member ws wire high_water row outcome r = (st, c, es)"
  shows "c = row_ctx r \<or> raise_fill_obligation (row_ctx r) high_water = Inr c
    \<or> c = latch_authority_complete (row_ctx r)
    \<or> c = note_venue_remaining (latch_authority_complete (row_ctx r)) (re_remaining row)"
  using assms
  by (auto simp: observe_member_def observe_unproved_def observe_consistent_def with_transition_def
      Let_def split: if_splits observation_outcome.splits sum.splits backfill_order_status.splits)

definition books_nothing :: "effect list \<Rightarrow> bool" where
  "books_nothing es = (account_ids es = [] \<and> accounted_qty es = 0 \<and> accounted_fee es = 0)"

lemma books_nothing_simps [simp]:
  "books_nothing []" "books_nothing (es @ fs) \<longleftrightarrow> books_nothing es \<and> books_nothing fs"
  "off_book e \<Longrightarrow> books_nothing (e # es) \<longleftrightarrow> books_nothing es"
  by (auto simp: books_nothing_def account_ids_append accounted_append) (cases e; auto)+

lemma same_ctx_books_nothing:
  assumes "booked c es c" shows "books_nothing es"
proof -
  have eq: "applied_ids c = applied_ids c \<union> set (account_ids es)"
    and disjoint: "set (account_ids es) \<inter> applied_ids c = {}"
    using assms by (simp_all only: booked_def)
  have "set (account_ids es) \<subseteq> applied_ids c \<union> set (account_ids es)" by (rule Un_upper2)
  also have "\<dots> = applied_ids c" by (rule eq [symmetric])
  finally have "set (account_ids es) = {}" using disjoint by (simp only: Int_absorb2)
  with assms show ?thesis by (simp add: booked_def books_nothing_def)
qed

lemma finalize_books_nothing [simp]: "books_nothing (outcome_effects (try_finalize_terminal c p v [] fb))"
proof -
  have "outcome_within accounted accounted c (c, try_finalize_terminal c p v [] fb)"
    by (rule accounting.finalize_within [OF accounting.R_refl])
  then show ?thesis
    by (cases "try_finalize_terminal c p v [] fb")
      (auto simp: accounted_def intro: same_ctx_books_nothing)
qed

lemma halt_books_nothing [simp]: "books_nothing (outcome_effects (halt_with_reason reason []))"
  by (simp add: halt_with_reason_def)

lemma observed_effects:
  assumes "observe_member ws wire high_water row outcome r = (st, c, es)"
  shows "books_nothing es"
  using assms
  by (auto simp: observe_member_def observe_unproved_def observe_consistent_def with_transition_def
      Let_def split: if_splits observation_outcome.splits sum.splits backfill_order_status.splits)

lemma raised_book: "raise_fill_obligation c n = Inr c1 \<Longrightarrow> same_book c c1"
  by (auto simp: raise_fill_obligation_def invalidate_authority_def same_book_def Let_def split: if_splits)

lemma observed_book:
  assumes "observe_member ws wire high_water row outcome r = (st, c, es)"
  shows "same_book (row_ctx r) c" and "ctx_step (row_ctx r) c" and "stays_in_range (row_ctx r) c"
proof -
  note cases = observed_ctx [OF assms]
  show "same_book (row_ctx r) c"
    using cases by (auto dest: raised_book)
      (simp_all add: same_book_def latch_authority_complete_def note_venue_remaining_def)
  show "ctx_step (row_ctx r) c"
    using cases
    by (auto intro: ctx_step_refl ctx_step_trans [OF latch_step remaining_step] latch_step remaining_step
        dest: raise_step)
  show "stays_in_range (row_ctx r) c"
    using cases by (auto intro: machine_range.R_refl stays_updates stays_laws
        stays_trans [OF stays_updates(2) stays_updates(3)])
qed

lemma observed_booked:
  assumes "observe_member ws wire high_water row outcome r = (st, c, es)"
  shows "booked (row_ctx r) es c"
  using observed_book(1) [OF assms] observed_effects [OF assms]
  by (simp add: booked_def books_nothing_def same_book_def applied_ids_def)


section \<open>The members of a round\<close>

abbreviation row_cid :: "order_row \<Rightarrow> client_order_id" where
  "row_cid r \<equiv> client_order_id_of (row_ctx r)"

lemma scan_valid:
  "scan_members ledger expected rows seen = ([], [], []) \<Longrightarrow>
    distinct (map row_cid rows) \<and> row_cid ` set rows \<inter> set seen = {}
    \<and> row_cid ` set rows \<subseteq> set expected
    \<and> (\<forall>r \<in> set rows. row_ledger r = ledger \<and> market_of (row_ctx r) = ledger_market ledger)"
proof (induction rows arbitrary: seen)
  case (Cons r rows)
  then have "scan_members ledger expected rows (row_cid r # seen) = ([], [], [])"
    by (auto simp: Let_def split: prod.splits if_splits)
  from Cons.IH [OF this] Cons.prems show ?case
    by (auto simp: Let_def split: prod.splits if_splits)
qed simp

lemma members_valid:
  assumes "members_error ledger expected rows = None"
  shows "distinct (map row_cid rows)" and "row_cid ` set rows = set expected"
    and "r \<in> set rows \<Longrightarrow> row_ledger r = ledger \<and> market_of (row_ctx r) = ledger_market ledger"
proof -
  from assms have scan: "scan_members ledger expected rows [] = ([], [], [])"
    and all: "filter (\<lambda>cid. cid \<notin> set (map row_cid rows)) expected = []"
    by (auto simp: members_error_def Let_def split: prod.splits if_splits)
  note valid = scan_valid [OF scan]
  from valid show "distinct (map row_cid rows)"
    and "r \<in> set rows \<Longrightarrow> row_ledger r = ledger \<and> market_of (row_ctx r) = ledger_market ledger"
    by auto
  from all have "set expected \<subseteq> row_cid ` set rows" by (auto simp: filter_empty_conv)
  with valid show "row_cid ` set rows = set expected" by auto
qed


section \<open>Finishing and applying\<close>

lemma finish_shape:
  assumes "round_finish rd reg mi rows row = Inr x"
  defines "ws \<equiv> wire_or_new reg (rd_ledger rd) (rd_wire rd)"
  shows "x = round_transaction rd ws mi rows row"
    and "members_error (rd_ledger rd) (non_terminal_cids ws) rows = None"
    and "re_ledger row = rd_ledger rd" and "re_wire row = rd_wire rd"
  using assms by (auto simp: round_finish_def Let_def split: if_splits option.splits)

lemma apply_shape:
  assumes "observation_apply x rows reg mi = Inr (out, rows1, reg1)"
  shows "rows1 = map (moved_row (bx_members_after x)) rows"
    and "reg1 = put_wire (bx_ledger x) (bx_wire x) (bx_wire_after x) reg"
    and "out = bx_outcome x"
  using assms by (auto simp: observation_apply_def Let_def split: if_splits option.splits)

lemma keep_some_find:
  assumes "distinct (map row_cid rows)" and "r \<in> set rows"
    and "\<And>t m. f t = Some m \<Longrightarrow> ma_client_order_id m = row_cid t"
  shows "find (\<lambda>m. ma_client_order_id m = row_cid r) (keep_some (map f rows)) = f r"
  using assms(1,2)
proof (induction rows)
  case (Cons t rows)
  have none: "find (\<lambda>m. ma_client_order_id m = row_cid t) (keep_some (map f rows)) = None"
    if "row_cid t \<notin> row_cid ` set rows" for t
    using that
  proof (induction rows)
    case (Cons u us)
    then show ?case by (cases "f u") (use assms(3) in auto)
  qed simp
  show ?case
  proof (cases "r = t")
    case True
    then show ?thesis using Cons.prems none by (cases "f t") (auto simp: assms(3))
  next
    case False
    with Cons.prems have "row_cid t \<noteq> row_cid r" "r \<in> set rows" by auto
    then show ?thesis using Cons by (cases "f t") (auto simp: assms(3))
  qed
qed simp

text \<open>The rows written are the members as judged.\<close>

abbreviation judged :: "observation_round \<Rightarrow> wire_state \<Rightarrow> market_inventory \<Rightarrow> row_evidence \<Rightarrow> order_row
    \<Rightarrow> member_step" where
  "judged rd ws mi row \<equiv> observe_member ws (rd_wire rd) (max (ws_filled_hw ws) (re_filled row)) row
     (round_outcome rd ws mi row)"

abbreviation judged_row :: "observation_round \<Rightarrow> wire_state \<Rightarrow> market_inventory \<Rightarrow> row_evidence
    \<Rightarrow> order_row \<Rightarrow> order_row" where
  "judged_row rd ws mi row \<equiv> member_result ws (rd_wire rd) (max (ws_filled_hw ws) (re_filled row)) row
     (round_outcome rd ws mi row)"

lemma round_moved:
  "bx_members_after (round_transaction rd ws mi rows row)
    = keep_some (map (\<lambda>r. member_moved r (judged rd ws mi row r)) rows)"
  by (simp add: round_transaction_def Let_def comp_def)

lemma moved_client: "member_moved r ms = Some m \<Longrightarrow> ma_client_order_id m = row_cid r"
  by (auto simp: member_moved_def split: prod.splits if_splits)

lemma moved_rows:
  assumes "distinct (map row_cid rows)"
  shows "map (moved_row (bx_members_after (round_transaction rd ws mi rows row))) rows
    = map (judged_row rd ws mi row) rows"
proof (rule map_cong [OF refl])
  fix r assume r: "r \<in> set rows"
  have "find (\<lambda>m. ma_client_order_id m = row_cid r)
      (keep_some (map (\<lambda>r. member_moved r (judged rd ws mi row r)) rows))
    = member_moved r (judged rd ws mi row r)"
    by (rule keep_some_find [OF assms r]) (rule moved_client)
  then show "moved_row (bx_members_after (round_transaction rd ws mi rows row)) r = judged_row rd ws mi row r"
    by (auto simp: moved_row_def round_moved member_moved_def member_result_def split: prod.split)
qed

lemma round_effects:
  "bx_effects (round_transaction rd ws mi rows row)
    = Observation (round_outcome rd ws mi row)
      # concat (map (\<lambda>r. snd (snd (judged rd ws mi row r))) rows)"
  by (simp add: round_transaction_def Let_def comp_def case_prod_unfold)

lemma round_journal:
  "bx_journal (round_transaction rd ws mi rows row) = None
    \<or> (\<exists>t. bx_journal (round_transaction rd ws mi rows row) = Some (J_ObservationTxn t)
        \<and> ob_ledger t = rd_ledger rd \<and> ob_wire t = rd_wire rd
        \<and> ob_members_after t = bx_members_after (round_transaction rd ws mi rows row)
        \<and> ob_wire_after t = bx_wire_after (round_transaction rd ws mi rows row))"
  by (simp add: round_transaction_def Let_def)

lemma round_fields:
  "bx_ledger (round_transaction rd ws mi rows row) = rd_ledger rd"
  "bx_wire (round_transaction rd ws mi rows row) = rd_wire rd"
  "bx_outcome (round_transaction rd ws mi rows row) = round_outcome rd ws mi row"
  by (simp_all add: round_transaction_def Let_def)

end
