(* ===== verification/Ledger_Run.thy ===== *)
theory Ledger_Run
  imports Batch_Row Inventory_Rebuild Observation_Laws
begin

text \<open>
  A ledger in operation: the market inventory, the rows of its orders, the wire registry, the journal
  and the effects the shell executed. Each step prepares a transaction on the current state, appends
  its durable record, folds the record into the registry and applies it, which is the shell's critical
  section. The invariant of a run ties the parts together.
\<close>

section \<open>The ledger as a step relation\<close>

record ledger_state =
  lg_inventory :: market_inventory
  lg_rows :: "client_order_id \<Rightarrow> order_row option"
  lg_registry :: wire_registry
  lg_journal :: "journal_record list"
  lg_effects :: "effect list"

definition ledger_start :: "ledger_id \<Rightarrow> ledger_state" where
  "ledger_start ledger =
     \<lparr>lg_inventory = inventory_new ledger, lg_rows = Map.empty, lg_registry = registry_new,
      lg_journal = [], lg_effects = []\<rparr>"

definition fresh_row ::
  "ledger_id \<Rightarrow> client_order_id \<Rightarrow> string \<Rightarrow> side \<Rightarrow> u64 \<Rightarrow> u64 \<Rightarrow> order_row" where
  "fresh_row ledger cid strategy side price qty =
     \<lparr>row_ledger = ledger, row_cursor = \<lparr>oc_seq = 0\<rparr>, row_state = St_New,
      row_ctx = order_ctx_new cid (ledger_market ledger) strategy side price qty\<rparr>"

text \<open>
  A record of another ledger, or one that is no transaction: lineages, user-order frames and holds are
  appended by the shell and folded like the rest.
\<close>

fun foreign_record :: "ledger_id \<Rightarrow> journal_record \<Rightarrow> bool" where
  "foreign_record ledger (J_ExecutionTxn txn) =
     (et_ledger txn \<noteq> ledger
      \<and> (case et_order txn of None \<Rightarrow> True | Some ot \<Rightarrow> ot_ledger ot \<noteq> ledger))"
| "foreign_record ledger (J_OrderTxn ot) = (ot_ledger ot \<noteq> ledger)"
| "foreign_record ledger (J_ObservationTxn t) = (ob_ledger t \<noteq> ledger)"
| "foreign_record ledger (J_OrderStateTxn t) = (os_ledger t \<noteq> ledger)"
| "foreign_record ledger (J_RestOrderProofTxn t) = (rp_ledger t \<noteq> ledger)"
| "foreign_record ledger _ = True"

fun put_rows ::
  "order_row list \<Rightarrow> (client_order_id \<Rightarrow> order_row option) \<Rightarrow> client_order_id \<Rightarrow> order_row option" where
  "put_rows [] m = m"
| "put_rows (r # rs) m = put_rows rs (m(client_order_id_of (row_ctx r) \<mapsto> r))"

text \<open>The records of a step, folded at their position.\<close>

abbreviation folds_to :: "ledger_state \<Rightarrow> journal_record list \<Rightarrow> wire_registry \<Rightarrow> bool" where
  "folds_to s rs reg \<equiv>
     (registry_fold_all (length (lg_journal s)) rs (lg_registry s) = Inr reg)"

inductive ledger_run :: "ledger_id \<Rightarrow> ledger_state \<Rightarrow> bool" for ledger :: ledger_id where
  start: "ledger_run ledger (ledger_start ledger)"
| place: "ledger_run ledger s \<Longrightarrow> lg_rows s cid = None \<Longrightarrow>
    ledger_run ledger (s\<lparr>lg_rows := (lg_rows s)(cid \<mapsto> fresh_row ledger cid strategy side price qty)\<rparr>)"
| order_event: "ledger_run ledger s \<Longrightarrow> lg_rows s cid = Some row \<Longrightarrow>
    prepare_order_event row ev = Inr ox \<Longrightarrow> order_transaction_apply ox row = Inr row1 \<Longrightarrow>
    folds_to s (opt_list (ox_journal ox)) reg \<Longrightarrow>
    ledger_run ledger (s\<lparr>lg_rows := (lg_rows s)(cid \<mapsto> row1), lg_registry := reg,
      lg_journal := lg_journal s @ opt_list (ox_journal ox),
      lg_effects := lg_effects s @ ox_effects ox\<rparr>)"
| execution: "ledger_run ledger s \<Longrightarrow> lg_rows s cid = Some row \<Longrightarrow>
    prepare_execution_batch row (lg_inventory s) ev evidences = Inr x \<Longrightarrow>
    execution_transaction_apply x (Some row) (lg_inventory s) = Inr (outs, Some row1, mi1) \<Longrightarrow>
    folds_to s (opt_list (xt_journal x)) reg \<Longrightarrow>
    ledger_run ledger (s\<lparr>lg_inventory := mi1, lg_rows := (lg_rows s)(cid \<mapsto> row1),
      lg_registry := reg, lg_journal := lg_journal s @ opt_list (xt_journal x),
      lg_effects := lg_effects s @ xt_effects x\<rparr>)"
| rowless: "ledger_run ledger s \<Longrightarrow> prepare_execution None (lg_inventory s) e = Inr x \<Longrightarrow>
    execution_transaction_apply x None (lg_inventory s) = Inr (outs, None, mi1) \<Longrightarrow>
    folds_to s (opt_list (xt_journal x)) reg \<Longrightarrow>
    ledger_run ledger (s\<lparr>lg_inventory := mi1, lg_registry := reg,
      lg_journal := lg_journal s @ opt_list (xt_journal x),
      lg_effects := lg_effects s @ xt_effects x\<rparr>)"
| observe: "ledger_run ledger s \<Longrightarrow> rd_ledger rd = ledger \<Longrightarrow>
    (\<forall>r \<in> set rows. lg_rows s (client_order_id_of (row_ctx r)) = Some r) \<Longrightarrow>
    round_finish rd (lg_registry s) (lg_inventory s) rows row = Inr x \<Longrightarrow>
    observation_apply x rows (lg_registry s) (lg_inventory s) = Inr (out, rows1, reg) \<Longrightarrow>
    ledger_run ledger (s\<lparr>lg_rows := put_rows rows1 (lg_rows s), lg_registry := reg,
      lg_journal := lg_journal s @ opt_list (bx_journal x),
      lg_effects := lg_effects s @ bx_effects x\<rparr>)"
| prove_resting: "ledger_run ledger s \<Longrightarrow>
    prepare_order_state_resting (lg_registry s) ledger wire (lg_inventory s) = Inr t \<Longrightarrow>
    apply_order_state_resting (lg_registry s) t (lg_inventory s) = Inr reg \<Longrightarrow>
    ledger_run ledger (s\<lparr>lg_registry := reg, lg_journal := lg_journal s @ [J_OrderStateTxn t]\<rparr>)"
| prove_rest: "ledger_run ledger s \<Longrightarrow>
    prepare_rest_order_proof (lg_registry s) ledger wire cid filled remaining initial (lg_inventory s)
      = Inr p \<Longrightarrow>
    apply_rest_order_proof (lg_registry s) p (lg_inventory s) = Inr reg \<Longrightarrow>
    ledger_run ledger (s\<lparr>lg_registry := reg, lg_journal := lg_journal s @ [J_RestOrderProofTxn p]\<rparr>)"
| other: "ledger_run ledger s \<Longrightarrow> foreign_record ledger r \<Longrightarrow> folds_to s [r] reg \<Longrightarrow>
    ledger_run ledger (s\<lparr>lg_registry := reg, lg_journal := lg_journal s @ [r]\<rparr>)"


section \<open>Steps on a row\<close>

abbreviation visible :: "effect list \<Rightarrow> effect list" where
  "visible es \<equiv> filter (\<lambda>e. \<not> is_append_fsync e) es"

lemma visible_accounts [simp]:
  "account_ids (visible es) = account_ids es" "accounted_qty (visible es) = accounted_qty es"
proof -
  show "account_ids (visible es) = account_ids es"
    by (induction es rule: account_ids.induct) auto
  show "accounted_qty (visible es) = accounted_qty es"
    by (induction es rule: accounted_qty.induct) auto
qed

text \<open>What a step of the batch layer does to a row, seen from the shell.\<close>

definition row_step :: "order_row \<Rightarrow> effect list \<Rightarrow> order_row \<Rightarrow> bool" where
  "row_step row es row1 =
     (row_ledger row1 = row_ledger row
      \<and> client_order_id_of (row_ctx row1) = client_order_id_of (row_ctx row)
      \<and> market_of (row_ctx row1) = market_of (row_ctx row)
      \<and> booked (row_ctx row) es (row_ctx row1))"

lemma booked_nothing: "booked c [] c"
  by (simp add: booked_def)

lemma booked_visible: "accounted c es d \<Longrightarrow> accounted_fee (visible es) = accounted_fee es \<Longrightarrow>
    booked c (visible es) d"
  by (simp add: accounted_def booked_def)

lemma visible_fee [simp]: "accounted_fee (visible es) = accounted_fee es"
  by (induction es rule: accounted_fee.induct) auto

lemma transition_identity:
  assumes "row_transition row S c1 t"
  shows "client_order_id_of c1 = client_order_id_of (row_ctx row)"
    and "market_of c1 = market_of (row_ctx row)"
  using assms by (auto simp: row_transition_def ctx_step_def dest: monotone.event)

lemma no_fills_no_ids:
  assumes "\<not> event_has_identified_fills ev" shows "event_ids ev = {}"
  using assms by (cases ev) (auto simp: event_has_identified_fills_def event_ids_def)

lemma prepared_order_cases:
  assumes "prepare_order_event row ev = Inr ox"
    and "apply_event (row_state row) (row_ctx row) ev = (c1, t)"
  shows "(\<exists>r. ox = unchanged_txn row r) \<or> (ox = advancing_txn row ev t c1 \<and> \<not> is_reject t)"
  using assms by (cases t) (auto simp: prepare_order_event_def split: if_splits)

lemma order_apply_simps [simp]:
  "order_transaction_apply (unchanged_txn row r) row = Inr row"
  "order_transaction_apply (advancing_txn row ev t c1) row =
    Inr (row\<lparr>row_state := state_after_transition t (row_state row), row_ctx := c1,
             row_cursor := (row_cursor row)\<lparr>oc_seq := next_seq (oc_seq (row_cursor row))\<rparr>\<rparr>)"
  "ox_effects (unchanged_txn row r) = []" "ox_journal (unchanged_txn row r) = None"
  "ox_effects (advancing_txn row ev t c1) = visible (outcome_effects t)"
  "ox_journal (advancing_txn row ev t c1) =
    Some (J_OrderTxn (order_record_of row ev t (state_after_transition t (row_state row)) c1))"
  by (simp_all add: order_transaction_apply_def unchanged_txn_def advancing_txn_def
      split_effects_def Let_def)

lemma order_event_step:
  assumes prep: "prepare_order_event row ev = Inr ox" and app: "order_transaction_apply ox row = Inr row1"
  shows "row_step row (ox_effects ox) row1" and "account_ids (ox_effects ox) = []"
    and "applied_ids (row_ctx row1) = applied_ids (row_ctx row)"
proof -
  obtain c1 t where a: "apply_event (row_state row) (row_ctx row) ev = (c1, t)" by fastforce
  have ids: "event_ids ev = {}"
    using prep by (intro no_fills_no_ids) (auto simp: prepare_order_event_def split: if_splits)
  have acc: "accounted (row_ctx row) (outcome_effects t) c1" by (rule accounting.event [OF a])
  have none: "account_ids (outcome_effects t) = []" "applied_ids c1 = applied_ids (row_ctx row)"
    using event_accounts_its_fills [OF a] acc ids by (auto simp: accounted_def booked_def)
  consider "row1 = row" "ox_effects ox = []"
    | "row_ctx row1 = c1" "row_ledger row1 = row_ledger row" "ox_effects ox = visible (outcome_effects t)"
    using prepared_order_cases [OF prep a] app by auto
  then have "row_step row (ox_effects ox) row1 \<and> account_ids (ox_effects ox) = []
    \<and> applied_ids (row_ctx row1) = applied_ids (row_ctx row)"
  proof cases
    case 1
    then show ?thesis by (simp add: row_step_def booked_nothing)
  next
    case 2
    then show ?thesis
      using booked_visible [OF acc] none monotone.event [OF a] by (simp add: row_step_def ctx_step_def)
  qed
  then show "row_step row (ox_effects ox) row1" and "account_ids (ox_effects ox) = []"
    and "applied_ids (row_ctx row1) = applied_ids (row_ctx row)" by auto
qed

text \<open>A batch on a row: the step of the row, and the owner of everything newly applied.\<close>

lemma batch_step:
  assumes prep: "prepare_execution_batch row mi ev evs = Inr x"
    and app: "execution_transaction_apply x (Some row) mi = Inr (outs, Some row1, mi1)"
    and ok: "inventory_ok mi"
  shows "row_step row (xt_effects x) row1"
    and "fid \<in> applied_ids (row_ctx row1) \<Longrightarrow> fid \<notin> applied_ids (row_ctx row) \<Longrightarrow>
      \<exists>en. inventory_get mi1 fid = Some en
        \<and> ie_owner en = Some (client_order_id_of (row_ctx row))"
proof -
  obtain staging pre where adj: "adjudicate_batch row mi evs = (staging, pre)" by fastforce
  from prep adj obtain core where core: "core_call row mi ev evs staging pre = Inr core"
    and x: "x = assemble_batch row mi ev staging pre core"
    by (auto simp: prepare_execution_batch_def split: option.splits sum.splits)
  have target: "apply_to_target x row = Inr row1" and mi1: "mi1 = written x mi"
    using execution_apply_written(2,4) [OF app] by auto
  show "row_step row (xt_effects x) row1"
  proof (cases core)
    case None
    from assembled_row(1) [OF target [unfolded x] None] x show ?thesis
      by (simp add: row_step_def booked_nothing)
  next
    case (Some ct)
    obtain c1 t where ct: "ct = (c1, t)" by fastforce
    have tr: "row_transition row (admitted_ids pre) c1 t"
      using core_call_transition(1) core Some ct by simp
    have "row_after row c1 t row1 \<and> xt_effects x = visible (outcome_effects t)"
      using assembled_row(2) [OF target [unfolded x]] x Some ct by simp
    with tr show ?thesis
      by (auto simp: row_step_def row_after_def transition_identity
          intro: booked_visible transition_accounted)
  qed
  assume new: "fid \<in> applied_ids (row_ctx row1)" "fid \<notin> applied_ids (row_ctx row)"
  show "\<exists>en. inventory_get mi1 fid = Some en \<and> ie_owner en = Some (client_order_id_of (row_ctx row))"
  proof (cases core)
    case None
    from assembled_row(1) [OF target [unfolded x] None] new show ?thesis by simp
  next
    case (Some ct)
    obtain c1 t where ct: "ct = (c1, t)" by fastforce
    have tr: "row_transition row (admitted_ids pre) c1 t" and own: "\<not> is_row_foreign row mi"
      using core_call_transition core Some ct by auto
    have c1: "row_ctx row1 = c1"
      using assembled_row(2) [OF target [unfolded x]] Some ct by (simp add: row_after_def)
    have "fid \<in> admitted_ids pre" using transition_scope [OF tr] new c1 by auto
    moreover have "bt_get (applied_fills c1) fid \<noteq> None"
      unfolding bt_get_iff using new(1) c1 by (simp add: applied_ids_def)
    ultimately obtain en where
        "bt_get (entries_of (xt_outcomes x) (mi_entries mi)) fid = Some en"
        "ie_owner en = Some (client_order_id_of (row_ctx row))"
      using emitted_owner [OF adj own, of fid c1 "outcome_from_transition t"] x Some ct
      by (auto simp: assemble_batch_def Let_def simp del: map_map list.map_comp)
    with written_fields(2) [OF ok batch_planned [OF prep]] mi1 show ?thesis
      by (auto simp: inventory_get_def)
  qed
qed

lemma rowless_effects: "prepare_execution None mi e = Inr x \<Longrightarrow> xt_effects x = []"
  by (auto simp: prepare_execution_def prepare_execution_norow_def norow_transaction_def Let_def
      split: if_splits prod.splits)

lemma rowless_planned: "prepare_execution None mi e = Inr x \<Longrightarrow> planned mi x"
  by (simp add: prepare_execution_def norow_planned)

end
