(* ===== verification/Ledger_Laws.thy ===== *)
theory Ledger_Laws
  imports Ledger_Run
begin

text \<open>
  The invariant of a ledger run: the journal rebuilds the inventory, every applied execution is
  owned by the order that applied it, and the effects account every applied execution exactly once
  across all orders.
\<close>

section \<open>The books of all rows\<close>

definition all_applied :: "ledger_state \<Rightarrow> fill_id set" where
  "all_applied s = {fid. \<exists>cid row. lg_rows s cid = Some row \<and> fid \<in> applied_ids (row_ctx row)}"

definition total_attributed :: "ledger_state \<Rightarrow> nat" where
  "total_attributed s =
     (\<Sum>cid \<in> dom (lg_rows s). attributed_fill_qty (row_ctx (the (lg_rows s cid))))"

definition rows_ok :: "ledger_id \<Rightarrow> ledger_state \<Rightarrow> bool" where
  "rows_ok ledger s =
     (finite (dom (lg_rows s))
      \<and> (\<forall>cid row. lg_rows s cid = Some row \<longrightarrow>
           row_ledger row = ledger \<and> client_order_id_of (row_ctx row) = cid
           \<and> market_of (row_ctx row) = ledger_market ledger))"

definition owners_ok :: "ledger_state \<Rightarrow> bool" where
  "owners_ok s =
     (\<forall>cid row fid. lg_rows s cid = Some row \<longrightarrow> fid \<in> applied_ids (row_ctx row) \<longrightarrow>
        (\<exists>en. inventory_get (lg_inventory s) fid = Some en \<and> ie_owner en = Some cid))"

definition books_ok :: "ledger_state \<Rightarrow> bool" where
  "books_ok s =
     (distinct (account_ids (lg_effects s)) \<and> set (account_ids (lg_effects s)) = all_applied s
      \<and> accounted_qty (lg_effects s) = total_attributed s)"

definition ledger_inv :: "ledger_id \<Rightarrow> ledger_state \<Rightarrow> bool" where
  "ledger_inv ledger s =
     (tracks (lg_journal s) (lg_inventory s) \<and> mi_ledger (lg_inventory s) = ledger
      \<and> rows_ok ledger s \<and> owners_ok s \<and> books_ok s)"

lemma inv_inventory_ok: "ledger_inv ledger s \<Longrightarrow> inventory_ok (lg_inventory s)"
  by (simp add: ledger_inv_def tracks_def)

text \<open>One row moves by a row step while the inventory only gains entries and metadata.\<close>

lemma all_applied_update:
  assumes "lg_rows s cid = Some row" and "booked (row_ctx row) es (row_ctx row1)"
    and "lg_rows s1 = (lg_rows s)(cid \<mapsto> row1)"
  shows "all_applied s1 = all_applied s \<union> set (account_ids es)"
proof -
  have "all_applied s1 = {fid. \<exists>c. \<exists>r. lg_rows s1 c = Some r \<and> fid \<in> applied_ids (row_ctx r)}"
    by (simp add: all_applied_def)
  also have "\<dots> = applied_ids (row_ctx row1)
      \<union> {fid. \<exists>c r. c \<noteq> cid \<and> lg_rows s c = Some r \<and> fid \<in> applied_ids (row_ctx r)}"
    using assms(3) by (auto split: if_splits)
  also have "\<dots> = set (account_ids es) \<union> (applied_ids (row_ctx row)
      \<union> {fid. \<exists>c r. c \<noteq> cid \<and> lg_rows s c = Some r \<and> fid \<in> applied_ids (row_ctx r)})"
    using assms(2) by (auto simp: booked_def)
  also have "applied_ids (row_ctx row)
      \<union> {fid. \<exists>c r. c \<noteq> cid \<and> lg_rows s c = Some r \<and> fid \<in> applied_ids (row_ctx r)} = all_applied s"
    using assms(1) by (auto simp: all_applied_def) (metis option.inject)
  finally show ?thesis by auto
qed

lemma total_attributed_update:
  assumes "finite (dom (lg_rows s))" and "lg_rows s cid = Some row"
    and "lg_rows s1 = (lg_rows s)(cid \<mapsto> row1)"
  shows "total_attributed s1 + attributed_fill_qty (row_ctx row)
    = total_attributed s + attributed_fill_qty (row_ctx row1)"
proof -
  let ?f = "\<lambda>rs c. attributed_fill_qty (row_ctx (the (rs c)))"
  have dom: "dom (lg_rows s1) = dom (lg_rows s)" and cid: "cid \<in> dom (lg_rows s)"
    using assms(2,3) by auto
  have "total_attributed s1 = ?f (lg_rows s1) cid + sum (?f (lg_rows s1)) (dom (lg_rows s) - {cid})"
    unfolding total_attributed_def dom by (rule sum.remove [OF assms(1) cid])
  moreover have "total_attributed s = ?f (lg_rows s) cid + sum (?f (lg_rows s)) (dom (lg_rows s) - {cid})"
    unfolding total_attributed_def by (rule sum.remove [OF assms(1) cid])
  moreover have "sum (?f (lg_rows s1)) (dom (lg_rows s) - {cid})
      = sum (?f (lg_rows s)) (dom (lg_rows s) - {cid})"
    by (rule sum.cong) (simp_all add: assms(3))
  ultimately show ?thesis using assms(2,3) by simp
qed

lemma row_update_inv:
  assumes inv: "rows_ok ledger s" "owners_ok s" "books_ok s"
    and row: "lg_rows s cid = Some row" and step: "row_step row es row1"
    and rows1: "lg_rows s1 = (lg_rows s)(cid \<mapsto> row1)" and eff: "lg_effects s1 = lg_effects s @ es"
    and grows: "\<And>fid p. inventory_get (lg_inventory s) fid = Some p \<Longrightarrow>
      \<exists>e. inventory_get (lg_inventory s1) fid = Some e \<and> entry_extends p e"
    and owned: "\<And>fid. fid \<in> applied_ids (row_ctx row1) \<Longrightarrow> fid \<notin> applied_ids (row_ctx row) \<Longrightarrow>
      \<exists>en. inventory_get (lg_inventory s1) fid = Some en \<and> ie_owner en = Some cid"
  shows "rows_ok ledger s1" and "owners_ok s1" and "books_ok s1"
proof -
  have booked: "booked (row_ctx row) es (row_ctx row1)" using step by (simp add: row_step_def)
  show "rows_ok ledger s1"
    using inv(1) row step rows1 by (auto simp: rows_ok_def row_step_def)
  have kept: "\<exists>en. inventory_get (lg_inventory s1) fid = Some en \<and> ie_owner en = Some c"
    if "lg_rows s c = Some r" "fid \<in> applied_ids (row_ctx r)" for c r fid
  proof -
    from inv(2) that obtain p where "inventory_get (lg_inventory s) fid = Some p" "ie_owner p = Some c"
      unfolding owners_ok_def by blast
    with grows [of fid p] show ?thesis by (auto simp: entry_extends_def keeps_some_def)
  qed
  show own1: "owners_ok s1"
    unfolding owners_ok_def
  proof (intro allI impI)
    fix c r fid
    assume r: "lg_rows s1 c = Some r" "fid \<in> applied_ids (row_ctx r)"
    show "\<exists>en. inventory_get (lg_inventory s1) fid = Some en \<and> ie_owner en = Some c"
    proof (cases "c = cid")
      case True
      with r rows1 have "fid \<in> applied_ids (row_ctx row1)" by simp
      with True owned [of fid] kept [OF row] show ?thesis by blast
    next
      case False
      with r rows1 kept show ?thesis by simp
    qed
  qed
  have "all_applied s \<inter> set (account_ids es) = {}"
  proof (rule ccontr)
    assume "all_applied s \<inter> set (account_ids es) \<noteq> {}"
    then obtain fid c r where f: "fid \<in> set (account_ids es)" "lg_rows s c = Some r"
        "fid \<in> applied_ids (row_ctx r)" by (auto simp: all_applied_def)
    with booked have "fid \<in> applied_ids (row_ctx row1)" "fid \<notin> applied_ids (row_ctx row)"
      by (auto simp: booked_def)
    with owned [of fid] kept [OF f(2,3)] have "c = cid" by auto
    with f row \<open>fid \<notin> applied_ids (row_ctx row)\<close> show False by simp
  qed
  moreover have "attributed_fill_qty (row_ctx row1) = attributed_fill_qty (row_ctx row) + accounted_qty es"
    using booked by (simp add: booked_def)
  ultimately show "books_ok s1"
    using inv(1,3) booked all_applied_update [OF row booked rows1]
      total_attributed_update [OF _ row rows1]
    by (auto simp: books_ok_def rows_ok_def eff booked_def)
qed


section \<open>The invariant\<close>

lemma foreign_elsewhere: "foreign_record ledger r \<Longrightarrow> elsewhere ledger r"
  by (cases r) auto

lemma order_record_elsewhere:
  "tracks recs mi \<Longrightarrow> prepare_order_event row ev = Inr ox \<Longrightarrow>
    tracks (recs @ opt_list (ox_journal ox)) mi"
proof -
  assume tr: "tracks recs mi" and prep: "prepare_order_event row ev = Inr ox"
  obtain c1 t where "apply_event (row_state row) (row_ctx row) ev = (c1, t)" by fastforce
  from prepared_order_cases [OF prep this] tr show ?thesis by (auto intro!: tracks_elsewhere)
qed

lemma inv_start: "ledger_inv ledger (ledger_start ledger)"
  by (simp add: ledger_inv_def ledger_start_def tracks_new rows_ok_def owners_ok_def books_ok_def
      all_applied_def total_attributed_def) (simp add: inventory_new_def)

lemma inv_place:
  assumes "ledger_inv ledger s" and "lg_rows s cid = None"
  shows "ledger_inv ledger
    (s\<lparr>lg_rows := (lg_rows s)(cid \<mapsto> fresh_row ledger cid strategy side price qty)\<rparr>)"
proof -
  let ?row = "fresh_row ledger cid strategy side price qty"
  let ?s1 = "s\<lparr>lg_rows := (lg_rows s)(cid \<mapsto> ?row)\<rparr>"
  have empty: "applied_ids (row_ctx ?row) = {}" "attributed_fill_qty (row_ctx ?row) = 0"
    by (simp_all add: fresh_row_def order_ctx_new_def applied_ids_def)
  have fin: "finite (dom (lg_rows s))" using assms(1) by (simp add: ledger_inv_def rows_ok_def)
  have "all_applied ?s1 = all_applied s"
  proof -
    have "fid \<in> applied_ids (row_ctx r) \<Longrightarrow> lg_rows ?s1 c = Some r \<longleftrightarrow> lg_rows s c = Some r" for c r fid
      using assms(2) empty(1) by auto
    then show ?thesis unfolding all_applied_def by blast
  qed
  moreover have "total_attributed ?s1 = total_attributed s"
  proof -
    have "cid \<notin> dom (lg_rows s)" using assms(2) by auto
    moreover have "(\<Sum>c \<in> dom (lg_rows s). attributed_fill_qty
          (row_ctx (the (((lg_rows s)(cid \<mapsto> ?row)) c))))
        = (\<Sum>c \<in> dom (lg_rows s). attributed_fill_qty (row_ctx (the (lg_rows s c))))"
      using \<open>cid \<notin> dom (lg_rows s)\<close> by (intro sum.cong) auto
    ultimately show ?thesis using fin empty by (simp add: total_attributed_def)
  qed
  moreover have "rows_ok ledger ?s1"
    using assms(1) by (auto simp: ledger_inv_def rows_ok_def fresh_row_def order_ctx_new_def)
  moreover have "owners_ok ?s1"
    using assms empty by (auto simp: ledger_inv_def owners_ok_def)
  ultimately show ?thesis using assms(1) by (simp add: ledger_inv_def books_ok_def)
qed

text \<open>An observation moves its members and books nothing.\<close>

fun rows_step ::
  "ledger_state \<Rightarrow> (order_row \<times> effect list \<times> order_row) list \<Rightarrow> bool" where
  "rows_step s [] = True"
| "rows_step s ((row, es, row1) # ms) =
     (lg_rows s (row_cid row) = Some row \<and> row_step row es row1 \<and> books_nothing es
      \<and> row_cid row \<notin> (\<lambda>(r, _, _). row_cid r) ` set ms \<and> rows_step s ms)"

lemma rows_step_frame:
  "rows_step s ms \<Longrightarrow> cid \<notin> (\<lambda>(r, _, _). row_cid r) ` set ms \<Longrightarrow>
    rows_step (s\<lparr>lg_rows := (lg_rows s)(cid \<mapsto> row), lg_effects := es\<rparr>) ms"
  by (induction s ms rule: rows_step.induct) auto

lemma inv_rows:
  "ledger_inv ledger s \<Longrightarrow> rows_step s ms \<Longrightarrow>
    ledger_inv ledger (s\<lparr>lg_rows := put_rows (map (\<lambda>(_, _, r). r) ms) (lg_rows s),
      lg_effects := lg_effects s @ concat (map (\<lambda>(_, es, _). es) ms)\<rparr>)"
proof (induction ms arbitrary: s)
  case (Cons m ms)
  obtain row es row1 where m: "m = (row, es, row1)" by (cases m)
  let ?s1 = "s\<lparr>lg_rows := (lg_rows s)(row_cid row \<mapsto> row1), lg_effects := lg_effects s @ es\<rparr>"
  from Cons.prems m have row: "lg_rows s (row_cid row) = Some row" and step: "row_step row es row1"
    and quiet: "books_nothing es" and rest: "rows_step ?s1 ms"
    by (auto intro: rows_step_frame)
  have same: "applied_ids (row_ctx row1) = applied_ids (row_ctx row)"
    and cid: "row_cid row1 = row_cid row"
    using step quiet by (auto simp: row_step_def booked_def books_nothing_def)
  from Cons.prems(1) have inv: "rows_ok ledger s" "owners_ok s" "books_ok s"
    by (simp_all add: ledger_inv_def)
  have "ledger_inv ledger ?s1"
    using row_update_inv [OF inv row step, of ?s1] same Cons.prems(1) by (auto simp: ledger_inv_def)
  from Cons.IH [OF this rest] show ?case by (simp add: m cid fun_upd_def)
qed simp

lemma inv_record:
  assumes "ledger_inv ledger s" and "elsewhere ledger r"
  shows "ledger_inv ledger (s\<lparr>lg_registry := reg, lg_journal := lg_journal s @ [r]\<rparr>)"
  using assms
  by (simp add: ledger_inv_def rows_ok_def owners_ok_def books_ok_def all_applied_def
      total_attributed_def tracks_elsewhere)

lemma inv_effect:
  assumes "ledger_inv ledger s" and "off_book e"
  shows "ledger_inv ledger (s\<lparr>lg_effects := lg_effects s @ [e]\<rparr>)"
proof -
  have "account_ids (lg_effects s @ [e]) = account_ids (lg_effects s)"
    "accounted_qty (lg_effects s @ [e]) = accounted_qty (lg_effects s)"
    using assms(2) by (cases e; simp add: account_ids_append accounted_append)+
  with assms(1) show ?thesis
    by (simp add: ledger_inv_def rows_ok_def owners_ok_def books_ok_def all_applied_def
        total_attributed_def)
qed

lemma judged_row_step:
  "row_step r (snd (snd (judged rd ws mi row r))) (judged_row rd ws mi row r)
    \<and> books_nothing (snd (snd (judged rd ws mi row r)))"
proof -
  obtain st c es where judged: "judged rd ws mi row r = (st, c, es)" by (metis prod_cases3)
  note result = member_result_fields [OF judged]
  show ?thesis
    using observed_booked [OF judged] observed_effects [OF judged] observed_book(2) [OF judged] judged
    by (simp add: row_step_def result ctx_step_def)
qed

lemma inv_observe:
  assumes inv: "ledger_inv ledger s"
    and rows: "\<forall>r \<in> set rows. lg_rows s (row_cid r) = Some r"
    and fin: "round_finish rd (lg_registry s) (lg_inventory s) rows row = Inr x"
    and app: "observation_apply x rows (lg_registry s) (lg_inventory s) = Inr (out, rows1, reg)"
  shows "ledger_inv ledger (s\<lparr>lg_rows := put_rows rows1 (lg_rows s), lg_registry := reg,
      lg_journal := lg_journal s @ opt_list (bx_journal x), lg_effects := lg_effects s @ bx_effects x\<rparr>)"
proof -
  define ws where "ws = wire_or_new (lg_registry s) (rd_ledger rd) (rd_wire rd)"
  let ?mi = "lg_inventory s"
  note shape = finish_shape [OF fin, folded ws_def]
  note valid = members_valid [OF shape(2)]
  define ms where "ms = map (\<lambda>r. (r, snd (snd (judged rd ws ?mi row r)), judged_row rd ws ?mi row r)) rows"
  have rows1: "rows1 = map (\<lambda>(_, _, r). r) ms"
    using apply_shape(1) [OF app] moved_rows [OF valid(1)] shape(1) by (simp add: ms_def comp_def)
  have eff: "bx_effects x = [Observation (bx_outcome x)] @ concat (map (\<lambda>(_, es, _). es) ms)"
    by (simp add: shape(1) round_effects round_fields ms_def comp_def)
  have "rows_step t (map (\<lambda>r. (r, snd (snd (judged rd ws ?mi row r)), judged_row rd ws ?mi row r)) rs)"
    if "distinct (map row_cid rs)" "\<forall>r \<in> set rs. lg_rows t (row_cid r) = Some r" for rs t
    using that by (induction rs) (auto simp: judged_row_step)
  then have step: "rows_step (s\<lparr>lg_effects := lg_effects s @ [Observation (bx_outcome x)]\<rparr>) ms"
    unfolding ms_def using valid(1) rows by simp
  have "ledger_inv ledger (s\<lparr>lg_rows := put_rows rows1 (lg_rows s), lg_effects := lg_effects s @ bx_effects x\<rparr>)"
    using inv_rows [OF inv_effect [OF inv] step] by (simp add: rows1 eff)
  then have "ledger_inv ledger (s\<lparr>lg_rows := put_rows rows1 (lg_rows s), lg_registry := reg,
      lg_effects := lg_effects s @ bx_effects x\<rparr>)"
    by (simp add: ledger_inv_def rows_ok_def owners_ok_def books_ok_def all_applied_def total_attributed_def)
  moreover have "tracks (lg_journal s @ opt_list (bx_journal x)) (lg_inventory s)"
  proof -
    have "tracks (lg_journal s) (lg_inventory s)" using inv by (simp add: ledger_inv_def)
    with round_journal [of rd ws ?mi rows row] show ?thesis
      unfolding shape(1) by (auto intro!: tracks_elsewhere)
  qed
  ultimately show ?thesis
    by (simp add: ledger_inv_def rows_ok_def owners_ok_def books_ok_def all_applied_def total_attributed_def)
qed

theorem ledger_run_inv: "ledger_run ledger s \<Longrightarrow> ledger_inv ledger s"
proof (induction rule: ledger_run.induct)
  case start
  show ?case by (rule inv_start)
next
  case (place s cid strategy side price qty)
  then show ?case by (intro inv_place) auto
next
  case (order_event s cid row ev ox row1 reg)
  let ?s1 = "s\<lparr>lg_rows := (lg_rows s)(cid \<mapsto> row1), lg_registry := reg, lg_journal := lg_journal s @ opt_list (ox_journal ox),
    lg_effects := lg_effects s @ ox_effects ox\<rparr>"
  note step = order_event_step [OF order_event.hyps(3,4)]
  from order_event.IH have inv: "rows_ok ledger s" "owners_ok s" "books_ok s"
    by (simp_all add: ledger_inv_def)
  have "rows_ok ledger ?s1 \<and> owners_ok ?s1 \<and> books_ok ?s1"
    using row_update_inv [OF inv order_event.hyps(2) step(1), of ?s1] step(3) by auto
  with order_event.IH order_record_elsewhere [OF _ order_event.hyps(3)] show ?case
    by (simp add: ledger_inv_def)
next
  case (execution s cid row ev evs x outs row1 mi1 reg)
  let ?s1 = "s\<lparr>lg_inventory := mi1, lg_rows := (lg_rows s)(cid \<mapsto> row1), lg_registry := reg,
    lg_journal := lg_journal s @ opt_list (xt_journal x), lg_effects := lg_effects s @ xt_effects x\<rparr>"
  have ok: "inventory_ok (lg_inventory s)" by (rule inv_inventory_ok [OF execution.IH])
  have pl: "planned (lg_inventory s) x" by (rule batch_planned [OF execution.hyps(3)])
  have mi1: "mi1 = written x (lg_inventory s)" using execution_apply_written(2) [OF execution.hyps(4)] .
  note step = batch_step [OF execution.hyps(3,4) ok]
  from execution.IH have inv: "rows_ok ledger s" "owners_ok s" "books_ok s"
    by (simp_all add: ledger_inv_def)
  have cid: "client_order_id_of (row_ctx row) = cid"
    using inv(1) execution.hyps(2) by (simp add: rows_ok_def)
  have "rows_ok ledger ?s1 \<and> owners_ok ?s1 \<and> books_ok ?s1"
    using row_update_inv [OF inv execution.hyps(2) step(1), of ?s1] step(2) cid
      written_extends [OF ok pl] mi1 by auto
  with execution.IH tracks_step [OF _ pl] mi1 written_fields(1) [OF ok pl] show ?case
    by (simp add: ledger_inv_def)
next
  case (rowless s e x outs mi1 reg)
  have ok: "inventory_ok (lg_inventory s)" by (rule inv_inventory_ok [OF rowless.IH])
  have pl: "planned (lg_inventory s) x" by (rule rowless_planned [OF rowless.hyps(2)])
  have mi1: "mi1 = written x (lg_inventory s)" using execution_apply_written(2) [OF rowless.hyps(3)] .
  have "\<exists>en. inventory_get mi1 fid = Some en \<and> ie_owner en = Some cid"
    if "inventory_get (lg_inventory s) fid = Some p" "ie_owner p = Some cid" for fid p cid
    using written_extends [OF ok pl that(1)] that(2) mi1 by (auto simp: entry_extends_def keeps_some_def)
  with rowless.IH tracks_step [OF _ pl] mi1 written_fields(1) [OF ok pl] rowless_effects [OF rowless.hyps(2)]
  show ?case
    by (simp add: ledger_inv_def rows_ok_def owners_ok_def books_ok_def all_applied_def
        total_attributed_def) blast
next
  case (observe s rd rows row x out rows1 reg)
  then show ?case by (intro inv_observe) auto
next
  case (prove_resting s wire t reg)
  then show ?case by (intro inv_record) auto
next
  case (prove_rest s wire cid filled remaining initial p reg)
  then show ?case by (intro inv_record) auto
next
  case (other s r reg)
  then show ?case
    by (simp add: ledger_inv_def rows_ok_def owners_ok_def books_ok_def all_applied_def
        total_attributed_def tracks_elsewhere foreign_elsewhere)
qed

end
