(* ===== verification/Order_Rebuild.thy ===== *)
theory Order_Rebuild
  imports Ledger_Laws
begin

text \<open>
  Rebuild of an order row from the journal of its ledger: the moves of a row on record carry the
  sequence numbers 1 to its cursor, and the last holds the state and context in memory. Both rebuild
  functions read them; the one of \<^verbatim>\<open>src/execution.rs\<close> does not see the moves of observations.
\<close>

section \<open>One transaction, one record\<close>

definition records_row :: "order_row \<Rightarrow> order_txn_record \<Rightarrow> order_row \<Rightarrow> bool" where
  "records_row row rec row1 =
     (ot_ledger rec = row_ledger row \<and> ot_client_order_id rec = client_order_id_of (row_ctx row)
      \<and> ot_seq rec = next_seq (oc_seq (row_cursor row))
      \<and> ot_state_after rec = row_state row1 \<and> ot_ctx_after rec = row_ctx row1
      \<and> oc_seq (row_cursor row1) = ot_seq rec)"

text \<open>A row moves exactly when its move is on record.\<close>

definition moved_on_record :: "order_row \<Rightarrow> order_txn_record option \<Rightarrow> order_row \<Rightarrow> bool" where
  "moved_on_record row part row1 =
     (case part of None \<Rightarrow> row1 = row | Some rec \<Rightarrow> records_row row rec row1)"

lemma order_event_recorded:
  assumes "prepare_order_event row ev = Inr ox" and "order_transaction_apply ox row = Inr row1"
  shows "moved_on_record row (Option.bind (ox_journal ox) order_part_of) row1"
proof -
  obtain c1 t where "apply_event (row_state row) (row_ctx row) ev = (c1, t)" by fastforce
  from prepared_order_cases [OF assms(1) this] assms(2) show ?thesis
    by (auto simp: moved_on_record_def records_row_def order_record_of_def)
qed

lemma assembled_recorded:
  assumes "apply_to_target (assemble_batch row mi ev staging pre core) row = Inr row1"
  shows "moved_on_record row
    (Option.bind (xt_journal (assemble_batch row mi ev staging pre core)) order_part_of) row1"
  using assms
  by (auto simp: assemble_batch_def apply_to_target_def moved_on_record_def records_row_def
      order_record_of_def Let_def split: option.splits prod.splits if_splits)

lemma batch_recorded:
  assumes "prepare_execution_batch row mi ev evs = Inr x"
    and "execution_transaction_apply x (Some row) mi = Inr (outs, Some row1, mi1)"
  shows "moved_on_record row (Option.bind (xt_journal x) order_part_of) row1"
proof -
  obtain staging pre where adj: "adjudicate_batch row mi evs = (staging, pre)" by fastforce
  from assms(1) adj obtain core where x: "x = assemble_batch row mi ev staging pre core"
    by (auto simp: prepare_execution_batch_def split: option.splits sum.splits)
  have "apply_to_target x row = Inr row1" using execution_apply_written(4) [OF assms(2)] by auto
  then show ?thesis unfolding x by (rule assembled_recorded)
qed

lemma rowless_unrecorded:
  "prepare_execution None mi e = Inr x \<Longrightarrow> Option.bind (xt_journal x) order_part_of = None"
  by (auto simp: prepare_execution_def prepare_execution_norow_def norow_transaction_def Let_def
      split: if_splits prod.splits)


section \<open>The history of a row\<close>

text \<open>The moves of a row one record holds, and those of a journal.\<close>

fun record_moves :: "ledger_id \<Rightarrow> client_order_id \<Rightarrow> journal_record \<Rightarrow> (u64 \<times> snap) list" where
  "record_moves ledger cid (J_ObservationTxn t) =
     (if ob_ledger t = ledger
      then map (\<lambda>m. (ma_seq m, (ma_state_after m, ma_ctx_after m)))
             (filter (\<lambda>m. ma_client_order_id m = cid) (ob_members_after t))
      else [])"
| "record_moves ledger cid r =
     (case order_part_of r of
        Some p \<Rightarrow>
          if ot_ledger p = ledger \<and> ot_client_order_id p = cid
          then [(ot_seq p, (ot_state_after p, ot_ctx_after p))] else []
      | None \<Rightarrow> [])"

definition history :: "ledger_id \<Rightarrow> client_order_id \<Rightarrow> journal_record list \<Rightarrow> (u64 \<times> snap) list" where
  "history ledger cid recs = concat (map (record_moves ledger cid) recs)"

definition order_records :: "ledger_id \<Rightarrow> client_order_id \<Rightarrow> journal_record list \<Rightarrow> order_txn_record list"
  where
  "order_records ledger cid recs =
     filter (\<lambda>p. ot_ledger p = ledger \<and> ot_client_order_id p = cid) (keep_some (map order_part_of recs))"

lemma history_simps [simp]:
  "history ledger cid [] = []"
  "history ledger cid (r # rs) = record_moves ledger cid r @ history ledger cid rs"
  "history ledger cid (rs @ ss) = history ledger cid rs @ history ledger cid ss"
  by (simp_all add: history_def)

fun is_observation :: "journal_record \<Rightarrow> bool" where
  "is_observation (J_ObservationTxn _) = True"
| "is_observation _ = False"

lemma unobserved_history:
  "\<not> list_ex is_observation recs \<Longrightarrow> history ledger cid recs =
    map (\<lambda>p. (ot_seq p, (ot_state_after p, ot_ctx_after p))) (order_records ledger cid recs)"
proof (induction recs)
  case (Cons r recs)
  then show ?case by (cases r) (auto simp: order_records_def split: option.split)
qed (simp add: order_records_def)

text \<open>Both rebuilds insert keyed values, skip equal ones and refuse divergent ones.\<close>

fun put_all :: "client_order_id \<Rightarrow> (u64 \<times> 'v) list \<Rightarrow> (u64, 'v) btree \<Rightarrow> rebuild_error + (u64, 'v) btree" where
  "put_all cid [] m = Inr m"
| "put_all cid ((k, v) # kvs) m =
     (case bt_get m k of
        Some prev \<Rightarrow> if prev \<noteq> v then Inl (RE_Divergent cid k) else put_all cid kvs m
      | None \<Rightarrow> put_all cid kvs (bt_insert k v m))"

lemma put_all_append:
  "put_all cid (xs @ ys) m =
    (case put_all cid xs m of Inl e \<Rightarrow> Inl e | Inr m1 \<Rightarrow> put_all cid ys m1)"
  by (induction cid xs m rule: put_all.induct) (auto split: option.split)

lemma collect_snaps_put:
  "collect_snaps ledger cid recs m = put_all cid (map (\<lambda>p. (ot_seq p, p)) (order_records ledger cid recs)) m"
  by (induction ledger cid recs m rule: collect_snaps.induct)
    (auto simp: order_records_def split: option.split)

lemma insert_members_put:
  "insert_members cid ms m =
    put_all cid (map (\<lambda>m. (ma_seq m, (ma_state_after m, ma_ctx_after m)))
      (filter (\<lambda>m. ma_client_order_id m = cid) ms)) m"
  by (induction cid ms m rule: insert_members.induct) (auto simp: insert_snap_def split: option.split)

lemma record_snaps_put: "record_snaps ledger cid r m = put_all cid (record_moves ledger cid r) m"
  by (cases r) (auto simp: insert_members_put insert_snap_def split: option.split)

lemma collect_all_put: "collect_all_snaps ledger cid recs m = put_all cid (history ledger cid recs) m"
  by (induction ledger cid recs m rule: collect_all_snaps.induct)
    (auto simp: put_all_append record_snaps_put split: sum.split)

lemma bt_insert_last: "\<forall>x \<in> fst ` set m. x < k \<Longrightarrow> bt_insert k v m = m @ [(k, v)]"
  by (induction m) auto

lemma put_all_contiguous:
  "map fst xs = [k..<k + length xs] \<Longrightarrow> \<forall>x \<in> fst ` set m. x < k \<Longrightarrow> put_all cid xs m = Inr (m @ xs)"
proof (induction xs arbitrary: k m)
  case (Cons p xs)
  obtain a v where p: "p = (a, v)" by (cases p)
  have "[k..<k + length (p # xs)] = k # [k + 1..<(k + 1) + length xs]" by (simp add: upt_rec)
  with Cons.prems(1) p have a: "a = k" and keys: "map fst xs = [k + 1..<(k + 1) + length xs]" by simp_all
  have "bt_get m k = None" using Cons.prems(2) by (auto simp: bt_get_None)
  moreover have "put_all cid xs (m @ [(k, v)]) = Inr ((m @ [(k, v)]) @ xs)"
    by (rule Cons.IH [OF keys]) (use Cons.prems(2) in force)
  ultimately show ?case using Cons.prems(2) by (simp add: p a bt_insert_last)
qed simp

lemma walk_match:
  "map fst snaps = [k..<k + length snaps] \<Longrightarrow>
    walk_snaps cid k prev snaps = Inr (if snaps = [] then prev else Some (snd (last snaps)))"
proof (induction snaps arbitrary: k prev)
  case (Cons p snaps)
  obtain a rec where p: "p = (a, rec)" by (cases p)
  have "[k..<k + length (p # snaps)] = k # [k + 1..<(k + 1) + length snaps]"
    by (simp add: upt_rec)
  with Cons.prems p have "a = k" "map fst snaps = [k + 1..<(k + 1) + length snaps]" by simp_all
  with Cons.IH p show ?case by simp
qed simp

lemma walk_all_match:
  "map fst snaps = [k..<k + length snaps] \<Longrightarrow>
    walk_all_snaps cid k prev snaps =
      Inr (if snaps = [] then prev else Some (snd (last snaps)), k + length snaps)"
proof (induction snaps arbitrary: k prev)
  case (Cons p snaps)
  obtain a sn where p: "p = (a, sn)" by (cases p)
  have "[k..<k + length (p # snaps)] = k # [k + 1..<(k + 1) + length snaps]"
    by (simp add: upt_rec)
  with Cons.prems p have "a = k" "map fst snaps = [k + 1..<(k + 1) + length snaps]" by simp_all
  with Cons.IH p show ?case by simp
qed simp


section \<open>Along a run\<close>

definition untouched :: "ledger_id \<Rightarrow> order_row \<Rightarrow> bool" where
  "untouched ledger row =
     (\<exists>strategy side price qty.
        row = fresh_row ledger (client_order_id_of (row_ctx row)) strategy side price qty)"

text \<open>A row and its history: the keys are 1 to the cursor, the last move is the row.\<close>

definition row_history :: "ledger_id \<Rightarrow> nat \<Rightarrow> order_row option \<Rightarrow> (u64 \<times> snap) list \<Rightarrow> bool" where
  "row_history ledger n ro h =
     (case ro of
        None \<Rightarrow> h = []
      | Some row \<Rightarrow>
          length h = oc_seq (row_cursor row) \<and> length h \<le> n
          \<and> map fst h = [1..<1 + length h]
          \<and> (if h = [] then untouched ledger row
             else snd (last h) = (row_state row, row_ctx row)))"

definition journal_covers :: "ledger_id \<Rightarrow> ledger_state \<Rightarrow> bool" where
  "journal_covers ledger s =
     (\<forall>cid. row_history ledger (length (lg_journal s)) (lg_rows s cid) (history ledger cid (lg_journal s)))"

text \<open>A row that moves once, with the next sequence number, or not at all.\<close>

definition next_move :: "order_row \<Rightarrow> (u64 \<times> snap) list \<Rightarrow> order_row \<Rightarrow> bool" where
  "next_move row h row1 =
     (h = [] \<and> row1 = row
      \<or> h = [(next_seq (oc_seq (row_cursor row)), (row_state row1, row_ctx row1))]
        \<and> oc_seq (row_cursor row1) = next_seq (oc_seq (row_cursor row)))"

lemma row_history_step:
  assumes "row_history ledger n (Some row) h" and "next_move row h1 row1" and "n + length h1 \<le> k"
    and "h1 \<noteq> [] \<longrightarrow> n < u64_max"
  shows "row_history ledger k (Some row1) (h @ h1)"
proof (cases "h1 = []")
  case True
  with assms show ?thesis by (auto simp: row_history_def next_move_def)
next
  case False
  with assms have "next_seq (oc_seq (row_cursor row)) = length h + 1"
    by (auto simp: row_history_def next_seq_def u64_max_def)
  with False assms show ?thesis by (auto simp: row_history_def next_move_def)
qed

lemma row_history_none: "row_history ledger n None h \<Longrightarrow> row_history ledger k None (h @ [])"
  by (simp add: row_history_def)

text \<open>
  A step of the run: every row makes its next move or none, and the journal grows by at least as much
  as any one history.
\<close>

lemma covers_step:
  assumes cov: "journal_covers ledger s" and jr: "lg_journal s1 = lg_journal s @ rs"
    and moves: "\<And>cid. (lg_rows s cid = None \<and> lg_rows s1 cid = None \<and> history ledger cid rs = [])
      \<or> (\<exists>row row1. lg_rows s cid = Some row \<and> lg_rows s1 cid = Some row1
          \<and> next_move row (history ledger cid rs) row1)"
    and len: "\<And>cid. length (history ledger cid rs) \<le> length rs"
    and small: "length (lg_journal s1) \<le> u64_max"
  shows "journal_covers ledger s1"
  unfolding journal_covers_def
proof
  fix cid
  have h: "row_history ledger (length (lg_journal s)) (lg_rows s cid) (history ledger cid (lg_journal s))"
    using cov by (simp add: journal_covers_def)
  from moves [of cid] show "row_history ledger (length (lg_journal s1)) (lg_rows s1 cid)
      (history ledger cid (lg_journal s1))"
  proof (elim disjE exE conjE)
    assume "lg_rows s cid = None" "lg_rows s1 cid = None" "history ledger cid rs = []"
    with h show ?thesis by (simp add: jr row_history_def)
  next
    fix row row1
    assume "lg_rows s cid = Some row" "lg_rows s1 cid = Some row1" "next_move row (history ledger cid rs) row1"
    moreover have "history ledger cid rs \<noteq> [] \<longrightarrow> length (lg_journal s) < u64_max"
      using len [of cid] small jr by (cases rs) auto
    ultimately show ?thesis
      using row_history_step [of ledger _ row _ "history ledger cid rs" row1 "length (lg_journal s1)"] h
        len [of cid] by (simp add: jr)
  qed
qed

lemma order_part_moves:
  "record_moves ledger cid r = (if is_observation r then record_moves ledger cid r else
    (case order_part_of r of
        Some p \<Rightarrow>
          if ot_ledger p = ledger \<and> ot_client_order_id p = cid
          then [(ot_seq p, (ot_state_after p, ot_ctx_after p))] else []
      | None \<Rightarrow> []))"
  by (cases r) auto

text \<open>The record of one row's transaction.\<close>

lemma recorded_moves:
  assumes "rows_ok ledger s" and "lg_rows s cid = Some row"
    and "moved_on_record row (Option.bind jr order_part_of) row1"
    and "\<forall>r. jr = Some r \<longrightarrow> \<not> is_observation r"
  shows "next_move row (history ledger cid (opt_list jr)) row1"
    and "c \<noteq> cid \<Longrightarrow> history ledger c (opt_list jr) = []"
    and "length (history ledger c (opt_list jr)) \<le> length (opt_list jr)"
proof -
  have ids: "row_ledger row = ledger" "client_order_id_of (row_ctx row) = cid"
    using assms(1,2) by (simp_all add: rows_ok_def)
  have moves: "history ledger c (opt_list jr) =
      (case Option.bind jr order_part_of of
         Some p \<Rightarrow> if ot_ledger p = ledger \<and> ot_client_order_id p = c
           then [(ot_seq p, (ot_state_after p, ot_ctx_after p))] else []
       | None \<Rightarrow> [])" for c
    using assms(4) by (cases jr) (auto simp: order_part_moves [of ledger c])
  show "next_move row (history ledger cid (opt_list jr)) row1"
    using assms(3) ids
    by (auto simp: moves next_move_def moved_on_record_def records_row_def split: option.splits)
  show "c \<noteq> cid \<Longrightarrow> history ledger c (opt_list jr) = []"
    using assms(3) ids by (auto simp: moves moved_on_record_def records_row_def split: option.splits)
  show "length (history ledger c (opt_list jr)) \<le> length (opt_list jr)"
    using moves [of c] by (cases jr) (auto split: option.splits)
qed

text \<open>The records of this layer's transactions are no observations.\<close>

lemma order_event_record:
  "prepare_order_event row ev = Inr ox \<Longrightarrow> ox_journal ox = Some r \<Longrightarrow> \<not> is_observation r"
  by (auto simp: prepare_order_event_def unchanged_txn_def advancing_txn_def Let_def
      split: if_splits prod.splits transition_outcome.splits)

lemma planned_record: "planned mi x \<Longrightarrow> xt_journal x = Some r \<Longrightarrow> \<not> is_observation r"
  by (auto simp: planned_def recorded_def)

text \<open>An observation moves every member on record.\<close>

lemma find_fresh: "k \<notin> f ` set xs \<Longrightarrow> find (\<lambda>x. f x = k) xs = None"
  by (induction xs) auto

lemma filter_keep_some:
  assumes "distinct (map row_cid rows)" and "\<And>t m. f t = Some m \<Longrightarrow> ma_client_order_id m = row_cid t"
  shows "filter (\<lambda>m. ma_client_order_id m = cid) (keep_some (map f rows)) =
    (case find (\<lambda>r. row_cid r = cid) rows of
       Some r \<Rightarrow> (case f r of Some m \<Rightarrow> [m] | None \<Rightarrow> []) | None \<Rightarrow> [])"
  using assms(1)
proof (induction rows)
  case (Cons t rows)
  have none: "find (\<lambda>r. row_cid r = cid) rows = None" if "row_cid t = cid"
    using Cons.prems that by (intro find_fresh) auto
  show ?case
  proof (cases "f t")
    case None
    then show ?thesis using Cons none by (auto split: option.split)
  next
    case (Some m)
    with assms(2) have "ma_client_order_id m = row_cid t" by blast
    then show ?thesis using Cons none Some by (auto split: option.splits)
  qed
qed simp

lemma observed_history:
  assumes valid: "distinct (map row_cid rows)" and ledger: "rd_ledger rd = ledger"
    and x: "x = round_transaction rd ws mi rows row"
  shows "history ledger cid (opt_list (bx_journal x)) =
    (case find (\<lambda>r. row_cid r = cid) rows of
       None \<Rightarrow> []
     | Some r \<Rightarrow>
         (case member_moved r (judged rd ws mi row r) of
            Some m \<Rightarrow> [(ma_seq m, (ma_state_after m, ma_ctx_after m))] | None \<Rightarrow> []))"
proof -
  have moved: "filter (\<lambda>m. ma_client_order_id m = cid) (bx_members_after x) =
    (case find (\<lambda>r. row_cid r = cid) rows of
       Some r \<Rightarrow> (case member_moved r (judged rd ws mi row r) of Some m \<Rightarrow> [m] | None \<Rightarrow> []) | None \<Rightarrow> [])"
    unfolding x round_moved by (rule filter_keep_some [OF valid]) (rule moved_client)
  show ?thesis
  proof (cases "bx_journal x")
    case None
    then have "bx_members_after x = []" by (simp add: x round_transaction_def Let_def split: if_splits)
    with moved None show ?thesis by (auto split: option.splits)
  next
    case (Some r)
    with round_journal [of rd ws mi rows row] ledger obtain t where
      "bx_journal x = Some (J_ObservationTxn t)" "ob_ledger t = ledger"
      "ob_members_after t = bx_members_after x" unfolding x by auto
    with moved show ?thesis by (auto split: option.splits)
  qed
qed

lemma put_rows_get:
  "distinct (map row_cid rows) \<Longrightarrow> put_rows rows m cid =
    (case find (\<lambda>r. row_cid r = cid) rows of Some r \<Rightarrow> Some r | None \<Rightarrow> m cid)"
proof (induction rows arbitrary: m)
  case (Cons r rows)
  have "find (\<lambda>t. row_cid t = cid) rows = None" if "row_cid r = cid"
    using Cons.prems that by (intro find_fresh) auto
  with Cons show ?case by (auto split: option.split)
qed simp

lemma judged_next_move:
  "next_move r (case member_moved r (judged rd ws mi row r) of
      Some m \<Rightarrow> [(ma_seq m, (ma_state_after m, ma_ctx_after m))] | None \<Rightarrow> [])
    (judged_row rd ws mi row r)"
  by (auto simp: next_move_def member_moved_def member_result_def split: prod.split)

lemma judged_row_cid: "row_cid (judged_row rd ws mi row r) = row_cid r"
  using judged_row_step [where r = r and rd = rd and ws = ws and mi = mi and row = row] by (simp add: row_step_def)

lemma find_judged:
  "find (\<lambda>t. row_cid t = cid) (map (judged_row rd ws mi row) rows) =
    map_option (judged_row rd ws mi row) (find (\<lambda>t. row_cid t = cid) rows)"
  by (induction rows) (simp_all add: judged_row_cid)

lemma covers_row:
  assumes "journal_covers ledger s" and rows: "rows_ok ledger s" and row: "lg_rows s cid = Some row"
    and moved: "moved_on_record row (Option.bind jr order_part_of) row1"
    and plain: "\<forall>r. jr = Some r \<longrightarrow> \<not> is_observation r"
    and rows1: "lg_rows s1 = (lg_rows s)(cid \<mapsto> row1)"
    and "lg_journal s1 = lg_journal s @ opt_list jr" and "length (lg_journal s1) \<le> u64_max"
  shows "journal_covers ledger s1"
proof (rule covers_step [OF assms(1,7) _ _ assms(8)])
  note moves = recorded_moves [OF rows row moved plain]
  fix c
  show "length (history ledger c (opt_list jr)) \<le> length (opt_list jr)" by (rule moves(3))
  show "(lg_rows s c = None \<and> lg_rows s1 c = None \<and> history ledger c (opt_list jr) = [])
      \<or> (\<exists>row row1. lg_rows s c = Some row \<and> lg_rows s1 c = Some row1
          \<and> next_move row (history ledger c (opt_list jr)) row1)"
  proof (cases "c = cid")
    case True
    then show ?thesis using moves(1) row rows1 by simp
  next
    case False
    then show ?thesis using moves(2) [OF False] rows1
      by (cases "lg_rows s c") (simp_all add: next_move_def)
  qed
qed

lemma covers_quiet:
  assumes "journal_covers ledger s" and "lg_rows s1 = lg_rows s" and "lg_journal s1 = lg_journal s @ rs"
    and none: "\<And>cid. history ledger cid rs = []" and "length (lg_journal s1) \<le> u64_max"
  shows "journal_covers ledger s1"
proof (rule covers_step [OF assms(1,3) _ _ assms(5)])
  fix c
  show "length (history ledger c rs) \<le> length rs" by (simp add: none)
  show "(lg_rows s c = None \<and> lg_rows s1 c = None \<and> history ledger c rs = [])
      \<or> (\<exists>row row1. lg_rows s c = Some row \<and> lg_rows s1 c = Some row1
          \<and> next_move row (history ledger c rs) row1)"
    by (cases "lg_rows s c") (simp_all add: assms(2) none next_move_def)
qed

lemma covers_observe:
  assumes "journal_covers ledger s"
    and rows: "\<forall>r \<in> set rows. lg_rows s (row_cid r) = Some r" and ledger: "rd_ledger rd = ledger"
    and fin: "round_finish rd (lg_registry s) (lg_inventory s) rows row = Inr x"
    and app: "observation_apply x rows (lg_registry s) (lg_inventory s) = Inr (out, rows1, reg)"
    and rows1: "lg_rows s1 = put_rows rows1 (lg_rows s)"
    and "lg_journal s1 = lg_journal s @ opt_list (bx_journal x)" and "length (lg_journal s1) \<le> u64_max"
  shows "journal_covers ledger s1"
proof (rule covers_step [OF assms(1,7) _ _ assms(8)])
  define ws where "ws = wire_or_new (lg_registry s) (rd_ledger rd) (rd_wire rd)"
  let ?mi = "lg_inventory s"
  note shape = finish_shape [OF fin, folded ws_def]
  note valid = members_valid(1) [OF shape(2)]
  have rows1_eq: "rows1 = map (judged_row rd ws ?mi row) rows"
    using apply_shape(1) [OF app] moved_rows [OF valid] by (simp add: shape(1))
  have dist1: "distinct (map row_cid rows1)" using valid by (simp add: rows1_eq comp_def judged_row_cid)
  note hist = observed_history [OF valid ledger shape(1)]
  fix c
  show "length (history ledger c (opt_list (bx_journal x))) \<le> length (opt_list (bx_journal x))"
  proof (cases "bx_journal x")
    case None
    then show ?thesis by simp
  next
    case (Some r)
    then show ?thesis unfolding hist by (auto split: option.split)
  qed
  show "(lg_rows s c = None \<and> lg_rows s1 c = None \<and> history ledger c (opt_list (bx_journal x)) = [])
      \<or> (\<exists>row row1. lg_rows s c = Some row \<and> lg_rows s1 c = Some row1
          \<and> next_move row (history ledger c (opt_list (bx_journal x))) row1)"
  proof (cases "find (\<lambda>r. row_cid r = c) rows")
    case None
    then have "find (\<lambda>r. row_cid r = c) rows1 = None" by (simp add: rows1_eq find_judged)
    then have "lg_rows s1 c = lg_rows s c" by (simp add: rows1 put_rows_get [OF dist1])
    moreover have "history ledger c (opt_list (bx_journal x)) = []" using None by (simp add: hist)
    ultimately show ?thesis by (cases "lg_rows s c") (simp_all add: next_move_def)
  next
    case (Some r)
    then have "r \<in> set rows" "row_cid r = c" by (auto simp: find_Some_iff)
    with rows have "lg_rows s c = Some r" by auto
    moreover have "lg_rows s1 c = Some (judged_row rd ws ?mi row r)"
      using Some by (simp add: rows1 put_rows_get [OF dist1]) (simp add: rows1_eq find_judged)
    moreover have "next_move r (history ledger c (opt_list (bx_journal x))) (judged_row rd ws ?mi row r)"
      using judged_next_move [where r = r and rd = rd and ws = ws and mi = ?mi and row = row] by (simp add: hist Some)
    ultimately show ?thesis by blast
  qed
qed

lemma foreign_history: "foreign_record ledger r \<Longrightarrow> history ledger cid [r] = []"
  by (cases r) (auto split: option.split)

lemma unrecorded_history:
  "Option.bind jr order_part_of = None \<Longrightarrow> \<forall>r. jr = Some r \<longrightarrow> \<not> is_observation r \<Longrightarrow>
    history ledger cid (opt_list jr) = []"
  by (cases jr) (auto simp: order_part_moves [of ledger cid])

lemma journal_covers_run:
  "ledger_run ledger s \<Longrightarrow> length (lg_journal s) \<le> u64_max \<Longrightarrow> journal_covers ledger s"
proof (induction rule: ledger_run.induct)
  case start
  then show ?case by (simp add: journal_covers_def ledger_start_def row_history_def)
next
  case (place s cid strategy side price qty)
  have "untouched ledger (fresh_row ledger cid strategy side price qty)"
    by (auto simp: fresh_row_def untouched_def order_ctx_new_def)
  moreover have "journal_covers ledger s" using place by simp
  moreover have "history ledger cid (lg_journal s) = []"
  proof -
    have "row_history ledger (length (lg_journal s)) (lg_rows s cid) (history ledger cid (lg_journal s))"
      using \<open>journal_covers ledger s\<close> unfolding journal_covers_def by (rule spec)
    then show ?thesis using place.hyps(2) by (simp add: row_history_def)
  qed
  ultimately show ?case by (simp add: journal_covers_def) (simp add: row_history_def fresh_row_def)
next
  case (order_event s cid row ev ox row1 reg)
  then have cov: "journal_covers ledger s" by simp
  have rows: "rows_ok ledger s" using ledger_run_inv [OF order_event.hyps(1)] by (simp add: ledger_inv_def)
  have "\<forall>r. ox_journal ox = Some r \<longrightarrow> \<not> is_observation r"
    using order_event_record [OF order_event.hyps(3)] by blast
  from covers_row [OF cov rows order_event.hyps(2) order_event_recorded [OF order_event.hyps(3,4)] this]
  show ?case using order_event.prems by simp
next
  case (execution s cid row ev evs x outs row1 mi1 reg)
  then have cov: "journal_covers ledger s" by simp
  have rows: "rows_ok ledger s" using ledger_run_inv [OF execution.hyps(1)] by (simp add: ledger_inv_def)
  have "\<forall>r. xt_journal x = Some r \<longrightarrow> \<not> is_observation r"
    using planned_record [OF batch_planned [OF execution.hyps(3)]] by blast
  from covers_row [OF cov rows execution.hyps(2) batch_recorded [OF execution.hyps(3,4)] this]
  show ?case using execution.prems by simp
next
  case (rowless s e x outs mi1 reg)
  then have cov: "journal_covers ledger s" by simp
  have "\<forall>r. xt_journal x = Some r \<longrightarrow> \<not> is_observation r"
    using planned_record [OF rowless_planned [OF rowless.hyps(2)]] by blast
  with rowless_unrecorded [OF rowless.hyps(2)]
  have "history ledger cid (opt_list (xt_journal x)) = []" for cid by (rule unrecorded_history)
  from covers_quiet [OF cov _ _ this] show ?case using rowless.prems by simp
next
  case (observe s rd rows row x out rows1 reg)
  then have cov: "journal_covers ledger s" by simp
  from covers_observe [OF cov observe.hyps(3,2,4,5)] show ?case using observe.prems by simp
next
  case (prove_resting s wire t reg)
  then have cov: "journal_covers ledger s" by simp
  from covers_quiet [OF cov, where rs = "[J_OrderStateTxn t]"] show ?case using prove_resting.prems by simp
next
  case (prove_rest s wire cid filled remaining initial p reg)
  then have cov: "journal_covers ledger s" by simp
  from covers_quiet [OF cov, where rs = "[J_RestOrderProofTxn p]"] show ?case using prove_rest.prems by simp
next
  case (other s r reg)
  then have cov: "journal_covers ledger s" by simp
  from covers_quiet [OF cov _ _ foreign_history [OF other.hyps(2)]] show ?case using other.prems by simp
qed


section \<open>The rebuilt row\<close>

definition row_or_none :: "order_row option \<Rightarrow> (order_state \<times> order_ctx \<times> order_cursor) option" where
  "row_or_none ro =
     (case ro of
        None \<Rightarrow> None
      | Some row \<Rightarrow>
          if oc_seq (row_cursor row) = 0 then None
          else Some (row_state row, row_ctx row, row_cursor row))"

lemma history_keys:
  assumes "row_history ledger n ro h"
  shows "map fst h = [1..<1 + length h]"
  using assms by (auto simp: row_history_def split: option.splits)

lemma rebuilt_with_observations:
  assumes "row_history ledger n ro (history ledger cid recs)"
  shows "rebuild_order_with_observations ledger cid recs = Inr (row_or_none ro)"
proof -
  let ?h = "history ledger cid recs"
  note keys = history_keys [OF assms]
  have collect: "collect_all_snaps ledger cid recs [] = Inr ?h"
    using put_all_contiguous [OF keys, of "[]"] by (simp add: collect_all_put)
  show ?thesis
  proof (cases "?h = []")
    case True
    with collect assms show ?thesis
      by (auto simp: rebuild_order_with_observations_def row_or_none_def row_history_def
          split: option.splits)
  next
    case False
    then obtain row where "ro = Some row" "length ?h = oc_seq (row_cursor row)"
        "snd (last ?h) = (row_state row, row_ctx row)"
      using assms by (auto simp: row_history_def split: option.splits)
    moreover have "oc_seq (row_cursor row) \<noteq> 0" using calculation(2) False by (metis length_0_conv)
    ultimately show ?thesis
      using collect False walk_all_match [OF keys, of cid None]
      by (auto simp: rebuild_order_with_observations_def row_or_none_def)
  qed
qed

lemma rebuilt_unobserved:
  assumes "row_history ledger n ro (history ledger cid recs)" and "\<not> list_ex is_observation recs"
  shows "rebuild_order ledger cid recs = Inr (row_or_none ro)"
proof -
  let ?h = "history ledger cid recs"
  define kvs where "kvs = map (\<lambda>p. (ot_seq p, p)) (order_records ledger cid recs)"
  have h: "?h = map (\<lambda>(k, p). (k, (ot_state_after p, ot_ctx_after p))) kvs"
    by (simp add: unobserved_history [OF assms(2)] kvs_def comp_def)
  then have keys: "map fst kvs = [1..<1 + length kvs]"
    using history_keys [OF assms(1)] by (simp add: comp_def case_prod_unfold)
  have collect: "collect_snaps ledger cid recs [] = Inr kvs"
    using put_all_contiguous [OF keys, of "[]"] by (simp add: collect_snaps_put kvs_def)
  show ?thesis
  proof (cases "kvs = []")
    case True
    with collect h assms(1) show ?thesis
      by (auto simp: rebuild_order_def row_or_none_def row_history_def split: option.splits)
  next
    case False
    then have "?h \<noteq> []" by (simp add: h)
    then obtain row where row: "ro = Some row" "length ?h = oc_seq (row_cursor row)"
        "snd (last ?h) = (row_state row, row_ctx row)"
      using assms(1) by (auto simp: row_history_def split: option.splits)
    obtain k where "length kvs = Suc k" using False by (cases kvs) auto
    then have "last (map fst kvs) = length kvs" unfolding keys by simp
    then have "fst (last kvs) = length kvs" using False by (simp add: last_map)
    moreover have "last kvs \<in> set kvs" using False by simp
    ultimately have "ot_seq (snd (last kvs)) = length kvs" by (auto simp: kvs_def)
    moreover have "length kvs = oc_seq (row_cursor row)" using row(2) by (simp add: h)
    moreover have "(ot_state_after (snd (last kvs)), ot_ctx_after (snd (last kvs))) = (row_state row, row_ctx row)"
      using row(3) False by (simp add: h last_map case_prod_unfold)
    moreover have "oc_seq (row_cursor row) \<noteq> 0" using row(2) \<open>?h \<noteq> []\<close> by (metis length_0_conv)
    ultimately show ?thesis
      using collect False walk_match [OF keys, of cid None] row(1)
      by (simp add: rebuild_order_def row_or_none_def)
  qed
qed

lemma rebuilt_row:
  assumes "ledger_run ledger s" and "length (lg_journal s) \<le> u64_max"
  shows "rebuild_order_with_observations ledger cid (lg_journal s) = Inr (row_or_none (lg_rows s cid))"
    and "\<not> list_ex is_observation (lg_journal s) \<Longrightarrow>
      rebuild_order ledger cid (lg_journal s) = Inr (row_or_none (lg_rows s cid))"
    and "lg_rows s cid = Some row \<Longrightarrow> oc_seq (row_cursor row) = 0 \<Longrightarrow> untouched ledger row"
proof -
  have h: "row_history ledger (length (lg_journal s)) (lg_rows s cid) (history ledger cid (lg_journal s))"
    using journal_covers_run [OF assms] by (simp add: journal_covers_def)
  show "rebuild_order_with_observations ledger cid (lg_journal s) = Inr (row_or_none (lg_rows s cid))"
    by (rule rebuilt_with_observations [OF h])
  show "\<not> list_ex is_observation (lg_journal s) \<Longrightarrow>
      rebuild_order ledger cid (lg_journal s) = Inr (row_or_none (lg_rows s cid))"
    by (rule rebuilt_unobserved [OF h])
  show "lg_rows s cid = Some row \<Longrightarrow> oc_seq (row_cursor row) = 0 \<Longrightarrow> untouched ledger row"
    using h by (auto simp: row_history_def split: if_splits)
qed

end
