(* ===== verification/Commit_Laws.thy ===== *)
theory Commit_Laws
  imports Order_Rebuild
begin

text \<open>
  Committing execution transactions: a prepared transaction always applies to what it was prepared
  on, a stale one never does, and the net position moves by exactly the executions ingested.
\<close>

section \<open>Progress\<close>

lemma core_call_no_panic: "core_call row mi ev evs staging pre \<noteq> Inl f"
  by (cases ev) (auto simp: core_call_def rebuild_event_with_fills_def Let_def
      split: option.splits list.splits if_splits)

lemma batch_no_panic: "prepare_execution_batch row mi ev evs \<noteq> Inl Panic"
  using core_call_no_panic
  by (auto simp: prepare_execution_batch_def split: option.split prod.split sum.split)

lemma assembled_applies:
  "\<exists>row1. apply_to_target (assemble_batch row mi ev staging pre core) row = Inr row1"
  by (cases core) (auto simp: apply_to_target_def assemble_batch_def Let_def)

lemma batch_applies:
  assumes "prepare_execution_batch row mi ev evs = Inr x"
  shows "\<exists>row1. execution_transaction_apply x (Some row) mi
    = Inr (xt_outcomes x, Some row1, written x mi)"
proof -
  obtain staging pre core where x: "x = assemble_batch row mi ev staging pre core"
    using assms by (auto simp: prepare_execution_batch_def split: option.splits prod.splits sum.splits)
  obtain row1 where row1: "apply_to_target x row = Inr row1"
    using assembled_applies unfolding x by blast
  have "xt_prepared_order_ledger x \<noteq> None" "xt_prepared_inventory_ledger x = mi_ledger mi"
    "xt_expected_generation x = mi_generation mi"
    by (simp_all add: x assemble_batch_def Let_def)
  with row1 show ?thesis by (auto simp: execution_transaction_apply_def written_def)
qed

lemma rowless_applies:
  assumes "prepare_execution None mi e = Inr x"
  shows "execution_transaction_apply x None mi = Inr (xt_outcomes x, None, written x mi)"
proof -
  have "xt_prepared_order_ledger x = None"
    using assms by (auto simp: prepare_execution_def prepare_execution_norow_def
        norow_transaction_def Let_def split: if_splits prod.splits)
  moreover have "planned mi x" by (rule rowless_planned [OF assms])
  ultimately show ?thesis by (simp add: execution_transaction_apply_def written_def planned_def)
qed

lemma evidence_matches: "check_evidence_matches_fills (flatten_event_fills (evidence_event e)) [e] = None"
  by (auto simp: check_evidence_matches_fills_def evidence_event_def pair_mismatch_def
      split: option.split prod.split)

lemma row_evidence_prepares:
  assumes "evidence_ledger e = mi_ledger mi"
  shows "\<exists>x. prepare_execution (Some row) mi e = Inr x"
  using assms core_call_no_panic
  by (auto simp: prepare_execution_def prepare_execution_batch_def evidence_matches
      batch_ledger_error_def split: prod.split sum.split)

lemma norow_evidence_prepares:
  assumes "evidence_ledger e = mi_ledger mi"
  shows "\<exists>x. prepare_execution None mi e = Inr x"
  using assms by (auto simp: prepare_execution_def prepare_execution_norow_def split: prod.split)


section \<open>At most once\<close>

definition writes_something :: "execution_transaction \<Rightarrow> bool" where
  "writes_something x =
     (xt_planned_entries x \<noteq> [] \<or> xt_planned_conflicts x \<noteq> [] \<or> xt_advance_cursor x)"

lemma next_seq_moves: "n \<le> u64_max \<Longrightarrow> next_seq n \<noteq> n"
  by (cases "n = u64_max") (simp_all add: next_seq_def u64_max_def)

lemma written_generation:
  assumes "mi_generation mi < u64_max" and "xt_planned_entries x \<noteq> [] \<or> xt_planned_conflicts x \<noteq> []"
  shows "mi_generation (written x mi) \<noteq> mi_generation mi"
proof -
  have "mi_generation (written x mi) = sat_add_u64 (mi_generation mi)
      (length (xt_planned_entries x) + length (xt_planned_conflicts x))"
    using assms(1) by (simp add: written_def write_entries_overlay write_conflicts_overlay
        sat_add_u64_le sat_add_chain)
  moreover have "length (xt_planned_entries x) + length (xt_planned_conflicts x) > 0"
    using assms(2) by auto
  ultimately show ?thesis using assms(1) by (simp add: sat_add_u64_def min_def split: if_splits)
qed

lemma batch_stale:
  assumes prep: "prepare_execution_batch row mi ev evs = Inr x"
    and app: "execution_transaction_apply x (Some row) mi = Inr (outs, Some row1, mi1)"
    and wr: "writes_something x"
    and room: "mi_generation mi < u64_max" "oc_seq (row_cursor row) \<le> u64_max"
  shows "\<exists>err. execution_transaction_apply x (Some row1) mi1 = Inl (Err err)"
proof -
  obtain staging pre core where x: "x = assemble_batch row mi ev staging pre core"
    using prep by (auto simp: prepare_execution_batch_def split: option.splits prod.splits sum.splits)
  have mi1: "mi1 = written x mi" and target: "apply_to_target x row = Inr row1"
    using execution_apply_written [OF app] by auto
  have exp: "xt_expected_generation x = mi_generation mi"
    by (simp add: x assemble_batch_def Let_def)
  have ledger: "mi_ledger mi1 = xt_prepared_inventory_ledger x"
    using batch_planned [OF prep] room(1) mi1
    by (simp add: planned_def written_def write_entries_overlay write_conflicts_overlay sat_add_u64_le)
  show ?thesis
  proof (cases "mi_generation mi1 = mi_generation mi")
    case False
    with ledger exp app show ?thesis by (auto simp: execution_transaction_apply_def Let_def split: if_splits)
  next
    case True
    with written_generation [OF room(1), of x] wr mi1 have "xt_advance_cursor x"
      by (auto simp: writes_something_def)
    with target have "oc_seq (row_cursor row1) = next_seq (oc_seq (row_cursor row))"
        "xt_expected_cursor x = Some (row_cursor row)"
      by (auto simp: x apply_to_target_def assemble_batch_def Let_def split: if_splits option.splits)
    with next_seq_moves [OF room(2)] target
    have "\<exists>err. apply_to_target x row1 = Inl (Err err)"
      by (auto simp: apply_to_target_def split: option.splits if_splits)
    with True ledger exp app show ?thesis
      by (auto simp: execution_transaction_apply_def Let_def split: if_splits)
  qed
qed


section \<open>The net position\<close>

definition net_of :: "(fill_id, inventory_entry) btree \<Rightarrow> int" where
  "net_of m = sum_list (map (\<lambda>(_, e). signed_qty e) m)"

lemma net_fold: "foldl (\<lambda>n (_, e). n + signed_qty e) z m = z + net_of m"
  by (induction m arbitrary: z) (auto simp: net_of_def)

lemma inventory_net_eq: "inventory_net mi = net_of (mi_entries mi)"
  by (simp add: inventory_net_def net_fold)

lemma net_insert_new: "bt_get m k = None \<Longrightarrow> net_of (bt_insert k e m) = net_of m + signed_qty e"
  by (induction m) (auto simp: net_of_def split: if_splits)

lemma net_insert_same:
  "bt_ok m \<Longrightarrow> bt_get m k = Some p \<Longrightarrow> signed_qty e = signed_qty p \<Longrightarrow>
    net_of (bt_insert k e m) = net_of m"
proof (induction m)
  case (Cons q m)
  obtain a b where q: "q = (a, b)" by (cases q)
  show ?case
  proof (cases "a = k")
    case True
    with Cons.prems q show ?thesis by (simp add: net_of_def)
  next
    case False
    with Cons.prems(2) q have g: "bt_get m k = Some p" by simp
    then have "a < k" using Cons.prems(1) q bt_get_Some_in by (force simp: bt_ok_Cons)
    with Cons.IH g Cons.prems q False show ?thesis by (auto simp: net_of_def bt_ok_Cons)
  qed
qed simp

lemma extends_signed: "entry_extends p e \<Longrightarrow> signed_qty e = signed_qty p"
  by (cases "ie_side p") (simp_all add: entry_extends_def signed_qty_def)

definition ingested_qty :: "execution_outcome list \<Rightarrow> int" where
  "ingested_qty outs = sum_list (map (\<lambda>out. case outcome_entry out of
       Some e \<Rightarrow> if is_ingest (eo_inventory out) then signed_qty e else 0 | None \<Rightarrow> 0) outs)"

text \<open>The current map holds the known entries up to metadata, and none of the ids still to ingest.\<close>

definition net_ready :: "market_inventory \<Rightarrow> execution_outcome list \<Rightarrow> (fill_id, inventory_entry) btree \<Rightarrow> bool"
  where
  "net_ready mi outs m =
     (bt_ok m \<and> distinct (ingest_ids outs) \<and> set (ingest_ids outs) \<inter> dom (bt_get m) = {}
      \<and> (\<forall>fid p. inventory_get mi fid = Some p \<longrightarrow>
           (\<exists>q. bt_get m fid = Some q \<and> signed_qty q = signed_qty p))
      \<and> (\<forall>out \<in> set outs. \<forall>e. outcome_entry out = Some e \<longrightarrow>
           write_ok mi (outcome_id out) (is_ingest (eo_inventory out)) e))"

lemma net_entries: "net_ready mi outs m \<Longrightarrow> net_of (entries_of outs m) = net_of m + ingested_qty outs"
proof (induction outs arbitrary: m)
  case Nil
  then show ?case by (simp add: ingested_qty_def)
next
  case (Cons out outs)
  show ?case
  proof (cases "outcome_entry out")
    case None
    with Cons.prems have "net_ready mi outs m" by (auto simp: net_ready_def split: if_splits)
    with Cons.IH None show ?thesis by (simp add: ingested_qty_def put_planned_def)
  next
    case (Some e)
    let ?k = "outcome_id out"
    have ok: "write_ok mi ?k (is_ingest (eo_inventory out)) e" using Cons.prems Some
      by (auto simp: net_ready_def)
    show ?thesis
    proof (cases "is_ingest (eo_inventory out)")
      case True
      with Cons.prems have "bt_get m ?k = None" by (auto simp: net_ready_def)
      moreover have "net_ready mi outs (bt_insert ?k e m)"
        using Cons.prems True ok
        by (auto simp: net_ready_def write_ok_def bt_ok_insert bt_get_insert split: if_splits)
      ultimately show ?thesis
        using Cons.IH Some True by (simp add: ingested_qty_def put_planned_def net_insert_new)
    next
      case False
      with ok obtain p where p: "inventory_get mi ?k = Some p" "entry_extends p e"
        by (auto simp: write_ok_def)
      with Cons.prems obtain q where q: "bt_get m ?k = Some q" "signed_qty q = signed_qty p"
        unfolding net_ready_def by blast
      have "net_of (bt_insert ?k e m) = net_of m"
        using net_insert_same [of m ?k q e] Cons.prems q extends_signed [OF p(2)]
        by (simp add: net_ready_def)
      moreover have "net_ready mi outs (bt_insert ?k e m)"
        using Cons.prems False p q extends_signed [OF p(2)]
        by (auto simp: net_ready_def bt_ok_insert bt_get_insert dom_def split: if_splits)
      ultimately show ?thesis
        using Cons.IH Some False by (simp add: ingested_qty_def put_planned_def)
    qed
  qed
qed

lemma written_net:
  assumes "inventory_ok mi" and "planned mi x"
  shows "inventory_net (written x mi) = inventory_net mi + ingested_qty (xt_outcomes x)"
proof -
  have "net_ready mi (xt_outcomes x) (mi_entries mi)"
    using assms by (auto simp: net_ready_def planned_def inventory_ok_def inventory_get_def)
  from net_entries [OF this] written_fields(2) [OF assms] show ?thesis
    by (simp add: inventory_net_eq)
qed

end
