(* ===== verification/Delivery.thy ===== *)
theory Delivery
  imports Commit_Laws
begin

text \<open>
  Delivering one piece of evidence to a ledger in operation: it always commits, the inventory knows
  the execution afterwards, and knowing it before means that the position does not move again.
\<close>

section \<open>Outcomes of a single delivery\<close>

lemma single_batch:
  assumes "prepare_execution (Some row) mi e = Inr x"
  shows "\<exists>staging pc core. adjudicate_batch row mi [e] = (staging, [(e, pc)])
    \<and> core_call row mi (evidence_event e) [e] staging [(e, pc)] = Inr core
    \<and> x = assemble_batch row mi (evidence_event e) staging [(e, pc)] core"
proof -
  obtain staging pre where adj: "adjudicate_batch row mi [e] = (staging, pre)" by fastforce
  have shape: "\<exists>pc. pre = [(e, pc)]"
  proof -
    obtain st1 pc1 where one: "adjudicate_row row mi [] e = (st1, pc1)" by fastforce
    obtain st2 pc2 where two: "adjudicate_foreign row mi [] e = (st2, pc2)" by fastforce
    show ?thesis
      using adj one two by (cases pc1) (auto simp: adjudicate_batch_def Let_def split: if_splits)
  qed
  with assms adj show ?thesis
    by (auto simp: prepare_execution_def prepare_execution_batch_def split: option.splits sum.splits)
qed

lemma single_outcome:
  assumes "prepare_execution row mi e = Inr x"
  shows "\<exists>out. xt_outcomes x = [out] \<and> outcome_id out = ev_execution_id e"
proof (cases row)
  case None
  with assms show ?thesis
    by (auto simp: prepare_execution_def prepare_execution_norow_def norow_transaction_def
        norow_outcome_def outcome_with_def zero_outcome_def outcome_id_def Let_def
        split: if_splits option.splits prod.splits)
next
  case (Some r)
  from single_batch [OF assms [unfolded Some]] obtain staging pc core where
    x: "x = assemble_batch r mi (evidence_event e) staging [(e, pc)] core" by blast
  show ?thesis
    by (cases pc) (auto simp: x assemble_batch_def outcome_with_def zero_outcome_def emit_admitted_def
        outcome_id_def Let_def split: option.splits prod.splits)
qed

text \<open>A row of the ledger, an execution neither the row nor the inventory knows.\<close>

lemma fresh_adjudicated:
  assumes "\<not> is_row_foreign row mi" and "ev_qty e \<noteq> 0" and "inventory_get mi (ev_execution_id e) = None"
    and "bt_get (applied_fills (row_ctx row)) (ev_execution_id e) = None"
    and "adjudicate_batch row mi [e] = (staging, [(e, pc)])"
  shows "(\<exists>staged. pc = PC_Admitted staged \<and> bt_get staging (ev_execution_id e) = Some staged
      \<and> sp_side staged = ev_side e \<and> sp_qty staged = ev_qty e)
    \<or> (\<exists>od r entry. pc = PC_Refused od (ID_Ingested (IP_Refused r)) (Some entry) None
      \<and> ie_side entry = ev_side e \<and> ie_qty entry = ev_qty e)"
proof -
  have "\<not> core_hit e None None None" and "\<not> fee_hit e None None None"
    by (simp_all add: core_hit_def fee_hit_def fee_conflict_def opt_holds_def opt_holds2_def Let_def
        split: option.split)
  with assms show ?thesis
    by (auto simp: adjudicate_batch_def adjudicate_row_def other_owner_def side_refused_def Let_def
        bt_get_insert canonical_staged_def staged_of_def staged_entry_def split: if_splits)
qed

definition evidence_signed :: "execution_evidence \<Rightarrow> int" where
  "evidence_signed e = (case ev_side e of BuyYes \<Rightarrow> int (ev_qty e) | SellYes \<Rightarrow> - int (ev_qty e))"

text \<open>A fresh execution is ingested with the side and quantity of its evidence.\<close>

definition ingests_evidence :: "execution_evidence \<Rightarrow> execution_outcome \<Rightarrow> bool" where
  "ingests_evidence e out =
     (outcome_id out = ev_execution_id e \<and> is_ingest (eo_inventory out)
      \<and> (\<exists>entry. outcome_entry out = Some entry \<and> signed_qty entry = evidence_signed e))"

lemma ingests_outcome [simp]:
  "ingests_evidence e (outcome_with e od (ID_Ingested prov) (Some entry) conflict)
    \<longleftrightarrow> signed_qty entry = evidence_signed e"
  by (simp add: ingests_evidence_def outcome_with_def outcome_id_def outcome_entry_def)

lemma signed_of: "ie_side entry = ev_side e \<Longrightarrow> ie_qty entry = ev_qty e \<Longrightarrow>
    signed_qty entry = evidence_signed e"
  by (cases "ev_side e") (simp_all add: signed_qty_def evidence_signed_def)

lemma fresh_ingested:
  assumes "prepare_execution (Some row) mi e = Inr x" and "\<not> is_row_foreign row mi" and "ev_qty e \<noteq> 0"
    and "inventory_get mi (ev_execution_id e) = None"
    and "bt_get (applied_fills (row_ctx row)) (ev_execution_id e) = None"
  shows "\<exists>out. xt_outcomes x = [out] \<and> ingests_evidence e out"
proof -
  from single_batch [OF assms(1)] obtain staging pc core where
    adj: "adjudicate_batch row mi [e] = (staging, [(e, pc)])"
    and x: "x = assemble_batch row mi (evidence_event e) staging [(e, pc)] core" by blast
  from fresh_adjudicated [OF assms(2-5) adj] show ?thesis
    using assms(4)
    by (auto simp: x assemble_batch_def emit_admitted_def publish_foreign_def ingested_entry_def
        final_staged_def Let_def intro!: signed_of split: option.splits prod.splits)
qed

lemma norow_ingested:
  assumes "prepare_execution None mi e = Inr x" and "ev_qty e \<noteq> 0"
    and "inventory_get mi (ev_execution_id e) = None"
  shows "\<exists>out. xt_outcomes x = [out] \<and> ingests_evidence e out"
  using assms
  by (auto simp: prepare_execution_def prepare_execution_norow_def norow_transaction_def
      norow_outcome_def Let_def intro!: signed_of split: if_splits)

lemma zero_ingests_nothing:
  assumes "prepare_execution row mi e = Inr x" and "ev_qty e = 0"
  shows "ingested_qty (xt_outcomes x) = 0"
proof (cases row)
  case None
  with assms show ?thesis
    by (auto simp: prepare_execution_def prepare_execution_norow_def norow_transaction_def
        zero_outcome_def outcome_with_def ingested_qty_def split: if_splits option.split)
next
  case (Some r)
  from single_batch [OF assms(1) [unfolded Some]] obtain staging pc core where
    adj: "adjudicate_batch r mi [e] = (staging, [(e, pc)])"
    and x: "x = assemble_batch r mi (evidence_event e) staging [(e, pc)] core" by blast
  have "pc = PC_IgnoredZero"
    using adj assms(2)
    by (auto simp: adjudicate_batch_def adjudicate_row_def adjudicate_foreign_def Let_def split: if_splits)
  then show ?thesis
    by (simp add: x assemble_batch_def zero_outcome_def outcome_with_def ingested_qty_def
        outcome_entry_def Let_def)
qed


section \<open>On a ledger in operation\<close>

lemma run_row_own:
  assumes "ledger_run ledger s" and "lg_rows s cid = Some row"
  shows "\<not> is_row_foreign row (lg_inventory s)"
  using ledger_run_inv [OF assms(1)] assms(2)
  by (auto simp: ledger_inv_def rows_ok_def is_row_foreign_def)

lemma run_prepares:
  assumes "ledger_run ledger s" and "evidence_ledger e = ledger"
  shows "\<exists>x. prepare_execution row (lg_inventory s) e = Inr x"
  using row_evidence_prepares norow_evidence_prepares assms ledger_run_inv [OF assms(1)]
  by (cases row) (simp_all add: ledger_inv_def)

lemma run_planned:
  assumes "prepare_execution row mi e = Inr x" shows "planned mi x"
proof (cases row)
  case None
  with rowless_planned assms show ?thesis by blast
next
  case (Some r)
  with assms batch_planned show ?thesis by (auto simp: prepare_execution_def)
qed

lemma delivered_fresh:
  assumes run: "ledger_run ledger s" and prep: "prepare_execution row (lg_inventory s) e = Inr x"
    and row: "row = None \<or> (\<exists>cid. row = lg_rows s cid)" and qty: "ev_qty e \<noteq> 0"
    and fresh: "inventory_get (lg_inventory s) (ev_execution_id e) = None"
  shows "\<exists>out. xt_outcomes x = [out] \<and> ingests_evidence e out"
proof -
  let ?mi = "lg_inventory s" and ?fid = "ev_execution_id e"
  have "inventory_get ?mi ?fid \<noteq> None
    \<or> (\<exists>out. xt_outcomes x = [out] \<and> ingests_evidence e out)"
  proof (cases row)
    case None
    with norow_ingested prep qty show ?thesis by blast
  next
    case (Some r)
    with row obtain cid where r: "lg_rows s cid = Some r" by auto
    have "inventory_get ?mi ?fid \<noteq> None" if "bt_get (applied_fills (row_ctx r)) ?fid \<noteq> None"
    proof -
      have "?fid \<in> applied_ids (row_ctx r)" using that unfolding bt_get_iff by (simp add: applied_ids_def)
      with ledger_run_inv [OF run] r show ?thesis unfolding ledger_inv_def owners_ok_def by blast
    qed
    with fresh_ingested [OF _ run_row_own [OF run r] qty] prep Some show ?thesis by blast
  qed
  with fresh show ?thesis by blast
qed

lemma delivered_known:
  assumes run: "ledger_run ledger s" and prep: "prepare_execution row (lg_inventory s) e = Inr x"
    and row: "row = None \<or> (\<exists>cid. row = lg_rows s cid)" and qty: "ev_qty e \<noteq> 0"
  shows "inventory_get (written x (lg_inventory s)) (ev_execution_id e) \<noteq> None"
proof -
  let ?mi = "lg_inventory s" and ?fid = "ev_execution_id e"
  have ok: "inventory_ok ?mi" by (rule inv_inventory_ok [OF ledger_run_inv [OF run]])
  have "?fid \<in> entry_ids (xt_outcomes x) \<union> dom (bt_get (mi_entries ?mi))"
    using delivered_fresh [OF assms]
    by (cases "inventory_get ?mi ?fid") (auto simp: ingests_evidence_def inventory_get_def)
  then show ?thesis
    by (auto simp: inventory_get_def written_fields(2) [OF ok run_planned [OF prep]]
        simp flip: dom_entries_of)
qed

text \<open>What is known is not ingested again.\<close>

lemma known_ingests_nothing:
  assumes "prepare_execution row mi e = Inr x" and "inventory_get mi (ev_execution_id e) = Some p"
  shows "ingested_qty (xt_outcomes x) = 0"
proof -
  obtain out where out: "xt_outcomes x = [out]" "outcome_id out = ev_execution_id e"
    using single_outcome [OF assms(1)] by blast
  have "\<not> is_ingest (eo_inventory out)"
    using run_planned [OF assms(1)] assms(2) out by (auto simp: planned_def)
  then show ?thesis by (simp add: out ingested_qty_def split: option.split)
qed

lemma delivery_net:
  assumes run: "ledger_run ledger s" and prep: "prepare_execution row (lg_inventory s) e = Inr x"
    and row: "row = None \<or> (\<exists>cid. row = lg_rows s cid)"
  shows "inventory_net (written x (lg_inventory s)) = inventory_net (lg_inventory s)
    + (if inventory_get (lg_inventory s) (ev_execution_id e) = None then evidence_signed e else 0)"
proof -
  have ok: "inventory_ok (lg_inventory s)" by (rule inv_inventory_ok [OF ledger_run_inv [OF run]])
  have "ingested_qty (xt_outcomes x) =
    (if inventory_get (lg_inventory s) (ev_execution_id e) = None then evidence_signed e else 0)"
  proof (cases "ev_qty e = 0")
    case True
    then have "evidence_signed e = 0" by (simp add: evidence_signed_def split: side.split)
    with zero_ingests_nothing [OF prep True] show ?thesis by simp
  next
    case False
    then show ?thesis
      using delivered_fresh [OF assms False] known_ingests_nothing [OF prep]
      by (cases "inventory_get (lg_inventory s) (ev_execution_id e)")
        (auto simp: ingests_evidence_def ingested_qty_def)
  qed
  with written_net [OF ok run_planned [OF prep]] show ?thesis by simp
qed

end
