(* ===== verification/Registry_Laws.thy ===== *)
theory Registry_Laws
  imports Order_Rebuild
begin

text \<open>
  The wire registry along a run: it is what folding the journal from the start gives, its wires keep
  their members apart, and the executions the inventory places on a wire are held by it.
\<close>

section \<open>Rebuild\<close>

lemma registry_fold_append:
  "registry_fold_all pos (xs @ ys) reg =
    (case registry_fold_all pos xs reg of
       Inl err \<Rightarrow> Inl err | Inr reg1 \<Rightarrow> registry_fold_all (pos + length xs) ys reg1)"
  by (induction pos xs reg rule: registry_fold_all.induct) (auto split: sum.split)

lemma bt_insert_same: "bt_ok m \<Longrightarrow> bt_get m k = Some v \<Longrightarrow> bt_insert k v m = m"
proof (induction m)
  case (Cons p m)
  obtain a b where p: "p = (a, b)" by (cases p)
  show ?case
  proof (cases "a = k")
    case False
    with Cons.prems p have g: "bt_get m k = Some v" by simp
    then have "a < k" using Cons.prems(1) p bt_get_Some_in by (force simp: bt_ok_Cons)
    with Cons p g False show ?thesis by (simp add: bt_ok_Cons)
  qed (use Cons.prems p in simp)
qed simp

definition wires_sorted :: "wire_registry \<Rightarrow> bool" where
  "wires_sorted reg = bt_ok (wr_wires reg)"

lemma map_wires_fst:
  "map fst (map (\<lambda>((led, wire), ws). ((led, wire), g led wire ws)) m) = map fst m"
  by (induction m) auto

lemma put_wire_sorted [simp]: "wires_sorted reg \<Longrightarrow> wires_sorted (put_wire led wire ws reg)"
  by (simp add: wires_sorted_def put_wire_def bt_ok_insert)

lemma ensure_wire_sorted [simp]: "wires_sorted reg \<Longrightarrow> wires_sorted (ensure_wire led wire f reg)"
  by (simp add: ensure_wire_def)

lemma on_wires_sorted [simp]: "wires_sorted reg \<Longrightarrow> wires_sorted (on_wires led f reg)"
  by (simp add: wires_sorted_def on_wires_def bt_ok_def map_wires_fst [of "\<lambda>l w ws. if l = led then f ws else ws"]
      del: map_map list.map_comp)

text \<open>What every change of a wire keeps holds of the wires of a ledger after the fold.\<close>

lemma registry_wire_put [simp]:
  "registry_wire (put_wire led wire ws reg) led1 wire1 =
    (if led1 = led \<and> wire1 = wire then Some ws else registry_wire reg led1 wire1)"
  by (auto simp: registry_wire_def put_wire_def bt_get_insert)

lemma registry_wire_on [simp]:
  "registry_wire (on_wires led f reg) led1 wire =
    (if led1 = led then map_option f (registry_wire reg led1 wire) else registry_wire reg led1 wire)"
proof -
  have "bt_get (map (\<lambda>((l, w), ws). ((l, w), if l = led then f ws else ws)) m) (led1, wire) =
    (if led1 = led then map_option f (bt_get m (led1, wire)) else bt_get m (led1, wire))" for m
    by (induction m) auto
  then show ?thesis by (simp add: registry_wire_def on_wires_def)
qed

lemma registry_wire_seen [simp]:
  "registry_wire (reg\<lparr>wr_seen_order := m\<rparr>) led wire = registry_wire reg led wire"
  "registry_wire (reg\<lparr>wr_id_index := ix\<rparr>) led wire = registry_wire reg led wire"
  "wires_sorted (reg\<lparr>wr_seen_order := m\<rparr>) = wires_sorted reg"
  "wires_sorted (reg\<lparr>wr_id_index := ix\<rparr>) = wires_sorted reg"
  by (simp_all add: registry_wire_def wires_sorted_def)

locale wire_invariant =
  fixes I :: "wire_state \<Rightarrow> bool"
  assumes fresh: "I venue_only_wire"
    and bind: "I ws \<Longrightarrow> I (bind_to_wire pos cid ws)"
    and terminalize: "I ws \<Longrightarrow> I (terminalize_wire cid ws)"
    and bump: "I ws \<Longrightarrow> I (bump_wire cid ws)"
    and discharge: "I ws \<Longrightarrow> I (discharge_hold cid ws)"
    and hold_new: "I ws \<Longrightarrow> I (hold_execution fid entry ws)"
    and lineage: "I ws \<Longrightarrow> I (ws\<lparr>ws_amend_lineage := l\<rparr>)"
    and frame: "I ws \<Longrightarrow> I (ws\<lparr>ws_latest_user_order := e, ws_latest_user_order_revision := n,
      ws_observed_exchange_index := i\<rparr>)"
    and authority: "I ws \<Longrightarrow> I (ws\<lparr>ws_authority_hold := b, ws_authority_hold_revision := n\<rparr>)"
    and proved: "I ws \<Longrightarrow> I (prove_remaining ws cid r)"
    and released: "I ws \<Longrightarrow> I (ws\<lparr>ws_authority_hold := False\<rparr>)"
    and observed: "I ws \<Longrightarrow> I (observed_wire ws hw row outcome pending moved)"
begin

definition holds_on :: "ledger_id \<Rightarrow> wire_registry \<Rightarrow> bool" where
  "holds_on ledger reg = (\<forall>wire ws. registry_wire reg ledger wire = Some ws \<longrightarrow> I ws)"

lemma wire_or_new: "holds_on ledger reg \<Longrightarrow> I (wire_or_new reg ledger wire)"
  by (auto simp: holds_on_def wire_or_new_def fresh split: option.split)

lemma put: "holds_on ledger reg \<Longrightarrow> (led = ledger \<Longrightarrow> I ws) \<Longrightarrow> holds_on ledger (put_wire led wire ws reg)"
  by (auto simp: holds_on_def)

lemma ensure: "holds_on ledger reg \<Longrightarrow> (\<And>ws. I ws \<Longrightarrow> I (f ws)) \<Longrightarrow>
    holds_on ledger (ensure_wire led wire f reg)"
  unfolding ensure_wire_def by (rule put) (auto intro: wire_or_new)

lemma on_all: "holds_on ledger reg \<Longrightarrow> (\<And>ws. I ws \<Longrightarrow> I (f ws)) \<Longrightarrow>
    holds_on ledger (on_wires led f reg)"
  by (auto simp: holds_on_def split: if_splits)

lemma core_record: "holds_on ledger reg \<Longrightarrow> holds_on ledger (fold_core_record pos o_rec r reg)"
  by (cases "(pos, o_rec, r, reg)" rule: fold_core_record.cases)
    (auto simp: bind_member_def terminalize_cid_def bump_generation_def
      intro: ensure on_all bind terminalize bump)

lemma core_records: "holds_on ledger reg \<Longrightarrow> holds_on ledger (fold_core_records pos o_rec rs reg)"
  by (induction pos o_rec rs reg rule: fold_core_records.induct) (auto intro: core_record)

lemma order_part:
  assumes "fold_order_part pos o_rec reg = Inr reg1" and "holds_on ledger reg"
  shows "holds_on ledger reg1"
proof -
  let ?seen = "reg\<lparr>wr_seen_order :=
    bt_insert (ot_ledger o_rec, ot_client_order_id o_rec, ot_seq o_rec) o_rec (wr_seen_order reg)\<rparr>"
  let ?folded = "fold_core_records pos o_rec (ot_core_records o_rec) ?seen"
  have folded: "holds_on ledger ?folded"
    by (rule core_records) (use assms(2) in \<open>simp add: holds_on_def\<close>)
  then have "registry_wire ?folded (ot_ledger o_rec) wire = Some ws \<Longrightarrow>
      holds_on ledger (put_wire (ot_ledger o_rec) wire (discharge_hold (ot_client_order_id o_rec) ws) ?folded)"
    for wire ws by (intro put) (auto simp: holds_on_def intro: discharge)
  with folded assms show ?thesis
    by (auto simp: fold_order_part_def Let_def split: option.splits if_splits)
qed

lemma execution: "holds_on ledger reg \<Longrightarrow> holds_on ledger (fold_execution led out reg)"
proof -
  assume h: "holds_on ledger reg"
  then have "holds_on ledger (index_execution out reg)"
    by (auto simp: index_execution_def holds_on_def split: option.split)
  then show ?thesis
    by (auto simp: fold_execution_def Let_def intro: ensure hold_new split: option.split)
qed

lemma executions: "holds_on ledger reg \<Longrightarrow> holds_on ledger (fold_executions led outs reg)"
  by (induction led outs reg rule: fold_executions.induct) (auto intro: execution)

text \<open>A record of the batch layer, a foreign one, or a note of the shell.\<close>

lemma fold_keeps:
  assumes "registry_fold pos r reg = Inr reg1" and "holds_on ledger reg"
    and "order_part_of r \<noteq> None \<or> (\<exists>txn. r = J_ExecutionTxn txn) \<or> foreign_record ledger r"
  shows "holds_on ledger reg1"
  using assms
  by (cases r)
    (auto split: option.splits sum.splits simp del: sat_add_u64_def
      intro: order_part executions put ensure lineage frame authority)

lemma fold_all_keeps:
  assumes "registry_fold_all pos rs reg = Inr reg1" and "holds_on ledger reg"
    and "\<forall>r \<in> set rs. order_part_of r \<noteq> None \<or> (\<exists>txn. r = J_ExecutionTxn txn) \<or> foreign_record ledger r"
  shows "holds_on ledger reg1"
  using assms
  by (induction pos rs reg rule: registry_fold_all.induct) (auto split: sum.splits dest: fold_keeps)

end


section \<open>What a step appends\<close>

lemma round_wire_after:
  "bx_wire_after (round_transaction rd ws mi rows row) =
    observed_wire ws (max (ws_filled_hw ws) (re_filled row)) row (round_outcome rd ws mi row)
      (list_ex (\<lambda>r. is_reconcile_pending (fst (judged rd ws mi row r))) rows)
      (bx_members_after (round_transaction rd ws mi rows row))"
  by (simp add: round_transaction_def Let_def comp_def case_prod_unfold list_ex_iff)

lemma order_event_records:
  "prepare_order_event row ev = Inr ox \<Longrightarrow> r \<in> set (opt_list (ox_journal ox)) \<Longrightarrow> order_part_of r \<noteq> None"
  by (auto simp: prepare_order_event_def unchanged_txn_def advancing_txn_def Let_def
      split: if_splits prod.splits transition_outcome.splits)

lemma planned_records:
  assumes "planned mi x" and "r \<in> set (opt_list (xt_journal x))"
  shows "\<exists>part. r = J_ExecutionTxn (ExecutionTxnRecord (mi_ledger mi) (mi_generation mi) (xt_outcomes x) part)"
proof -
  from assms(2) have "xt_journal x = Some r" by (cases "xt_journal x") auto
  with assms(1) show ?thesis by (auto simp: planned_def recorded_def)
qed

lemma resting_shape:
  assumes "prepare_order_state_resting reg ledger wire mi = Inr t"
    and "apply_order_state_resting reg t mi = Inr reg1"
  shows "\<exists>ws. registry_wire reg ledger wire = Some ws \<and> \<not> ws_authority_hold ws
    \<and> os_wire_after t = prove_remaining ws (uo_client_order_id (os_evidence t)) (uo_remaining (os_evidence t))
    \<and> os_ledger t = ledger \<and> os_wire t = wire \<and> reg1 = put_wire ledger wire (os_wire_after t) reg"
proof -
  have "\<exists>ws. registry_wire reg ledger wire = Some ws \<and> \<not> ws_authority_hold ws
      \<and> os_wire_after t = prove_remaining ws (uo_client_order_id (os_evidence t)) (uo_remaining (os_evidence t))
      \<and> os_ledger t = ledger \<and> os_wire t = wire"
    using assms(1) by (auto simp: prepare_order_state_resting_def split: option.splits if_splits)
  moreover have "reg1 = put_wire (os_ledger t) (os_wire t) (os_wire_after t) reg"
    using assms(2) by (simp add: apply_order_state_resting_def split: sum.splits if_splits)
  ultimately show ?thesis by auto
qed

lemma rest_shape:
  assumes "prepare_rest_order_proof reg ledger wire cid filled remaining initial mi = Inr t"
    and "apply_rest_order_proof reg t mi = Inr reg1"
  shows "\<exists>ws. registry_wire reg ledger wire = Some ws
    \<and> rp_wire_after t = (prove_remaining ws cid remaining)\<lparr>ws_authority_hold := False\<rparr>
    \<and> rp_ledger t = ledger \<and> rp_wire t = wire \<and> reg1 = put_wire ledger wire (rp_wire_after t) reg"
proof -
  have "\<exists>ws. registry_wire reg ledger wire = Some ws
      \<and> rp_wire_after t = (prove_remaining ws cid remaining)\<lparr>ws_authority_hold := False\<rparr>
      \<and> rp_ledger t = ledger \<and> rp_wire t = wire"
    using assms(1) by (auto simp: prepare_rest_order_proof_def split: option.splits if_splits)
  moreover have "reg1 = put_wire (rp_ledger t) (rp_wire t) (rp_wire_after t) reg"
    using assms(2) by (simp add: apply_rest_order_proof_def split: sum.splits if_splits)
  ultimately show ?thesis by auto
qed

context wire_invariant
begin

lemma run: "ledger_run ledger s \<Longrightarrow> holds_on ledger (lg_registry s)"
proof (induction rule: ledger_run.induct)
  case start
  then show ?case by (simp add: holds_on_def ledger_start_def registry_new_def registry_wire_def)
next
  case (order_event s cid row ev ox row1 reg)
  then show ?case using order_event_records fold_all_keeps by fastforce
next
  case (execution s cid row ev evs x outs row1 mi1 reg)
  then show ?case using planned_records [OF batch_planned [OF execution.hyps(3)]] fold_all_keeps by fastforce
next
  case (rowless s e x outs mi1 reg)
  then show ?case using planned_records [OF rowless_planned [OF rowless.hyps(2)]] fold_all_keeps by fastforce
next
  case (observe s rd rows row x out rows1 reg)
  define ws where "ws = wire_or_new (lg_registry s) (rd_ledger rd) (rd_wire rd)"
  have "I ws" unfolding ws_def observe.hyps(2) by (rule wire_or_new [OF observe.IH])
  then have "I (bx_wire_after x)"
    unfolding finish_shape(1) [OF observe.hyps(4), folded ws_def] round_wire_after by (rule observed)
  with observe.IH apply_shape(2) [OF observe.hyps(5)] show ?case by (simp add: put)
next
  case (prove_resting s wire t reg)
  from resting_shape [OF prove_resting.hyps(2,3)] prove_resting.IH show ?case
    by (elim exE conjE) (simp add: put proved holds_on_def)
next
  case (prove_rest s wire cid filled remaining initial p reg)
  from rest_shape [OF prove_rest.hyps(2,3)] prove_rest.IH show ?case
    by (elim exE conjE) (simp add: put proved released holds_on_def)
next
  case (other s r reg)
  then show ?case using fold_all_keeps by fastforce
qed simp

end


section \<open>Members and coverage\<close>

text \<open>The members of a wire are distinct orders, at most one of them current.\<close>

definition currents :: "member list \<Rightarrow> member list" where
  "currents ms = filter (\<lambda>m. mb_role m = MR_Current) ms"

definition wire_apart :: "wire_state \<Rightarrow> bool" where
  "wire_apart ws =
     (distinct (map mb_cid (ws_members ws)) \<and> length (currents (ws_members ws)) \<le> 1)"

lemma terminalize_first_cids [simp]: "map mb_cid (terminalize_first cid ms) = map mb_cid ms"
  by (induction cid ms rule: terminalize_first.induct) auto

lemma currents_simps [simp]:
  "currents [] = []" "currents (m # ms) = (if mb_role m = MR_Current then m # currents ms else currents ms)"
  "currents (ms @ ns) = currents ms @ currents ns"
  by (simp_all add: currents_def)

lemma currents_supersede [simp]: "currents (map supersede ms) = []"
  by (induction ms) (auto simp: supersede_def)

lemma terminalize_currents: "length (currents (terminalize_first cid ms)) \<le> length (currents ms)"
  by (induction cid ms rule: terminalize_first.induct) auto

lemma role_after_cid [simp]: "mb_cid (role_after moved m) = mb_cid m"
  by (simp add: role_after_def split: option.split)

lemma role_after_currents: "length (currents (map (role_after moved) ms)) \<le> length (currents ms)"
  by (induction ms) (auto simp: role_after_def split: option.split)

lemma supersede_cid [simp]: "mb_cid (supersede m) = mb_cid m"
  by (simp add: supersede_def)

lemma observed_members:
  "ws_members (observed_wire ws hw row outcome pending moved) = map (role_after moved) (ws_members ws)"
  "ws_held (observed_wire ws hw row outcome pending moved) = ws_held ws"
  "ws_generation (observed_wire ws hw row outcome pending moved) = ws_generation ws"
  by (simp_all add: observed_wire_def Let_def)

interpretation apart: wire_invariant wire_apart
proof unfold_locales
  fix ws :: wire_state and cid :: client_order_id and pos :: u64
  assume ws: "wire_apart ws"
  then show "wire_apart (bind_to_wire pos cid ws)"
    by (auto simp: wire_apart_def bind_to_wire_def list_ex_iff comp_def Let_def)
  show "wire_apart (terminalize_wire cid ws)"
    using ws terminalize_currents [of cid "ws_members ws"]
    by (simp add: wire_apart_def terminalize_wire_def)
next
  fix ws :: wire_state and hw row outcome pending moved
  assume "wire_apart ws"
  then show "wire_apart (observed_wire ws hw row outcome pending moved)"
    using role_after_currents [of moved "ws_members ws"]
    by (simp add: wire_apart_def observed_members comp_def)
qed (auto simp: wire_apart_def venue_only_wire_def bump_wire_def discharge_hold_def hold_execution_def
    prove_remaining_def Let_def split: wire_kind.split)

text \<open>What an observation covered is held.\<close>

definition covered_held :: "wire_state \<Rightarrow> bool" where
  "covered_held ws =
     (\<forall>obs. ws_remaining_observation ws = Some obs \<longrightarrow> set (ro_covered obs) \<subseteq> set (ws_held ws))"

lemma asc_insert_set [simp]: "set (asc_insert x xs) = insert x (set xs)"
  by (auto simp: asc_insert_def set_insort_key)

interpretation coverage: wire_invariant covered_held
  by unfold_locales
    (auto simp: covered_held_def venue_only_wire_def bind_to_wire_def terminalize_wire_def bump_wire_def
      discharge_hold_def hold_execution_def prove_remaining_def observed_wire_def Let_def
      split: wire_kind.split)

end
