(* ===== verification/Registry_Run.thy ===== *)
theory Registry_Run
  imports Registry_Laws
begin

text \<open>
  The registry of a running ledger: it is the fold of the journal, its wires hold every execution the
  inventory places on them, and a remaining quantity it reports as known counted all of those.
\<close>

section \<open>The fold of the journal\<close>

lemma fold_order_part_sorted:
  assumes "fold_order_part pos o_rec reg = Inr reg1" and "wires_sorted reg"
  shows "wires_sorted reg1"
proof -
  have core: "wires_sorted (fold_core_records pos o_rec rs reg)" if "wires_sorted reg" for rs reg
    using that
  proof (induction pos o_rec rs reg rule: fold_core_records.induct)
    case (2 pos o_rec r rs reg)
    have "wires_sorted (fold_core_record pos o_rec r reg)"
      using "2.prems" by (cases "(pos, o_rec, r, reg)" rule: fold_core_record.cases)
        (simp_all add: bind_member_def terminalize_cid_def bump_generation_def)
    then show ?case by (simp add: "2.IH")
  qed simp
  show ?thesis
    using assms by (auto simp: fold_order_part_def Let_def core split: option.splits if_splits)
qed

lemma fold_executions_sorted: "wires_sorted reg \<Longrightarrow> wires_sorted (fold_executions led outs reg)"
  by (induction led outs reg rule: fold_executions.induct)
    (auto simp: fold_execution_def index_execution_def Let_def split: option.split)

lemma registry_fold_sorted:
  "registry_fold pos r reg = Inr reg1 \<Longrightarrow> wires_sorted reg \<Longrightarrow> wires_sorted reg1"
  by (cases r) (auto simp: fold_executions_sorted fold_order_part_sorted simp del: sat_add_u64_def
      split: option.splits sum.splits)

lemma registry_fold_all_sorted:
  "registry_fold_all pos rs reg = Inr reg1 \<Longrightarrow> wires_sorted reg \<Longrightarrow> wires_sorted reg1"
  by (induction pos rs reg rule: registry_fold_all.induct)
    (auto split: sum.splits dest: registry_fold_sorted)

text \<open>What an observation wrote has its moved members terminal already.\<close>

lemma terminalize_first_id:
  "(\<And>m. m \<in> set ms \<Longrightarrow> mb_cid m = cid \<Longrightarrow> mb_role m = MR_Terminal) \<Longrightarrow> terminalize_first cid ms = ms"
  by (induction cid ms rule: terminalize_first.induct) auto

lemma terminalize_members_id:
  "(\<And>a m. a \<in> set moved \<Longrightarrow> is_terminal_state (ma_state_after a) \<Longrightarrow> m \<in> set (ws_members ws) \<Longrightarrow>
      mb_cid m = ma_client_order_id a \<Longrightarrow> mb_role m = MR_Terminal) \<Longrightarrow>
    terminalize_members moved ws = ws"
proof (induction moved ws rule: terminalize_members.induct)
  case (2 a moved ws)
  have "terminalize_wire (ma_client_order_id a) ws = ws" if "is_terminal_state (ma_state_after a)"
  proof -
    have "terminalize_first (ma_client_order_id a) (ws_members ws) = ws_members ws"
      by (rule terminalize_first_id) (use "2.prems" [of a] that in auto)
    then show ?thesis by (simp add: terminalize_wire_def)
  qed
  then have same: "(if is_terminal_state (ma_state_after a) then terminalize_wire (ma_client_order_id a) ws
      else ws) = ws" by simp
  have "terminalize_members moved ws = ws"
    using "2.IH" unfolding same by (rule meta_mp) (use "2.prems" in auto)
  then show ?case unfolding terminalize_members.simps same .
qed simp

lemma moved_find:
  "distinct (map ma_client_order_id moved) \<Longrightarrow> a \<in> set moved \<Longrightarrow>
    find (\<lambda>b. ma_client_order_id b = ma_client_order_id a) moved = Some a"
  by (induction moved) (auto simp: image_iff)

lemma terminalize_observed:
  assumes "distinct (map ma_client_order_id moved)"
  shows "terminalize_members moved (observed_wire ws hw row outcome pending moved)
    = observed_wire ws hw row outcome pending moved"
proof (rule terminalize_members_id)
  fix a m
  assume a: "a \<in> set moved" "is_terminal_state (ma_state_after a)"
    and m: "m \<in> set (ws_members (observed_wire ws hw row outcome pending moved))"
      "mb_cid m = ma_client_order_id a"
  then obtain m0 where "m = role_after moved m0" by (auto simp: observed_members)
  with m(2) moved_find [OF assms a(1)] a(2) show "mb_role m = MR_Terminal"
    by (auto simp: role_after_def split: option.splits)
qed

lemma moved_distinct:
  assumes "distinct (map row_cid rows)"
  shows "distinct (map ma_client_order_id (bx_members_after (round_transaction rd ws mi rows row)))"
proof -
  have sub: "set (map ma_client_order_id (keep_some (map (\<lambda>r. member_moved r (f r)) rs))) \<subseteq> row_cid ` set rs"
    for f rs
  proof (induction rs)
    case (Cons r rs)
    then show ?case by (cases "member_moved r (f r)") (auto dest: moved_client)
  qed simp
  have "distinct (map ma_client_order_id (keep_some (map (\<lambda>r. member_moved r (f r)) rs)))"
    if "distinct (map row_cid rs)" for f rs
    using that
  proof (induction rs)
    case (Cons r rs)
    then have new: "row_cid r \<notin> set (map ma_client_order_id (keep_some (map (\<lambda>r. member_moved r (f r)) rs)))"
      using sub [where f = f and rs = rs] by auto
    show ?case
    proof (cases "member_moved r (f r)")
      case (Some a)
      then show ?thesis using Cons new moved_client [OF Some] by simp
    qed (use Cons in simp)
  qed simp
  with assms show ?thesis by (simp add: round_moved)
qed

lemma observed_last: "ws_last (observed_wire ws hw row outcome pending moved) = Some outcome"
  by (simp add: observed_wire_def Let_def)

lemma observe_folds:
  assumes fin: "round_finish rd reg mi rows row = Inr x"
    and app: "observation_apply x rows reg mi = Inr (out, rows1, reg1)" and sorted: "wires_sorted reg"
  shows "registry_fold_all pos (opt_list (bx_journal x)) reg = Inr reg1"
proof -
  define ws where "ws = wire_or_new reg (rd_ledger rd) (rd_wire rd)"
  note shape = finish_shape [OF fin, folded ws_def]
  have reg1: "reg1 = put_wire (rd_ledger rd) (rd_wire rd) (bx_wire_after x) reg"
    using apply_shape(2) [OF app] by (simp add: shape(1) round_fields)
  have same: "terminalize_members (bx_members_after x) (bx_wire_after x) = bx_wire_after x"
    using moved_distinct [OF members_valid(1) [OF shape(2)]]
    by (simp add: shape(1) round_wire_after terminalize_observed)
  show ?thesis
  proof (cases "bx_journal x")
    case (Some r)
    with round_journal [of rd ws mi rows row] shape(1) obtain t where
      "bx_journal x = Some (J_ObservationTxn t)" "ob_ledger t = rd_ledger rd" "ob_wire t = rd_wire rd"
      "ob_members_after t = bx_members_after x" "ob_wire_after t = bx_wire_after x" by auto
    with same reg1 show ?thesis by simp
  next
    case None
    then have after: "bx_wire_after x = ws"
      by (simp add: shape(1) round_transaction_def Let_def split: if_splits)
    then have "ws_last ws \<noteq> None" using observed_last by (metis shape(1) round_wire_after option.distinct(1))
    then have "registry_wire reg (rd_ledger rd) (rd_wire rd) = Some ws"
      by (auto simp: ws_def wire_or_new_def venue_only_wire_def split: option.splits)
    then have "reg1 = reg"
      using sorted by (simp add: reg1 after put_wire_def wires_sorted_def registry_wire_def bt_insert_same)
    with None show ?thesis by simp
  qed
qed

lemma rebuilt_step:
  assumes "registry_rebuild recs = Inr reg" and "registry_fold_all (length recs) rs reg = Inr reg1"
  shows "registry_rebuild (recs @ rs) = Inr reg1"
  using assms by (simp add: registry_rebuild_def registry_fold_append)

lemma rebuilt_run:
  "ledger_run ledger s \<Longrightarrow>
    wires_sorted (lg_registry s) \<and> registry_rebuild (lg_journal s) = Inr (lg_registry s)"
proof (induction rule: ledger_run.induct)
  case start
  then show ?case
    by (simp add: ledger_start_def registry_rebuild_def registry_new_def wires_sorted_def)
next
  case (observe s rd rows row x out rows1 reg)
  note folds = observe_folds [OF observe.hyps(4,5) conjunct1 [OF observe.IH]]
  from observe.IH registry_fold_all_sorted [OF folds] rebuilt_step [OF _ folds] show ?case by simp
next
  case (prove_resting s wire t reg)
  from resting_shape [OF prove_resting.hyps(2,3)]
  have folds: "registry_fold_all pos [J_OrderStateTxn t] (lg_registry s) = Inr reg" for pos by auto
  from prove_resting.IH registry_fold_all_sorted [OF folds] rebuilt_step [OF _ folds] show ?case by simp
next
  case (prove_rest s wire cid filled remaining initial p reg)
  from rest_shape [OF prove_rest.hyps(2,3)]
  have folds: "registry_fold_all pos [J_RestOrderProofTxn p] (lg_registry s) = Inr reg" for pos by auto
  from prove_rest.IH registry_fold_all_sorted [OF folds] rebuilt_step [OF _ folds] show ?case by simp
next
  case (other s r reg)
  from other.IH registry_fold_all_sorted [OF other.hyps(3)] rebuilt_step [OF _ other.hyps(3)] show ?case by simp
qed (simp_all add: rebuilt_step registry_fold_all_sorted)


section \<open>What the wires hold\<close>

definition held_of :: "wire_registry \<Rightarrow> ledger_id \<Rightarrow> venue_order_id \<Rightarrow> fill_id set" where
  "held_of reg ledger wire =
     (case registry_wire reg ledger wire of Some ws \<Rightarrow> set (ws_held ws) | None \<Rightarrow> {})"

lemma held_put [simp]:
  "held_of (put_wire led wire ws reg) led1 wire1 =
    (if led1 = led \<and> wire1 = wire then set (ws_held ws) else held_of reg led1 wire1)"
  by (auto simp: held_of_def)

lemma held_wire_or_new: "set (ws_held (wire_or_new reg led wire)) = held_of reg led wire"
  by (simp add: held_of_def wire_or_new_def venue_only_wire_def split: option.split)

lemma held_ensure:
  "(\<And>ws. set (ws_held ws) \<subseteq> set (ws_held (f ws))) \<Longrightarrow>
    held_of reg led1 wire1 \<subseteq> held_of (ensure_wire led wire f reg) led1 wire1"
  using held_wire_or_new [of reg led wire] unfolding ensure_wire_def held_put by fastforce

lemma held_on:
  "(\<And>ws. ws_held (f ws) = ws_held ws) \<Longrightarrow> held_of (on_wires led f reg) led1 wire1 = held_of reg led1 wire1"
  by (auto simp: held_of_def split: option.split)

lemma held_fields [simp]:
  "ws_held (bind_to_wire pos cid ws) = ws_held ws" "ws_held (terminalize_wire cid ws) = ws_held ws"
  "ws_held (bump_wire cid ws) = ws_held ws" "ws_held (discharge_hold cid ws) = ws_held ws"
  "ws_held (prove_remaining ws cid r) = ws_held ws"
  "set (ws_held (hold_execution fid e ws)) = insert fid (set (ws_held ws))"
  by (auto simp: bind_to_wire_def terminalize_wire_def bump_wire_def discharge_hold_def
      prove_remaining_def hold_execution_def Let_def split: wire_kind.split)

lemma held_seen [simp]:
  "held_of (reg\<lparr>wr_seen_order := m\<rparr>) led wire = held_of reg led wire"
  "held_of (reg\<lparr>wr_id_index := ix\<rparr>) led wire = held_of reg led wire"
  by (simp_all add: held_of_def)

lemma held_core: "held_of reg led wire \<subseteq> held_of (fold_core_records pos o_rec rs reg) led wire"
proof (induction pos o_rec rs reg rule: fold_core_records.induct)
  case (2 pos o_rec r rs reg)
  have "held_of reg led wire \<subseteq> held_of (fold_core_record pos o_rec r reg) led wire"
    by (cases "(pos, o_rec, r, reg)" rule: fold_core_record.cases)
      (simp_all add: bind_member_def terminalize_cid_def bump_generation_def held_on held_ensure)
  with "2.IH" show ?case by auto
qed simp

lemma held_order_part:
  assumes "fold_order_part pos o_rec reg = Inr reg1"
  shows "held_of reg led wire \<subseteq> held_of reg1 led wire"
proof -
  have part: "held_of reg led wire \<subseteq> held_of (fold_core_records pos o_rec rs (reg\<lparr>wr_seen_order := m\<rparr>)) led wire"
    for rs m using held_core [of "reg\<lparr>wr_seen_order := m\<rparr>"] by simp
  have disc: "held_of (put_wire l w (discharge_hold c ws) r) led wire = held_of r led wire"
    if "registry_wire r l w = Some ws" for l w c ws r using that by (simp add: held_of_def)
  show ?thesis
    using assms
    by (auto simp: fold_order_part_def Let_def disc subsetD [OF part] simp del: held_put
        split: option.splits if_splits)
qed

lemma held_execution:
  "held_of reg led1 wire \<subseteq> held_of (fold_execution led out reg) led1 wire"
  "outcome_entry out = Some e \<Longrightarrow> ie_venue_order_id e = Some w \<Longrightarrow>
    outcome_id out \<in> held_of (fold_execution led out reg) led w"
proof -
  have ix: "held_of (index_execution out reg) led1 wire = held_of reg led1 wire"
    by (simp add: index_execution_def split: option.split)
  have "held_of (index_execution out reg) led1 wire
      \<subseteq> held_of (ensure_wire led w (hold_execution fid e) (index_execution out reg)) led1 wire" for w fid e
    by (rule held_ensure) auto
  with ix show "held_of reg led1 wire \<subseteq> held_of (fold_execution led out reg) led1 wire"
    by (simp add: fold_execution_def Let_def split: option.split)
  show "outcome_entry out = Some e \<Longrightarrow> ie_venue_order_id e = Some w \<Longrightarrow>
      outcome_id out \<in> held_of (fold_execution led out reg) led w"
    by (auto simp: fold_execution_def outcome_entry_def outcome_id_def ensure_wire_def Let_def
        split: if_splits)
qed

lemma held_executions: "held_of reg led1 wire \<subseteq> held_of (fold_executions led outs reg) led1 wire"
proof (induction led outs reg rule: fold_executions.induct)
  case (2 led out outs reg)
  with held_execution(1) [of reg led1 wire led out] show ?case by auto
qed simp

lemma held_placed:
  "out \<in> set outs \<Longrightarrow> outcome_entry out = Some e \<Longrightarrow> ie_venue_order_id e = Some w \<Longrightarrow>
    outcome_id out \<in> held_of (fold_executions led outs reg) led w"
proof (induction led outs reg rule: fold_executions.induct)
  case (2 led o1 outs reg)
  then show ?case
    using held_execution(2) [of out e w led reg] held_executions [of "fold_execution led o1 reg" led w led outs]
    by auto
qed simp

text \<open>A step keeps what the wires hold.\<close>

lemma held_fold:
  assumes "registry_fold pos r reg = Inr reg1"
    and "order_part_of r \<noteq> None \<or> (\<exists>txn. r = J_ExecutionTxn txn) \<or> foreign_record ledger r"
  shows "held_of reg ledger wire \<subseteq> held_of reg1 ledger wire"
proof -
  show ?thesis
  proof (cases r)
    case (J_ExecutionTxn txn)
    with assms(1) obtain reg2 where "held_of reg ledger wire \<subseteq> held_of reg2 ledger wire"
        "reg1 = fold_executions (et_ledger txn) (et_executions txn) reg2"
      by (auto split: option.splits sum.splits dest: held_order_part)
    with held_executions [of reg2 ledger wire] show ?thesis by auto
  next
    case (J_OrderTxn o_rec)
    then show ?thesis using assms(1) held_order_part by simp
  qed (use assms in \<open>auto intro!: subsetD [OF held_ensure]\<close>)
qed

lemma held_fold_all:
  assumes "registry_fold_all pos rs reg = Inr reg1"
    and "\<forall>r \<in> set rs. order_part_of r \<noteq> None \<or> (\<exists>txn. r = J_ExecutionTxn txn) \<or> foreign_record ledger r"
  shows "held_of reg ledger wire \<subseteq> held_of reg1 ledger wire"
  using assms
proof (induction pos rs reg rule: registry_fold_all.induct)
  case (2 pos r rs reg)
  then obtain reg2 where fold: "registry_fold pos r reg = Inr reg2" by (auto split: sum.splits)
  have "held_of reg ledger wire \<subseteq> held_of reg2 ledger wire"
    by (rule held_fold [OF fold]) (use "2.prems"(2) in simp)
  with "2.IH" [OF fold] "2.prems" fold show ?case by auto
qed simp

text \<open>Every execution the inventory places on a venue order of the ledger is held by its wire.\<close>

definition placed_held :: "ledger_id \<Rightarrow> market_inventory \<Rightarrow> wire_registry \<Rightarrow> bool" where
  "placed_held ledger mi reg =
     (\<forall>fid e wire. inventory_get mi fid = Some e \<longrightarrow> ie_venue_order_id e = Some wire \<longrightarrow>
        fid \<in> held_of reg ledger wire)"

lemma placed_grows:
  "placed_held ledger mi reg \<Longrightarrow> (\<And>wire. held_of reg ledger wire \<subseteq> held_of reg1 ledger wire) \<Longrightarrow>
    placed_held ledger mi reg1"
  unfolding placed_held_def by (meson subsetD)

lemma placed_written:
  assumes "placed_held ledger mi reg" and ok: "inventory_ok mi" and pl: "planned mi x"
    and ledger: "mi_ledger mi = ledger"
    and fold: "registry_fold_all pos (opt_list (xt_journal x)) reg = Inr reg1"
  shows "placed_held ledger (written x mi) reg1"
proof -
  have mono: "held_of reg ledger wire \<subseteq> held_of reg1 ledger wire" for wire
    by (rule held_fold_all [OF fold]) (use planned_records [OF pl] in blast)
  show ?thesis
    unfolding placed_held_def
  proof (intro allI impI)
    fix fid e wire
    assume "inventory_get (written x mi) fid = Some e" and w: "ie_venue_order_id e = Some wire"
    then have "bt_get (entries_of (xt_outcomes x) (mi_entries mi)) fid = Some e"
      by (simp add: inventory_get_def written_fields(2) [OF ok pl])
    from entries_of_get [OF this] show "fid \<in> held_of reg1 ledger wire"
    proof (elim disjE bexE conjE)
      fix out
      assume out: "out \<in> set (xt_outcomes x)" "outcome_id out = fid" "outcome_entry out = Some e"
      then have "entry_ids (xt_outcomes x) \<noteq> {}" by (auto simp: entry_ids_def)
      with pl ledger obtain part where "xt_journal x =
          Some (J_ExecutionTxn (ExecutionTxnRecord ledger (mi_generation mi) (xt_outcomes x) part))"
        by (cases "xt_journal x") (auto simp: planned_def recorded_def)
      with fold obtain reg2 where "reg1 = fold_executions ledger (xt_outcomes x) reg2"
        by (auto split: sum.splits)
      with held_placed [OF out(1,3) w] out(2) show ?thesis by simp
    next
      assume "bt_get (mi_entries mi) fid = Some e"
      with assms(1) w have "fid \<in> held_of reg ledger wire" by (auto simp: placed_held_def inventory_get_def)
      with mono show ?thesis by blast
    qed
  qed
qed

lemma placed_put:
  assumes "placed_held ledger mi reg" and "ws_held ws1 = ws_held (wire_or_new reg ledger wire)"
  shows "placed_held ledger mi (put_wire ledger wire ws1 reg)"
  by (rule placed_grows [OF assms(1)]) (simp add: assms(2) held_wire_or_new)

lemma placed_run: "ledger_run ledger s \<Longrightarrow> placed_held ledger (lg_inventory s) (lg_registry s)"
proof (induction rule: ledger_run.induct)
  case start
  then show ?case
    by (simp add: ledger_start_def placed_held_def inventory_new_def inventory_get_def)
next
  case (order_event s cid row ev ox row1 reg)
  have "held_of (lg_registry s) ledger wire \<subseteq> held_of reg ledger wire" for wire
    by (rule held_fold_all [OF order_event.hyps(5)]) (use order_event_records [OF order_event.hyps(3)] in blast)
  with order_event.IH show ?case by (simp add: placed_grows)
next
  case (execution s cid row ev evs x outs row1 mi1 reg)
  have inv: "ledger_inv ledger s" by (rule ledger_run_inv [OF execution.hyps(1)])
  have "placed_held ledger (written x (lg_inventory s)) reg"
    by (rule placed_written [OF execution.IH inv_inventory_ok [OF inv] batch_planned [OF execution.hyps(3)]
          _ execution.hyps(5)]) (use inv in \<open>simp add: ledger_inv_def\<close>)
  then show ?case by (simp add: execution_apply_written(2) [OF execution.hyps(4)])
next
  case (rowless s e x outs mi1 reg)
  have inv: "ledger_inv ledger s" by (rule ledger_run_inv [OF rowless.hyps(1)])
  have "placed_held ledger (written x (lg_inventory s)) reg"
    by (rule placed_written [OF rowless.IH inv_inventory_ok [OF inv] rowless_planned [OF rowless.hyps(2)]
          _ rowless.hyps(4)]) (use inv in \<open>simp add: ledger_inv_def\<close>)
  then show ?case by (simp add: execution_apply_written(2) [OF rowless.hyps(3)])
next
  case (observe s rd rows row x out rows1 reg)
  note shape = finish_shape [OF observe.hyps(4)]
  have "reg = put_wire ledger (rd_wire rd) (bx_wire_after x) (lg_registry s)"
    using apply_shape(2) [OF observe.hyps(5)] observe.hyps(2) by (simp add: shape(1) round_fields)
  moreover have "ws_held (bx_wire_after x) = ws_held (wire_or_new (lg_registry s) ledger (rd_wire rd))"
    using observe.hyps(2) by (simp add: shape(1) round_wire_after observed_members)
  ultimately show ?case using observe.IH by (simp add: placed_put)
next
  case (prove_resting s wire t reg)
  from resting_shape [OF prove_resting.hyps(2,3)] prove_resting.IH show ?case
    by (auto intro!: placed_put simp: wire_or_new_def)
next
  case (prove_rest s wire cid filled remaining initial p reg)
  from rest_shape [OF prove_rest.hyps(2,3)] prove_rest.IH show ?case
    by (auto intro!: placed_put simp: wire_or_new_def)
next
  case (other s r reg)
  have "held_of (lg_registry s) ledger wire \<subseteq> held_of reg ledger wire" for wire
    by (rule held_fold_all [OF other.hyps(3)]) (use other.hyps(2) in simp)
  with other.IH show ?case by (simp add: placed_grows)
qed (simp add: placed_held_def)

text \<open>A known remaining quantity counted everything the inventory places on the wire.\<close>

lemma known_covers:
  assumes "ledger_run ledger s" and "working_view_of (lg_registry s) ledger wire = WV_Known r"
    and "inventory_get (lg_inventory s) fid = Some e" and "ie_venue_order_id e = Some wire"
  shows "\<exists>ws obs. registry_wire (lg_registry s) ledger wire = Some ws
    \<and> ws_remaining_observation ws = Some obs \<and> ro_remaining obs = r \<and> fid \<in> set (ro_covered obs)"
proof -
  from assms(2) obtain ws obs where "registry_wire (lg_registry s) ledger wire = Some ws"
      "ws_remaining_observation ws = Some obs" "ro_remaining obs = r" "ro_covered obs = ws_held ws"
    by (auto simp: working_view_of_def wire_working_def split: option.splits if_splits)
  moreover have "fid \<in> held_of (lg_registry s) ledger wire"
    using placed_run [OF assms(1)] assms(3,4) unfolding placed_held_def by blast
  ultimately show ?thesis by (simp add: held_of_def)
qed


section \<open>The fold never refuses a transaction\<close>

definition record_key :: "order_txn_record \<Rightarrow> ledger_id \<times> client_order_id \<times> u64" where
  "record_key p = (ot_ledger p, ot_client_order_id p, ot_seq p)"

lemma seen_unchanged [simp]:
  "wr_seen_order (put_wire led wire ws reg) = wr_seen_order reg"
  "wr_seen_order (ensure_wire led wire f reg) = wr_seen_order reg"
  "wr_seen_order (on_wires led f reg) = wr_seen_order reg"
  "wr_seen_order (index_execution out reg) = wr_seen_order reg"
  by (simp_all add: put_wire_def ensure_wire_def on_wires_def index_execution_def split: option.split)

lemma seen_core [simp]: "wr_seen_order (fold_core_records pos o_rec rs reg) = wr_seen_order reg"
proof (induction pos o_rec rs reg rule: fold_core_records.induct)
  case (2 pos o_rec r rs reg)
  have "wr_seen_order (fold_core_record pos o_rec r reg) = wr_seen_order reg"
    by (cases "(pos, o_rec, r, reg)" rule: fold_core_record.cases)
      (simp_all add: bind_member_def terminalize_cid_def bump_generation_def)
  with "2.IH" show ?case by simp
qed simp

lemma seen_executions [simp]: "wr_seen_order (fold_executions led outs reg) = wr_seen_order reg"
  by (induction led outs reg rule: fold_executions.induct)
    (simp_all add: fold_execution_def Let_def split: option.split)

lemma seen_order_part:
  assumes "fold_order_part pos p reg = Inr reg1" and "bt_get (wr_seen_order reg1) k = Some v"
  shows "bt_get (wr_seen_order reg) k = Some v \<or> k = record_key p"
  using assms
  by (auto simp: fold_order_part_def record_key_def bt_get_insert Let_def split: option.splits if_splits)

lemma seen_fold:
  assumes "registry_fold pos r reg = Inr reg1" and "bt_get (wr_seen_order reg1) k = Some v"
  shows "bt_get (wr_seen_order reg) k = Some v \<or> (\<exists>p. order_part_of r = Some p \<and> k = record_key p)"
  using assms
  by (cases r) (auto simp del: sat_add_u64_def split: option.splits sum.splits dest: seen_order_part)

lemma seen_fold_all:
  "registry_fold_all pos rs reg = Inr reg1 \<Longrightarrow> bt_get (wr_seen_order reg1) k = Some v \<Longrightarrow>
    bt_get (wr_seen_order reg) k = Some v
    \<or> (\<exists>r \<in> set rs. \<exists>p. order_part_of r = Some p \<and> k = record_key p)"
proof (induction pos rs reg rule: registry_fold_all.induct)
  case (2 pos r rs reg)
  then obtain reg2 where fold: "registry_fold pos r reg = Inr reg2" by (auto split: sum.splits)
  from "2.IH" [OF this] "2.prems" fold show ?case by (auto dest: seen_fold)
qed simp

lemma history_member:
  assumes "r \<in> set recs" and "order_part_of r = Some p"
  shows "ot_seq p \<in> set (map fst (history (ot_ledger p) (ot_client_order_id p) recs))"
proof -
  have "record_moves (ot_ledger p) (ot_client_order_id p) r = [(ot_seq p, (ot_state_after p, ot_ctx_after p))]"
    using assms(2) by (cases r) simp_all
  with assms(1) show ?thesis by (force simp: history_def)
qed

text \<open>The next sequence number of a row is not in the registry.\<close>

lemma next_unseen:
  assumes run: "ledger_run ledger s" and row: "lg_rows s cid = Some row"
    and short: "length (lg_journal s) < u64_max"
  shows "bt_get (wr_seen_order (lg_registry s)) (ledger, cid, next_seq (oc_seq (row_cursor row))) = None"
proof (rule ccontr)
  let ?n = "oc_seq (row_cursor row)"
  assume "bt_get (wr_seen_order (lg_registry s)) (ledger, cid, next_seq ?n) \<noteq> None"
  then obtain v where v: "bt_get (wr_seen_order (lg_registry s)) (ledger, cid, next_seq ?n) = Some v" by auto
  have h: "row_history ledger (length (lg_journal s)) (Some row) (history ledger cid (lg_journal s))"
    using journal_covers_run [OF run] short row unfolding journal_covers_def by (metis less_imp_le)
  have "registry_fold_all 0 (lg_journal s) registry_new = Inr (lg_registry s)"
    using rebuilt_run [OF run] by (simp add: registry_rebuild_def)
  from seen_fold_all [OF this v] obtain r p where r: "r \<in> set (lg_journal s)" "order_part_of r = Some p"
      "ot_ledger p = ledger" "ot_client_order_id p = cid" "ot_seq p = next_seq ?n"
    by (auto simp: registry_new_def record_key_def)
  from history_member [OF r(1,2)] r(3-5) history_keys [OF h]
  have "next_seq ?n \<le> length (history ledger cid (lg_journal s))" by auto
  moreover have "next_seq ?n = ?n + 1" using h short by (auto simp: row_history_def next_seq_def u64_max_def)
  ultimately show False using h by (simp add: row_history_def)
qed

lemma order_part_folds:
  "bt_get (wr_seen_order reg) (record_key p) = None \<Longrightarrow> \<exists>reg1. fold_order_part pos p reg = Inr reg1"
  by (simp add: fold_order_part_def record_key_def Let_def)

lemma recorded_folds:
  assumes run: "ledger_run ledger s" and row: "lg_rows s cid = Some row"
    and short: "length (lg_journal s) < u64_max" and moved: "moved_on_record row part row1"
    and p: "part = Some p"
  shows "\<exists>reg. fold_order_part pos p (lg_registry s) = Inr reg"
proof (rule order_part_folds)
  have "row_ledger row = ledger" "client_order_id_of (row_ctx row) = cid"
    using ledger_run_inv [OF run] row by (simp_all add: ledger_inv_def rows_ok_def)
  with moved p next_unseen [OF run row short]
  show "bt_get (wr_seen_order (lg_registry s)) (record_key p) = None"
    by (simp add: moved_on_record_def records_row_def record_key_def)
qed

lemma order_event_folds:
  assumes "ledger_run ledger s" and "lg_rows s cid = Some row" and "length (lg_journal s) < u64_max"
    and prep: "prepare_order_event row ev = Inr ox" and app: "order_transaction_apply ox row = Inr row1"
  shows "\<exists>reg. folds_to s (opt_list (ox_journal ox)) reg"
proof (cases "ox_journal ox")
  case (Some r)
  then have "order_part_of r \<noteq> None" by (intro order_event_records [OF prep]) simp
  then obtain p where p: "order_part_of r = Some p" by blast
  obtain c1 t where "apply_event (row_state row) (row_ctx row) ev = (c1, t)" by fastforce
  from prepared_order_cases [OF prep this] Some p have r: "r = J_OrderTxn p" by auto
  from recorded_folds [OF assms(1-3) order_event_recorded [OF prep app], of p] Some p
  obtain reg where "fold_order_part (length (lg_journal s)) p (lg_registry s) = Inr reg" by auto
  then show ?thesis by (simp add: Some r)
qed simp

lemma batch_folds:
  assumes "ledger_run ledger s" and "lg_rows s cid = Some row" and "length (lg_journal s) < u64_max"
    and prep: "prepare_execution_batch row (lg_inventory s) ev evs = Inr x"
    and app: "execution_transaction_apply x (Some row) (lg_inventory s) = Inr (outs, Some row1, mi1)"
  shows "\<exists>reg. folds_to s (opt_list (xt_journal x)) reg"
proof (cases "xt_journal x")
  case (Some r)
  from planned_records [OF batch_planned [OF prep], of r] Some obtain outs part where
    r: "r = J_ExecutionTxn (ExecutionTxnRecord (mi_ledger (lg_inventory s)) (mi_generation (lg_inventory s)) outs part)"
    by auto
  show ?thesis
  proof (cases part)
    case None
    then show ?thesis by (simp add: Some r)
  next
    case (Some p)
    with \<open>xt_journal x = Some r\<close> r have "Option.bind (xt_journal x) order_part_of = Some p" by simp
    from recorded_folds [OF assms(1-3) batch_recorded [OF prep app] this]
    obtain reg where "fold_order_part (length (lg_journal s)) p (lg_registry s) = Inr reg" by blast
    then show ?thesis by (simp add: \<open>xt_journal x = Some r\<close> r Some)
  qed
qed simp

lemma rowless_folds:
  assumes "prepare_execution None (lg_inventory s) e = Inr x"
  shows "\<exists>reg. folds_to s (opt_list (xt_journal x)) reg"
proof (cases "xt_journal x")
  case (Some r)
  from planned_records [OF rowless_planned [OF assms], of r] Some obtain outs part where
    "r = J_ExecutionTxn (ExecutionTxnRecord (mi_ledger (lg_inventory s)) (mi_generation (lg_inventory s)) outs part)"
    by auto
  moreover from this rowless_unrecorded [OF assms] Some have "part = None" by simp
  ultimately show ?thesis by (simp add: Some)
qed simp

end
