(* ===== verification/Ledger_Demo.thy ===== *)
theory Ledger_Demo
  imports Delivery Registry_Run
begin

text \<open>
  A small ledger for the witnesses: one order of ten contracts, prepared and submitted, then filled
  for four of them before the venue acknowledged it.
\<close>

definition demo_ledger :: ledger_id where
  "demo_ledger = LedgerId (ExecutionScope ''x'') ''m''"

definition demo_order :: client_order_id where "demo_order = ClientOrderId ''o''"

definition demo_evidence :: "string \<Rightarrow> venue_order_id option \<Rightarrow> execution_evidence" where
  "demo_evidence fid venue =
     \<lparr>ev_scope = ExecutionScope ''x'', ev_market = ''m'', ev_execution_id = FillId fid,
      ev_side = BuyYes, ev_qty = 4, ev_price_cents = 50, ev_ts_ns = 7, ev_venue_order_id = venue,
      ev_claimed_client_order_id = None, ev_fee_cents = None, ev_source = WsFill\<rparr>"

definition demo_row :: "u64 \<Rightarrow> order_state \<Rightarrow> order_row" where
  "demo_row n st = (fresh_row demo_ledger demo_order ''s'' BuyYes 50 10)
     \<lparr>row_state := st, row_cursor := \<lparr>oc_seq = n\<rparr>\<rparr>"

lemmas row_eval = demo_row_def demo_ledger_def demo_order_def fresh_row_def order_ctx_new_def
  prepare_order_event_def event_has_identified_fills_def apply_event_def on_open_state_def on_new_def
  on_submit_prepared_def accept_def row_changed_def split_effects_def next_seq_def u64_max_def

lemma demo_prepare:
  "\<exists>ox. prepare_order_event (demo_row 0 St_New) Ev_PrepareSubmit = Inr ox
    \<and> order_transaction_apply ox (demo_row 0 St_New) = Inr (demo_row 1 St_SubmitPrepared)"
  by (simp add: row_eval)

lemma demo_start:
  "\<exists>ox. prepare_order_event (demo_row 1 St_SubmitPrepared) (Ev_StartSubmit a) = Inr ox
    \<and> order_transaction_apply ox (demo_row 1 St_SubmitPrepared) = Inr (demo_row 2 (St_SubmitStarted a))"
  by (simp add: row_eval)

lemma opt_list_length: "length (opt_list x) \<le> Suc 0"
  by (cases x) simp_all

lemma opt_list_two: "length (opt_list x) + length (opt_list y) \<le> 2"
  by (cases x; cases y) simp_all

text \<open>An order event on the demo row is a step of the run.\<close>

lemma demo_event:
  assumes "ledger_run ledger s" and "lg_rows s cid = Some row" and "length (lg_journal s) \<le> 2"
    and "prepare_order_event row ev = Inr ox" and "order_transaction_apply ox row = Inr row1"
  shows "\<exists>s1 :: ledger_state. ledger_run ledger s1 \<and> lg_rows s1 cid = Some row1 \<and> lg_inventory s1 = lg_inventory s
    \<and> lg_journal s1 = lg_journal s @ opt_list (ox_journal ox)"
proof -
  have "length (lg_journal s) < u64_max" using assms(3) by (simp add: u64_max_def)
  from order_event_folds [OF assms(1,2) this assms(4,5)] obtain reg
    where "folds_to s (opt_list (ox_journal ox)) reg" by blast
  note step = ledger_run.order_event [OF assms(1,2,4,5) this]
  show ?thesis by (rule exI, rule conjI [OF step]) simp
qed

lemma demo_started:
  "\<exists>s :: ledger_state. ledger_run demo_ledger s \<and> lg_rows s demo_order = Some (demo_row 2 (St_SubmitStarted a))
    \<and> lg_inventory s = inventory_new demo_ledger \<and> length (lg_journal s) \<le> 2"
proof -
  let ?s0 = "ledger_start demo_ledger"
  let ?s1 = "?s0\<lparr>lg_rows := (lg_rows ?s0)(demo_order \<mapsto> fresh_row demo_ledger demo_order ''s'' BuyYes 50 10)\<rparr>"
  have r1: "ledger_run demo_ledger ?s1"
    by (rule ledger_run.place [OF ledger_run.start]) (simp add: ledger_start_def)
  have row0: "lg_rows ?s1 demo_order = Some (demo_row 0 St_New)"
    by (simp add: demo_row_def fresh_row_def)
  have empty: "lg_journal ?s1 = []" "lg_inventory ?s1 = inventory_new demo_ledger"
    by (simp_all add: ledger_start_def)
  obtain o1 where o1: "prepare_order_event (demo_row 0 St_New) Ev_PrepareSubmit = Inr o1"
      "order_transaction_apply o1 (demo_row 0 St_New) = Inr (demo_row 1 St_SubmitPrepared)"
    using demo_prepare by blast
  from demo_event [OF r1 row0 _ o1] empty obtain s2 :: ledger_state where s2: "ledger_run demo_ledger s2"
      "lg_rows s2 demo_order = Some (demo_row 1 St_SubmitPrepared)" "lg_inventory s2 = inventory_new demo_ledger"
      "lg_journal s2 = opt_list (ox_journal o1)" by auto
  obtain o2 where o2: "prepare_order_event (demo_row 1 St_SubmitPrepared) (Ev_StartSubmit a) = Inr o2"
      "order_transaction_apply o2 (demo_row 1 St_SubmitPrepared) = Inr (demo_row 2 (St_SubmitStarted a))"
    using demo_start by blast
  have "length (lg_journal s2) \<le> 2" using opt_list_length [of "ox_journal o1"] by (simp add: s2(4))
  from demo_event [OF s2(1,2) this o2] s2 opt_list_two [of "ox_journal o1" "ox_journal o2"] show ?thesis
    by auto
qed


lemmas account_eval = on_submit_started_def apply_fill_while_open_def try_account_fill_def
  try_account_fill_owned_def account_fill_core_def first_sighting_gate_def account_new_fill_def
  book_fill_def settle_booked_fill_def checked_add_u64_def fee_or_zero_def
  accumulate_response_domain_def fill_in_response_domain_def response_domain_overfill_detail_def
  has_reliable_boundary_def raise_fill_obligation_def sat_add_u128_def u128_max_def invalidate_authority_def sat_add_u64_def applied_ids_def

lemma demo_core:
  "\<exists>c1 es. apply_event (St_SubmitStarted a) (row_ctx (demo_row 2 (St_SubmitStarted a)))
      (evidence_event (demo_evidence ''f'' None)) = (c1, Accept (St_SubmitStarted a) es)
    \<and> applied_ids c1 = {FillId ''f''}"
  by (simp add: row_eval account_eval demo_evidence_def evidence_event_def Let_def)

lemmas adjudicate_eval = adjudicate_batch_def is_row_foreign_def adjudicate_row_def
  core_hit_def opt_holds_def opt_holds2_def other_owner_def fee_hit_def fee_conflict_def
  canonical_staged_def staged_of_def or_else_def inventory_get_def inventory_new_def

lemma demo_core_call:
  assumes "adjudicate_batch (demo_row 2 (St_SubmitStarted a)) (inventory_new demo_ledger) [demo_evidence ''f'' None]
    = (staging, pre)"
  shows "core_call (demo_row 2 (St_SubmitStarted a)) (inventory_new demo_ledger) (evidence_event (demo_evidence ''f'' None))
    [demo_evidence ''f'' None] staging pre =
     Inr (Some (apply_event (St_SubmitStarted a) (row_ctx (demo_row 2 (St_SubmitStarted a)))
      (evidence_event (demo_evidence ''f'' None))))"
  using assms
  by (auto simp: adjudicate_eval row_eval demo_evidence_def core_call_def all_side_mismatch_def
     final_staged_def rebuild_event_with_fills_def evidence_event_def Let_def)

lemma demo_executed:
  "\<exists>x row1. prepare_execution_batch (demo_row 2 (St_SubmitStarted a)) (inventory_new demo_ledger)
      (evidence_event (demo_evidence ''f'' None)) [demo_evidence ''f'' None] = Inr x
    \<and> execution_transaction_apply x (Some (demo_row 2 (St_SubmitStarted a))) (inventory_new demo_ledger)
       = Inr (xt_outcomes x, Some row1, written x (inventory_new demo_ledger))
    \<and> applied_ids (row_ctx row1) = {FillId ''f''}"
proof -
  let ?row = "demo_row 2 (St_SubmitStarted a)" and ?mi = "inventory_new demo_ledger"
  let ?e = "demo_evidence ''f'' None"
  obtain staging pre where adj: "adjudicate_batch ?row ?mi [?e] = (staging, pre)" by fastforce
  obtain c1 es where core: "apply_event (St_SubmitStarted a) (row_ctx ?row) (evidence_event ?e)
      = (c1, Accept (St_SubmitStarted a) es)" "applied_ids c1 = {FillId ''f''}"
    using demo_core by blast
  have "batch_ledger_error ?mi [?e] = None"
    by (simp add: batch_ledger_error_def evidence_ledger_def demo_evidence_def demo_ledger_def inventory_new_def)
  then have prep: "prepare_execution_batch ?row ?mi (evidence_event ?e) [?e]
      = Inr (assemble_batch ?row ?mi (evidence_event ?e) staging pre
          (Some (c1, Accept (St_SubmitStarted a) es)))"
    using adj demo_core_call [OF adj] core(1) by (simp add: prepare_execution_batch_def evidence_matches)
  from batch_applies [OF prep] obtain row1 where row1:
    "execution_transaction_apply (assemble_batch ?row ?mi (evidence_event ?e) staging pre
       (Some (c1, Accept (St_SubmitStarted a) es))) (Some ?row) ?mi =
     Inr (xt_outcomes (assemble_batch ?row ?mi (evidence_event ?e) staging pre
       (Some (c1, Accept (St_SubmitStarted a) es))), Some row1, written (assemble_batch ?row ?mi (evidence_event ?e) staging pre
       (Some (c1, Accept (St_SubmitStarted a) es))) ?mi)" by blast
  have "row_ctx row1 = c1"
    using assembled_row(2) [OF execution_apply_written(4) [OF row1 refl refl]] by (simp add: row_after_def)
  with prep row1 core(2) show ?thesis by blast
qed

lemma demo_booked:
  "\<exists>s row. ledger_run demo_ledger s \<and> length (lg_journal s) \<le> 3 \<and> lg_rows s demo_order = Some row
    \<and> FillId ''f'' \<in> applied_ids (row_ctx row)"
proof -
  obtain s where s: "ledger_run demo_ledger s"
      "lg_rows s demo_order = Some (demo_row 2 (St_SubmitStarted (AttemptId ''a'')))"
      "lg_inventory s = inventory_new demo_ledger" "length (lg_journal s) \<le> 2"
    using demo_started by blast
  obtain x row1 where x: "prepare_execution_batch (demo_row 2 (St_SubmitStarted (AttemptId ''a'')))
        (lg_inventory s) (evidence_event (demo_evidence ''f'' None)) [demo_evidence ''f'' None] = Inr x"
      "execution_transaction_apply x (Some (demo_row 2 (St_SubmitStarted (AttemptId ''a'')))) (lg_inventory s)
       = Inr (xt_outcomes x, Some row1, written x (lg_inventory s))"
      "applied_ids (row_ctx row1) = {FillId ''f''}"
    using demo_executed s(3) by metis
  have "length (lg_journal s) < u64_max" using s(4) by (simp add: u64_max_def)
  from batch_folds [OF s(1,2) this x(1,2)] obtain reg where folds: "folds_to s (opt_list (xt_journal x)) reg"
    by blast
  let ?s1 = "s\<lparr>lg_inventory := written x (lg_inventory s), lg_rows := (lg_rows s)(demo_order \<mapsto> row1),
    lg_registry := reg, lg_journal := lg_journal s @ opt_list (xt_journal x),
    lg_effects := lg_effects s @ xt_effects x\<rparr>"
  have "ledger_run demo_ledger ?s1" by (rule ledger_run.execution [OF s(1,2) x(1,2) folds])
  moreover have "length (lg_journal ?s1) \<le> 3"
    using s(4) opt_list_length [of "xt_journal x"] by simp
  moreover have "lg_rows ?s1 demo_order = Some row1" by simp
  moreover have "FillId ''f'' \<in> applied_ids (row_ctx row1)" by (simp add: x(3))
  ultimately show ?thesis by blast
qed

end
