(* ===== verification/Ledger_Properties.thy ===== *)
theory Ledger_Properties
  imports Ledger_Demo Machine_Range
begin

text \<open>
  The properties of the batch layer, stated over \<open>ledger_run\<close>: a market inventory, the rows of its
  orders, the journal and the effects executed, in any interleaving of placed orders, order events,
  execution batches, evidence without a row and foreign journal records.
\<close>

section \<open>Books and owners\<close>

text \<open>
  C17. Across all orders of a ledger, the accounting effects the shell executes carry each execution
  once: the ids accounted are distinct, they are exactly the executions some order has applied, and
  their quantities add up to what the orders have attributed.
\<close>

theorem ledger_accounts_once:
  assumes "ledger_run ledger s"
  shows "distinct (account_ids (lg_effects s)) \<and> set (account_ids (lg_effects s)) = all_applied s
    \<and> accounted_qty (lg_effects s) = total_attributed s"
  using ledger_run_inv [OF assms] by (simp add: ledger_inv_def books_ok_def)

theorem ledger_accounts_once_witness:
  "\<exists>s :: ledger_state. FillId ''f'' \<in> all_applied s \<and> distinct (account_ids (lg_effects s))
    \<and> set (account_ids (lg_effects s)) = all_applied s
    \<and> accounted_qty (lg_effects s) = total_attributed s"
proof -
  obtain s row where s: "ledger_run demo_ledger s" "lg_rows s demo_order = Some row"
      "FillId ''f'' \<in> applied_ids (row_ctx row)" using demo_booked by blast
  then have "FillId ''f'' \<in> all_applied s" by (auto simp: all_applied_def)
  with ledger_accounts_once [OF s(1)] show ?thesis by blast
qed

text \<open>
  C18. An execution applied to an order is owned by it: the inventory entry names that order, and no
  other order of the ledger has applied the execution.
\<close>

theorem ledger_single_owner:
  assumes "ledger_run ledger s" and "lg_rows s cid = Some row" and "fid \<in> applied_ids (row_ctx row)"
  shows "(\<exists>entry. inventory_get (lg_inventory s) fid = Some entry \<and> ie_owner entry = Some cid)
    \<and> (\<forall>cid1 row1. lg_rows s cid1 = Some row1 \<and> cid1 \<noteq> cid \<longrightarrow> fid \<notin> applied_ids (row_ctx row1))"
proof -
  have own: "owners_ok s" using ledger_run_inv [OF assms(1)] by (simp add: ledger_inv_def)
  have owner: "\<exists>entry. inventory_get (lg_inventory s) fid = Some entry \<and> ie_owner entry = Some c"
    if "lg_rows s c = Some r" "fid \<in> applied_ids (row_ctx r)" for c r
    using own that unfolding owners_ok_def by blast
  from owner [OF assms(2,3)] show ?thesis using owner by fastforce
qed

theorem ledger_single_owner_witness:
  "\<exists>(s :: ledger_state) entry. inventory_get (lg_inventory s) (FillId ''f'') = Some entry
    \<and> ie_owner entry = Some demo_order"
proof -
  obtain s row where s: "ledger_run demo_ledger s" "lg_rows s demo_order = Some row"
      "FillId ''f'' \<in> applied_ids (row_ctx row)" using demo_booked by blast
  from ledger_single_owner [OF s] show ?thesis by (intro exI [of _ s]) blast
qed


section \<open>Rebuild\<close>

text \<open>
  C19. Rebuilding the market inventory from the journal of a ledger gives exactly the inventory in
  memory: entries, conflicts and generation.
\<close>

theorem inventory_rebuild_exact:
  assumes "ledger_run ledger s"
  shows "inventory_rebuild ledger (lg_journal s) = Inr (lg_inventory s)"
  using ledger_run_inv [OF assms] tracks_rebuild by (auto simp: ledger_inv_def)

theorem inventory_rebuild_exact_witness:
  "\<exists>(s :: ledger_state) entry. inventory_rebuild demo_ledger (lg_journal s) = Inr (lg_inventory s)
    \<and> inventory_get (lg_inventory s) (FillId ''f'') = Some entry"
proof -
  obtain s row where s: "ledger_run demo_ledger s" "lg_rows s demo_order = Some row"
      "FillId ''f'' \<in> applied_ids (row_ctx row)" using demo_booked by blast
  then have "\<exists>entry. inventory_get (lg_inventory s) (FillId ''f'') = Some entry"
    using ledger_run_inv [OF s(1)] unfolding ledger_inv_def owners_ok_def by blast
  with inventory_rebuild_exact [OF s(1)] show ?thesis by (intro exI [of _ s]) blast
qed

text \<open>
  C20. Rebuilding an order from the journal of its ledger gives exactly the state, context and cursor
  in memory, the moves observations made included; the rebuild of the batch layer gives the same on a
  journal without observations. A row the journal does not know is still as it was placed. The journal
  is shorter than the range of the sequence number.
\<close>

theorem order_rebuild_exact:
  assumes "ledger_run ledger s" and "length (lg_journal s) \<le> u64_max"
  shows "rebuild_order_with_observations ledger cid (lg_journal s) = Inr (row_or_none (lg_rows s cid))
    \<and> (\<not> list_ex is_observation (lg_journal s) \<longrightarrow>
        rebuild_order ledger cid (lg_journal s) = Inr (row_or_none (lg_rows s cid)))
    \<and> (\<forall>row. lg_rows s cid = Some row \<and> oc_seq (row_cursor row) = 0 \<longrightarrow> untouched ledger row)"
  using rebuilt_row [OF assms] by blast

theorem order_rebuild_exact_witness:
  "\<exists>(s :: ledger_state) (row :: order_row). FillId ''f'' \<in> applied_ids (row_ctx row)
    \<and> rebuild_order_with_observations demo_ledger demo_order (lg_journal s) =
      Inr (if oc_seq (row_cursor row) = 0 then None
           else Some (row_state row, row_ctx row, row_cursor row))"
proof -
  obtain s row where s: "ledger_run demo_ledger s" "length (lg_journal s) \<le> 3"
      "lg_rows s demo_order = Some row" "FillId ''f'' \<in> applied_ids (row_ctx row)"
    using demo_booked by blast
  from s(2) have "length (lg_journal s) \<le> u64_max" by (simp add: u64_max_def)
  from order_rebuild_exact [OF s(1) this, of demo_order] s(4) show ?thesis
    unfolding s(3) row_or_none_def option.case by (intro exI [of _ s] exI [of _ row]) blast
qed


section \<open>Delivery\<close>

text \<open>
  C21. Every piece of evidence delivered to an order of its ledger commits: preparing neither fails
  nor panics, the prepared transaction applies, and afterwards the inventory knows the execution
  unless the evidence was for no contracts.
\<close>

theorem delivery_commits:
  assumes "ledger_run ledger s" and "lg_rows s cid = Some row" and "evidence_ledger e = ledger"
  shows "\<exists>x row1 mi1. prepare_execution (Some row) (lg_inventory s) e = Inr x
    \<and> execution_transaction_apply x (Some row) (lg_inventory s) = Inr (xt_outcomes x, Some row1, mi1)
    \<and> (ev_qty e \<noteq> 0 \<longrightarrow> inventory_get mi1 (ev_execution_id e) \<noteq> None)"
proof -
  obtain x where x: "prepare_execution (Some row) (lg_inventory s) e = Inr x"
    using run_prepares [OF assms(1,3)] by blast
  then have "prepare_execution_batch row (lg_inventory s) (evidence_event e) [e] = Inr x"
    by (simp add: prepare_execution_def)
  from batch_applies [OF this] obtain row1 where
    "execution_transaction_apply x (Some row) (lg_inventory s)
      = Inr (xt_outcomes x, Some row1, written x (lg_inventory s))" by blast
  moreover have "Some row = None \<or> (\<exists>cid. Some row = lg_rows s cid)" using assms(2) by metis
  ultimately show ?thesis using x delivered_known [OF assms(1) x] by blast
qed

theorem delivery_commits_witness:
  "\<exists>(s :: ledger_state) row x row1 mi1. prepare_execution (Some row) (lg_inventory s) (demo_evidence ''g'' None) = Inr x
    \<and> execution_transaction_apply x (Some row) (lg_inventory s) = Inr (xt_outcomes x, Some row1, mi1)
    \<and> (4 \<noteq> (0::nat) \<longrightarrow> inventory_get mi1 (FillId ''g'') \<noteq> None)"
proof -
  obtain s row where s: "ledger_run demo_ledger s" "lg_rows s demo_order = Some row"
    using demo_booked by blast
  have e: "evidence_ledger (demo_evidence ''g'' None) = demo_ledger"
    "ev_qty (demo_evidence ''g'' None) = 4" "ev_execution_id (demo_evidence ''g'' None) = FillId ''g''"
    by (simp_all add: evidence_ledger_def demo_evidence_def demo_ledger_def)
  from delivery_commits [OF s e(1)] show ?thesis unfolding e by blast
qed

text \<open>
  C23. The net position counts every execution once, by its first evidence: a delivery, with a row or
  without, moves the position by the signed quantity of the evidence when the inventory does not know
  the execution, and not at all when it does, whatever the order made of it.
\<close>

theorem delivery_moves_position:
  assumes "ledger_run ledger s" and "row = None \<or> (\<exists>cid. row = lg_rows s cid)"
    and "prepare_execution row (lg_inventory s) e = Inr x"
    and "execution_transaction_apply x row (lg_inventory s) = Inr (outs, row1, mi1)"
  shows "inventory_net mi1 = inventory_net (lg_inventory s)
    + (if inventory_get (lg_inventory s) (ev_execution_id e) = None then evidence_signed e else 0)"
  using delivery_net [OF assms(1,3,2)] execution_apply_written(2) [OF assms(4)] by simp

theorem delivery_moves_position_witness:
  "\<exists>x row1 mi1. prepare_execution None (lg_inventory (ledger_start demo_ledger)) (demo_evidence ''g'' None)
      = Inr x
    \<and> execution_transaction_apply x None (lg_inventory (ledger_start demo_ledger))
      = Inr (xt_outcomes x, row1, mi1)
    \<and> inventory_net mi1 = 4"
proof -
  let ?s = "ledger_start demo_ledger" and ?e = "demo_evidence ''g'' None"
  have "evidence_ledger ?e = demo_ledger"
    by (simp add: evidence_ledger_def demo_evidence_def demo_ledger_def)
  from run_prepares [OF ledger_run.start this]
  obtain x where x: "prepare_execution None (lg_inventory ?s) ?e = Inr x" by blast
  have app: "execution_transaction_apply x None (lg_inventory ?s)
      = Inr (xt_outcomes x, None, written x (lg_inventory ?s))" by (rule rowless_applies [OF x])
  have "inventory_net (written x (lg_inventory ?s)) = 4"
    using delivery_moves_position [OF ledger_run.start [of demo_ledger] _ x app]
    by (simp add: ledger_start_def inventory_new_def inventory_net_def inventory_get_def
        evidence_signed_def demo_evidence_def)
  with x app show ?thesis by blast
qed

text \<open>
  C22. A prepared batch commits at most once: after it wrote an entry or a conflict or moved the
  order, applying it again is refused and changes nothing.
\<close>

theorem stale_transaction_rejected:
  assumes "prepare_execution_batch row mi ev evidences = Inr x"
    and "execution_transaction_apply x (Some row) mi = Inr (outs, Some row1, mi1)"
    and "writes_something x"
    and "mi_generation mi < u64_max" and "oc_seq (row_cursor row) \<le> u64_max"
  shows "\<exists>mismatch. execution_transaction_apply x (Some row1) mi1 = Inl (Err mismatch)"
  by (rule batch_stale [OF assms])

theorem stale_transaction_rejected_witness:
  "\<exists>x row1 mi1 mismatch. execution_transaction_apply x (Some (demo_row 2 (St_SubmitStarted (AttemptId ''a''))))
      (inventory_new demo_ledger) = Inr (xt_outcomes x, Some row1, mi1)
    \<and> execution_transaction_apply x (Some row1) mi1 = Inl (Err mismatch)"
proof -
  let ?row = "demo_row 2 (St_SubmitStarted (AttemptId ''a''))" and ?mi = "inventory_new demo_ledger"
  let ?e = "demo_evidence ''f'' None"
  obtain x row1 where x: "prepare_execution_batch ?row ?mi (evidence_event ?e) [?e] = Inr x"
      "execution_transaction_apply x (Some ?row) ?mi = Inr (xt_outcomes x, Some row1, written x ?mi)"
      "applied_ids (row_ctx row1) = {FillId ''f''}"
    using demo_executed by blast
  have "row1 \<noteq> ?row" using x(3) by (auto simp: row_eval applied_ids_def)
  with execution_apply_written(4) [OF x(2) refl refl] have "writes_something x"
    by (auto simp: writes_something_def apply_to_target_def split: option.splits if_splits)
  moreover have "mi_generation ?mi < u64_max" "oc_seq (row_cursor ?row) \<le> u64_max"
    by (simp_all add: inventory_new_def demo_row_def u64_max_def)
  ultimately show ?thesis using stale_transaction_rejected [OF x(1,2)] x(2) by blast
qed

text \<open>
  The order API accounts nothing: an event accepted by \<open>prepare_order_event\<close> leaves the applied
  fills of the order and the attribution untouched and emits no accounting effect, so every execution
  goes through the batch layer.
\<close>

theorem order_event_accounts_nothing:
  assumes "prepare_order_event row ev = Inr ox" and "order_transaction_apply ox row = Inr row1"
  shows "account_ids (ox_effects ox) = [] \<and> applied_ids (row_ctx row1) = applied_ids (row_ctx row)
    \<and> attributed_fill_qty (row_ctx row1) = attributed_fill_qty (row_ctx row) + accounted_qty (ox_effects ox)"
  using order_event_step [OF assms] by (simp add: row_step_def booked_def)

theorem order_event_accounts_nothing_witness:
  "\<exists>ox. prepare_order_event (demo_row 0 St_New) Ev_PrepareSubmit = Inr ox
    \<and> account_ids (ox_effects ox) = []"
proof -
  obtain ox where "prepare_order_event (demo_row 0 St_New) Ev_PrepareSubmit = Inr ox"
      "order_transaction_apply ox (demo_row 0 St_New) = Inr (demo_row 1 St_SubmitPrepared)"
    using demo_prepare by blast
  with order_event_accounts_nothing [OF this] show ?thesis by blast
qed


section \<open>Machine ranges\<close>

text \<open>
  Every number the context of an order holds stays in its Rust type along every run of a fresh order,
  whatever the events carry: quantities, fees, epochs and domain totals in \<open>u64\<close>, notionals in
  \<open>u128\<close>.
\<close>

theorem run_stays_in_range:
  assumes "order_run St_New (order_ctx_new cid market strategy side price qty) st c es" and "qty \<le> u64_max"
  shows "in_range c"
  by (rule run_in_range [OF assms(1) new_in_range [OF assms(2)]])

theorem run_stays_in_range_witness:
  "in_range (order_ctx_new (ClientOrderId ''o'') ''m'' ''s'' BuyYes 50 10)"
  by (rule run_stays_in_range [OF order_run.start]) (simp add: u64_max_def)


section \<open>A conflict a foreign batch does not see\<close>

text \<open>
  In a batch prepared with a row of another ledger, two evidences of one known execution that
  contradict each other on the venue order both upgrade the entry, without a conflict: the first
  upgrade is not staged, so the second is judged against the entry before it. Whichever comes last is
  written.
\<close>

theorem foreign_conflict_missed:
  assumes "is_row_foreign row mi" and "inventory_get mi (ev_execution_id e) = Some p"
    and "ie_venue_order_id p = None" and "ev_side e = ie_side p" and "ev_qty e = ie_qty p"
    and "ev_price_cents e = ie_price_cents p" and "ev_fee_cents e = None" and "ie_qty p \<noteq> 0"
  shows "adjudicate_batch row mi
      [e\<lparr>ev_venue_order_id := Some v\<rparr>, e\<lparr>ev_venue_order_id := Some w\<rparr>] =
    ([], [(e\<lparr>ev_venue_order_id := Some v\<rparr>,
           PC_Refused (OD_Refused (foreign_refusal row mi)) ID_Upgraded
             (Some (p\<lparr>ie_venue_order_id := Some v\<rparr>)) None),
          (e\<lparr>ev_venue_order_id := Some w\<rparr>,
           PC_Refused (OD_Refused (foreign_refusal row mi)) ID_Upgraded
             (Some (p\<lparr>ie_venue_order_id := Some w\<rparr>)) None)])"
  using assms
  by (cases "ie_fee_cents p") (simp_all add: adjudicate_batch_def adjudicate_foreign_def core_hit_def fee_hit_def fee_conflict_def
      opt_holds_def opt_holds2_def disagree_ep_def core_disagree_qty_price_venue_def upgrade_entry_def
      fills_in_def or_else_def Let_def)

theorem foreign_conflict_missed_witness:
  "\<exists>first p. ie_venue_order_id p = Some (VenueOrderId ''v'')
    \<and> snd (adjudicate_batch (demo_row 2 St_New)
      (inventory_new (LedgerId (ExecutionScope ''x'') ''n'')
        \<lparr>mi_entries := [(FillId ''g'',
          staged_entry (staged_of (demo_evidence ''g'' None) 7 None None) None IP_NoRow)]\<rparr>)
      [demo_evidence ''g'' (Some (VenueOrderId ''v'')), demo_evidence ''g'' (Some (VenueOrderId ''w''))])
    = [(demo_evidence ''g'' (Some (VenueOrderId ''v'')), PC_Refused first ID_Upgraded (Some p) None),
       (demo_evidence ''g'' (Some (VenueOrderId ''w'')), PC_Refused first ID_Upgraded
          (Some (p\<lparr>ie_venue_order_id := Some (VenueOrderId ''w'')\<rparr>)) None)]"
proof -
  let ?e = "demo_evidence ''g'' None" and ?row = "demo_row 2 St_New"
  let ?p = "staged_entry (staged_of ?e 7 None None) None IP_NoRow"
  let ?mi = "inventory_new (LedgerId (ExecutionScope ''x'') ''n'')\<lparr>mi_entries := [(FillId ''g'', ?p)]\<rparr>"
  have foreign: "is_row_foreign ?row ?mi"
    by (simp add: is_row_foreign_def row_eval inventory_new_def)
  have known: "inventory_get ?mi (ev_execution_id ?e) = Some ?p"
    by (simp add: inventory_get_def demo_evidence_def)
  have p: "ie_venue_order_id ?p = None" "ev_side ?e = ie_side ?p" "ev_qty ?e = ie_qty ?p"
    "ev_price_cents ?e = ie_price_cents ?p" "ev_fee_cents ?e = None" "ie_qty ?p \<noteq> 0"
    by (simp_all add: staged_entry_def staged_of_def demo_evidence_def)
  have e: "?e\<lparr>ev_venue_order_id := w\<rparr> = demo_evidence ''g'' w" for w
    by (simp add: demo_evidence_def)
  have twice: "q\<lparr>ie_venue_order_id := a, ie_venue_order_id := b\<rparr> = q\<lparr>ie_venue_order_id := b\<rparr>"
    and venue: "ie_venue_order_id (q\<lparr>ie_venue_order_id := a\<rparr>) = a"
    for q :: inventory_entry and a b by simp_all
  note missed = foreign_conflict_missed [OF foreign known p, of "VenueOrderId ''v''" "VenueOrderId ''w''",
    unfolded e]
  show ?thesis
    by (rule exI [of _ "OD_Refused (foreign_refusal ?row ?mi)"],
        rule exI [of _ "?p\<lparr>ie_venue_order_id := Some (VenueOrderId ''v'')\<rparr>"])
      (simp only: missed twice venue snd_conv simp_thms)
qed

end
