(* ===== verification/Observation_Progress.thy ===== *)
theory Observation_Progress
  imports Registry_Run Release_Safety
begin

text \<open>
  What a round achieves: a finished round applies on the state it judged, a clean exhaustive round
  makes the remaining quantity known, and an observation releases a reservation only with the evidence
  the terminal choke point asks for. A hold placed while a round is in flight is lost.
\<close>

section \<open>A finished round applies\<close>

lemma find_prepared:
  "distinct (map row_cid rows) \<Longrightarrow> t \<in> set rows \<Longrightarrow>
    find (\<lambda>p. pm_cid p = row_cid t) (map prepared_of rows) = Some (prepared_of t)"
  by (induction rows) (auto simp: prepared_of_def)

lemma check_targets_none:
  assumes "bx_prepared_members x = map prepared_of rows" and "distinct (map row_cid rows)"
    and "set ts \<subseteq> set rows"
  shows "check_targets x found ts = None"
  using assms(3)
proof (induction ts)
  case (Cons t ts)
  then have "find (\<lambda>p. pm_cid p = row_cid t) (bx_prepared_members x) = Some (prepared_of t)"
    using find_prepared [OF assms(2)] assms(1) by simp
  with Cons show ?case by (simp add: prepared_of_def)
qed simp

lemma observation_applies_on:
  assumes fin: "round_finish rd reg mi rows row = Inr x"
    and same: "ws_generation (wire_or_new reg1 (rd_ledger rd) (rd_wire rd))
      = ws_generation (wire_or_new reg (rd_ledger rd) (rd_wire rd))"
  shows "observation_apply x rows reg1 mi = Inr (bx_outcome x, map (moved_row (bx_members_after x)) rows,
    put_wire (rd_ledger rd) (rd_wire rd) (bx_wire_after x) reg1)"
proof -
  define ws where "ws = wire_or_new reg (rd_ledger rd) (rd_wire rd)"
  note shape = finish_shape [OF fin, folded ws_def]
  note distinct = members_valid(1) [OF shape(2)]
  have fields: "bx_prepared_members x = map prepared_of rows" "bx_prepared_cids x = map row_cid rows"
    "bx_expected_inventory_generation x = mi_generation mi" "bx_expected_wire_generation x = ws_generation ws"
    by (simp_all add: shape(1) round_transaction_def prepared_of_def comp_def Let_def)
  have "(case registry_wire reg1 (rd_ledger rd) (rd_wire rd) of Some ws \<Rightarrow> ws_generation ws | None \<Rightarrow> 0)
      = ws_generation (wire_or_new reg1 (rd_ledger rd) (rd_wire rd))"
    by (simp add: wire_or_new_def venue_only_wire_def split: option.split)
  then have "(case registry_wire reg1 (rd_ledger rd) (rd_wire rd) of Some ws \<Rightarrow> ws_generation ws | None \<Rightarrow> 0)
      = ws_generation ws" by (simp add: same ws_def)
  with check_targets_none [OF fields(1) distinct subset_refl] distinct fields show ?thesis
    by (simp add: observation_apply_def Let_def shape(1) round_fields)
qed

lemmas observation_applies = observation_applies_on [OF _ refl]

text \<open>The members of a round are valid when they are the wire's members and rows of its market.\<close>

lemma scan_members_ok:
  "distinct (map row_cid rows) \<Longrightarrow> row_cid ` set rows \<inter> set seen = {} \<Longrightarrow>
    row_cid ` set rows \<subseteq> set expected \<Longrightarrow>
    (\<And>r. r \<in> set rows \<Longrightarrow> row_ledger r = ledger \<and> market_of (row_ctx r) = ledger_market ledger) \<Longrightarrow>
    scan_members ledger expected rows seen = ([], [], [])"
  by (induction rows arbitrary: seen) (auto simp: Let_def)

lemma members_ok:
  assumes "map row_cid rows = expected" and "distinct expected"
    and "\<And>r. r \<in> set rows \<Longrightarrow> row_ledger r = ledger \<and> market_of (row_ctx r) = ledger_market ledger"
  shows "members_error ledger expected rows = None"
proof -
  have "scan_members ledger expected rows [] = ([], [], [])"
    by (rule scan_members_ok) (use assms in auto)
  with assms(1) show ?thesis by (auto simp: members_error_def Let_def filter_empty_conv)
qed


section \<open>A clean round\<close>

definition clean_round ::
  "observation_round \<Rightarrow> wire_state \<Rightarrow> market_inventory \<Rightarrow> row_evidence \<Rightarrow> bool" where
  "clean_round rd ws mi row =
     (list_all (\<lambda>out. \<not> is_conflict (eo_inventory out) \<and> eo_conflict out = None) (rd_outcomes rd)
      \<and> (\<exists>p. rd_page rd = Some p \<and> pm_exhaustive p \<and> pm_parse_failures p = 0)
      \<and> page_ids (rd_outcomes rd) = ws_held ws
      \<and> re_filled row = held_sum mi 0 (ws_held ws) \<and> ws_filled_hw ws \<le> re_filled row
      \<and> ws_generation ws = 0 \<and> re_marker row = WireMarker 0)"

lemma clean_outcome:
  assumes "clean_round rd ws mi row" shows "round_outcome rd ws mi row = OO_Consistent True"
proof -
  have "\<not> list_ex (\<lambda>out. is_conflict (eo_inventory out) \<or> eo_conflict out \<noteq> None) (rd_outcomes rd)"
    using assms by (auto simp: clean_round_def list_all_iff list_ex_iff)
  with assms show ?thesis by (auto simp: round_outcome_def judge_round_def clean_round_def Let_def)
qed

lemma consistent_working:
  assumes "ws_generation ws = 0"
  shows "wire_working (observed_wire ws hw row (OO_Consistent True) pending moved)
    = WV_Known (re_remaining row)"
  using assms by (simp add: wire_working_def observed_wire_def Let_def)

lemma apart_members:
  assumes "ledger_run ledger s" and "registry_wire (lg_registry s) ledger wire = Some ws"
  shows "distinct (map mb_cid (ws_members ws)) \<and> length (currents (ws_members ws)) \<le> 1"
  using apart.run [OF assms(1)] assms(2) by (auto simp: apart.holds_on_def wire_apart_def)

lemma clean_view:
  assumes run: "ledger_run ledger s" and wire: "registry_wire (lg_registry s) ledger wire = Some ws"
    and rd: "rd_ledger rd = ledger" "rd_wire rd = wire" and row: "re_ledger row = ledger" "re_wire row = wire"
    and clean: "clean_round rd ws (lg_inventory s) row"
    and cids: "map row_cid rows = non_terminal_cids ws"
    and rows: "\<forall>r \<in> set rows. lg_rows s (row_cid r) = Some r"
  shows "\<exists>x rows1 reg1. round_finish rd (lg_registry s) (lg_inventory s) rows row = Inr x
    \<and> observation_apply x rows (lg_registry s) (lg_inventory s) = Inr (OO_Consistent True, rows1, reg1)
    \<and> working_view_of reg1 ledger wire = WV_Known (re_remaining row)"
proof -
  have ws: "wire_or_new (lg_registry s) ledger wire = ws" by (simp add: wire_or_new_def wire)
  have "distinct (non_terminal_cids ws)"
    using apart_members [OF run wire] by (simp add: non_terminal_cids_def distinct_map_filter)
  moreover have "row_ledger r = ledger \<and> market_of (row_ctx r) = ledger_market ledger" if "r \<in> set rows" for r
    using ledger_run_inv [OF run] bspec [OF rows that] by (auto simp: ledger_inv_def rows_ok_def)
  ultimately have "members_error ledger (non_terminal_cids ws) rows = None"
    by (intro members_ok [OF cids])
  then have fin: "round_finish rd (lg_registry s) (lg_inventory s) rows row
      = Inr (round_transaction rd ws (lg_inventory s) rows row)"
    by (simp add: round_finish_def rd row ws Let_def)
  have "ws_generation ws = 0" using clean by (simp add: clean_round_def)
  with observation_applies [OF fin] fin show ?thesis
    by (simp add: round_fields rd clean_outcome [OF clean] working_view_of_def round_wire_after
        consistent_working)
qed


section \<open>Releases\<close>

lemma released_terminal:
  assumes "settled (c, t)" and "ReleaseReservation \<in> set (outcome_effects t)"
  shows "\<exists>st es. t = Accept st es \<and> releases_with c st es"
proof -
  have plain: "\<not> plain ReleaseReservation" by simp
  have tail: "x \<in> set es \<Longrightarrow> ends_with es a b \<Longrightarrow> x = a \<or> x = b \<or> plain x" for x a b es
  proof -
    assume x: "x \<in> set es" "ends_with es a b"
    then have "x \<in> set (take (length es - 2) es @ drop (length es - 2) es)" by simp
    with x(2) show ?thesis by (auto simp only: ends_with_def list_all_iff set_append) auto
  qed
  show ?thesis
  proof (cases t)
    case (Accept st es)
    with assms show ?thesis by (auto simp: list_all_iff split: if_splits)
  next
    case (Halt st r es)
    with assms have h: "halts_with st r c es" "ReleaseReservation \<in> set es" by simp_all
    then show ?thesis using tail [OF h(2)] plain by (auto simp: halts_with_def split: if_splits)
  qed (use assms in simp)
qed

lemma observed_release:
  assumes obs: "observe_member ws wire hw row outcome r = (st, c, es)" and rel: "ReleaseReservation \<in> set es"
  shows "is_consistent outcome \<and> releases_with c st es"
proof -
  have halts: "ReleaseReservation \<notin> set (outcome_effects (halt_with_reason reason []))" for reason
    by (simp add: halt_with_reason_def)
  have fin: "releases_with c (state_after_transition (try_finalize_terminal c p v [] fb) st0)
      (e # outcome_effects (try_finalize_terminal c p v [] fb))"
    if rel1: "ReleaseReservation \<in> set (outcome_effects (try_finalize_terminal c p v [] fb))" and pl: "plain e"
    for c p v fb st0 e
  proof -
    obtain st es where "try_finalize_terminal c p v [] fb = Accept st es" "releases_with c st es"
      using released_terminal [OF finalize_settled, of "[]" c p v fb] rel1 by auto
    with pl ends_with_prepend [of "[e]" es] show ?thesis
      by (auto simp: releases_with_def split: option.splits)
  qed
  show ?thesis
    using obs rel
    by (auto simp: observe_member_def observe_unproved_def observe_consistent_def with_transition_def
        is_consistent_def Let_def halts fin
        split: if_splits observation_outcome.splits sum.splits backfill_order_status.splits)
qed

end
