(* ===== verification/Observation_Demo.thy ===== *)
theory Observation_Demo
  imports Ledger_Demo Observation_Progress
begin

text \<open>
  A venue-only wire for the witnesses: an execution arrives without an order, the wire of its venue
  order holds it, and a clean round makes the remaining six contracts known.
\<close>

definition demo_wire :: venue_order_id where "demo_wire = VenueOrderId ''v''"

definition demo_frame :: "u64 \<Rightarrow> u64 \<Rightarrow> row_evidence" where
  "demo_frame filled remaining =
     \<lparr>re_ledger = demo_ledger, re_wire = demo_wire, re_status = BS_Open, re_filled = filled,
      re_remaining = remaining, re_client_order_id = None, re_marker = WireMarker 0\<rparr>"

definition demo_round :: "execution_outcome list \<Rightarrow> observation_round" where
  "demo_round outs =
     \<lparr>rd_ledger = demo_ledger, rd_wire = demo_wire, rd_outcomes = outs,
      rd_page = Some \<lparr>pm_exhaustive = True, pm_parse_failures = 0\<rparr>\<rparr>"

definition demo_entry :: inventory_entry where
  "demo_entry =
     \<lparr>ie_side = BuyYes, ie_qty = 4, ie_price_cents = 50, ie_first_seen_ts_ns = 7,
      ie_venue_order_id = Some demo_wire, ie_claimed_client_order_id = None, ie_owner = None,
      ie_fee_cents = None, ie_source = WsFill, ie_provenance = IP_NoRow\<rparr>"

definition demo_outcome :: execution_outcome where
  "demo_outcome =
     outcome_with (demo_evidence ''g'' (Some demo_wire)) OD_NoRow (ID_Ingested IP_NoRow) (Some demo_entry) None"

definition demo_held_wire :: wire_state where
  "demo_held_wire = venue_only_wire\<lparr>ws_held := [FillId ''g'']\<rparr>"

lemma demo_norow:
  "prepare_execution None (inventory_new demo_ledger) (demo_evidence ''g'' (Some demo_wire)) =
    Inr (norow_transaction (inventory_new demo_ledger) [demo_outcome] [(FillId ''g'', demo_entry)] [])"
  by (simp add: prepare_execution_def prepare_execution_norow_def norow_outcome_def inventory_get_def
      inventory_new_def demo_outcome_def demo_entry_def evidence_ledger_def demo_evidence_def
      demo_ledger_def put_planned_def Let_def)

lemma demo_folds:
  "\<exists>reg. registry_fold_all 0 [J_ExecutionTxn (ExecutionTxnRecord demo_ledger 0 [demo_outcome] None)] registry_new
      = Inr reg \<and> registry_wire reg demo_ledger demo_wire = Some demo_held_wire"
  by (simp add: fold_execution_def index_execution_def demo_outcome_def outcome_with_def demo_entry_def
      registry_new_def ensure_wire_def wire_or_new_def registry_wire_def put_wire_def hold_execution_def
      venue_only_wire_def demo_held_wire_def asc_insert_def demo_evidence_def or_else_def Let_def)

lemma demo_held:
  "\<exists>s :: ledger_state. ledger_run demo_ledger s \<and> lg_inventory s =
      (inventory_new demo_ledger)\<lparr>mi_generation := 1, mi_entries := [(FillId ''g'', demo_entry)]\<rparr>
    \<and> registry_wire (lg_registry s) demo_ledger demo_wire = Some demo_held_wire"
proof -
  let ?s = "ledger_start demo_ledger" and ?mi = "inventory_new demo_ledger"
  let ?x = "norow_transaction ?mi [demo_outcome] [(FillId ''g'', demo_entry)] []"
  have prep: "prepare_execution None (lg_inventory ?s) (demo_evidence ''g'' (Some demo_wire)) = Inr ?x"
    using demo_norow by (simp add: ledger_start_def)
  have jr: "xt_journal ?x = Some (J_ExecutionTxn (ExecutionTxnRecord demo_ledger 0 [demo_outcome] None))"
    by (simp add: norow_transaction_def demo_outcome_def outcome_with_def inventory_new_def)
  obtain reg where reg: "registry_fold_all 0 [J_ExecutionTxn (ExecutionTxnRecord demo_ledger 0 [demo_outcome] None)]
      registry_new = Inr reg" "registry_wire reg demo_ledger demo_wire = Some demo_held_wire"
    using demo_folds by blast
  have folds: "folds_to ?s (opt_list (xt_journal ?x)) reg"
    using reg(1) by (simp add: jr ledger_start_def)
  have written: "written ?x ?mi = ?mi\<lparr>mi_generation := 1, mi_entries := [(FillId ''g'', demo_entry)]\<rparr>"
    by (simp add: written_def norow_transaction_def inventory_new_def sat_add_u64_def u64_max_def)
  note step = ledger_run.rowless [OF ledger_run.start prep rowless_applies [OF prep] folds]
  show ?thesis
    by (rule exI, rule conjI [OF step]) (simp add: reg(2) written, simp add: ledger_start_def written)
qed

lemma demo_clean:
  "clean_round (demo_round [demo_outcome]) demo_held_wire
    ((inventory_new demo_ledger)\<lparr>mi_generation := 1, mi_entries := [(FillId ''g'', demo_entry)]\<rparr>)
    (demo_frame 4 6)"
  by (simp add: clean_round_def demo_round_def demo_frame_def demo_held_wire_def venue_only_wire_def
      demo_outcome_def outcome_with_def demo_evidence_def asc_insert_def inventory_get_def demo_entry_def
      sat_add_u64_def u64_max_def)

text \<open>After the clean round.\<close>

lemma demo_known:
  "\<exists>s :: ledger_state. ledger_run demo_ledger s \<and> working_view_of (lg_registry s) demo_ledger demo_wire = WV_Known 6
    \<and> inventory_get (lg_inventory s) (FillId ''g'') = Some demo_entry"
proof -
  obtain s :: ledger_state where s: "ledger_run demo_ledger s" "lg_inventory s =
      (inventory_new demo_ledger)\<lparr>mi_generation := 1, mi_entries := [(FillId ''g'', demo_entry)]\<rparr>"
      "registry_wire (lg_registry s) demo_ledger demo_wire = Some demo_held_wire"
    using demo_held by blast
  have clean: "clean_round (demo_round [demo_outcome]) demo_held_wire (lg_inventory s) (demo_frame 4 6)"
    unfolding s(2) by (rule demo_clean)
  have "map row_cid [] = non_terminal_cids demo_held_wire"
    by (simp add: non_terminal_cids_def demo_held_wire_def venue_only_wire_def)
  from clean_view [OF s(1,3) _ _ _ _ clean this]
  obtain x rows1 reg1 where x: "round_finish (demo_round [demo_outcome]) (lg_registry s) (lg_inventory s) [] (demo_frame 4 6) = Inr x"
      "observation_apply x [] (lg_registry s) (lg_inventory s) = Inr (OO_Consistent True, rows1, reg1)"
      "working_view_of reg1 demo_ledger demo_wire = WV_Known 6"
    by (auto simp: demo_round_def demo_frame_def)
  have "rd_ledger (demo_round [demo_outcome]) = demo_ledger" by (simp add: demo_round_def)
  note step = ledger_run.observe [OF s(1) this _ x(1,2)]
  show ?thesis
    by (rule exI, rule conjI [OF step]) (simp, simp add: x(3) s(2) inventory_get_def)
qed

text \<open>A wire with one resting order, which the venue reports cancelled without a fill.\<close>

definition demo_resting :: order_row where
  "demo_resting =
     demo_row 3 (St_Accepted demo_wire)
       \<lparr>row_ctx := (row_ctx (demo_row 3 St_New))\<lparr>venue_order_id_of := Some demo_wire\<rparr>\<rparr>"

definition demo_registry :: wire_registry where
  "demo_registry =
     put_wire demo_ledger demo_wire
       (venue_only_wire\<lparr>ws_kind := WK_Scoped,
          ws_members := [\<lparr>mb_cid = demo_order, mb_role = MR_Current, mb_bind_pos = 0\<rparr>]\<rparr>) registry_new"

lemma demo_cancel:
  "\<exists>x. round_finish (demo_round []) demo_registry (inventory_new demo_ledger) [demo_resting]
      ((demo_frame 0 0)\<lparr>re_status := BS_Canceled\<rparr>) = Inr x
    \<and> ReleaseReservation \<in> set (bx_effects x)"
  by (simp add: round_finish_def demo_round_def demo_frame_def demo_registry_def demo_resting_def row_eval
      registry_new_def registry_wire_def put_wire_def wire_or_new_def venue_only_wire_def members_error_def
      non_terminal_cids_def round_transaction_def round_outcome_def judge_round_def observe_member_def
      observe_consistent_def current_cid_def current_member_def or_else_def latch_authority_complete_def
      try_finalize_terminal_def ownership_gate_def authority_is_fresh_def response_domain_gate_def
      release_terminal_def with_transition_def Let_def, force)

end
