(* ===== verification/Observation_Properties.thy ===== *)
theory Observation_Properties
  imports Observation_Demo
begin

text \<open>
  The properties of the observation layer, over the same runs: the wire registry follows the journal,
  what it reports as the working quantity of a venue order is backed by an observation that counted
  every execution known, and observations release reservations only with evidence.
\<close>

section \<open>The registry along a run\<close>

text \<open>
  C24. Rebuilding the wire registry from the journal of a ledger gives exactly the registry in
  memory, in which order events, executions, observations, proofs and notes of the shell have been
  applied in any interleaving.
\<close>

theorem registry_rebuild_exact:
  assumes "ledger_run ledger s"
  shows "registry_rebuild (lg_journal s) = Inr (lg_registry s)"
  using rebuilt_run [OF assms] by simp

theorem registry_rebuild_exact_witness:
  "\<exists>s :: ledger_state. registry_rebuild (lg_journal s) = Inr (lg_registry s)
    \<and> working_view_of (lg_registry s) demo_ledger demo_wire = WV_Known 6"
  using demo_known registry_rebuild_exact by blast

text \<open>
  C25. The registry never refuses a record of its ledger: whatever an order event, a batch or a piece
  of evidence without a row prepared and applied on the current rows folds into the registry.
\<close>

theorem prepared_records_fold:
  assumes "ledger_run ledger s" and "length (lg_journal s) < u64_max" and "lg_rows s cid = Some row"
  shows "(prepare_order_event row ev = Inr ox \<and> order_transaction_apply ox row = Inr row1 \<longrightarrow>
      (\<exists>reg. folds_to s (opt_list (ox_journal ox)) reg))
    \<and> (prepare_execution_batch row (lg_inventory s) ev evs = Inr x
        \<and> execution_transaction_apply x (Some row) (lg_inventory s) = Inr (outs, Some row1, mi1) \<longrightarrow>
      (\<exists>reg. folds_to s (opt_list (xt_journal x)) reg))"
  using order_event_folds [OF assms(1,3,2)] batch_folds [OF assms(1,3,2)] by blast

theorem prepared_records_fold_witness:
  "\<exists>(s :: ledger_state) row ox. prepare_order_event row (Ev_StartSubmit (AttemptId ''b'')) = Inr ox
    \<and> lg_rows s demo_order = Some row \<and> (\<exists>reg. folds_to s (opt_list (ox_journal ox)) reg)"
proof -
  obtain s :: ledger_state where s: "ledger_run demo_ledger s" "length (lg_journal s) \<le> 2"
      "lg_rows s demo_order = Some (demo_row 2 (St_SubmitStarted (AttemptId ''a'')))"
    using demo_started by blast
  let ?row = "demo_row 2 (St_SubmitStarted (AttemptId ''a''))" and ?ev = "Ev_StartSubmit (AttemptId ''b'')"
  have short: "length (lg_journal s) < u64_max" using s(2) by (simp add: u64_max_def)
  have "\<exists>ox. prepare_order_event ?row ?ev = Inr ox \<and> order_transaction_apply ox ?row = Inr ?row"
    by (simp add: row_eval on_submit_started_def reject_illegal_def order_transaction_apply_def
        unchanged_txn_def)
  then obtain ox where ox: "prepare_order_event ?row ?ev = Inr ox" "order_transaction_apply ox ?row = Inr ?row"
    by blast
  from prepared_records_fold [OF s(1) short s(3), of ?ev ox] ox s(3) show ?thesis by blast
qed

text \<open>
  C26. The members of a wire are distinct orders and at most one of them is current.
\<close>

theorem wire_members_apart:
  assumes "ledger_run ledger s" and "registry_wire (lg_registry s) ledger wire = Some ws"
  shows "distinct (map mb_cid (ws_members ws))
    \<and> length (filter (\<lambda>m. mb_role m = MR_Current) (ws_members ws)) \<le> 1"
  using apart_members [OF assms] by (simp add: currents_def)

theorem wire_members_apart_witness:
  "length (filter (\<lambda>m. mb_role m = MR_Current) (ws_members demo_held_wire)) \<le> 1"
  using demo_held wire_members_apart by blast


section \<open>What is known of the remaining quantity\<close>

text \<open>
  C27. Nothing is counted twice or missed: when the registry reports a remaining quantity as known, it
  stems from an observation that covered every execution the inventory places on that venue order.
\<close>

theorem known_counts_everything:
  assumes "ledger_run ledger s" and "working_view_of (lg_registry s) ledger wire = WV_Known r"
    and "inventory_get (lg_inventory s) fid = Some e" and "ie_venue_order_id e = Some wire"
  shows "\<exists>ws obs. registry_wire (lg_registry s) ledger wire = Some ws
    \<and> ws_remaining_observation ws = Some obs \<and> ro_remaining obs = r \<and> fid \<in> set (ro_covered obs)"
  by (rule known_covers [OF assms])

theorem known_counts_everything_witness:
  "\<exists>(ws :: wire_state) (obs :: remaining_observation). ws_remaining_observation ws = Some obs
    \<and> ro_remaining obs = 6
    \<and> FillId ''g'' \<in> set (ro_covered obs)"
proof -
  obtain s :: ledger_state where s: "ledger_run demo_ledger s"
      "working_view_of (lg_registry s) demo_ledger demo_wire = WV_Known 6"
      "inventory_get (lg_inventory s) (FillId ''g'') = Some demo_entry" using demo_known by blast
  have "ie_venue_order_id demo_entry = Some demo_wire" by (simp add: demo_entry_def)
  from known_counts_everything [OF s this] show ?thesis by blast
qed

text \<open>
  C28. A clean round makes the remaining quantity known: no conflict, an exhaustive page listing
  exactly the held executions, the venue's filled quantity equal to theirs and not below the high-water
  mark, no own action on the order, and the rows of the open members. Then the round finishes, applies
  and the view is the venue's remaining quantity, even under an authority hold.
\<close>

theorem clean_round_restores_view:
  assumes "ledger_run ledger s" and "registry_wire (lg_registry s) ledger wire = Some ws"
    and "rd_ledger rd = ledger" and "rd_wire rd = wire" and "re_ledger row = ledger" and "re_wire row = wire"
    and "clean_round rd ws (lg_inventory s) row"
    and "map row_cid rows = non_terminal_cids ws" and "\<forall>r \<in> set rows. lg_rows s (row_cid r) = Some r"
  shows "\<exists>x rows1 reg1. round_finish rd (lg_registry s) (lg_inventory s) rows row = Inr x
    \<and> observation_apply x rows (lg_registry s) (lg_inventory s) = Inr (OO_Consistent True, rows1, reg1)
    \<and> working_view_of reg1 ledger wire = WV_Known (re_remaining row)"
  by (rule clean_view [OF assms])

theorem clean_round_restores_view_witness:
  "\<exists>(s :: ledger_state) x rows1 reg1.
    round_finish (demo_round [demo_outcome]) (lg_registry s) (lg_inventory s) [] (demo_frame 4 6) = Inr x
    \<and> observation_apply x [] (lg_registry s) (lg_inventory s) = Inr (OO_Consistent True, rows1, reg1)
    \<and> working_view_of reg1 demo_ledger demo_wire = WV_Known 6"
proof -
  obtain s :: ledger_state where s: "ledger_run demo_ledger s" "lg_inventory s =
      (inventory_new demo_ledger)\<lparr>mi_generation := 1, mi_entries := [(FillId ''g'', demo_entry)]\<rparr>"
      "registry_wire (lg_registry s) demo_ledger demo_wire = Some demo_held_wire"
    using demo_held by blast
  have fields: "rd_ledger (demo_round [demo_outcome]) = demo_ledger" "rd_wire (demo_round [demo_outcome]) = demo_wire"
    "re_ledger (demo_frame 4 6) = demo_ledger" "re_wire (demo_frame 4 6) = demo_wire"
    "re_remaining (demo_frame 4 6) = 6" by (simp_all add: demo_round_def demo_frame_def)
  have clean: "clean_round (demo_round [demo_outcome]) demo_held_wire (lg_inventory s) (demo_frame 4 6)"
    unfolding s(2) by (rule demo_clean)
  have "map row_cid [] = non_terminal_cids demo_held_wire"
    by (simp add: non_terminal_cids_def demo_held_wire_def venue_only_wire_def)
  from clean_round_restores_view [OF s(1,3) fields(1-4) clean this] fields(5) show ?thesis by force
qed


section \<open>Releases and holds\<close>

text \<open>
  C29. An observation releases a reservation only with evidence: the judgement was consistent, the
  transaction applies, and some member is terminal afterwards with fresh authority, attribution equal
  to the obligation, every fill of the bound venue order and a closed response domain.
\<close>

theorem observation_releases_with_evidence:
  assumes "round_finish rd reg mi rows row = Inr x" and "ReleaseReservation \<in> set (bx_effects x)"
  shows "\<exists>fresh rows1 reg1. observation_apply x rows reg mi = Inr (OO_Consistent fresh, rows1, reg1)
    \<and> (\<exists>r \<in> set rows1. terminal_kind_of (row_state r) \<noteq> None
        \<and> terminal_evidence (row_ctx r) (row_state r))"
proof -
  define ws where "ws = wire_or_new reg (rd_ledger rd) (rd_wire rd)"
  note shape = finish_shape [OF assms(1), folded ws_def]
  from assms(2) obtain r where r: "r \<in> set rows" "ReleaseReservation \<in> set (snd (snd (judged rd ws mi row r)))"
    by (auto simp: shape(1) round_effects)
  obtain st c es where judged: "judged rd ws mi row r = (st, c, es)" by (metis prod_cases3)
  from observed_release [OF judged] r(2) judged have rel: "is_consistent (round_outcome rd ws mi row)"
      "releases_with c st es" by auto
  have "judged_row rd ws mi row r \<in> set (map (moved_row (bx_members_after x)) rows)"
    unfolding shape(1) moved_rows [OF members_valid(1) [OF shape(2)]] using r(1) by simp
  moreover have "terminal_kind_of st \<noteq> None \<and> terminal_evidence c st"
    using rel(2) by (auto simp: releases_with_def split: option.splits)
  moreover obtain fresh where "bx_outcome x = OO_Consistent fresh"
    using rel(1) by (auto simp: shape(1) round_fields is_consistent_def split: observation_outcome.splits)
  ultimately show ?thesis
    using observation_applies [OF assms(1)] member_result_fields [OF judged] by metis
qed

theorem observation_releases_with_evidence_witness:
  "\<exists>x fresh rows1 reg1.
    observation_apply x [demo_resting] demo_registry (inventory_new demo_ledger)
      = Inr (OO_Consistent fresh, rows1, reg1)
    \<and> (\<exists>r \<in> set rows1. terminal_kind_of (row_state r) \<noteq> None
        \<and> terminal_evidence (row_ctx r) (row_state r))"
  using demo_cancel observation_releases_with_evidence by blast

text \<open>
  C30. A hold placed on a wire between finishing a round and applying it is lost: the transaction still
  applies, and the wire is without the hold and its revision, whatever the round found.
\<close>

theorem hold_in_flight_lost:
  assumes "round_finish rd reg mi rows row = Inr x"
    and "\<not> ws_authority_hold (wire_or_new reg (rd_ledger rd) (rd_wire rd))"
    and "registry_fold pos (J_OrderAuthorityHold (rd_ledger rd) (rd_wire rd)) reg = Inr reg1"
  shows "\<exists>rows1 reg2 ws2. observation_apply x rows reg1 mi = Inr (bx_outcome x, rows1, reg2)
    \<and> registry_wire reg2 (rd_ledger rd) (rd_wire rd) = Some ws2 \<and> \<not> ws_authority_hold ws2
    \<and> ws_authority_hold_revision ws2
      = ws_authority_hold_revision (wire_or_new reg (rd_ledger rd) (rd_wire rd))"
proof -
  define ws where "ws = wire_or_new reg (rd_ledger rd) (rd_wire rd)"
  note shape = finish_shape [OF assms(1), folded ws_def]
  have after: "\<not> ws_authority_hold (bx_wire_after x)"
    "ws_authority_hold_revision (bx_wire_after x) = ws_authority_hold_revision ws"
    using assms(2) by (simp_all add: shape(1) round_wire_after observed_wire_def ws_def Let_def)
  have "ws_generation (wire_or_new reg1 (rd_ledger rd) (rd_wire rd)) = ws_generation ws"
    using assms(3) by (auto simp: ensure_wire_def wire_or_new_def ws_def)
  from observation_applies_on [OF assms(1) this [unfolded ws_def]] show ?thesis using after by (simp add: ws_def)
qed

theorem hold_in_flight_lost_witness:
  "\<exists>x reg1 rows1 reg2 ws2. round_finish (demo_round []) registry_new (inventory_new demo_ledger) []
      (demo_frame 0 6) = Inr x
    \<and> registry_fold 0 (J_OrderAuthorityHold demo_ledger demo_wire) registry_new = Inr reg1
    \<and> observation_apply x [] reg1 (inventory_new demo_ledger) = Inr (bx_outcome x, rows1, reg2)
    \<and> registry_wire reg2 demo_ledger demo_wire = Some ws2 \<and> \<not> ws_authority_hold ws2"
proof -
  have rd: "rd_ledger (demo_round []) = demo_ledger" "rd_wire (demo_round []) = demo_wire"
    by (simp_all add: demo_round_def)
  have "\<exists>x. round_finish (demo_round []) registry_new (inventory_new demo_ledger) [] (demo_frame 0 6) = Inr x"
    by (simp add: round_finish_def demo_round_def demo_frame_def members_error_def non_terminal_cids_def
        wire_or_new_def registry_wire_def registry_new_def venue_only_wire_def Let_def)
  then obtain x where x: "round_finish (demo_round []) registry_new (inventory_new demo_ledger) []
      (demo_frame 0 6) = Inr x" by blast
  have free: "\<not> ws_authority_hold (wire_or_new registry_new (rd_ledger (demo_round [])) (rd_wire (demo_round [])))"
    by (simp add: wire_or_new_def registry_wire_def registry_new_def venue_only_wire_def)
  obtain reg1 where reg1: "registry_fold 0 (J_OrderAuthorityHold demo_ledger demo_wire) registry_new = Inr reg1"
    by simp
  from hold_in_flight_lost [OF x free, of 0 reg1] reg1 x show ?thesis unfolding rd by blast
qed

end
