(* ===== verification/Spec2Isabelle.thy ===== *)
theory Spec2Isabelle
  imports Parity_Properties Monotone Accounting Reservation Fold_Replay Fill_Laws Submission_Laws
    Bound_Identity Terminal_Totals Domain_Run Ledger_Properties Observation_Properties
begin

text \<open>
  A verification development for the crate \<^verbatim>\<open>omsrs\<close>, an order management core in Rust. The
  crate's centre is a pure per-order state machine, \<^verbatim>\<open>apply_event\<close> in
  \<^verbatim>\<open>src/lifecycle.rs\<close>: it takes the state of one order, its context and an event, and gives the
  next state, the mutated context and a list of effects (durable records to append, accounting to
  perform, backfill to request, reservation to release or take back) that a shell executes. A crashed
  shell rebuilds the context by folding the durable records (\<^verbatim>\<open>rebuild_ctx_from_journal\<close>).

  \<^bold>\<open>The model.\<close> One theory per part, in the order of the code.

  \<^item> \<open>Prelude\<close>: \<open>u64\<close> and \<open>u128\<close> as naturals with every checked, saturating and truncating
    operation of the code written out, decimal rendering, and \<open>BTreeMap\<close> as an association list in key
    order behind the locale \<open>ordered_map\<close>.
  \<^item> \<open>Identifiers\<close>, \<open>Lifecycle_Types\<close>, \<open>Journal_Types\<close>: the string newtypes with their derived order,
    the states, events, reasons, the order context \<open>order_ctx\<close>, the journal records with the data of
    \<^verbatim>\<open>src/execution.rs\<close> and \<^verbatim>\<open>src/observation.rs\<close> they can carry, effects and outcomes.
  \<^item> \<open>Order_Ctx\<close>: the mutations of the context: obligation high-water mark, generation-scoped
    authority latch, parent venue binding, response-snapshot domain, and the booking of a fill
    (\<open>account_fill_core\<close>: ownership gate, re-delivery and enrichment, new fill, live or fold mode).
  \<^item> \<open>Finalize\<close>: the choke point \<open>try_finalize_terminal\<close> with its gates, and the halt helpers.
  \<^item> \<open>Lifecycle\<close>, \<open>Reconcile\<close>, \<open>Apply_Event\<close>: submit responses, immediate fills, fills while open,
    unknown submissions, routing by venue status, cancel outcomes, frozen states, and the match of
    \<open>apply_event\<close> as one function per group of states.
  \<^item> \<open>Journal_Rebuild\<close>: \<open>rebuild_ctx_from_journal\<close> and \<open>replay\<close>.
  \<^item> \<open>Market_Inventory\<close>, \<open>Execution_Txn\<close>, \<open>Execution_Batch\<close>, \<open>Execution_Prepare\<close>: the batch layer of
    \<^verbatim>\<open>src/execution.rs\<close>: the market-wide inventory of executions with its rebuild, order
    transactions (\<open>prepare_order_event\<close>), the adjudication of execution evidence against what the
    inventory, the row and the batch itself know, with and without a row, and the application of a
    prepared transaction. \<open>OrderRef\<close> and \<open>OrderTarget\<close> are the same \<open>order_row\<close>; an \<open>unwrap\<close> or an index
    that panics is the failure \<open>Panic\<close>, and the sequence number wraps as in a release build.

  \<^item> \<open>Wire_Registry\<close>, \<open>Wire_Fold\<close>, \<open>Observation_Round\<close>: \<^verbatim>\<open>src/observation.rs\<close>. The registry keeps,
    per venue order of a ledger (a wire), its member orders, the executions it holds and what is known
    of its remaining quantity. \<open>Wire_Registry\<close> has the lookups, amend lineages, user-order frames and
    the two proofs of the remaining quantity; \<open>Wire_Fold\<close> the fold of journal records, routes, working
    views and readiness; \<open>Observation_Round\<close> a backfill round from \<open>begin\<close> to \<open>apply\<close> and the rebuild of
    an order that reads observations too. Sets of ids are ascending lists; \<open>iter_mut\<close> over the map of
    wires is a map over its entries; the inventory argument of \<open>fold\<close> is unused in the code and dropped.

  \<^bold>\<open>The older API.\<close> Beside the core the crate ports a Python order management library: orders a
  user holds and sends to a broker, baskets of them, strategies of baskets, and simulated brokers.

  \<^item> \<open>Parity_Values\<close>: panics as values (\<open>attempt\<close>), \<open>i64\<close> with wrap-around, instants in nanoseconds,
    the ASCII case operations, JSON values, and the record \<open>codec\<close> of conversions that library code
    does (numbers, decimals, timestamps, nested JSON).
  \<^item> \<open>Parity_Models\<close>: \<^verbatim>\<open>models.rs\<close>, \<^verbatim>\<open>utils.rs\<close>, \<^verbatim>\<open>yes_inventory.rs\<close>. \<open>Parity_Order\<close>:
    \<^verbatim>\<open>order.rs\<close>, with the calls to a broker and to the database as a list of effects whose replies
    come from the records \<open>broker\<close> and \<open>env\<close>; \<open>Parity_Compound\<close>: \<^verbatim>\<open>compound_order.rs\<close> and
    \<^verbatim>\<open>order_strategy.rs\<close>; \<open>Parity_Broker\<close>: the default methods of \<^verbatim>\<open>broker.rs\<close> and \<open>Paper\<close> of
    \<^verbatim>\<open>brokers.rs\<close>.
  \<^item> \<open>Parity_Store\<close>: \<^verbatim>\<open>persistence.rs\<close>, the SQLite table of orders. The driver is the record
    \<open>sqlite\<close>; the hypotheses \<open>replaces_by_id\<close> and \<open>column_affinity\<close> say what SQLite documents of a
    replacing insertion and of a column's declared type, and \<open>Parity_Store_Demo\<close> has a table in
    memory that meets them.
  \<^item> \<open>Parity_Async\<close>, \<open>Parity_Async_Basket\<close>: \<^verbatim>\<open>async_compound_order.rs\<close> and
    \<^verbatim>\<open>async_order_strategy.rs\<close>, transcribed from these files (names with \<open>a\<close> in front) over the records
    of the synchronous basket and strategy. \<open>Parity_Async_Broker\<close>: the default methods of
    \<^verbatim>\<open>async_broker.rs\<close>, \<open>AsyncPaper\<close>, and the typed cancellation of the asynchronous replica.
    \<open>Parity_Gate\<close>: \<^verbatim>\<open>parity_gate.rs\<close> and the test clock of \<^verbatim>\<open>clock.rs\<close>.
  \<^item> \<open>Sim_Orders\<close>: \<^verbatim>\<open>simulation.rs\<close>. \<open>Sim_Replica\<close>: \<^verbatim>\<open>replica_broker.rs\<close>, whose shared orders are
    cells of a store and whose handles are indices of it. \<open>Sim_Virtual\<close>: \<^verbatim>\<open>virtual_broker.rs\<close>.
    \<open>Sim_Async_Replica\<close>: \<^verbatim>\<open>async_replica_broker.rs\<close> as the step relation \<open>async_step\<close>: every operation
    is cut where it releases a lock, and the pieces of all operations in flight interleave.
    \<open>Sim_Async_Locks\<close> adds the mutexes: the same pieces in programs that acquire and release the lock
    of the broker and of each order, a placement cut at its lock operations too, and callers that
    list the broker while they hold an order (\<open>locked_step\<close>).
    \<open>Sim_Async_Virtual\<close>: \<^verbatim>\<open>async_virtual_broker.rs\<close> and the outcomes of \<^verbatim>\<open>async_broker.rs\<close>; each
    call holds its lock throughout and is one step. \<open>Sim_Book\<close>: \<open>generate_orderbook\<close> and \<open>ltp_many\<close>.

  \<open>Decimal\<close> is the crate \<^verbatim>\<open>rust_decimal\<close>, not under \<^verbatim>\<open>src/\<close>: its addition, subtraction,
  multiplication and division are operations of \<open>codec\<close> that may round and may panic, and what is
  used of its documentation is the hypothesis \<open>exact_decimals\<close> of C37 (a result that fits is exact). An
  \<open>f64\<close> of the simulation is an element of an ordered field, exact where the code rounds beyond 15
  digits; NaN is excluded. The clock is read once per operation. The random
  generator, fresh identifiers and the replies of a broker are arguments. A \<open>HashMap\<close> whose order of
  iteration can show is an association list.

  A method on \<^verbatim>\<open>&mut ctx\<close> returns the new context beside its result; a \<open>Result\<close> is a sum with the
  error on the left; a panic does not occur in \<^verbatim>\<open>src/lifecycle.rs\<close>. All functions are total, so no
  fuel is needed and termination is established by the definitions; that operations in flight of the
  asynchronous replica never block each other for good and come to an end in every schedule is C40,
  by the lock discipline and a measure on the lock steps left.

  \<^bold>\<open>The library.\<close> Most properties relate a context, the effects emitted and the context after.
  The locale \<open>transition_contract\<close> (\<open>Contract\<close>) states what such a relation must satisfy at each
  primitive mutation; the walk through all handlers is done once inside it (\<open>Contract_Walk\<close>,
  \<open>Event_Contract\<close>), and its extension \<open>stable_contract\<close> (\<open>Replay_Contract\<close>, \<open>Order_Run\<close>) carries
  the relation over \<open>replay\<close> and over \<open>order_run\<close>, the step relation of an order's life in which
  rejected events are skipped. The interpretations are the development's results:
  \<open>Monotone\<close> (what no event takes back), \<open>Ctx_Invariant\<close> (totals, obligation, ownership, and the
  incremental response domain equal to its recomputation), \<open>Accounting\<close> (exactly-once accounting and
  write-ahead order), \<open>Fold_Refinement\<close> (the journal fold simulates memory). \<open>Booking\<close> is the abstract
  specification of fill booking and the proof that the code implements it. \<open>Release_Safety\<close>,
  \<open>Reservation\<close> and \<open>Terminal_Totals\<close> hold the shape of outcomes, the reservation along a run and what a
  terminal state guarantees; \<open>Bound_Identity\<close> ties the venue id of the state to the bound parent;
  \<open>Fold_Replay\<close> lifts the fold refinement to replays; \<open>Fill_Laws\<close> and \<open>Submission_Laws\<close> hold the laws a
  client of booking, submission and cancellation relies on; \<open>Domain_Run\<close> carries the response domain
  over a run without a halt. \<open>Machine_Range\<close> shows that the numbers the context of an order holds stay
  in their Rust types. This theory states the properties of one order.

  \<open>Ledger_Run\<close> puts the parts together: \<open>ledger_run\<close> is the step relation of a ledger in which the
  shell prepares and applies order events, execution batches, evidence without a row, observation
  rounds and proofs of the remaining quantity in any interleaving, folds every record into the wire
  registry, and appends notes of its own and records of other ledgers. \<open>Batch_Plan\<close> shows what every
  prepared transaction promises about its writes (locale \<open>adjudication\<close>, interpreted for a foreign row
  and for a row of the ledger), \<open>Inventory_Rebuild\<close> that replaying its record writes the same,
  \<open>Fill_Scope\<close> that an event books only the fills it carries, \<open>Batch_Row\<close> what a batch does to the row,
  \<open>Observation_Laws\<close> what an observation does to its members. \<open>Ledger_Laws\<close> and \<open>Order_Rebuild\<close> hold
  the invariants of a run, \<open>Commit_Laws\<close> and \<open>Delivery\<close> progress and the net position.
  \<open>Registry_Laws\<close> has the locale \<open>wire_invariant\<close>: what every change of a wire keeps holds of the
  ledger's wires along a run; it is interpreted for the members being apart and for the covered
  executions being held. \<open>Registry_Run\<close> shows that the registry is the fold of the journal, that it
  never refuses a record and that wires hold what the inventory places on them;
  \<open>Observation_Progress\<close> that rounds apply, what a clean round achieves and when an observation
  releases. \<open>Ledger_Demo\<close> and \<open>Observation_Demo\<close> are runs for the witnesses. \<open>Ledger_Properties\<close> and
  \<open>Observation_Properties\<close> state the properties of the ledger (C17 to C30).

  \<open>Parity_Order_Laws\<close> has the laws of one order along a run: fills as a running maximum, and the
  automaton \<open>protocol\<close> of the calls a broker sees and the order they name. \<open>Parity_Row\<close> shows what a row loses and keeps,
  \<open>Parity_Basket\<close> the index of a basket. \<open>Parity_Compound_Laws\<close> has the locale \<open>accumulator\<close> (adding
  into a map entry by entry sums per key), interpreted on the aggregates of a basket
  in exact arithmetic, and \<open>Parity_Decimal\<close> proves that the code's aggregates over \<open>Decimal\<close> refine
  them while the numbers fit (\<open>money_fits\<close>); \<open>Parity_Broker\<close> the locale \<open>fresh_broker\<close> (identifiers never repeat), interpreted on \<open>Paper\<close>.
  \<open>Sim_Async_Replica\<close> proves the invariant of the interleaving, \<open>Sim_Async_Locks\<close> the lock discipline,
  that no state is a deadlock and the bound of a schedule,
  \<open>Sim_Async_Virtual\<close>, \<open>Parity_Async\<close>, \<open>Parity_Async_Basket\<close> and \<open>Parity_Async_Broker\<close> that the
  asynchronous operations do what the synchronous ones do, \<open>Parity_Store\<close> what a column gives back of
  what it was given, and \<open>Sim_Book\<close> the levels of a generated book. \<open>Parity_Facts\<close> collects
  behaviours in which the code differs from its documentation or its sibling; \<open>Parity_Properties\<close>
  states the properties (C31 to C40).

  \<^bold>\<open>What the crash-rebuild theorem says and excludes.\<close> The fold follows memory up to a latch it may
  have dropped (\<open>snapshot_drops_latch\<close> shows it happens; releasing needs the latch, so losing it only
  delays a release), for events
  other than the two user-order claims, which note a venue remaining without a record
  (\<open>resting_claim_not_rebuilt\<close>).

  \<^bold>\<open>Not modelled.\<close> Derived serialisation and \<open>Debug\<close> output; SQLite and the random generators
  themselves, which are arguments; the structs of \<^verbatim>\<open>simulation.rs\<close> that only carry data, and the
  volume and book a ticker stores and never reads; builder setters and field getters, which are the
  updates and selectors of the records; the module declarations of \<^verbatim>\<open>lib.rs\<close> and the test programs.
  Text fields are kept where the core builds them from the event or the context.
\<close>

section \<open>A run used by the witnesses\<close>

definition demo_cid :: client_order_id where "demo_cid = ClientOrderId ''m|s|1''"
definition demo_venue :: venue_order_id where "demo_venue = VenueOrderId ''v''"
definition demo_ctx :: order_ctx where "demo_ctx = order_ctx_new demo_cid ''m'' ''s'' BuyYes 50 10"

text \<open>Authority latched while four of ten contracts are known filled and none is attributed.\<close>

definition lagging_ctx :: order_ctx where
  "lagging_ctx = demo_ctx\<lparr>venue_order_id_of := Some demo_venue, fill_obligation := 4,
    authority_complete := True\<rparr>"

definition demo_events :: "order_event list" where
  "demo_events =
     [Ev_PrepareSubmit, Ev_StartSubmit (AttemptId ''a''),
      Ev_SubmitResponse demo_venue 0 10 None None None,
      Ev_Fill (FillId ''f'') 4 50 7 (Some demo_venue) None,
      Ev_CancelRequested,
      Ev_CancelOutcome CO_Canceled,
      Ev_ReconcileResult BS_Canceled None 4 0 [] True]"

text \<open>A response that reports four filled contracts up to its time, the fill of them, a later fill.\<close>

definition domain_events :: "order_event list" where
  "domain_events =
     [Ev_PrepareSubmit, Ev_StartSubmit (AttemptId ''a''),
      Ev_SubmitResponse demo_venue 4 6 None None (Some (TsNs 7)),
      Ev_Fill (FillId ''f'') 4 50 7 (Some demo_venue) None,
      Ev_Fill (FillId ''g'') 2 50 8 (Some demo_venue) None]"

lemmas demo_defs = demo_cid_def demo_venue_def demo_ctx_def demo_events_def order_ctx_new_def


lemmas run_eval = replay_def apply_event_def on_open_state_def on_new_def on_submit_prepared_def
  on_submit_started_def on_immediate_fill_def on_live_def accept_def halt_with_reason_def
  apply_submit_response_def submit_response_fills_def set_response_snapshot_def obligation_records_def
  bind_venue_id_def note_venue_remaining_def push_journal_def recompute_response_domain_def
  raise_fill_obligation_def invalidate_authority_def apply_immediate_fill_backfill_def
  resolve_domain_check_def resolve_price_check_def fee_cross_check_mismatch_def carry_avg_fee_def
  route_live_or_filled_def apply_fill_while_open_def try_account_fill_record_def try_account_fill_def
  try_account_fill_owned_def account_fill_core_def first_sighting_gate_def account_new_fill_def
  book_fill_def settle_booked_fill_def fee_or_zero_def accumulate_response_domain_def
  fill_in_response_domain_def response_domain_overfill_detail_def has_reliable_boundary_def
  remaining_qty_checked_def int_ops sat_add_u128_def u64_max_def u128_max_def

lemma demo_run:
  "order_run St_New demo_ctx (rr_state (replay St_New demo_ctx demo_events))
    (rr_ctx (replay St_New demo_ctx demo_events)) (rr_effects (replay St_New demo_ctx demo_events))"
  by (rule replay_is_run)


section \<open>Properties\<close>

text \<open>C1. Crash rebuild. For a fresh order and any events without a user-order claim, folding the
  durable records the replay emitted gives the context the replay ended in, up to an authority latch
  the fold may have dropped; the fold can refuse only when the replay halted.\<close>

theorem rebuild_follows_replay:
  assumes "claim_free evs"
  shows "fold_agrees (order_ctx_new cid market strategy side price qty)
    (replay St_New (order_ctx_new cid market strategy side price qty) evs)"
  unfolding replay_def
  by (rule replay_folds) (use assms in \<open>simp_all add: folds_unchanged\<close>)

theorem rebuild_follows_replay_witness:
  "fold_agrees (order_ctx_new demo_cid ''m'' ''s'' BuyYes 50 10)
    (replay St_New (order_ctx_new demo_cid ''m'' ''s'' BuyYes 50 10) demo_events)"
  by (rule rebuild_follows_replay) (simp add: claim_free_def demo_events_def)

text \<open>C2. Exactly-once accounting. Along every replay from every state and context, the accounting
  effects carry exactly the quantity and fees the context gained, and every new fill is accounted
  once: no id twice, none that was already applied, none missing.\<close>

theorem accounting_exactly_once:
  "booked c (rr_effects (replay st c evs)) (rr_ctx (replay st c evs))"
  using accounting.replay_effects [of c st evs] by (simp add: accounted_def)

text \<open>C3. Write-ahead. Every accounting effect of a replay comes right after the durable record
  with the same fill, quantity, price, time and fee.\<close>

theorem accounting_write_ahead:
  "write_ahead None (rr_effects (replay st c evs))"
  using accounting.replay_effects [of c st evs] by (simp add: accounted_def)

text \<open>C4. Release safety. When an event releases the reservation, the order was open, the release
  is the last effect right after its durable terminal record, and the context has the evidence:
  fresh authority, attribution equal to the obligation, every fill owned by the parent, the
  response snapshot met, and for a filled order the whole quantity.\<close>

theorem release_has_evidence:
  assumes "apply_event st c ev = (c1, t)" and "ReleaseReservation \<in> set (outcome_effects t)"
  shows "\<not> is_restart_frozen st \<and> (\<exists>st1 es. t = Accept st1 es \<and> releases_with c1 st1 es)"
  by (rule release_evidence [OF assms])

theorem release_has_evidence_witness:
  "releases_with (latch_authority_complete (note_venue_remaining
      (demo_ctx\<lparr>venue_order_id_of := Some demo_venue\<rparr>) 0)) St_Canceled
    [AppendFsync (J_AuthorityLatched 0),
     AppendFsync (J_OrderTerminal TK_Canceled (Some demo_venue) 0 True 0 0 0), ReleaseReservation]"
proof -
  let ?c = "demo_ctx\<lparr>venue_order_id_of := Some demo_venue\<rparr>"
  let ?c1 = "latch_authority_complete (note_venue_remaining ?c 0)"
  let ?es = "[AppendFsync (J_AuthorityLatched 0),
     AppendFsync (J_OrderTerminal TK_Canceled (Some demo_venue) 0 True 0 0 0), ReleaseReservation]"
  have "apply_event (St_Accepted demo_venue) ?c (Ev_UserOrderTerminalClaim demo_venue 0 False)
      = (?c1, Accept St_Canceled ?es)"
    by (simp add: apply_event_def on_open_state_def on_live_def user_order_terminal_claim_def
        note_authority_complete_def latch_authority_complete_def note_venue_remaining_def
        try_finalize_terminal_def ownership_gate_def authority_is_fresh_def response_domain_gate_def
        release_terminal_def push_journal_def accept_def demo_defs)
  from release_has_evidence [OF this] show ?thesis by simp
qed

text \<open>C5. The reservation. Along every run from an open order the reservation folded from the
  effects is the one the state stands for, except in a closed submission: the code counts that state
  as released while no effect said so, and the fold still holds in full. There is at most one
  release, and none while the order is open.\<close>

theorem run_reservation_tracked:
  assumes "order_run s0 c0 st c es" and "\<not> is_restart_frozen s0"
  shows "reservation_tracked st es"
  by (rule run_reservation [OF assms])

theorem run_reservation_tracked_witness:
  "reservation_tracked (rr_state (replay St_New demo_ctx demo_events))
    (rr_effects (replay St_New demo_ctx demo_events))"
  by (rule run_reservation_tracked [OF demo_run]) simp

text \<open>C6. Outcomes of an open order. A terminal state comes with the release and its evidence, a
  halt ends with its durable record and the order to stop new exposure, and every other accepted
  outcome carries no release, no reservation, no halt and no terminal record.\<close>

theorem open_outcome_settled: "settled (on_open_state st c ev)"
  by (rule open_settled)

text \<open>C7. Frozen orders stay frozen. No run from a terminal, halted or closed order ever reaches an
  open state again or releases the reservation.\<close>

theorem frozen_for_good:
  assumes "order_run s0 c0 st c es" and "is_restart_frozen s0"
  shows "is_restart_frozen st \<and> ReleaseReservation \<notin> set es"
  by (rule run_frozen [OF assms])

theorem frozen_for_good_witness:
  "is_restart_frozen (rr_state (replay St_Filled demo_ctx demo_events))
    \<and> ReleaseReservation \<notin> set (rr_effects (replay St_Filled demo_ctx demo_events))"
  by (rule frozen_for_good [OF replay_is_run]) simp



text \<open>C9. Totals. In every context a run of a fresh order reaches, quantity, fee and notional are
  the sums over the applied fills, attribution is within the obligation and the obligation within
  the order, a latch belongs to the current epoch and no fill belongs to another parent.\<close>

theorem run_totals:
  assumes "order_run St_New (order_ctx_new cid market strategy side price qty) st c es"
  shows "ledger_ok c"
  using ledger.run [OF assms] new_mem_ok [of cid market strategy side price qty]
  by (simp add: keeps_ledger_def mem_ok_def)

theorem run_totals_witness: "ledger_ok (rr_ctx (replay St_New demo_ctx demo_events))"
  using run_totals [OF demo_run [unfolded demo_ctx_def]] by (simp add: demo_ctx_def)

text \<open>C10. Identity. In every run of a fresh order an open state carries exactly the parent bound
  on the context, and a closed submission has a context without any evidence of an order.\<close>

theorem run_identity_agrees:
  assumes "order_run St_New (order_ctx_new cid market strategy side price qty) st c es"
  shows "same_identity st c"
  by (rule run_identity [OF assms]) (simp add: same_identity_def order_ctx_new_def)

theorem run_identity_agrees_witness:
  "same_identity (rr_state (replay St_New demo_ctx demo_events))
    (rr_ctx (replay St_New demo_ctx demo_events))"
  using run_identity_agrees [OF demo_run [unfolded demo_ctx_def]] by (simp add: demo_ctx_def)

text \<open>C11. Nothing is taken back. Along every run the identity of the order and a bound parent are
  fixed, attribution, obligation, fees and the authority epoch never decrease, and applied fills
  keep their terms and only gain metadata.\<close>

theorem run_monotone:
  assumes "order_run s0 c0 st c es" shows "ctx_step c0 c"
  by (rule monotone.run [OF assms])

theorem run_monotone_witness: "ctx_step demo_ctx (rr_ctx (replay St_New demo_ctx demo_events))"
  by (rule run_monotone [OF demo_run])

text \<open>C12. The incremental response domain. In every context that a run of a new order reaches
  without an event that halts, the response-snapshot domain kept fill by fill is what a recomputation
  from the applied fills gives. A halt may leave the domain behind.\<close>

theorem domain_is_recomputation:
  assumes "order_run St_New (order_ctx_new cid market strategy side price qty) st c es"
    and "HaltNewExposure \<notin> set es"
  shows "recompute_response_domain c = c"
proof -
  have "ledger_ok (order_ctx_new cid market strategy side price qty)"
    using new_mem_ok [of cid market strategy side price qty] by (simp add: mem_ok_def)
  from run_domain [OF assms this new_domain_ok] show ?thesis
    by (intro domain_sums_fix) (simp add: domain_ok_def)
qed

theorem domain_is_recomputation_witness:
  "\<exists>c. c = rr_ctx (replay St_New demo_ctx domain_events) \<and> recompute_response_domain c = c
    \<and> response_domain_qty c = 4 \<and> attributed_fill_qty c = 6"
proof -
  let ?r = "replay St_New demo_ctx domain_events"
  have run: "order_run St_New (order_ctx_new demo_cid ''m'' ''s'' BuyYes 50 10) (rr_state ?r) (rr_ctx ?r)
      (rr_effects ?r)"
    using replay_is_run [of St_New demo_ctx domain_events] by (simp add: demo_ctx_def)
  have "HaltNewExposure \<notin> set (rr_effects ?r)"
    and qty: "response_domain_qty (rr_ctx ?r) = 4 \<and> attributed_fill_qty (rr_ctx ?r) = 6"
    by (simp_all add: run_eval domain_events_def demo_defs)
  with domain_is_recomputation [OF run] qty show ?thesis by blast
qed

text \<open>C13. Booking a new fill. A fill not yet applied, owned by the bound parent and within the
  order, is booked as specified: totals, obligation, stale authority and the records of it; only a
  response domain beyond the response's own count turns the booking into a halt.\<close>

theorem new_fill_booked:
  assumes "bt_get (applied_fills c) fid = None"
    and "venue_order_id_of c = None \<or> fv = venue_order_id_of c"
    and "attributed_fill_qty c + q \<le> order_qty c" and "attributed_fill_qty c + q \<le> u64_max"
    and "attributed_fee_cents c + fee_or_zero fee \<le> u64_max"
  shows "try_account_fill c fid q p ts fv fee =
    (let c1 = booked_ctx c fid q p ts fv fee; es = booking_effects c fid q p ts fv fee
     in (c1, case response_domain_overfill_detail c1 of
               None \<Rightarrow> AA_Applied es | Some detail \<Rightarrow> AA_Halt (H_CrossCheckMismatch detail) es))"
  by (rule new_fill_spec [OF assms])

theorem new_fill_booked_witness:
  "try_account_fill demo_ctx (FillId ''f'') 4 50 7 None None =
    (booked_ctx demo_ctx (FillId ''f'') 4 50 7 None None,
     AA_Applied [AppendFsync (J_AuthorityInvalidated 1), AppendFsync (J_ObligationRaised 4 1),
       AppendFsync (J_FillCid demo_cid (FillId ''f'') 4 50 7 None None),
       AccountFill (FillId ''f'') 4 50 7 0])"
proof -
  have "response_domain_overfill_detail (booked_ctx demo_ctx (FillId ''f'') 4 50 7 None None) = None"
    by (simp add: response_domain_overfill_detail_def booked_ctx_code book_fill_def
        invalidate_authority_def demo_defs)
  moreover have "booking_effects demo_ctx (FillId ''f'') 4 50 7 None None
    = [AppendFsync (J_AuthorityInvalidated 1), AppendFsync (J_ObligationRaised 4 1),
       AppendFsync (J_FillCid demo_cid (FillId ''f'') 4 50 7 None None),
       AccountFill (FillId ''f'') 4 50 7 0]"
    by (simp add: booking_effects_def sat_add_u64_def u64_max_def fee_or_zero_def demo_defs)
  ultimately show ?thesis
    using new_fill_booked [of demo_ctx "FillId ''f''" None 4 None 50 7]
    by (simp add: fee_or_zero_def u64_max_def demo_defs)
qed

text \<open>Re-delivery is idempotent. Once a fill was applied, delivering it again changes nothing
  and accounts nothing.\<close>

theorem redelivery_idempotent:
  assumes "try_account_fill c fid q p ts fv fee = (c1, AA_Applied es)"
  shows "try_account_fill c1 fid q p ts fv fee = (c1, AA_NoOp)"
  using applied_is_booked [OF assms] booked_fill_stored by (intro redeliver_same) simp

theorem redelivery_idempotent_witness:
  "try_account_fill (booked_ctx demo_ctx (FillId ''f'') 4 50 7 None None) (FillId ''f'') 4 50 7 None None
    = (booked_ctx demo_ctx (FillId ''f'') 4 50 7 None None, AA_NoOp)"
proof -
  have "response_domain_overfill_detail (booked_ctx demo_ctx (FillId ''f'') 4 50 7 None None) = None"
    by (simp add: response_domain_overfill_detail_def booked_ctx_code book_fill_def
        invalidate_authority_def demo_defs)
  then have "try_account_fill demo_ctx (FillId ''f'') 4 50 7 None None
    = (booked_ctx demo_ctx (FillId ''f'') 4 50 7 None None,
       AA_Applied (booking_effects demo_ctx (FillId ''f'') 4 50 7 None None))"
    using new_fill_spec [of demo_ctx "FillId ''f''" None 4 None 50 7]
    by (simp add: fee_or_zero_def u64_max_def demo_defs)
  then show ?thesis by (rule redelivery_idempotent)
qed

text \<open>C14. A refused fill is atomic. When booking halts, either nothing changed and no effect is
  emitted, or the fill was booked in full with all its records and the response domain contradicts
  the response.\<close>

theorem refused_fill_atomic:
  assumes "try_account_fill c fid q p ts fv fee = (c1, AA_Halt reason es)"
  shows "(c1 = c \<and> es = [])
    \<or> (c1 = booked_ctx c fid q p ts fv fee \<and> es = booking_effects c fid q p ts fv fee
       \<and> response_domain_overfill_detail c1 \<noteq> None)"
  by (rule refused_fill [OF assms])

theorem refused_fill_atomic_witness:
  "fst (try_account_fill demo_ctx (FillId ''f'') 11 50 7 None None) = demo_ctx"
proof -
  have "try_account_fill demo_ctx (FillId ''f'') 11 50 7 None None
    = (demo_ctx, AA_Halt (H_OverFill 0 11 10) [])"
    by (simp add: try_account_fill_def try_account_fill_owned_def account_fill_core_def
        first_sighting_gate_def account_new_fill_def checked_add_u64_def u64_max_def demo_defs)
  from refused_fill_atomic [OF this] this show ?thesis by (simp add: booking_effects_def Let_def)
qed

text \<open>No overfill. A new fill that would take the attribution past the order is never booked:
  it halts and leaves the context as it was.\<close>

theorem overfill_halts:
  assumes "bt_get (applied_fills c) fid = None" and "attributed_fill_qty c + q > order_qty c"
  shows "\<exists>reason. try_account_fill c fid q p ts fv fee = (c, AA_Halt reason [])"
  by (rule overfill_refused [OF assms])

theorem overfill_halts_witness:
  "\<exists>reason. try_account_fill demo_ctx (FillId ''f'') 11 50 7 None None = (demo_ctx, AA_Halt reason [])"
  by (rule overfill_halts) (simp_all add: demo_defs)

text \<open>A rejected event leaves the context exactly as it was.\<close>

theorem reject_is_pure:
  assumes "apply_event st c ev = (c1, Reject r)" shows "c1 = c"
  by (rule reject_keeps_ctx [OF assms])

theorem reject_is_pure_witness:
  "\<exists>r. apply_event St_SubmitPrepared demo_ctx Ev_PrepareSubmit = (demo_ctx, Reject r)"
proof -
  have "apply_event St_SubmitPrepared demo_ctx Ev_PrepareSubmit
    = (fst (apply_event St_SubmitPrepared demo_ctx Ev_PrepareSubmit), Reject R_AlreadyPrepared)"
    by (simp add: apply_event_def on_open_state_def on_submit_prepared_def)
  with reject_is_pure [OF this] show ?thesis by metis
qed

text \<open>The answer to a cancel never frees the reservation. Whatever the venue answers, the
  authority is stale, so the order stays open or halts; the release waits for a reconciliation.\<close>

theorem cancel_outcome_keeps_reservation:
  "ReleaseReservation \<notin> set (outcome_effects (snd (apply_cancel_outcome c v filled remaining
     rfc ravg rfee target outcome)))"
  by (rule no_terminal_no_release [of "fst (apply_cancel_outcome c v filled remaining rfc ravg rfee
      target outcome)"]) (simp_all add: shape cancel_outcome_not_terminal)

text \<open>A page that is not exhaustive proves nothing. With any matches it leaves the context
  alone, accounts no fill, and the order stays an unknown submission or halts on a contradiction.\<close>

theorem partial_page_proves_nothing:
  assumes "apply_unknown_backfill c False matched = (c1, t)"
  shows "c1 = c \<and> account_fill_count t = 0
    \<and> (is_halt t \<or> outcome_new_state t = Some St_SubmitUnknown)"
  using partial_page_keeps [OF assms] by blast

theorem partial_page_proves_nothing_witness:
  "fst (apply_unknown_backfill demo_ctx False []) = demo_ctx"
proof -
  have "apply_unknown_backfill demo_ctx False []
    = (fst (apply_unknown_backfill demo_ctx False []), snd (apply_unknown_backfill demo_ctx False []))"
    by simp
  from partial_page_proves_nothing [OF this] show ?thesis by simp
qed

text \<open>A rebuilt context is conservative. Whatever it releases at the terminal choke point, the
  context in memory would have released with the same outcome.\<close>

theorem rebuilt_releases_less:
  assumes "rebuilt c d"
    and "ReleaseReservation \<in> set (outcome_effects (try_finalize_terminal d p v es fb))"
    and "ReleaseReservation \<notin> set es"
  shows "try_finalize_terminal d p v es fb = try_finalize_terminal c p v es fb"
  by (rule rebuilt_release [OF assms])

theorem rebuilt_releases_less_witness:
  "\<exists>c d es. rebuilt c d
    \<and> try_finalize_terminal d PT_Canceled demo_venue [] RT_Canceled = Accept St_Canceled es
    \<and> try_finalize_terminal c PT_Canceled demo_venue [] RT_Canceled = Accept St_Canceled es"
proof -
  let ?c = "latch_authority_complete demo_ctx"
  let ?es = "[AppendFsync (J_OrderTerminal TK_Canceled None 0 True 0 0 0), ReleaseReservation]"
  have run: "try_finalize_terminal ?c PT_Canceled demo_venue [] RT_Canceled = Accept St_Canceled ?es"
    by (simp add: try_finalize_terminal_def ownership_gate_def authority_is_fresh_def
        latch_authority_complete_def response_domain_gate_def release_terminal_def accept_def demo_defs)
  have "try_finalize_terminal ?c PT_Canceled demo_venue [] RT_Canceled
    = try_finalize_terminal ?c PT_Canceled demo_venue [] RT_Canceled"
    by (rule rebuilt_releases_less [of ?c]) (simp_all add: run)
  with run show ?thesis by (intro exI [of _ ?c] exI [of _ ?es]) simp
qed

text \<open>Replay composes. Replaying two event lists in a row is replaying their concatenation,
  unless the first was rejected, which ends the replay.\<close>

theorem replay_composes:
  "replay_from st c es h (xs @ ys) =
     (let r = replay_from st c es h xs
      in if rr_reject r \<noteq> None then r
         else replay_from (rr_state r) (rr_ctx r) (rr_effects r) (rr_halt r) ys)"
  by (induction xs arbitrary: st c es h)
    (auto simp: Let_def split: prod.split transition_outcome.split)

text \<open>The average price is exact. With prices in range the notional never saturates and the
  average is the true quotient: the cast to 64 bits cuts nothing.\<close>

theorem average_price_exact:
  assumes "ledger_ok c" and "list_all (\<lambda>(_, p). fp_price_cents p \<le> u64_max) (applied_fills c)"
    and "attributed_fill_qty c > 0"
  shows "attributed_avg_price_cents c
    = Some (bt_sum fill_notional (applied_fills c) div bt_sum fp_qty (applied_fills c))"
  using average_exact [OF assms(1,2)] notional_fits [OF assms(1,2)] assms(1,3)
  by (simp add: ledger_ok_def)

theorem average_price_exact_witness:
  "attributed_avg_price_cents (booked_ctx demo_ctx (FillId ''f'') 4 50 7 None None) = Some 50"
proof -
  let ?c = "booked_ctx demo_ctx (FillId ''f'') 4 50 7 None None"
  have fills: "applied_fills ?c = [(FillId ''f'', \<lparr>fp_qty = 4, fp_price_cents = 50, fp_fee = None,
      fp_venue_order_id = None, fp_ts_ns = 7\<rparr>)]" and q: "attributed_fill_qty ?c = 4"
    by (simp_all add: booked_ctx_code book_fill_def invalidate_authority_def demo_defs)
  have "keeps_ok demo_ctx ?c"
    by (rule booked_keeps) (simp_all add: fee_or_zero_def u64_max_def demo_defs)
  then have "ledger_ok ?c"
    using new_mem_ok [of demo_cid "''m''" "''s''" BuyYes 50 10]
    by (simp add: keeps_ok_def mem_ok_def demo_ctx_def)
  from average_price_exact [OF this] show ?thesis
    by (simp add: fills q u64_max_def fill_notional_def)
qed

text \<open>The response average is checked to one cent per contract: the check passes exactly when
  the attributed notional is within the fill count of average times count.\<close>

theorem average_check_tolerance:
  "notional_avg_mismatch a avg n = None \<longleftrightarrow> n = 0 \<or> \<bar>int a - int (avg * n)\<bar> \<le> int n"
  by (rule average_tolerance)

text \<open>The client order id is a recovery key. For market and strategy names without a bar,
  different orders have different ids.\<close>

theorem client_order_id_injective:
  assumes "derive_client_order_id m s n = derive_client_order_id m' s' n'"
    and "CHR ''|'' \<notin> set m" "CHR ''|'' \<notin> set s" "CHR ''|'' \<notin> set m'" "CHR ''|'' \<notin> set s'"
  shows "m = m' \<and> s = s' \<and> n = n'"
  by (rule derive_injective [OF assms])

theorem client_order_id_injective_witness:
  "\<exists>m s. derive_client_order_id m s 3 = derive_client_order_id ''m'' ''s'' 3 \<and> m = ''m'' \<and> s = ''s''"
  using client_order_id_injective [of "''m''" "''s''" 3 "''m''" "''s''" 3] by auto

text \<open>With a bar in a name it is not: two different orders share one id.\<close>

theorem client_order_id_collision:
  "derive_client_order_id ''a|b'' ''c'' n = derive_client_order_id ''a'' ''b|c'' n"
  by (simp add: derive_client_order_id_def)

text \<open>C16. Terminal totals. In every run from an order that is not terminal, a canceled, filled or
  terminal order has attributed exactly its obligation, a filled one the whole order, and no later
  event moves them while the state stays.\<close>

theorem run_terminal_agrees:
  assumes "order_run s0 c0 st c es" and "terminal_kind_of s0 = None"
  shows "terminal_totals st c"
  by (rule run_terminal_totals [OF assms(1)]) (simp add: terminal_totals_def assms(2))

theorem run_terminal_agrees_witness:
  "terminal_totals (rr_state (replay St_New demo_ctx demo_events))
    (rr_ctx (replay St_New demo_ctx demo_events))"
  by (rule run_terminal_agrees [OF demo_run]) simp

text \<open>C15. The submission is logged first. The effects of every run of a new order start with its
  durable prepared record, then its durable started record; no other effect comes before them, and
  until both are out the order keeps the context it was created with.\<close>

theorem run_logs_submission_first:
  assumes "order_run St_New c0 st c es"
  shows "submit_logged (client_order_id_of c0) st es \<and> (length es < 2 \<longrightarrow> c = c0)"
  by (rule run_submit_logged [OF assms])

theorem run_logs_submission_first_witness:
  "submit_logged demo_cid (rr_state (replay St_New demo_ctx demo_events))
    (rr_effects (replay St_New demo_ctx demo_events))"
  using run_logs_submission_first [OF demo_run] by (simp add: demo_ctx_def order_ctx_new_def)

text \<open>A snapshot can cost the rebuilt context its latch. Memory latched its authority while the
  attribution lags the obligation; a later snapshot without complete authority leaves that latch in
  memory, and the fold of the same records drops it.\<close>

theorem snapshot_drops_latch:
  "\<exists>c1 es d. observe_snapshot lagging_ctx demo_venue 4 6 0 4 = Inr (c1, es)
    \<and> rebuild_ctx_from_journal lagging_ctx (journal_of es) = Inr d
    \<and> authority_is_fresh c1 \<and> \<not> authority_is_fresh d"
  by (simp add: lagging_ctx_def observe_snapshot_def bind_venue_id_def note_venue_remaining_def
      note_fill_evidence_def raise_fill_obligation_def push_journal_def fold_observed_def
      bind_only_def backfill_member_quantities_def restore_fill_obligation_def authority_is_fresh_def
      int_ops demo_defs)

text \<open>A resting claim is not rebuilt. The claim notes the venue's remaining quantity in memory
  without a record of it, so the rebuilt context does not know it.\<close>

theorem resting_claim_not_rebuilt:
  "\<exists>c1 es d. apply_event St_SubmitUnknown demo_ctx (Ev_UserOrderRestingClaim demo_venue 10)
      = (c1, Accept (St_Accepted demo_venue) es)
    \<and> rebuild_ctx_from_journal demo_ctx (journal_of es) = Inr d
    \<and> last_venue_remaining_qty c1 = Some 10 \<and> last_venue_remaining_qty d = None"
  by (simp add: apply_event_def on_open_state_def on_submit_unknown_def resting_claim_def
      bind_venue_id_def note_venue_remaining_def push_journal_def accept_def bind_only_def demo_defs)

end
